(* ===== verification/JsPrelude.thy ===== *)
theory JsPrelude
  imports Main "HOL-Library.AList" "HOL-Library.Sublist" "HOL-Library.Multiset"
begin

text \<open>
  Shared vocabulary of the development: the fragment of the JavaScript language and
  standard library the modelled TypeScript uses, and the lemmas about it that the
  components share.

  \<^item> A string is the list of its UTF-16 code units, as in the language.  Source literals are
    written \<open>js ''...''\<close>.
  \<^item> \<open>trim\<close>, \<open>split\<close> on one character, \<open>join\<close>, \<open>includes\<close>, \<open>startsWith\<close>, \<open>slice\<close>.
  \<^item> \<open>[...new Set(xs)]\<close> is \<open>uniq xs\<close>; a \<open>Map\<close>, which iterates in insertion order and keeps
    the position of a key that is set again, is an association list under
    \<open>AList.update\<close> and \<open>map_of\<close>.
  \<^item> \<open>Array.prototype.sort\<close> with a comparator is \<open>js_sort\<close>, a stable sort; what the language
    asks of a comparator is the locale \<open>js_comparator\<close>.
  \<^item> The falsy-or operator on numbers is \<open>or_else\<close>, on optional strings \<open>or_str\<close>.
\<close>

named_theorems js_lit \<open>rules that evaluate string operations on literals\<close>
named_theorems js_eval \<open>definitions of the model, for evaluation on concrete inputs\<close>

section \<open>Strings as code units\<close>

type_synonym jsstring = "nat list"

primrec js :: "string \<Rightarrow> jsstring" where
  "js [] = []"
| "js (c # cs) = of_char c # js cs"

declare js.simps(2) [simp del]
declare js.simps(2) [js_lit] sublist_code [js_lit]

lemma js_inject [simp]: "js s = js t \<longleftrightarrow> s = t"
proof (induction s arbitrary: t)
  case Nil
  show ?case by (cases t) (auto simp: js.simps)
next
  case (Cons c s)
  then show ?case by (cases t) (auto simp: js.simps)
qed

lemma js_eq_Nil [simp]: "js s = [] \<longleftrightarrow> s = []" "[] = js s \<longleftrightarrow> s = []"
  by (cases s; simp add: js.simps)+

lemma js_append: "js (s @ t) = js s @ js t"
  by (induction s) (simp_all add: js.simps)

lemma length_js [simp]: "length (js s) = length s"
  by (induction s) (simp_all add: js.simps)

lemma prefix_js [simp]: "prefix (js s) (js t) \<longleftrightarrow> prefix s t"
proof (induction s arbitrary: t)
  case (Cons c s)
  then show ?case by (cases t) (auto simp: js.simps)
qed simp

lemma sublist_js [simp]: "sublist (js s) (js t) \<longleftrightarrow> sublist s t"
proof (induction t)
  case Nil
  show ?case by (cases s) (auto simp: js.simps)
next
  case (Cons c t)
  have "prefix (js s) (js (c # t)) \<longleftrightarrow> prefix s (c # t)"
    by (rule prefix_js)
  with Cons show ?case
    by (simp add: js.simps sublist_Cons_right)
qed

definition startsWith :: "jsstring \<Rightarrow> jsstring \<Rightarrow> bool" where
  "startsWith s p = prefix p s"

definition str_includes :: "jsstring \<Rightarrow> jsstring \<Rightarrow> bool" where
  "str_includes s p = sublist p s"

definition substring_from :: "jsstring \<Rightarrow> nat \<Rightarrow> jsstring" where
  "substring_from s i = drop i s"

definition substring :: "jsstring \<Rightarrow> nat \<Rightarrow> nat \<Rightarrow> jsstring" where
  "substring s i j = take (j - i) (drop i s)"

lemma startsWith_js [simp]: "startsWith (js s) (js p) \<longleftrightarrow> prefix p s"
  by (simp add: startsWith_def)

lemma str_includes_js [simp]: "str_includes (js s) (js p) \<longleftrightarrow> sublist p s"
  by (simp add: str_includes_def)

lemma str_includes_self_append [simp]: "str_includes (s @ p @ t) p"
  by (auto simp: str_includes_def sublist_def)

lemma startsWith_append [simp]: "startsWith (p @ s) p"
  by (simp add: startsWith_def)

section \<open>White space and trimming\<close>

text \<open>White space and line terminators of the language: what \<open>trim\<close> removes and \<open>\s\<close> matches.\<close>

definition is_ws :: "nat \<Rightarrow> bool" where
  "is_ws c \<longleftrightarrow> c \<in> {9, 10, 11, 12, 13, 32, 160, 5760} \<or> 8192 \<le> c \<and> c \<le> 8202 \<or>
     c \<in> {8232, 8233, 8239, 8287, 12288, 65279}"

definition trim :: "jsstring \<Rightarrow> jsstring" where
  "trim s = rev (dropWhile is_ws (rev (dropWhile is_ws s)))"

lemma is_ws_ascii [simp]:
  "is_ws 32" "is_ws 10" "\<not> is_ws 34" "\<not> is_ws 40" "\<not> is_ws 41" "\<not> is_ws 44" "\<not> is_ws 45" "\<not> is_ws 47"
  "\<not> is_ws 60" "\<not> is_ws 62" "\<not> is_ws 91" "\<not> is_ws 93" "\<not> is_ws 123" "\<not> is_ws 125"
  by (simp_all add: is_ws_def)

lemma trim_Nil [simp]: "trim [] = []"
  by (simp add: trim_def)

lemma trim_eq_Nil: "trim s = [] \<longleftrightarrow> (\<forall>c \<in> set s. is_ws c)"
proof
  assume "trim s = []"
  then have "\<forall>c \<in> set (dropWhile is_ws s). is_ws c"
    by (simp add: trim_def dropWhile_eq_Nil_conv)
  then have "dropWhile is_ws s = []"
    by (cases "dropWhile is_ws s") (auto simp: dropWhile_eq_Cons_conv)
  then show "\<forall>c \<in> set s. is_ws c" by (simp add: dropWhile_eq_Nil_conv)
next
  assume "\<forall>c \<in> set s. is_ws c"
  then have "dropWhile is_ws s = []" by (simp add: dropWhile_eq_Nil_conv)
  then show "trim s = []" unfolding trim_def by (simp del: dropWhile_eq_Nil_conv)
qed

lemma dropWhile_none: "\<forall>c \<in> set s. \<not> P c \<Longrightarrow> dropWhile P s = s"
  by (cases s) auto

lemma trim_id: "\<forall>c \<in> set s. \<not> is_ws c \<Longrightarrow> trim s = s"
  by (simp add: trim_def dropWhile_none)

lemma is_ws_of_char [js_lit]:
  "is_ws (of_char c) \<longleftrightarrow> c \<in> {CHR 0x09, CHR 0x0A, CHR 0x0B, CHR 0x0C, CHR 0x0D, CHR 0x20, CHR 0xA0}"
proof -
  have n: "of_char c = (of_char d :: nat) \<longleftrightarrow> c = d" for d by simp
  have b: "of_char c < (256 :: nat)" by (rule nat_of_char_less_256)
  then have "of_char c \<noteq> (5760 :: nat)" "\<not> 8192 \<le> (of_char c :: nat)"
    "of_char c \<noteq> (8232 :: nat)" "of_char c \<noteq> (8233 :: nat)" "of_char c \<noteq> (8239 :: nat)"
    "of_char c \<noteq> (8287 :: nat)" "of_char c \<noteq> (12288 :: nat)" "of_char c \<noteq> (65279 :: nat)"
    by linarith+
  then show ?thesis
    using n [of "CHR 0x09"] n [of "CHR 0x0A"] n [of "CHR 0x0B"] n [of "CHR 0x0C"] n [of "CHR 0x0D"]
      n [of "CHR 0x20"] n [of "CHR 0xA0"]
    by (simp add: is_ws_def)
qed

lemma trim_js: "list_all (\<lambda>c. \<not> is_ws (of_char c)) s \<Longrightarrow> trim (js s) = js s"
proof (rule trim_id)
  show "list_all (\<lambda>c. \<not> is_ws (of_char c)) s \<Longrightarrow> \<forall>c \<in> set (js s). \<not> is_ws c"
    by (induction s) (auto simp: js.simps)
qed

lemma dropWhile_rev_dropWhile:
  "dropWhile P (rev (dropWhile P (rev (dropWhile P s)))) = rev (dropWhile P (rev (dropWhile P s)))"
proof (cases "rev (dropWhile P (rev (dropWhile P s)))")
  case (Cons a t)
  let ?d = "dropWhile P s"
  have ne: "?d \<noteq> []" using Cons by (auto simp del: dropWhile_eq_Nil_conv)
  have "rev (dropWhile P (rev ?d)) = a # t" by (rule Cons)
  then have "\<exists>u. ?d = (a # t) @ u"
    by (metis rev_append rev_rev_ident takeWhile_dropWhile_id)
  then have "hd ?d = a" by auto
  moreover have "\<not> P (hd ?d)" using ne by (rule hd_dropWhile)
  ultimately show ?thesis using Cons by simp
qed (simp del: dropWhile_eq_Nil_conv)

lemma trim_trim [simp]: "trim (trim s) = trim s"
proof -
  have "dropWhile is_ws (trim s) = trim s"
    unfolding trim_def by (rule dropWhile_rev_dropWhile)
  then show ?thesis
    by (simp add: trim_def)
qed

lemma set_trim_subset: "set (trim s) \<subseteq> set s"
  by (auto simp: trim_def dest!: set_dropWhileD)

section \<open>Splitting and joining\<close>

fun split_on :: "'a \<Rightarrow> 'a list \<Rightarrow> 'a list list" where
  "split_on c [] = [[]]"
| "split_on c (x # xs) =
     (if x = c then [] # split_on c xs
      else (case split_on c xs of [] \<Rightarrow> [[x]] | y # ys \<Rightarrow> (x # y) # ys))"

fun join :: "'a list \<Rightarrow> 'a list list \<Rightarrow> 'a list" where
  "join sep [] = []"
| "join sep [x] = x"
| "join sep (x # y # ys) = x @ sep @ join sep (y # ys)"

lemma split_on_ne [simp]: "split_on c s \<noteq> []"
  by (induction s) (auto split: list.splits)

lemma split_on_notin: "c \<notin> set s \<Longrightarrow> split_on c s = [s]"
  by (induction s) auto

lemma split_on_append: "c \<notin> set s \<Longrightarrow> split_on c (s @ c # t) = s # split_on c t"
  by (induction s) auto

lemma split_on_join:
  "xs \<noteq> [] \<Longrightarrow> \<forall>x \<in> set xs. c \<notin> set x \<Longrightarrow> split_on c (join [c] xs) = xs"
  by (induction "[c]" xs rule: join.induct) (auto simp: split_on_notin split_on_append)

lemma join_split_on: "join [c] (split_on c s) = s"
proof (induction s)
  case (Cons x s)
  then obtain y ys where y: "split_on c s = y # ys" by (metis neq_Nil_conv split_on_ne)
  with Cons show ?case by (cases ys) auto
qed simp

lemma split_on_set: "p \<in> set (split_on c s) \<Longrightarrow> c \<notin> set p \<and> set p \<subseteq> set s"
proof (induction s arbitrary: p)
  case (Cons x s)
  then show ?case by (fastforce split: if_splits list.splits)
qed simp

lemma set_join: "set (join sep xs) \<subseteq> (\<Union>x \<in> set xs. set x) \<union> set sep"
  by (induction sep xs rule: join.induct) auto

lemma join_eq_Nil: "sep \<noteq> [] \<Longrightarrow> join sep xs = [] \<longleftrightarrow> xs = [] \<or> xs = [[]]"
  by (induction sep xs rule: join.induct) auto

section \<open>Sets as duplicate-free lists\<close>

text \<open>\<open>[...new Set(xs)]\<close>: the first occurrence of every element, in order.\<close>

definition uniq :: "'a list \<Rightarrow> 'a list" where
  "uniq xs = rev (remdups (rev xs))"

lemma uniq_Nil [simp]: "uniq [] = []"
  by (simp add: uniq_def)

lemma set_uniq [simp]: "set (uniq xs) = set xs"
  by (simp add: uniq_def)

lemma distinct_uniq [simp]: "distinct (uniq xs)"
  by (simp add: uniq_def)

lemma uniq_id: "distinct xs \<Longrightarrow> uniq xs = xs"
  by (simp add: uniq_def distinct_remdups_id)

lemma uniq_uniq [simp]: "uniq (uniq xs) = uniq xs"
  by (simp add: uniq_id)

lemma uniq_snoc: "uniq (xs @ [x]) = (if x \<in> set xs then uniq xs else uniq xs @ [x])"
  by (simp add: uniq_def)

section \<open>Falsy-or\<close>

text \<open>\<open>a || b\<close> on numbers that are not NaN, and on an optional string: zero, the missing
  value and the empty string are falsy.\<close>

definition or_else :: "int \<Rightarrow> int \<Rightarrow> int" where
  "or_else a b = (if a = 0 then b else a)"

definition or_str :: "jsstring option \<Rightarrow> jsstring \<Rightarrow> jsstring" where
  "or_str s d = (case s of None \<Rightarrow> d | Some t \<Rightarrow> if t = [] then d else t)"

lemma or_str_simps [simp]:
  "or_str None d = d" "or_str (Some []) d = d" "t \<noteq> [] \<Longrightarrow> or_str (Some t) d = t"
  by (simp_all add: or_str_def)

lemma or_str_ne: "d \<noteq> [] \<Longrightarrow> or_str s d \<noteq> []"
  by (simp add: or_str_def split: option.splits)

section \<open>Sorting with a comparator\<close>

fun js_insert :: "('a \<Rightarrow> 'a \<Rightarrow> int) \<Rightarrow> 'a \<Rightarrow> 'a list \<Rightarrow> 'a list" where
  "js_insert cmp x [] = [x]"
| "js_insert cmp x (y # ys) = (if cmp x y \<le> 0 then x # y # ys else y # js_insert cmp x ys)"

fun js_sort :: "('a \<Rightarrow> 'a \<Rightarrow> int) \<Rightarrow> 'a list \<Rightarrow> 'a list" where
  "js_sort cmp [] = []"
| "js_sort cmp (x # xs) = js_insert cmp x (js_sort cmp xs)"

lemma mset_js_insert: "mset (js_insert cmp x xs) = add_mset x (mset xs)"
  by (induction xs) auto

lemma mset_js_sort [simp]: "mset (js_sort cmp xs) = mset xs"
  by (induction xs) (auto simp: mset_js_insert)

lemma set_js_sort [simp]: "set (js_sort cmp xs) = set xs"
  by (metis mset_js_sort set_mset_mset)

lemma set_js_insert [simp]: "set (js_insert cmp x xs) = insert x (set xs)"
  by (induction xs) auto

lemma length_js_sort [simp]: "length (js_sort cmp xs) = length xs"
  by (metis mset_js_sort size_mset)

lemma distinct_js_sort [simp]: "distinct (js_sort cmp xs) = distinct xs"
  by (metis mset_js_sort mset_eq_imp_distinct_iff)

lemma js_sort_eq_Nil [simp]: "js_sort cmp xs = [] \<longleftrightarrow> xs = []"
  by (metis length_0_conv length_js_sort)

locale js_comparator =
  fixes cmp :: "'a \<Rightarrow> 'a \<Rightarrow> int"
  assumes cmp_sym: "cmp x y \<le> 0 \<longleftrightarrow> 0 \<le> cmp y x"
    and cmp_trans: "cmp x y \<le> 0 \<Longrightarrow> cmp y z \<le> 0 \<Longrightarrow> cmp x z \<le> 0"
begin

lemma cmp_total: "cmp x y \<le> 0 \<or> cmp y x \<le> 0"
  using cmp_sym [of x y] by linarith

lemma cmp_zero: "cmp x y = 0 \<longleftrightarrow> cmp y x = 0"
  using cmp_sym [of x y] cmp_sym [of y x] by linarith

lemma insert_sorted:
  "sorted_wrt (\<lambda>x y. cmp x y \<le> 0) ys \<Longrightarrow> sorted_wrt (\<lambda>x y. cmp x y \<le> 0) (js_insert cmp x ys)"
proof (induction ys)
  case (Cons y ys)
  show ?case
  proof (cases "cmp x y \<le> 0")
    case True
    have "\<forall>z \<in> set ys. cmp x z \<le> 0"
      using Cons.prems cmp_trans [OF True] by simp
    with Cons.prems True show ?thesis by simp
  next
    case False
    then have "cmp y x \<le> 0" using cmp_total by blast
    with Cons False show ?thesis by auto
  qed
qed simp

lemma sort_sorted: "sorted_wrt (\<lambda>x y. cmp x y \<le> 0) (js_sort cmp xs)"
  by (induction xs) (auto intro: insert_sorted)

lemma sort_id: "sorted_wrt (\<lambda>x y. cmp x y \<le> 0) xs \<Longrightarrow> js_sort cmp xs = xs"
proof (induction xs)
  case (Cons x xs)
  then show ?case by (cases xs) auto
qed simp

end

lemma js_comparator_key: "js_comparator (\<lambda>x y. k x - k y)"
  by unfold_locales auto

lemma js_comparator_key_desc: "js_comparator (\<lambda>x y. k y - k x)"
  by unfold_locales auto

lemma js_comparator_on: "js_comparator c \<Longrightarrow> js_comparator (\<lambda>x y. c (p x) (p y))"
  unfolding js_comparator_def by blast

lemma js_comparator_lex:
  assumes f: "js_comparator f" and g: "js_comparator g"
  shows "js_comparator (\<lambda>x y. or_else (f x y) (g x y))"
proof
  fix x y z
  note fs = js_comparator.cmp_sym [OF f] and fz = js_comparator.cmp_zero [OF f]
    and ft = js_comparator.cmp_trans [OF f]
  show "or_else (f x y) (g x y) \<le> 0 \<longleftrightarrow> 0 \<le> or_else (f y x) (g y x)"
    using fs [of x y] fz [of x y] js_comparator.cmp_sym [OF g, of x y] by (auto simp: or_else_def)
  assume xy: "or_else (f x y) (g x y) \<le> 0" and yz: "or_else (f y z) (g y z) \<le> 0"
  then have fxy: "f x y \<le> 0" and fyz: "f y z \<le> 0" by (auto simp: or_else_def split: if_splits)
  then have fxz: "f x z \<le> 0" by (rule ft)
  show "or_else (f x z) (g x z) \<le> 0"
  proof (cases "f x z = 0")
    case True
    then have zx: "f z x \<le> 0" using fz [of x z] by simp
    have "f x y = 0" using ft [OF fyz zx] fs [of y x] fxy by linarith
    moreover have "f y z = 0" using ft [OF zx fxy] fs [of z y] fyz by linarith
    ultimately show ?thesis
      using xy yz True js_comparator.cmp_trans [OF g] by (auto simp: or_else_def)
  next
    case False
    with fxz show ?thesis by (simp add: or_else_def)
  qed
qed

section \<open>Decimal numbers\<close>

definition is_digit :: "nat \<Rightarrow> bool" where
  "is_digit c \<longleftrightarrow> 48 \<le> c \<and> c \<le> 57"

definition digits_val :: "jsstring \<Rightarrow> nat" where
  "digits_val s = foldl (\<lambda>n c. 10 * n + (c - 48)) 0 s"

fun nat_str :: "nat \<Rightarrow> jsstring" where
  "nat_str n = (if n < 10 then [48 + n] else nat_str (n div 10) @ [48 + n mod 10])"

declare nat_str.simps [simp del]

lemma nat_str_digits: "\<forall>c \<in> set (nat_str n). is_digit c"
proof (induction n rule: nat_str.induct)
  case (1 n)
  then show ?case
    by (cases "n < 10") (auto simp: nat_str.simps [of n] is_digit_def)
qed

lemma nat_str_ne [simp]: "nat_str n \<noteq> []"
  by (subst nat_str.simps) simp

lemma digits_val_nat_str [simp]: "digits_val (nat_str n) = n"
proof (induction n rule: nat_str.induct)
  case (1 n)
  then show ?case
    by (cases "n < 10") (auto simp: nat_str.simps [of n] digits_val_def)
qed

lemma nat_str_inject [simp]: "nat_str m = nat_str n \<longleftrightarrow> m = n"
  by (metis digits_val_nat_str)

lemma digit_not_ws: "is_digit c \<Longrightarrow> \<not> is_ws c"
  by (auto simp: is_digit_def is_ws_def)

lemma nat_str_eval [js_eval]:
  "n < 10 \<Longrightarrow> nat_str n = [48 + n]"
  "\<not> n < 10 \<Longrightarrow> nat_str n = nat_str (n div 10) @ [48 + n mod 10]"
  by (subst nat_str.simps; simp)+

declare is_ws_def [js_eval] trim_def [js_eval] uniq_def [js_eval] is_digit_def [js_eval]
  digits_val_def [js_eval] js.simps(2) [js_eval] List.map_filter_simps [js_eval]
  startsWith_def [js_eval] str_includes_def [js_eval]

definition int_str :: "int \<Rightarrow> jsstring" where
  "int_str i = (if i < 0 then js ''-'' @ nat_str (nat (- i)) else nat_str (nat i))"

end
