(* ===== verification/HttpStatusRules.thy ===== *)
theory HttpStatusRules
  imports JsPrelude
begin

text \<open>
  The HTTP status code rules of the routing settings
  (\<open>src/web/src/lib/http-status-code-rules.ts\<close>): a comma separated list of codes and code
  ranges is parsed, validated, merged and printed back in a normal form.

  \<open>parseToken\<close>, \<open>isNumber\<close>, \<open>mergeRanges\<close> and \<open>parseHttpStatusCodeRules\<close> follow the source.
  The argument of \<open>parseHttpStatusCodeRules\<close> is the text of a settings field; \<open>None\<close> stands for
  \<open>null\<close> and \<open>undefined\<close>.  A numeral too large to be exact as a double is out of the range
  100 to 599 either way, so \<open>Number.parseInt\<close> of a digit string is \<open>digits_val\<close>.

  The lemmas show that merging keeps the set of codes, that its result is a canonical
  representation of that set, and that printing and parsing are inverse on it.
\<close>

section \<open>The model\<close>

record StatusCodeRange =
  rstart :: nat
  rend :: nat

record ParsedHttpStatusCodeRules =
  ok :: bool
  ranges :: "StatusCodeRange list"
  tokens :: "jsstring list"
  normalized :: jsstring
  invalidTokens :: "jsstring list"

definition isNumber :: "jsstring \<Rightarrow> bool" where
  "isNumber s \<longleftrightarrow> s \<noteq> [] \<and> list_all is_digit s"

definition isValidCode :: "nat \<Rightarrow> bool" where
  "isValidCode code \<longleftrightarrow> 100 \<le> code \<and> code \<le> 599"

definition parseToken :: "jsstring \<Rightarrow> StatusCodeRange option" where
  "parseToken token =
     (let cleaned = filter (\<lambda>c. \<not> is_ws c) (trim token) in
      if cleaned = [] then None
      else if 45 \<in> set cleaned then
        (case split_on 45 cleaned of
           a # b # _ \<Rightarrow>
             if \<not> isNumber a \<or> \<not> isNumber b then None
             else
               (let start = digits_val a; end' = digits_val b in
                if \<not> isValidCode start \<or> \<not> isValidCode end' \<or> start > end' then None
                else Some \<lparr>rstart = start, rend = end'\<rparr>)
         | _ \<Rightarrow> None)
      else if \<not> isNumber cleaned then None
      else
        (let code = digits_val cleaned in
         if \<not> isValidCode code then None else Some \<lparr>rstart = code, rend = code\<rparr>))"

definition compareRanges :: "StatusCodeRange \<Rightarrow> StatusCodeRange \<Rightarrow> int" where
  "compareRanges a b =
     (if rstart a \<noteq> rstart b then int (rstart a) - int (rstart b)
      else int (rend a) - int (rend b))"

definition mergeStep :: "StatusCodeRange list \<Rightarrow> StatusCodeRange \<Rightarrow> StatusCodeRange list" where
  "mergeStep merged current =
     (if merged = [] \<or> rstart current > rend (last merged) + 1 then merged @ [current]
      else butlast merged @ [(last merged)\<lparr>rend := max (rend (last merged)) (rend current)\<rparr>])"

definition mergeRanges :: "StatusCodeRange list \<Rightarrow> StatusCodeRange list" where
  "mergeRanges rs = (if rs = [] then [] else foldl mergeStep [] (js_sort compareRanges rs))"

definition rangeToken :: "StatusCodeRange \<Rightarrow> jsstring" where
  "rangeToken r =
     (if rstart r = rend r then nat_str (rstart r)
      else nat_str (rstart r) @ [45] @ nat_str (rend r))"

text \<open>The segments of the input: full-width commas (U+FF0C) count as commas.\<close>

definition ruleSegments :: "jsstring \<Rightarrow> jsstring list" where
  "ruleSegments raw =
     filter (\<lambda>s. s \<noteq> []) (map trim (split_on 44 (map (\<lambda>c. if c = 65292 then 44 else c) raw)))"

definition parseHttpStatusCodeRules :: "jsstring option \<Rightarrow> ParsedHttpStatusCodeRules" where
  "parseHttpStatusCodeRules input =
     (let raw = trim (case input of None \<Rightarrow> [] | Some s \<Rightarrow> s) in
      if raw = [] then
        \<lparr>ok = True, ranges = [], tokens = [], normalized = [], invalidTokens = []\<rparr>
      else
        (let segments = ruleSegments raw;
             rs = List.map_filter parseToken segments;
             bad = filter (\<lambda>s. parseToken s = None) segments
         in if bad \<noteq> [] then
              \<lparr>ok = False, ranges = [], tokens = [], normalized = raw, invalidTokens = bad\<rparr>
            else
              (let merged = mergeRanges rs; toks = map rangeToken merged in
               \<lparr>ok = True, ranges = merged, tokens = toks, normalized = join [44] toks,
                invalidTokens = []\<rparr>)))"

declare isNumber_def [js_eval] isValidCode_def [js_eval] parseToken_def [js_eval]
  compareRanges_def [js_eval] mergeStep_def [js_eval] mergeRanges_def [js_eval]
  rangeToken_def [js_eval] ruleSegments_def [js_eval] parseHttpStatusCodeRules_def [js_eval]

section \<open>Merging\<close>

text \<open>The set of codes a list of ranges stands for.\<close>

definition covers :: "StatusCodeRange list \<Rightarrow> nat set" where
  "covers rs = (\<Union>r \<in> set rs. {rstart r..rend r})"

definition valid_range :: "StatusCodeRange \<Rightarrow> bool" where
  "valid_range r \<longleftrightarrow> isValidCode (rstart r) \<and> isValidCode (rend r) \<and> rstart r \<le> rend r"

text \<open>Ranges in increasing order with a gap of at least one code between neighbours.\<close>

definition separated :: "StatusCodeRange list \<Rightarrow> bool" where
  "separated rs \<longleftrightarrow> sorted_wrt (\<lambda>a b. rend a + 1 < rstart b) rs \<and> (\<forall>r \<in> set rs. rstart r \<le> rend r)"

interpretation range_order: js_comparator compareRanges
  by unfold_locales (auto simp: compareRanges_def split: if_splits)

lemma covers_simps [simp]:
  "covers [] = {}" "covers (r # rs) = {rstart r..rend r} \<union> covers rs"
  "covers (rs @ qs) = covers rs \<union> covers qs"
  by (auto simp: covers_def)

lemma covers_js_sort [simp]: "covers (js_sort cmp rs) = covers rs"
  by (simp add: covers_def)

lemma separated_simps [simp]:
  "separated []"
  "separated (r # rs) \<longleftrightarrow> rstart r \<le> rend r \<and> (\<forall>q \<in> set rs. rend r + 1 < rstart q) \<and> separated rs"
  by (auto simp: separated_def)

lemma separated_snoc:
  "separated (rs @ [r]) \<longleftrightarrow> separated rs \<and> (\<forall>q \<in> set rs. rend q + 1 < rstart r) \<and> rstart r \<le> rend r"
  by (auto simp: separated_def sorted_wrt_append)

lemma mergeStep_snoc:
  "mergeStep (rs @ [l]) r =
     (if rstart r > rend l + 1 then rs @ [l, r]
      else rs @ [l\<lparr>rend := max (rend l) (rend r)\<rparr>])"
  by (simp add: mergeStep_def)

lemma mergeStep_keeps:
  assumes sep: "separated rs" and r: "rstart r \<le> rend r" and le: "\<forall>q \<in> set rs. rstart q \<le> rstart r"
  shows "separated (mergeStep rs r) \<and> covers (mergeStep rs r) = covers rs \<union> {rstart r..rend r} \<and>
    (\<forall>q \<in> set (mergeStep rs r). rstart q \<le> rstart r)"
proof (cases rs rule: rev_cases)
  case Nil
  with r show ?thesis by (simp add: mergeStep_def)
next
  case (snoc ys l)
  have l: "rstart l \<le> rend l" "rstart l \<le> rstart r" "\<forall>q \<in> set ys. rend q + 1 < rstart l"
    using sep le snoc by (auto simp: separated_snoc)
  show ?thesis
  proof (cases "rstart r > rend l + 1")
    case True
    have "\<forall>q \<in> set (ys @ [l]). rend q + 1 < rstart r"
      using l True by fastforce
    then have "separated ((ys @ [l]) @ [r])"
      using sep snoc r by (subst separated_snoc) simp
    with True snoc le show ?thesis by (auto simp: mergeStep_snoc)
  next
    case False
    then have "{rstart l..max (rend l) (rend r)} = {rstart l..rend l} \<union> {rstart r..rend r}"
      using l r by (auto simp: max_def)
    with False snoc sep le l show ?thesis
      by (auto simp: mergeStep_snoc separated_snoc max_def)
  qed
qed

lemma foldl_mergeStep:
  assumes "separated acc" "\<forall>r \<in> set rs. rstart r \<le> rend r"
    "sorted_wrt (\<lambda>x y. compareRanges x y \<le> 0) rs" "\<forall>q \<in> set acc. \<forall>r \<in> set rs. rstart q \<le> rstart r"
  shows "separated (foldl mergeStep acc rs) \<and> covers (foldl mergeStep acc rs) = covers acc \<union> covers rs"
  using assms
proof (induction rs arbitrary: acc)
  case (Cons r rs)
  have step: "separated (mergeStep acc r)" "covers (mergeStep acc r) = covers acc \<union> {rstart r..rend r}"
    "\<forall>q \<in> set (mergeStep acc r). rstart q \<le> rstart r"
    using mergeStep_keeps [of acc r] Cons.prems by auto
  have "\<forall>s \<in> set rs. rstart r \<le> rstart s"
    using Cons.prems(3) by (auto simp: compareRanges_def split: if_splits)
  then have "\<forall>q \<in> set (mergeStep acc r). \<forall>s \<in> set rs. rstart q \<le> rstart s"
    using step(3) by fastforce
  then show ?case using Cons.IH [of "mergeStep acc r"] step Cons.prems by auto
qed simp

lemma mergeRanges_correct:
  assumes "\<forall>r \<in> set rs. rstart r \<le> rend r"
  shows mergeRanges_separated: "separated (mergeRanges rs)"
    and mergeRanges_covers: "covers (mergeRanges rs) = covers rs"
  using foldl_mergeStep [of "[]" "js_sort compareRanges rs"] assms range_order.sort_sorted
  by (auto simp: mergeRanges_def)

section \<open>Canonical form\<close>

lemma separated_Cons_covers:
  assumes "separated (r # rs)"
  shows "n \<in> covers rs \<Longrightarrow> rend r + 1 < n" and "rstart r \<in> covers (r # rs)"
    and "covers rs = covers (r # rs) \<inter> {n. rend r < n}"
  using assms by (fastforce simp: covers_def)+

lemma separated_unique:
  "separated xs \<Longrightarrow> separated ys \<Longrightarrow> covers xs = covers ys \<Longrightarrow> xs = ys"
proof (induction xs arbitrary: ys)
  case Nil
  then show ?case by (cases ys) auto
next
  case (Cons x xs)
  then obtain y zs where ys: "ys = y # zs" by (cases ys) auto
  note X = separated_Cons_covers [OF Cons.prems(1)]
    and Y = separated_Cons_covers [OF Cons.prems(2) [unfolded ys]]
  have eq: "covers (x # xs) = covers (y # zs)" using Cons.prems(3) ys by simp
  have ends: "rstart x \<le> rend x" "rstart y \<le> rend y" using Cons.prems ys by auto
  have min: "n \<in> covers (x # xs) \<Longrightarrow> rstart x \<le> n" "n \<in> covers (y # zs) \<Longrightarrow> rstart y \<le> n" for n
    using X(1) Y(1) ends by fastforce+
  have "rstart y \<in> covers (x # xs)" "rstart x \<in> covers (y # zs)"
    using X(2) Y(2) by (simp_all only: eq)
  then have s: "rstart x = rstart y"
    using min(1) [of "rstart y"] min(2) [of "rstart x"] by linarith
  have "\<not> rend x < rend y"
  proof
    assume "rend x < rend y"
    then have "rend x + 1 \<in> covers (x # xs)" unfolding eq using s ends by simp
    then show False using X(1) [of "rend x + 1"] by simp
  qed
  moreover have "\<not> rend y < rend x"
  proof
    assume "rend y < rend x"
    then have "rend y + 1 \<in> covers (y # zs)" unfolding eq [symmetric] using s ends by simp
    then show False using Y(1) [of "rend y + 1"] by simp
  qed
  ultimately have e: "rend x = rend y" by simp
  have "x = y" using s e by (cases x, cases y) auto
  moreover have "covers xs = covers zs" by (simp only: X(3) Y(3) eq e)
  then have "xs = zs" using Cons.IH [of zs] Cons.prems ys by simp
  ultimately show ?case using ys by simp
qed

lemma mergeRanges_separated_id:
  assumes "separated rs"
  shows "mergeRanges rs = rs"
proof -
  have "\<forall>r \<in> set rs. rstart r \<le> rend r" using assms by (simp add: separated_def)
  from mergeRanges_correct [OF this] assms show ?thesis by (intro separated_unique)
qed

section \<open>Tokens\<close>

lemma isNumber_nat_str [simp]: "isNumber (nat_str n)"
  using nat_str_digits by (simp add: isNumber_def list_all_iff)

lemma nat_str_no_sep: "45 \<notin> set (nat_str n)" "44 \<notin> set (nat_str n)" "65292 \<notin> set (nat_str n)"
  using nat_str_digits [of n] by (auto simp: is_digit_def)

lemma nat_str_no_ws: "c \<in> set (nat_str n) \<Longrightarrow> \<not> is_ws c"
  using nat_str_digits [of n] digit_not_ws by blast

lemma rangeToken_chars:
  "rangeToken r \<noteq> []" "44 \<notin> set (rangeToken r)" "65292 \<notin> set (rangeToken r)"
  "\<forall>c \<in> set (rangeToken r). \<not> is_ws c"
  using nat_str_no_sep nat_str_no_ws by (auto simp: rangeToken_def)

lemma trim_rangeToken [simp]: "trim (rangeToken r) = rangeToken r"
  by (rule trim_id) (rule rangeToken_chars)

lemma cleaned_rangeToken [simp]: "filter (\<lambda>c. \<not> is_ws c) (rangeToken r) = rangeToken r"
  using rangeToken_chars(4) by (simp add: filter_id_conv)

lemma parseToken_rangeToken:
  assumes "valid_range r"
  shows "parseToken (rangeToken r) = Some r"
proof (cases "rstart r = rend r")
  case True
  then have t: "rangeToken r = nat_str (rstart r)" by (simp add: rangeToken_def)
  show ?thesis
    unfolding parseToken_def trim_rangeToken cleaned_rangeToken Let_def unfolding t
    using assms True by (simp add: nat_str_no_sep valid_range_def)
next
  case False
  then have t: "rangeToken r = nat_str (rstart r) @ 45 # nat_str (rend r)" by (simp add: rangeToken_def)
  show ?thesis
    unfolding parseToken_def trim_rangeToken cleaned_rangeToken Let_def unfolding t
    using assms by (simp add: nat_str_no_sep valid_range_def split_on_append split_on_notin)
qed

lemma parseToken_valid: "parseToken s = Some r \<Longrightarrow> valid_range r"
  by (auto simp: parseToken_def Let_def valid_range_def split: if_splits list.splits)

lemma separated_bounds:
  assumes "separated rs" and "covers rs \<subseteq> {100..599}" and "r \<in> set rs"
  shows "valid_range r"
proof -
  have "rstart r \<le> rend r" using assms by (auto simp: separated_def)
  then have "rstart r \<in> covers rs" "rend r \<in> covers rs" using assms(3) by (auto simp: covers_def)
  with assms(2) \<open>rstart r \<le> rend r\<close> show ?thesis by (auto simp: valid_range_def isValidCode_def)
qed

lemma covers_valid: "\<forall>r \<in> set rs. valid_range r \<Longrightarrow> covers rs \<subseteq> {100..599}"
  by (auto simp: covers_def valid_range_def isValidCode_def)

lemma map_filter_valid: "\<forall>r \<in> set (List.map_filter parseToken ss). valid_range r"
  by (auto simp: List.map_filter_def dest: parseToken_valid)

lemma covers_map_filter:
  "covers (List.map_filter f ts) = (\<Union>t \<in> set ts. covers (case f t of None \<Rightarrow> [] | Some r \<Rightarrow> [r]))"
  by (induction ts) (simp_all add: List.map_filter_simps split: option.splits)

lemma merged_valid:
  assumes "\<forall>r \<in> set rs. valid_range r"
  shows "separated (mergeRanges rs) \<and> (\<forall>r \<in> set (mergeRanges rs). valid_range r)"
proof -
  have le: "\<forall>r \<in> set rs. rstart r \<le> rend r" using assms by (simp add: valid_range_def)
  show ?thesis
    using mergeRanges_correct [OF le] covers_valid [OF assms] separated_bounds by auto
qed

section \<open>Reparsing the normal form\<close>

lemma ruleSegments_join:
  assumes "ts \<noteq> []" "\<forall>t \<in> set ts. t \<noteq> [] \<and> 44 \<notin> set t \<and> 65292 \<notin> set t \<and> trim t = t"
  shows "ruleSegments (join [44] ts) = ts"
proof -
  have "65292 \<notin> set (join [44] ts)"
    using assms(2) set_join [of "[44]" ts] by auto
  then have "map (\<lambda>c. if c = 65292 then 44 else c) (join [44] ts) = join [44] ts"
    by (intro map_idI) auto
  moreover have "split_on 44 (join [44] ts) = ts"
    using assms by (intro split_on_join) auto
  moreover have "map trim ts = ts" using assms(2) by (intro map_idI) auto
  moreover have "filter (\<lambda>s. s \<noteq> []) ts = ts" using assms(2) by (simp add: filter_id_conv)
  ultimately show ?thesis by (simp add: ruleSegments_def)
qed

lemma join_rangeTokens_no_ws: "c \<in> set (join [44] (map rangeToken rs)) \<Longrightarrow> \<not> is_ws c"
  by (induction rs rule: induct_list012) (use rangeToken_chars(4) in auto)

lemma trim_join_rangeTokens [simp]:
  "trim (join [44] (map rangeToken rs)) = join [44] (map rangeToken rs)"
  by (rule trim_id) (use join_rangeTokens_no_ws in blast)

lemma map_filter_all: "\<forall>x \<in> set xs. f (g x) = Some x \<Longrightarrow> List.map_filter f (map g xs) = xs"
  by (induction xs) (auto simp: List.map_filter_simps)

lemma parse_normal_form:
  assumes "separated rs" "\<forall>r \<in> set rs. valid_range r"
  shows "parseHttpStatusCodeRules (Some (join [44] (map rangeToken rs))) =
    \<lparr>ok = True, ranges = rs, tokens = map rangeToken rs,
     normalized = join [44] (map rangeToken rs), invalidTokens = []\<rparr>"
proof (cases "rs = []")
  case True
  then show ?thesis by (simp add: parseHttpStatusCodeRules_def)
next
  case False
  let ?ts = "map rangeToken rs"
  have seg: "ruleSegments (join [44] ?ts) = ?ts"
    using False rangeToken_chars by (intro ruleSegments_join) auto
  have ne: "join [44] ?ts \<noteq> []"
    using False rangeToken_chars(1) by (cases rs) (auto simp: join_eq_Nil)
  have tok: "\<forall>r \<in> set rs. parseToken (rangeToken r) = Some r"
    using assms(2) parseToken_rangeToken by blast
  then have "filter (\<lambda>s. parseToken s = None) ?ts = []"
    by (auto simp: filter_empty_conv)
  moreover have "List.map_filter parseToken ?ts = rs"
    using tok by (rule map_filter_all)
  ultimately show ?thesis
    using ne assms(1) by (simp add: parseHttpStatusCodeRules_def seg Let_def mergeRanges_separated_id)
qed

definition accepted :: "StatusCodeRange list \<Rightarrow> ParsedHttpStatusCodeRules" where
  "accepted rs =
     \<lparr>ok = True, ranges = rs, tokens = map rangeToken rs,
      normalized = join [44] (map rangeToken rs), invalidTokens = []\<rparr>"

lemma parse_accepted_iff:
  "parseHttpStatusCodeRules x =
     (let raw = trim (case x of None \<Rightarrow> [] | Some s \<Rightarrow> s) in
      if \<exists>s \<in> set (ruleSegments raw). parseToken s = None
      then \<lparr>ok = False, ranges = [], tokens = [], normalized = raw,
             invalidTokens = filter (\<lambda>s. parseToken s = None) (ruleSegments raw)\<rparr>
      else accepted (mergeRanges (List.map_filter parseToken (ruleSegments raw))))"
proof -
  have "ruleSegments [] = []" "mergeRanges [] = []"
    by (simp_all add: ruleSegments_def mergeRanges_def)
  then show ?thesis
    by (simp add: parseHttpStatusCodeRules_def accepted_def Let_def filter_empty_conv List.map_filter_simps)
qed

lemma ok_cases:
  assumes "ok (parseHttpStatusCodeRules x)"
  obtains rs where "separated rs" "\<forall>r \<in> set rs. valid_range r"
    "parseHttpStatusCodeRules x = accepted rs"
proof -
  let ?rs = "mergeRanges (List.map_filter parseToken
    (ruleSegments (trim (case x of None \<Rightarrow> [] | Some s \<Rightarrow> s))))"
  have "parseHttpStatusCodeRules x = accepted ?rs"
    using assms unfolding parse_accepted_iff Let_def by (auto split: if_splits)
  then show ?thesis using merged_valid [OF map_filter_valid] that by blast
qed

section \<open>Properties\<close>

text \<open>C17.  An accepted rule list stands for exactly the codes its tokens name: the ranges returned
  cover the union of the ranges of the comma separated tokens, they lie between 100 and 599, and
  they are in increasing order with a gap between neighbours (nothing is left to merge).\<close>

theorem parse_rules_codes:
  assumes "ok (parseHttpStatusCodeRules (Some s))"
  shows "covers (ranges (parseHttpStatusCodeRules (Some s))) =
      (\<Union>t \<in> set (ruleSegments (trim s)). covers (case parseToken t of None \<Rightarrow> [] | Some r \<Rightarrow> [r])) \<and>
    separated (ranges (parseHttpStatusCodeRules (Some s))) \<and>
    covers (ranges (parseHttpStatusCodeRules (Some s))) \<subseteq> {100..599}"
proof -
  let ?rs = "List.map_filter parseToken (ruleSegments (trim s))"
  have eq: "ranges (parseHttpStatusCodeRules (Some s)) = mergeRanges ?rs"
    using assms unfolding parse_accepted_iff Let_def by (auto simp: accepted_def split: if_splits)
  have v: "\<forall>r \<in> set ?rs. valid_range r" by (rule map_filter_valid)
  then have le: "\<forall>r \<in> set ?rs. rstart r \<le> rend r" by (simp add: valid_range_def)
  have cov: "covers ?rs = (\<Union>t \<in> set (ruleSegments (trim s)).
      covers (case parseToken t of None \<Rightarrow> [] | Some r \<Rightarrow> [r]))"
    by (rule covers_map_filter)
  show ?thesis
    using mergeRanges_correct [OF le] covers_valid [OF v] by (simp add: eq cov)
qed

theorem parse_rules_codes_witness:
  "ok (parseHttpStatusCodeRules (Some (js ''503, 500-502,404''))) \<and>
   covers (ranges (parseHttpStatusCodeRules (Some (js ''503, 500-502,404'')))) \<subseteq> {100..599}"
proof -
  have h: "ok (parseHttpStatusCodeRules (Some (js ''503, 500-502,404'')))" by (simp add: js_eval)
  from parse_rules_codes [OF h] have "covers (ranges (parseHttpStatusCodeRules (Some (js ''503, 500-502,404'')))) \<subseteq> {100..599}"
    by (elim conjE)
  with h show ?thesis by (rule conjI)
qed

text \<open> Reading back the normal form of an accepted rule list gives the very same result:
  same ranges, same tokens, same text, no invalid token.\<close>

lemma parse_rules_roundtrip:
  assumes "ok (parseHttpStatusCodeRules x)"
  shows "parseHttpStatusCodeRules (Some (normalized (parseHttpStatusCodeRules x))) =
    parseHttpStatusCodeRules x"
proof -
  from assms obtain rs where rs: "separated rs" "\<forall>r \<in> set rs. valid_range r"
    and eq: "parseHttpStatusCodeRules x = accepted rs" by (rule ok_cases)
  then show ?thesis using parse_normal_form [OF rs] by (simp add: accepted_def)
qed

text \<open>C18.  The normal form is canonical: two accepted rule lists that stand for the same set of
  status codes are normalised to the same text, whatever their order, overlaps, spaces and commas.\<close>

theorem parse_rules_canonical:
  assumes "ok (parseHttpStatusCodeRules x)" and "ok (parseHttpStatusCodeRules y)"
    and "covers (ranges (parseHttpStatusCodeRules x)) = covers (ranges (parseHttpStatusCodeRules y))"
  shows "normalized (parseHttpStatusCodeRules x) = normalized (parseHttpStatusCodeRules y)"
proof -
  obtain rs where rs: "separated rs" "parseHttpStatusCodeRules x = accepted rs"
    using ok_cases [OF assms(1)] by metis
  obtain qs where qs: "separated qs" "parseHttpStatusCodeRules y = accepted qs"
    using ok_cases [OF assms(2)] by metis
  have "rs = qs" using assms(3) rs qs by (intro separated_unique) (simp_all add: accepted_def)
  then show ?thesis using rs qs by simp
qed

theorem parse_rules_canonical_witness:
  "normalized (parseHttpStatusCodeRules (Some (js ''500,501''))) =
   normalized (parseHttpStatusCodeRules (Some (js ''501,500-501'')))"
proof -
  have h: "ok (parseHttpStatusCodeRules (Some (js ''500,501'')))"
    "ok (parseHttpStatusCodeRules (Some (js ''501,500-501'')))" by (simp_all add: js_eval)
  have "ranges (parseHttpStatusCodeRules (Some (js ''500,501''))) =
    ranges (parseHttpStatusCodeRules (Some (js ''501,500-501'')))" by (simp add: js_eval)
  then show ?thesis using parse_rules_canonical [OF h] by simp
qed

text \<open> A rule list is refused exactly when some token of it does not parse; then every such
  token is reported in order, the text is kept as it was (trimmed) and no range is returned.\<close>

lemma parse_rules_refused:
  "(\<not> ok (parseHttpStatusCodeRules (Some s)) \<longleftrightarrow> None \<in> parseToken ` set (ruleSegments (trim s))) \<and>
   (ok (parseHttpStatusCodeRules (Some s)) \<or>
     parseHttpStatusCodeRules (Some s) =
       \<lparr>ok = False, ranges = [], tokens = [], normalized = trim s,
        invalidTokens = filter (\<lambda>t. parseToken t = None) (ruleSegments (trim s))\<rparr>)"
  unfolding parse_accepted_iff Let_def by (auto simp: accepted_def image_iff eq_commute [of None])

end
