(* ===== verification/AdvancedCustom.thy ===== *)
theory AdvancedCustom
  imports JsPrelude
begin

text \<open>
  The routes of an advanced custom channel
  (\<open>src/web/src/features/channels/lib/advanced-custom.ts\<close>, types in
  \<open>src/web/src/features/channels/types.ts\<close>): which protocol converter fits which incoming path,
  the defaults a converter brings, normalisation, and the validator the channel form runs before
  a configuration is saved.

  Optional fields are \<open>option\<close>s.  A converter is a string, as it is in the JSON the validator
  reads; the eight registered ones are those of \<open>ADVANCED_CUSTOM_CONVERTER_OPTIONS\<close>.  The
  platform's \<open>new URL(value)\<close> is the argument \<open>parse_url\<close> of the definitions that use it: \<open>None\<close>
  where the constructor throws, otherwise the \<open>protocol\<close> and the \<open>host\<close> of the URL.

  The validator is an early-returning loop with a map of what each path has seen; it is shown to
  decide a declarative specification, and to report the first route that breaks it.
\<close>

section \<open>Data\<close>

record AdvancedCustomRouteAuth =
  auth_type :: "jsstring option"
  auth_name :: "jsstring option"
  auth_value :: "jsstring option"

record AdvancedCustomRoute =
  incoming_path :: "jsstring option"
  upstream_path :: "jsstring option"
  converter :: "jsstring option"
  models :: "jsstring list option"
  auth :: "AdvancedCustomRouteAuth option"

record AdvancedCustomConfig =
  advanced_routes :: "AdvancedCustomRoute list option"

record ConverterOption =
  conv_value :: jsstring
  conv_label :: jsstring
  conv_triggerLabel :: jsstring

record AdvancedCustomIncomingPathOption =
  path_value :: jsstring
  path_label :: jsstring

record AdvancedCustomValidationError =
  message :: jsstring
  routeIndex :: "nat option"

record AdvancedCustomTemplateOption =
  tmpl_value :: jsstring
  tmpl_label :: jsstring
  tmpl_config :: AdvancedCustomConfig

record AdvancedCustomConverterDefaults =
  def_upstream_path :: jsstring
  def_auth :: "AdvancedCustomRouteAuth option"

definition ADVANCED_CUSTOM_MODEL_LIST_PATH :: jsstring where
  "ADVANCED_CUSTOM_MODEL_LIST_PATH = js ''/v1/models''"

definition ADVANCED_CUSTOM_MODEL_LIST_LABEL :: jsstring where
  "ADVANCED_CUSTOM_MODEL_LIST_LABEL = js ''OpenAI Models''"

definition ADVANCED_CUSTOM_CONVERTER_OPTIONS :: "ConverterOption list" where
  "ADVANCED_CUSTOM_CONVERTER_OPTIONS =
    [\<lparr>conv_value = js ''none'', conv_label = js ''Native forwarding'',
      conv_triggerLabel = js ''Native forwarding''\<rparr>,
     \<lparr>conv_value = js ''anthropic_messages_to_openai_chat_completions'', conv_label = js ''Anthropic Messages to OpenAI Chat'',
      conv_triggerLabel = js ''To OpenAI Chat''\<rparr>,
     \<lparr>conv_value = js ''openai_chat_completions_to_anthropic_messages'', conv_label = js ''OpenAI Chat to Anthropic Messages'',
      conv_triggerLabel = js ''To Anthropic Messages''\<rparr>,
     \<lparr>conv_value = js ''openai_chat_completions_to_openai_responses'', conv_label = js ''OpenAI Chat to OpenAI Responses'',
      conv_triggerLabel = js ''To OpenAI Responses''\<rparr>,
     \<lparr>conv_value = js ''openai_responses_to_openai_chat_completions'', conv_label = js ''OpenAI Responses to OpenAI Chat'',
      conv_triggerLabel = js ''To OpenAI Chat''\<rparr>,
     \<lparr>conv_value = js ''openai_responses_to_gemini_generate_content'', conv_label = js ''OpenAI Responses to Gemini Generate Content'',
      conv_triggerLabel = js ''To Gemini Generate Content''\<rparr>,
     \<lparr>conv_value = js ''gemini_generate_content_to_openai_chat_completions'', conv_label = js ''Gemini Generate Content to OpenAI Chat'',
      conv_triggerLabel = js ''To OpenAI Chat''\<rparr>,
     \<lparr>conv_value = js ''openai_chat_completions_to_gemini_generate_content'', conv_label = js ''OpenAI Chat to Gemini Generate Content'',
      conv_triggerLabel = js ''To Gemini Generate Content''\<rparr>]"

definition ADVANCED_CUSTOM_INCOMING_PATH_OPTIONS :: "AdvancedCustomIncomingPathOption list" where
  "ADVANCED_CUSTOM_INCOMING_PATH_OPTIONS =
    [\<lparr>path_value = js ''/v1/chat/completions'', path_label = js ''OpenAI Chat''\<rparr>,
     \<lparr>path_value = js ''/v1/responses'', path_label = js ''OpenAI Responses''\<rparr>,
     \<lparr>path_value = js ''/v1/responses/compact'', path_label = js ''OpenAI Responses Compact''\<rparr>,
     \<lparr>path_value = js ''/v1/alpha/search'', path_label = js ''OpenAI Alpha Search''\<rparr>,
     \<lparr>path_value = ADVANCED_CUSTOM_MODEL_LIST_PATH, path_label = ADVANCED_CUSTOM_MODEL_LIST_LABEL\<rparr>,
     \<lparr>path_value = js ''/v1/embeddings'', path_label = js ''OpenAI Embeddings''\<rparr>,
     \<lparr>path_value = js ''/v1/images/generations'', path_label = js ''OpenAI Image Generations''\<rparr>,
     \<lparr>path_value = js ''/v1/images/edits'', path_label = js ''OpenAI Image Edits''\<rparr>,
     \<lparr>path_value = js ''/v1/completions'', path_label = js ''OpenAI Completions''\<rparr>,
     \<lparr>path_value = js ''/v1/audio/speech'', path_label = js ''OpenAI Audio Speech''\<rparr>,
     \<lparr>path_value = js ''/v1/audio/transcriptions'', path_label = js ''OpenAI Audio Transcriptions''\<rparr>,
     \<lparr>path_value = js ''/v1/audio/translations'', path_label = js ''OpenAI Audio Translations''\<rparr>,
     \<lparr>path_value = js ''/v1/rerank'', path_label = js ''OpenAI Rerank''\<rparr>,
     \<lparr>path_value = js ''/v1/realtime'', path_label = js ''OpenAI Realtime''\<rparr>,
     \<lparr>path_value = js ''/v1/messages'', path_label = js ''Claude Messages''\<rparr>,
     \<lparr>path_value = js ''/v1beta/models/{model}:generateContent'', path_label = js ''Gemini Generate Content''\<rparr>,
     \<lparr>path_value = js ''/v1beta/models/{model}:embedContent'', path_label = js ''Gemini Embed Content''\<rparr>,
     \<lparr>path_value = js ''/v1beta/models/{model}:batchEmbedContents'', path_label = js ''Gemini Batch Embed Contents''\<rparr>]"

definition ADVANCED_CUSTOM_MODEL_REGEX_PREFIX :: jsstring where
  "ADVANCED_CUSTOM_MODEL_REGEX_PREFIX = js ''re:''"

definition openAIChatPath :: jsstring where
  "openAIChatPath = js ''/v1/chat/completions''"

definition openAIResponsesPath :: jsstring where
  "openAIResponsesPath = js ''/v1/responses''"

definition claudeMessagesPath :: jsstring where
  "claudeMessagesPath = js ''/v1/messages''"

definition geminiGenerateContentPath :: jsstring where
  "geminiGenerateContentPath = js ''/v1beta/models/{model}:generateContent''"

definition bearerHeaderAuth :: AdvancedCustomRouteAuth where
  "bearerHeaderAuth = \<lparr>auth_type = Some (js ''header''), auth_name = Some (js ''Authorization''),
     auth_value = Some (js ''Bearer {api_key}'')\<rparr>"

definition apiKeyHeaderAuth :: AdvancedCustomRouteAuth where
  "apiKeyHeaderAuth = \<lparr>auth_type = Some (js ''header''), auth_name = Some (js ''x-api-key''),
     auth_value = Some (js ''{api_key}'')\<rparr>"

definition geminiQueryAuth :: AdvancedCustomRouteAuth where
  "geminiQueryAuth = \<lparr>auth_type = Some (js ''query''), auth_name = Some (js ''key''),
     auth_value = Some (js ''{api_key}'')\<rparr>"

definition templateRoute ::
  "jsstring \<Rightarrow> jsstring \<Rightarrow> jsstring \<Rightarrow> AdvancedCustomRouteAuth \<Rightarrow> AdvancedCustomRoute" where
  "templateRoute inc up conv a = \<lparr>incoming_path = Some inc, upstream_path = Some up,
     converter = Some conv, models = None, auth = Some a\<rparr>"

definition ADVANCED_CUSTOM_TEMPLATE_OPTIONS :: "AdvancedCustomTemplateOption list" where
  "ADVANCED_CUSTOM_TEMPLATE_OPTIONS =
    [\<lparr>tmpl_value = js ''official_openai_chat'', tmpl_label = js ''Official OpenAI Chat'',
      tmpl_config = \<lparr>advanced_routes = Some [
        templateRoute (js ''/v1/chat/completions'')
          (js ''/v1/chat/completions'')
          (js ''none'') bearerHeaderAuth]\<rparr>\<rparr>,
     \<lparr>tmpl_value = js ''official_openai_responses'', tmpl_label = js ''Official OpenAI Responses'',
      tmpl_config = \<lparr>advanced_routes = Some [
        templateRoute (js ''/v1/responses'')
          (js ''/v1/responses'')
          (js ''none'') bearerHeaderAuth]\<rparr>\<rparr>,
     \<lparr>tmpl_value = js ''official_openai_embeddings'', tmpl_label = js ''Official OpenAI Embeddings'',
      tmpl_config = \<lparr>advanced_routes = Some [
        templateRoute (js ''/v1/embeddings'')
          (js ''/v1/embeddings'')
          (js ''none'') bearerHeaderAuth]\<rparr>\<rparr>,
     \<lparr>tmpl_value = js ''official_openai_images'', tmpl_label = js ''Official OpenAI Images'',
      tmpl_config = \<lparr>advanced_routes = Some [
        templateRoute (js ''/v1/images/generations'')
          (js ''/v1/images/generations'')
          (js ''none'') bearerHeaderAuth,
        templateRoute (js ''/v1/images/edits'')
          (js ''/v1/images/edits'')
          (js ''none'') bearerHeaderAuth]\<rparr>\<rparr>,
     \<lparr>tmpl_value = js ''official_claude_messages'', tmpl_label = js ''Official Claude Messages'',
      tmpl_config = \<lparr>advanced_routes = Some [
        templateRoute (js ''/v1/messages'')
          (js ''/v1/messages'')
          (js ''none'') apiKeyHeaderAuth]\<rparr>\<rparr>,
     \<lparr>tmpl_value = js ''official_gemini_native'', tmpl_label = js ''Official Gemini Native'',
      tmpl_config = \<lparr>advanced_routes = Some [
        templateRoute (js ''/v1beta/models/{model}:generateContent'')
          (js ''/v1beta/models/{model}:generateContent'')
          (js ''none'') geminiQueryAuth,
        templateRoute (js ''/v1beta/models/{model}:embedContent'')
          (js ''/v1beta/models/{model}:embedContent'')
          (js ''none'') geminiQueryAuth,
        templateRoute (js ''/v1beta/models/{model}:batchEmbedContents'')
          (js ''/v1beta/models/{model}:batchEmbedContents'')
          (js ''none'') geminiQueryAuth]\<rparr>\<rparr>,
     \<lparr>tmpl_value = js ''official_gemini_from_openai_chat'', tmpl_label = js ''Official Gemini from OpenAI Chat'',
      tmpl_config = \<lparr>advanced_routes = Some [
        templateRoute (js ''/v1/chat/completions'')
          (js ''/v1beta/models/{model}:generateContent'')
          (js ''openai_chat_completions_to_gemini_generate_content'') geminiQueryAuth]\<rparr>\<rparr>]"

section \<open>Converters, paths and defaults\<close>

definition isConverterPathAllowed :: "jsstring \<Rightarrow> jsstring \<Rightarrow> bool" where
  "isConverterPathAllowed incomingPath conv =
     (if conv = js ''none'' then True
      else if incomingPath = js ''/v1/alpha/search'' then False
      else if conv = js ''anthropic_messages_to_openai_chat_completions'' then
        incomingPath = js ''/v1/messages''
      else if conv = js ''openai_chat_completions_to_anthropic_messages'' \<or>
              conv = js ''openai_chat_completions_to_openai_responses'' \<or>
              conv = js ''openai_chat_completions_to_gemini_generate_content'' then
        incomingPath = js ''/v1/chat/completions''
      else if conv = js ''openai_responses_to_openai_chat_completions'' then
        incomingPath = js ''/v1/responses''
      else if conv = js ''openai_responses_to_gemini_generate_content'' then
        incomingPath = js ''/v1/responses''
      else str_includes incomingPath (js '':generateContent'') \<or>
           str_includes incomingPath (js '':streamGenerateContent''))"

definition isAdvancedCustomIncomingPathAllowed :: "jsstring \<Rightarrow> jsstring \<Rightarrow> bool" where
  "isAdvancedCustomIncomingPathAllowed incomingPath conv = isConverterPathAllowed incomingPath conv"

definition isAdvancedCustomConverter :: "jsstring \<Rightarrow> bool" where
  "isAdvancedCustomConverter v = list_ex (\<lambda>p. conv_value p = v) ADVANCED_CUSTOM_CONVERTER_OPTIONS"

definition getAdvancedCustomIncomingPathOptions ::
  "jsstring \<Rightarrow> AdvancedCustomIncomingPathOption list" where
  "getAdvancedCustomIncomingPathOptions conv =
     filter (\<lambda>p. isConverterPathAllowed (path_value p) conv) ADVANCED_CUSTOM_INCOMING_PATH_OPTIONS"

definition getDefaultAdvancedCustomIncomingPath :: "jsstring \<Rightarrow> jsstring" where
  "getDefaultAdvancedCustomIncomingPath conv =
     or_str (case getAdvancedCustomIncomingPathOptions conv of [] \<Rightarrow> None | p # _ \<Rightarrow> Some (path_value p))
       (js ''/v1/chat/completions'')"

definition getAdvancedCustomConverterOptions :: "jsstring \<Rightarrow> ConverterOption list" where
  "getAdvancedCustomConverterOptions incomingPath =
     filter (\<lambda>p. conv_value p = js ''none'' \<or> isConverterPathAllowed (trim incomingPath) (conv_value p))
       ADVANCED_CUSTOM_CONVERTER_OPTIONS"

definition getAdvancedCustomIncomingPathLabel :: "jsstring \<Rightarrow> jsstring" where
  "getAdvancedCustomIncomingPathLabel v =
     or_str (map_option path_label
       (find (\<lambda>p. path_value p = v) ADVANCED_CUSTOM_INCOMING_PATH_OPTIONS)) v"

definition getAdvancedCustomNativeAuth :: "jsstring \<Rightarrow> AdvancedCustomRouteAuth" where
  "getAdvancedCustomNativeAuth incomingPath =
     (if incomingPath = claudeMessagesPath then apiKeyHeaderAuth
      else if str_includes incomingPath (js '':generateContent'') \<or>
              str_includes incomingPath (js '':streamGenerateContent'') \<or>
              str_includes incomingPath (js '':embedContent'') \<or>
              str_includes incomingPath (js '':batchEmbedContents'') then geminiQueryAuth
      else bearerHeaderAuth)"

definition getAdvancedCustomConverterDefaults ::
  "jsstring \<Rightarrow> jsstring \<Rightarrow> AdvancedCustomConverterDefaults" where
  "getAdvancedCustomConverterDefaults conv incomingPath =
     (let normalizedIncomingPath =
            or_str (Some (trim incomingPath)) (getDefaultAdvancedCustomIncomingPath conv) in
      if conv = js ''none'' then
        \<lparr>def_upstream_path = normalizedIncomingPath,
         def_auth = Some (getAdvancedCustomNativeAuth normalizedIncomingPath)\<rparr>
      else if conv = js ''anthropic_messages_to_openai_chat_completions'' \<or>
              conv = js ''gemini_generate_content_to_openai_chat_completions'' \<or>
              conv = js ''openai_responses_to_openai_chat_completions'' then
        \<lparr>def_upstream_path = openAIChatPath, def_auth = Some bearerHeaderAuth\<rparr>
      else if conv = js ''openai_chat_completions_to_openai_responses'' then
        \<lparr>def_upstream_path = openAIResponsesPath, def_auth = Some bearerHeaderAuth\<rparr>
      else if conv = js ''openai_chat_completions_to_anthropic_messages'' then
        \<lparr>def_upstream_path = claudeMessagesPath, def_auth = Some apiKeyHeaderAuth\<rparr>
      else if conv = js ''openai_chat_completions_to_gemini_generate_content'' \<or>
              conv = js ''openai_responses_to_gemini_generate_content'' then
        \<lparr>def_upstream_path = geminiGenerateContentPath, def_auth = Some geminiQueryAuth\<rparr>
      else
        \<lparr>def_upstream_path = or_str (Some normalizedIncomingPath) openAIChatPath,
         def_auth = Some (getAdvancedCustomNativeAuth normalizedIncomingPath)\<rparr>)"

definition getAdvancedCustomUpstreamPathPlaceholder :: "jsstring \<Rightarrow> jsstring option \<Rightarrow> jsstring" where
  "getAdvancedCustomUpstreamPathPlaceholder conv incomingPath =
     def_upstream_path (getAdvancedCustomConverterDefaults conv
       (case incomingPath of None \<Rightarrow> getDefaultAdvancedCustomIncomingPath conv | Some p \<Rightarrow> p))"

definition getAdvancedCustomTemplateConfig :: "jsstring \<Rightarrow> AdvancedCustomConfig" where
  "getAdvancedCustomTemplateConfig templateKey =
     (case find (\<lambda>t. tmpl_value t = templateKey) ADVANCED_CUSTOM_TEMPLATE_OPTIONS of
        Some t \<Rightarrow> tmpl_config t
      | None \<Rightarrow> tmpl_config (ADVANCED_CUSTOM_TEMPLATE_OPTIONS ! 0))"

definition createAdvancedCustomRoute :: AdvancedCustomRoute where
  "createAdvancedCustomRoute = \<lparr>incoming_path = Some openAIChatPath,
     upstream_path = Some openAIChatPath, converter = Some (js ''none''), models = None, auth = None\<rparr>"

definition createAdvancedCustomConfig :: AdvancedCustomConfig where
  "createAdvancedCustomConfig = \<lparr>advanced_routes = Some [createAdvancedCustomRoute]\<rparr>"

section \<open>Normalisation\<close>

definition getAdvancedCustomRouteUpstreamPath :: "AdvancedCustomRoute \<Rightarrow> jsstring" where
  "getAdvancedCustomRouteUpstreamPath route = trim (or_str (upstream_path route) [])"

definition normalizeAdvancedCustomRouteModels :: "jsstring list option \<Rightarrow> jsstring list" where
  "normalizeAdvancedCustomRouteModels ms =
     (case ms of None \<Rightarrow> [] | Some xs \<Rightarrow> filter (\<lambda>m. m \<noteq> []) (map trim xs))"

definition normalizeAdvancedCustomRoute :: "AdvancedCustomRoute \<Rightarrow> AdvancedCustomRoute" where
  "normalizeAdvancedCustomRoute route =
     (let ms = normalizeAdvancedCustomRouteModels (models route) in
      \<lparr>incoming_path = Some (or_str (incoming_path route) []),
       upstream_path = Some (getAdvancedCustomRouteUpstreamPath route),
       converter = Some (or_str (converter route) (js ''none'')),
       models = (if ms \<noteq> [] then Some ms else None),
       auth = map_option (\<lambda>a. \<lparr>auth_type = auth_type a,
                auth_name = Some (or_str (auth_name a) []),
                auth_value = Some (or_str (auth_value a) [])\<rparr>) (auth route)\<rparr>)"

definition normalizeAdvancedCustomConfig :: "AdvancedCustomConfig \<Rightarrow> AdvancedCustomConfig" where
  "normalizeAdvancedCustomConfig config =
     \<lparr>advanced_routes = Some (case advanced_routes config of
        None \<Rightarrow> [] | Some rs \<Rightarrow> map normalizeAdvancedCustomRoute rs)\<rparr>"

definition normalizedRoutes :: "AdvancedCustomConfig \<Rightarrow> AdvancedCustomRoute list" where
  "normalizedRoutes config =
     (case advanced_routes (normalizeAdvancedCustomConfig config) of None \<Rightarrow> [] | Some rs \<Rightarrow> rs)"

definition parseAdvancedCustomRouteModels :: "jsstring \<Rightarrow> jsstring list" where
  "parseAdvancedCustomRouteModels v = uniq (filter (\<lambda>m. m \<noteq> []) (map trim (split_on 44 v)))"

datatype AdvancedCustomModelRuleKind = Exact | Regex

definition getAdvancedCustomModelRuleKind :: "jsstring \<Rightarrow> AdvancedCustomModelRuleKind" where
  "getAdvancedCustomModelRuleKind modelRule =
     (if startsWith modelRule ADVANCED_CUSTOM_MODEL_REGEX_PREFIX then Regex else Exact)"

definition getAdvancedCustomRegexModelPattern :: "jsstring \<Rightarrow> jsstring" where
  "getAdvancedCustomRegexModelPattern modelRule =
     substring_from modelRule (length ADVANCED_CUSTOM_MODEL_REGEX_PREFIX)"

definition getAdvancedCustomAuthMode :: "AdvancedCustomRoute \<Rightarrow> jsstring" where
  "getAdvancedCustomAuthMode route = or_str (Option.bind (auth route) auth_type) (js ''default'')"

definition buildAdvancedCustomAuth ::
  "jsstring \<Rightarrow> AdvancedCustomRouteAuth option \<Rightarrow> AdvancedCustomRouteAuth option" where
  "buildAdvancedCustomAuth mode previousAuth =
     (if mode = js ''default'' then None
      else if mode = js ''none'' then
        Some \<lparr>auth_type = Some (js ''none''), auth_name = None, auth_value = None\<rparr>
      else if mode = js ''header'' then
        Some \<lparr>auth_type = Some (js ''header''),
              auth_name = Some (or_str (Option.bind previousAuth auth_name) (js ''Authorization'')),
              auth_value = Some (or_str (Option.bind previousAuth auth_value) (js ''Bearer {api_key}''))\<rparr>
      else
        Some \<lparr>auth_type = Some (js ''query''),
              auth_name = Some (or_str (Option.bind previousAuth auth_name) (js ''api_key'')),
              auth_value = Some (or_str (Option.bind previousAuth auth_value) (js ''{api_key}''))\<rparr>)"

section \<open>Validation\<close>

definition isFullHttpURLOrAbsolutePath ::
  "(jsstring \<Rightarrow> (jsstring \<times> jsstring) option) \<Rightarrow> jsstring \<Rightarrow> bool" where
  "isFullHttpURLOrAbsolutePath parse_url v =
     (if startsWith v (js ''/'') then \<not> startsWith v (js ''//'')
      else (case parse_url v of
              None \<Rightarrow> False
            | Some (protocol, host) \<Rightarrow>
                host \<noteq> [] \<and> (protocol = js ''http:'' \<or> protocol = js ''https:'')))"

definition validateRouteAuth :: "AdvancedCustomRouteAuth option \<Rightarrow> jsstring option" where
  "validateRouteAuth a =
     (case a of None \<Rightarrow> None
      | Some au \<Rightarrow>
          if auth_type au = Some (js ''none'') then None
          else if auth_type au \<noteq> Some (js ''header'') \<and> auth_type au \<noteq> Some (js ''query'') then
            Some (js ''Auth type is invalid'')
          else if trim (or_str (auth_name au) []) = [] then Some (js ''Auth name is required'')
          else if trim (or_str (auth_value au) []) = [] then Some (js ''Auth value is required'')
          else None)"

record PathState =
  catchAllIndex :: "nat option"
  pathModels :: "(jsstring \<times> nat) list"

definition routeError :: "nat \<Rightarrow> string \<Rightarrow> AdvancedCustomValidationError" where
  "routeError index msg = \<lparr>message = js msg, routeIndex = Some index\<rparr>"

fun validateModelLoop ::
  "nat \<Rightarrow> jsstring list \<Rightarrow> PathState \<Rightarrow> jsstring list \<Rightarrow> AdvancedCustomValidationError + PathState" where
  "validateModelLoop idx seenInRoute st [] = Inr st"
| "validateModelLoop idx seenInRoute st (m # ms) =
     (if getAdvancedCustomModelRuleKind m = Regex \<and> getAdvancedCustomRegexModelPattern m = [] then
        Inl (routeError idx ''Model regex cannot be empty'')
      else if m \<in> set seenInRoute then Inl (routeError idx ''Duplicate model in route models'')
      else if m \<in> fst ` set (pathModels st) then
        Inl (routeError idx ''Route models must be unique for the same incoming path'')
      else validateModelLoop idx (m # seenInRoute)
             (st\<lparr>pathModels := AList.update m idx (pathModels st)\<rparr>) ms)"

definition validateAdvancedCustomRouteModels ::
  "nat \<Rightarrow> jsstring \<Rightarrow> jsstring list \<Rightarrow> (jsstring \<times> PathState) list \<Rightarrow>
     AdvancedCustomValidationError + (jsstring \<times> PathState) list" where
  "validateAdvancedCustomRouteModels idx incomingPath ms routeModelsByPath =
     (let st = (case map_of routeModelsByPath incomingPath of
                  None \<Rightarrow> \<lparr>catchAllIndex = None, pathModels = []\<rparr> | Some s \<Rightarrow> s) in
      if ms = [] then
        if catchAllIndex st \<noteq> None then
          Inl (routeError idx ''Only one catch-all route is allowed for the same incoming path'')
        else Inr (AList.update incomingPath (st\<lparr>catchAllIndex := Some idx\<rparr>) routeModelsByPath)
      else if catchAllIndex st \<noteq> None then
        Inl (routeError idx ''Catch-all route must be last for the same incoming path'')
      else
        (case validateModelLoop idx [] st ms of
           Inl e \<Rightarrow> Inl e
         | Inr st' \<Rightarrow> Inr (AList.update incomingPath st' routeModelsByPath)))"

record ValidatorState =
  routeModelsByPath :: "(jsstring \<times> PathState) list"
  modelListRouteIndex :: "nat option"

text \<open>One iteration of the validator's loop: the checks in the order of the source.\<close>

definition routePath :: "AdvancedCustomRoute \<Rightarrow> jsstring" where
  "routePath route = trim (or_str (incoming_path route) [])"

definition validateRoute ::
  "(jsstring \<Rightarrow> (jsstring \<times> jsstring) option) \<Rightarrow> nat \<Rightarrow> AdvancedCustomRoute \<Rightarrow> ValidatorState \<Rightarrow>
     AdvancedCustomValidationError + ValidatorState" where
  "validateRoute parse_url idx route vs =
     (let incomingPath = routePath route;
          upstreamPath = getAdvancedCustomRouteUpstreamPath route;
          conv = or_str (converter route) (js ''none'');
          routeModels = normalizeAdvancedCustomRouteModels (models route);
          isList = (incomingPath = ADVANCED_CUSTOM_MODEL_LIST_PATH) in
      if incomingPath = [] then Inl (routeError idx ''Incoming path is required'')
      else if \<not> startsWith incomingPath (js ''/'') then
        Inl (routeError idx ''Incoming path must start with /'')
      else if str_includes incomingPath (js ''?'') then
        Inl (routeError idx ''Incoming path must not include query'')
      else if isList \<and> modelListRouteIndex vs \<noteq> None then
        Inl (routeError idx ''Only one OpenAI Models route is allowed'')
      else if isList \<and> routeModels \<noteq> [] then
        Inl (routeError idx ''OpenAI Models route does not support client model rules'')
      else if isList \<and> conv \<noteq> js ''none'' then
        Inl (routeError idx ''OpenAI Models route must use native forwarding'')
      else if isList \<and> str_includes upstreamPath (js ''{model}'') then
        Inl (routeError idx ''OpenAI Models upstream path must not contain {model}'')
      else
        (case validateAdvancedCustomRouteModels idx incomingPath routeModels (routeModelsByPath vs) of
           Inl e \<Rightarrow> Inl e
         | Inr byPath \<Rightarrow>
             if upstreamPath = [] then Inl (routeError idx ''Upstream path is required'')
             else if \<not> isFullHttpURLOrAbsolutePath parse_url upstreamPath then
               Inl (routeError idx ''Upstream path must be a full URL or a path starting with /'')
             else if \<not> isAdvancedCustomConverter conv then
               Inl (routeError idx ''Converter is not registered'')
             else if \<not> isConverterPathAllowed incomingPath conv then
               Inl (routeError idx ''Converter does not match incoming path'')
             else
               (case validateRouteAuth (auth route) of
                  Some authError \<Rightarrow> Inl \<lparr>message = authError, routeIndex = Some idx\<rparr>
                | None \<Rightarrow> Inr \<lparr>routeModelsByPath = byPath,
                    modelListRouteIndex = (if isList then Some idx else modelListRouteIndex vs)\<rparr>)))"

fun validateRoutes ::
  "(jsstring \<Rightarrow> (jsstring \<times> jsstring) option) \<Rightarrow> nat \<Rightarrow> AdvancedCustomRoute list \<Rightarrow> ValidatorState \<Rightarrow>
     AdvancedCustomValidationError option" where
  "validateRoutes parse_url idx [] vs = None"
| "validateRoutes parse_url idx (r # rs) vs =
     (case validateRoute parse_url idx r vs of
        Inl e \<Rightarrow> Some e
      | Inr vs' \<Rightarrow> validateRoutes parse_url (Suc idx) rs vs')"

definition initialValidatorState :: ValidatorState where
  "initialValidatorState = \<lparr>routeModelsByPath = [], modelListRouteIndex = None\<rparr>"

definition validateAdvancedCustomConfig ::
  "(jsstring \<Rightarrow> (jsstring \<times> jsstring) option) \<Rightarrow> AdvancedCustomConfig option \<Rightarrow>
     AdvancedCustomValidationError option" where
  "validateAdvancedCustomConfig parse_url config =
     (case config of
        None \<Rightarrow> Some \<lparr>message = js ''Advanced custom configuration is required'', routeIndex = None\<rparr>
      | Some c \<Rightarrow>
          (let routes = normalizedRoutes c in
           if routes = [] then
             Some \<lparr>message = js ''Advanced custom configuration requires at least one route'',
                    routeIndex = None\<rparr>
           else validateRoutes parse_url 0 routes initialValidatorState))"

definition hasValidAdvancedCustomModelListRoute ::
  "(jsstring \<Rightarrow> (jsstring \<times> jsstring) option) \<Rightarrow> AdvancedCustomConfig option \<Rightarrow> bool" where
  "hasValidAdvancedCustomModelListRoute parse_url config =
     (case config of None \<Rightarrow> False
      | Some c \<Rightarrow>
          validateAdvancedCustomConfig parse_url config = None \<and>
          list_ex (\<lambda>r. map_option trim (incoming_path r) = Some ADVANCED_CUSTOM_MODEL_LIST_PATH)
            (normalizedRoutes c))"

definition advancedCustomConfigUsesRelativeUpstreamPath :: "AdvancedCustomConfig option \<Rightarrow> bool" where
  "advancedCustomConfigUsesRelativeUpstreamPath config =
     (case config of None \<Rightarrow> False
      | Some c \<Rightarrow> list_ex (\<lambda>r. startsWith (getAdvancedCustomRouteUpstreamPath r) (js ''/''))
          (normalizedRoutes c))"

section \<open>What the validator decides\<close>

abbreviation routeModelList :: "AdvancedCustomRoute \<Rightarrow> jsstring list" where
  "routeModelList r \<equiv> normalizeAdvancedCustomRouteModels (models r)"

text \<open>A route that is acceptable on its own.\<close>

definition route_ok :: "(jsstring \<Rightarrow> (jsstring \<times> jsstring) option) \<Rightarrow> AdvancedCustomRoute \<Rightarrow> bool" where
  "route_ok parse_url r \<longleftrightarrow>
     routePath r \<noteq> [] \<and> startsWith (routePath r) (js ''/'') \<and> \<not> str_includes (routePath r) (js ''?'') \<and>
     (routePath r = ADVANCED_CUSTOM_MODEL_LIST_PATH \<longrightarrow>
        routeModelList r = [] \<and> or_str (converter r) (js ''none'') = js ''none'' \<and>
        \<not> str_includes (getAdvancedCustomRouteUpstreamPath r) (js ''{model}'')) \<and>
     js ''re:'' \<notin> set (routeModelList r) \<and> distinct (routeModelList r) \<and>
     getAdvancedCustomRouteUpstreamPath r \<noteq> [] \<and>
     isFullHttpURLOrAbsolutePath parse_url (getAdvancedCustomRouteUpstreamPath r) \<and>
     isAdvancedCustomConverter (or_str (converter r) (js ''none'')) \<and>
     isConverterPathAllowed (routePath r) (or_str (converter r) (js ''none'')) \<and>
     validateRouteAuth (auth r) = None"

text \<open>An earlier route \<open>q\<close> and a later route \<open>r\<close> for the same path: \<open>q\<close> is no catch-all, and no
  model is claimed by both.\<close>

definition routes_compatible :: "AdvancedCustomRoute \<Rightarrow> AdvancedCustomRoute \<Rightarrow> bool" where
  "routes_compatible q r \<longleftrightarrow> routePath q = routePath r \<longrightarrow>
     routeModelList q \<noteq> [] \<and> set (routeModelList q) \<inter> set (routeModelList r) = {}"

definition routes_valid ::
  "(jsstring \<Rightarrow> (jsstring \<times> jsstring) option) \<Rightarrow> AdvancedCustomRoute list \<Rightarrow> bool" where
  "routes_valid parse_url rs \<longleftrightarrow> (\<forall>r \<in> set rs. route_ok parse_url r) \<and> sorted_wrt routes_compatible rs"

lemma routes_valid_snoc:
  "routes_valid u (rs @ [r]) \<longleftrightarrow>
     routes_valid u rs \<and> route_ok u r \<and> (\<forall>q \<in> set rs. routes_compatible q r)"
  by (auto simp: routes_valid_def sorted_wrt_append)

lemma empty_regex_iff:
  "getAdvancedCustomModelRuleKind m = Regex \<and> getAdvancedCustomRegexModelPattern m = [] \<longleftrightarrow> m = js ''re:''"
  by (auto simp: getAdvancedCustomModelRuleKind_def getAdvancedCustomRegexModelPattern_def
      substring_from_def startsWith_def ADVANCED_CUSTOM_MODEL_REGEX_PREFIX_def prefix_def)

subsection \<open>The model rules of one route\<close>

lemma validateModelLoop_Inr:
  "validateModelLoop idx seen st ms = Inr st' \<Longrightarrow>
     js ''re:'' \<notin> set ms \<and> distinct ms \<and> set ms \<inter> set seen = {} \<and> set ms \<inter> fst ` set (pathModels st) = {} \<and>
     catchAllIndex st' = catchAllIndex st \<and>
     fst ` set (pathModels st') = fst ` set (pathModels st) \<union> set ms"
proof (induction ms arbitrary: seen st)
  case (Cons m ms)
  have step: "m \<noteq> js ''re:''" "m \<notin> set seen" "m \<notin> fst ` set (pathModels st)"
    "validateModelLoop idx (m # seen) (st\<lparr>pathModels := AList.update m idx (pathModels st)\<rparr>) ms = Inr st'"
    using Cons.prems by (auto simp: empty_regex_iff split: if_splits)
  from Cons.IH [OF step(4)] step(1-3) show ?case
    by (auto simp: dom_update image_Un)
qed simp

lemma validateModelLoop_Inl:
  "validateModelLoop idx seen st ms = Inl e \<Longrightarrow>
     routeIndex e = Some idx \<and>
     \<not> (js ''re:'' \<notin> set ms \<and> distinct ms \<and> set ms \<inter> set seen = {} \<and>
        set ms \<inter> fst ` set (pathModels st) = {})"
proof (induction ms arbitrary: seen st)
  case (Cons m ms)
  show ?case
  proof (cases "m = js ''re:'' \<or> m \<in> set seen \<or> m \<in> fst ` set (pathModels st)")
    case True
    with Cons.prems show ?thesis by (auto simp: empty_regex_iff routeError_def split: if_splits)
  next
    case False
    with Cons.prems have "validateModelLoop idx (m # seen)
        (st\<lparr>pathModels := AList.update m idx (pathModels st)\<rparr>) ms = Inl e"
      by (auto simp: empty_regex_iff split: if_splits)
    from Cons.IH [OF this] False show ?thesis by (auto simp: dom_update)
  qed
qed simp

subsection \<open>What the loop remembers\<close>

definition stateOf :: "(jsstring \<times> PathState) list \<Rightarrow> jsstring \<Rightarrow> PathState" where
  "stateOf byPath p = (case map_of byPath p of
     None \<Rightarrow> \<lparr>catchAllIndex = None, pathModels = []\<rparr> | Some s \<Rightarrow> s)"

definition tracksPath :: "(jsstring \<times> PathState) list \<Rightarrow> AdvancedCustomRoute list \<Rightarrow> bool" where
  "tracksPath byPath rs \<longleftrightarrow> (\<forall>p.
     (catchAllIndex (stateOf byPath p) = None \<longleftrightarrow>
        (\<forall>r \<in> set rs. routePath r = p \<longrightarrow> routeModelList r \<noteq> [])) \<and>
     fst ` set (pathModels (stateOf byPath p)) =
        (\<Union>r \<in> {r \<in> set rs. routePath r = p}. set (routeModelList r)))"

definition tracks :: "ValidatorState \<Rightarrow> AdvancedCustomRoute list \<Rightarrow> bool" where
  "tracks vs rs \<longleftrightarrow> tracksPath (routeModelsByPath vs) rs \<and>
     (modelListRouteIndex vs \<noteq> None \<longleftrightarrow> (\<exists>r \<in> set rs. routePath r = ADVANCED_CUSTOM_MODEL_LIST_PATH))"

lemma stateOf_update [simp]:
  "stateOf (AList.update p st byPath) q = (if q = p then st else stateOf byPath q)"
  by (simp add: stateOf_def update_conv)

lemma tracksPath_catchAll:
  "tracksPath byPath rs \<Longrightarrow> catchAllIndex (stateOf byPath p) = None \<longleftrightarrow>
     (\<forall>r \<in> set rs. routePath r = p \<longrightarrow> routeModelList r \<noteq> [])"
  by (simp add: tracksPath_def)

lemma tracks_initial: "tracks initialValidatorState []"
  by (simp add: tracks_def tracksPath_def stateOf_def initialValidatorState_def)

lemma tracksPath_snoc:
  assumes t: "tracksPath byPath rs"
    and c: "catchAllIndex st = None \<longleftrightarrow>
      catchAllIndex (stateOf byPath (routePath r)) = None \<and> routeModelList r \<noteq> []"
    and m: "fst ` set (pathModels st) =
      fst ` set (pathModels (stateOf byPath (routePath r))) \<union> set (routeModelList r)"
  shows "tracksPath (AList.update (routePath r) st byPath) (rs @ [r])"
proof -
  have split: "{q \<in> set (rs @ [r]). routePath q = p} =
      {q \<in> set rs. routePath q = p} \<union> (if routePath r = p then {r} else {})" for p
    by auto
  show ?thesis
    using t unfolding tracksPath_def split by (auto simp: c m)
qed

lemma validateRouteModels_Inr:
  assumes t: "tracksPath byPath rs"
    and v: "validateAdvancedCustomRouteModels idx (routePath r) (routeModelList r) byPath = Inr byPath'"
  shows "tracksPath byPath' (rs @ [r]) \<and> js ''re:'' \<notin> set (routeModelList r) \<and>
    distinct (routeModelList r) \<and> (\<forall>q \<in> set rs. routes_compatible q r)"
proof -
  let ?st = "stateOf byPath (routePath r)"
  have st: "(case map_of byPath (routePath r) of None \<Rightarrow> \<lparr>catchAllIndex = None, pathModels = []\<rparr> | Some s \<Rightarrow> s) = ?st"
    by (simp add: stateOf_def)
  have none: "catchAllIndex ?st = None"
    using v unfolding validateAdvancedCustomRouteModels_def Let_def st by (auto split: if_splits)
  then have q: "\<forall>q \<in> set rs. routePath q = routePath r \<longrightarrow> routeModelList q \<noteq> []"
    using t by (auto simp: tracksPath_def)
  show ?thesis
  proof (cases "routeModelList r = []")
    case True
    then have b: "byPath' = AList.update (routePath r) (?st\<lparr>catchAllIndex := Some idx\<rparr>) byPath"
      using v none unfolding validateAdvancedCustomRouteModels_def Let_def st by simp
    have "tracksPath byPath' (rs @ [r])"
      unfolding b by (rule tracksPath_snoc [OF t]) (simp_all add: True)
    then show ?thesis using q True by (auto simp: routes_compatible_def)
  next
    case False
    then obtain st' where l: "validateModelLoop idx [] ?st (routeModelList r) = Inr st'"
      and b: "byPath' = AList.update (routePath r) st' byPath"
      using v none unfolding validateAdvancedCustomRouteModels_def Let_def st by (auto split: sum.splits)
    note L = validateModelLoop_Inr [OF l]
    have "tracksPath byPath' (rs @ [r])"
      unfolding b by (rule tracksPath_snoc [OF t]) (use L False in auto)
    moreover have "set (routeModelList q) \<inter> set (routeModelList r) = {}"
      if "q \<in> set rs" "routePath q = routePath r" for q
      using L t that by (auto simp: tracksPath_def)
    ultimately show ?thesis using L q by (auto simp: routes_compatible_def)
  qed
qed

lemma validateRouteModels_Inl:
  assumes t: "tracksPath byPath rs"
    and v: "validateAdvancedCustomRouteModels idx (routePath r) (routeModelList r) byPath = Inl e"
  shows "routeIndex e = Some idx \<and> \<not> (js ''re:'' \<notin> set (routeModelList r) \<and>
    distinct (routeModelList r) \<and> (\<forall>q \<in> set rs. routes_compatible q r))"
proof -
  let ?st = "stateOf byPath (routePath r)"
  have st: "(case map_of byPath (routePath r) of None \<Rightarrow> \<lparr>catchAllIndex = None, pathModels = []\<rparr> | Some s \<Rightarrow> s) = ?st"
    by (simp add: stateOf_def)
  show ?thesis
  proof (cases "catchAllIndex ?st = None")
    case False
    then obtain q where "q \<in> set rs" "routePath q = routePath r" "routeModelList q = []"
      using tracksPath_catchAll [OF t, of "routePath r"] by auto
    then have "\<not> (\<forall>q \<in> set rs. routes_compatible q r)" by (auto simp: routes_compatible_def)
    moreover have "routeIndex e = Some idx"
      using v False unfolding validateAdvancedCustomRouteModels_def Let_def st
      by (auto simp: routeError_def split: if_splits)
    ultimately show ?thesis by blast
  next
    case True
    then have "validateModelLoop idx [] ?st (routeModelList r) = Inl e"
      using v unfolding validateAdvancedCustomRouteModels_def Let_def st
      by (auto split: if_splits sum.splits)
    note L = validateModelLoop_Inl [OF this]
    show ?thesis
    proof (cases "set (routeModelList r) \<inter> fst ` set (pathModels ?st) = {}")
      case True
      with L show ?thesis by auto
    next
      case False
      then obtain q where "q \<in> set rs" "routePath q = routePath r"
        "set (routeModelList q) \<inter> set (routeModelList r) \<noteq> {}"
        using t by (auto simp: tracksPath_def)
      with L show ?thesis by (auto simp: routes_compatible_def)
    qed
  qed
qed

subsection \<open>One iteration, and the whole loop\<close>

lemma validateRoute_Inr:
  assumes t: "tracks vs rs" and v: "validateRoute u idx r vs = Inr vs'"
  shows "tracks vs' (rs @ [r]) \<and> route_ok u r \<and> (\<forall>q \<in> set rs. routes_compatible q r)"
proof -
  have tp: "tracksPath (routeModelsByPath vs) rs" using t by (simp add: tracks_def)
  obtain byPath where m: "validateAdvancedCustomRouteModels idx (routePath r) (routeModelList r)
      (routeModelsByPath vs) = Inr byPath"
    using v unfolding validateRoute_def Let_def by (auto split: if_splits sum.splits)
  note M = validateRouteModels_Inr [OF tp m]
  have "route_ok u r"
    using v M m unfolding validateRoute_def route_ok_def Let_def
    by (auto split: if_splits option.splits)
  moreover have "routeModelsByPath vs' = byPath" and
    "modelListRouteIndex vs' = (if routePath r = ADVANCED_CUSTOM_MODEL_LIST_PATH then Some idx
       else modelListRouteIndex vs)"
    using v m unfolding validateRoute_def Let_def by (auto split: if_splits option.splits)
  then have "tracks vs' (rs @ [r])" using t M by (auto simp: tracks_def)
  ultimately show ?thesis using M by blast
qed

lemma validateRoute_Inl:
  assumes t: "tracks vs rs" and ok: "\<forall>q \<in> set rs. route_ok u q" and v: "validateRoute u idx r vs = Inl e"
  shows "routeIndex e = Some idx \<and> \<not> (route_ok u r \<and> (\<forall>q \<in> set rs. routes_compatible q r))"
proof (cases "routePath r = ADVANCED_CUSTOM_MODEL_LIST_PATH \<and> modelListRouteIndex vs \<noteq> None")
  case True
  then obtain q where q: "q \<in> set rs" "routePath q = routePath r"
    using t by (auto simp: tracks_def)
  then have "routeModelList q = []" using ok True by (auto simp: route_ok_def)
  then have "\<not> routes_compatible q r" using q by (simp add: routes_compatible_def)
  moreover have "routeIndex e = Some idx"
    using v True unfolding validateRoute_def Let_def by (auto simp: routeError_def split: if_splits)
  ultimately show ?thesis using q by blast
next
  case False
  have tp: "tracksPath (routeModelsByPath vs) rs" using t by (simp add: tracks_def)
  show ?thesis
  proof (cases "validateAdvancedCustomRouteModels idx (routePath r) (routeModelList r) (routeModelsByPath vs)")
    case (Inl e')
    note L = validateRouteModels_Inl [OF tp Inl]
    show ?thesis
      using v L Inl unfolding validateRoute_def route_ok_def Let_def
      by (auto simp: routeError_def split: if_splits)
  next
    case (Inr byPath)
    show ?thesis
      using v False Inr unfolding validateRoute_def route_ok_def Let_def
      by (auto simp: routeError_def split: if_splits option.splits)
  qed
qed

lemma validateRoutes_spec:
  assumes "tracks vs pre" "routes_valid u pre" "idx = length pre"
  shows "case validateRoutes u idx rs vs of
      None \<Rightarrow> routes_valid u (pre @ rs)
    | Some e \<Rightarrow> \<exists>i. routeIndex e = Some (idx + i) \<and> i < length rs \<and>
        routes_valid u (pre @ take i rs) \<and> \<not> routes_valid u (pre @ take (Suc i) rs)"
  using assms
proof (induction rs arbitrary: pre idx vs)
  case (Cons r rs)
  show ?case
  proof (cases "validateRoute u idx r vs")
    case (Inl e)
    then have "routeIndex e = Some idx \<and> \<not> (route_ok u r \<and> (\<forall>q \<in> set pre. routes_compatible q r))"
      using validateRoute_Inl [OF Cons.prems(1) _ Inl] Cons.prems(2) by (simp add: routes_valid_def)
    then show ?thesis
      using Inl Cons.prems(2) by (auto simp: routes_valid_snoc intro!: exI [of _ 0])
  next
    case (Inr vs')
    note R = validateRoute_Inr [OF Cons.prems(1) Inr]
    have "routes_valid u (pre @ [r])" using R Cons.prems(2) by (simp add: routes_valid_snoc)
    with Cons.IH [of vs' "pre @ [r]" "Suc idx"] R Cons.prems(3)
    have IH: "case validateRoutes u (Suc idx) rs vs' of
        None \<Rightarrow> routes_valid u ((pre @ [r]) @ rs)
      | Some e \<Rightarrow> \<exists>i. routeIndex e = Some (Suc idx + i) \<and> i < length rs \<and>
          routes_valid u ((pre @ [r]) @ take i rs) \<and> \<not> routes_valid u ((pre @ [r]) @ take (Suc i) rs)"
      by simp
    show ?thesis
    proof (cases "validateRoutes u (Suc idx) rs vs'")
      case None
      with IH Inr show ?thesis by simp
    next
      case (Some e)
      with IH obtain i where "routeIndex e = Some (Suc idx + i)" "i < length rs"
        "routes_valid u ((pre @ [r]) @ take i rs)" "\<not> routes_valid u ((pre @ [r]) @ take (Suc i) rs)"
        by auto
      with Some Inr show ?thesis by (auto intro!: exI [of _ "Suc i"])
    qed
  qed
qed (simp add: routes_valid_def)

lemmas validateRoutes_initial =
  validateRoutes_spec [OF tracks_initial, of _ 0, simplified]

section \<open>Literals\<close>

lemma trim_nonblank: "trim (js s) = js s" if "list_all (\<lambda>c. \<not> is_ws (of_char c)) s" for s
  using that by (rule trim_js)

lemma trim_literals [simp]:
  "trim openAIChatPath = openAIChatPath" "trim openAIResponsesPath = openAIResponsesPath"
  "trim claudeMessagesPath = claudeMessagesPath" "trim geminiGenerateContentPath = geminiGenerateContentPath"
  by (simp_all add: openAIChatPath_def openAIResponsesPath_def claudeMessagesPath_def
      geminiGenerateContentPath_def trim_js is_ws_def)

lemma validateRouteAuth_presets [simp]:
  "validateRouteAuth (Some bearerHeaderAuth) = None"
  "validateRouteAuth (Some apiKeyHeaderAuth) = None"
  "validateRouteAuth (Some geminiQueryAuth) = None"
  by (simp_all add: validateRouteAuth_def bearerHeaderAuth_def apiKeyHeaderAuth_def geminiQueryAuth_def
      trim_eq_Nil js.simps is_ws_def or_str_def)

lemma validateRouteAuth_native [simp]: "validateRouteAuth (Some (getAdvancedCustomNativeAuth p)) = None"
  by (simp add: getAdvancedCustomNativeAuth_def)

lemma validateRoutes_None_iff:
  "validateRoutes u 0 rs initialValidatorState = None \<longleftrightarrow> routes_valid u rs"
proof (cases "validateRoutes u 0 rs initialValidatorState")
  case None
  with validateRoutes_initial [of u rs] show ?thesis by (simp add: routes_valid_def)
next
  case (Some e)
  with validateRoutes_initial [of u rs] obtain i where
    "\<not> routes_valid u (take (Suc i) rs)" by (auto simp: routes_valid_def)
  moreover have "routes_valid u rs \<Longrightarrow> routes_valid u (take (Suc i) rs)"
    by (auto simp: routes_valid_def sorted_wrt_take dest: in_set_takeD)
  ultimately show ?thesis using Some by auto
qed

lemma routes_valid_single: "routes_valid u [r] \<longleftrightarrow> route_ok u r"
  by (simp add: routes_valid_def)

lemma validateConfig_None_iff:
  "validateAdvancedCustomConfig u (Some \<lparr>advanced_routes = Some rs\<rparr>) = None \<longleftrightarrow>
     rs \<noteq> [] \<and> routes_valid u (map normalizeAdvancedCustomRoute rs)"
  by (simp add: validateAdvancedCustomConfig_def normalizedRoutes_def normalizeAdvancedCustomConfig_def
      Let_def validateRoutes_None_iff)

lemma converter_cases:
  assumes "isAdvancedCustomConverter c"
  shows "c \<in> js ` {''none'', ''anthropic_messages_to_openai_chat_completions'',
    ''openai_chat_completions_to_anthropic_messages'', ''openai_chat_completions_to_openai_responses'',
    ''openai_responses_to_openai_chat_completions'', ''openai_responses_to_gemini_generate_content'',
    ''gemini_generate_content_to_openai_chat_completions'',
    ''openai_chat_completions_to_gemini_generate_content''}"
  using assms by (auto simp: isAdvancedCustomConverter_def ADVANCED_CUSTOM_CONVERTER_OPTIONS_def)

lemma normalizeRoute_idem [simp]:
  "normalizeAdvancedCustomRoute (normalizeAdvancedCustomRoute r) = normalizeAdvancedCustomRoute r"
proof -
  have f: "filter (\<lambda>m. m \<noteq> []) (map trim (filter (\<lambda>m. m \<noteq> []) (map trim xs))) =
      filter (\<lambda>m. m \<noteq> []) (map trim xs)" for xs
    by (induction xs) auto
  have o: "or_str (Some (or_str s d)) d = or_str s d" for s and d :: jsstring
    by (simp add: or_str_def split: option.splits)
  have t: "trim (or_str (Some (trim s)) []) = trim s" for s
    by (simp add: or_str_def)
  show ?thesis
    by (cases "auth r"; cases "models r")
      (simp_all add: normalizeAdvancedCustomRoute_def Let_def normalizeAdvancedCustomRouteModels_def
        getAdvancedCustomRouteUpstreamPath_def f o t)
qed

lemma validateRouteAuth_normalized [simp]:
  "validateRouteAuth (Some \<lparr>auth_type = auth_type a, auth_name = Some (or_str (auth_name a) []),
     auth_value = Some (or_str (auth_value a) [])\<rparr>) = validateRouteAuth (Some a)"
proof -
  have "or_str (Some (or_str s [])) [] = or_str s []" for s
    by (simp add: or_str_def split: option.splits)
  then show ?thesis by (simp add: validateRouteAuth_def)
qed

lemma route_ok_templateRoute:
  assumes "trim inc = inc" "startsWith inc (js ''/'')" "trim up = up"
    "startsWith up (js ''/'')" "\<not> startsWith up (js ''//'')"
  shows "route_ok u (normalizeAdvancedCustomRoute (templateRoute inc up conv a)) \<longleftrightarrow>
    \<not> str_includes inc (js ''?'') \<and>
    (inc = ADVANCED_CUSTOM_MODEL_LIST_PATH \<longrightarrow>
       or_str (Some conv) (js ''none'') = js ''none'' \<and> \<not> str_includes up (js ''{model}'')) \<and>
    isAdvancedCustomConverter (or_str (Some conv) (js ''none'')) \<and>
    isConverterPathAllowed inc (or_str (Some conv) (js ''none'')) \<and> validateRouteAuth (Some a) = None"
proof -
  have ne: "inc \<noteq> []" "up \<noteq> []" using assms by (auto simp: startsWith_def js.simps)
  have o: "or_str (Some (or_str (Some conv) (js ''none''))) (js ''none'') = or_str (Some conv) (js ''none'')"
    by (simp add: or_str_def)
  show ?thesis
    using assms ne
    by (simp add: route_ok_def normalizeAdvancedCustomRoute_def templateRoute_def Let_def routePath_def
        getAdvancedCustomRouteUpstreamPath_def normalizeAdvancedCustomRouteModels_def
        isFullHttpURLOrAbsolutePath_def o)
qed

lemma routePath_templateRoute:
  "trim inc = inc \<Longrightarrow> routePath (normalizeAdvancedCustomRoute (templateRoute inc up conv a)) = inc"
  by (cases "inc = []") (simp_all add: routePath_def normalizeAdvancedCustomRoute_def templateRoute_def Let_def)

lemma model_list_routes:
  "routes_valid u rs \<Longrightarrow> length (filter (\<lambda>r. routePath r = ADVANCED_CUSTOM_MODEL_LIST_PATH) rs) \<le> 1"
proof (induction rs)
  case (Cons r rs)
  show ?case
  proof (cases "routePath r = ADVANCED_CUSTOM_MODEL_LIST_PATH")
    case True
    then have "routeModelList r = []" using Cons.prems by (simp add: routes_valid_def route_ok_def)
    then have "\<forall>q \<in> set rs. routePath q \<noteq> ADVANCED_CUSTOM_MODEL_LIST_PATH"
      using Cons.prems True by (auto simp: routes_valid_def routes_compatible_def)
    then have "filter (\<lambda>r. routePath r = ADVANCED_CUSTOM_MODEL_LIST_PATH) rs = []" by simp
    with True show ?thesis by simp
  next
    case False
    with Cons show ?thesis by (simp add: routes_valid_def)
  qed
qed simp

section \<open>Properties\<close>

text \<open>C5.  The validator is correct and complete: it accepts a configuration exactly when there is a
  route, every route is acceptable on its own (path, upstream, converter, authentication, model
  rules, and the restrictions of the model list route), and for every path no route follows a
  catch-all route and no model is claimed twice.\<close>

theorem validate_decides:
  "validateAdvancedCustomConfig parse_url (Some c) = None \<longleftrightarrow>
     normalizedRoutes c \<noteq> [] \<and> routes_valid parse_url (normalizedRoutes c)"
  by (simp add: validateAdvancedCustomConfig_def Let_def validateRoutes_None_iff)

text \<open> A refusal names the first route that is wrong: all routes before the index reported are
  a valid configuration, and with the route at that index they are not.\<close>

lemma validate_reports_first_error:
  assumes "validateAdvancedCustomConfig parse_url (Some c) = Some e" and "normalizedRoutes c \<noteq> []"
  shows "\<exists>i < length (normalizedRoutes c). routeIndex e = Some i \<and>
    routes_valid parse_url (take i (normalizedRoutes c)) \<and>
    \<not> routes_valid parse_url (take (Suc i) (normalizedRoutes c))"
  using validateRoutes_initial [of parse_url "normalizedRoutes c"] assms
  by (auto simp: validateAdvancedCustomConfig_def Let_def routes_valid_def)

definition duplicateCatchAll :: AdvancedCustomConfig where
  "duplicateCatchAll = \<lparr>advanced_routes = Some [createAdvancedCustomRoute, createAdvancedCustomRoute]\<rparr>"

text \<open> Every configuration template the form offers, and the configuration it starts with, is
  accepted by the validator.\<close>

lemma templates_valid:
  "list_all (\<lambda>t. validateAdvancedCustomConfig parse_url (Some (tmpl_config t)) = None)
     ADVANCED_CUSTOM_TEMPLATE_OPTIONS \<and>
   validateAdvancedCustomConfig parse_url (Some createAdvancedCustomConfig) = None"
proof
  show "list_all (\<lambda>t. validateAdvancedCustomConfig parse_url (Some (tmpl_config t)) = None)
     ADVANCED_CUSTOM_TEMPLATE_OPTIONS"
    unfolding ADVANCED_CUSTOM_TEMPLATE_OPTIONS_def
    by (simp add: validateConfig_None_iff routes_valid_def routes_compatible_def
        route_ok_templateRoute routePath_templateRoute trim_js is_ws_of_char
        ADVANCED_CUSTOM_MODEL_LIST_PATH_def isAdvancedCustomConverter_def
        ADVANCED_CUSTOM_CONVERTER_OPTIONS_def isConverterPathAllowed_def sublist_code)
  have "route_ok parse_url (normalizeAdvancedCustomRoute createAdvancedCustomRoute)"
    by (simp add: route_ok_def normalizeAdvancedCustomRoute_def createAdvancedCustomRoute_def Let_def
        routePath_def getAdvancedCustomRouteUpstreamPath_def normalizeAdvancedCustomRouteModels_def
        isFullHttpURLOrAbsolutePath_def validateRouteAuth_def openAIChatPath_def trim_js is_ws_of_char
        ADVANCED_CUSTOM_MODEL_LIST_PATH_def isAdvancedCustomConverter_def
        ADVANCED_CUSTOM_CONVERTER_OPTIONS_def isConverterPathAllowed_def sublist_code)
  then show "validateAdvancedCustomConfig parse_url (Some createAdvancedCustomConfig) = None"
    by (simp add: createAdvancedCustomConfig_def validateConfig_None_iff routes_valid_single)
qed

text \<open> The upstream path and authentication that a converter proposes for a path it is allowed
  on make a valid route: filling in the defaults of the form never leaves it in a refused state.\<close>

lemma converter_defaults_valid:
  assumes "isAdvancedCustomConverter conv" and "isAdvancedCustomIncomingPathAllowed p conv"
    and "trim p = p" and "startsWith p (js ''/'')" and "\<not> startsWith p (js ''//'')"
    and "\<not> str_includes p (js ''?'')"
  shows "validateAdvancedCustomConfig parse_url (Some \<lparr>advanced_routes = Some
    [\<lparr>incoming_path = Some p,
      upstream_path = Some (def_upstream_path (getAdvancedCustomConverterDefaults conv p)),
      converter = Some conv, models = None,
      auth = def_auth (getAdvancedCustomConverterDefaults conv p)\<rparr>]\<rparr>) = None"
proof -
  have ne: "p \<noteq> []" using assms(4) by (auto simp: startsWith_def js.simps)
  have lits: "startsWith openAIChatPath (js ''/'')" "\<not> startsWith openAIChatPath (js ''//'')"
    "startsWith openAIResponsesPath (js ''/'')" "\<not> startsWith openAIResponsesPath (js ''//'')"
    "startsWith claudeMessagesPath (js ''/'')" "\<not> startsWith claudeMessagesPath (js ''//'')"
    "startsWith geminiGenerateContentPath (js ''/'')" "\<not> startsWith geminiGenerateContentPath (js ''//'')"
    by (simp_all add: openAIChatPath_def openAIResponsesPath_def claudeMessagesPath_def
        geminiGenerateContentPath_def)
  have ml: "conv = js ''none'' \<or> p \<noteq> ADVANCED_CUSTOM_MODEL_LIST_PATH"
    using converter_cases [OF assms(1)] assms(2)
    by (auto simp: isAdvancedCustomIncomingPathAllowed_def isConverterPathAllowed_def
        ADVANCED_CUSTOM_MODEL_LIST_PATH_def sublist_code split: if_splits)
  obtain up a where d: "getAdvancedCustomConverterDefaults conv p = \<lparr>def_upstream_path = up, def_auth = Some a\<rparr>"
    and up: "trim up = up" "startsWith up (js ''/'')" "\<not> startsWith up (js ''//'')"
    and a: "validateRouteAuth (Some a) = None" and un: "conv = js ''none'' \<Longrightarrow> up = p"
    using converter_cases [OF assms(1)] assms(3-5) ne lits
    by (auto simp: getAdvancedCustomConverterDefaults_def Let_def)
  have or: "or_str (Some conv) (js ''none'') = conv"
    using converter_cases [OF assms(1)] by auto
  have "route_ok parse_url (normalizeAdvancedCustomRoute (templateRoute p up conv a))"
    using assms ml un a or
    by (auto simp: route_ok_templateRoute [OF assms(3,4) up] isAdvancedCustomIncomingPathAllowed_def
        ADVANCED_CUSTOM_MODEL_LIST_PATH_def sublist_code)
  then show ?thesis
    by (simp add: d validateConfig_None_iff routes_valid_single templateRoute_def)
qed

text \<open>A valid configuration has at most one model list route.\<close>

lemma model_list_route_unique:
  assumes "validateAdvancedCustomConfig parse_url (Some c) = None"
  shows "length (filter (\<lambda>r. routePath r = ADVANCED_CUSTOM_MODEL_LIST_PATH) (normalizedRoutes c)) \<le> 1"
proof (rule model_list_routes)
  show "routes_valid parse_url (normalizedRoutes c)"
    using assms by (simp add: validateAdvancedCustomConfig_def Let_def validateRoutes_None_iff split: if_splits)
qed

end
