(* ===== verification/JsValue.thy ===== *)
theory JsValue
  imports JsPrelude Complex_Main
begin

text \<open>
  Dynamically typed values, for the code that receives \<open>unknown\<close> and checks it: numbers with their
  special values, and the values of \<open>JSON.parse\<close> together with \<open>undefined\<close>.  Reading a property that a
  value does not have, or a property of an array, gives \<open>undefined\<close>, as the named properties the code reads
  are never properties of an array.
\<close>

datatype 'n jsnum = Num 'n | NaN | Infinite

datatype jsval =
    JUndef
  | JNull
  | JBool bool
  | JNum "rat jsnum"
  | JStr jsstring
  | JArr "jsval list"
  | JObj "(jsstring \<times> jsval) list"

text \<open>\<open>Boolean(value) && typeof value === 'object'\<close>.\<close>

fun isRecord :: "jsval \<Rightarrow> bool" where
  "isRecord (JObj _) = True"
| "isRecord (JArr _) = True"
| "isRecord _ = False"

fun get_prop :: "jsval \<Rightarrow> jsstring \<Rightarrow> jsval" where
  "get_prop (JObj fs) k = (case map_of fs k of Some v \<Rightarrow> v | None \<Rightarrow> JUndef)"
| "get_prop _ k = JUndef"

fun isString :: "jsval \<Rightarrow> bool" where
  "isString (JStr _) = True"
| "isString _ = False"

fun isNumberVal :: "jsval \<Rightarrow> bool" where
  "isNumberVal (JNum _) = True"
| "isNumberVal _ = False"

fun isBoolean :: "jsval \<Rightarrow> bool" where
  "isBoolean (JBool _) = True"
| "isBoolean _ = False"

fun isInteger :: "jsval \<Rightarrow> bool" where
  "isInteger (JNum (Num q)) = (of_int \<lfloor>q\<rfloor> = q)"
| "isInteger _ = False"

text \<open>Reading a value at the type that a check has established.\<close>

fun the_str :: "jsval \<Rightarrow> jsstring" where
  "the_str (JStr s) = s"
| "the_str _ = []"

fun the_num :: "jsval \<Rightarrow> rat jsnum" where
  "the_num (JNum n) = n"
| "the_num _ = NaN"

fun the_bool :: "jsval \<Rightarrow> bool" where
  "the_bool (JBool b) = b"
| "the_bool _ = False"

definition finite_pos :: "rat jsnum \<Rightarrow> bool" where
  "finite_pos n = (case n of Num q \<Rightarrow> q > 0 | _ \<Rightarrow> False)"

definition finite_of :: "rat jsnum \<Rightarrow> rat" where
  "finite_of n = (case n of Num q \<Rightarrow> q | _ \<Rightarrow> 0)"

end
