(* ===== verification/FlowModel.thy ===== *)
theory FlowModel
  imports JsValue
begin

text \<open>
  The dashboard's flow analysis (\<open>src/web/src/features/dashboard/lib/flow.ts\<close>, types in
  \<open>src/web/src/features/dashboard/types.ts\<close>): rows of quota data become paths through the visible
  stages (user, node, token, group, model, channel), which are accumulated into the nodes and links
  of a Sankey graph.  This theory holds the definitions; the theorems are in \<open>FlowProofs\<close>.

  The identifiers and the metrics of a row are integers (Go \<open>int\<close> fields of \<open>FlowQuotaData\<close>), so a
  number is \<open>Num i\<close>, \<open>NaN\<close>, or \<open>Infinite\<close>, the last two of which \<open>numberValue\<close> maps to zero; node limits,
  shares and opacities are rationals.  What the code takes from outside the repository or from the
  host is a field of \<open>FlowEnv\<close>: \<open>String.prototype.localeCompare\<close>, \<open>Number.prototype.toFixed(2)\<close>,
  \<open>Intl.NumberFormat(...).format\<close> and the default colour scheme of the charting package.
  A \<open>Map\<close> is an association list in insertion order.
\<close>

section \<open>Data\<close>

record FlowQuotaDataItem =
  user_id :: "int jsnum option"
  username :: "jsstring option"
  node_name :: "jsstring option"
  use_group :: "jsstring option"
  token_id :: "int jsnum option"
  token_name :: "jsstring option"
  channel_id :: "int jsnum option"
  channel_name :: "jsstring option"
  model_name :: "jsstring option"
  token_used :: "int jsnum option"
  row_count :: "int jsnum option"
  row_quota :: "int jsnum option"

datatype FlowMetric = MQuota | MTokens | MRequests

datatype FlowOverflowMode = Aggregate | Hide

datatype FlowRole = RoleUser | RoleAdmin | RoleRoot

datatype FlowNodeKind = KUser | KNode | KToken | KGroup | KModel | KChannel

record FlowNodeFilter =
  filter_kind :: FlowNodeKind
  filter_id :: jsstring

record FlowLinkSelection =
  sel_source :: jsstring
  sel_target :: jsstring

record FlowBuildOptions =
  role :: "FlowRole option"
  selectedUsers :: "jsstring list option"
  selectedNodes :: "FlowNodeFilter list option"
  activeNode :: "FlowNodeFilter option"
  activeLink :: "FlowLinkSelection option"
  colorPaletteOpt :: "jsstring list option"
  visibleStages :: "FlowNodeKind list option"
  topNodeLimit :: "rat jsnum option"
  overflowMode :: "FlowOverflowMode option"
  maskSensitive :: bool
  deletedTokenLabelOpt :: "(int \<Rightarrow> jsstring) option"
  otherNodeLabel :: "(FlowNodeKind \<Rightarrow> jsstring) option"

record DashboardFlowNode =
  nid :: jsstring
  nlabel :: jsstring
  nkind :: FlowNodeKind
  nvalue :: int
  nrequests :: int
  nquota :: int
  ntokens :: int
  ncolor :: jsstring
  ncolorKey :: jsstring
  nhighlighted :: "bool option"
  ndimmed :: "bool option"

record DashboardFlowLink =
  lsource :: jsstring
  ltarget :: jsstring
  lvalue :: int
  lrequests :: int
  lquota :: int
  ltokens :: int
  lsourceLabel :: jsstring
  ltargetLabel :: jsstring
  lcolor :: jsstring
  llinkColor :: jsstring
  llinkAlpha :: rat
  lhoverColor :: jsstring
  lcolorKey :: jsstring
  lshare :: rat
  lhighlighted :: "bool option"
  ldimmed :: "bool option"

record DashboardFlowGraph =
  graph_nodes :: "DashboardFlowNode list"
  graph_links :: "DashboardFlowLink list"

record FlowUserFilterOption =
  uopt_value :: jsstring
  uopt_label :: jsstring
  uopt_valueLabel :: jsstring
  uopt_valueRaw :: int
  uopt_color :: jsstring

record FlowNodeFilterOption =
  nopt_kind :: FlowNodeKind
  nopt_value :: jsstring
  nopt_label :: jsstring
  nopt_valueLabel :: jsstring
  nopt_valueRaw :: int
  nopt_color :: jsstring

record FlowFilterOptions =
  fopt_users :: "FlowUserFilterOption list"
  fopt_nodes :: "FlowNodeFilterOption list"

record FlowSummary =
  sum_quota :: int
  sum_tokens :: int
  sum_requests :: int

record ProcessedFlowData =
  summary :: FlowSummary
  flow :: DashboardFlowGraph
  filterOptions :: FlowFilterOptions

record FlowMetrics =
  mquota :: int
  mtokens :: int
  mrequests :: int

record FlowPathNode =
  pid :: jsstring
  plabel :: jsstring
  pkind :: FlowNodeKind

record PreparedFlowPath =
  ppath :: "FlowPathNode list"
  pmetrics :: FlowMetrics

record FlowNodeRank =
  rank_node :: FlowPathNode
  rank_value :: int

type_synonym FlowPathContext = "(int \<Rightarrow> jsstring) option"

record FlowHighlightSets =
  hl_nodes :: "jsstring list"
  hl_links :: "jsstring list"

record FlowEnv =
  localeCompare :: "jsstring \<Rightarrow> jsstring \<Rightarrow> int"
  toFixed2 :: "rat \<Rightarrow> jsstring"
  formatNumber :: "int \<Rightarrow> jsstring"
  vchartDefaultDataScheme :: "(nat option \<times> jsstring option list) list"

definition DEFAULT_FLOW_CHART_COLOR :: jsstring where
  "DEFAULT_FLOW_CHART_COLOR = js ''#1664FF''"

definition OTHER_FLOW_NODE_IDS :: "FlowNodeKind \<Rightarrow> jsstring" where
  "OTHER_FLOW_NODE_IDS k = (case k of
     KUser \<Rightarrow> js ''user:__other__'' | KNode \<Rightarrow> js ''node:__other__'' | KToken \<Rightarrow> js ''token:__other__''
   | KGroup \<Rightarrow> js ''group:__other__'' | KModel \<Rightarrow> js ''model:__other__''
   | KChannel \<Rightarrow> js ''channel:__other__'')"

definition DEFAULT_OTHER_FLOW_NODE_LABELS :: "FlowNodeKind \<Rightarrow> jsstring" where
  "DEFAULT_OTHER_FLOW_NODE_LABELS k = (case k of
     KUser \<Rightarrow> js ''Other users'' | KNode \<Rightarrow> js ''Other nodes'' | KToken \<Rightarrow> js ''Other tokens''
   | KGroup \<Rightarrow> js ''Other groups'' | KModel \<Rightarrow> js ''Other models'' | KChannel \<Rightarrow> js ''Other channels'')"

definition SENSITIVE_FLOW_KINDS :: "FlowNodeKind list" where
  "SENSITIVE_FLOW_KINDS = [KUser, KNode, KToken, KGroup, KChannel]"

definition OTHER_FLOW_NODE_ID_SET :: "jsstring list" where
  "OTHER_FLOW_NODE_ID_SET = map OTHER_FLOW_NODE_IDS [KUser, KNode, KToken, KGroup, KModel, KChannel]"

section \<open>Rows to paths\<close>

definition numberValue :: "int jsnum option \<Rightarrow> int" where
  "numberValue v = (case v of Some (Num n) \<Rightarrow> n | _ \<Rightarrow> 0)"

definition rowMetrics :: "FlowQuotaDataItem \<Rightarrow> FlowMetrics" where
  "rowMetrics row = \<lparr>mquota = numberValue (row_quota row), mtokens = numberValue (token_used row),
     mrequests = numberValue (row_count row)\<rparr>"

definition metricValue :: "FlowMetrics \<Rightarrow> FlowMetric \<Rightarrow> int" where
  "metricValue metrics metric =
     (if metric = MRequests then mrequests metrics
      else if metric = MTokens then mtokens metrics else mquota metrics)"

definition userNode :: "FlowQuotaDataItem \<Rightarrow> FlowPathNode" where
  "userNode row = (let userID = numberValue (user_id row) in
     \<lparr>pid = (if userID > 0 then js ''user:'' @ int_str userID
             else js ''user:'' @ or_str (username row) (js ''unknown'')),
      plabel = or_str (username row)
        (if userID > 0 then js ''user-'' @ int_str userID else js ''Unknown User''),
      pkind = KUser\<rparr>)"

definition nodeNameNode :: "FlowQuotaDataItem \<Rightarrow> FlowPathNode" where
  "nodeNameNode row = (let nodeName = or_str (node_name row) (js ''default-node'') in
     \<lparr>pid = js ''node:'' @ nodeName, plabel = nodeName, pkind = KNode\<rparr>)"

definition deletedTokenLabel :: "int \<Rightarrow> FlowPathContext \<Rightarrow> jsstring" where
  "deletedTokenLabel tokenID ctx =
     (if tokenID \<le> 0 then js ''Unknown Token''
      else (case ctx of Some f \<Rightarrow> f tokenID | None \<Rightarrow> js ''token-'' @ int_str tokenID))"

definition tokenNode :: "FlowQuotaDataItem \<Rightarrow> FlowPathContext \<Rightarrow> FlowPathNode" where
  "tokenNode row ctx = (let tokenID = numberValue (token_id row) in
     \<lparr>pid = (if tokenID > 0 then js ''token:'' @ int_str tokenID
             else js ''token:'' @ or_str (token_name row) (js ''unknown'')),
      plabel = or_str (token_name row) (deletedTokenLabel tokenID ctx),
      pkind = KToken\<rparr>)"

definition groupNode :: "FlowQuotaDataItem \<Rightarrow> FlowPathNode" where
  "groupNode row = (let useGroup = or_str (use_group row) (js ''unknown'') in
     \<lparr>pid = js ''group:'' @ useGroup, plabel = useGroup, pkind = KGroup\<rparr>)"

definition modelNode :: "FlowQuotaDataItem \<Rightarrow> FlowPathNode" where
  "modelNode row =
     \<lparr>pid = js ''model:'' @ or_str (model_name row) (js ''unknown''),
      plabel = or_str (model_name row) (js ''Unknown Model''), pkind = KModel\<rparr>"

definition channelNode :: "FlowQuotaDataItem \<Rightarrow> FlowPathNode" where
  "channelNode row = (let channelID = numberValue (channel_id row) in
     \<lparr>pid = (if channelID > 0 then js ''channel:'' @ int_str channelID
             else js ''channel:'' @ or_str (channel_name row) (js ''unknown'')),
      plabel = or_str (channel_name row)
        (if channelID > 0 then js ''channel-'' @ int_str channelID else js ''Unknown''),
      pkind = KChannel\<rparr>)"

definition NODE_BUILDERS :: "FlowNodeKind \<Rightarrow> FlowQuotaDataItem \<Rightarrow> FlowPathContext \<Rightarrow> FlowPathNode" where
  "NODE_BUILDERS k row ctx = (case k of
     KUser \<Rightarrow> userNode row | KNode \<Rightarrow> nodeNameNode row | KToken \<Rightarrow> tokenNode row ctx
   | KGroup \<Rightarrow> groupNode row | KModel \<Rightarrow> modelNode row | KChannel \<Rightarrow> channelNode row)"

definition ROLE_FLOW_STAGES :: "FlowRole \<Rightarrow> FlowNodeKind list" where
  "ROLE_FLOW_STAGES r = (case r of
     RoleRoot \<Rightarrow> [KUser, KNode, KToken, KGroup, KModel, KChannel]
   | RoleAdmin \<Rightarrow> [KUser, KGroup, KModel, KChannel]
   | RoleUser \<Rightarrow> [KToken, KGroup, KModel])"

definition MIN_FLOW_STAGES :: nat where
  "MIN_FLOW_STAGES = 2"

definition getFlowStages :: "FlowRole \<Rightarrow> FlowNodeKind list" where
  "getFlowStages r = ROLE_FLOW_STAGES r"

definition resolveVisibleStages :: "FlowRole \<Rightarrow> FlowNodeKind list option \<Rightarrow> FlowNodeKind list" where
  "resolveVisibleStages r vis =
     (let stages = getFlowStages r in
      case vis of None \<Rightarrow> stages
      | Some v \<Rightarrow>
          (let filtered = filter (\<lambda>stage. stage \<in> set v) stages in
           if length filtered \<ge> MIN_FLOW_STAGES then filtered else stages))"

definition flowPathForStages ::
  "FlowQuotaDataItem \<Rightarrow> FlowNodeKind list \<Rightarrow> FlowPathContext \<Rightarrow> FlowPathNode list" where
  "flowPathForStages row stages ctx = map (\<lambda>stage. NODE_BUILDERS stage row ctx) stages"

section \<open>Colours\<close>

definition getDashboardChartColors :: "FlowEnv \<Rightarrow> nat \<Rightarrow> jsstring list" where
  "getDashboardChartColors env domainLength =
     (let fits = (\<lambda>item. fst item = None \<or> fst item = Some 0 \<or> domainLength \<le> the (fst item));
          scheme = (case find fits (vchartDefaultDataScheme env) of
             Some item \<Rightarrow> Some item
           | None \<Rightarrow> (if vchartDefaultDataScheme env = [] then None
                     else Some (last (vchartDefaultDataScheme env)))) in
      case scheme of None \<Rightarrow> [] | Some item \<Rightarrow> List.map_filter (\<lambda>c. c) (snd item))"

definition colorAt :: "FlowEnv \<Rightarrow> nat \<Rightarrow> jsstring list option \<Rightarrow> jsstring" where
  "colorAt env index palette =
     (let colors = (case palette of
            Some p \<Rightarrow> if p \<noteq> [] then p else getDashboardChartColors env (index + 1)
          | None \<Rightarrow> getDashboardChartColors env (index + 1)) in
      if colors = [] then DEFAULT_FLOW_CHART_COLOR else colors ! (index mod length colors))"

definition colorPalette :: "FlowEnv \<Rightarrow> nat \<Rightarrow> jsstring list option \<Rightarrow> jsstring list" where
  "colorPalette env colorCount palette =
     (let fallback = (let colors = getDashboardChartColors env colorCount in
            if colors \<noteq> [] then colors else [DEFAULT_FLOW_CHART_COLOR]) in
      case palette of Some p \<Rightarrow> if p \<noteq> [] then p else fallback | None \<Rightarrow> fallback)"

definition hexDigit :: "nat \<Rightarrow> nat option" where
  "hexDigit c = (if 48 \<le> c \<and> c \<le> 57 then Some (c - 48)
     else if 97 \<le> c \<and> c \<le> 102 then Some (c - 87)
     else if 65 \<le> c \<and> c \<le> 70 then Some (c - 55) else None)"

definition alphaColor :: "FlowEnv \<Rightarrow> jsstring \<Rightarrow> rat \<Rightarrow> jsstring \<times> rat" where
  "alphaColor env color alpha =
     (let normalized = trim color;
          hex = (if startsWith normalized (js ''#'') then substring_from normalized 1 else normalized) in
      if length hex \<noteq> 6 \<or> \<not> list_all (\<lambda>c. hexDigit c \<noteq> None) hex then (normalized, alpha)
      else
        (let v = foldl (\<lambda>n c. 16 * n + the (hexDigit c)) 0 hex;
             red = (v div 65536) mod 256; green = (v div 256) mod 256; blue = v mod 256 in
         (js ''rgba('' @ nat_str red @ js '', '' @ nat_str green @ js '', '' @ nat_str blue @ js '', ''
            @ toFixed2 env alpha @ js '')'', 1)))"

definition stableColorMap ::
  "FlowEnv \<Rightarrow> jsstring list \<Rightarrow> jsstring list option \<Rightarrow> (jsstring \<times> jsstring) list" where
  "stableColorMap env keys palette =
     (let uniqueKeys = uniq keys;
          colors = colorPalette env (length uniqueKeys) palette in
      map (\<lambda>(index, key). (key, colorAt env index (Some colors))) (enumerate 0 uniqueKeys))"

section \<open>Filtering rows\<close>

definition filterRows :: "FlowQuotaDataItem list \<Rightarrow> jsstring list option \<Rightarrow> FlowQuotaDataItem list" where
  "filterRows rows users =
     (let sel = uniq (case users of None \<Rightarrow> [] | Some u \<Rightarrow> u) in
      if sel = [] then rows else filter (\<lambda>row. pid (userNode row) \<in> set sel) rows)"

definition kindName :: "FlowNodeKind \<Rightarrow> jsstring" where
  "kindName k = (case k of KUser \<Rightarrow> js ''user'' | KNode \<Rightarrow> js ''node'' | KToken \<Rightarrow> js ''token''
     | KGroup \<Rightarrow> js ''group'' | KModel \<Rightarrow> js ''model'' | KChannel \<Rightarrow> js ''channel'')"

definition nodeFilterKey :: "FlowNodeFilter \<Rightarrow> jsstring" where
  "nodeFilterKey f = kindName (filter_kind f) @ [0] @ filter_id f"

definition set_add :: "'a list \<Rightarrow> 'a \<Rightarrow> 'a list" where
  "set_add xs x = (if x \<in> set xs then xs else xs @ [x])"

definition normalizeSelectedNodeFilters ::
  "FlowNodeFilter list option \<Rightarrow> FlowNodeKind list \<Rightarrow> (FlowNodeKind \<times> jsstring list) list" where
  "normalizeSelectedNodeFilters sel stages =
     foldl (\<lambda>filters f.
         if filter_kind f \<notin> set stages then filters
         else AList.update (filter_kind f)
           (set_add (case map_of filters (filter_kind f) of None \<Rightarrow> [] | Some ids \<Rightarrow> ids) (filter_id f)) filters)
       [] (case sel of None \<Rightarrow> [] | Some fs \<Rightarrow> fs)"

definition pathMatchesNodeFilters ::
  "FlowPathNode list \<Rightarrow> (FlowNodeKind \<times> jsstring list) list \<Rightarrow> bool" where
  "pathMatchesNodeFilters path filters =
     list_all (\<lambda>(kind, ids).
       list_ex (\<lambda>i. list_ex (\<lambda>node. pkind node = kind \<and> pid node = i) path) ids) filters"

definition filterRowsByNodes ::
  "FlowQuotaDataItem list \<Rightarrow> FlowNodeFilter list option \<Rightarrow> FlowNodeKind list \<Rightarrow> FlowPathContext \<Rightarrow>
     FlowQuotaDataItem list" where
  "filterRowsByNodes rows sel stages ctx =
     (let filters = normalizeSelectedNodeFilters sel stages in
      if filters = [] then rows
      else filter (\<lambda>row. pathMatchesNodeFilters (flowPathForStages row stages ctx) filters) rows)"

definition selectedNodeFiltersExceptKind ::
  "FlowNodeFilter list option \<Rightarrow> FlowNodeKind \<Rightarrow> FlowNodeFilter list option" where
  "selectedNodeFiltersExceptKind sel kind =
     (let filtered = filter (\<lambda>f. filter_kind f \<noteq> kind) (case sel of None \<Rightarrow> [] | Some fs \<Rightarrow> fs) in
      if filtered \<noteq> [] then Some filtered else None)"

section \<open>Accumulating nodes and links\<close>

definition addNode ::
  "(jsstring \<times> DashboardFlowNode) list \<Rightarrow> FlowPathNode \<Rightarrow> FlowMetrics \<Rightarrow> FlowMetric \<Rightarrow> jsstring \<Rightarrow>
     jsstring \<Rightarrow> (jsstring \<times> DashboardFlowNode) list" where
  "addNode m pathNode metrics metric color colorKey =
     (let previous = (case map_of m (pid pathNode) of
            Some n \<Rightarrow> n
          | None \<Rightarrow> \<lparr>nid = pid pathNode, nlabel = plabel pathNode, nkind = pkind pathNode, nvalue = 0,
              nrequests = 0, nquota = 0, ntokens = 0, ncolor = color, ncolorKey = colorKey,
              nhighlighted = None, ndimmed = None\<rparr>) in
      AList.update (pid pathNode)
        (previous\<lparr>nvalue := nvalue previous + metricValue metrics metric,
          nrequests := nrequests previous + mrequests metrics,
          nquota := nquota previous + mquota metrics,
          ntokens := ntokens previous + mtokens metrics\<rparr>) m)"

definition pathLinkKey :: "FlowPathNode \<Rightarrow> FlowPathNode \<Rightarrow> jsstring" where
  "pathLinkKey source target = pid source @ [0] @ pid target"

definition linkStableKey :: "DashboardFlowLink \<Rightarrow> jsstring" where
  "linkStableKey link = lsource link @ [0] @ ltarget link"

definition addLink ::
  "(jsstring \<times> DashboardFlowLink) list \<Rightarrow> FlowPathNode \<Rightarrow> FlowPathNode \<Rightarrow> FlowMetrics \<Rightarrow> FlowMetric \<Rightarrow>
     jsstring \<Rightarrow> jsstring \<Rightarrow> (jsstring \<times> DashboardFlowLink) list" where
  "addLink m source target metrics metric color colorKey =
     (let key = pathLinkKey source target;
          previous = (case map_of m key of
            Some l \<Rightarrow> l
          | None \<Rightarrow> \<lparr>lsource = pid source, ltarget = pid target, lvalue = 0, lrequests = 0, lquota = 0,
              ltokens = 0, lsourceLabel = plabel source, ltargetLabel = plabel target, lcolor = color,
              llinkColor = color, llinkAlpha = 1, lhoverColor = color, lcolorKey = colorKey, lshare = 0,
              lhighlighted = None, ldimmed = None\<rparr>) in
      AList.update key
        (previous\<lparr>lvalue := lvalue previous + metricValue metrics metric,
          lrequests := lrequests previous + mrequests metrics,
          lquota := lquota previous + mquota metrics,
          ltokens := ltokens previous + mtokens metrics\<rparr>) m)"

definition assignLinkDisplayColors :: "FlowEnv \<Rightarrow> DashboardFlowLink list \<Rightarrow> DashboardFlowLink list" where
  "assignLinkDisplayColors env links =
     map (\<lambda>link.
       let sortedLinks = js_sort (\<lambda>a b. or_else (lvalue b - lvalue a)
               (localeCompare env (linkStableKey a) (linkStableKey b)))
             (filter (\<lambda>l. lsource l = lsource link) links);
           denominator = max (length sortedLinks - 1) 1;
           index = length (takeWhile (\<lambda>l. linkStableKey l \<noteq> linkStableKey link) sortedLinks);
           alpha = (if length sortedLinks = 1 then 34 / 100
             else 24 / 100 + (of_nat index / of_nat denominator) * (2 / 10));
           displayColor = alphaColor env (lcolor link) alpha
       in link\<lparr>llinkColor := fst displayColor, llinkAlpha := snd displayColor,
            lhoverColor := lcolor link\<rparr>) links"

definition byValueThenLabel :: "FlowEnv \<Rightarrow> DashboardFlowNode \<Rightarrow> DashboardFlowNode \<Rightarrow> int" where
  "byValueThenLabel env a b = or_else (nvalue b - nvalue a) (localeCompare env (nlabel a) (nlabel b))"

definition buildSummary :: "FlowQuotaDataItem list \<Rightarrow> FlowSummary" where
  "buildSummary rows =
     foldl (\<lambda>s row. let metrics = rowMetrics row in
         \<lparr>sum_quota = sum_quota s + mquota metrics, sum_tokens = sum_tokens s + mtokens metrics,
          sum_requests = sum_requests s + mrequests metrics\<rparr>)
       \<lparr>sum_quota = 0, sum_tokens = 0, sum_requests = 0\<rparr> rows"

section \<open>Top nodes\<close>

definition normalizeTopNodeLimit :: "rat jsnum option \<Rightarrow> nat option" where
  "normalizeTopNodeLimit limit =
     (case limit of Some (Num n) \<Rightarrow> if \<lfloor>n\<rfloor> > 0 then Some (nat \<lfloor>n\<rfloor>) else None | _ \<Rightarrow> None)"

definition otherFlowNode :: "FlowNodeKind \<Rightarrow> (FlowNodeKind \<Rightarrow> jsstring) option \<Rightarrow> FlowPathNode" where
  "otherFlowNode kind labeler =
     \<lparr>pid = OTHER_FLOW_NODE_IDS kind,
      plabel = (case labeler of Some f \<Rightarrow> f kind | None \<Rightarrow> DEFAULT_OTHER_FLOW_NODE_LABELS kind),
      pkind = kind\<rparr>"

definition addRank ::
  "int \<Rightarrow> (FlowNodeKind \<times> (jsstring \<times> FlowNodeRank) list) list \<Rightarrow> FlowPathNode \<Rightarrow>
     (FlowNodeKind \<times> (jsstring \<times> FlowNodeRank) list) list" where
  "addRank v totals node =
     (case map_of totals (pkind node) of
        None \<Rightarrow> totals
      | Some stageTotals \<Rightarrow>
          (let current = (case map_of stageTotals (pid node) of
                 Some r \<Rightarrow> r | None \<Rightarrow> \<lparr>rank_node = node, rank_value = 0\<rparr>) in
           AList.update (pkind node)
             (AList.update (pid node) (current\<lparr>rank_value := rank_value current + v\<rparr>) stageTotals) totals))"

definition compareRanks :: "FlowEnv \<Rightarrow> FlowNodeRank \<Rightarrow> FlowNodeRank \<Rightarrow> int" where
  "compareRanks env a b =
     or_else (rank_value b - rank_value a)
       (or_else (localeCompare env (plabel (rank_node a)) (plabel (rank_node b)))
         (localeCompare env (pid (rank_node a)) (pid (rank_node b))))"

definition buildTopNodeSets ::
  "FlowEnv \<Rightarrow> FlowQuotaDataItem list \<Rightarrow> FlowMetric \<Rightarrow> FlowNodeKind list \<Rightarrow> nat option \<Rightarrow> FlowPathContext \<Rightarrow>
     (FlowNodeKind \<times> jsstring list) list option" where
  "buildTopNodeSets env rows metric stages limit ctx =
     (case limit of
        None \<Rightarrow> None
      | Some topN \<Rightarrow>
          (let start = foldl (\<lambda>t stage. AList.update stage [] t) [] stages;
               totals = foldl (\<lambda>t row.
                   foldl (addRank (metricValue (rowMetrics row) metric)) t (flowPathForStages row stages ctx))
                 start rows in
           Some (map (\<lambda>(kind, stageTotals).
                   (kind, map (\<lambda>r. pid (rank_node r))
                      (take topN (js_sort (compareRanks env) (map snd stageTotals))))) totals)))"

definition isTopFlowNode ::
  "FlowPathNode \<Rightarrow> (FlowNodeKind \<times> jsstring list) list option \<Rightarrow> bool" where
  "isTopFlowNode node topNodeSets =
     (case Option.bind topNodeSets (\<lambda>m. map_of m (pkind node)) of
        None \<Rightarrow> True | Some topNodes \<Rightarrow> pid node \<in> set topNodes)"

definition applyTopNodeLimit ::
  "FlowPathNode list \<Rightarrow> (FlowNodeKind \<times> jsstring list) list option \<Rightarrow> FlowOverflowMode \<Rightarrow>
     (FlowNodeKind \<Rightarrow> jsstring) option \<Rightarrow> FlowPathNode list option" where
  "applyTopNodeLimit path topNodeSets mode labeler =
     (if topNodeSets = None then Some path
      else if \<not> list_ex (\<lambda>node. \<not> isTopFlowNode node topNodeSets) path then Some path
      else if mode = Hide then None
      else Some (map (\<lambda>node. if isTopFlowNode node topNodeSets then node
                       else otherFlowNode (pkind node) labeler) path))"

section \<open>Highlighting and masking\<close>

definition pathPairs :: "FlowPathNode list \<Rightarrow> (FlowPathNode \<times> FlowPathNode) list" where
  "pathPairs path = zip path (tl path)"

definition pathContainsFlowNode :: "FlowPathNode list \<Rightarrow> FlowNodeFilter \<Rightarrow> bool" where
  "pathContainsFlowNode path f =
     list_ex (\<lambda>node. pkind node = filter_kind f \<and> pid node = filter_id f) path"

definition pathContainsFlowLink :: "FlowPathNode list \<Rightarrow> FlowLinkSelection \<Rightarrow> bool" where
  "pathContainsFlowLink path link =
     list_ex (\<lambda>(s, t). pid s = sel_source link \<and> pid t = sel_target link) (pathPairs path)"

definition matchesPath ::
  "FlowNodeFilter option \<Rightarrow> FlowLinkSelection option \<Rightarrow> FlowPathNode list \<Rightarrow> bool" where
  "matchesPath actNode actLink path =
     (case actLink of
        Some l \<Rightarrow> pathContainsFlowLink path l
      | None \<Rightarrow> (case actNode of Some n \<Rightarrow> pathContainsFlowNode path n | None \<Rightarrow> False))"

definition buildFlowHighlightSets ::
  "PreparedFlowPath list \<Rightarrow> FlowNodeFilter option \<Rightarrow> FlowLinkSelection option \<Rightarrow> FlowNodeKind list \<Rightarrow>
     FlowHighlightSets option" where
  "buildFlowHighlightSets preparedPaths actNode actLink stages =
     (let nodeActive = (case actNode of Some n \<Rightarrow> filter_kind n \<in> set stages | None \<Rightarrow> False) in
      if \<not> nodeActive \<and> actLink = None then None
      else
        (let matching = filter (\<lambda>p. matchesPath actNode actLink (ppath p)) preparedPaths;
             highlightedNodes = uniq (concat (map (\<lambda>p. map pid (ppath p)) matching));
             highlightedLinks = uniq (concat (map (\<lambda>p.
               map (\<lambda>(s, t). pathLinkKey s t) (pathPairs (ppath p))) matching)) in
         if highlightedNodes = [] then None
         else Some \<lparr>hl_nodes = highlightedNodes, hl_links = highlightedLinks\<rparr>))"

definition FLOW_MASK_TEXT :: jsstring where
  "FLOW_MASK_TEXT = [8226, 8226, 8226, 8226]"

definition maskFlowLabel :: "jsstring \<Rightarrow> jsstring" where
  "maskFlowLabel label = (if length label = 0 then label else FLOW_MASK_TEXT)"

definition isMaskedNode :: "DashboardFlowNode \<Rightarrow> bool" where
  "isMaskedNode node \<longleftrightarrow> nkind node \<in> set SENSITIVE_FLOW_KINDS \<and> nid node \<notin> set OTHER_FLOW_NODE_ID_SET"

definition maskFlowGraphLabels ::
  "(jsstring \<times> DashboardFlowNode) list \<Rightarrow> (jsstring \<times> DashboardFlowLink) list \<Rightarrow>
     (jsstring \<times> DashboardFlowNode) list \<times> (jsstring \<times> DashboardFlowLink) list" where
  "maskFlowGraphLabels nodes links =
     (let nodes' = map (\<lambda>(k, n). (k, if isMaskedNode n then n\<lparr>nlabel := maskFlowLabel (nlabel n)\<rparr> else n)) nodes;
          maskedById = foldl (\<lambda>m n. AList.update (nid n) (nlabel n) m) [] (filter isMaskedNode (map snd nodes')) in
      if maskedById = [] then (nodes', links)
      else (nodes', map (\<lambda>(k, l). (k, l\<lparr>
             lsourceLabel := (case map_of maskedById (lsource l) of Some s \<Rightarrow> s | None \<Rightarrow> lsourceLabel l),
             ltargetLabel := (case map_of maskedById (ltarget l) of Some s \<Rightarrow> s | None \<Rightarrow> ltargetLabel l)\<rparr>)) links))"

definition applyFlowHighlights ::
  "(jsstring \<times> DashboardFlowNode) list \<Rightarrow> (jsstring \<times> DashboardFlowLink) list \<Rightarrow>
     FlowHighlightSets option \<Rightarrow>
     (jsstring \<times> DashboardFlowNode) list \<times> (jsstring \<times> DashboardFlowLink) list" where
  "applyFlowHighlights nodes links highlightSets =
     (case highlightSets of
        None \<Rightarrow> (nodes, links)
      | Some h \<Rightarrow>
          (map (\<lambda>(k, n). (k, n\<lparr>nhighlighted := Some (nid n \<in> set (hl_nodes h)),
             ndimmed := Some (nid n \<notin> set (hl_nodes h))\<rparr>)) nodes,
           map (\<lambda>(k, l). (k, l\<lparr>lhighlighted := Some (linkStableKey l \<in> set (hl_links h)),
             ldimmed := Some (linkStableKey l \<notin> set (hl_links h))\<rparr>)) links))"

section \<open>The graph\<close>

definition preparePaths ::
  "FlowEnv \<Rightarrow> FlowQuotaDataItem list \<Rightarrow> FlowMetric \<Rightarrow> FlowNodeKind list \<Rightarrow> FlowPathContext \<Rightarrow>
     FlowBuildOptions \<Rightarrow> PreparedFlowPath list" where
  "preparePaths env rows metric stages ctx options =
     (let topNodeSets = buildTopNodeSets env rows metric stages
            (normalizeTopNodeLimit (topNodeLimit options)) ctx;
          mode = (case overflowMode options of Some o' \<Rightarrow> o' | None \<Rightarrow> Aggregate) in
      List.map_filter (\<lambda>row.
        map_option (\<lambda>path. \<lparr>ppath = path, pmetrics = rowMetrics row\<rparr>)
          (applyTopNodeLimit (flowPathForStages row stages ctx) topNodeSets mode (otherNodeLabel options)))
        rows)"

definition firstIds :: "PreparedFlowPath list \<Rightarrow> jsstring list" where
  "firstIds prepared =
     filter (\<lambda>i. i \<noteq> []) (List.map_filter (\<lambda>p. case ppath p of [] \<Rightarrow> None | n # _ \<Rightarrow> Some (pid n)) prepared)"

definition addPath ::
  "FlowEnv \<Rightarrow> FlowMetric \<Rightarrow> (jsstring \<times> jsstring) list \<Rightarrow> jsstring list option \<Rightarrow>
     (jsstring \<times> DashboardFlowNode) list \<times> (jsstring \<times> DashboardFlowLink) list \<Rightarrow> PreparedFlowPath \<Rightarrow>
     (jsstring \<times> DashboardFlowNode) list \<times> (jsstring \<times> DashboardFlowLink) list" where
  "addPath env metric colors palette st prepared =
     (case ppath prepared of
        [] \<Rightarrow> st
      | rootNode # _ \<Rightarrow>
          (let color = (case map_of colors (pid rootNode) of Some c \<Rightarrow> c | None \<Rightarrow> colorAt env 0 palette) in
           (foldl (\<lambda>m n. addNode m n (pmetrics prepared) metric color (pid rootNode)) (fst st) (ppath prepared),
            foldl (\<lambda>m (s, t). addLink m s t (pmetrics prepared) metric color (pid rootNode)) (snd st)
              (pathPairs (ppath prepared)))))"

definition assignShares :: "jsstring list \<Rightarrow> DashboardFlowLink list \<Rightarrow> DashboardFlowLink list" where
  "assignShares firstStepSources links =
     (let total = sum_list (map lvalue (filter (\<lambda>l. lsource l \<in> set firstStepSources) links)) in
      map (\<lambda>l. l\<lparr>lshare := (if total > 0 then of_int (lvalue l) / of_int total else 0)\<rparr>) links)"

definition buildFlowGraph ::
  "FlowEnv \<Rightarrow> FlowQuotaDataItem list \<Rightarrow> FlowMetric \<Rightarrow> FlowRole \<Rightarrow> jsstring list option \<Rightarrow>
     FlowNodeKind list option \<Rightarrow> FlowPathContext \<Rightarrow> FlowBuildOptions \<Rightarrow> DashboardFlowGraph" where
  "buildFlowGraph env rows metric r palette vis ctx options =
     (let stages = resolveVisibleStages r vis;
          prepared = preparePaths env rows metric stages ctx options;
          colors = stableColorMap env (js_sort (localeCompare env) (firstIds prepared)) palette;
          accumulated = foldl (addPath env metric colors palette) ([], []) prepared;
          masked = (if maskSensitive options
                    then maskFlowGraphLabels (fst accumulated) (snd accumulated) else accumulated);
          lit = applyFlowHighlights (fst masked) (snd masked)
                  (buildFlowHighlightSets prepared (activeNode options) (activeLink options) stages);
          flowLinks = js_sort (\<lambda>a b. or_else (localeCompare env (lsource a) (lsource b))
                  (localeCompare env (ltarget a) (ltarget b))) (map snd (snd lit)) in
      \<lparr>graph_nodes = js_sort (byValueThenLabel env) (map snd (fst lit)),
       graph_links = assignLinkDisplayColors env (assignShares (firstIds prepared) flowLinks)\<rparr>)"

section \<open>Filter options and the whole analysis\<close>

definition falsyNum :: "int jsnum option \<Rightarrow> bool" where
  "falsyNum v = (case v of Some (Num n) \<Rightarrow> n = 0 | Some NaN \<Rightarrow> True | Some Infinite \<Rightarrow> False | None \<Rightarrow> True)"

definition addUserOption ::
  "FlowEnv \<Rightarrow> FlowMetric \<Rightarrow> (jsstring \<times> jsstring) list \<Rightarrow> jsstring list option \<Rightarrow>
     (jsstring \<times> (jsstring \<times> int \<times> jsstring)) list \<Rightarrow> FlowQuotaDataItem \<Rightarrow>
     (jsstring \<times> (jsstring \<times> int \<times> jsstring)) list" where
  "addUserOption env metric colors palette users row =
     (let user = userNode row in
      if falsyNum (user_id row) \<and> or_str (username row) [] = [] then users
      else
        (let current = (case map_of users (pid user) of
               Some c \<Rightarrow> c
             | None \<Rightarrow> (plabel user, 0, (case map_of colors (pid user) of
                  Some c \<Rightarrow> c | None \<Rightarrow> colorAt env 0 palette))) in
         AList.update (pid user)
           (fst current, fst (snd current) + metricValue (rowMetrics row) metric, snd (snd current)) users))"

definition buildUserFilterOptions ::
  "FlowEnv \<Rightarrow> FlowQuotaDataItem list \<Rightarrow> FlowMetric \<Rightarrow> jsstring list option \<Rightarrow> FlowUserFilterOption list" where
  "buildUserFilterOptions env rows metric palette =
     (let colors = stableColorMap env
            (js_sort (localeCompare env) (map (\<lambda>row. pid (userNode row)) rows)) palette;
          users = foldl (addUserOption env metric colors palette) [] rows in
      js_sort (\<lambda>a b. or_else (uopt_valueRaw b - uopt_valueRaw a)
          (localeCompare env (uopt_label a) (uopt_label b)))
        (map (\<lambda>(v, (lab, val, col)). \<lparr>uopt_value = v, uopt_label = lab,
           uopt_valueLabel = formatNumber env val, uopt_valueRaw = val, uopt_color = col\<rparr>) users))"

definition addNodeOption ::
  "FlowMetric \<Rightarrow> FlowNodeKind \<Rightarrow> FlowPathContext \<Rightarrow> (jsstring \<times> FlowNodeRank) list \<Rightarrow> FlowQuotaDataItem \<Rightarrow>
     (jsstring \<times> FlowNodeRank) list" where
  "addNodeOption metric stage ctx totals row =
     (let node = NODE_BUILDERS stage row ctx;
          key = nodeFilterKey \<lparr>filter_kind = pkind node, filter_id = pid node\<rparr>;
          current = (case map_of totals key of
            Some c \<Rightarrow> c | None \<Rightarrow> \<lparr>rank_node = node, rank_value = 0\<rparr>) in
      AList.update key
        (current\<lparr>rank_value := rank_value current + metricValue (rowMetrics row) metric\<rparr>) totals)"

definition stageIndex :: "FlowNodeKind list \<Rightarrow> FlowNodeKind \<Rightarrow> int" where
  "stageIndex stages k =
     (if k \<in> set stages then int (length (takeWhile (\<lambda>s. s \<noteq> k) stages)) else 0)"

definition buildNodeFilterOptions ::
  "FlowEnv \<Rightarrow> FlowQuotaDataItem list \<Rightarrow> FlowMetric \<Rightarrow> FlowRole \<Rightarrow> FlowNodeKind list option \<Rightarrow>
     jsstring list option \<Rightarrow> FlowPathContext \<Rightarrow> FlowNodeFilter list option \<Rightarrow> FlowNodeFilterOption list" where
  "buildNodeFilterOptions env rows metric r vis palette ctx sel =
     (let stages = resolveVisibleStages r vis;
          colorIds = uniq (concat (map (\<lambda>row. map pid (flowPathForStages row stages ctx)) rows));
          colors = stableColorMap env (js_sort (localeCompare env) colorIds) palette;
          options = concat (map (\<lambda>stage.
            let candidateRows = filterRowsByNodes rows (selectedNodeFiltersExceptKind sel stage) stages ctx;
                totals = foldl (addNodeOption metric stage ctx) [] candidateRows in
            map (\<lambda>(_, rank). \<lparr>nopt_kind = pkind (rank_node rank), nopt_value = pid (rank_node rank),
                nopt_label = plabel (rank_node rank), nopt_valueLabel = formatNumber env (rank_value rank),
                nopt_valueRaw = rank_value rank,
                nopt_color = (case map_of colors (pid (rank_node rank)) of
                  Some c \<Rightarrow> c | None \<Rightarrow> colorAt env 0 palette)\<rparr>) totals) stages) in
      js_sort (\<lambda>a b. or_else (stageIndex stages (nopt_kind a) - stageIndex stages (nopt_kind b))
          (or_else (nopt_valueRaw b - nopt_valueRaw a)
            (or_else (localeCompare env (nopt_label a) (nopt_label b))
              (localeCompare env (nopt_value a) (nopt_value b))))) options)"

definition buildFlowFilterOptions ::
  "FlowEnv \<Rightarrow> FlowQuotaDataItem list \<Rightarrow> FlowMetric \<Rightarrow> jsstring list option \<Rightarrow> FlowRole \<Rightarrow>
     FlowNodeKind list option \<Rightarrow> FlowNodeFilter list option \<Rightarrow> FlowFilterOptions" where
  "buildFlowFilterOptions env rows metric palette r vis sel =
     \<lparr>fopt_users = buildUserFilterOptions env rows metric palette,
      fopt_nodes = buildNodeFilterOptions env rows metric r vis palette None sel\<rparr>"

definition buildDashboardFlowData ::
  "FlowEnv \<Rightarrow> FlowQuotaDataItem list \<Rightarrow> FlowMetric \<Rightarrow> FlowBuildOptions \<Rightarrow> ProcessedFlowData" where
  "buildDashboardFlowData env rows metric options =
     (let r = (case role options of Some r' \<Rightarrow> r' | None \<Rightarrow> RoleUser);
          palette = colorPaletteOpt options;
          ctx = deletedTokenLabelOpt options;
          stages = resolveVisibleStages r (visibleStages options);
          userFilteredRows = filterRows rows (selectedUsers options);
          filteredRows = filterRowsByNodes userFilteredRows (selectedNodes options) stages ctx in
      \<lparr>summary = buildSummary filteredRows,
       flow = buildFlowGraph env filteredRows metric r palette (visibleStages options) ctx options,
       filterOptions =
         \<lparr>fopt_users = buildUserFilterOptions env rows metric palette,
          fopt_nodes = buildNodeFilterOptions env userFilteredRows metric r (visibleStages options)
            palette ctx (selectedNodes options)\<rparr>\<rparr>)"

end
