(* ===== verification/KeyedFold.thy ===== *)
theory KeyedFold
  imports JsPrelude
begin

text \<open>
  Accumulating a stream of events in a \<open>Map\<close> (an association list in insertion order): each event reads
  the entry of its key, or a fresh one, and writes it back with a contribution added.  The dashboard's
  nodes, links, ranks and filter options are all built by such a loop.  The locale states the contract of
  one step; its lemmas say what the finished map holds, in terms of the events alone.
\<close>

section \<open>Sums over the selected elements of a list\<close>

definition sumBy :: "('a \<Rightarrow> int) \<Rightarrow> ('a \<Rightarrow> bool) \<Rightarrow> 'a list \<Rightarrow> int" where
  "sumBy f P xs = sum_list (map f (filter P xs))"

lemma sumBy_simps [simp]:
  "sumBy f P [] = 0"
  "sumBy f P (x # xs) = (if P x then f x else 0) + sumBy f P xs"
  "sumBy f P (xs @ ys) = sumBy f P xs + sumBy f P ys"
  by (simp_all add: sumBy_def)

lemma sumBy_map: "sumBy f P (map g xs) = sumBy (f \<circ> g) (P \<circ> g) xs"
  by (induction xs) simp_all

lemma sumBy_concat: "sumBy f P (concat xss) = sum_list (map (sumBy f P) xss)"
  by (induction xss) simp_all

lemma sumBy_cong:
  assumes "xs = ys" "\<And>x. x \<in> set ys \<Longrightarrow> P x = Q x" "\<And>x. x \<in> set ys \<Longrightarrow> Q x \<Longrightarrow> f x = g x"
  shows "sumBy f P xs = sumBy g Q ys"
  unfolding assms(1) using assms(2,3) by (induction ys) auto

lemma sumBy_mset: "mset xs = mset ys \<Longrightarrow> sumBy f P xs = sumBy f P ys"
proof -
  assume eq: "mset xs = mset ys"
  have sum: "sumBy f P zs = (\<Sum>z\<in>#mset zs. if P z then f z else 0)" for zs :: "'a list"
    by (induction zs) simp_all
  show ?thesis by (simp only: sum eq)
qed

lemma sumBy_none: "(\<And>x. x \<in> set xs \<Longrightarrow> \<not> P x) \<Longrightarrow> sumBy f P xs = 0"
  by (induction xs) auto

lemma sumBy_const_one:
  assumes "distinct (map g xs)" "\<And>x. x \<in> set xs \<Longrightarrow> f x = c"
  shows "sumBy f (\<lambda>x. g x = k) xs = (if k \<in> set (map g xs) then c else 0)"
  using assms
proof (induction xs)
  case (Cons x xs)
  have "sumBy f (\<lambda>x. g x = k) xs = (if k \<in> set (map g xs) then c else 0)"
    using Cons by simp
  then show ?case using Cons.prems by auto
qed simp

lemma sum_list_if: "sum_list (map (\<lambda>x. if P x then f x else (0::int)) xs) = sumBy f P xs"
  by (induction xs) simp_all

section \<open>Association lists\<close>

lemma keys_update: "map fst (AList.update k v m) = (if k \<in> fst ` set m then map fst m else map fst m @ [k])"
  by (induction m) auto

lemma keys_update_uniq:
  "map fst m = uniq ks \<Longrightarrow> map fst (AList.update k v m) = uniq (ks @ [k])"
  using set_uniq [of ks] by (simp add: keys_update uniq_snoc flip: set_map)

lemma set_update_subset: "set (AList.update k v m) \<subseteq> insert (k, v) (set m)"
  by (induction m) auto

lemma sum_update:
  assumes "distinct (map fst m)"
  shows "sumBy (\<lambda>x. val (snd x)) (\<lambda>x. P (fst x)) (AList.update k v m) =
    sumBy (\<lambda>x. val (snd x)) (\<lambda>x. P (fst x)) m +
      (if P k then val v - (case map_of m k of Some u \<Rightarrow> val u | None \<Rightarrow> 0) else 0)"
  using assms
  by (induction m) (auto simp: map_of_eq_None_iff image_iff split: option.splits)

section \<open>The accumulator\<close>

locale keyed_accumulator =
  fixes key :: "'e \<Rightarrow> 'k" and step :: "('k \<times> 'v) list \<Rightarrow> 'e \<Rightarrow> ('k \<times> 'v) list"
    and fresh :: "'e \<Rightarrow> 'v" and upd :: "'e \<Rightarrow> 'v \<Rightarrow> 'v" and tag :: "'v \<Rightarrow> 't"
  assumes step_law: "step m e =
      AList.update (key e) (upd e (case map_of m (key e) of Some v \<Rightarrow> v | None \<Rightarrow> fresh e)) m"
    and upd_tag: "tag (upd e v) = tag v"
begin

lemma keys_fold: "map fst (foldl step [] es) = uniq (map key es)"
  by (induction es rule: rev_induct) (simp_all add: step_law [of "foldl step [] _"] keys_update_uniq)

lemma distinct_keys: "distinct (map fst (foldl step [] es))"
  by (simp add: keys_fold)

lemma entry_tag:
  "(k, v) \<in> set (foldl step [] es) \<Longrightarrow> \<exists>e \<in> set es. key e = k \<and> tag v = tag (fresh e)"
proof (induction es arbitrary: k v rule: rev_induct)
  case (snoc e es)
  show ?case
  proof (cases "(k, v) \<in> set (foldl step [] es)")
    case True
    with snoc.IH show ?thesis by fastforce
  next
    case False
    with snoc.prems have k: "k = key e"
      and v: "v = upd e (case map_of (foldl step [] es) (key e) of Some v \<Rightarrow> v | None \<Rightarrow> fresh e)"
      by (auto simp: step_law [of "foldl step [] es"] dest: subsetD [OF set_update_subset])
    show ?thesis
    proof (cases "map_of (foldl step [] es) (key e)")
      case None
      with k v show ?thesis by (auto simp: upd_tag)
    next
      case (Some u)
      with snoc.IH [OF map_of_SomeD [OF Some]] k v show ?thesis by (auto simp: upd_tag)
    qed
  qed
qed simp

end

locale summing_accumulator = keyed_accumulator key step fresh upd tag
  for key :: "'e \<Rightarrow> 'k" and step :: "('k \<times> 'v) list \<Rightarrow> 'e \<Rightarrow> ('k \<times> 'v) list"
    and fresh :: "'e \<Rightarrow> 'v" and upd :: "'e \<Rightarrow> 'v \<Rightarrow> 'v" and tag :: "'v \<Rightarrow> 't" +
  fixes val :: "'v \<Rightarrow> int" and weight :: "'e \<Rightarrow> int"
  assumes upd_val: "val (upd e v) = val v + weight e"
    and fresh_val: "val (fresh e) = 0"
begin

lemma sum_fold:
  "sumBy (\<lambda>x. val (snd x)) (\<lambda>x. P (fst x)) (foldl step [] es) = sumBy weight (\<lambda>e. P (key e)) es"
proof (induction es rule: rev_induct)
  case (snoc e es)
  then show ?case
    using distinct_keys [of es]
    by (simp add: step_law [of "foldl step [] es"] sum_update upd_val fresh_val split: option.splits)
qed simp

lemma entry_val:
  assumes "(k, v) \<in> set (foldl step [] es)"
  shows "val v = sumBy weight (\<lambda>e. key e = k) es"
proof -
  have one: "distinct (map fst m) \<Longrightarrow> (k, v) \<in> set m \<Longrightarrow>
      sumBy (\<lambda>x. val (snd x)) (\<lambda>x. fst x = k) m = val v" for m :: "('k \<times> 'v) list"
  proof (induction m)
    case (Cons a m)
    show ?case
    proof (cases "a = (k, v)")
      case True
      with Cons.prems have "sumBy (\<lambda>x. val (snd x)) (\<lambda>x. fst x = k) m = 0"
        by (intro sumBy_none) (force simp: image_iff)
      with True show ?thesis by simp
    next
      case False
      with Cons.prems have "(k, v) \<in> set m" "fst a \<noteq> k" by (force simp: image_iff)+
      with Cons show ?thesis by simp
    qed
  qed simp
  show ?thesis using one [OF distinct_keys assms] sum_fold [of "\<lambda>x. x = k" es] by simp
qed

end

end
