(* ===== verification/FlowProofs.thy ===== *)
theory FlowProofs
  imports FlowModel KeyedFold
begin

text \<open>
  Theorems about the flow analysis of \<open>FlowModel\<close>.  The nodes and the links are two summing accumulators
  (\<open>KeyedFold\<close>) over the node and link events of the prepared paths; what a graph holds is therefore a
  statement about those events.  A node's identifier starts with its kind, so kinds never share a node.
\<close>

section \<open>Measures\<close>

text \<open>A node, a link, the metrics of a path and the summary each carry four numbers: the selected metric
  (\<open>None\<close>) and the three metrics themselves.\<close>

definition nodeMeasure :: "FlowMetric option \<Rightarrow> DashboardFlowNode \<Rightarrow> int" where
  "nodeMeasure q n = (case q of None \<Rightarrow> nvalue n | Some MQuota \<Rightarrow> nquota n | Some MTokens \<Rightarrow> ntokens n
     | Some MRequests \<Rightarrow> nrequests n)"

definition linkMeasure :: "FlowMetric option \<Rightarrow> DashboardFlowLink \<Rightarrow> int" where
  "linkMeasure q l = (case q of None \<Rightarrow> lvalue l | Some MQuota \<Rightarrow> lquota l | Some MTokens \<Rightarrow> ltokens l
     | Some MRequests \<Rightarrow> lrequests l)"

definition pathMeasure :: "FlowMetric \<Rightarrow> FlowMetric option \<Rightarrow> FlowMetrics \<Rightarrow> int" where
  "pathMeasure metric q ms = metricValue ms (case q of None \<Rightarrow> metric | Some m \<Rightarrow> m)"

definition summaryMeasure :: "FlowMetric \<Rightarrow> FlowSummary \<Rightarrow> int" where
  "summaryMeasure metric s = (case metric of MQuota \<Rightarrow> sum_quota s | MTokens \<Rightarrow> sum_tokens s
     | MRequests \<Rightarrow> sum_requests s)"

lemma buildSummary_measure:
  "summaryMeasure q (buildSummary rows) = sum_list (map (\<lambda>r. metricValue (rowMetrics r) q) rows)"
proof -
  define st where "st = (\<lambda>(s :: FlowSummary) row. let metrics = rowMetrics row in
         \<lparr>sum_quota = sum_quota s + mquota metrics, sum_tokens = sum_tokens s + mtokens metrics,
          sum_requests = sum_requests s + mrequests metrics\<rparr>)"
  have "summaryMeasure q (foldl st s rows)
      = summaryMeasure q s + sum_list (map (\<lambda>r. metricValue (rowMetrics r) q) rows)" for s
    by (induction rows arbitrary: s)
      (simp_all add: st_def summaryMeasure_def metricValue_def Let_def split: FlowMetric.split)
  from this [of "\<lparr>sum_quota = 0, sum_tokens = 0, sum_requests = 0\<rparr>"] show ?thesis
    by (simp add: buildSummary_def st_def summaryMeasure_def split: FlowMetric.split)
qed

section \<open>Identifiers\<close>

definition kindPrefix :: "FlowNodeKind \<Rightarrow> jsstring" where
  "kindPrefix k = kindName k @ js '':''"

definition wf_node :: "FlowPathNode \<Rightarrow> bool" where
  "wf_node n \<longleftrightarrow> startsWith (pid n) (kindPrefix (pkind n))"

lemma kindPrefix_lit:
  "kindPrefix k = (case k of KUser \<Rightarrow> js ''user:'' | KNode \<Rightarrow> js ''node:'' | KToken \<Rightarrow> js ''token:''
     | KGroup \<Rightarrow> js ''group:'' | KModel \<Rightarrow> js ''model:'' | KChannel \<Rightarrow> js ''channel:'')"
  by (simp add: kindPrefix_def kindName_def flip: js_append split: FlowNodeKind.split)

lemma kindPrefix_head:
  assumes "startsWith i (kindPrefix k)"
  shows "takeWhile (\<lambda>c. c \<noteq> 58) i = kindName k"
proof -
  have colon: "js '':'' = [58]" and free: "58 \<notin> set (kindName k)"
    by (simp_all add: js.simps kindName_def split: FlowNodeKind.split)
  from assms obtain t where "i = kindName k @ 58 # t"
    by (auto simp: startsWith_def kindPrefix_def colon elim: prefixE)
  with free show ?thesis
    by (metis (mono_tags, lifting) takeWhile_tail takeWhile_append2 takeWhile_eq_all_conv append_Nil2)
qed

lemma kindName_inject: "kindName k = kindName k' \<Longrightarrow> k = k'"
  by (cases k; cases k') (simp_all add: kindName_def js_inject)

lemma kindPrefix_inject:
  "startsWith i (kindPrefix k) \<Longrightarrow> startsWith i (kindPrefix k') \<Longrightarrow> k = k'"
  by (metis kindPrefix_head kindName_inject)

lemma kind_NODE_BUILDERS [simp]: "pkind (NODE_BUILDERS k row ctx) = k"
  by (simp add: NODE_BUILDERS_def userNode_def nodeNameNode_def tokenNode_def groupNode_def modelNode_def
      channelNode_def Let_def split: FlowNodeKind.split)

lemma wf_NODE_BUILDERS [simp]: "wf_node (NODE_BUILDERS k row ctx)"
  unfolding wf_node_def kind_NODE_BUILDERS
  by (simp add: NODE_BUILDERS_def userNode_def nodeNameNode_def tokenNode_def groupNode_def modelNode_def
      channelNode_def Let_def kindPrefix_lit split: FlowNodeKind.split)

lemma kind_otherFlowNode [simp]: "pkind (otherFlowNode k labeler) = k"
  by (simp add: otherFlowNode_def)

lemma wf_otherFlowNode [simp]: "wf_node (otherFlowNode k labeler)"
  by (simp add: wf_node_def otherFlowNode_def OTHER_FLOW_NODE_IDS_def kindPrefix_lit split: FlowNodeKind.split)

section \<open>Prepared paths\<close>

lemma prepared_path:
  assumes "p \<in> set (preparePaths env rows metric stages ctx options)"
  obtains row where "row \<in> set rows" "pmetrics p = rowMetrics row"
    "applyTopNodeLimit (flowPathForStages row stages ctx)
       (buildTopNodeSets env rows metric stages (normalizeTopNodeLimit (topNodeLimit options)) ctx)
       (case overflowMode options of Some o' \<Rightarrow> o' | None \<Rightarrow> Aggregate) (otherNodeLabel options)
     = Some (ppath p)"
  using assms by (auto simp: preparePaths_def Let_def map_filter_def)

lemma applyTopNodeLimit_nodes:
  assumes "applyTopNodeLimit path sets mode labeler = Some path'"
  shows "map pkind path' = map pkind path"
    and "set path' \<subseteq> set path \<union> {otherFlowNode k labeler |k. True}"
  using assms by (auto simp: applyTopNodeLimit_def split: if_splits)

lemma prepared_kinds:
  "p \<in> set (preparePaths env rows metric stages ctx options) \<Longrightarrow> map pkind (ppath p) = stages"
  by (erule prepared_path, drule applyTopNodeLimit_nodes(1)) (simp add: flowPathForStages_def comp_def)

lemma prepared_wf:
  "p \<in> set (preparePaths env rows metric stages ctx options) \<Longrightarrow> n \<in> set (ppath p) \<Longrightarrow> wf_node n"
  by (erule prepared_path, drule applyTopNodeLimit_nodes(2)) (auto simp: flowPathForStages_def)

lemma wf_same_kind: "wf_node m \<Longrightarrow> wf_node n \<Longrightarrow> pid m = pid n \<Longrightarrow> pkind m = pkind n"
  by (metis wf_node_def kindPrefix_inject)

lemma prepared_distinct:
  assumes "p \<in> set (preparePaths env rows metric stages ctx options)" "distinct stages"
  shows "distinct (map pid (ppath p))"
proof -
  have "inj_on pid (set (ppath p))"
  proof (rule inj_onI)
    fix m n assume mn: "m \<in> set (ppath p)" "n \<in> set (ppath p)" "pid m = pid n"
    then have "pkind m = pkind n" using prepared_wf [OF assms(1)] wf_same_kind by blast
    then show "m = n"
      using mn(1,2) assms(2) prepared_kinds [OF assms(1)] by (metis distinct_map inj_onD)
  qed
  moreover have "distinct (ppath p)" using assms prepared_kinds [OF assms(1)] by (metis distinct_map)
  ultimately show ?thesis by (simp add: distinct_map)
qed

lemma distinct_resolveVisibleStages [simp]: "distinct (resolveVisibleStages r vis)"
  by (cases r) (auto simp: resolveVisibleStages_def getFlowStages_def ROLE_FLOW_STAGES_def Let_def
      split: option.split)

lemma map_map_filter_total:
  assumes "\<And>x. map_option g (f x) = Some (h x)"
  shows "map g (List.map_filter f xs) = map h xs"
proof (induction xs)
  case (Cons a xs)
  then show ?case using assms [of a] by (auto simp: map_filter_simps)
qed (simp add: map_filter_simps)

lemma prepared_all:
  assumes "overflowMode options \<noteq> Some Hide \<or> normalizeTopNodeLimit (topNodeLimit options) = None"
  shows "map pmetrics (preparePaths env rows metric stages ctx options) = map rowMetrics rows"
proof -
  have "\<exists>path. applyTopNodeLimit pth (buildTopNodeSets env rows' metric stages
       (normalizeTopNodeLimit (topNodeLimit options)) ctx)
       (case overflowMode options of Some o' \<Rightarrow> o' | None \<Rightarrow> Aggregate) (otherNodeLabel options) = Some path"
    for pth rows'
    using assms by (cases "overflowMode options"; cases "the (overflowMode options)")
      (auto simp: applyTopNodeLimit_def buildTopNodeSets_def)
  then have "map_option pmetrics (map_option (\<lambda>path. \<lparr>ppath = path, pmetrics = rowMetrics row\<rparr>)
     (applyTopNodeLimit pth (buildTopNodeSets env rows' metric stages
       (normalizeTopNodeLimit (topNodeLimit options)) ctx)
       (case overflowMode options of Some o' \<Rightarrow> o' | None \<Rightarrow> Aggregate) (otherNodeLabel options)))
     = Some (rowMetrics row)" for pth rows' row
    by (metis (no_types, lifting) PreparedFlowPath.select_convs(2) option.simps(9))
  then show ?thesis by (simp add: preparePaths_def Let_def map_map_filter_total)
qed

section \<open>Nodes and links as accumulators\<close>

type_synonym nodeEvent = "FlowPathNode \<times> FlowMetrics \<times> jsstring \<times> jsstring"
type_synonym linkEvent = "(FlowPathNode \<times> FlowPathNode) \<times> FlowMetrics \<times> jsstring \<times> jsstring"

definition nodeStep ::
  "FlowMetric \<Rightarrow> (jsstring \<times> DashboardFlowNode) list \<Rightarrow> nodeEvent \<Rightarrow> (jsstring \<times> DashboardFlowNode) list" where
  "nodeStep metric m e = addNode m (fst e) (fst (snd e)) metric (fst (snd (snd e))) (snd (snd (snd e)))"

definition linkStep ::
  "FlowMetric \<Rightarrow> (jsstring \<times> DashboardFlowLink) list \<Rightarrow> linkEvent \<Rightarrow> (jsstring \<times> DashboardFlowLink) list" where
  "linkStep metric m e =
     addLink m (fst (fst e)) (snd (fst e)) (fst (snd e)) metric (fst (snd (snd e))) (snd (snd (snd e)))"

definition pathTag ::
  "FlowEnv \<Rightarrow> (jsstring \<times> jsstring) list \<Rightarrow> jsstring list option \<Rightarrow> PreparedFlowPath \<Rightarrow>
     FlowMetrics \<times> jsstring \<times> jsstring" where
  "pathTag env colors palette p = (pmetrics p,
     (case map_of colors (pid (hd (ppath p))) of Some c \<Rightarrow> c | None \<Rightarrow> colorAt env 0 palette),
     pid (hd (ppath p)))"

definition nodeEvents ::
  "FlowEnv \<Rightarrow> (jsstring \<times> jsstring) list \<Rightarrow> jsstring list option \<Rightarrow> PreparedFlowPath list \<Rightarrow> nodeEvent list" where
  "nodeEvents env colors palette ps =
     concat (map (\<lambda>p. map (\<lambda>n. (n, pathTag env colors palette p)) (ppath p)) ps)"

definition linkEvents ::
  "FlowEnv \<Rightarrow> (jsstring \<times> jsstring) list \<Rightarrow> jsstring list option \<Rightarrow> PreparedFlowPath list \<Rightarrow> linkEvent list" where
  "linkEvents env colors palette ps =
     concat (map (\<lambda>p. map (\<lambda>st. (st, pathTag env colors palette p)) (pathPairs (ppath p))) ps)"

lemma addPath_steps:
  "addPath env metric colors palette st p =
     (foldl (nodeStep metric) (fst st) (nodeEvents env colors palette [p]),
      foldl (linkStep metric) (snd st) (linkEvents env colors palette [p]))"
  by (cases "ppath p")
    (simp_all add: addPath_def nodeEvents_def linkEvents_def pathTag_def nodeStep_def linkStep_def
      foldl_map pathPairs_def case_prod_unfold Let_def)

lemma accumulate_steps:
  "foldl (addPath env metric colors palette) st ps =
     (foldl (nodeStep metric) (fst st) (nodeEvents env colors palette ps),
      foldl (linkStep metric) (snd st) (linkEvents env colors palette ps))"
  by (induction ps arbitrary: st)
    (simp_all add: addPath_steps, simp_all add: nodeEvents_def linkEvents_def)

definition nodeFresh :: "nodeEvent \<Rightarrow> DashboardFlowNode" where
  "nodeFresh e = \<lparr>nid = pid (fst e), nlabel = plabel (fst e), nkind = pkind (fst e), nvalue = 0,
     nrequests = 0, nquota = 0, ntokens = 0, ncolor = fst (snd (snd e)), ncolorKey = snd (snd (snd e)),
     nhighlighted = None, ndimmed = None\<rparr>"

definition nodeUpd :: "FlowMetric \<Rightarrow> nodeEvent \<Rightarrow> DashboardFlowNode \<Rightarrow> DashboardFlowNode" where
  "nodeUpd metric e n = n\<lparr>nvalue := nvalue n + metricValue (fst (snd e)) metric,
     nrequests := nrequests n + mrequests (fst (snd e)), nquota := nquota n + mquota (fst (snd e)),
     ntokens := ntokens n + mtokens (fst (snd e))\<rparr>"

definition linkFresh :: "linkEvent \<Rightarrow> DashboardFlowLink" where
  "linkFresh e = \<lparr>lsource = pid (fst (fst e)), ltarget = pid (snd (fst e)), lvalue = 0, lrequests = 0,
     lquota = 0, ltokens = 0, lsourceLabel = plabel (fst (fst e)), ltargetLabel = plabel (snd (fst e)),
     lcolor = fst (snd (snd e)), llinkColor = fst (snd (snd e)), llinkAlpha = 1,
     lhoverColor = fst (snd (snd e)), lcolorKey = snd (snd (snd e)), lshare = 0,
     lhighlighted = None, ldimmed = None\<rparr>"

definition linkUpd :: "FlowMetric \<Rightarrow> linkEvent \<Rightarrow> DashboardFlowLink \<Rightarrow> DashboardFlowLink" where
  "linkUpd metric e l = l\<lparr>lvalue := lvalue l + metricValue (fst (snd e)) metric,
     lrequests := lrequests l + mrequests (fst (snd e)), lquota := lquota l + mquota (fst (snd e)),
     ltokens := ltokens l + mtokens (fst (snd e))\<rparr>"

interpretation node_acc: summing_accumulator "\<lambda>e. pid (fst e)" "nodeStep metric" nodeFresh
    "nodeUpd metric" "\<lambda>n. (nid n, nkind n)" "nodeMeasure q" "\<lambda>e. pathMeasure metric q (fst (snd e))"
  for metric q
  by unfold_locales
    (simp_all add: nodeStep_def addNode_def nodeFresh_def nodeUpd_def nodeMeasure_def pathMeasure_def
      metricValue_def split: option.split FlowMetric.split)

interpretation link_acc: summing_accumulator "\<lambda>e. pathLinkKey (fst (fst e)) (snd (fst e))"
    "linkStep metric" linkFresh "linkUpd metric" "\<lambda>l. (lsource l, ltarget l)" "linkMeasure q"
    "\<lambda>e. pathMeasure metric q (fst (snd e))"
  for metric q
  by unfold_locales
    (simp_all add: linkStep_def addLink_def linkFresh_def linkUpd_def linkMeasure_def pathMeasure_def
      metricValue_def Let_def split: option.split FlowMetric.split)

section \<open>What the finishing passes keep\<close>

text \<open>Masking, highlighting, sorting, shares and display colours change no measure and no end point.\<close>

definition graphPaths ::
  "FlowEnv \<Rightarrow> FlowQuotaDataItem list \<Rightarrow> FlowMetric \<Rightarrow> FlowRole \<Rightarrow> FlowNodeKind list option \<Rightarrow>
     FlowPathContext \<Rightarrow> FlowBuildOptions \<Rightarrow> PreparedFlowPath list" where
  "graphPaths env rows metric r vis ctx options =
     preparePaths env rows metric (resolveVisibleStages r vis) ctx options"

definition graphColors ::
  "FlowEnv \<Rightarrow> jsstring list option \<Rightarrow> PreparedFlowPath list \<Rightarrow> (jsstring \<times> jsstring) list" where
  "graphColors env palette ps = stableColorMap env (js_sort (localeCompare env) (firstIds ps)) palette"

definition accNodes ::
  "FlowEnv \<Rightarrow> FlowMetric \<Rightarrow> jsstring list option \<Rightarrow> PreparedFlowPath list \<Rightarrow>
     (jsstring \<times> DashboardFlowNode) list" where
  "accNodes env metric palette ps =
     foldl (nodeStep metric) [] (nodeEvents env (graphColors env palette ps) palette ps)"

definition accLinks ::
  "FlowEnv \<Rightarrow> FlowMetric \<Rightarrow> jsstring list option \<Rightarrow> PreparedFlowPath list \<Rightarrow>
     (jsstring \<times> DashboardFlowLink) list" where
  "accLinks env metric palette ps =
     foldl (linkStep metric) [] (linkEvents env (graphColors env palette ps) palette ps)"

definition maskedGraph ::
  "FlowBuildOptions \<Rightarrow> (jsstring \<times> DashboardFlowNode) list \<Rightarrow> (jsstring \<times> DashboardFlowLink) list \<Rightarrow>
     (jsstring \<times> DashboardFlowNode) list \<times> (jsstring \<times> DashboardFlowLink) list" where
  "maskedGraph options ns ls = (if maskSensitive options then maskFlowGraphLabels ns ls else (ns, ls))"

definition graphHighlights ::
  "PreparedFlowPath list \<Rightarrow> FlowBuildOptions \<Rightarrow> FlowNodeKind list \<Rightarrow> FlowHighlightSets option" where
  "graphHighlights ps options stages = buildFlowHighlightSets ps (activeNode options) (activeLink options) stages"

definition linkOrder :: "FlowEnv \<Rightarrow> DashboardFlowLink \<Rightarrow> DashboardFlowLink \<Rightarrow> int" where
  "linkOrder env a b = or_else (localeCompare env (lsource a) (lsource b))
     (localeCompare env (ltarget a) (ltarget b))"

lemma buildFlowGraph_unfold:
  fixes env rows metric r palette vis ctx options
  defines "stages \<equiv> resolveVisibleStages r vis"
  defines "ps \<equiv> graphPaths env rows metric r vis ctx options"
  defines "lit \<equiv> (\<lambda>(ns, ls). applyFlowHighlights ns ls (graphHighlights ps options stages))
     (maskedGraph options (accNodes env metric palette ps) (accLinks env metric palette ps))"
  shows "graph_nodes (buildFlowGraph env rows metric r palette vis ctx options) =
      js_sort (byValueThenLabel env) (map snd (fst lit))"
    and "graph_links (buildFlowGraph env rows metric r palette vis ctx options) =
      assignLinkDisplayColors env (assignShares (firstIds ps)
        (js_sort (linkOrder env) (map snd (snd lit))))"
  by (simp_all add: buildFlowGraph_def accumulate_steps Let_def lit_def ps_def stages_def graphPaths_def
      graphColors_def accNodes_def accLinks_def maskedGraph_def graphHighlights_def linkOrder_def [abs_def]
      split: prod.split)

lemma highlight_nodes_map:
  "(\<And>n h d. f (n\<lparr>nhighlighted := h, ndimmed := d\<rparr>) = f n) \<Longrightarrow>
     map (\<lambda>x. f (snd x)) (fst (applyFlowHighlights ns ls h)) = map (\<lambda>x. f (snd x)) ns"
  by (auto simp: applyFlowHighlights_def split: option.split)

lemma highlight_links_map:
  "(\<And>l h d. f (l\<lparr>lhighlighted := h, ldimmed := d\<rparr>) = f l) \<Longrightarrow>
     map (\<lambda>x. f (snd x)) (snd (applyFlowHighlights ns ls h)) = map (\<lambda>x. f (snd x)) ls"
  by (auto simp: applyFlowHighlights_def split: option.split)

lemma masked_nodes_map:
  "(\<And>n l. f (n\<lparr>nlabel := l\<rparr>) = f n) \<Longrightarrow>
     map (\<lambda>x. f (snd x)) (fst (maskedGraph options ns ls)) = map (\<lambda>x. f (snd x)) ns"
  by (auto simp: maskedGraph_def maskFlowGraphLabels_def Let_def)

lemma masked_links_map:
  "(\<And>l a b. f (l\<lparr>lsourceLabel := a, ltargetLabel := b\<rparr>) = f l) \<Longrightarrow>
     map (\<lambda>x. f (snd x)) (snd (maskedGraph options ns ls)) = map (\<lambda>x. f (snd x)) ls"
  by (auto simp: maskedGraph_def maskFlowGraphLabels_def Let_def)

lemma shares_map:
  "(\<And>l a. f (l\<lparr>lshare := a\<rparr>) = f l) \<Longrightarrow> map f (assignShares srcs ls) = map f ls"
  by (simp add: assignShares_def Let_def comp_def)

lemma colors_map:
  "(\<And>l a b c. f (l\<lparr>llinkColor := a, llinkAlpha := b, lhoverColor := c\<rparr>) = f l) \<Longrightarrow>
     map f (assignLinkDisplayColors env ls) = map f ls"
  by (simp add: assignLinkDisplayColors_def Let_def comp_def)

lemma mset_map_sort: "mset (map f (js_sort cmp xs)) = mset (map f xs)"
  by (simp only: mset_map mset_js_sort)

lemma graph_nodes_core:
  assumes "\<And>n l. f (n\<lparr>nlabel := l\<rparr>) = f n" "\<And>n h d. f (n\<lparr>nhighlighted := h, ndimmed := d\<rparr>) = f n"
  shows "mset (map f (graph_nodes (buildFlowGraph env rows metric r palette vis ctx options))) =
    mset (map (\<lambda>x. f (snd x)) (accNodes env metric palette (graphPaths env rows metric r vis ctx options)))"
  by (simp only: buildFlowGraph_unfold mset_map_sort map_map comp_def case_prod_beta
      highlight_nodes_map [of f, OF assms(2)] masked_nodes_map [of f, OF assms(1)])

lemma graph_links_core:
  assumes "\<And>l a b. f (l\<lparr>lsourceLabel := a, ltargetLabel := b\<rparr>) = f l"
    "\<And>l h d. f (l\<lparr>lhighlighted := h, ldimmed := d\<rparr>) = f l" "\<And>l a. f (l\<lparr>lshare := a\<rparr>) = f l"
    "\<And>l a b c. f (l\<lparr>llinkColor := a, llinkAlpha := b, lhoverColor := c\<rparr>) = f l"
  shows "mset (map f (graph_links (buildFlowGraph env rows metric r palette vis ctx options))) =
    mset (map (\<lambda>x. f (snd x)) (accLinks env metric palette (graphPaths env rows metric r vis ctx options)))"
  by (simp only: buildFlowGraph_unfold mset_map_sort map_map comp_def case_prod_beta
      shares_map [of f, OF assms(3)] colors_map [of f, OF assms(4)]
      highlight_links_map [of f, OF assms(2)] masked_links_map [of f, OF assms(1)])

section \<open>Conservation\<close>

lemma sumBy_core: "sumBy f P xs = sumBy fst snd (map (\<lambda>x. (f x, P x)) xs)"
  by (induction xs) simp_all

lemma accNodes_entry:
  assumes "(k, v) \<in> set (accNodes env metric palette ps)"
  obtains p n where "p \<in> set ps" "n \<in> set (ppath p)" "pid n = k" "nid v = k" "nkind v = pkind n"
  using node_acc.entry_tag [OF assms [unfolded accNodes_def]]
  by (auto simp: nodeEvents_def nodeFresh_def)

lemma accLinks_entry:
  assumes "(k, v) \<in> set (accLinks env metric palette ps)"
  obtains p s t where "p \<in> set ps" "(s, t) \<in> set (pathPairs (ppath p))" "pathLinkKey s t = k"
    "lsource v = pid s" "ltarget v = pid t"
  using link_acc.entry_tag [OF assms [unfolded accLinks_def]]
  by (auto simp: linkEvents_def linkFresh_def)

lemma accNodes_sum:
  "sumBy (\<lambda>x. nodeMeasure q (snd x)) (\<lambda>x. P (fst x)) (accNodes env metric palette ps) =
     sum_list (map (\<lambda>p. sumBy (\<lambda>_. pathMeasure metric q (pmetrics p)) (\<lambda>n. P (pid n)) (ppath p)) ps)"
  unfolding accNodes_def node_acc.sum_fold
  by (simp add: nodeEvents_def sumBy_concat sumBy_map comp_def pathTag_def)

lemma accLinks_sum:
  "sumBy (\<lambda>x. linkMeasure q (snd x)) (\<lambda>x. P (fst x)) (accLinks env metric palette ps) =
     sum_list (map (\<lambda>p. sumBy (\<lambda>_. pathMeasure metric q (pmetrics p)) (\<lambda>st. P (pathLinkKey (fst st) (snd st)))
       (pathPairs (ppath p))) ps)"
  unfolding accLinks_def link_acc.sum_fold
  by (simp add: linkEvents_def sumBy_concat sumBy_map comp_def pathTag_def)

lemma graph_node_sum:
  assumes "\<And>v k. (k, v) \<in> set (accNodes env metric palette (graphPaths env rows metric r vis ctx options)) \<Longrightarrow>
      Q (nid v) (nkind v) = P k"
  shows "sumBy (nodeMeasure q) (\<lambda>n. Q (nid n) (nkind n))
      (graph_nodes (buildFlowGraph env rows metric r palette vis ctx options)) =
    sum_list (map (\<lambda>p. sumBy (\<lambda>_. pathMeasure metric q (pmetrics p)) (\<lambda>n. P (pid n)) (ppath p))
      (graphPaths env rows metric r vis ctx options))" (is "?l = ?r")
proof -
  have "?l = sumBy fst snd (map (\<lambda>x. (nodeMeasure q (snd x), Q (nid (snd x)) (nkind (snd x))))
      (accNodes env metric palette (graphPaths env rows metric r vis ctx options)))"
    unfolding sumBy_core [of "nodeMeasure q"]
    by (rule sumBy_mset, rule graph_nodes_core) (simp_all add: nodeMeasure_def split: option.split FlowMetric.split)
  also have "\<dots> = sumBy (\<lambda>x. nodeMeasure q (snd x)) (\<lambda>x. P (fst x))
      (accNodes env metric palette (graphPaths env rows metric r vis ctx options))"
    unfolding sumBy_core [symmetric] by (rule sumBy_cong [OF refl]) (auto dest: assms)
  also have "\<dots> = ?r" by (rule accNodes_sum)
  finally show ?thesis .
qed

lemma graph_link_sum:
  assumes "\<And>v k. (k, v) \<in> set (accLinks env metric palette (graphPaths env rows metric r vis ctx options)) \<Longrightarrow>
      Q (lsource v) (ltarget v) = P k"
  shows "sumBy (linkMeasure q) (\<lambda>l. Q (lsource l) (ltarget l))
      (graph_links (buildFlowGraph env rows metric r palette vis ctx options)) =
    sum_list (map (\<lambda>p. sumBy (\<lambda>_. pathMeasure metric q (pmetrics p)) (\<lambda>st. P (pathLinkKey (fst st) (snd st)))
      (pathPairs (ppath p))) (graphPaths env rows metric r vis ctx options))" (is "?l = ?r")
proof -
  have "?l = sumBy fst snd (map (\<lambda>x. (linkMeasure q (snd x), Q (lsource (snd x)) (ltarget (snd x))))
      (accLinks env metric palette (graphPaths env rows metric r vis ctx options)))"
    unfolding sumBy_core [of "linkMeasure q"]
    by (rule sumBy_mset, rule graph_links_core) (simp_all add: linkMeasure_def split: option.split FlowMetric.split)
  also have "\<dots> = sumBy (\<lambda>x. linkMeasure q (snd x)) (\<lambda>x. P (fst x))
      (accLinks env metric palette (graphPaths env rows metric r vis ctx options))"
    unfolding sumBy_core [symmetric] by (rule sumBy_cong [OF refl]) (auto dest: assms)
  also have "\<dots> = ?r" by (rule accLinks_sum)
  finally show ?thesis .
qed

lemma graph_kind_sum:
  assumes "k \<in> set (resolveVisibleStages r vis)"
  shows "sumBy (nodeMeasure q) (\<lambda>n. nkind n = k)
      (graph_nodes (buildFlowGraph env rows metric r palette vis ctx options)) =
    sum_list (map (\<lambda>p. pathMeasure metric q (pmetrics p)) (graphPaths env rows metric r vis ctx options))"
proof -
  define ps where "ps = graphPaths env rows metric r vis ctx options"
  have wf: "wf_node n" if "p \<in> set ps" "n \<in> set (ppath p)" for p n
    using that prepared_wf by (auto simp: ps_def graphPaths_def)
  have kind: "startsWith (pid n) (kindPrefix k) \<longleftrightarrow> pkind n = k" if "wf_node n" for n
    using that kindPrefix_inject by (auto simp: wf_node_def)
  have "sumBy (nodeMeasure q) (\<lambda>n. nkind n = k)
      (graph_nodes (buildFlowGraph env rows metric r palette vis ctx options)) =
    sum_list (map (\<lambda>p. sumBy (\<lambda>_. pathMeasure metric q (pmetrics p))
       (\<lambda>n. startsWith (pid n) (kindPrefix k)) (ppath p)) ps)"
    unfolding ps_def
    by (rule graph_node_sum [where Q = "\<lambda>_ kd. kd = k" and P = "\<lambda>i. startsWith i (kindPrefix k)"])
      (erule accNodes_entry, metis ps_def wf kind)
  also have "\<dots> = sum_list (map (\<lambda>p. pathMeasure metric q (pmetrics p)) ps)"
  proof (rule arg_cong [where f = sum_list], rule map_cong [OF refl])
    fix p assume p: "p \<in> set ps"
    then have kinds: "map pkind (ppath p) = resolveVisibleStages r vis"
      using prepared_kinds by (auto simp: ps_def graphPaths_def)
    have "sumBy (\<lambda>_. pathMeasure metric q (pmetrics p)) (\<lambda>n. startsWith (pid n) (kindPrefix k)) (ppath p) =
        sumBy (\<lambda>_. pathMeasure metric q (pmetrics p)) (\<lambda>n. pkind n = k) (ppath p)"
      by (rule sumBy_cong [OF refl]) (auto simp: kind wf [OF p])
    also have "\<dots> = pathMeasure metric q (pmetrics p)"
      using assms kinds by (subst sumBy_const_one) auto
    finally show "sumBy (\<lambda>_. pathMeasure metric q (pmetrics p)) (\<lambda>n. startsWith (pid n) (kindPrefix k)) (ppath p)
       = pathMeasure metric q (pmetrics p)" .
  qed
  finally show ?thesis by (simp add: ps_def)
qed

subsection \<open>Link keys\<close>

text \<open>A link is stored under its source, a NUL and its target.  The key identifies the pair when no
  identifier contains a NUL.\<close>

definition nulFree :: "jsstring \<Rightarrow> bool" where
  "nulFree s \<longleftrightarrow> 0 \<notin> set s"

definition rowNulFree :: "FlowQuotaDataItem \<Rightarrow> bool" where
  "rowNulFree row \<longleftrightarrow> list_all (\<lambda>s. nulFree (or_str s []))
     [username row, node_name row, use_group row, token_name row, channel_name row, model_name row]"

lemma nulFree_append [simp]: "nulFree (a @ b) \<longleftrightarrow> nulFree a \<and> nulFree b"
  by (auto simp: nulFree_def)

lemma nulFree_or_str: "nulFree (or_str s []) \<Longrightarrow> nulFree d \<Longrightarrow> nulFree (or_str s d)"
  by (auto simp: or_str_def nulFree_def split: option.splits if_splits)

lemma nulFree_int_str [simp]: "nulFree (int_str i)"
  using nat_str_digits [of "nat i"] nat_str_digits [of "nat (- i)"]
  by (auto simp: int_str_def nulFree_def is_digit_def js.simps)

lemma nulFree_js: "CHR 0x00 \<notin> set s \<Longrightarrow> nulFree (js s)"
proof (induction s)
  case (Cons c s)
  have "of_char c \<noteq> (of_char (CHR 0x00) :: nat)" using Cons.prems unfolding of_char_eq_iff by auto
  then show ?case using Cons by (simp add: nulFree_def js.simps)
qed (simp add: nulFree_def js.simps)

lemma nulFree_NODE_BUILDERS: "rowNulFree row \<Longrightarrow> nulFree (pid (NODE_BUILDERS k row ctx))"
  by (simp add: rowNulFree_def NODE_BUILDERS_def userNode_def nodeNameNode_def tokenNode_def groupNode_def
      modelNode_def channelNode_def Let_def nulFree_or_str nulFree_js split: FlowNodeKind.split)

lemma nulFree_otherFlowNode: "nulFree (pid (otherFlowNode k labeler))"
  by (simp add: otherFlowNode_def OTHER_FLOW_NODE_IDS_def nulFree_js split: FlowNodeKind.split)

lemma prepared_nulFree:
  assumes "list_all rowNulFree rows" "p \<in> set (preparePaths env rows metric stages ctx options)"
    "n \<in> set (ppath p)"
  shows "nulFree (pid n)"
  using assms(2)
proof (rule prepared_path)
  fix row assume row: "row \<in> set rows" and app: "applyTopNodeLimit (flowPathForStages row stages ctx)
       (buildTopNodeSets env rows metric stages (normalizeTopNodeLimit (topNodeLimit options)) ctx)
       (case overflowMode options of Some o' \<Rightarrow> o' | None \<Rightarrow> Aggregate) (otherNodeLabel options) = Some (ppath p)"
  show ?thesis
    using applyTopNodeLimit_nodes(2) [OF app] assms(1,3) row nulFree_NODE_BUILDERS nulFree_otherFlowNode
    by (auto simp: flowPathForStages_def list_all_iff)
qed

definition keySource :: "jsstring \<Rightarrow> jsstring" where
  "keySource k = takeWhile (\<lambda>c. c \<noteq> 0) k"

definition keyTarget :: "jsstring \<Rightarrow> jsstring" where
  "keyTarget k = tl (dropWhile (\<lambda>c. c \<noteq> 0) k)"

lemma keySource_key: "nulFree (pid s) \<Longrightarrow> keySource (pathLinkKey s t) = pid s"
  by (induction "pid s" arbitrary: s)
    (auto simp: keySource_def pathLinkKey_def nulFree_def takeWhile_append2 takeWhile_eq_all_conv
      takeWhile_append)

lemma keyTarget_key: "nulFree (pid s) \<Longrightarrow> keyTarget (pathLinkKey s t) = pid t"
  by (auto simp: keyTarget_def pathLinkKey_def nulFree_def dropWhile_append dropWhile_eq_Nil_conv)

lemma map_fst_pathPairs: "map fst (pathPairs path) = butlast path"
  by (cases path) (simp_all add: pathPairs_def butlast_conv_take map_fst_zip_take)

lemma map_snd_pathPairs: "map snd (pathPairs path) = tl path"
  by (simp add: pathPairs_def map_snd_zip_take)

lemma pathPairs_mem: "(s, t) \<in> set (pathPairs path) \<Longrightarrow> s \<in> set path \<and> t \<in> set path"
  by (cases path) (auto simp: pathPairs_def dest: set_zip_leftD set_zip_rightD)

subsection \<open>Balance\<close>

lemma graph_node_measure:
  assumes "n \<in> set (graph_nodes (buildFlowGraph env rows metric r palette vis ctx options))"
  defines "ps \<equiv> graphPaths env rows metric r vis ctx options"
  shows "nodeMeasure q n = sumBy (\<lambda>p. pathMeasure metric q (pmetrics p)) (\<lambda>p. nid n \<in> pid ` set (ppath p)) ps"
    and "\<exists>p \<in> set ps. \<exists>m \<in> set (ppath p). pid m = nid n \<and> pkind m = nkind n"
proof -
  define f where "f n = (nid n, nkind n, nodeMeasure q n)" for n
  have "mset (map f (graph_nodes (buildFlowGraph env rows metric r palette vis ctx options))) =
      mset (map (\<lambda>x. f (snd x)) (accNodes env metric palette ps))"
    unfolding ps_def by (rule graph_nodes_core)
      (simp_all add: f_def nodeMeasure_def split: option.split FlowMetric.split)
  then have "f n \<in> set (map (\<lambda>x. f (snd x)) (accNodes env metric palette ps))"
    using assms(1) by (metis (no_types, lifting) image_eqI list.set_map mset_eq_setD)
  then obtain k v where kv: "(k, v) \<in> set (accNodes env metric palette ps)" and f: "f v = f n" by auto
  obtain p m where pm: "p \<in> set ps" "m \<in> set (ppath p)" "pid m = k" "nid v = k" "nkind v = pkind m"
    using kv by (rule accNodes_entry)
  then show "\<exists>p \<in> set ps. \<exists>m \<in> set (ppath p). pid m = nid n \<and> pkind m = nkind n"
    using f by (auto simp: f_def)
  have k: "k = nid n" using pm f by (simp add: f_def)
  have "nodeMeasure q v = sum_list (map (\<lambda>p. sumBy (\<lambda>_. pathMeasure metric q (pmetrics p))
      (\<lambda>n. pid n = k) (ppath p)) ps)"
    using node_acc.entry_val [OF kv [unfolded accNodes_def], of q]
    by (simp add: nodeEvents_def sumBy_concat sumBy_map comp_def pathTag_def)
  also have "\<dots> = sum_list (map (\<lambda>p. if k \<in> pid ` set (ppath p) then pathMeasure metric q (pmetrics p) else 0) ps)"
    by (intro arg_cong [where f = sum_list] map_cong refl, subst sumBy_const_one)
      (auto simp: ps_def graphPaths_def intro: prepared_distinct)
  finally show "nodeMeasure q n = sumBy (\<lambda>p. pathMeasure metric q (pmetrics p)) (\<lambda>p. nid n \<in> pid ` set (ppath p)) ps"
    using f k by (simp add: sum_list_if f_def)
qed

lemma graph_link_proj:
  fixes env metric r vis ctx options
  assumes nul: "list_all rowNulFree rows"
    and key: "\<And>s t. nulFree (pid s) \<Longrightarrow> kp (pathLinkKey s t) = pid (sel (s, t))"
    and e: "\<And>s t. e (pid s) (pid t) = pid (sel (s, t))"
    and dist: "\<And>path. distinct (map pid path) \<Longrightarrow> distinct (map pid (map sel (pathPairs path)))"
  defines "ps \<equiv> graphPaths env rows metric r vis ctx options"
  shows "sumBy (linkMeasure q) (\<lambda>l. e (lsource l) (ltarget l) = i)
      (graph_links (buildFlowGraph env rows metric r palette vis ctx options)) =
    sumBy (\<lambda>p. pathMeasure metric q (pmetrics p)) (\<lambda>p. i \<in> pid ` set (map sel (pathPairs (ppath p)))) ps"
proof -
  have nf: "nulFree (pid n)" if "p \<in> set ps" "n \<in> set (ppath p)" for p n
    using that prepared_nulFree [OF nul] by (auto simp: ps_def graphPaths_def)
  have pairs: "kp (pathLinkKey s t) = e (pid s) (pid t)" if "p \<in> set ps" "(s, t) \<in> set (pathPairs (ppath p))" for p s t
    using that nf key e pathPairs_mem by metis
  have one: "sumBy (\<lambda>_. c) (\<lambda>st. kp (pathLinkKey (fst st) (snd st)) = i) (pathPairs (ppath p)) =
      (if i \<in> pid ` set (map sel (pathPairs (ppath p))) then c else 0)" if p: "p \<in> set ps" for p c
  proof -
    have "distinct (map pid (ppath p))"
      using p prepared_distinct by (auto simp: ps_def graphPaths_def)
    from sumBy_const_one [OF dist [OF this], of "\<lambda>_. c" c i]
    have "sumBy (\<lambda>_. c) (\<lambda>n. pid n = i) (map sel (pathPairs (ppath p))) =
      (if i \<in> pid ` set (map sel (pathPairs (ppath p))) then c else 0)" by (simp add: image_image)
    moreover have "sumBy (\<lambda>_. c) (\<lambda>st. kp (pathLinkKey (fst st) (snd st)) = i) (pathPairs (ppath p)) =
        sumBy (\<lambda>_. c) (\<lambda>n. pid n = i) (map sel (pathPairs (ppath p)))"
      unfolding sumBy_map comp_def
      by (rule sumBy_cong [OF refl]) (auto simp: pairs [OF p] e)
    ultimately show ?thesis by simp
  qed
  have "sumBy (linkMeasure q) (\<lambda>l. e (lsource l) (ltarget l) = i)
      (graph_links (buildFlowGraph env rows metric r palette vis ctx options)) = sum_list (map (\<lambda>p.
      sumBy (\<lambda>_. pathMeasure metric q (pmetrics p)) (\<lambda>st. kp (pathLinkKey (fst st) (snd st)) = i)
        (pathPairs (ppath p))) ps)"
    unfolding ps_def
    by (rule graph_link_sum [where Q = "\<lambda>s t. e s t = i" and P = "\<lambda>k. kp k = i"], erule accLinks_entry)
      (metis pairs ps_def)
  also have "\<dots> = sum_list (map (\<lambda>p. if i \<in> pid ` set (map sel (pathPairs (ppath p)))
      then pathMeasure metric q (pmetrics p) else 0) ps)"
    by (intro arg_cong [where f = sum_list] map_cong refl one)
  finally show ?thesis by (simp only: sum_list_if)
qed

lemma graph_link_end:
  assumes "list_all rowNulFree rows"
  shows "sumBy (linkMeasure q) (\<lambda>l. lsource l = i)
      (graph_links (buildFlowGraph env rows metric r palette vis ctx options)) =
      sumBy (\<lambda>p. pathMeasure metric q (pmetrics p)) (\<lambda>p. i \<in> pid ` set (butlast (ppath p)))
        (graphPaths env rows metric r vis ctx options)"
    and "sumBy (linkMeasure q) (\<lambda>l. ltarget l = i)
      (graph_links (buildFlowGraph env rows metric r palette vis ctx options)) =
      sumBy (\<lambda>p. pathMeasure metric q (pmetrics p)) (\<lambda>p. i \<in> pid ` set (tl (ppath p)))
        (graphPaths env rows metric r vis ctx options)"
  using graph_link_proj [OF assms, where kp = keySource and sel = fst and e = "\<lambda>s t. s"]
    graph_link_proj [OF assms, where kp = keyTarget and sel = snd and e = "\<lambda>s t. t"]
  unfolding map_fst_pathPairs map_snd_pathPairs
  by (simp_all add: keySource_key keyTarget_key map_butlast distinct_butlast map_tl distinct_tl)

lemma graph_balance:
  assumes nul: "list_all rowNulFree rows"
    and n: "n \<in> set (graph_nodes (buildFlowGraph env rows metric r palette vis ctx options))"
  shows "nkind n \<noteq> hd (resolveVisibleStages r vis) \<Longrightarrow> sumBy (linkMeasure q) (\<lambda>l. ltarget l = nid n)
      (graph_links (buildFlowGraph env rows metric r palette vis ctx options)) = nodeMeasure q n"
    and "nkind n \<noteq> last (resolveVisibleStages r vis) \<Longrightarrow> sumBy (linkMeasure q) (\<lambda>l. lsource l = nid n)
      (graph_links (buildFlowGraph env rows metric r palette vis ctx options)) = nodeMeasure q n"
proof -
  define ps where "ps = graphPaths env rows metric r vis ctx options"
  have kinds: "map pkind (ppath p) = resolveVisibleStages r vis" if "p \<in> set ps" for p
    using that prepared_kinds by (auto simp: ps_def graphPaths_def)
  have kind: "pkind m = nkind n" if "p \<in> set ps" "m \<in> set (ppath p)" "pid m = nid n" for p m
    using that graph_node_measure(2) [OF n] prepared_wf wf_same_kind
    unfolding ps_def graphPaths_def by metis
  show "sumBy (linkMeasure q) (\<lambda>l. ltarget l = nid n)
      (graph_links (buildFlowGraph env rows metric r palette vis ctx options)) = nodeMeasure q n"
    if "nkind n \<noteq> hd (resolveVisibleStages r vis)"
    unfolding graph_link_end(2) [OF nul] graph_node_measure(1) [OF n] ps_def [symmetric]
  proof (rule sumBy_cong [OF refl _ refl])
    fix p assume p: "p \<in> set ps"
    show "(nid n \<in> pid ` set (tl (ppath p))) = (nid n \<in> pid ` set (ppath p))"
      using kind [OF p] that [folded kinds [OF p]] by (cases "ppath p") auto
  qed
  show "sumBy (linkMeasure q) (\<lambda>l. lsource l = nid n)
      (graph_links (buildFlowGraph env rows metric r palette vis ctx options)) = nodeMeasure q n"
    if "nkind n \<noteq> last (resolveVisibleStages r vis)"
    unfolding graph_link_end(1) [OF nul] graph_node_measure(1) [OF n] ps_def [symmetric]
  proof (rule sumBy_cong [OF refl _ refl])
    fix p assume p: "p \<in> set ps"
    show "(nid n \<in> pid ` set (butlast (ppath p))) = (nid n \<in> pid ` set (ppath p))"
      using kind [OF p] that [folded kinds [OF p]] by (cases "ppath p" rule: rev_cases) auto
  qed
qed

subsection \<open>Shares\<close>

lemma length_resolveVisibleStages: "2 \<le> length (resolveVisibleStages r vis)"
  by (cases r) (auto simp: resolveVisibleStages_def getFlowStages_def ROLE_FLOW_STAGES_def Let_def
      MIN_FLOW_STAGES_def split: option.split)

lemma sumBy_via_map:
  "map (\<lambda>x. (g x, P x)) xs = map (\<lambda>x. (g x, P x)) ys \<Longrightarrow> sumBy g P xs = sumBy g P ys"
  unfolding sumBy_core [of g P] by simp

lemma link_share:
  assumes "l \<in> set (graph_links (buildFlowGraph env rows metric r palette vis ctx options))"
  defines "tot \<equiv> sumBy lvalue
      (\<lambda>l. lsource l \<in> set (firstIds (graphPaths env rows metric r vis ctx options)))
      (graph_links (buildFlowGraph env rows metric r palette vis ctx options))"
  shows "lshare l = (if tot > 0 then of_int (lvalue l) / of_int tot else 0)"
proof -
  define S where "S = firstIds (graphPaths env rows metric r vis ctx options)"
  obtain fl where fl: "graph_links (buildFlowGraph env rows metric r palette vis ctx options) =
      assignLinkDisplayColors env (assignShares S fl)"
    unfolding S_def buildFlowGraph_unfold by blast
  have "map (\<lambda>l. (lvalue l, lsource l \<in> set S)) (assignLinkDisplayColors env (assignShares S fl)) =
      map (\<lambda>l. (lvalue l, lsource l \<in> set S)) fl"
    by (subst colors_map, simp, subst shares_map) simp_all
  from sumBy_via_map [OF this] have tot: "tot = sumBy lvalue (\<lambda>l. lsource l \<in> set S) fl"
    unfolding tot_def fl S_def [symmetric] .
  have "map (\<lambda>l. (lvalue l, lshare l)) (assignLinkDisplayColors env (assignShares S fl)) =
      map (\<lambda>l. (lvalue l, lshare l)) (assignShares S fl)"
    by (rule colors_map) simp
  moreover have "(lvalue l, lshare l) \<in> set (map (\<lambda>l. (lvalue l, lshare l))
      (assignLinkDisplayColors env (assignShares S fl)))"
    using assms(1) unfolding fl by simp
  ultimately have "(lvalue l, lshare l) \<in> set (map (\<lambda>l. (lvalue l, lshare l)) (assignShares S fl))" by simp
  then show ?thesis
    by (auto simp: assignShares_def Let_def tot sumBy_def)
qed

lemma firstIds_eq:
  "firstIds (graphPaths env rows metric r vis ctx options) =
     map (\<lambda>p. pid (hd (ppath p))) (graphPaths env rows metric r vis ctx options)"
proof -
  define ps where "ps = graphPaths env rows metric r vis ctx options"
  have ne: "ppath p \<noteq> [] \<and> pid (hd (ppath p)) \<noteq> []" if "p \<in> set ps" for p
  proof -
    have "map pkind (ppath p) = resolveVisibleStages r vis"
      using that prepared_kinds by (auto simp: ps_def graphPaths_def)
    then have "ppath p \<noteq> []" using length_resolveVisibleStages [of r vis] by auto
    moreover from this have "wf_node (hd (ppath p))"
      using that prepared_wf by (auto simp: ps_def graphPaths_def)
    ultimately show ?thesis
      by (auto simp: wf_node_def startsWith_def kindPrefix_def js.simps)
  qed
  have "firstIds qs = map (\<lambda>p. pid (hd (ppath p))) qs" if "set qs \<subseteq> set ps" for qs
    using that
  proof (induction qs)
    case (Cons p qs)
    then show ?case using ne [of p]
      by (cases "ppath p") (auto simp: firstIds_def map_filter_simps)
  qed (simp add: firstIds_def map_filter_simps)
  then show ?thesis by (simp add: ps_def)
qed

lemma first_id_iff:
  fixes env rows metric r vis ctx options
  defines "ps \<equiv> graphPaths env rows metric r vis ctx options"
  assumes "p \<in> set ps" "n \<in> set (ppath p)"
  shows "pid n \<in> set (firstIds ps) \<longleftrightarrow> pkind n = hd (resolveVisibleStages r vis)"
proof -
  have kinds: "map pkind (ppath p) = resolveVisibleStages r vis" if "p \<in> set ps" for p
    using that prepared_kinds by (auto simp: ps_def graphPaths_def)
  have wf: "wf_node n" if "p \<in> set ps" "n \<in> set (ppath p)" for p n
    using that prepared_wf by (auto simp: ps_def graphPaths_def)
  have hd: "pkind (hd (ppath p)) = hd (resolveVisibleStages r vis)" "ppath p \<noteq> []" if "p \<in> set ps" for p
    using kinds [OF that, symmetric] length_resolveVisibleStages [of r vis] by (cases "ppath p"; simp)+
  show ?thesis
  proof
    assume "pid n \<in> set (firstIds ps)"
    then obtain p' where "p' \<in> set ps" "pid n = pid (hd (ppath p'))"
      by (auto simp: ps_def firstIds_eq)
    then show "pkind n = hd (resolveVisibleStages r vis)"
      using assms hd wf wf_same_kind by (metis list.set_sel(1))
  next
    assume "pkind n = hd (resolveVisibleStages r vis)"
    moreover have "inj_on pkind (set (ppath p))"
      using kinds [OF assms(2)] distinct_resolveVisibleStages [of r vis] by (metis distinct_map)
    ultimately have "n = hd (ppath p)"
      using assms hd by (metis inj_onD list.set_sel(1))
    then show "pid n \<in> set (firstIds ps)" using assms by (auto simp: ps_def firstIds_eq)
  qed
qed

lemma first_step_total:
  fixes env metric r vis ctx options
  assumes nul: "list_all rowNulFree rows"
  defines "ps \<equiv> graphPaths env rows metric r vis ctx options"
  shows "sumBy (linkMeasure q) (\<lambda>l. lsource l \<in> set (firstIds ps))
      (graph_links (buildFlowGraph env rows metric r palette vis ctx options)) =
    sum_list (map (\<lambda>p. pathMeasure metric q (pmetrics p)) ps)"
proof -
  define stages where "stages = resolveVisibleStages r vis"
  have ps: "ps = preparePaths env rows metric stages ctx options" by (simp add: ps_def graphPaths_def stages_def)
  have one: "sumBy (\<lambda>_. c) (\<lambda>st. keySource (pathLinkKey (fst st) (snd st)) \<in> set (firstIds ps))
     (pathPairs (ppath p)) = c" if p: "p \<in> set ps" for p c
  proof -
    have "sumBy (\<lambda>_. c) (\<lambda>st. keySource (pathLinkKey (fst st) (snd st)) \<in> set (firstIds ps))
     (pathPairs (ppath p)) = sumBy (\<lambda>_. c) (\<lambda>n. pkind n = hd stages) (map fst (pathPairs (ppath p)))"
      unfolding sumBy_map comp_def
      by (rule sumBy_cong [OF refl _ refl])
        (metis first_id_iff keySource_key nul p pathPairs_mem prepared_nulFree prod.collapse ps ps_def stages_def)
    moreover have "map pkind (butlast (ppath p)) = butlast stages"
      using prepared_kinds p ps by (metis map_butlast)
    moreover have "hd stages \<in> set (butlast stages)"
      using length_resolveVisibleStages [of r vis]
      by (cases stages) (auto simp: stages_def [symmetric] split: if_splits)
    ultimately show ?thesis
      unfolding map_fst_pathPairs
      by (subst (asm) sumBy_const_one)
        (simp_all only: distinct_butlast distinct_resolveVisibleStages stages_def if_True)
  qed
  have "sumBy (linkMeasure q) (\<lambda>l. lsource l \<in> set (firstIds ps))
      (graph_links (buildFlowGraph env rows metric r palette vis ctx options)) = sum_list (map (\<lambda>p.
      sumBy (\<lambda>_. pathMeasure metric q (pmetrics p)) (\<lambda>st. keySource (pathLinkKey (fst st) (snd st)) \<in> set (firstIds ps))
        (pathPairs (ppath p))) ps)"
    unfolding ps_def
    by (rule graph_link_sum [where Q = "\<lambda>s t. s \<in> S" and P = "\<lambda>k. keySource k \<in> S" for S], erule accLinks_entry)
      (metis keySource_key nul pathPairs_mem prepared_nulFree ps ps_def)
  then show ?thesis by (simp add: one cong: map_cong)
qed

section \<open>Properties of the whole analysis\<close>

definition shownStages :: "FlowBuildOptions \<Rightarrow> FlowNodeKind list" where
  "shownStages options = resolveVisibleStages (case role options of Some r \<Rightarrow> r | None \<Rightarrow> RoleUser)
     (visibleStages options)"

definition shownRows :: "FlowQuotaDataItem list \<Rightarrow> FlowBuildOptions \<Rightarrow> FlowQuotaDataItem list" where
  "shownRows rows options = filterRowsByNodes (filterRows rows (selectedUsers options))
     (selectedNodes options) (shownStages options) (deletedTokenLabelOpt options)"

definition keepsAllRows :: "FlowBuildOptions \<Rightarrow> bool" where
  "keepsAllRows options \<longleftrightarrow>
     overflowMode options \<noteq> Some Hide \<or> normalizeTopNodeLimit (topNodeLimit options) = None"

lemma flow_data_unfold:
  "flow (buildDashboardFlowData env rows metric options) =
     buildFlowGraph env (shownRows rows options) metric
       (case role options of Some r \<Rightarrow> r | None \<Rightarrow> RoleUser) (colorPaletteOpt options)
       (visibleStages options) (deletedTokenLabelOpt options) options"
  "summary (buildDashboardFlowData env rows metric options) = buildSummary (shownRows rows options)"
  by (simp_all add: buildDashboardFlowData_def shownRows_def shownStages_def Let_def)

lemma set_shownRows: "set (shownRows rows options) \<subseteq> set rows"
  by (auto simp: shownRows_def filterRowsByNodes_def filterRows_def Let_def)

lemma kept_total:
  assumes "keepsAllRows options"
  shows "sum_list (map (\<lambda>p. pathMeasure metric q (pmetrics p)) (graphPaths env rows metric r vis ctx options)) =
    summaryMeasure (case q of None \<Rightarrow> metric | Some m \<Rightarrow> m) (buildSummary rows)"
proof -
  have "map (\<lambda>p. pathMeasure metric q (pmetrics p)) (graphPaths env rows metric r vis ctx options) =
      map (pathMeasure metric q) (map rowMetrics rows)"
    using assms prepared_all [of options env rows metric "resolveVisibleStages r vis" ctx, symmetric]
    by (simp add: keepsAllRows_def graphPaths_def)
  then show ?thesis by (simp add: buildSummary_measure pathMeasure_def comp_def)
qed

text \<open>The rows behind the graph: all rows that are shown, or, when overflow is hidden, those whose path only has nodes
  within the limit of their stage.\<close>

definition keptRows :: "FlowEnv \<Rightarrow> FlowQuotaDataItem list \<Rightarrow> FlowMetric \<Rightarrow> FlowBuildOptions \<Rightarrow> FlowQuotaDataItem list" where
  "keptRows env rows metric options =
     (let shown = shownRows rows options; stages = shownStages options;
          limit = buildTopNodeSets env shown metric stages (normalizeTopNodeLimit (topNodeLimit options)) (deletedTokenLabelOpt options) in
      if overflowMode options = Some Hide
      then filter (\<lambda>row. list_all (\<lambda>n. isTopFlowNode n limit) (flowPathForStages row stages (deletedTokenLabelOpt options))) shown
      else shown)"

lemma keptRows_all: "keepsAllRows options \<Longrightarrow> keptRows env rows metric options = shownRows rows options"
  by (auto simp: keptRows_def keepsAllRows_def Let_def buildTopNodeSets_def isTopFlowNode_def list_all_iff intro!: filter_True)

lemma hidden_metrics:
  "map pmetrics (List.map_filter (\<lambda>row. map_option (\<lambda>path. \<lparr>ppath = path, pmetrics = rowMetrics row\<rparr>)
      (applyTopNodeLimit (f row) limit Hide lab)) rows) =
   map rowMetrics (filter (\<lambda>row. list_all (\<lambda>n. isTopFlowNode n limit) (f row)) rows)"
  by (induction rows) (auto simp: map_filter_simps applyTopNodeLimit_def isTopFlowNode_def list_all_iff list_ex_iff split: option.splits)

lemma kept_metrics:
  "map pmetrics (preparePaths env (shownRows rows options) metric (shownStages options) (deletedTokenLabelOpt options) options) =
   map rowMetrics (keptRows env rows metric options)"
proof (cases "overflowMode options = Some Hide")
  case True
  then show ?thesis by (simp add: preparePaths_def keptRows_def Let_def hidden_metrics)
next
  case False
  then show ?thesis by (simp add: prepared_all keptRows_def Let_def)
qed

definition sampleEnv :: FlowEnv where
  "sampleEnv = \<lparr>localeCompare = (\<lambda>a b. if lexordp (<) a b then -1 else if a = b then 0 else 1),
     toFixed2 = (\<lambda>_. js ''0.34''), formatNumber = int_str, vchartDefaultDataScheme = [(None, [Some (js ''#1664FF'')])]\<rparr>"

definition sampleRow :: FlowQuotaDataItem where
  "sampleRow = \<lparr>user_id = Some (Num 7), username = Some (js ''ann''), node_name = None, use_group = Some (js ''vip''),
     token_id = Some (Num 3), token_name = None, channel_id = Some (Num 1), channel_name = None,
     model_name = Some (js ''gpt''), token_used = Some (Num 20), row_count = Some (Num 2), row_quota = Some (Num 50)\<rparr>"

definition sampleOptions :: FlowBuildOptions where
  "sampleOptions = \<lparr>role = Some RoleAdmin, selectedUsers = None, selectedNodes = None, activeNode = None,
     activeLink = None, colorPaletteOpt = None, visibleStages = None, topNodeLimit = Some (Num 3),
     overflowMode = None, maskSensitive = True, deletedTokenLabelOpt = None, otherNodeLabel = None\<rparr>"

lemmas sample_defs = sampleEnv_def sampleRow_def sampleOptions_def

lemma sample_facts:
  "shownStages sampleOptions = [KUser, KGroup, KModel, KChannel]" "keepsAllRows sampleOptions"
  "list_all rowNulFree [sampleRow]" "shownRows [sampleRow] sampleOptions = [sampleRow]"
  "buildSummary [sampleRow] = \<lparr>sum_quota = 50, sum_tokens = 20, sum_requests = 2\<rparr>"
  by (simp_all add: sample_defs shownStages_def keepsAllRows_def resolveVisibleStages_def getFlowStages_def
      ROLE_FLOW_STAGES_def Let_def rowNulFree_def nulFree_js shownRows_def filterRows_def filterRowsByNodes_def
      normalizeSelectedNodeFilters_def buildSummary_def rowMetrics_def numberValue_def)
    (simp_all add: nulFree_def)

lemma sumBy_nonzero: "sumBy f P xs \<noteq> 0 \<Longrightarrow> \<exists>x \<in> set xs. P x"
  using sumBy_none by metis

lemma sample_node:
  "\<exists>n. n \<in> set (graph_nodes (flow (buildDashboardFlowData sampleEnv [sampleRow] MQuota sampleOptions))) \<and>
     nkind n = KGroup"
proof -
  have "sumBy (nodeMeasure None) (\<lambda>n. nkind n = KGroup)
      (graph_nodes (flow (buildDashboardFlowData sampleEnv [sampleRow] MQuota sampleOptions))) \<noteq> 0"
    unfolding flow_data_unfold
    by (subst graph_kind_sum)
      (simp_all add: sample_facts [unfolded shownStages_def] kept_total summaryMeasure_def)
  then show ?thesis by (blast dest: sumBy_nonzero)
qed

text \<open>C4. Conservation at a stage: the nodes of every visible stage together carry exactly the totals, for the
  selected metric and for each of the three metrics, of the rows behind the graph.  These are all the rows that the
  summary counts, unless a limit of nodes is set and overflow is hidden: then they are the rows whose path stays within
  the limits, and every stage falls short of the summary by the same amount.\<close>

theorem stage_conservation:
  assumes "k \<in> set (shownStages options)"
  shows "sumBy (nodeMeasure q) (\<lambda>n. nkind n = k) (graph_nodes (flow (buildDashboardFlowData env rows metric options))) =
      summaryMeasure (case q of None \<Rightarrow> metric | Some m \<Rightarrow> m) (buildSummary (keptRows env rows metric options)) \<and>
    (keepsAllRows options \<longrightarrow>
      buildSummary (keptRows env rows metric options) = summary (buildDashboardFlowData env rows metric options))"
proof
  have "map (\<lambda>p. pathMeasure metric q (pmetrics p)) (preparePaths env (shownRows rows options) metric (shownStages options)
      (deletedTokenLabelOpt options) options) = map (pathMeasure metric q) (map rowMetrics (keptRows env rows metric options))"
    unfolding kept_metrics [symmetric] by simp
  then show "sumBy (nodeMeasure q) (\<lambda>n. nkind n = k) (graph_nodes (flow (buildDashboardFlowData env rows metric options))) =
      summaryMeasure (case q of None \<Rightarrow> metric | Some m \<Rightarrow> m) (buildSummary (keptRows env rows metric options))"
    using assms by (simp add: flow_data_unfold graph_kind_sum shownStages_def graphPaths_def buildSummary_measure pathMeasure_def comp_def)
  show "keepsAllRows options \<longrightarrow> buildSummary (keptRows env rows metric options) = summary (buildDashboardFlowData env rows metric options)"
    by (simp add: keptRows_all flow_data_unfold)
qed

theorem stage_conservation_witness:
  "KModel \<in> set (shownStages sampleOptions) \<and> keepsAllRows sampleOptions \<and>
   sumBy (nodeMeasure (Some MTokens)) (\<lambda>n. nkind n = KModel)
      (graph_nodes (flow (buildDashboardFlowData sampleEnv [sampleRow, sampleRow] MQuota sampleOptions))) = 40"
proof -
  have "KModel \<in> set (shownStages sampleOptions)" "keepsAllRows sampleOptions"
    by (simp_all add: sampleOptions_def shownStages_def keepsAllRows_def resolveVisibleStages_def getFlowStages_def
        ROLE_FLOW_STAGES_def Let_def)
  then show ?thesis
    using stage_conservation [of KModel sampleOptions "Some MTokens" sampleEnv "[sampleRow, sampleRow]" MQuota]
    by (simp add: keptRows_all flow_data_unfold shownRows_def filterRows_def filterRowsByNodes_def normalizeSelectedNodeFilters_def
        sample_defs summaryMeasure_def buildSummary_def rowMetrics_def numberValue_def Let_def)
qed

text \<open>C25. Balance at a node: when no name contains a NUL, what flows into a node from the previous stage and
  what flows out of it to the next stage are both the node's own amount.\<close>

theorem node_balance:
  assumes "list_all rowNulFree rows"
    and "n \<in> set (graph_nodes (flow (buildDashboardFlowData env rows metric options)))"
  shows "(nkind n \<noteq> hd (shownStages options) \<longrightarrow>
      sumBy (linkMeasure q) (\<lambda>l. ltarget l = nid n)
        (graph_links (flow (buildDashboardFlowData env rows metric options))) = nodeMeasure q n) \<and>
    (nkind n \<noteq> last (shownStages options) \<longrightarrow>
      sumBy (linkMeasure q) (\<lambda>l. lsource l = nid n)
        (graph_links (flow (buildDashboardFlowData env rows metric options))) = nodeMeasure q n)"
proof -
  have nul: "list_all rowNulFree (shownRows rows options)"
    using assms(1) set_shownRows by (auto simp: list_all_iff)
  show ?thesis
    unfolding flow_data_unfold shownStages_def
    using graph_balance [OF nul assms(2) [unfolded flow_data_unfold], of q] by blast
qed

theorem node_balance_witness:
  "\<exists>n. n \<in> set (graph_nodes (flow (buildDashboardFlowData sampleEnv [sampleRow] MQuota sampleOptions))) \<and>
     list_all rowNulFree [sampleRow] \<and> nkind n = KGroup \<and>
     sumBy (linkMeasure None) (\<lambda>l. ltarget l = nid n)
        (graph_links (flow (buildDashboardFlowData sampleEnv [sampleRow] MQuota sampleOptions))) = nodeMeasure None n \<and>
     sumBy (linkMeasure None) (\<lambda>l. lsource l = nid n)
        (graph_links (flow (buildDashboardFlowData sampleEnv [sampleRow] MQuota sampleOptions))) = nodeMeasure None n"
proof -
  obtain n where n: "n \<in> set (graph_nodes (flow (buildDashboardFlowData sampleEnv [sampleRow] MQuota sampleOptions)))"
      "nkind n = KGroup"
    using sample_node by blast
  have "KGroup \<noteq> hd (shownStages sampleOptions)" "KGroup \<noteq> last (shownStages sampleOptions)"
    by (simp_all add: sample_facts)
  then show ?thesis using node_balance [OF sample_facts(3) n(1), of None] n sample_facts(3) by auto
qed

text \<open>Shares: when no row is hidden and the total of the metric is positive, the share of every link,
  at every stage, is its part of the summary's total.\<close>

lemma link_shares:
  assumes "list_all rowNulFree rows" "keepsAllRows options"
    and "0 < summaryMeasure metric (summary (buildDashboardFlowData env rows metric options))"
    and "l \<in> set (graph_links (flow (buildDashboardFlowData env rows metric options)))"
  shows "lshare l = of_int (lvalue l) /
    of_int (summaryMeasure metric (summary (buildDashboardFlowData env rows metric options)))"
proof -
  have nul: "list_all rowNulFree (shownRows rows options)"
    using assms(1) set_shownRows by (auto simp: list_all_iff)
  show ?thesis
    using link_share [OF assms(4) [unfolded flow_data_unfold]] assms(3)
      first_step_total [OF nul, of None env metric _ _ _ options]
      kept_total [OF assms(2), of metric None]
    by (simp add: flow_data_unfold linkMeasure_def [abs_def])
qed

end
