(* ===== verification/FlowViews.thy ===== *)
theory FlowViews
  imports FlowProofs
begin

text \<open>
  What the viewer controls of the flow analysis do: the node limit bounds the width of every stage,
  selected nodes filter the rows, masking hides exactly the sensitive labels, and highlighting marks the
  paths through the selected node or link.
\<close>

section \<open>The node limit\<close>

lemma keys_addRank [simp]: "map fst (addRank v totals node) = map fst totals"
proof (cases "map_of totals (pkind node)")
  case (Some st)
  then have "pkind node \<in> fst ` set totals" by (force dest: map_of_SomeD)
  with Some show ?thesis by (simp add: addRank_def Let_def keys_update)
qed (simp add: addRank_def)

lemma keys_addRanks [simp]: "map fst (foldl (addRank v) totals nodes) = map fst totals"
  by (induction nodes arbitrary: totals) simp_all

lemma keys_start: "map fst (foldl (\<lambda>t stage. AList.update stage [] t) [] stages) = uniq stages"
  by (induction stages rule: rev_induct) (simp_all add: keys_update_uniq)

lemma top_sets:
  assumes "buildTopNodeSets env rows metric stages (Some topN) ctx = Some sets" "k \<in> set stages"
  obtains ids where "map_of sets k = Some ids" "length ids \<le> topN"
proof -
  define totals where "totals = foldl (\<lambda>t row.
      foldl (addRank (metricValue (rowMetrics row) metric)) t (flowPathForStages row stages ctx))
    (foldl (\<lambda>t stage. AList.update stage [] t) [] stages) rows"
  have "map fst (foldl (\<lambda>t row. foldl (addRank (metricValue (rowMetrics row) metric)) t
      (flowPathForStages row stages ctx)) t rs) = map fst t" for rs t
    by (induction rs arbitrary: t) simp_all
  then have keys: "map fst totals = uniq stages" by (simp add: totals_def keys_start)
  have sets: "sets = map (\<lambda>(kind, stageTotals). (kind, map (\<lambda>r. pid (rank_node r))
      (take topN (js_sort (compareRanks env) (map snd stageTotals))))) totals"
    using assms(1) by (simp add: buildTopNodeSets_def Let_def totals_def)
  then have "map fst sets = uniq stages" using keys by (simp add: comp_def case_prod_beta)
  then have "k \<in> fst ` set sets" using assms(2) by (metis list.set_map set_uniq)
  then obtain ids where ids: "map_of sets k = Some ids" by (metis map_of_eq_None_iff option.exhaust)
  moreover have "length ids \<le> topN" using map_of_SomeD [OF ids] by (auto simp: sets)
  ultimately show thesis by (rule that)
qed

lemma prepared_top:
  assumes "p \<in> set (preparePaths env rows metric stages ctx options)" "n \<in> set (ppath p)"
    and "normalizeTopNodeLimit (topNodeLimit options) = Some topN"
    and "buildTopNodeSets env rows metric stages (Some topN) ctx = Some sets"
  shows "isTopFlowNode n (Some sets) \<or>
    overflowMode options \<noteq> Some Hide \<and> pid n = OTHER_FLOW_NODE_IDS (pkind n)"
proof (rule prepared_path [OF assms(1)])
  fix row
  assume "applyTopNodeLimit (flowPathForStages row stages ctx)
       (buildTopNodeSets env rows metric stages (normalizeTopNodeLimit (topNodeLimit options)) ctx)
       (case overflowMode options of Some o' \<Rightarrow> o' | None \<Rightarrow> Aggregate) (otherNodeLabel options) = Some (ppath p)"
  then show ?thesis
    using assms(2-4) by (auto simp: applyTopNodeLimit_def list_ex_iff otherFlowNode_def
        dest!: sym [of _ "ppath p"] split: if_splits)
qed

lemma graph_nids:
  "mset (map (\<lambda>n. (nid n, nkind n)) (graph_nodes (buildFlowGraph env rows metric r palette vis ctx options))) =
     mset (map (\<lambda>x. (nid (snd x), nkind (snd x)))
       (accNodes env metric palette (graphPaths env rows metric r vis ctx options)))"
  by (rule graph_nodes_core) simp_all

lemma distinct_graph_nids:
  "distinct (map nid (graph_nodes (buildFlowGraph env rows metric r palette vis ctx options)))"
proof -
  have "map (\<lambda>x. nid (snd x)) (accNodes env metric palette ps) = map fst (accNodes env metric palette ps)" for ps
    by (rule map_cong [OF refl]) (metis accNodes_entry prod.collapse)
  moreover have "distinct (map fst (accNodes env metric palette ps))" for ps
    unfolding accNodes_def by (rule node_acc.distinct_keys)
  moreover have "mset (map nid (graph_nodes (buildFlowGraph env rows metric r palette vis ctx options))) =
     mset (map (\<lambda>x. nid (snd x)) (accNodes env metric palette (graphPaths env rows metric r vis ctx options)))"
    by (rule graph_nodes_core) simp_all
  ultimately show ?thesis by (metis mset_eq_imp_distinct_iff)
qed

lemma card_le_length:
  assumes "distinct (map f (filter P xs))" "\<And>x. x \<in> set xs \<Longrightarrow> P x \<Longrightarrow> f x \<in> S" "finite S"
  shows "length (filter P xs) \<le> card S"
proof -
  have "set (map f (filter P xs)) \<subseteq> S" using assms(2) by auto
  then have "card (set (map f (filter P xs))) \<le> card S" by (rule card_mono [OF assms(3)])
  then show ?thesis using distinct_card [OF assms(1)] by simp
qed

text \<open>A limit on the nodes per stage: every stage of the graph has at most that many nodes, and one
  more, the collecting node, when overflowing nodes are aggregated.\<close>

lemma stage_width:
  assumes "normalizeTopNodeLimit (topNodeLimit options) = Some topN"
  shows "length (filter (\<lambda>n. nkind n = k) (graph_nodes (flow (buildDashboardFlowData env rows metric options)))) \<le>
    (if overflowMode options = Some Hide then topN else topN + 1)"
proof -
  define r where "r = (case role options of Some r \<Rightarrow> r | None \<Rightarrow> RoleUser)"
  define g where "g = flow (buildDashboardFlowData env rows metric options)"
  define rows' where "rows' = shownRows rows options"
  define stages where "stages = resolveVisibleStages r (visibleStages options)"
  have g: "g = buildFlowGraph env rows' metric r (colorPaletteOpt options) (visibleStages options)
      (deletedTokenLabelOpt options) options"
    by (simp add: g_def flow_data_unfold r_def rows'_def)
  have node: "\<exists>p \<in> set (preparePaths env rows' metric stages (deletedTokenLabelOpt options) options).
      \<exists>m \<in> set (ppath p). pid m = nid n \<and> pkind m = nkind n" if "n \<in> set (graph_nodes g)" for n
    using graph_node_measure(2) [OF that [unfolded g]] by (simp add: graphPaths_def stages_def)
  obtain sets where sets: "buildTopNodeSets env rows' metric stages (Some topN) (deletedTokenLabelOpt options) = Some sets"
    by (simp add: buildTopNodeSets_def Let_def)
  show ?thesis
  proof (cases "k \<in> set stages")
    case True
    from top_sets [OF sets this] obtain ids where ids: "map_of sets k = Some ids" "length ids \<le> topN" .
    define S where "S = (if overflowMode options = Some Hide then set ids else insert (OTHER_FLOW_NODE_IDS k) (set ids))"
    have "nid n \<in> S" if "n \<in> set (graph_nodes g)" "nkind n = k" for n
      using node [OF that(1)] prepared_top [OF _ _ assms sets] that(2) ids
      by (fastforce simp: S_def isTopFlowNode_def)
    then have "length (filter (\<lambda>n. nkind n = k) (graph_nodes g)) \<le> card S"
      by (intro card_le_length [where f = nid])
        (auto simp: g S_def distinct_graph_nids intro: distinct_map_filter)
    also have "card S \<le> (if overflowMode options = Some Hide then topN else topN + 1)"
      using ids(2) card_length [of ids] by (auto simp: S_def intro: order_trans [OF card_insert_le_m1])
    finally show ?thesis by (simp add: g_def)
  next
    case False
    then have "filter (\<lambda>n. nkind n = k) (graph_nodes g) = []"
      using node prepared_kinds unfolding filter_empty_conv by (metis image_eqI list.set_map)
    then show ?thesis by (simp add: g_def)
  qed
qed

section \<open>Filters\<close>

definition selectedIds :: "FlowNodeFilter list option \<Rightarrow> FlowNodeKind \<Rightarrow> jsstring set" where
  "selectedIds sel k = {filter_id f |f. f \<in> set (case sel of None \<Rightarrow> [] | Some fs \<Rightarrow> fs) \<and> filter_kind f = k}"

definition rowSelected ::
  "FlowNodeFilter list option \<Rightarrow> FlowNodeKind list \<Rightarrow> FlowPathContext \<Rightarrow> FlowQuotaDataItem \<Rightarrow> bool" where
  "rowSelected sel stages ctx row \<longleftrightarrow>
     (\<forall>k \<in> set stages. selectedIds sel k = {} \<or> pid (NODE_BUILDERS k row ctx) \<in> selectedIds sel k)"

lemma set_set_add [simp]: "set (set_add xs x) = insert x (set xs)"
  by (auto simp: set_add_def)

lemma normalized_filters:
  "set_option (map_option set (map_of (normalizeSelectedNodeFilters sel stages) k)) =
     (if k \<in> set stages \<and> selectedIds sel k \<noteq> {} then {selectedIds sel k} else {})"
proof -
  define st where "st = (\<lambda>filters (f :: FlowNodeFilter).
         if filter_kind f \<notin> set stages then filters
         else AList.update (filter_kind f)
           (set_add (case map_of filters (filter_kind f) of None \<Rightarrow> [] | Some ids \<Rightarrow> ids) (filter_id f)) filters)"
  have "map_option set (map_of (foldl st [] fs) k) =
     (if k \<in> set stages \<and> selectedIds (Some fs) k \<noteq> {} then Some (selectedIds (Some fs) k) else None)" for fs
  proof (induction fs rule: rev_induct)
    case (snoc f fs)
    have sel: "selectedIds (Some (fs @ [f])) k =
        (if filter_kind f = k then insert (filter_id f) (selectedIds (Some fs) k) else selectedIds (Some fs) k)"
      by (auto simp: selectedIds_def)
    show ?case
      using snoc by (auto simp: st_def sel update_Some_unfold update_conv split: option.splits if_splits)
  qed (simp add: selectedIds_def)
  from this [of "case sel of None \<Rightarrow> [] | Some fs \<Rightarrow> fs"] show ?thesis
    by (simp add: normalizeSelectedNodeFilters_def st_def selectedIds_def)
qed

lemma distinct_normalized: "distinct (map fst (normalizeSelectedNodeFilters sel stages))"
proof -
  have "distinct (map fst (foldl (\<lambda>filters f.
         if filter_kind f \<notin> set stages then filters
         else AList.update (filter_kind f)
           (set_add (case map_of filters (filter_kind f) of None \<Rightarrow> [] | Some ids \<Rightarrow> ids) (filter_id f)) filters)
       [] fs))" for fs
    by (induction fs rule: rev_induct) (simp_all add: distinct_update)
  then show ?thesis by (simp add: normalizeSelectedNodeFilters_def)
qed

lemma path_matches:
  assumes "distinct stages"
  shows "pathMatchesNodeFilters (flowPathForStages row stages ctx) (normalizeSelectedNodeFilters sel stages) \<longleftrightarrow>
    rowSelected sel stages ctx row"
proof -
  have entry: "(k, ids) \<in> set (normalizeSelectedNodeFilters sel stages) \<Longrightarrow>
      k \<in> set stages \<and> set ids = selectedIds sel k \<and> selectedIds sel k \<noteq> {}" for k ids
    using normalized_filters [of sel stages k]
    by (auto dest: map_of_is_SomeI [OF distinct_normalized] split: if_splits)
  have some: "\<exists>ids. (k, ids) \<in> set (normalizeSelectedNodeFilters sel stages)"
    if "k \<in> set stages" "selectedIds sel k \<noteq> {}" for k
    using normalized_filters [of sel stages k] that
    by (cases "map_of (normalizeSelectedNodeFilters sel stages) k") (auto dest: map_of_SomeD)
  have node: "(\<exists>n \<in> set (flowPathForStages row stages ctx). pkind n = k \<and> pid n = i) \<longleftrightarrow>
      k \<in> set stages \<and> pid (NODE_BUILDERS k row ctx) = i" for k i
    by (auto simp: flowPathForStages_def)
  show ?thesis
    unfolding pathMatchesNodeFilters_def rowSelected_def list_all_iff list_ex_iff node
    using entry some by fastforce
qed

lemma filterRowsByNodes_spec:
  assumes "distinct stages"
  shows "filterRowsByNodes rows sel stages ctx = filter (rowSelected sel stages ctx) rows"
proof (cases "normalizeSelectedNodeFilters sel stages = []")
  case True
  have "rowSelected sel stages ctx row" for row
    using path_matches [OF assms, of row ctx sel] True by (simp add: pathMatchesNodeFilters_def)
  with True show ?thesis by (simp add: filterRowsByNodes_def)
next
  case False
  then show ?thesis by (simp add: filterRowsByNodes_def path_matches [OF assms])
qed

definition userSelected :: "jsstring list option \<Rightarrow> FlowQuotaDataItem \<Rightarrow> bool" where
  "userSelected users row \<longleftrightarrow> (case users of None \<Rightarrow> True | Some us \<Rightarrow> us = [] \<or> pid (userNode row) \<in> set us)"

lemma uniq_eq_Nil: "uniq xs = [] \<longleftrightarrow> xs = []"
  by (metis set_empty set_uniq)

text \<open>C29. Filters: the rows behind the summary and the graph are those of a selected user, if any is
  selected, whose node at every visible stage is among the nodes selected for that stage, if any are.\<close>

theorem shown_rows_selected:
  "summary (buildDashboardFlowData env rows metric options) =
     buildSummary (filter (\<lambda>row. userSelected (selectedUsers options) row \<and>
       rowSelected (selectedNodes options) (shownStages options) (deletedTokenLabelOpt options) row) rows)"
proof -
  have "filterRows rows (selectedUsers options) = filter (userSelected (selectedUsers options)) rows"
    by (auto simp: filterRows_def userSelected_def [abs_def] Let_def uniq_eq_Nil split: option.split)
  then show ?thesis
    unfolding flow_data_unfold shownRows_def
    by (simp add: filterRowsByNodes_spec shownStages_def conj_commute)
qed

section \<open>Masking\<close>

definition unlabelNode :: "DashboardFlowNode \<Rightarrow> DashboardFlowNode" where
  "unlabelNode n = n\<lparr>nlabel := []\<rparr>"

definition unlabelLink :: "DashboardFlowLink \<Rightarrow> DashboardFlowLink" where
  "unlabelLink l = l\<lparr>lsourceLabel := [], ltargetLabel := []\<rparr>"

definition litNode :: "FlowHighlightSets option \<Rightarrow> DashboardFlowNode \<Rightarrow> DashboardFlowNode" where
  "litNode hs n = (case hs of None \<Rightarrow> n
     | Some h \<Rightarrow> n\<lparr>nhighlighted := Some (nid n \<in> set (hl_nodes h)), ndimmed := Some (nid n \<notin> set (hl_nodes h))\<rparr>)"

definition litLink :: "FlowHighlightSets option \<Rightarrow> DashboardFlowLink \<Rightarrow> DashboardFlowLink" where
  "litLink hs l = (case hs of None \<Rightarrow> l
     | Some h \<Rightarrow> l\<lparr>lhighlighted := Some (linkStableKey l \<in> set (hl_links h)),
         ldimmed := Some (linkStableKey l \<notin> set (hl_links h))\<rparr>)"

lemma applyFlowHighlights_lit:
  "map snd (fst (applyFlowHighlights ns ls h)) = map (litNode h) (map snd ns)"
  "map snd (snd (applyFlowHighlights ns ls h)) = map (litLink h) (map snd ls)"
  by (auto simp: applyFlowHighlights_def litNode_def litLink_def split: option.split)

lemma unlabel_lit:
  "unlabelNode (litNode h n) = litNode h (unlabelNode n)" "unlabelLink (litLink h l) = litLink h (unlabelLink l)"
  by (simp_all add: unlabelNode_def unlabelLink_def litNode_def litLink_def linkStableKey_def split: option.split)

lemma js_sort_map:
  assumes "\<And>a b. cmp (h a) (h b) = cmp a b"
  shows "js_sort cmp (map h xs) = map h (js_sort cmp xs)"
proof -
  have "js_insert cmp (h x) (map h ys) = map h (js_insert cmp x ys)" for x ys
    by (induction ys) (simp_all add: assms)
  then show ?thesis by (induction xs) (simp_all)
qed

lemma unlabel_shares: "map unlabelLink (assignShares srcs ls) = assignShares srcs (map unlabelLink ls)"
  by (simp add: assignShares_def Let_def unlabelLink_def filter_map comp_def)

lemma unlabel_colors:
  "map unlabelLink (assignLinkDisplayColors env ls) = assignLinkDisplayColors env (map unlabelLink ls)"
proof -
  have sort: "js_sort (\<lambda>a b. or_else (lvalue b - lvalue a) (localeCompare env (linkStableKey a) (linkStableKey b)))
      (filter (\<lambda>l. lsource l = i) (map unlabelLink ls)) =
    map unlabelLink (js_sort (\<lambda>a b. or_else (lvalue b - lvalue a)
      (localeCompare env (linkStableKey a) (linkStableKey b))) (filter (\<lambda>l. lsource l = i) ls))" for i
    by (subst js_sort_map [symmetric])
      (simp_all add: unlabelLink_def linkStableKey_def filter_map comp_def)
  have idx: "length (takeWhile (\<lambda>l. linkStableKey l \<noteq> k) (map unlabelLink xs)) =
      length (takeWhile (\<lambda>l. linkStableKey l \<noteq> k) xs)" for k xs
    by (simp add: takeWhile_map comp_def unlabelLink_def linkStableKey_def)
  have fields: "lsource (unlabelLink l) = lsource l" "lcolor (unlabelLink l) = lcolor l"
    "linkStableKey (unlabelLink l) = linkStableKey l" for l
    by (simp_all add: unlabelLink_def linkStableKey_def)
  show ?thesis
    unfolding assignLinkDisplayColors_def Let_def map_map comp_def fields sort idx length_map
    by (simp add: unlabelLink_def)
qed

lemma unlabel_graph_links:
  "map unlabelLink (graph_links (buildFlowGraph env rows metric r palette vis ctx options)) =
     assignLinkDisplayColors env (assignShares (firstIds (graphPaths env rows metric r vis ctx options))
       (js_sort (linkOrder env) (map (litLink (graphHighlights (graphPaths env rows metric r vis ctx options)
          options (resolveVisibleStages r vis)))
         (map (\<lambda>x. unlabelLink (snd x)) (accLinks env metric palette (graphPaths env rows metric r vis ctx options))))))"
proof -
  have order: "linkOrder env (unlabelLink a) (unlabelLink b) = linkOrder env a b" for a b
    by (simp add: linkOrder_def unlabelLink_def)
  have "map (\<lambda>x. unlabelLink (snd x)) (snd (maskedGraph options ns ls)) = map (\<lambda>x. unlabelLink (snd x)) ls" for ns ls
    by (rule masked_links_map) (simp add: unlabelLink_def)
  moreover have "map unlabelLink (map snd (snd (applyFlowHighlights ns ls h))) =
      map (litLink h) (map (\<lambda>x. unlabelLink (snd x)) ls)" for ns ls h
    by (simp only: applyFlowHighlights_lit map_map comp_def unlabel_lit)
  ultimately show ?thesis
    unfolding buildFlowGraph_unfold unlabel_colors unlabel_shares 
      js_sort_map [where cmp = "linkOrder env" and h = unlabelLink, OF order, symmetric]
    by (simp only: case_prod_beta)
qed

lemma unlabel_graph_nodes:
  "mset (map unlabelNode (graph_nodes (buildFlowGraph env rows metric r palette vis ctx options))) =
     mset (map (litNode (graphHighlights (graphPaths env rows metric r vis ctx options)
          options (resolveVisibleStages r vis)))
         (map (\<lambda>x. unlabelNode (snd x)) (accNodes env metric palette (graphPaths env rows metric r vis ctx options))))"
proof -
  have "map (\<lambda>x. unlabelNode (snd x)) (fst (maskedGraph options ns ls)) = map (\<lambda>x. unlabelNode (snd x)) ns" for ns ls
    by (rule masked_nodes_map) (simp add: unlabelNode_def)
  moreover have "map unlabelNode (map snd (fst (applyFlowHighlights ns ls h))) =
      map (litNode h) (map (\<lambda>x. unlabelNode (snd x)) ns)" for ns ls h
    by (simp only: applyFlowHighlights_lit map_map comp_def unlabel_lit)
  ultimately show ?thesis
    unfolding buildFlowGraph_unfold mset_map_sort by (simp only: case_prod_beta)
qed

lemma unmasked_options:
  "graphPaths env rows metric r vis ctx (options\<lparr>maskSensitive := b\<rparr>) = graphPaths env rows metric r vis ctx options"
  "graphHighlights ps (options\<lparr>maskSensitive := b\<rparr>) stages = graphHighlights ps options stages"
  "shownRows rows (options\<lparr>maskSensitive := b\<rparr>) = shownRows rows options"
  by (simp_all add: graphPaths_def preparePaths_def graphHighlights_def shownRows_def shownStages_def)

definition hiddenLabel :: "jsstring \<Rightarrow> bool" where
  "hiddenLabel s \<longleftrightarrow> s = [] \<or> s = FLOW_MASK_TEXT"

definition isSensitive :: "DashboardFlowNode \<Rightarrow> bool" where
  "isSensitive n \<longleftrightarrow> nkind n \<in> set SENSITIVE_FLOW_KINDS \<and> nid n \<notin> set OTHER_FLOW_NODE_ID_SET"

lemma masked_nodes_hidden:
  assumes "maskSensitive options" "(k, n) \<in> set (fst (maskedGraph options ns ls))" "isSensitive n"
  shows "hiddenLabel (nlabel n)"
  using assms
  by (auto simp: maskedGraph_def maskFlowGraphLabels_def Let_def isMaskedNode_def isSensitive_def hiddenLabel_def
      maskFlowLabel_def split: if_splits)

lemma map_of_masked:
  assumes "n \<in> set ns"
  shows "\<exists>s. map_of (foldl (\<lambda>m n. AList.update (nid n) (nlabel n) m) [] ns) (nid n) = Some s \<and>
    (\<exists>m \<in> set ns. s = nlabel m)"
  using assms
proof (induction ns rule: rev_induct)
  case (snoc x xs)
  then show ?case
    by (cases "nid n = nid x") (auto simp: update_conv)
qed simp

lemma masked_links_hidden:
  assumes "maskSensitive options" "(k, l) \<in> set (snd (maskedGraph options ns ls))"
    and "(i, n) \<in> set (fst (maskedGraph options ns ls))" "isSensitive n"
  shows "lsource l = nid n \<Longrightarrow> hiddenLabel (lsourceLabel l)"
    and "ltarget l = nid n \<Longrightarrow> hiddenLabel (ltargetLabel l)"
proof -
  define ns' where "ns' = filter isMaskedNode (map snd (fst (maskedGraph options ns ls)))"
  define mm where "mm = foldl (\<lambda>m n. AList.update (nid n) (nlabel n) m) [] ns'"
  have n: "n \<in> set ns'"
    using assms(3,4) by (force simp: ns'_def isMaskedNode_def isSensitive_def)
  have hidden: "hiddenLabel (nlabel m)" if "m \<in> set ns'" for m
    using that masked_nodes_hidden [OF assms(1)] by (auto simp: ns'_def isMaskedNode_def isSensitive_def)
  obtain s where s: "map_of mm (nid n) = Some s" "hiddenLabel s"
    using map_of_masked [OF n] hidden by (auto simp: mm_def)
  have ls': "snd (maskedGraph options ns ls) = (if mm = [] then ls else map (\<lambda>(k, l). (k, l\<lparr>
             lsourceLabel := (case map_of mm (lsource l) of Some s \<Rightarrow> s | None \<Rightarrow> lsourceLabel l),
             ltargetLabel := (case map_of mm (ltarget l) of Some s \<Rightarrow> s | None \<Rightarrow> ltargetLabel l)\<rparr>)) ls)"
    using assms(1) by (simp add: maskedGraph_def maskFlowGraphLabels_def Let_def mm_def ns'_def)
  have "mm \<noteq> []" using s by auto
  then show "lsource l = nid n \<Longrightarrow> hiddenLabel (lsourceLabel l)" "ltarget l = nid n \<Longrightarrow> hiddenLabel (ltargetLabel l)"
    using assms(2) s by (auto simp: ls')
qed

lemma graph_nodes_masked:
  assumes "\<And>n h d. f (n\<lparr>nhighlighted := h, ndimmed := d\<rparr>) = f n"
  shows "mset (map f (graph_nodes (buildFlowGraph env rows metric r palette vis ctx options))) =
    mset (map (\<lambda>x. f (snd x)) (fst (maskedGraph options
      (accNodes env metric palette (graphPaths env rows metric r vis ctx options))
      (accLinks env metric palette (graphPaths env rows metric r vis ctx options)))))"
  by (simp only: buildFlowGraph_unfold mset_map_sort map_map comp_def case_prod_beta
      highlight_nodes_map [of f, OF assms])

lemma graph_links_masked:
  assumes "\<And>l h d. f (l\<lparr>lhighlighted := h, ldimmed := d\<rparr>) = f l" "\<And>l a. f (l\<lparr>lshare := a\<rparr>) = f l"
    "\<And>l a b c. f (l\<lparr>llinkColor := a, llinkAlpha := b, lhoverColor := c\<rparr>) = f l"
  shows "mset (map f (graph_links (buildFlowGraph env rows metric r palette vis ctx options))) =
    mset (map (\<lambda>x. f (snd x)) (snd (maskedGraph options
      (accNodes env metric palette (graphPaths env rows metric r vis ctx options))
      (accLinks env metric palette (graphPaths env rows metric r vis ctx options)))))"
  by (simp only: buildFlowGraph_unfold mset_map_sort map_map comp_def case_prod_beta
      shares_map [of f, OF assms(2)] colors_map [of f, OF assms(3)] highlight_links_map [of f, OF assms(1)])

lemma graph_masked_entries:
  fixes env metric palette rows r vis ctx options
  defines "ps \<equiv> graphPaths env rows metric r vis ctx options"
  defines "masked \<equiv> maskedGraph options (accNodes env metric palette ps) (accLinks env metric palette ps)"
  shows "n \<in> set (graph_nodes (buildFlowGraph env rows metric r palette vis ctx options)) \<Longrightarrow>
      \<exists>k m. (k, m) \<in> set (fst masked) \<and> nid m = nid n \<and> nkind m = nkind n \<and> nlabel m = nlabel n"
    and "l \<in> set (graph_links (buildFlowGraph env rows metric r palette vis ctx options)) \<Longrightarrow>
      \<exists>k m. (k, m) \<in> set (snd masked) \<and> lsource m = lsource l \<and> ltarget m = ltarget l \<and>
        lsourceLabel m = lsourceLabel l \<and> ltargetLabel m = ltargetLabel l"
proof -
  define f where "f n = (nid n, nkind n, nlabel n)" for n :: DashboardFlowNode
  have "mset (map f (graph_nodes (buildFlowGraph env rows metric r palette vis ctx options))) =
      mset (map (\<lambda>x. f (snd x)) (fst masked))"
    unfolding masked_def ps_def by (rule graph_nodes_masked) (simp add: f_def)
  then have nodes: "f ` set (graph_nodes (buildFlowGraph env rows metric r palette vis ctx options)) =
      (\<lambda>x. f (snd x)) ` set (fst masked)"
    by (metis list.set_map mset_eq_setD)
  define g where "g l = (lsource l, ltarget l, lsourceLabel l, ltargetLabel l)" for l :: DashboardFlowLink
  have "mset (map g (graph_links (buildFlowGraph env rows metric r palette vis ctx options))) =
      mset (map (\<lambda>x. g (snd x)) (snd masked))"
    unfolding masked_def ps_def by (rule graph_links_masked) (simp_all add: g_def)
  then have links: "g ` set (graph_links (buildFlowGraph env rows metric r palette vis ctx options)) =
      (\<lambda>x. g (snd x)) ` set (snd masked)"
    by (metis list.set_map mset_eq_setD)
  show "n \<in> set (graph_nodes (buildFlowGraph env rows metric r palette vis ctx options)) \<Longrightarrow>
      \<exists>k m. (k, m) \<in> set (fst masked) \<and> nid m = nid n \<and> nkind m = nkind n \<and> nlabel m = nlabel n"
    using nodes [THEN equalityD1, THEN subsetD, of "f n"] by (force simp: f_def)
  show "l \<in> set (graph_links (buildFlowGraph env rows metric r palette vis ctx options)) \<Longrightarrow>
      \<exists>k m. (k, m) \<in> set (snd masked) \<and> lsource m = lsource l \<and> ltarget m = ltarget l \<and>
        lsourceLabel m = lsourceLabel l \<and> ltargetLabel m = ltargetLabel l"
    using links [THEN equalityD1, THEN subsetD, of "g l"] by (force simp: g_def)
qed

text \<open>Masking hides the label of every sensitive node except the collecting nodes, at the node and at
  both ends of its links, and changes nothing else: apart from labels the nodes are the same and the links
  are the same in the same order as without masking.\<close>

lemma masking_hides:
  assumes "maskSensitive options"
  shows "(\<forall>n \<in> set (graph_nodes (flow (buildDashboardFlowData env rows metric options))).
        isSensitive n \<longrightarrow> hiddenLabel (nlabel n) \<and>
        (\<forall>l \<in> set (graph_links (flow (buildDashboardFlowData env rows metric options))).
          (lsource l = nid n \<longrightarrow> hiddenLabel (lsourceLabel l)) \<and>
          (ltarget l = nid n \<longrightarrow> hiddenLabel (ltargetLabel l)))) \<and>
    mset (map unlabelNode (graph_nodes (flow (buildDashboardFlowData env rows metric options)))) =
      mset (map unlabelNode (graph_nodes (flow (buildDashboardFlowData env rows metric (options\<lparr>maskSensitive := False\<rparr>))))) \<and>
    map unlabelLink (graph_links (flow (buildDashboardFlowData env rows metric options))) =
      map unlabelLink (graph_links (flow (buildDashboardFlowData env rows metric (options\<lparr>maskSensitive := False\<rparr>))))"
    (is "(\<forall>n \<in> set (graph_nodes ?g). _ n) \<and> ?nodes \<and> ?links")
proof (intro conjI ballI impI)
  show ?nodes unfolding flow_data_unfold unlabel_graph_nodes unmasked_options by simp
  show ?links unfolding flow_data_unfold unlabel_graph_links unmasked_options by simp
next
  fix n assume n: "n \<in> set (graph_nodes ?g)" "isSensitive n"
  note node = graph_masked_entries(1) [OF n(1) [unfolded flow_data_unfold]]
  then show "hiddenLabel (nlabel n)"
    using masked_nodes_hidden [OF assms(1)] n(2) by (metis isSensitive_def)
  fix l assume l: "l \<in> set (graph_links ?g)"
  note link = graph_masked_entries(2) [OF l [unfolded flow_data_unfold]]
  show "lsource l = nid n \<Longrightarrow> hiddenLabel (lsourceLabel l)"
    using node link masked_links_hidden(1) [OF assms(1)] n(2) by (metis isSensitive_def)
  show "ltarget l = nid n \<Longrightarrow> hiddenLabel (ltargetLabel l)"
    using node link masked_links_hidden(2) [OF assms(1)] n(2) by (metis isSensitive_def)
qed

lemma sample_paths:
  "map (map pid \<circ> ppath) (graphPaths sampleEnv [sampleRow] MQuota RoleAdmin None None sampleOptions) =
     [[js ''user:'' @ int_str 7, js ''group:vip'', js ''model:gpt'', js ''channel:'' @ int_str 1]]"
  unfolding sample_defs
  by (simp add: graphPaths_def preparePaths_def buildTopNodeSets_def normalizeTopNodeLimit_def flowPathForStages_def
      NODE_BUILDERS_def userNode_def groupNode_def modelNode_def channelNode_def numberValue_def addRank_def Let_def
      map_filter_simps applyTopNodeLimit_def isTopFlowNode_def resolveVisibleStages_def getFlowStages_def
      ROLE_FLOW_STAGES_def flip: js_append)

lemma sample_group_node:
  "\<exists>n. n \<in> set (graph_nodes (flow (buildDashboardFlowData sampleEnv [sampleRow] MQuota sampleOptions))) \<and>
     nkind n = KGroup \<and> nid n = js ''group:vip''"
proof -
  obtain n where n: "n \<in> set (graph_nodes (flow (buildDashboardFlowData sampleEnv [sampleRow] MQuota sampleOptions)))"
      "nkind n = KGroup"
    using sample_node by blast
  define ps where "ps = graphPaths sampleEnv [sampleRow] MQuota RoleAdmin None None sampleOptions"
  obtain p m where p: "p \<in> set ps" and m: "m \<in> set (ppath p)" "pid m = nid n" "pkind m = nkind n"
    using graph_node_measure(2) [OF n(1) [unfolded flow_data_unfold]]
    unfolding sample_facts(4) by (auto simp: sampleOptions_def ps_def)
  have wf: "wf_node m" using p m(1) prepared_wf by (auto simp: ps_def graphPaths_def)
  have "map pid (ppath p) \<in> set (map (map pid \<circ> ppath) ps)" using p by simp
  then have ids: "map pid (ppath p) = [js ''user:'' @ int_str 7, js ''group:vip'', js ''model:gpt'', js ''channel:'' @ int_str 1]"
    unfolding ps_def sample_paths by simp
  have "pid m \<in> set (map pid (ppath p))" using m(1) by simp
  moreover have "takeWhile (\<lambda>c. c \<noteq> 58) (pid m) = js ''group''"
    using kindPrefix_head [OF wf [unfolded wf_node_def]] m n by (simp add: kindName_def)
  ultimately have "pid m = js ''group:vip''"
    unfolding ids by (auto simp: js.simps)
  with n m show ?thesis by auto
qed

section \<open>Highlighting\<close>

definition shownPaths :: "FlowEnv \<Rightarrow> FlowQuotaDataItem list \<Rightarrow> FlowMetric \<Rightarrow> FlowBuildOptions \<Rightarrow> PreparedFlowPath list" where
  "shownPaths env rows metric options = graphPaths env (shownRows rows options) metric
     (case role options of Some r \<Rightarrow> r | None \<Rightarrow> RoleUser) (visibleStages options) (deletedTokenLabelOpt options) options"

definition selectionActive :: "FlowBuildOptions \<Rightarrow> bool" where
  "selectionActive options \<longleftrightarrow> activeLink options \<noteq> None \<or>
     (case activeNode options of Some f \<Rightarrow> filter_kind f \<in> set (shownStages options) | None \<Rightarrow> False)"

definition onSelectedPath :: "FlowBuildOptions \<Rightarrow> PreparedFlowPath \<Rightarrow> bool" where
  "onSelectedPath options p \<longleftrightarrow> matchesPath (activeNode options) (activeLink options) (ppath p)"

lemma highlights_some:
  assumes "selectionActive options" "\<exists>p \<in> set ps. onSelectedPath options p" "\<And>p. p \<in> set ps \<Longrightarrow> ppath p \<noteq> []"
  obtains h where "graphHighlights ps options (shownStages options) = Some h"
    "set (hl_nodes h) = (\<Union>p \<in> {p \<in> set ps. onSelectedPath options p}. pid ` set (ppath p))"
    "set (hl_links h) = (\<Union>p \<in> {p \<in> set ps. onSelectedPath options p}.
       (\<lambda>(s, t). pathLinkKey s t) ` set (pathPairs (ppath p)))"
proof -
  define matching where "matching = filter (onSelectedPath options) ps"
  have "uniq (concat (map (\<lambda>p. map pid (ppath p)) matching)) \<noteq> []"
    using assms(2,3) by (auto simp: uniq_eq_Nil matching_def filter_empty_conv)
  then have "graphHighlights ps options (shownStages options) =
      Some \<lparr>hl_nodes = uniq (concat (map (\<lambda>p. map pid (ppath p)) matching)),
        hl_links = uniq (concat (map (\<lambda>p. map (\<lambda>(s, t). pathLinkKey s t) (pathPairs (ppath p))) matching))\<rparr>"
    using assms(1)
    by (auto simp: graphHighlights_def buildFlowHighlightSets_def selectionActive_def matching_def
        onSelectedPath_def [abs_def] Let_def split: option.splits)
  then show thesis by (rule that) (auto simp: matching_def)
qed

lemma lit_fields:
  "nid (litNode hs m) = nid m" "linkStableKey (litLink hs l) = linkStableKey l"
  "nid (unlabelNode m) = nid m" "nhighlighted (unlabelNode m) = nhighlighted m" "ndimmed (unlabelNode m) = ndimmed m"
  "linkStableKey (unlabelLink l) = linkStableKey l" "lhighlighted (unlabelLink l) = lhighlighted l"
  "ldimmed (unlabelLink l) = ldimmed l"
  by (simp_all add: litNode_def litLink_def unlabelNode_def unlabelLink_def linkStableKey_def split: option.split)

lemma graph_lit_nodes:
  fixes env metric rows r vis ctx options
  defines "hs \<equiv> graphHighlights (graphPaths env rows metric r vis ctx options) options (resolveVisibleStages r vis)"
  assumes "n \<in> set (graph_nodes (buildFlowGraph env rows metric r palette vis ctx options))"
  shows "\<exists>m. nid m = nid n \<and> nhighlighted (litNode hs m) = nhighlighted n \<and> ndimmed (litNode hs m) = ndimmed n"
proof -
  have "unlabelNode n \<in># mset (map unlabelNode (graph_nodes (buildFlowGraph env rows metric r palette vis ctx options)))"
    using assms(2) by simp
  then obtain m where "unlabelNode n = litNode hs m"
    unfolding unlabel_graph_nodes hs_def by auto
  then show ?thesis by (metis lit_fields)
qed

lemma graph_lit_links:
  fixes env metric rows r vis ctx options
  defines "hs \<equiv> graphHighlights (graphPaths env rows metric r vis ctx options) options (resolveVisibleStages r vis)"
  assumes "l \<in> set (graph_links (buildFlowGraph env rows metric r palette vis ctx options))"
  shows "\<exists>m. linkStableKey m = linkStableKey l \<and> lhighlighted (litLink hs m) = lhighlighted l \<and>
    ldimmed (litLink hs m) = ldimmed l"
proof -
  define f where "f l = (linkStableKey l, lhighlighted l, ldimmed l)" for l :: DashboardFlowLink
  have f: "f (unlabelLink l) = f l" for l by (simp add: f_def lit_fields)
  have "f l \<in> set (map f (map unlabelLink (graph_links (buildFlowGraph env rows metric r palette vis ctx options))))"
    using assms(2) by (simp add: f image_image)
  also have "map f (map unlabelLink (graph_links (buildFlowGraph env rows metric r palette vis ctx options))) =
      map f (js_sort (linkOrder env) (map (litLink hs)
         (map (\<lambda>x. unlabelLink (snd x)) (accLinks env metric palette (graphPaths env rows metric r vis ctx options)))))"
    unfolding unlabel_graph_links hs_def
    by (subst colors_map, simp add: f_def linkStableKey_def, rule shares_map) (simp add: f_def linkStableKey_def)
  finally obtain m where "f l = f (litLink hs m)" by auto
  then show ?thesis by (auto simp: f_def lit_fields)
qed

lemma graph_link_ids:
  assumes "list_all rowNulFree rows"
    and "l \<in> set (graph_links (buildFlowGraph env rows metric r palette vis ctx options))"
  shows "nulFree (lsource l)"
proof -
  have "lsource l \<in># mset (map lsource (graph_links (buildFlowGraph env rows metric r palette vis ctx options)))"
    using assms(2) by simp
  also have "mset (map lsource (graph_links (buildFlowGraph env rows metric r palette vis ctx options))) =
      mset (map (\<lambda>x. lsource (snd x)) (accLinks env metric palette (graphPaths env rows metric r vis ctx options)))"
    by (rule graph_links_core) simp_all
  finally show ?thesis
    by (auto simp: graphPaths_def elim!: accLinks_entry) (metis pathPairs_mem prepared_nulFree [OF assms(1)])
qed

lemma shownPaths_nonempty:
  assumes "p \<in> set (shownPaths env rows metric options)"
  shows "ppath p \<noteq> []"
  using prepared_kinds [OF assms [unfolded shownPaths_def graphPaths_def], symmetric]
    length_resolveVisibleStages [of "case role options of Some r \<Rightarrow> r | None \<Rightarrow> RoleUser" "visibleStages options"]
  by auto

text \<open>The key of a link determines its two ends.\<close>

lemma link_key_iff:
  assumes "nulFree (pid s)" "nulFree (lsource l)"
  shows "linkStableKey l = pathLinkKey s t \<longleftrightarrow> (lsource l, ltarget l) = (pid s, pid t)"
  using assms keySource_key [of s t] keyTarget_key [of s t]
    keySource_key [of "\<lparr>pid = lsource l, plabel = [], pkind = KUser\<rparr>" "\<lparr>pid = ltarget l, plabel = [], pkind = KUser\<rparr>"]
    keyTarget_key [of "\<lparr>pid = lsource l, plabel = [], pkind = KUser\<rparr>" "\<lparr>pid = ltarget l, plabel = [], pkind = KUser\<rparr>"]
  by (auto simp: pathLinkKey_def linkStableKey_def)

lemma link_key_image:
  assumes "nulFree (lsource l)" "\<And>s t. (s, t) \<in> set ps \<Longrightarrow> nulFree (pid s)"
  shows "linkStableKey l \<in> (\<lambda>(s, t). pathLinkKey s t) ` set ps \<longleftrightarrow> (lsource l, ltarget l) \<in> (\<lambda>(s, t). (pid s, pid t)) ` set ps"
  unfolding image_iff by (rule bex_cong [OF refl]) (auto simp: link_key_iff [OF assms(2) assms(1)])

text \<open>C28. Highlighting: when a visible node or a link is selected and some path runs through it, exactly the
  nodes and links on such paths are highlighted and all others are dimmed.\<close>

theorem highlight_exact:
  assumes "list_all rowNulFree rows" "selectionActive options"
    and "\<exists>p \<in> set (shownPaths env rows metric options). onSelectedPath options p"
  shows "(\<forall>n \<in> set (graph_nodes (flow (buildDashboardFlowData env rows metric options))).
      nhighlighted n = Some (\<exists>p \<in> set (shownPaths env rows metric options).
        onSelectedPath options p \<and> nid n \<in> pid ` set (ppath p)) \<and>
      ndimmed n = map_option Not (nhighlighted n)) \<and>
    (\<forall>l \<in> set (graph_links (flow (buildDashboardFlowData env rows metric options))).
      lhighlighted l = Some (\<exists>p \<in> set (shownPaths env rows metric options).
        onSelectedPath options p \<and> (lsource l, ltarget l) \<in> (\<lambda>(s, t). (pid s, pid t)) ` set (pathPairs (ppath p))) \<and>
      ldimmed l = map_option Not (lhighlighted l))"
proof -
  have nul: "list_all rowNulFree (shownRows rows options)"
    using assms(1) set_shownRows by (auto simp: list_all_iff)
  obtain h where h: "graphHighlights (shownPaths env rows metric options) options (shownStages options) = Some h"
    "set (hl_nodes h) = (\<Union>p \<in> {p \<in> set (shownPaths env rows metric options). onSelectedPath options p}. pid ` set (ppath p))"
    "set (hl_links h) = (\<Union>p \<in> {p \<in> set (shownPaths env rows metric options). onSelectedPath options p}.
       (\<lambda>(s, t). pathLinkKey s t) ` set (pathPairs (ppath p)))"
    by (rule highlights_some [OF assms(2,3) shownPaths_nonempty])
  note hs = h(1) [unfolded shownPaths_def shownStages_def]
  show ?thesis
  proof (intro conjI ballI)
    fix n assume "n \<in> set (graph_nodes (flow (buildDashboardFlowData env rows metric options)))"
    from graph_lit_nodes [OF this [unfolded flow_data_unfold]]
    have lit: "nhighlighted n = Some (nid n \<in> set (hl_nodes h))" "ndimmed n = map_option Not (nhighlighted n)"
      unfolding hs by (auto simp: litNode_def dest!: sym [of "Some _"])
    then show "ndimmed n = map_option Not (nhighlighted n)" by simp
    show "nhighlighted n = Some (\<exists>p \<in> set (shownPaths env rows metric options).
        onSelectedPath options p \<and> nid n \<in> pid ` set (ppath p))"
      unfolding lit(1) h(2) by blast
  next
    fix l assume l: "l \<in> set (graph_links (flow (buildDashboardFlowData env rows metric options)))"
    note src = graph_link_ids [OF nul l [unfolded flow_data_unfold]]
    from graph_lit_links [OF l [unfolded flow_data_unfold]] 
    have lit: "lhighlighted l = Some (linkStableKey l \<in> set (hl_links h))" "ldimmed l = map_option Not (lhighlighted l)"
      unfolding hs by (auto simp: litLink_def dest!: sym [of "Some _"])
    then show "ldimmed l = map_option Not (lhighlighted l)" by simp
    have on_path: "linkStableKey l \<in> (\<lambda>(s, t). pathLinkKey s t) ` set (pathPairs (ppath p)) \<longleftrightarrow>
        (lsource l, ltarget l) \<in> (\<lambda>(s, t). (pid s, pid t)) ` set (pathPairs (ppath p))"
      if "p \<in> set (shownPaths env rows metric options)" for p
      using that pathPairs_mem prepared_nulFree [OF nul]
      by (intro link_key_image src) (auto simp: shownPaths_def graphPaths_def)
    show "lhighlighted l = Some (\<exists>p \<in> set (shownPaths env rows metric options).
        onSelectedPath options p \<and> (lsource l, ltarget l) \<in> (\<lambda>(s, t). (pid s, pid t)) ` set (pathPairs (ppath p)))"
      unfolding lit(1) h(3) using on_path by blast
  qed
qed

definition pickedOptions :: FlowBuildOptions where
  "pickedOptions = sampleOptions\<lparr>activeNode := Some \<lparr>filter_kind = KGroup, filter_id = js ''group:vip''\<rparr>\<rparr>"

lemma picked_facts:
  "shownRows [sampleRow] pickedOptions = [sampleRow]" "shownStages pickedOptions = [KUser, KGroup, KModel, KChannel]"
  "shownPaths sampleEnv [sampleRow] MQuota pickedOptions =
     graphPaths sampleEnv [sampleRow] MQuota RoleAdmin None None sampleOptions"
proof -
  show rows: "shownRows [sampleRow] pickedOptions = [sampleRow]"
    using sample_facts(4) by (simp add: shownRows_def pickedOptions_def shownStages_def)
  show "shownStages pickedOptions = [KUser, KGroup, KModel, KChannel]"
    using sample_facts(1) by (simp add: pickedOptions_def shownStages_def)
  show "shownPaths sampleEnv [sampleRow] MQuota pickedOptions =
     graphPaths sampleEnv [sampleRow] MQuota RoleAdmin None None sampleOptions"
    unfolding shownPaths_def rows by (simp add: pickedOptions_def graphPaths_def preparePaths_def sampleOptions_def)
qed

lemma picked_node:
  "\<exists>n. n \<in> set (graph_nodes (flow (buildDashboardFlowData sampleEnv [sampleRow] MQuota pickedOptions)))"
proof -
  have "keepsAllRows pickedOptions" using sample_facts(2) by (simp add: keepsAllRows_def pickedOptions_def)
  then have "sumBy (nodeMeasure None) (\<lambda>n. nkind n = KGroup)
      (graph_nodes (flow (buildDashboardFlowData sampleEnv [sampleRow] MQuota pickedOptions))) \<noteq> 0"
    unfolding flow_data_unfold
    by (subst graph_kind_sum)
      (simp_all add: picked_facts [unfolded shownStages_def] sample_facts kept_total summaryMeasure_def)
  then show ?thesis by (blast dest: sumBy_nonzero)
qed

theorem highlight_exact_witness:
  "list_all rowNulFree [sampleRow] \<and> selectionActive pickedOptions \<and>
   (\<exists>n. n \<in> set (graph_nodes (flow (buildDashboardFlowData sampleEnv [sampleRow] MQuota pickedOptions))) \<and>
     nhighlighted n = Some (\<exists>p \<in> set (shownPaths sampleEnv [sampleRow] MQuota pickedOptions).
        onSelectedPath pickedOptions p \<and> nid n \<in> pid ` set (ppath p)))"
proof -
  have act: "selectionActive pickedOptions"
    unfolding selectionActive_def picked_facts by (simp add: pickedOptions_def sampleOptions_def)
  define ps where "ps = graphPaths sampleEnv [sampleRow] MQuota RoleAdmin None None sampleOptions"
  obtain p where p: "p \<in> set ps" "ppath p \<noteq> []" "pid (ppath p ! 1) = js ''group:vip''" "ppath p ! 1 \<in> set (ppath p)"
  proof -
    obtain p where p: "p \<in> set ps" "map pid (ppath p) = [js ''user:'' @ int_str 7, js ''group:vip'', js ''model:gpt'', js ''channel:'' @ int_str 1]"
      using sample_paths [folded ps_def] by (cases ps) auto
    have len: "length (ppath p) = 4" using arg_cong [OF p(2), of length] by simp
    have "pid (ppath p ! 1) = map pid (ppath p) ! 1" using len by simp
    then show thesis using that [of p] p len by (auto intro: nth_mem)
  qed
  have "map pkind (ppath p) = [KUser, KGroup, KModel, KChannel]"
    using p(1) prepared_kinds sample_facts(1)
    by (auto simp: ps_def graphPaths_def shownStages_def sampleOptions_def)
  then have "map pkind (ppath p) ! 1 = KGroup" "length (ppath p) = 4" by (auto dest: arg_cong [of _ _ length])
  then have "onSelectedPath pickedOptions p"
    using p by (auto simp: onSelectedPath_def matchesPath_def pickedOptions_def sampleOptions_def pathContainsFlowNode_def list_ex_iff)
  then have "\<exists>p \<in> set (shownPaths sampleEnv [sampleRow] MQuota pickedOptions). onSelectedPath pickedOptions p"
    using p(1) by (auto simp: picked_facts ps_def)
  from highlight_exact [OF sample_facts(3) act this] picked_node act sample_facts(3) show ?thesis by blast
qed

end
