(* ===== verification/FlowSankey.thy ===== *)
theory FlowSankey
  imports FlowModel KeyedFold
begin

text \<open>
  The part of the chart specification that \<open>buildFlowSankeySpec\<close> computes from a graph: the node data and
  the link data, with the drawing order of the links.  The rest of that function is a literal of chart
  settings and callbacks for the charting package and is not modelled.
\<close>

record SankeyNode =
  key :: jsstring
  name :: jsstring
  rawLabel :: jsstring
  kind :: FlowNodeKind
  value_ :: int
  requests :: int
  quota :: int
  tokens :: int
  color_ :: jsstring
  colorKey_ :: jsstring
  highlighted_ :: "bool option"
  dimmed_ :: "bool option"

record SankeyLink = DashboardFlowLink +
  linkKey :: jsstring
  zIndex :: int

text \<open>\<open>Number(undefined)\<close> is NaN, so the difference of two flags is NaN, which is falsy, unless both are set.\<close>

definition flagDiff :: "bool option \<Rightarrow> bool option \<Rightarrow> int" where
  "flagDiff a b = (case (a, b) of (Some x, Some y) \<Rightarrow> of_bool x - of_bool y | _ \<Rightarrow> 0)"

definition byLinkDrawPriority :: "FlowEnv \<Rightarrow> DashboardFlowLink \<Rightarrow> DashboardFlowLink \<Rightarrow> int" where
  "byLinkDrawPriority env a b =
     or_else (flagDiff (ldimmed a) (ldimmed b))
       (or_else (flagDiff (lhighlighted b) (lhighlighted a))
         (or_else (lvalue b - lvalue a) (localeCompare env (linkStableKey a) (linkStableKey b))))"

definition sankeyZIndex :: "DashboardFlowLink \<Rightarrow> nat \<Rightarrow> int" where
  "sankeyZIndex link index =
     (if lhighlighted link = Some True then 1000000 + int index
      else if ldimmed link = Some True then int index
      else 100000 + int index)"

definition sankeyLink :: "DashboardFlowLink \<Rightarrow> nat \<Rightarrow> SankeyLink" where
  "sankeyLink link index = DashboardFlowLink.extend link
     \<lparr>linkKey = linkStableKey link, zIndex = sankeyZIndex link index\<rparr>"

definition sankeyLinks :: "FlowEnv \<Rightarrow> DashboardFlowLink list \<Rightarrow> SankeyLink list" where
  "sankeyLinks env links =
     map (\<lambda>(index, link). sankeyLink link index)
       (enumerate 0 (js_sort (byLinkDrawPriority env) (filter (\<lambda>link. lvalue link > 0) links)))"

definition sankeyNodes :: "DashboardFlowNode list \<Rightarrow> SankeyNode list" where
  "sankeyNodes nodes = map (\<lambda>node. \<lparr>key = nid node, name = nlabel node, rawLabel = nlabel node, kind = nkind node,
     value_ = nvalue node, requests = nrequests node, quota = nquota node, tokens = ntokens node,
     color_ = ncolor node, colorKey_ = ncolorKey node, highlighted_ = nhighlighted node,
     dimmed_ = ndimmed node\<rparr>) nodes"

lemma sankeyLinks_nth:
  assumes "m \<in> set (sankeyLinks env links)"
  obtains i l where "m = sankeyLink l i" "i < length links" "l \<in> set links" "0 < lvalue l"
proof -
  define ls where "ls = js_sort (byLinkDrawPriority env) (filter (\<lambda>link. lvalue link > 0) links)"
  from assms obtain i where "m = sankeyLink (ls ! i) i" "i < length ls"
    by (auto simp: sankeyLinks_def ls_def in_set_enumerate_eq)
  moreover from this have "ls ! i \<in> set ls" by simp
  then have "ls ! i \<in> set links" "0 < lvalue (ls ! i)" by (simp_all add: ls_def)
  moreover have "length ls \<le> length links" by (simp add: ls_def length_filter_le)
  ultimately show thesis using that by (metis less_le_trans)
qed

lemma sankeyLink_sel [simp]:
  "lvalue (sankeyLink l i) = lvalue l" "lhighlighted (sankeyLink l i) = lhighlighted l"
  "ldimmed (sankeyLink l i) = ldimmed l" "zIndex (sankeyLink l i) = sankeyZIndex l i"
  by (simp_all add: sankeyLink_def DashboardFlowLink.defs)

text \<open>Drawing order: of a graph with fewer than 900,000 links, a highlighted link is always drawn above
  a link that is not highlighted, and with fewer than 100,000 an unmarked link above a dimmed one.\<close>

lemma highlighted_on_top:
  assumes "l \<in> set (sankeyLinks env links)" "m \<in> set (sankeyLinks env links)"
  shows "(length links < 900000 \<and> lhighlighted l = Some True \<and> lhighlighted m \<noteq> Some True \<longrightarrow> zIndex m < zIndex l) \<and>
    (length links < 100000 \<and> ldimmed l \<noteq> Some True \<and> ldimmed m = Some True \<and> lhighlighted m \<noteq> Some True
       \<longrightarrow> zIndex m < zIndex l)"
proof -
  from assms(1) obtain i a where a: "l = sankeyLink a i" "i < length links" by (rule sankeyLinks_nth)
  from assms(2) obtain j b where b: "m = sankeyLink b j" "j < length links" by (rule sankeyLinks_nth)
  show ?thesis using a b by (auto simp: sankeyZIndex_def)
qed

definition sampleLink :: "jsstring \<Rightarrow> int \<Rightarrow> bool \<Rightarrow> DashboardFlowLink" where
  "sampleLink t v lit = \<lparr>lsource = js ''group:a'', ltarget = t, lvalue = v, lrequests = 1, lquota = v, ltokens = 1,
     lsourceLabel = js ''a'', ltargetLabel = t, lcolor = [], llinkColor = [], llinkAlpha = 1, lhoverColor = [],
     lcolorKey = [], lshare = 0, lhighlighted = Some lit, ldimmed = Some (\<not> lit)\<rparr>"

end
