(* ===== verification/AuthSession.thy ===== *)
theory AuthSession
  imports JsValue
begin

text \<open>
  The browser's login session: the store of \<open>src/web/src/stores/auth-store.ts\<close>, the module
  \<open>src/web/src/lib/auth-session.ts\<close> that changes it, and the cross-tab events of
  \<open>src/web/src/lib/auth-session-sync.ts\<close>.

  The state of the page is one record: the store, the module variables \<open>authEpoch\<close>,
  \<open>refreshRateLimitedUntil\<close> and \<open>refreshPromise\<close> (the epoch of the refresh in flight), the clock that
  \<open>Date.now()\<close> reads, in milliseconds, and the log of published events; the values of
  \<open>randomIdentifier()\<close> are given.

  A refresh is asynchronous.  While it awaits the server, or the delay before a retry, other code runs: an
  exchange of a refresh is a server response together with what happened before it arrived and what happens
  during the delay that may follow.  \<open>run\<close> is the recursive function of \<open>createRefreshRunner\<close> on a list of
  exchanges; it returns \<open>None\<close> when the list ends before the refresh does.
\<close>

section \<open>The store\<close>

datatype AuthBootstrapState = BIdle | BChecking | BComplete

record AuthUser =
  id_ :: "rat jsnum"
  username :: jsstring
  role :: "rat jsnum"
  user_rest :: "(jsstring \<times> jsval) list"

record LoginSession =
  sid :: jsstring
  current :: bool
  login_method :: jsstring
  ip :: jsstring
  user_agent :: jsstring
  created_at :: "rat jsnum"
  last_active_at :: "rat jsnum"
  expires_at :: "rat jsnum"

record AuthBundle =
  access_token :: jsstring
  token_type :: jsstring
  access_expires_at :: rat
  bundle_user :: AuthUser
  bundle_session :: LoginSession

record AuthStore =
  user :: "AuthUser option"
  accessToken :: "jsstring option"
  accessExpiresAt :: "rat option"
  session :: "LoginSession option"
  pending2FAFlowToken :: "jsstring option"
  bootstrapState :: AuthBootstrapState

definition initialAuthStore :: AuthStore where
  "initialAuthStore = \<lparr>user = None, accessToken = None, accessExpiresAt = None, session = None,
     pending2FAFlowToken = None, bootstrapState = BIdle\<rparr>"

definition setBundle :: "AuthBundle \<Rightarrow> AuthStore \<Rightarrow> AuthStore" where
  "setBundle bundle st = st\<lparr>user := Some (bundle_user bundle), accessToken := Some (access_token bundle),
     accessExpiresAt := Some (access_expires_at bundle), session := Some (bundle_session bundle),
     pending2FAFlowToken := None, bootstrapState := BComplete\<rparr>"

definition setUser :: "AuthUser option \<Rightarrow> AuthStore \<Rightarrow> AuthStore" where
  "setUser u st = st\<lparr>user := u\<rparr>"

definition setPending2FAFlowToken :: "jsstring option \<Rightarrow> AuthStore \<Rightarrow> AuthStore" where
  "setPending2FAFlowToken t st = st\<lparr>pending2FAFlowToken := t\<rparr>"

definition setBootstrapState :: "AuthBootstrapState \<Rightarrow> AuthStore \<Rightarrow> AuthStore" where
  "setBootstrapState b st = st\<lparr>bootstrapState := b\<rparr>"

definition reset :: "AuthBootstrapState \<Rightarrow> AuthStore \<Rightarrow> AuthStore" where
  "reset b st = st\<lparr>user := None, accessToken := None, accessExpiresAt := None, session := None,
     pending2FAFlowToken := None, bootstrapState := b\<rparr>"

section \<open>Checking values\<close>

definition isAuthUser :: "jsval \<Rightarrow> bool" where
  "isAuthUser v \<longleftrightarrow> isRecord v \<and> isInteger (get_prop v (js ''id'')) \<and>
     finite_pos (the_num (get_prop v (js ''id''))) \<and>
     isString (get_prop v (js ''username'')) \<and> isNumberVal (get_prop v (js ''role''))"

definition isLoginSession :: "jsval \<Rightarrow> bool" where
  "isLoginSession v \<longleftrightarrow> isRecord v \<and>
     isString (get_prop v (js ''sid'')) \<and> length (the_str (get_prop v (js ''sid''))) > 0 \<and>
     isBoolean (get_prop v (js ''current'')) \<and> isString (get_prop v (js ''login_method'')) \<and>
     isString (get_prop v (js ''ip'')) \<and> isString (get_prop v (js ''user_agent'')) \<and>
     isNumberVal (get_prop v (js ''created_at'')) \<and> isNumberVal (get_prop v (js ''last_active_at'')) \<and>
     isNumberVal (get_prop v (js ''expires_at''))"

definition hasValidTokenFields :: "jsval \<Rightarrow> bool" where
  "hasValidTokenFields v \<longleftrightarrow>
     isString (get_prop v (js ''access_token'')) \<and> length (the_str (get_prop v (js ''access_token''))) > 0 \<and>
     isString (get_prop v (js ''token_type'')) \<and> length (the_str (get_prop v (js ''token_type''))) > 0 \<and>
     isNumberVal (get_prop v (js ''access_expires_at'')) \<and>
     finite_pos (the_num (get_prop v (js ''access_expires_at'')))"

definition isAuthBundle :: "jsval \<Rightarrow> bool" where
  "isAuthBundle v \<longleftrightarrow> isRecord v \<and> hasValidTokenFields v \<and> isAuthUser (get_prop v (js ''user'')) \<and>
     isLoginSession (get_prop v (js ''session''))"

text \<open>The values at their checked types.\<close>

definition asAuthUser :: "jsval \<Rightarrow> AuthUser" where
  "asAuthUser v = \<lparr>id_ = the_num (get_prop v (js ''id'')), username = the_str (get_prop v (js ''username'')),
     role = the_num (get_prop v (js ''role'')),
     user_rest = (case v of JObj fs \<Rightarrow> filter (\<lambda>(k, _). k \<notin> set [js ''id'', js ''username'', js ''role'']) fs | _ \<Rightarrow> [])\<rparr>"

definition asLoginSession :: "jsval \<Rightarrow> LoginSession" where
  "asLoginSession v = \<lparr>sid = the_str (get_prop v (js ''sid'')), current = the_bool (get_prop v (js ''current'')),
     login_method = the_str (get_prop v (js ''login_method'')), ip = the_str (get_prop v (js ''ip'')),
     user_agent = the_str (get_prop v (js ''user_agent'')), created_at = the_num (get_prop v (js ''created_at'')),
     last_active_at = the_num (get_prop v (js ''last_active_at'')), expires_at = the_num (get_prop v (js ''expires_at''))\<rparr>"

definition asAuthBundle :: "jsval \<Rightarrow> AuthBundle" where
  "asAuthBundle v = \<lparr>access_token = the_str (get_prop v (js ''access_token'')),
     token_type = the_str (get_prop v (js ''token_type'')),
     access_expires_at = finite_of (the_num (get_prop v (js ''access_expires_at''))),
     bundle_user = asAuthUser (get_prop v (js ''user'')), bundle_session = asLoginSession (get_prop v (js ''session''))\<rparr>"

record AuthTokenRotation =
  rot_access_token :: jsstring
  rot_token_type :: jsstring
  rot_access_expires_at :: rat
  rot_session :: LoginSession

definition isAuthTokenRotation :: "jsval \<Rightarrow> bool" where
  "isAuthTokenRotation v \<longleftrightarrow> isRecord v \<and> hasValidTokenFields v \<and>
     get_prop v (js ''token_type'') = JStr (js ''Bearer'') \<and>
     isLoginSession (get_prop v (js ''session'')) \<and>
     the_bool (get_prop (get_prop v (js ''session'')) (js ''current''))"

definition asAuthTokenRotation :: "jsval \<Rightarrow> AuthTokenRotation" where
  "asAuthTokenRotation v = \<lparr>rot_access_token = the_str (get_prop v (js ''access_token'')),
     rot_token_type = the_str (get_prop v (js ''token_type'')),
     rot_access_expires_at = finite_of (the_num (get_prop v (js ''access_expires_at''))),
     rot_session = asLoginSession (get_prop v (js ''session''))\<rparr>"

section \<open>Cross-tab events\<close>

datatype AuthSyncKind = SyncAuthenticated | SyncSignedOut

record AuthSessionSyncEvent =
  ev_kind :: AuthSyncKind
  ev_sid :: jsstring
  ev_source :: jsstring
  ev_nonce :: jsstring
  ev_timestamp :: int

section \<open>The state of the page\<close>

record AuthPage =
  store :: AuthStore
  authEpoch :: nat
  refreshRateLimitedUntil :: int
  refreshPromise :: "nat option"
  clock :: int
  authSyncSource :: jsstring
  randomIdentifiers :: "nat \<Rightarrow> jsstring"
  published :: "AuthSessionSyncEvent list"

definition initialAuthPage :: "int \<Rightarrow> jsstring \<Rightarrow> (nat \<Rightarrow> jsstring) \<Rightarrow> AuthPage" where
  "initialAuthPage t source identifiers = \<lparr>store = initialAuthStore, authEpoch = 0, refreshRateLimitedUntil = 0,
     refreshPromise = None, clock = t, authSyncSource = source, randomIdentifiers = identifiers, published = []\<rparr>"

definition currentSID :: "AuthPage \<Rightarrow> jsstring option" where
  "currentSID p = map_option sid (session (store p))"

definition publishAuthSessionEvent :: "AuthSyncKind \<Rightarrow> jsstring \<Rightarrow> AuthPage \<Rightarrow> AuthPage" where
  "publishAuthSessionEvent k s p = (if s = [] then p
     else p\<lparr>published := published p @ [\<lparr>ev_kind = k, ev_sid = s, ev_source = authSyncSource p,
       ev_nonce = randomIdentifiers p (length (published p)), ev_timestamp = clock p\<rparr>]\<rparr>)"

definition applyAuthBundle :: "AuthBundle \<Rightarrow> bool \<Rightarrow> AuthPage \<Rightarrow> AuthPage" where
  "applyAuthBundle bundle synchronizeTabs p =
     (let previousSID = currentSID p;
          p1 = p\<lparr>authEpoch := authEpoch p + 1, refreshRateLimitedUntil := 0, store := setBundle bundle (store p)\<rparr> in
      if synchronizeTabs \<and> previousSID \<noteq> Some (sid (bundle_session bundle))
      then publishAuthSessionEvent SyncAuthenticated (sid (bundle_session bundle)) p1 else p1)"

datatype AuthRotationError = InvalidRotation | NoActiveSession | RotationMismatch

definition applyAuthRotation :: "jsval \<Rightarrow> AuthPage \<Rightarrow> AuthRotationError + AuthPage" where
  "applyAuthRotation v p =
     (if \<not> isAuthTokenRotation v then Inl InvalidRotation
      else (case (user (store p), session (store p)) of
          (Some u, Some ses) \<Rightarrow>
            (let rot = asAuthTokenRotation v in
             if sid (rot_session rot) \<noteq> sid ses then Inl RotationMismatch
             else Inr (applyAuthBundle \<lparr>access_token = rot_access_token rot, token_type = rot_token_type rot,
                access_expires_at = rot_access_expires_at rot, bundle_user = u, bundle_session = rot_session rot\<rparr> False p))
        | _ \<Rightarrow> Inl NoActiveSession))"

definition clearAuthentication :: "bool \<Rightarrow> AuthBootstrapState \<Rightarrow> AuthPage \<Rightarrow> AuthPage" where
  "clearAuthentication synchronizeTabs b p =
     (let s = currentSID p;
          p1 = p\<lparr>authEpoch := authEpoch p + 1, refreshRateLimitedUntil := 0, store := reset b (store p)\<rparr> in
      case s of
        Some i \<Rightarrow> if synchronizeTabs \<and> i \<noteq> [] then publishAuthSessionEvent SyncSignedOut i p1 else p1
      | None \<Rightarrow> p1)"

section \<open>The refresh runner\<close>

datatype AuthError = Superseded | TemporarilyRateLimited | NoErrorValue | ErrorValue jsval

datatype RefreshOutcome =
    Authenticated AuthBundle
  | Anonymous
  | TransientError AuthError
  | OutOfSync "jsstring option"

record AuthRefreshHTTPResponse =
  status :: int
  response_data :: jsval
  response_error :: "AuthError option"
  retryAfterSeconds :: "int option"

record 's AuthRefreshRuntime =
  getExpectedSID :: "'s \<Rightarrow> jsstring option"
  parseBundle :: "jsval \<Rightarrow> AuthBundle option"
  acceptBundle :: "AuthBundle \<Rightarrow> 's \<Rightarrow> 's"
  clear :: "bool \<Rightarrow> AuthBootstrapState option \<Rightarrow> 's \<Rightarrow> 's"
  markTransient :: "'s \<Rightarrow> 's"
  markRateLimited :: "(int \<Rightarrow> 's \<Rightarrow> 's) option"
  isCurrent :: "('s \<Rightarrow> bool) option"

record 's Exchange =
  beforeResponse :: "'s \<Rightarrow> 's"
  response :: AuthRefreshHTTPResponse
  duringDelay :: "'s \<Rightarrow> 's"

definition refreshRaceDelays :: "nat list" where
  "refreshRaceDelays = [80, 200, 500]"

definition isStale :: "'s AuthRefreshRuntime \<Rightarrow> 's \<Rightarrow> bool" where
  "isStale rt s = (case isCurrent rt of Some f \<Rightarrow> \<not> f s | None \<Rightarrow> False)"

definition responseCode :: "jsval \<Rightarrow> jsstring option" where
  "responseCode d = (if isRecord d \<and> isString (get_prop d (js ''code'')) then Some (the_str (get_prop d (js ''code''))) else None)"

definition responseBundle :: "'s AuthRefreshRuntime \<Rightarrow> jsval \<Rightarrow> AuthBundle option" where
  "responseBundle rt d = (if isRecord d \<and> get_prop d (js ''success'') = JBool True
     then parseBundle rt (get_prop d (js ''data'')) else None)"

definition responseFailure :: "AuthRefreshHTTPResponse \<Rightarrow> AuthError" where
  "responseFailure r = (case response_error r of Some e \<Rightarrow> e | None \<Rightarrow> ErrorValue (response_data r))"

datatype RunStep =
    Finished RefreshOutcome
  | RetryAfter nat nat bool
  | RetryNow nat bool

definition afterResponse ::
  "'s AuthRefreshRuntime \<Rightarrow> nat \<Rightarrow> bool \<Rightarrow> AuthRefreshHTTPResponse \<Rightarrow> 's \<Rightarrow> RunStep \<times> 's" where
  "afterResponse rt raceAttempt allowMismatchRetry r s =
     (if isStale rt s then (Finished (TransientError Superseded), s)
      else
        (let code = responseCode (response_data r) in
         case responseBundle rt (response_data r) of
           Some bundle \<Rightarrow> (Finished (Authenticated bundle), acceptBundle rt bundle s)
         | None \<Rightarrow>
             (if status r = 409 \<and> code = Some (js ''AUTH_REFRESH_RACE'') then
                (if raceAttempt < length refreshRaceDelays
                 then (RetryAfter (refreshRaceDelays ! raceAttempt) (raceAttempt + 1) allowMismatchRetry, s)
                 else (Finished (OutOfSync code), clear rt False None s))
              else if status r = 409 \<and> code = Some (js ''AUTH_SESSION_MISMATCH'') then
                (if allowMismatchRetry then (RetryNow 0 False, clear rt False (Some BIdle) s)
                 else (Finished (OutOfSync code), clear rt False None s))
              else if status r = 401 then (Finished Anonymous, clear rt True None s)
              else if status r = 429 then
                (Finished (TransientError (responseFailure r)),
                 markTransient rt (case markRateLimited rt of
                   Some f \<Rightarrow> f (case retryAfterSeconds r of Some n \<Rightarrow> n | None \<Rightarrow> 1) s | None \<Rightarrow> s))
              else if status r = 0 \<or> status r \<ge> 500 then
                (Finished (TransientError (responseFailure r)), markTransient rt s)
              else (Finished (OutOfSync (Some (case code of Some c \<Rightarrow> c | None \<Rightarrow> js ''AUTH_INVALID_REFRESH_RESPONSE''))),
                    clear rt False None s))))"

fun run ::
  "'s AuthRefreshRuntime \<Rightarrow> nat \<Rightarrow> bool \<Rightarrow> 's Exchange list \<Rightarrow> 's \<Rightarrow>
     (RefreshOutcome \<times> 's \<times> jsstring option list) option" where
  "run rt raceAttempt allow xs s =
     (if isStale rt s then Some (TransientError Superseded, s, [])
      else (case xs of
          [] \<Rightarrow> None
        | x # rest \<Rightarrow>
            (let sent = getExpectedSID rt s in
             case afterResponse rt raceAttempt allow (response x) (beforeResponse x s) of
               (Finished outcome, s1) \<Rightarrow> Some (outcome, s1, [sent])
             | (RetryAfter delay n a, s1) \<Rightarrow>
                 map_option (\<lambda>(outcome, s2, sids). (outcome, s2, sent # sids)) (run rt n a rest (duringDelay x s1))
             | (RetryNow n a, s1) \<Rightarrow>
                 map_option (\<lambda>(outcome, s2, sids). (outcome, s2, sent # sids)) (run rt n a rest s1))))"

declare run.simps [simp del]

definition createRefreshRunner ::
  "'s AuthRefreshRuntime \<Rightarrow> 's Exchange list \<Rightarrow> 's \<Rightarrow> (RefreshOutcome \<times> 's \<times> jsstring option list) option" where
  "createRefreshRunner rt = run rt 0 True"

section \<open>The runtime of the page\<close>

text \<open>What \<open>authClient.post\<close> can do: answer, fail with or without a response, or throw something else.  The
  number in a failed response is \<open>Number\<close> of its \<open>retry-after\<close> header.\<close>

datatype PostResult =
    PostAnswered int jsval
  | PostFailed "(int \<times> rat jsnum \<times> jsval) option" jsval
  | PostThrew jsval

definition refreshHeaders :: "jsstring option \<Rightarrow> (jsstring \<times> jsstring) list" where
  "refreshHeaders expectedSID = (case expectedSID of
     Some s \<Rightarrow> if s \<noteq> [] then [(js ''X-Auth-Session'', s)] else [] | None \<Rightarrow> [])"

definition parseRetryAfter :: "rat jsnum \<Rightarrow> int option" where
  "parseRetryAfter n = (if finite_pos n then Some (min \<lceil>finite_of n\<rceil> 300) else None)"

definition requestRefresh :: "PostResult \<Rightarrow> AuthRefreshHTTPResponse" where
  "requestRefresh r = (case r of
     PostAnswered st d \<Rightarrow> \<lparr>status = st, response_data = d, response_error = None, retryAfterSeconds = None\<rparr>
   | PostThrew e \<Rightarrow> \<lparr>status = 0, response_data = JUndef, response_error = Some (ErrorValue e), retryAfterSeconds = None\<rparr>
   | PostFailed None e \<Rightarrow> \<lparr>status = 0, response_data = JUndef, response_error = Some (ErrorValue e),
       retryAfterSeconds = None\<rparr>
   | PostFailed (Some (st, retry, d)) e \<Rightarrow> \<lparr>status = st, response_data = d, response_error = Some (ErrorValue e),
       retryAfterSeconds = parseRetryAfter retry\<rparr>)"

definition pageParseBundle :: "jsval \<Rightarrow> AuthBundle option" where
  "pageParseBundle v = (if isAuthBundle v then Some (asAuthBundle v) else None)"

definition pageClear :: "bool \<Rightarrow> AuthBootstrapState option \<Rightarrow> AuthPage \<Rightarrow> AuthPage" where
  "pageClear synchronizeTabs b p =
     (if \<not> synchronizeTabs \<and> b = Some BIdle then p\<lparr>store := reset BIdle (store p)\<rparr>
      else clearAuthentication synchronizeTabs (case b of Some x \<Rightarrow> x | None \<Rightarrow> BComplete) p)"

definition pageMarkTransient :: "AuthPage \<Rightarrow> AuthPage" where
  "pageMarkTransient p = p\<lparr>store := setBootstrapState BIdle (store p)\<rparr>"

definition pageMarkRateLimited :: "int \<Rightarrow> AuthPage \<Rightarrow> AuthPage" where
  "pageMarkRateLimited n p = p\<lparr>refreshRateLimitedUntil := clock p + max 1 n * 1000\<rparr>"

definition refreshRuntime :: "nat \<Rightarrow> AuthPage AuthRefreshRuntime" where
  "refreshRuntime refreshEpoch = \<lparr>getExpectedSID = currentSID, parseBundle = pageParseBundle,
     acceptBundle = (\<lambda>b. applyAuthBundle b False), clear = pageClear, markTransient = pageMarkTransient,
     markRateLimited = Some pageMarkRateLimited, isCurrent = Some (\<lambda>p. authEpoch p = refreshEpoch)\<rparr>"

definition runRefresh ::
  "nat \<Rightarrow> AuthPage Exchange list \<Rightarrow> AuthPage \<Rightarrow> (RefreshOutcome \<times> AuthPage \<times> jsstring option list) option" where
  "runRefresh refreshEpoch = createRefreshRunner (refreshRuntime refreshEpoch)"

section \<open>Single flight and the callers\<close>

text \<open>With \<open>navigator.locks\<close> the refresh first waits for the lock, during which other code runs; the lock
  request may be rejected.  The rejected promise is returned, not awaited, so the handler does not see it.\<close>

datatype LockResult = NoLocks | LockGranted "AuthPage \<Rightarrow> AuthPage" | LockRejected jsval

definition performRefreshWithBrowserLock ::
  "nat \<Rightarrow> LockResult \<Rightarrow> AuthPage Exchange list \<Rightarrow> AuthPage \<Rightarrow>
     ((jsval + RefreshOutcome) \<times> AuthPage) option" where
  "performRefreshWithBrowserLock refreshEpoch lock xs p = (case lock of
     NoLocks \<Rightarrow> map_option (\<lambda>(o', p', _). (Inr o', p')) (runRefresh refreshEpoch xs p)
   | LockGranted waiting \<Rightarrow> map_option (\<lambda>(o', p', _). (Inr o', p')) (runRefresh refreshEpoch xs (waiting p))
   | LockRejected e \<Rightarrow> Some (Inl e, p))"

datatype RefreshCall = Resolved RefreshOutcome | Joined nat | Started nat

definition refreshAuthentication :: "AuthPage \<Rightarrow> RefreshCall \<times> AuthPage" where
  "refreshAuthentication p =
     (if clock p < refreshRateLimitedUntil p then (Resolved (TransientError TemporarilyRateLimited), p)
      else (case refreshPromise p of
          Some e \<Rightarrow> (Joined e, p)
        | None \<Rightarrow> (Started (authEpoch p), p\<lparr>refreshPromise := Some (authEpoch p)\<rparr>)))"

definition refreshSettled :: "AuthPage \<Rightarrow> AuthPage" where
  "refreshSettled p = p\<lparr>refreshPromise := None\<rparr>"

definition truthyToken :: "AuthStore \<Rightarrow> bool" where
  "truthyToken st \<longleftrightarrow> (case accessToken st of Some t \<Rightarrow> t \<noteq> [] | None \<Rightarrow> False)"

definition expiresAfter :: "AuthStore \<Rightarrow> int \<Rightarrow> bool" where
  "expiresAfter st t \<longleftrightarrow> (case accessExpiresAt st of Some e \<Rightarrow> e \<noteq> 0 \<and> e > of_int t | None \<Rightarrow> False)"

definition currentValidAuthBundle :: "AuthPage \<Rightarrow> AuthBundle option" where
  "currentValidAuthBundle p =
     (case (user (store p), session (store p)) of
        (Some u, Some ses) \<Rightarrow>
          (if truthyToken (store p) \<and> expiresAfter (store p) (clock p div 1000)
           then Some \<lparr>access_token = the (accessToken (store p)), token_type = js ''Bearer'',
             access_expires_at = the (accessExpiresAt (store p)), bundle_user = u, bundle_session = ses\<rparr>
           else None)
      | _ \<Rightarrow> None)"

definition bootstrapAuthentication :: "AuthPage \<Rightarrow> RefreshCall \<times> AuthPage" where
  "bootstrapAuthentication p =
     (case currentValidAuthBundle p of
        Some bundle \<Rightarrow> (Resolved (Authenticated bundle), p\<lparr>store := setBootstrapState BComplete (store p)\<rparr>)
      | None \<Rightarrow>
          (let hasStaleSession = (user (store p) \<noteq> None \<and> session (store p) \<noteq> None) in
           if bootstrapState (store p) = BComplete \<and> \<not> hasStaleSession then (Resolved Anonymous, p)
           else refreshAuthentication (p\<lparr>store := setBootstrapState BChecking (store p)\<rparr>)))"

definition getCommonHeaders :: "AuthPage \<Rightarrow> (jsstring \<times> jsstring) list" where
  "getCommonHeaders p = (js ''Content-Type'', js ''application/json'') #
     (if truthyToken (store p) then [(js ''Authorization'', js ''Bearer '' @ the (accessToken (store p)))] else [])"

datatype FreshHeaders = Headers "(jsstring \<times> jsstring) list" | RequestFailed AuthError | SessionExpired

text \<open>\<open>awaited\<close> is what the awaited refresh gives: its outcome and the page when it settles.\<close>

definition getFreshAuthHeaders :: "(RefreshOutcome \<times> AuthPage) \<Rightarrow> AuthPage \<Rightarrow> FreshHeaders \<times> AuthPage" where
  "getFreshAuthHeaders awaited p =
     (if truthyToken (store p) \<and> expiresAfter (store p) (clock p div 1000 + 60) then (Headers (getCommonHeaders p), p)
      else
        (let outcome = fst awaited; p1 = snd awaited in
         case outcome of
           Authenticated _ \<Rightarrow> (Headers (getCommonHeaders p1), p1)
         | _ \<Rightarrow>
             (if truthyToken (store p1) \<and> expiresAfter (store p1) (clock p1 div 1000)
              then (Headers (getCommonHeaders p1), p1)
              else (case outcome of TransientError e \<Rightarrow> (RequestFailed e, p1) | _ \<Rightarrow> (SessionExpired, p1)))))"

section \<open>Receiving events of other tabs\<close>

definition kindText :: "AuthSyncKind \<Rightarrow> jsstring" where
  "kindText k = (case k of SyncAuthenticated \<Rightarrow> js ''authenticated'' | SyncSignedOut \<Rightarrow> js ''signed_out'')"

definition syncMessage :: "AuthSessionSyncEvent \<Rightarrow> jsval" where
  "syncMessage e = JObj [(js ''kind'', JStr (kindText (ev_kind e))), (js ''sid'', JStr (ev_sid e)),
     (js ''source'', JStr (ev_source e)), (js ''nonce'', JStr (ev_nonce e)),
     (js ''timestamp'', JNum (Num (of_int (ev_timestamp e))))]"

definition isAuthSessionSyncEvent :: "jsval \<Rightarrow> bool" where
  "isAuthSessionSyncEvent v \<longleftrightarrow> isRecord v \<and>
     (get_prop v (js ''kind'') = JStr (js ''authenticated'') \<or> get_prop v (js ''kind'') = JStr (js ''signed_out'')) \<and>
     isString (get_prop v (js ''sid'')) \<and> length (the_str (get_prop v (js ''sid''))) > 0 \<and>
     isString (get_prop v (js ''source'')) \<and> isString (get_prop v (js ''nonce'')) \<and>
     isNumberVal (get_prop v (js ''timestamp''))"

definition deliver :: "jsstring \<Rightarrow> int \<Rightarrow> jsval \<Rightarrow> bool" where
  "deliver source now v \<longleftrightarrow> isAuthSessionSyncEvent v \<and>
     the_str (get_prop v (js ''source'')) \<noteq> source \<and>
     (case the_num (get_prop v (js ''timestamp'')) of Num t \<Rightarrow> \<bar>of_int now - t\<bar> < 60000 | _ \<Rightarrow> False)"

datatype PageEffect = NoEffect | ReloadPage | GoToSignIn

definition clearAuthenticatedClientState :: "('c \<Rightarrow> 'c) \<Rightarrow> bool \<Rightarrow> 'c \<times> AuthPage \<Rightarrow> 'c \<times> AuthPage" where
  "clearAuthenticatedClientState clearQueries synchronizeTabs cp =
     (clearQueries (fst cp), clearAuthentication synchronizeTabs BComplete (snd cp))"

definition onAuthSessionEvent ::
  "('c \<Rightarrow> 'c) \<Rightarrow> AuthSyncKind \<Rightarrow> jsstring \<Rightarrow> 'c \<times> AuthPage \<Rightarrow> PageEffect \<times> ('c \<times> AuthPage)" where
  "onAuthSessionEvent clearQueries k s cp =
     (let currentId = currentSID (snd cp);
          signedIn = (case currentId of Some i \<Rightarrow> i \<noteq> [] | None \<Rightarrow> False) in
      case k of
        SyncAuthenticated \<Rightarrow>
          (if Some s = currentId then (NoEffect, cp)
           else (ReloadPage, if signedIn then (fst cp, clearAuthentication False BComplete (snd cp)) else cp))
      | SyncSignedOut \<Rightarrow>
          (if signedIn \<and> Some s = currentId then (GoToSignIn, clearAuthenticatedClientState clearQueries False cp)
           else (NoEffect, cp)))"

end
