(* ===== verification/AuthProofs.thy ===== *)
theory AuthProofs
  imports AuthSession
begin

text \<open>
  Theorems about the login session.  The runner is verified once, for any runtime, in a locale; the runtime
  of the page is its interpretation.  The interleaving of a refresh with the rest of the page is a step
  relation, whose reachable states satisfy the invariants.
\<close>

section \<open>The runner, for any runtime\<close>

definition stepsLeft :: "nat \<Rightarrow> bool \<Rightarrow> nat" where
  "stepsLeft raceAttempt allow = (4 - raceAttempt) + (if allow then 4 else 0)"

lemma afterResponse_progress:
  "afterResponse rt n a r s = (RetryAfter d n' a', s') \<Longrightarrow> n < 3 \<and> n' = n + 1 \<and> a' = a \<and> s' = s"
  "afterResponse rt n a r s = (RetryNow n' a', s') \<Longrightarrow> a \<and> n' = 0 \<and> \<not> a' \<and> s' = clear rt False (Some BIdle) s"
  by (auto simp: afterResponse_def refreshRaceDelays_def Let_def split: if_splits option.splits)

lemma stepsLeft_decreases:
  "n \<le> 3 \<Longrightarrow> afterResponse rt n a r s = (RetryAfter d n' a', s') \<Longrightarrow>
     n' \<le> 3 \<and> stepsLeft n' a' + 1 = stepsLeft n a"
  "n \<le> 3 \<Longrightarrow> afterResponse rt n a r s = (RetryNow n' a', s') \<Longrightarrow>
     n' \<le> 3 \<and> stepsLeft n' a' + 1 \<le> stepsLeft n a"
  by (drule afterResponse_progress; auto simp: stepsLeft_def)+

lemma run_total:
  assumes "n \<le> 3" "stepsLeft n a \<le> length xs"
  shows "\<exists>outcome s' sids. run rt n a xs s = Some (outcome, s', sids) \<and> length sids \<le> stepsLeft n a"
  using assms
proof (induction xs arbitrary: n a s)
  case Nil
  then show ?case by (simp add: stepsLeft_def)
next
  case (Cons x xs)
  have pos: "0 < stepsLeft n a" using Cons.prems(1) by (simp add: stepsLeft_def)
  show ?case
  proof (cases "isStale rt s")
    case True
    then show ?thesis by (simp add: run.simps)
  next
    case False
    obtain st s1 where st: "afterResponse rt n a (response x) (beforeResponse x s) = (st, s1)" by fastforce
    show ?thesis
    proof (cases st)
      case (Finished outcome)
      with False st pos show ?thesis by (simp add: run.simps [of rt n a "x # xs" s])
    next
      case (RetryAfter d n' a')
      from stepsLeft_decreases(1) [OF Cons.prems(1) st [unfolded RetryAfter]]
      have "n' \<le> 3" "stepsLeft n' a' + 1 = stepsLeft n a" by simp_all
      with Cons.IH [of n' a' "duringDelay x s1"] Cons.prems(2) False st RetryAfter show ?thesis
        by (fastforce simp: run.simps [of rt n a "x # xs" s])
    next
      case (RetryNow n' a')
      from stepsLeft_decreases(2) [OF Cons.prems(1) st [unfolded RetryNow]]
      have "n' \<le> 3" "stepsLeft n' a' + 1 \<le> stepsLeft n a" by simp_all
      with Cons.IH [of n' a' s1] Cons.prems(2) False st RetryNow show ?thesis
        by (fastforce simp: run.simps [of rt n a "x # xs" s])
    qed
  qed
qed

lemma run_length: "run rt n a xs s = Some (outcome, s', sids) \<Longrightarrow> length sids \<le> length xs"
proof (induction xs arbitrary: n a s sids)
  case Nil
  then show ?case by (simp add: run.simps split: if_splits)
next
  case (Cons x xs)
  then show ?case
    by (fastforce simp: run.simps [of rt n a "x # xs" s] Let_def split: if_splits prod.splits RunStep.splits)
qed

text \<open>C8. A refresh ends: whatever the server answers and whatever else happens meanwhile, eight answered
  requests are enough for an outcome, and no more than eight are sent.\<close>

theorem refresh_terminates:
  assumes "8 \<le> length xs"
  shows "\<exists>outcome s' sids. createRefreshRunner rt xs s = Some (outcome, s', sids) \<and> length sids \<le> 8"
  using run_total [of 0 True xs rt s] assms by (simp add: createRefreshRunner_def stepsLeft_def)

theorem refresh_terminates_witness:
  "8 \<le> length (replicate 8 \<lparr>beforeResponse = \<lambda>p. p, response = requestRefresh (PostAnswered 409 (JObj
       [(js ''code'', JStr (js ''AUTH_REFRESH_RACE''))])), duringDelay = \<lambda>p. p\<rparr>) \<and>
   (\<exists>outcome p' sids. createRefreshRunner (refreshRuntime 0)
      (replicate 8 \<lparr>beforeResponse = \<lambda>p. p, response = requestRefresh (PostAnswered 409 (JObj
         [(js ''code'', JStr (js ''AUTH_REFRESH_RACE''))])), duringDelay = \<lambda>p. p\<rparr>)
      (initialAuthPage 0 (js ''tab'') (\<lambda>_. js ''n'')) = Some (outcome, p', sids) \<and> length sids \<le> 8)"
  using refresh_terminates [of "replicate 8 \<lparr>beforeResponse = \<lambda>p. p, response = requestRefresh (PostAnswered 409 (JObj
         [(js ''code'', JStr (js ''AUTH_REFRESH_RACE''))])), duringDelay = \<lambda>p. p\<rparr>" "refreshRuntime 0"
      "initialAuthPage 0 (js ''tab'') (\<lambda>_. js ''n'')"]
  by simp

text \<open>The contract of a runtime that counts epochs: accepting a bundle and clearing start a new epoch, except
  for the reset before the retry after a session mismatch, which also forgets the session.\<close>

locale refresh_runtime =
  fixes rt :: "'s AuthRefreshRuntime" and epoch :: "'s \<Rightarrow> nat" and e0 :: nat
  assumes current_law: "isCurrent rt = Some (\<lambda>s. epoch s = e0)"
    and idle_epoch: "epoch (clear rt False (Some BIdle) s) = epoch s"
    and idle_sid: "getExpectedSID rt (clear rt False (Some BIdle) s) = None"
begin

lemma stale_iff [simp]: "isStale rt s \<longleftrightarrow> epoch s \<noteq> e0"
  by (simp add: isStale_def current_law)

lemma run_stale: "epoch s \<noteq> e0 \<Longrightarrow> run rt n a xs s = Some (TransientError Superseded, s, [])"
  by (simp add: run.simps)

lemma run_Cons:
  "epoch s = e0 \<Longrightarrow> run rt n a (x # xs) s =
     (case afterResponse rt n a (response x) (beforeResponse x s) of
        (Finished outcome, s1) \<Rightarrow> Some (outcome, s1, [getExpectedSID rt s])
      | (RetryAfter delay n a, s1) \<Rightarrow> map_option (\<lambda>(outcome, s2, sids). (outcome, s2, getExpectedSID rt s # sids))
          (run rt n a xs (duringDelay x s1))
      | (RetryNow n a, s1) \<Rightarrow> map_option (\<lambda>(outcome, s2, sids). (outcome, s2, getExpectedSID rt s # sids))
          (run rt n a xs s1))"
  by (simp add: run.simps [of rt n a "x # xs" s] Let_def)

lemma afterResponse_stale:
  "epoch s \<noteq> e0 \<Longrightarrow> afterResponse rt n a r s = (Finished (TransientError Superseded), s)"
  by (simp add: afterResponse_def)

lemma run_superseded:
  assumes "run rt n a xs s = Some (outcome, s', sids)" "i < length sids"
    and "\<And>s. epoch s < epoch (beforeResponse (xs ! i) s)"
  shows "outcome = TransientError Superseded \<and> length sids = i + 1 \<and> (\<exists>s0. s' = beforeResponse (xs ! i) s0)"
  using assms
proof (induction xs arbitrary: n a s sids i)
  case Nil
  then show ?case by (simp add: run.simps split: if_splits)
next
  case (Cons x xs)
  have e: "epoch s = e0"
  proof (rule ccontr)
    assume "epoch s \<noteq> e0"
    then show False using run_stale [of s n a "x # xs"] Cons.prems by simp
  qed
  show ?case
  proof (cases i)
    case 0
    then have "epoch (beforeResponse x s) \<noteq> e0" using Cons.prems(3) [of s] e by simp
    then show ?thesis using Cons.prems(1) 0 by (auto simp: run_Cons [OF e] afterResponse_stale)
  next
    case (Suc j)
    obtain st s1 where st: "afterResponse rt n a (response x) (beforeResponse x s) = (st, s1)" by fastforce
    show ?thesis
    proof (cases st)
      case (Finished o')
      then show ?thesis using Cons.prems(1,2) Suc st by (auto simp: run_Cons [OF e])
    next
      case (RetryAfter d n' a')
      then obtain sids' where "run rt n' a' xs (duringDelay x s1) = Some (outcome, s', sids')"
          "sids = getExpectedSID rt s # sids'"
        using Cons.prems(1) st by (auto simp: run_Cons [OF e])
      then show ?thesis using Cons.IH [of n' a' _ sids' j] Cons.prems Suc by simp
    next
      case (RetryNow n' a')
      then obtain sids' where "run rt n' a' xs s1 = Some (outcome, s', sids')" "sids = getExpectedSID rt s # sids'"
        using Cons.prems(1) st by (auto simp: run_Cons [OF e])
      then show ?thesis using Cons.IH [of n' a' _ sids' j] Cons.prems Suc by simp
    qed
  qed
qed

lemma run_anonymous:
  assumes "run rt n False xs s = Some (outcome, s', sids)" "getExpectedSID rt s = None"
    and kept: "\<And>x s. x \<in> set xs \<Longrightarrow> epoch (beforeResponse x s) = epoch s \<Longrightarrow> getExpectedSID rt s = None \<Longrightarrow>
        getExpectedSID rt (beforeResponse x s) = None"
      "\<And>x s. x \<in> set xs \<Longrightarrow> epoch (duringDelay x s) = epoch s \<Longrightarrow> getExpectedSID rt s = None \<Longrightarrow>
        getExpectedSID rt (duringDelay x s) = None"
  shows "set sids \<subseteq> {None}"
  using assms
proof (induction xs arbitrary: n s sids)
  case Nil
  then show ?case by (auto simp: run.simps split: if_splits)
next
  case (Cons x xs)
  show ?case
  proof (cases "epoch s = e0")
    case False
    then show ?thesis using Cons.prems(1) by (simp add: run_stale)
  next
    case e: True
    obtain st s1 where st: "afterResponse rt n False (response x) (beforeResponse x s) = (st, s1)" by fastforce
    show ?thesis
    proof (cases st)
      case (Finished o')
      then show ?thesis using Cons.prems(1,2) st by (auto simp: run_Cons [OF e])
    next
      case (RetryNow n' a')
      then show ?thesis using afterResponse_progress(2) [OF st [unfolded RetryNow]] by simp
    next
      case (RetryAfter d n' a')
      from afterResponse_progress(1) [OF st [unfolded RetryAfter]] have s1: "s1 = beforeResponse x s" "\<not> a'" by auto
      have e1: "epoch s1 = e0"
        using st RetryAfter afterResponse_stale [of "beforeResponse x s"] s1 by (cases "epoch s1 = e0") auto
      then have none: "getExpectedSID rt s1 = None" using Cons.prems(2,3) e s1 by simp
      obtain sids' where run: "run rt n' False xs (duringDelay x s1) = Some (outcome, s', sids')"
          "sids = getExpectedSID rt s # sids'"
        using Cons.prems(1) st RetryAfter s1 by (auto simp: run_Cons [OF e])
      have "set sids' \<subseteq> {None}"
      proof (cases "epoch (duringDelay x s1) = e0")
        case True
        then have "getExpectedSID rt (duringDelay x s1) = None" using Cons.prems(4) none e1 by simp
        then show ?thesis using Cons.IH [OF run(1)] Cons.prems(3,4) by simp
      next
        case False
        then show ?thesis using run(1) by (simp add: run_stale)
      qed
      then show ?thesis using run(2) Cons.prems(2) by simp
    qed
  qed
qed

lemma run_mismatch:
  assumes "run rt n a xs s = Some (outcome, s', sids)" "i < j" "j < length sids"
    and "status (response (xs ! i)) = 409"
    and "responseCode (response_data (response (xs ! i))) = Some (js ''AUTH_SESSION_MISMATCH'')"
    and kept: "\<And>x s. x \<in> set xs \<Longrightarrow> epoch (beforeResponse x s) = epoch s \<Longrightarrow> getExpectedSID rt s = None \<Longrightarrow>
        getExpectedSID rt (beforeResponse x s) = None"
      "\<And>x s. x \<in> set xs \<Longrightarrow> epoch (duringDelay x s) = epoch s \<Longrightarrow> getExpectedSID rt s = None \<Longrightarrow>
        getExpectedSID rt (duringDelay x s) = None"
  shows "sids ! j = None"
  using assms
proof (induction xs arbitrary: n a s sids i j)
  case Nil
  then show ?case by (auto simp: run.simps split: if_splits)
next
  case (Cons x xs)
  have e: "epoch s = e0"
    using run_stale [of s n a "x # xs"] Cons.prems(1-3) by (cases "epoch s = e0") auto
  obtain st s1 where st: "afterResponse rt n a (response x) (beforeResponse x s) = (st, s1)" by fastforce
  obtain n' a' s2 sids' where run: "run rt n' a' xs s2 = Some (outcome, s', sids')"
      "sids = getExpectedSID rt s # sids'" and s2: "st = RetryNow n' a' \<and> s2 = s1 \<or> (\<exists>d. st = RetryAfter d n' a')"
    using Cons.prems(1-3) st by (cases st) (auto simp: run_Cons [OF e])
  obtain k where k: "j = Suc k" "k < length sids'" using Cons.prems(2,3) run(2) by (cases j) auto
  show ?case
  proof (cases i)
    case 0
    then have "st = RetryNow 0 False \<and> s1 = clear rt False (Some BIdle) (beforeResponse x s)"
      using s2 st Cons.prems(4,5)
      by (auto simp: afterResponse_def js_inject Let_def split: if_splits option.splits)
    then have "a' = False" "getExpectedSID rt s2 = None" using s2 idle_sid by auto
    then have "set sids' \<subseteq> {None}" using run_anonymous [OF run(1) [unfolded \<open>a' = False\<close>]] Cons.prems(6,7) by simp
    then show ?thesis using run(2) k by (auto dest: nth_mem)
  next
    case (Suc l)
    then have "sids' ! k = None"
      using Cons.IH [OF run(1), of l k] Cons.prems k by simp
    then show ?thesis using run(2) k by simp
  qed
qed

end

section \<open>The page as a runtime\<close>

lemma epoch_publish [simp]: "authEpoch (publishAuthSessionEvent k s p) = authEpoch p"
  by (simp add: publishAuthSessionEvent_def)

lemma store_publish [simp]: "store (publishAuthSessionEvent k s p) = store p"
  by (simp add: publishAuthSessionEvent_def)

lemma sid_publish [simp]: "currentSID (publishAuthSessionEvent k s p) = currentSID p"
  by (simp add: currentSID_def)

lemma epoch_applyAuthBundle [simp]: "authEpoch (applyAuthBundle b sync p) = authEpoch p + 1"
  by (simp add: applyAuthBundle_def Let_def)

lemma store_applyAuthBundle [simp]: "store (applyAuthBundle b sync p) = setBundle b (store p)"
  by (simp add: applyAuthBundle_def Let_def)

lemma epoch_clearAuthentication [simp]: "authEpoch (clearAuthentication sync b p) = authEpoch p + 1"
  by (simp add: clearAuthentication_def Let_def split: option.split)

lemma store_clearAuthentication [simp]: "store (clearAuthentication sync b p) = reset b (store p)"
  by (simp add: clearAuthentication_def Let_def split: option.split)

lemma sid_reset [simp]: "session (reset b st) = None"
  by (simp add: reset_def)

interpretation page_runtime: refresh_runtime "refreshRuntime e" authEpoch e for e
  by unfold_locales (simp_all add: refreshRuntime_def pageClear_def currentSID_def)

text \<open>What the rest of the page can do while a refresh is under way.  A login only applies a checked bundle,
  as every caller of \<open>applyAuthBundle\<close> does.\<close>

datatype AuthAction =
    ActLogin jsval
  | ActRotation jsval
  | ActClear bool AuthBootstrapState
  | ActSetUser "AuthUser option"
  | ActSetPending "jsstring option"
  | ActSetBootstrap AuthBootstrapState
  | ActOtherTab AuthSyncKind jsstring
  | ActTick nat

definition applyAction :: "AuthAction \<Rightarrow> AuthPage \<Rightarrow> AuthPage" where
  "applyAction a p = (case a of
     ActLogin v \<Rightarrow> if isAuthBundle v then applyAuthBundle (asAuthBundle v) True p else p
   | ActRotation v \<Rightarrow> (case applyAuthRotation v p of Inr p' \<Rightarrow> p' | Inl _ \<Rightarrow> p)
   | ActClear sync b \<Rightarrow> clearAuthentication sync b p
   | ActSetUser u \<Rightarrow> p\<lparr>store := setUser u (store p)\<rparr>
   | ActSetPending t \<Rightarrow> p\<lparr>store := setPending2FAFlowToken t (store p)\<rparr>
   | ActSetBootstrap b \<Rightarrow> p\<lparr>store := setBootstrapState b (store p)\<rparr>
   | ActOtherTab k s \<Rightarrow> snd (snd (onAuthSessionEvent id k s ((), p)))
   | ActTick n \<Rightarrow> p\<lparr>clock := clock p + int n\<rparr>)"

definition applyActions :: "AuthAction list \<Rightarrow> AuthPage \<Rightarrow> AuthPage" where
  "applyActions as p = foldl (\<lambda>p a. applyAction a p) p as"

record AuthExchange =
  actsBefore :: "AuthAction list"
  post :: PostResult
  actsDuring :: "AuthAction list"

definition pageExchange :: "AuthExchange \<Rightarrow> AuthPage Exchange" where
  "pageExchange x = \<lparr>beforeResponse = applyActions (actsBefore x), response = requestRefresh (post x),
     duringDelay = applyActions (actsDuring x)\<rparr>"

lemma applyActions_simps [simp]:
  "applyActions [] p = p" "applyActions (a # as) p = applyActions as (applyAction a p)"
  by (simp_all add: applyActions_def)

lemma rotation_page:
  "applyAuthRotation v p = Inr p' \<Longrightarrow> \<exists>b. p' = applyAuthBundle b False p"
  by (auto simp: applyAuthRotation_def Let_def split: if_splits option.splits)

lemma action_epoch: "authEpoch p \<le> authEpoch (applyAction a p)"
  by (cases a) (auto simp: applyAction_def onAuthSessionEvent_def clearAuthenticatedClientState_def Let_def
      dest!: rotation_page split: sum.split AuthSyncKind.split option.split)

lemma actions_epoch: "authEpoch p \<le> authEpoch (applyActions as p)"
proof (induction as arbitrary: p)
  case (Cons a as)
  then show ?case using action_epoch [of p a] le_trans by fastforce
qed simp

lemma clear_action_epoch: "ActClear sync b \<in> set as \<Longrightarrow> authEpoch p < authEpoch (applyActions as p)"
proof (induction as arbitrary: p)
  case (Cons a as)
  show ?case
  proof (cases "a = ActClear sync b")
    case True
    then show ?thesis using actions_epoch [of "applyAction a p" as] by (simp add: applyAction_def)
  next
    case False
    then show ?thesis using Cons action_epoch [of p a] le_less_trans by fastforce
  qed
qed simp

lemma action_anonymous:
  "authEpoch (applyAction a p) = authEpoch p \<Longrightarrow> currentSID p = None \<Longrightarrow> currentSID (applyAction a p) = None"
  by (cases a) (auto simp: applyAction_def onAuthSessionEvent_def clearAuthenticatedClientState_def Let_def
      setUser_def setPending2FAFlowToken_def setBootstrapState_def currentSID_def
      dest!: rotation_page split: sum.splits AuthSyncKind.splits option.splits if_splits)

lemma actions_anonymous:
  "authEpoch (applyActions as p) = authEpoch p \<Longrightarrow> currentSID p = None \<Longrightarrow> currentSID (applyActions as p) = None"
proof (induction as arbitrary: p)
  case (Cons a as)
  have "authEpoch (applyAction a p) = authEpoch p"
    using Cons.prems(1) action_epoch [of p a] actions_epoch [of "applyAction a p" as] by simp
  then show ?case using Cons action_anonymous by simp
qed simp

lemma pageExchange_sel [simp]:
  "beforeResponse (pageExchange x) = applyActions (actsBefore x)" "response (pageExchange x) = requestRefresh (post x)"
  "duringDelay (pageExchange x) = applyActions (actsDuring x)"
  by (simp_all add: pageExchange_def)

lemma refreshRuntime_sid [simp]: "getExpectedSID (refreshRuntime e) = currentSID"
  by (simp add: refreshRuntime_def)

text \<open>C9. Signing out wins: if the login is cleared while a refresh awaits an answer, that answer is ignored,
  whatever it is; the refresh ends as superseded, sends nothing more, and leaves the page as the rest of
  the code left it.\<close>

theorem sign_out_wins:
  assumes "runRefresh e (map pageExchange xs) p = Some (outcome, p', sids)" "i < length sids"
    and "ActClear sync b \<in> set (actsBefore (xs ! i))"
  shows "outcome = TransientError Superseded \<and> length sids = i + 1 \<and>
    (\<exists>p0. p' = applyActions (actsBefore (xs ! i)) p0)"
proof -
  have len: "length sids \<le> length xs"
    using run_length [OF assms(1) [unfolded runRefresh_def createRefreshRunner_def]] by simp
  have "authEpoch q < authEpoch (beforeResponse (map pageExchange xs ! i) q)" for q
    using assms(2,3) len clear_action_epoch by simp
  from page_runtime.run_superseded [OF assms(1) [unfolded runRefresh_def createRefreshRunner_def] assms(2) this]
  show ?thesis using assms(2) len by auto
qed

definition sampleBundle :: jsval where
  "sampleBundle = JObj [(js ''access_token'', JStr (js ''tok'')), (js ''token_type'', JStr (js ''Bearer'')),
     (js ''access_expires_at'', JNum (Num 900)),
     (js ''user'', JObj [(js ''id'', JNum (Num 7)), (js ''username'', JStr (js ''ann'')), (js ''role'', JNum (Num 1))]),
     (js ''session'', JObj [(js ''sid'', JStr (js ''s1'')), (js ''current'', JBool True), (js ''login_method'', JStr (js ''password'')),
        (js ''ip'', JStr (js ''::1'')), (js ''user_agent'', JStr (js ''ua'')), (js ''created_at'', JNum (Num 1)),
        (js ''last_active_at'', JNum (Num 1)), (js ''expires_at'', JNum (Num 9000))])]"

definition samplePage :: AuthPage where
  "samplePage = applyAuthBundle (asAuthBundle sampleBundle) True (initialAuthPage 5000 (js ''tab'') (\<lambda>_. js ''n''))"

definition sampleGrant :: PostResult where
  "sampleGrant = PostAnswered 200 (JObj [(js ''success'', JBool True), (js ''data'', sampleBundle)])"

theorem sign_out_wins_witness:
  "\<exists>outcome p' sids. runRefresh 1 (map pageExchange [\<lparr>actsBefore = [ActClear True BComplete], post = sampleGrant,
        actsDuring = []\<rparr>]) samplePage = Some (outcome, p', sids) \<and> outcome = TransientError Superseded \<and>
     length sids = 1 \<and> (\<exists>p0. p' = applyActions [ActClear True BComplete] p0)"
proof -
  have epoch: "authEpoch samplePage = 1" by (simp add: samplePage_def initialAuthPage_def)
  then have stale: "authEpoch (applyAction (ActClear True BComplete) samplePage) \<noteq> 1"
    by (simp add: applyAction_def)
  obtain outcome p' sids where run: "runRefresh 1 (map pageExchange [\<lparr>actsBefore = [ActClear True BComplete],
      post = sampleGrant, actsDuring = []\<rparr>]) samplePage = Some (outcome, p', sids)" "length sids = 1"
    using page_runtime.run_Cons [OF epoch] page_runtime.afterResponse_stale [OF stale]
    by (simp add: runRefresh_def createRefreshRunner_def)
  then show ?thesis
    using sign_out_wins [OF run(1), of 0 True BComplete] by simp
qed

text \<open>After the server reports that the session does not match, the retries of the refresh are not bound
  to a session: every later request is sent without a session header.\<close>

lemma mismatch_retry_unbound:
  assumes "runRefresh e (map pageExchange xs) p = Some (outcome, p', sids)" "i < j" "j < length sids"
    and "status (requestRefresh (post (xs ! i))) = 409"
    and "responseCode (response_data (requestRefresh (post (xs ! i)))) = Some (js ''AUTH_SESSION_MISMATCH'')"
  shows "refreshHeaders (sids ! j) = []"
proof -
  have len: "length sids \<le> length xs"
    using run_length [OF assms(1) [unfolded runRefresh_def createRefreshRunner_def]] by simp
  have "sids ! j = None"
    using assms(2-5) len
    by (intro page_runtime.run_mismatch [OF assms(1) [unfolded runRefresh_def createRefreshRunner_def]])
      (auto intro: actions_anonymous)
  then show ?thesis by (simp add: refreshHeaders_def)
qed

definition sampleMismatch :: PostResult where
  "sampleMismatch = PostFailed (Some (409, NaN, JObj [(js ''code'', JStr (js ''AUTH_SESSION_MISMATCH''))])) JNull"

lemma sampleMismatch_step:
  "authEpoch p = e \<Longrightarrow> afterResponse (refreshRuntime e) n True (requestRefresh sampleMismatch) p =
     (RetryNow 0 False, pageClear False (Some BIdle) p)"
  by (simp add: afterResponse_def requestRefresh_def sampleMismatch_def responseCode_def responseBundle_def
      refreshRuntime_def isStale_def js_inject)

section \<open>Rotation, bootstrap, rate limit\<close>

lemma rotation_accepted:
  "applyAuthRotation v p = Inr p' \<Longrightarrow> isAuthTokenRotation v \<and> user (store p) \<noteq> None \<and>
     currentSID p = Some (sid (rot_session (asAuthTokenRotation v))) \<and> user (store p') = user (store p) \<and>
     currentSID p' = currentSID p \<and> accessToken (store p') = Some (rot_access_token (asAuthTokenRotation v)) \<and>
     published p' = published p \<and> authEpoch p' = authEpoch p + 1"
  by (auto simp: applyAuthRotation_def applyAuthBundle_def setBundle_def currentSID_def Let_def
      split: if_splits option.splits)

text \<open>A token rotation is accepted exactly when it is well formed and names the session in use; it then
  replaces the token, keeps the user and the session id, tells no other tab, and supersedes a refresh under
  way.\<close>

lemma rotation_exact:
  "((\<exists>p'. applyAuthRotation v p = Inr p') \<longleftrightarrow> isAuthTokenRotation v \<and> user (store p) \<noteq> None \<and>
      currentSID p = Some (sid (rot_session (asAuthTokenRotation v)))) \<and>
   (\<forall>p'. applyAuthRotation v p = Inr p' \<longrightarrow> user (store p') = user (store p) \<and> currentSID p' = currentSID p \<and>
      accessToken (store p') = Some (rot_access_token (asAuthTokenRotation v)) \<and> published p' = published p \<and>
      authEpoch p' = authEpoch p + 1)"
proof (intro conjI allI impI iffI)
  assume "isAuthTokenRotation v \<and> user (store p) \<noteq> None \<and> currentSID p = Some (sid (rot_session (asAuthTokenRotation v)))"
  then show "\<exists>p'. applyAuthRotation v p = Inr p'"
    by (auto simp: applyAuthRotation_def currentSID_def Let_def)
qed (auto dest: rotation_accepted)

definition sampleRotation :: jsval where
  "sampleRotation = JObj [(js ''access_token'', JStr (js ''tok2'')), (js ''token_type'', JStr (js ''Bearer'')),
     (js ''access_expires_at'', JNum (Num 950)),
     (js ''session'', JObj [(js ''sid'', JStr (js ''s1'')), (js ''current'', JBool True), (js ''login_method'', JStr (js ''password'')),
        (js ''ip'', JStr (js ''::1'')), (js ''user_agent'', JStr (js ''ua'')), (js ''created_at'', JNum (Num 1)),
        (js ''last_active_at'', JNum (Num 1)), (js ''expires_at'', JNum (Num 9000))])]"

lemma sample_session:
  "isAuthBundle sampleBundle" "isAuthTokenRotation sampleRotation"
  "sid (bundle_session (asAuthBundle sampleBundle)) = js ''s1''"
  "sid (rot_session (asAuthTokenRotation sampleRotation)) = js ''s1''"
  "rot_access_token (asAuthTokenRotation sampleRotation) = js ''tok2''"
  "access_expires_at (asAuthBundle sampleBundle) = 900"
  by (simp_all add: sampleBundle_def sampleRotation_def isAuthBundle_def isAuthTokenRotation_def hasValidTokenFields_def
      isAuthUser_def isLoginSession_def asAuthBundle_def asAuthTokenRotation_def asLoginSession_def finite_pos_def
      finite_of_def js_inject)

text \<open>Bootstrap after a login: with a checked bundle whose token has not expired, the page starts signed in
  with that bundle and asks the server nothing; with an expired one it enters the checking state and
  refreshes.\<close>

lemma bootstrap_after_login:
  assumes "isAuthBundle v" "0 \<le> clock p"
  shows "(of_int (clock p div 1000) < access_expires_at (asAuthBundle v) \<longrightarrow>
      fst (bootstrapAuthentication (applyAuthBundle (asAuthBundle v) sync p)) =
        Resolved (Authenticated ((asAuthBundle v)\<lparr>token_type := js ''Bearer''\<rparr>))) \<and>
    (access_expires_at (asAuthBundle v) \<le> of_int (clock p div 1000) \<longrightarrow>
      (\<exists>e. fst (bootstrapAuthentication (applyAuthBundle (asAuthBundle v) sync p)) \<in> {Started e, Joined e}) \<and>
      bootstrapState (store (snd (bootstrapAuthentication (applyAuthBundle (asAuthBundle v) sync p)))) = BChecking)"
proof -
  define b where "b = asAuthBundle v"
  define q where "q = applyAuthBundle b sync p"
  have b: "access_token b \<noteq> []" "0 < access_expires_at b"
    using assms(1) by (auto simp: b_def isAuthBundle_def hasValidTokenFields_def asAuthBundle_def finite_pos_def
        finite_of_def split: jsnum.splits)
  have q: "store q = setBundle b (store p)" "clock q = clock p" "refreshRateLimitedUntil q = 0"
    by (simp_all add: q_def applyAuthBundle_def publishAuthSessionEvent_def Let_def)
  have valid: "currentValidAuthBundle q =
      (if of_int (clock p div 1000) < access_expires_at b then Some (b\<lparr>token_type := js ''Bearer''\<rparr>) else None)"
    using b by (simp add: currentValidAuthBundle_def q truthyToken_def expiresAfter_def setBundle_def)
  show ?thesis
    unfolding b_def [symmetric] q_def [symmetric]
    using assms(2) by (auto simp: bootstrapAuthentication_def valid refreshAuthentication_def q setBundle_def
        setBootstrapState_def Let_def split: option.split)
qed

text \<open>Rate limit: an answer 429 keeps the page from refreshing for at least one second and at most five
  minutes, and every call in that time is answered at once without a request.\<close>

lemma rate_limit_window:
  assumes "authEpoch p = e" "status (requestRefresh r) = 429"
    and "responseBundle (refreshRuntime e) (response_data (requestRefresh r)) = None"
    and "afterResponse (refreshRuntime e) n a (requestRefresh r) p = (st, p1)"
  shows "(\<exists>err. st = Finished (TransientError err)) \<and> clock p + 1000 \<le> refreshRateLimitedUntil p1 \<and>
    refreshRateLimitedUntil p1 \<le> clock p + 300000 \<and>
    (\<forall>t < refreshRateLimitedUntil p1.
       refreshAuthentication (p1\<lparr>clock := t\<rparr>) = (Resolved (TransientError TemporarilyRateLimited), p1\<lparr>clock := t\<rparr>))"
proof -
  have retry: "case retryAfterSeconds (requestRefresh r) of Some k \<Rightarrow> 1 \<le> k \<and> k \<le> 300 | None \<Rightarrow> True"
    by (auto simp: requestRefresh_def parseRetryAfter_def finite_pos_def finite_of_def le_ceiling_iff
        split: PostResult.split option.split jsnum.splits)
  have "st = Finished (TransientError (responseFailure (requestRefresh r)))"
    "refreshRateLimitedUntil p1 = clock p + max 1 (case retryAfterSeconds (requestRefresh r) of Some n \<Rightarrow> n | None \<Rightarrow> 1) * 1000"
    using assms by (auto simp: afterResponse_def refreshRuntime_def isStale_def pageMarkTransient_def pageMarkRateLimited_def)
  then show ?thesis using retry by (auto simp: refreshAuthentication_def split: option.splits)
qed

section \<open>Interleaving\<close>

text \<open>The page together with the calls of \<open>performRefreshWithBrowserLock\<close> that have not settled, oldest first: each
  awaits the lock, an answer or a delay.  Nothing in this state bounds their number.  A call of
  \<open>refreshAuthentication\<close> that starts a refresh adds one; one that settles is removed and clears \<open>refreshPromise\<close>.\<close>

datatype RunnerPC = AwaitLock nat | AwaitResponse nat nat bool | AwaitDelay nat nat bool

definition pcEpoch :: "RunnerPC \<Rightarrow> nat" where
  "pcEpoch pc = (case pc of AwaitLock e \<Rightarrow> e | AwaitResponse e _ _ \<Rightarrow> e | AwaitDelay e _ _ \<Rightarrow> e)"

definition pcAttempt :: "RunnerPC \<Rightarrow> nat" where
  "pcAttempt pc = (case pc of AwaitLock _ \<Rightarrow> 0 | AwaitResponse _ n _ \<Rightarrow> n | AwaitDelay _ n _ \<Rightarrow> n)"

definition launched :: "RefreshCall \<Rightarrow> RunnerPC list" where
  "launched c = (case c of Started e \<Rightarrow> [AwaitLock e] | _ \<Rightarrow> [])"

text \<open>The head of \<open>run\<close>: a stale refresh settles at once, a current one sends its request.\<close>

definition enterRun :: "nat \<Rightarrow> nat \<Rightarrow> bool \<Rightarrow> AuthPage \<Rightarrow> AuthPage \<times> RunnerPC list" where
  "enterRun e n a p = (if isStale (refreshRuntime e) p then (refreshSettled p, []) else (p, [AwaitResponse e n a]))"

text \<open>One refresh makes a step, and the others stay where they are.\<close>

inductive runnerStep :: "AuthPage \<times> RunnerPC \<Rightarrow> AuthPage \<times> RunnerPC list \<Rightarrow> bool" where
  lock_rejected: "runnerStep (p, AwaitLock e) (refreshSettled p, [])"
| lock_granted: "runnerStep (p, AwaitLock e) (enterRun e 0 True p)"
| finished: "afterResponse (refreshRuntime e) n a (requestRefresh r) p = (Finished outcome, p') \<Longrightarrow>
    runnerStep (p, AwaitResponse e n a) (refreshSettled p', [])"
| race: "afterResponse (refreshRuntime e) n a (requestRefresh r) p = (RetryAfter d n' a', p') \<Longrightarrow>
    runnerStep (p, AwaitResponse e n a) (p', [AwaitDelay e n' a'])"
| mismatch: "afterResponse (refreshRuntime e) n a (requestRefresh r) p = (RetryNow n' a', p') \<Longrightarrow>
    runnerStep (p, AwaitResponse e n a) (enterRun e n' a' p')"
| delay_over: "runnerStep (p, AwaitDelay e n a) (enterRun e n a p)"

inductive authStep :: "AuthPage \<times> RunnerPC list \<Rightarrow> AuthPage \<times> RunnerPC list \<Rightarrow> bool" where
  act: "authStep (p, pcs) (applyAction a p, pcs)"
| call: "refreshAuthentication p = (c, p') \<Longrightarrow> authStep (p, pcs) (p', pcs @ launched c)"
| bootstrap: "bootstrapAuthentication p = (c, p') \<Longrightarrow> authStep (p, pcs) (p', pcs @ launched c)"
| run: "runnerStep (p, pc) (p', new) \<Longrightarrow> authStep (p, us @ pc # vs) (p', us @ new @ vs)"

inductive authReachable :: "AuthPage \<times> RunnerPC list \<Rightarrow> bool" where
  start: "authReachable (initialAuthPage t source ids, [])"
| step: "authReachable x \<Longrightarrow> authStep x y \<Longrightarrow> authReachable y"

inductive_cases runnerStepE: "runnerStep (p, pc) y"
inductive_cases authStepE: "authStep x y"

definition storeOk :: "AuthStore \<Rightarrow> bool" where
  "storeOk st \<longleftrightarrow> (case session st of
     None \<Rightarrow> accessToken st = None \<and> accessExpiresAt st = None
   | Some ses \<Rightarrow> sid ses \<noteq> [] \<and> truthyToken st \<and> expiresAfter st 0)"

definition pageOk :: "AuthPage \<Rightarrow> bool" where
  "pageOk p \<longleftrightarrow> storeOk (store p) \<and> list_all (\<lambda>e. ev_sid e \<noteq> []) (published p)"

lemma pageOk_publish [simp]: "pageOk (publishAuthSessionEvent k s p) = pageOk p"
  by (auto simp: pageOk_def publishAuthSessionEvent_def)

lemma storeOk_reset [simp]: "storeOk (reset b st)"
  by (simp add: storeOk_def reset_def)

lemma storeOk_setBundle:
  "access_token b \<noteq> [] \<Longrightarrow> 0 < access_expires_at b \<Longrightarrow> sid (bundle_session b) \<noteq> [] \<Longrightarrow> storeOk (setBundle b st)"
  by (simp add: storeOk_def setBundle_def truthyToken_def expiresAfter_def)

lemma checked_bundle:
  "isAuthBundle v \<Longrightarrow> access_token (asAuthBundle v) \<noteq> [] \<and> 0 < access_expires_at (asAuthBundle v) \<and>
     sid (bundle_session (asAuthBundle v)) \<noteq> []"
  by (auto simp: isAuthBundle_def hasValidTokenFields_def isLoginSession_def asAuthBundle_def asLoginSession_def
      finite_pos_def finite_of_def split: jsnum.splits)

lemma checked_rotation:
  "isAuthTokenRotation v \<Longrightarrow> rot_access_token (asAuthTokenRotation v) \<noteq> [] \<and>
     0 < rot_access_expires_at (asAuthTokenRotation v) \<and> sid (rot_session (asAuthTokenRotation v)) \<noteq> []"
  by (auto simp: isAuthTokenRotation_def hasValidTokenFields_def isLoginSession_def asAuthTokenRotation_def
      asLoginSession_def finite_pos_def finite_of_def split: jsnum.splits)

lemma pageOk_applyAuthBundle:
  "pageOk p \<Longrightarrow> access_token b \<noteq> [] \<Longrightarrow> 0 < access_expires_at b \<Longrightarrow> sid (bundle_session b) \<noteq> [] \<Longrightarrow>
     pageOk (applyAuthBundle b sync p)"
  by (simp add: applyAuthBundle_def Let_def) (simp add: pageOk_def storeOk_setBundle)

lemma pageOk_clearAuthentication: "pageOk p \<Longrightarrow> pageOk (clearAuthentication sync b p)"
  by (simp add: clearAuthentication_def Let_def split: option.split) (simp add: pageOk_def)

lemma pageOk_rotation: "pageOk p \<Longrightarrow> applyAuthRotation v p = Inr p' \<Longrightarrow> pageOk p'"
  using checked_rotation [of v]
  by (auto simp: applyAuthRotation_def Let_def intro!: pageOk_applyAuthBundle split: if_splits option.splits)

lemma storeOk_cong:
  "session st = session st' \<Longrightarrow> accessToken st = accessToken st' \<Longrightarrow> accessExpiresAt st = accessExpiresAt st' \<Longrightarrow>
     storeOk st = storeOk st'"
  by (simp add: storeOk_def truthyToken_def expiresAfter_def split: option.split)

lemma storeOk_setters [simp]:
  "storeOk (setUser u st) = storeOk st" "storeOk (setPending2FAFlowToken t st) = storeOk st"
  "storeOk (setBootstrapState b st) = storeOk st"
  by (rule storeOk_cong; simp add: setUser_def setPending2FAFlowToken_def setBootstrapState_def)+

lemma pageOk_action: "pageOk p \<Longrightarrow> pageOk (applyAction a p)"
proof (cases a)
  case (ActLogin v)
  assume "pageOk p"
  then show ?thesis using checked_bundle [of v] pageOk_applyAuthBundle by (simp add: ActLogin applyAction_def)
next
  case (ActRotation v)
  assume "pageOk p"
  then show ?thesis using pageOk_rotation by (simp add: ActRotation applyAction_def split: sum.split)
next
  case (ActOtherTab k s)
  assume "pageOk p"
  then show ?thesis
    by (auto simp: ActOtherTab applyAction_def onAuthSessionEvent_def clearAuthenticatedClientState_def Let_def
        intro: pageOk_clearAuthentication split: AuthSyncKind.split)
qed (simp_all add: applyAction_def pageOk_clearAuthentication, simp_all add: pageOk_def)

lemma pageOk_afterResponse:
  assumes "pageOk p" "afterResponse (refreshRuntime e) n a r p = (st, p')"
  shows "pageOk p'"
proof -
  have accept: "pageOk (applyAuthBundle b False p)" if "responseBundle (refreshRuntime e) d = Some b" for b d
    using that checked_bundle assms(1)
    by (auto simp: responseBundle_def refreshRuntime_def pageParseBundle_def intro!: pageOk_applyAuthBundle split: if_splits)
  have clear: "pageOk (pageClear sync b p)" for sync b
    using assms(1) pageOk_clearAuthentication by (auto simp: pageClear_def pageOk_def)
  have mark: "pageOk (pageMarkTransient p)" "pageOk (pageMarkTransient (pageMarkRateLimited k p))" for k
    using assms(1) by (simp_all add: pageMarkTransient_def pageMarkRateLimited_def pageOk_def)
  have rt: "acceptBundle (refreshRuntime e) b = applyAuthBundle b False" "AuthSession.clear (refreshRuntime e) = pageClear"
    "markTransient (refreshRuntime e) = pageMarkTransient" "markRateLimited (refreshRuntime e) = Some pageMarkRateLimited" for b
    by (simp_all add: refreshRuntime_def)
  show ?thesis
    using assms accept clear mark
    by (auto simp: afterResponse_def Let_def rt split: if_splits option.splits)
qed

lemma promise_publish [simp]: "refreshPromise (publishAuthSessionEvent k s p) = refreshPromise p"
  by (simp add: publishAuthSessionEvent_def)

lemma promise_bundle [simp]: "refreshPromise (applyAuthBundle b sync p) = refreshPromise p"
  by (simp add: applyAuthBundle_def Let_def)

lemma promise_clear [simp]: "refreshPromise (clearAuthentication sync b p) = refreshPromise p"
  by (simp add: clearAuthentication_def Let_def split: option.split)

lemma promise_action [simp]: "refreshPromise (applyAction a p) = refreshPromise p"
  by (cases a) (auto simp: applyAction_def onAuthSessionEvent_def clearAuthenticatedClientState_def Let_def
      dest!: rotation_page split: sum.split AuthSyncKind.split)

lemma afterResponse_page:
  "afterResponse (refreshRuntime e) n a r p = (st, p') \<Longrightarrow> refreshPromise p' = refreshPromise p \<and> authEpoch p \<le> authEpoch p'"
  by (auto simp: afterResponse_def refreshRuntime_def pageClear_def pageMarkTransient_def pageMarkRateLimited_def Let_def
      split: if_splits option.splits)

text \<open>The refreshes under way are exactly what \<open>refreshPromise\<close> names, none or one.\<close>

definition singleFlight :: "AuthPage \<Rightarrow> RunnerPC list \<Rightarrow> bool" where
  "singleFlight p pcs \<longleftrightarrow> map pcEpoch pcs = (case refreshPromise p of Some e \<Rightarrow> [e] | None \<Rightarrow> [])"

definition refreshOk :: "AuthPage \<times> RunnerPC list \<Rightarrow> bool" where
  "refreshOk x \<longleftrightarrow> singleFlight (fst x) (snd x) \<and> list_all (\<lambda>pc. pcEpoch pc \<le> authEpoch (fst x) \<and> pcAttempt pc \<le> 3) (snd x)"

lemma refreshOk_one:
  "refreshOk (p, us @ pc # vs) \<longleftrightarrow> us = [] \<and> vs = [] \<and> refreshPromise p = Some (pcEpoch pc) \<and> pcEpoch pc \<le> authEpoch p \<and> pcAttempt pc \<le> 3"
  by (auto simp: refreshOk_def singleFlight_def append_eq_Cons_conv split: option.splits)

lemma refreshOk_none: "refreshPromise p = None \<Longrightarrow> refreshOk (p, [])"
  by (simp add: refreshOk_def singleFlight_def)

lemma refreshOk_settled: "refreshOk (refreshSettled p, [])"
  by (simp add: refreshOk_none refreshSettled_def)

lemma refreshOk_single:
  "refreshPromise p = Some (pcEpoch pc) \<Longrightarrow> pcEpoch pc \<le> authEpoch p \<Longrightarrow> pcAttempt pc \<le> 3 \<Longrightarrow> refreshOk (p, [pc])"
  by (simp add: refreshOk_def singleFlight_def)

lemma refreshOk_enterRun: "refreshPromise p = Some e \<Longrightarrow> e \<le> authEpoch p \<Longrightarrow> n \<le> 3 \<Longrightarrow> refreshOk (enterRun e n a p)"
  by (simp add: enterRun_def refreshOk_settled refreshOk_single pcEpoch_def pcAttempt_def)

text \<open>The guard of \<open>refreshAuthentication\<close>: a refresh is started only when none is under way.\<close>

lemma refreshOk_call:
  "refreshOk (p, pcs) \<Longrightarrow> refreshAuthentication p = (c, p') \<Longrightarrow> refreshOk (p', pcs @ launched c)"
  by (auto simp: refreshAuthentication_def refreshOk_def singleFlight_def launched_def pcEpoch_def pcAttempt_def
      split: if_splits option.splits)

lemma refreshOk_store: "refreshOk (p\<lparr>store := st\<rparr>, pcs) = refreshOk (p, pcs)"
  by (simp add: refreshOk_def singleFlight_def split: option.split)

lemma refreshOk_bootstrap:
  "refreshOk (p, pcs) \<Longrightarrow> bootstrapAuthentication p = (c, p') \<Longrightarrow> refreshOk (p', pcs @ launched c)"
  using refreshOk_call [of "p\<lparr>store := setBootstrapState BChecking (store p)\<rparr>" pcs c p']
  by (auto simp: bootstrapAuthentication_def refreshOk_store launched_def Let_def split: option.splits if_splits)

lemma refreshOk_runner:
  assumes "runnerStep (p, pc) y" "refreshPromise p = Some (pcEpoch pc)" "pcEpoch pc \<le> authEpoch p" "pcAttempt pc \<le> 3"
  shows "refreshOk y"
  using assms(1)
proof (cases rule: runnerStep.cases)
  case (race e n a r d n' a' p')
  then show ?thesis
    using assms(2-4) afterResponse_page [OF race(3)] afterResponse_progress(1) [OF race(3)]
    by (auto intro!: refreshOk_single simp: pcEpoch_def pcAttempt_def)
next
  case (mismatch e n a r n' a' p')
  then show ?thesis
    using assms(2-4) afterResponse_page [OF mismatch(3)] afterResponse_progress(2) [OF mismatch(3)]
    by (auto intro!: refreshOk_enterRun simp: pcEpoch_def)
qed (use assms(2-4) in \<open>auto intro!: refreshOk_settled refreshOk_enterRun simp: pcEpoch_def pcAttempt_def\<close>)

lemma refreshOk_step: "authStep x y \<Longrightarrow> refreshOk x \<Longrightarrow> refreshOk y"
proof (induction rule: authStep.induct)
  case (act p pcs a)
  then show ?case using action_epoch [of p a]
    by (auto simp: refreshOk_def singleFlight_def list_all_iff intro: order_trans)
next
  case (run p pc p' new us vs)
  then show ?case using refreshOk_runner [OF run(1)] by (auto simp: refreshOk_one)
qed (auto dest: refreshOk_call refreshOk_bootstrap)

lemma pageOk_enterRun: "pageOk p \<Longrightarrow> pageOk (fst (enterRun e n a p))"
  by (simp add: enterRun_def refreshSettled_def pageOk_def)

lemma pageOk_settled [simp]: "pageOk (refreshSettled p) = pageOk p"
  by (simp add: refreshSettled_def pageOk_def)

lemma pageOk_call: "pageOk p \<Longrightarrow> refreshAuthentication p = (c, p') \<Longrightarrow> pageOk p'"
  by (auto simp: refreshAuthentication_def pageOk_def split: if_splits option.splits)

lemma pageOk_runner: "runnerStep (p, pc) y \<Longrightarrow> pageOk p \<Longrightarrow> pageOk (fst y)"
  by (erule runnerStepE) (auto simp: pageOk_enterRun dest: pageOk_afterResponse)

lemma pageOk_step: "authStep x y \<Longrightarrow> pageOk (fst x) \<Longrightarrow> pageOk (fst y)"
proof (induction rule: authStep.induct)
  case (bootstrap p c p' pcs)
  then show ?case using pageOk_call [of "p\<lparr>store := setBootstrapState BChecking (store p)\<rparr>" c p']
    by (auto simp: bootstrapAuthentication_def pageOk_def Let_def split: option.splits if_splits)
qed (auto simp: pageOk_action dest: pageOk_call pageOk_runner)

text \<open>C2. The session invariant: however logins, rotations, sign-outs, events of other tabs and refreshes
  interleave, a page has a token and an expiry exactly when it has a session, both are usable values, at
  most one refresh is in flight, although any number of calls may have asked for one, it is the one
  \<open>refreshPromise\<close> names and belongs to the present or a past epoch, and no event without a session id is
  ever published.\<close>

theorem session_invariant:
  assumes "authReachable (p, pcs)"
  shows "storeOk (store p) \<and> list_all (\<lambda>e. ev_sid e \<noteq> []) (published p) \<and> singleFlight p pcs \<and> length pcs \<le> 1 \<and>
    (\<forall>pc \<in> set pcs. pcEpoch pc \<le> authEpoch p)"
proof -
  have "pageOk (fst x) \<and> refreshOk x" if "authReachable x" for x
    using that
  proof (induction rule: authReachable.induct)
    case (start t source ids)
    show ?case by (simp add: pageOk_def refreshOk_none initialAuthPage_def initialAuthStore_def storeOk_def)
  next
    case (step x y)
    then show ?case using pageOk_step refreshOk_step by blast
  qed
  from this [OF assms] have ok: "pageOk p" "refreshOk (p, pcs)" by simp_all
  then have "length (map pcEpoch pcs) \<le> 1" by (simp only: refreshOk_def singleFlight_def fst_conv snd_conv split: option.split) simp
  with ok show ?thesis by (auto simp: pageOk_def refreshOk_def list_all_iff)
qed

text \<open>Two calls in a row: the second joins the refresh that the first one started.\<close>

theorem session_invariant_witness:
  "authReachable (applyAction (ActLogin sampleBundle) (initialAuthPage 0 [] (\<lambda>_. [])), []) \<and>
   storeOk (store (applyAction (ActLogin sampleBundle) (initialAuthPage 0 [] (\<lambda>_. [])))) \<and>
   (\<exists>p. authReachable (p, [AwaitLock 0]) \<and> fst (refreshAuthentication p) = Joined 0 \<and> singleFlight p [AwaitLock 0])"
proof (intro conjI)
  show r: "authReachable (applyAction (ActLogin sampleBundle) (initialAuthPage 0 [] (\<lambda>_. [])), [])"
    by (rule authReachable.step [OF authReachable.start authStep.act])
  from session_invariant [OF r] show "storeOk (store (applyAction (ActLogin sampleBundle) (initialAuthPage 0 [] (\<lambda>_. []))))" by simp
  let ?p = "(initialAuthPage 0 [] (\<lambda>_. []))\<lparr>refreshPromise := Some 0\<rparr>"
  have c: "refreshAuthentication (initialAuthPage 0 [] (\<lambda>_. [])) = (Started 0, ?p)"
    by (simp add: refreshAuthentication_def initialAuthPage_def)
  have q: "authReachable (?p, [AwaitLock 0])"
    using authReachable.step [OF authReachable.start authStep.call [OF c]] by (simp add: launched_def)
  have "fst (refreshAuthentication ?p) = Joined 0" by (simp add: refreshAuthentication_def initialAuthPage_def)
  with q session_invariant [OF q] show "\<exists>p. authReachable (p, [AwaitLock 0]) \<and> fst (refreshAuthentication p) = Joined 0 \<and> singleFlight p [AwaitLock 0]"
    by blast
qed

section \<open>Other tabs\<close>

lemma kindText_inject [simp]: "kindText k = kindText k' \<longleftrightarrow> k = k'"
  by (cases k; cases k') (simp_all add: kindText_def js_inject)

lemma sync_fields:
  "get_prop (syncMessage e) (js ''kind'') = JStr (kindText (ev_kind e))"
  "get_prop (syncMessage e) (js ''sid'') = JStr (ev_sid e)"
  "get_prop (syncMessage e) (js ''source'') = JStr (ev_source e)"
  "get_prop (syncMessage e) (js ''nonce'') = JStr (ev_nonce e)"
  "get_prop (syncMessage e) (js ''timestamp'') = JNum (Num (of_int (ev_timestamp e)))"
  by (simp_all add: syncMessage_def js_inject)

lemma deliver_message:
  "deliver source now (syncMessage e) \<longleftrightarrow>
     ev_sid e \<noteq> [] \<and> ev_source e \<noteq> source \<and> \<bar>now - ev_timestamp e\<bar> < 60000"
proof -
  have "\<bar>of_int now - of_int (ev_timestamp e)\<bar> < (60000 :: rat) \<longleftrightarrow> \<bar>now - ev_timestamp e\<bar> < 60000"
    by linarith
  then show ?thesis
    by (auto simp: deliver_def isAuthSessionSyncEvent_def sync_fields kindText_def syncMessage_def
        split: AuthSyncKind.split)
qed

lemma published_clear:
  "currentSID p = Some s \<Longrightarrow> s \<noteq> [] \<Longrightarrow> published (clearAuthentication True b p) = published p @
     [\<lparr>ev_kind = SyncSignedOut, ev_sid = s, ev_source = authSyncSource p,
       ev_nonce = randomIdentifiers p (length (published p)), ev_timestamp = clock p\<rparr>]"
  "published (clearAuthentication False b p) = published p"
  by (simp_all add: clearAuthentication_def publishAuthSessionEvent_def Let_def split: option.split)

text \<open>Signing out in one tab signs out the others: the event that clearing a login publishes is delivered,
  within a minute, to every other tab and not to its own, and a tab that uses the same session then drops
  it and goes to the sign-in page without publishing anything itself.\<close>

lemma sign_out_reaches_other_tabs:
  assumes "currentSID p = Some s" "s \<noteq> []" "currentSID q = Some s"
    and "authSyncSource q \<noteq> authSyncSource p" "\<bar>clock q - clock p\<bar> < 60000"
  shows "\<exists>e. published (clearAuthentication True b p) = published p @ [e] \<and>
    \<not> deliver (authSyncSource p) (clock p) (syncMessage e) \<and>
    deliver (authSyncSource q) (clock q) (syncMessage e) \<and>
    (\<exists>q'. onAuthSessionEvent clearQueries (ev_kind e) (ev_sid e) (c, q) = (GoToSignIn, (clearQueries c, q')) \<and>
      session (store q') = None \<and> accessToken (store q') = None \<and> published q' = published q)"
proof -
  define e where "e = \<lparr>ev_kind = SyncSignedOut, ev_sid = s, ev_source = authSyncSource p,
       ev_nonce = randomIdentifiers p (length (published p)), ev_timestamp = clock p\<rparr>"
  have "published (clearAuthentication True b p) = published p @ [e]"
    using published_clear(1) [OF assms(1,2)] by (simp add: e_def)
  moreover have "onAuthSessionEvent clearQueries (ev_kind e) (ev_sid e) (c, q) =
      (GoToSignIn, (clearQueries c, clearAuthentication False BComplete q))"
    using assms(2,3) by (simp add: e_def onAuthSessionEvent_def clearAuthenticatedClientState_def)
  moreover have "session (store (clearAuthentication False BComplete q)) = None \<and>
      accessToken (store (clearAuthentication False BComplete q)) = None"
    by (simp add: reset_def)
  ultimately show ?thesis
    using assms(2,4,5) published_clear(2) [of BComplete q] by (auto simp: deliver_message e_def)
qed

section \<open>Fresh headers and the browser lock\<close>

text \<open>Fresh headers: whatever the refresh gave and however the page changed while it was awaited, headers
  that are returned after a refresh that did not authenticate carry a bearer token that has not expired, and
  otherwise the caller gets an error.\<close>

lemma fresh_headers_valid:
  assumes "getFreshAuthHeaders awaited p = (Headers hs, p')" "\<forall>b. fst awaited \<noteq> Authenticated b"
  shows "\<exists>t. map_of hs (js ''Authorization'') = Some (js ''Bearer '' @ t) \<and> accessToken (store p') = Some t \<and> t \<noteq> [] \<and>
    expiresAfter (store p') (clock p' div 1000)"
proof -
  have later: "expiresAfter st (n + 60) \<Longrightarrow> expiresAfter st n" for st n
    by (auto simp: expiresAfter_def split: option.splits)
  have "truthyToken (store p')" "expiresAfter (store p') (clock p' div 1000)" "hs = getCommonHeaders p'"
    using assms later
    by (auto simp: getFreshAuthHeaders_def Let_def split: if_splits RefreshOutcome.splits)
  then show ?thesis
    by (auto simp: getCommonHeaders_def truthyToken_def js_inject split: option.splits)
qed

text \<open>A rejected lock request escapes: the refresh promise rejects instead of resolving to a transient
  error, and a page that was bootstrapping stays in the checking state.\<close>

lemma lock_rejection_escapes:
  assumes "bootstrapAuthentication p = (Started e, p1)"
  shows "performRefreshWithBrowserLock e (LockRejected err) xs p1 = Some (Inl err, p1) \<and>
    bootstrapState (store (refreshSettled p1)) = BChecking"
  using assms
  by (auto simp: performRefreshWithBrowserLock_def bootstrapAuthentication_def refreshAuthentication_def refreshSettled_def
      setBootstrapState_def Let_def split: option.splits if_splits)

end
