(* ===== verification/PlaygroundMessages.thy ===== *)
theory PlaygroundMessages
  imports JsPrelude
begin

text \<open>
  The messages of the playground conversation (\<open>src/web/src/features/playground\<close>, \<open>types.ts\<close> and
  \<open>lib/message/*.ts\<close>): building them, splitting \<open><think>\<close> sections from visible text, applying streamed
  chunks, finalising, editing, regenerating and repairing a conversation.

  Times are integers in milliseconds.  \<open>Date.now()\<close> is the argument \<open>now\<close>: one synchronous call of the code
  sees one time.  The results of \<open>nanoid()\<close> are arguments in the order of the calls.  A translation
  \<open>t(...)\<close> is an argument too.
\<close>

section \<open>Data\<close>

datatype MessageRole = RUser | RAssistant | RSystem

datatype MessageStatus = SLoading | SStreaming | SComplete | SError

record MessageVersion =
  version_id :: jsstring
  content :: jsstring

record Reasoning =
  rcontent :: jsstring
  rduration :: int
  rstartedAt :: "int option"
  rcompletedAt :: "int option"
  rdurationMs :: "int option"

text \<open>\<open>errorCode\<close> is absent, null or a string.\<close>

record Message =
  key :: jsstring
  from_role :: MessageRole
  versions :: "MessageVersion list"
  createdAt :: "int option"
  startedAt :: "int option"
  completedAt :: "int option"
  durationMs :: "int option"
  sources :: "(jsstring \<times> jsstring) list option"
  reasoning :: "Reasoning option"
  isReasoningStreaming :: "bool option"
  isReasoningComplete :: "bool option"
  isContentComplete :: "bool option"
  status :: "MessageStatus option"
  errorCode :: "jsstring option option"
  images :: "jsstring list option"
  videos :: "jsstring list option"

definition API_REQUEST_ERROR :: jsstring where
  "API_REQUEST_ERROR = js ''Request error occurred''"

definition INTERRUPTED :: jsstring where
  "INTERRUPTED = js ''Generation was interrupted''"

section \<open>Building and reading messages\<close>

definition createMessageVersion :: "jsstring \<Rightarrow> jsstring \<Rightarrow> MessageVersion" where
  "createMessageVersion nanoid text = \<lparr>version_id = nanoid, content = text\<rparr>"

definition getCurrentVersion :: "Message \<Rightarrow> MessageVersion" where
  "getCurrentVersion m = (case versions m of v # _ \<Rightarrow> v | [] \<Rightarrow> \<lparr>version_id = js ''default'', content = []\<rparr>)"

definition getMessageContent :: "Message \<Rightarrow> jsstring" where
  "getMessageContent m = content (getCurrentVersion m)"

definition hasMessageContent :: "Message \<Rightarrow> bool" where
  "hasMessageContent m \<longleftrightarrow> trim (getMessageContent m) \<noteq> []"

definition updateCurrentVersionContent :: "Message \<Rightarrow> jsstring \<Rightarrow> Message" where
  "updateCurrentVersionContent m text = m\<lparr>versions := [(getCurrentVersion m)\<lparr>content := text\<rparr>]\<rparr>"

definition createUserMessage :: "jsstring \<Rightarrow> jsstring \<Rightarrow> jsstring \<Rightarrow> int \<Rightarrow> Message" where
  "createUserMessage keyId versionId text created =
     \<lparr>key = keyId, from_role = RUser, versions = [createMessageVersion versionId text], createdAt = Some created,
      startedAt = None, completedAt = None, durationMs = None, sources = None, reasoning = None,
      isReasoningStreaming = None, isReasoningComplete = None, isContentComplete = None, status = None,
      errorCode = None, images = None, videos = None\<rparr>"

definition createLoadingAssistantMessage :: "jsstring \<Rightarrow> jsstring \<Rightarrow> int \<Rightarrow> Message" where
  "createLoadingAssistantMessage keyId versionId started =
     \<lparr>key = keyId, from_role = RAssistant, versions = [createMessageVersion versionId []], createdAt = Some started,
      startedAt = Some started, completedAt = None, durationMs = None, sources = None, reasoning = None,
      isReasoningStreaming = Some False, isReasoningComplete = Some False, isContentComplete = Some False,
      status = Some SLoading, errorCode = None, images = None, videos = None\<rparr>"

datatype ContentPart = TextPart jsstring | ImagePart jsstring

datatype MessageContent = PlainContent jsstring | PartsContent "ContentPart list"

definition buildMessageContent :: "jsstring \<Rightarrow> jsstring list \<Rightarrow> MessageContent" where
  "buildMessageContent text imageUrls =
     (let validImages = filter (\<lambda>url. trim url \<noteq> []) imageUrls in
      if validImages = [] then PlainContent text
      else PartsContent (TextPart text # map (\<lambda>url. ImagePart (trim url)) validImages))"

definition getTextContent :: "MessageContent \<Rightarrow> jsstring" where
  "getTextContent c = (case c of
     PlainContent t \<Rightarrow> t
   | PartsContent ps \<Rightarrow>
       (case find (\<lambda>p. case p of TextPart _ \<Rightarrow> True | ImagePart _ \<Rightarrow> False) ps of
          Some (TextPart t) \<Rightarrow> t | _ \<Rightarrow> []))"

record ChatCompletionMessage =
  msg_role :: MessageRole
  msg_content :: jsstring

definition formatMessageForAPI :: "Message \<Rightarrow> ChatCompletionMessage" where
  "formatMessageForAPI m = \<lparr>msg_role = from_role m, msg_content = content (getCurrentVersion m)\<rparr>"

definition isValidMessage :: "Message \<Rightarrow> bool" where
  "isValidMessage m \<longleftrightarrow> versions m \<noteq> [] \<and> \<not> (from_role m = RAssistant \<and> \<not> hasMessageContent m)"

section \<open>Think tags\<close>

fun indexOf :: "jsstring \<Rightarrow> jsstring \<Rightarrow> nat option" where
  "indexOf p [] = (if p = [] then Some 0 else None)"
| "indexOf p (c # cs) = (if prefix p (c # cs) then Some 0 else map_option Suc (indexOf p cs))"

definition indexOfFrom :: "jsstring \<Rightarrow> jsstring \<Rightarrow> nat \<Rightarrow> nat option" where
  "indexOfFrom s p pos = map_option (\<lambda>i. i + pos) (indexOf p (drop pos s))"

definition slice :: "jsstring \<Rightarrow> nat \<Rightarrow> nat \<Rightarrow> jsstring" where
  "slice s a b = take (b - a) (drop a s)"

abbreviation "thinkOpen \<equiv> js ''<think>''"
abbreviation "thinkClose \<equiv> js ''</think>''"

lemma indexOf_bound: "indexOf p s = Some i \<Longrightarrow> i + length p \<le> length s"
proof (induction s arbitrary: i)
  case (Cons c cs)
  then show ?case by (auto split: if_splits dest: prefix_length_le)
qed (simp split: if_splits)

lemma indexOfFrom_bound: "indexOfFrom s p pos = Some i \<Longrightarrow> p \<noteq> [] \<Longrightarrow> pos \<le> i \<and> i + length p \<le> length s"
  by (cases p) (auto simp: indexOfFrom_def dest!: indexOf_bound)

text \<open>The loop of \<open>parseThinkTags\<close>: the parts of visible text and of reasoning from a position on, and
  whether the last tag is unclosed.\<close>

function thinkLoop :: "jsstring \<Rightarrow> nat \<Rightarrow> jsstring list \<Rightarrow> jsstring list \<Rightarrow> jsstring list \<times> jsstring list \<times> bool" where
  "thinkLoop s currentPos visibleParts reasoningParts =
     (case indexOfFrom s thinkOpen currentPos of
        None \<Rightarrow> (if currentPos < length s then visibleParts @ [drop currentPos s] else visibleParts, reasoningParts, False)
      | Some openPos \<Rightarrow>
          (let visible' = (if openPos > currentPos then visibleParts @ [slice s currentPos openPos] else visibleParts) in
           case indexOfFrom s thinkClose (openPos + 7) of
             None \<Rightarrow> (visible', reasoningParts @ [drop (openPos + 7) s], True)
           | Some closePos \<Rightarrow>
               thinkLoop s (closePos + 8) visible' (reasoningParts @ [slice s (openPos + 7) closePos])))"
  by pat_completeness auto
termination
proof (relation "measure (\<lambda>(s, pos, _, _). length s - pos)")
  fix s :: jsstring and pos and vs rs :: "jsstring list" and openPos vis closePos
  assume o: "indexOfFrom s thinkOpen pos = Some openPos" and c: "indexOfFrom s thinkClose (openPos + 7) = Some closePos"
  have "pos \<le> openPos" using indexOfFrom_bound [OF o] by (simp add: js.simps)
  moreover have "openPos + 7 \<le> closePos \<and> closePos + 8 \<le> length s"
    using indexOfFrom_bound [OF c] by (simp add: js.simps)
  ultimately show "((s, closePos + 8, vis, rs @ [slice s (openPos + 7) closePos]), s, pos, vs, rs)
      \<in> measure (\<lambda>(s, pos, _, _). length s - pos)"
    by simp linarith
qed simp

declare thinkLoop.simps [simp del]

record ParsedThinkTags =
  visibleContent :: jsstring
  reasoningText :: jsstring
  hasUnclosedTag :: bool

definition parseThinkTags :: "jsstring \<Rightarrow> ParsedThinkTags" where
  "parseThinkTags s =
     (if \<not> str_includes s thinkOpen then \<lparr>visibleContent = s, reasoningText = [], hasUnclosedTag = False\<rparr>
      else (case thinkLoop s 0 [] [] of (vs, rs, unclosed) \<Rightarrow>
        \<lparr>visibleContent = trim (concat vs), reasoningText = trim (join [10, 10] rs), hasUnclosedTag = unclosed\<rparr>))"

section \<open>Timing\<close>

definition completeAssistantTiming :: "Message \<Rightarrow> int \<Rightarrow> Message" where
  "completeAssistantTiming m completed =
     (if from_role m \<noteq> RAssistant then m
      else (let started = (case startedAt m of Some t \<Rightarrow> t
              | None \<Rightarrow> (case createdAt m of Some t \<Rightarrow> t | None \<Rightarrow> completed)) in
        m\<lparr>startedAt := Some started, completedAt := Some completed, durationMs := Some (max 0 (completed - started))\<rparr>))"

definition startReasoningTiming :: "Message \<Rightarrow> int \<Rightarrow> Reasoning" where
  "startReasoningTiming m started = (case reasoning m of
     Some r \<Rightarrow> r\<lparr>rstartedAt := Some (case rstartedAt r of Some t \<Rightarrow> t | None \<Rightarrow> started)\<rparr>
   | None \<Rightarrow> \<lparr>rcontent = [], rduration = 0, rstartedAt = Some started, rcompletedAt = None, rdurationMs = None\<rparr>)"

definition completeReasoningTiming :: "Message \<Rightarrow> int \<Rightarrow> Message" where
  "completeReasoningTiming m completed = (case reasoning m of
     None \<Rightarrow> m
   | Some r \<Rightarrow>
       (if rdurationMs r \<noteq> None then m
        else (let started = (case rstartedAt r of Some t \<Rightarrow> t
                | None \<Rightarrow> (case startedAt m of Some t \<Rightarrow> t | None \<Rightarrow> completed));
                  duration = max 0 (completed - started) in
          m\<lparr>reasoning := Some (r\<lparr>rstartedAt := Some started, rcompletedAt := Some completed,
             rdurationMs := Some duration, rduration := (duration + 999) div 1000\<rparr>)\<rparr>)))"

section \<open>Streaming\<close>

definition processStreamingContent :: "Message \<Rightarrow> jsstring \<Rightarrow> int \<Rightarrow> Message" where
  "processStreamingContent m chunk now =
     (let fullContent = content (getCurrentVersion m) @ chunk in
      if reasoning m = None \<and> \<not> str_includes fullContent thinkOpen
      then (updateCurrentVersionContent m fullContent)\<lparr>isReasoningStreaming := Some False\<rparr>
      else
        (let parsed = parseThinkTags fullContent;
             finalReasoning = (if reasoningText parsed \<noteq> []
               then Some ((startReasoningTiming m now)\<lparr>rcontent := reasoningText parsed\<rparr>) else reasoning m) in
         (updateCurrentVersionContent m fullContent)\<lparr>reasoning := finalReasoning,
            isReasoningStreaming := Some (hasUnclosedTag parsed)\<rparr>))"

datatype StreamChunkType = ChunkReasoning | ChunkContent

definition getAppendableChunk :: "jsstring \<Rightarrow> jsstring \<Rightarrow> jsstring" where
  "getAppendableChunk currentContent chunk =
     (if currentContent = [] \<or> \<not> startsWith chunk currentContent then chunk
      else drop (length currentContent) chunk)"

definition applyStreamingChunk :: "Message \<Rightarrow> StreamChunkType \<Rightarrow> jsstring \<Rightarrow> int \<Rightarrow> Message" where
  "applyStreamingChunk m type chunk now =
     (if status m = Some SError then m
      else (case type of
          ChunkReasoning \<Rightarrow>
            (let r = startReasoningTiming m now; appendable = getAppendableChunk (rcontent r) chunk in
             m\<lparr>reasoning := Some (r\<lparr>rcontent := rcontent r @ appendable\<rparr>), isReasoningStreaming := Some True,
               status := Some SStreaming\<rparr>)
        | ChunkContent \<Rightarrow>
            (let appendable = getAppendableChunk (content (getCurrentVersion m)) chunk;
                 cm = processStreamingContent m appendable now in
             (if isReasoningStreaming cm = Some True then cm else completeReasoningTiming cm now)\<lparr>status := Some SStreaming\<rparr>)))"

definition finalizeMessage :: "Message \<Rightarrow> jsstring option \<Rightarrow> int \<Rightarrow> Message" where
  "finalizeMessage m apiReasoningContent now =
     (let text = content (getCurrentVersion m);
          parsed = (if str_includes text thinkOpen then Some (parseThinkTags text) else None);
          visible = (case parsed of Some p \<Rightarrow> visibleContent p | None \<Rightarrow> text);
          finalReasoning = or_str apiReasoningContent (or_str (map_option rcontent (reasoning m))
            (or_str (map_option reasoningText parsed) []));
          finalized = (updateCurrentVersionContent m visible)\<lparr>
            reasoning := (if finalReasoning \<noteq> [] then Some ((startReasoningTiming m now)\<lparr>rcontent := finalReasoning\<rparr>) else None),
            isReasoningStreaming := Some False\<rparr> in
      completeReasoningTiming finalized now)"

definition completeAssistantMessage :: "Message \<Rightarrow> int \<Rightarrow> Message" where
  "completeAssistantMessage m now = completeAssistantTiming ((finalizeMessage m None now)\<lparr>status := Some SComplete\<rparr>) now"

definition isAssistantMessageFinal :: "Message \<Rightarrow> bool" where
  "isAssistantMessageFinal m \<longleftrightarrow> status m = Some SComplete \<or> status m = Some SError"

definition isAssistantMessagePending :: "Message \<Rightarrow> bool" where
  "isAssistantMessagePending m \<longleftrightarrow> status m = Some SLoading \<or> status m = Some SStreaming"

definition isPendingAssistantMessage :: "Message \<Rightarrow> bool" where
  "isPendingAssistantMessage m \<longleftrightarrow> from_role m = RAssistant \<and> isAssistantMessagePending m"

record ChatCompletionChoice =
  choice_content :: "jsstring option"
  choice_reasoning_content :: "jsstring option"
  choice_images :: "jsstring list option"

definition hasChatCompletionChoice :: "ChatCompletionChoice list \<Rightarrow> bool" where
  "hasChatCompletionChoice choices \<longleftrightarrow> choices \<noteq> []"

definition applyChatCompletionChoice :: "Message \<Rightarrow> ChatCompletionChoice \<Rightarrow> int \<Rightarrow> Message" where
  "applyChatCompletionChoice m choice now =
     (let imgs = map_option (filter (\<lambda>url. url \<noteq> [])) (choice_images choice) in
      completeAssistantTiming
        ((finalizeMessage (updateCurrentVersionContent m (or_str (choice_content choice) []))
            (choice_reasoning_content choice) now)\<lparr>images := imgs, status := Some SComplete\<rparr>) now)"

definition applyChatCompletionResponse :: "Message \<Rightarrow> ChatCompletionChoice list \<Rightarrow> int \<Rightarrow> Message option" where
  "applyChatCompletionResponse m choices now =
     (case choices of choice # _ \<Rightarrow> Some (applyChatCompletionChoice m choice now) | [] \<Rightarrow> None)"

text \<open>The scan from the end for the last message with a property, as an index.\<close>

fun lastIndex :: "('a \<Rightarrow> bool) \<Rightarrow> 'a list \<Rightarrow> nat option" where
  "lastIndex P [] = None"
| "lastIndex P (x # xs) = (case lastIndex P xs of Some i \<Rightarrow> Some (Suc i) | None \<Rightarrow> if P x then Some 0 else None)"

definition sanitizePending :: "(jsstring \<Rightarrow> jsstring) \<Rightarrow> Message \<Rightarrow> int \<Rightarrow> Message" where
  "sanitizePending t m now =
     (let finalized = finalizeMessage m None now;
          hasReasoning = (case reasoning finalized of Some r \<Rightarrow> trim (rcontent r) \<noteq> [] | None \<Rightarrow> False) in
      if hasMessageContent finalized \<or> hasReasoning
      then completeAssistantTiming (finalized\<lparr>status := Some SComplete, isReasoningStreaming := Some False\<rparr>) now
      else completeAssistantTiming
        ((updateCurrentVersionContent finalized (t API_REQUEST_ERROR @ js '': '' @ t INTERRUPTED))\<lparr>
           status := Some SError, isReasoningStreaming := Some False\<rparr>) now)"

definition sanitizeMessagesOnLoad :: "(jsstring \<Rightarrow> jsstring) \<Rightarrow> Message list \<Rightarrow> int \<Rightarrow> Message list" where
  "sanitizeMessagesOnLoad t ms now =
     (case lastIndex isPendingAssistantMessage ms of
        None \<Rightarrow> ms
      | Some i \<Rightarrow> ms[i := sanitizePending t (ms ! i) now])"

section \<open>Updating a conversation\<close>

definition updateLastAssistantMessage :: "Message list \<Rightarrow> (Message \<Rightarrow> Message) \<Rightarrow> Message list" where
  "updateLastAssistantMessage ms updater =
     (if ms = [] then ms
      else if from_role (last ms) \<noteq> RAssistant then ms
      else ms[length ms - 1 := updater (last ms)])"

definition updateAssistantMessageWithError ::
  "Message list \<Rightarrow> jsstring \<Rightarrow> jsstring option \<Rightarrow> jsstring \<Rightarrow> int \<Rightarrow> Message list" where
  "updateAssistantMessageWithError ms errorMessage code title now =
     updateLastAssistantMessage ms (\<lambda>m.
       completeAssistantTiming ((updateCurrentVersionContent m (title @ js '': '' @ errorMessage))\<lparr>
         status := Some SError, isReasoningStreaming := Some False,
         errorCode := Some (case code of Some c \<Rightarrow> if c = [] then None else Some c | None \<Rightarrow> None)\<rparr>) now)"

definition appendUserMessagePair :: "(nat \<Rightarrow> jsstring) \<Rightarrow> Message list \<Rightarrow> jsstring \<Rightarrow> int \<Rightarrow> Message list" where
  "appendUserMessagePair nanoid ms text now =
     ms @ [createUserMessage (nanoid 0) (nanoid 1) text now, createLoadingAssistantMessage (nanoid 2) (nanoid 3) now]"

fun findIndex :: "('a \<Rightarrow> bool) \<Rightarrow> 'a list \<Rightarrow> nat option" where
  "findIndex P [] = None"
| "findIndex P (x # xs) = (if P x then Some 0 else map_option Suc (findIndex P xs))"

definition createRegeneratedMessages ::
  "(nat \<Rightarrow> jsstring) \<Rightarrow> Message list \<Rightarrow> jsstring \<Rightarrow> int \<Rightarrow> Message list option" where
  "createRegeneratedMessages nanoid ms messageKey now =
     (case findIndex (\<lambda>m. key m = messageKey) ms of
        None \<Rightarrow> None
      | Some i \<Rightarrow>
          (if from_role (ms ! i) = RUser
           then Some (take (i + 1) ms @ [createLoadingAssistantMessage (nanoid 0) (nanoid 1) now])
           else Some (take i ms @ [createLoadingAssistantMessage (nanoid 0) (nanoid 1) now])))"

definition removeMessageByKey :: "Message list \<Rightarrow> jsstring \<Rightarrow> Message list" where
  "removeMessageByKey ms messageKey = filter (\<lambda>m. key m \<noteq> messageKey) ms"

text \<open>\<open>Inl\<close>: reading past the end of the list throws.\<close>

definition getPreviousUserMessage :: "Message list \<Rightarrow> nat \<Rightarrow> unit + Message option" where
  "getPreviousUserMessage ms beforeIndex =
     (if beforeIndex > length ms then Inl ()
      else Inr (map_option (\<lambda>i. ms ! i) (lastIndex (\<lambda>m. from_role m = RUser) (take beforeIndex ms))))"

definition applyMessageEdit ::
  "(nat \<Rightarrow> jsstring) \<Rightarrow> Message list \<Rightarrow> jsstring \<Rightarrow> jsstring \<Rightarrow> bool \<Rightarrow> int \<Rightarrow> (Message list \<times> bool) option" where
  "applyMessageEdit nanoid ms messageKey text shouldSubmit now =
     (case findIndex (\<lambda>m. key m = messageKey) ms of
        None \<Rightarrow> None
      | Some i \<Rightarrow>
          (let updated = map (\<lambda>m. if key m = messageKey
                 then (updateCurrentVersionContent m text)\<lparr>createdAt := (if shouldSubmit then Some now else createdAt m)\<rparr>
                 else m) ms in
           if \<not> shouldSubmit \<or> from_role (updated ! i) \<noteq> RUser then Some (updated, False)
           else Some (take (i + 1) updated @ [createLoadingAssistantMessage (nanoid 0) (nanoid 1) now], True)))"

definition getEditingMessageContent :: "Message list \<Rightarrow> jsstring option \<Rightarrow> jsstring" where
  "getEditingMessageContent ms editingKey = (case editingKey of
     None \<Rightarrow> []
   | Some k \<Rightarrow> if k = [] then [] else (case find (\<lambda>m. key m = k) ms of Some m \<Rightarrow> getMessageContent m | None \<Rightarrow> []))"

section \<open>What a message shows\<close>

record ChatMessageRenderState =
  alwaysShowActions :: bool
  render_content :: jsstring
  isEditing :: bool

definition getChatMessageRenderState :: "Message list \<Rightarrow> Message \<Rightarrow> nat \<Rightarrow> jsstring option \<Rightarrow> ChatMessageRenderState" where
  "getChatMessageRenderState ms m i editingKey =
     \<lparr>alwaysShowActions = (int i = int (length ms) - 1 \<and> from_role m = RAssistant),
      render_content = getMessageContent m, isEditing = (editingKey = Some (key m))\<rparr>"

record MessageContentState =
  displayContent :: jsstring
  hasSources :: bool
  isAssistant :: bool
  showLoader :: bool
  showMessageContent :: bool
  shownSources :: "(jsstring \<times> jsstring) list"
  reasoningContent :: "jsstring option"

definition truthyFlag :: "bool option \<Rightarrow> bool" where
  "truthyFlag b \<longleftrightarrow> b = Some True"

definition shouldShowMessageLoader :: "Message \<Rightarrow> bool \<Rightarrow> jsstring \<Rightarrow> bool" where
  "shouldShowMessageLoader m assistant versionContent \<longleftrightarrow>
     assistant \<and> \<not> truthyFlag (isReasoningStreaming m) \<and>
     (status m = Some SLoading \<or> (status m = Some SStreaming \<and> versionContent = []))"

definition shouldShowMessageContent :: "Message \<Rightarrow> jsstring \<Rightarrow> bool" where
  "shouldShowMessageContent m versionContent \<longleftrightarrow>
     (from_role m = RUser \<or> \<not> truthyFlag (isReasoningStreaming m)) \<and> length versionContent > 0"

definition getDisplayContent :: "Message \<Rightarrow> jsstring \<Rightarrow> jsstring" where
  "getDisplayContent m versionContent =
     (if from_role m \<noteq> RAssistant then versionContent
      else if \<not> str_includes versionContent thinkOpen then versionContent
      else visibleContent (parseThinkTags versionContent))"

definition getMessageContentState :: "Message \<Rightarrow> jsstring \<Rightarrow> MessageContentState" where
  "getMessageContentState m versionContent =
     (let assistant = (from_role m = RAssistant);
          srcs = (case sources m of Some xs \<Rightarrow> xs | None \<Rightarrow> []);
          rc = (if assistant then map_option rcontent (reasoning m) else None) in
      \<lparr>displayContent = getDisplayContent m versionContent, hasSources = (length srcs > 0), isAssistant = assistant,
       showLoader = shouldShowMessageLoader m assistant versionContent,
       showMessageContent = shouldShowMessageContent m versionContent, shownSources = srcs,
       reasoningContent = (case rc of Some t \<Rightarrow> if t \<noteq> [] then Some t else None | None \<Rightarrow> None)\<rparr>)"

record MessageActionState =
  act_content :: jsstring
  act_hasContent :: bool
  act_isAssistant :: bool
  act_isLoading :: bool
  act_isUser :: bool

definition getMessageActionState :: "Message \<Rightarrow> MessageActionState" where
  "getMessageActionState m = \<lparr>act_content = getMessageContent m, act_hasContent = hasMessageContent m,
     act_isAssistant = (from_role m = RAssistant),
     act_isLoading = (status m = Some SLoading \<or> status m = Some SStreaming), act_isUser = (from_role m = RUser)\<rparr>"

record MessageEditorState =
  canSave :: bool
  hasChanged :: bool
  showSaveAndSubmit :: bool

definition getMessageEditorState :: "Message \<Rightarrow> jsstring \<Rightarrow> jsstring \<Rightarrow> MessageEditorState" where
  "getMessageEditorState m editText originalText =
     \<lparr>canSave = (length (trim editText) > 0 \<and> editText \<noteq> originalText), hasChanged = (editText \<noteq> originalText),
      showSaveAndSubmit = (from_role m = RUser)\<rparr>"

definition FALLBACK_ERROR_CONTENT :: jsstring where
  "FALLBACK_ERROR_CONTENT = js ''An unknown error occurred''"

datatype MessageErrorKind = GenericError | ModelPriceError

record MessageErrorState =
  err_content :: jsstring
  err_kind :: MessageErrorKind
  showSettingsLink :: bool

definition isErrorMessage :: "Message \<Rightarrow> bool" where
  "isErrorMessage m \<longleftrightarrow> status m = Some SError"

definition getMessageErrorState :: "Message \<Rightarrow> bool \<Rightarrow> MessageErrorState option" where
  "getMessageErrorState m isAdmin =
     (if \<not> isErrorMessage m then None
      else
        (let isModelPriceError = (errorCode m = Some (Some (js ''model_price_error''))) in
         Some \<lparr>err_content = or_str (Some (getMessageContent m)) FALLBACK_ERROR_CONTENT,
           err_kind = (if isModelPriceError then ModelPriceError else GenericError),
           showSettingsLink = (isModelPriceError \<and> isAdmin)\<rparr>))"

datatype PlaygroundMessageLayoutMode = LayoutAlternating | LayoutLeft

datatype MessageAlignment = AlignLeft | AlignRight

definition getMessageAlignment :: "Message \<Rightarrow> PlaygroundMessageLayoutMode \<Rightarrow> MessageAlignment" where
  "getMessageAlignment m mode = (if mode = LayoutLeft then AlignLeft
     else if from_role m = RUser then AlignRight else AlignLeft)"

section \<open>The request payload\<close>

text \<open>The part of \<open>toLowerCase\<close> that a search for ASCII text can see: the capital letters, the two other code
  units whose lower case is ASCII (Kelvin sign) or starts with an ASCII letter (dotted capital I).\<close>

definition toLowerCase :: "jsstring \<Rightarrow> jsstring" where
  "toLowerCase s = concat (map (\<lambda>c.
     if 65 \<le> c \<and> c \<le> 90 then [c + 32] else if c = 8490 then [107] else if c = 304 then [105, 775] else [c]) s)"

definition isImageGenerationModel :: "jsstring \<Rightarrow> bool" where
  "isImageGenerationModel model = (let normalized = toLowerCase model in
     str_includes normalized (js ''image'') \<or> str_includes normalized (js ''nano-banana''))"

definition isVideoGenerationModel :: "jsstring \<Rightarrow> bool" where
  "isVideoGenerationModel model = (let normalized = toLowerCase model in
     list_ex (str_includes normalized) [js ''seedance'', js ''sora'', js ''veo'', js ''kling'', js ''video''])"

definition supportsGeneratedAudio :: "jsstring \<Rightarrow> bool" where
  "supportsGeneratedAudio model = (let normalized = toLowerCase model in
     \<not> (str_includes normalized (js ''seedance-2.5'') \<or> str_includes normalized (js ''seedance-2-5'')))"

record 'n PlaygroundConfig =
  model :: jsstring
  group :: jsstring
  channel_id :: "int option"
  temperature :: 'n
  top_p :: 'n
  max_tokens :: 'n
  frequency_penalty :: 'n
  presence_penalty :: 'n
  seed :: "'n option"
  stream :: bool

record ParameterEnabled =
  temperature_on :: bool
  top_p_on :: bool
  max_tokens_on :: bool
  frequency_penalty_on :: bool
  presence_penalty_on :: bool
  seed_on :: bool

datatype Modality = ModText | ModImage

record 'n ChatCompletionRequest =
  req_model :: jsstring
  req_group :: jsstring
  req_channel_id :: "int option"
  req_messages :: "ChatCompletionMessage list"
  req_stream :: bool
  req_temperature :: "'n option"
  req_top_p :: "'n option"
  req_max_tokens :: "'n option"
  req_frequency_penalty :: "'n option"
  req_presence_penalty :: "'n option"
  req_seed :: "'n option"
  req_modalities :: "Modality list option"

definition buildChatCompletionPayload ::
  "Message list \<Rightarrow> 'n PlaygroundConfig \<Rightarrow> ParameterEnabled \<Rightarrow> 'n ChatCompletionRequest" where
  "buildChatCompletionPayload ms config enabled =
     (let image = isImageGenerationModel (model config) in
      \<lparr>req_model = model config, req_group = group config, req_channel_id = channel_id config,
       req_messages = map formatMessageForAPI (filter isValidMessage ms),
       req_stream = (if image then False else stream config),
       req_temperature = (if temperature_on enabled then Some (temperature config) else None),
       req_top_p = (if top_p_on enabled then Some (top_p config) else None),
       req_max_tokens = (if max_tokens_on enabled then Some (max_tokens config) else None),
       req_frequency_penalty = (if frequency_penalty_on enabled then Some (frequency_penalty config) else None),
       req_presence_penalty = (if presence_penalty_on enabled then Some (presence_penalty config) else None),
       req_seed = (if seed_on enabled then seed config else None),
       req_modalities = (if image then Some [ModText, ModImage] else None)\<rparr>)"

section \<open>Input and options\<close>

record ModelOption =
  mo_label :: jsstring
  mo_value :: jsstring

record 'n GroupOption =
  go_label :: jsstring
  go_value :: jsstring
  go_ratio :: 'n
  go_desc :: "jsstring option"

definition getSubmittableInputText :: "jsstring option \<Rightarrow> bool \<Rightarrow> jsstring option" where
  "getSubmittableInputText msgText disabled =
     (if disabled \<or> (case msgText of Some t \<Rightarrow> trim t = [] | None \<Rightarrow> True) then None else msgText)"

record InputControlState =
  canSubmit :: bool
  isSelectorDisabled :: bool
  shouldShowStop :: bool

definition getInputControlState ::
  "bool \<Rightarrow> 'n GroupOption list \<Rightarrow> bool \<Rightarrow> bool \<Rightarrow> bool \<Rightarrow> ModelOption list \<Rightarrow> jsstring \<Rightarrow> InputControlState" where
  "getInputControlState disabled groups hasStopHandler isGenerating isModelLoading models input =
     \<lparr>canSubmit = (\<not> disabled \<and> length models > 0 \<and> length (trim input) > 0),
      isSelectorDisabled = (disabled \<or> isModelLoading \<or> length groups = 0),
      shouldShowStop = (isGenerating \<and> hasStopHandler)\<rparr>"

definition getModelFallback :: "ModelOption list \<Rightarrow> jsstring \<Rightarrow> jsstring option" where
  "getModelFallback models currentModel =
     (if list_ex (\<lambda>m. mo_value m = currentModel) models \<or> models = [] then None else Some (mo_value (hd models)))"

definition shouldClearModelForGroup :: "ModelOption list \<Rightarrow> jsstring \<Rightarrow> bool" where
  "shouldClearModelForGroup models currentModel \<longleftrightarrow>
     currentModel \<noteq> [] \<and> \<not> list_ex (\<lambda>m. mo_value m = currentModel) models"

definition getGroupFallback :: "'n GroupOption list \<Rightarrow> jsstring \<Rightarrow> jsstring option" where
  "getGroupFallback groups currentGroup =
     (if list_ex (\<lambda>g. go_value g = currentGroup) groups \<or> groups = [] then None
      else Some (case find (\<lambda>g. go_value g = js ''default'') groups of
        Some g \<Rightarrow> go_value g | None \<Rightarrow> go_value (hd groups)))"

end
