(* ===== verification/PlaygroundStorage.thy ===== *)
theory PlaygroundStorage
  imports PlaygroundMessages JsValue
begin

text \<open>
  Keeping the conversation in the browser's storage (\<open>src/web/src/features/playground/lib/storage\<close>): what is
  stored, how stored messages are shortened and repaired when they are loaded, and when they are given up.

  \<open>localStorage\<close> is a map from keys to strings.  What the code calls outside the repository are fields of
  \<open>StorageEnv\<close>, with \<open>None\<close> for an exception: \<open>JSON.parse\<close>, \<open>JSON.stringify\<close>, the parsers that the validation
  package makes of the three schemas, the plain values of typed data, and whether the browser refuses a write
  (the quota of the storage).
\<close>

section \<open>Limits\<close>

definition STORAGE_VERSION :: rat where "STORAGE_VERSION = 1"
definition MAX_STORED_MESSAGES :: nat where "MAX_STORED_MESSAGES = 100"
definition MAX_STORED_MESSAGES_BYTES :: nat where "MAX_STORED_MESSAGES_BYTES = 1024 * 1024"
definition MAX_LOADED_MESSAGES_CHARS :: nat where "MAX_LOADED_MESSAGES_CHARS = 120000"
definition MAX_LOADED_MESSAGE_CHARS :: nat where "MAX_LOADED_MESSAGE_CHARS = 40000"

definition TRUNCATED_CONTENT_SUFFIX :: jsstring where
  "TRUNCATED_CONTENT_SUFFIX = [10, 10] @ js ''[...]''"

definition MIN_PREFIX_COLLAPSE_LENGTH :: nat where "MIN_PREFIX_COLLAPSE_LENGTH = 2000"
definition MIN_REPEATED_SECTION_COUNT :: nat where "MIN_REPEATED_SECTION_COUNT = 3"

section \<open>Trimming\<close>

definition trimMessages :: "Message list \<Rightarrow> Message list" where
  "trimMessages ms = (if length ms \<le> MAX_STORED_MESSAGES then ms else drop (length ms - MAX_STORED_MESSAGES) ms)"

definition getMessageSize :: "Message \<Rightarrow> nat" where
  "getMessageSize m =
     foldl (\<lambda>acc v. acc + length (content v)) 0 (versions m) +
     (case reasoning m of Some r \<Rightarrow> length (rcontent r) | None \<Rightarrow> 0)"

definition truncateText :: "jsstring \<Rightarrow> nat \<Rightarrow> jsstring" where
  "truncateText text maxLength =
     (if length text \<le> maxLength then text
      else if maxLength \<le> length TRUNCATED_CONTENT_SUFFIX then take maxLength text
      else take (maxLength - length TRUNCATED_CONTENT_SUFFIX) text @ TRUNCATED_CONTENT_SUFFIX)"

text \<open>The backwards loop of \<open>trimMessagesByContentSize\<close> on the reversed list; the result is built in the order
  of the messages.\<close>

fun sizeTrimLoop :: "Message list \<Rightarrow> nat \<Rightarrow> Message list \<Rightarrow> Message list" where
  "sizeTrimLoop [] totalSize result = result"
| "sizeTrimLoop (m # rest) totalSize result =
     (if result \<noteq> [] \<and> totalSize + getMessageSize m > MAX_LOADED_MESSAGES_CHARS then result
      else sizeTrimLoop rest (totalSize + getMessageSize m) (m # result))"

definition trimMessagesByContentSize :: "Message list \<Rightarrow> Message list" where
  "trimMessagesByContentSize ms = sizeTrimLoop (rev ms) 0 []"

section \<open>Repeated sections\<close>

definition isLineTerminator :: "nat \<Rightarrow> bool" where
  "isLineTerminator c \<longleftrightarrow> c \<in> {10, 13, 8232, 8233}"

text \<open>The length of a match of \<open>#{2,6}\s+\d+\.\s+.+$\<close> at the start of a text.  The white space before the last
  part takes all it can; when nothing follows it, it gives back its last character that is not a line
  terminator, if it keeps one.\<close>

definition headingMatch :: "jsstring \<Rightarrow> nat option" where
  "headingMatch s =
     (let h = length (takeWhile (\<lambda>c. c = 35) s); s1 = drop h s;
          w1 = length (takeWhile is_ws s1); s2 = drop w1 s1;
          d = length (takeWhile is_digit s2); s3 = drop d s2 in
      if h < 2 \<or> 6 < h \<or> w1 = 0 \<or> d = 0 \<or> \<not> startsWith s3 (js ''.'') then None
      else
        (let s4 = drop 1 s3; w2 = takeWhile is_ws s4; s5 = drop (length w2) s4; base = h + w1 + d + 1 in
         if w2 = [] then None
         else if s5 \<noteq> [] then Some (base + length w2 + length (takeWhile (\<lambda>c. \<not> isLineTerminator c) s5))
         else (case lastIndex (\<lambda>c. \<not> isLineTerminator c) (tl w2) of
             Some k \<Rightarrow> Some (base + (k + 1) + 1) | None \<Rightarrow> None)))"

definition atLineStart :: "jsstring \<Rightarrow> nat \<Rightarrow> bool" where
  "atLineStart s pos \<longleftrightarrow> pos = 0 \<or> isLineTerminator (s ! (pos - 1))"

record SectionOccurrence =
  heading :: jsstring
  occ_index :: nat

function sectionOccurrencesFrom :: "jsstring \<Rightarrow> nat \<Rightarrow> SectionOccurrence list" where
  "sectionOccurrencesFrom s pos =
     (if pos \<ge> length s then []
      else (case (if atLineStart s pos then headingMatch (drop pos s) else None) of
          Some n \<Rightarrow> \<lparr>heading = take n (drop pos s), occ_index = pos\<rparr> # sectionOccurrencesFrom s (pos + max 1 n)
        | None \<Rightarrow> sectionOccurrencesFrom s (pos + 1)))"
  by pat_completeness auto
termination by (relation "measure (\<lambda>(s, pos). length s - pos)") auto

declare sectionOccurrencesFrom.simps [simp del]

definition getSectionOccurrences :: "jsstring \<Rightarrow> SectionOccurrence list" where
  "getSectionOccurrences text = sectionOccurrencesFrom text 0"

definition getHeadingCounts :: "SectionOccurrence list \<Rightarrow> (jsstring \<times> nat) list" where
  "getHeadingCounts occurrences =
     foldl (\<lambda>counts o'. AList.update (heading o')
       ((case map_of counts (heading o') of Some n \<Rightarrow> n | None \<Rightarrow> 0) + 1) counts) [] occurrences"

text \<open>The backwards loop of \<open>findLastRepeatedSectionRunStart\<close>, on the reversed occurrences.\<close>

fun lastRepeatedIndexes ::
  "(jsstring \<times> nat) list \<Rightarrow> SectionOccurrence list \<Rightarrow> jsstring list \<Rightarrow> nat list" where
  "lastRepeatedIndexes counts [] seen = []"
| "lastRepeatedIndexes counts (o' # rest) seen =
     (if (case map_of counts (heading o') of Some n \<Rightarrow> n | None \<Rightarrow> 0) < MIN_REPEATED_SECTION_COUNT
         \<or> heading o' \<in> set seen
      then lastRepeatedIndexes counts rest seen
      else occ_index o' # lastRepeatedIndexes counts rest (heading o' # seen))"

definition findLastRepeatedSectionRunStart :: "jsstring \<Rightarrow> nat option" where
  "findLastRepeatedSectionRunStart text =
     (let occurrences = getSectionOccurrences text;
          indexes = lastRepeatedIndexes (getHeadingCounts occurrences) (rev occurrences) [] in
      if indexes = [] then None else Some (Min (set indexes)))"

definition collapseRepeatedSectionSnapshots :: "jsstring \<Rightarrow> jsstring" where
  "collapseRepeatedSectionSnapshots text =
     (if length text < MIN_PREFIX_COLLAPSE_LENGTH then text
      else (case findLastRepeatedSectionRunStart text of None \<Rightarrow> text | Some i \<Rightarrow> drop i text))"

section \<open>Loading\<close>

definition normalizeContent :: "jsstring \<Rightarrow> jsstring" where
  "normalizeContent text = truncateText (collapseRepeatedSectionSnapshots text) MAX_LOADED_MESSAGE_CHARS"

definition shortenStoredMessage :: "Message \<Rightarrow> Message" where
  "shortenStoredMessage m =
     m\<lparr>versions := map (\<lambda>v. v\<lparr>content := normalizeContent (content v)\<rparr>) (versions m),
       reasoning := map_option (\<lambda>r. r\<lparr>rcontent := truncateText (rcontent r) MAX_LOADED_MESSAGE_CHARS\<rparr>) (reasoning m)\<rparr>"

definition normalizeStoredMessageForLoad :: "Message \<Rightarrow> int \<Rightarrow> Message" where
  "normalizeStoredMessageForLoad m now =
     (let normalized = shortenStoredMessage m in
      if \<not> isAssistantMessagePending normalized then normalized
      else
        (let hasReasoning = (case reasoning normalized of Some r \<Rightarrow> trim (rcontent r) \<noteq> [] | None \<Rightarrow> False) in
         if \<not> hasMessageContent normalized \<and> \<not> hasReasoning then normalized
         else
           (let completed = (case completedAt normalized of Some t \<Rightarrow> t
                  | None \<Rightarrow> (case Option.bind (reasoning normalized) rcompletedAt of Some t \<Rightarrow> t
                  | None \<Rightarrow> (case startedAt normalized of Some t \<Rightarrow> t
                  | None \<Rightarrow> (case createdAt normalized of Some t \<Rightarrow> t | None \<Rightarrow> now)))) in
            completeAssistantTiming ((finalizeMessage normalized None now)\<lparr>status := Some SComplete,
              isReasoningStreaming := Some False\<rparr>) completed)))"

definition loadPipeline :: "(jsstring \<Rightarrow> jsstring) \<Rightarrow> Message list \<Rightarrow> int \<Rightarrow> Message list" where
  "loadPipeline t parsed now =
     sanitizeMessagesOnLoad t
       (trimMessagesByContentSize (trimMessages (map (\<lambda>m. normalizeStoredMessageForLoad m now) parsed))) now"

record 'n PartialConfig =
  p_model :: "jsstring option"
  p_group :: "jsstring option"
  p_channel_id :: "int option option"
  p_temperature :: "'n option"
  p_top_p :: "'n option"
  p_max_tokens :: "'n option"
  p_frequency_penalty :: "'n option"
  p_presence_penalty :: "'n option"
  p_seed :: "'n option option"
  p_stream :: "bool option"

record PartialEnabled =
  p_temperature_on :: "bool option"
  p_top_p_on :: "bool option"
  p_max_tokens_on :: "bool option"
  p_frequency_penalty_on :: "bool option"
  p_presence_penalty_on :: "bool option"
  p_seed_on :: "bool option"

type_synonym localStorage = "jsstring \<rightharpoonup> jsstring"

record StorageEnv =
  jsonParse :: "jsstring \<Rightarrow> jsval option"
  jsonStringify :: "jsval \<Rightarrow> jsstring"
  setItemThrows :: "localStorage \<Rightarrow> jsstring \<Rightarrow> jsstring \<Rightarrow> bool"
  messagesSchemaParse :: "jsval \<Rightarrow> Message list option"
  messagesValue :: "Message list \<Rightarrow> jsval"
  configSchemaParse :: "jsval \<Rightarrow> rat PartialConfig option"
  configValue :: "rat PartialConfig \<Rightarrow> jsval"
  enabledSchemaParse :: "jsval \<Rightarrow> PartialEnabled option"
  enabledValue :: "PartialEnabled \<Rightarrow> jsval"

definition MESSAGES_KEY :: jsstring where
  "MESSAGES_KEY = js ''playground_messages''"

definition CONFIG_KEY :: jsstring where
  "CONFIG_KEY = js ''playground_config''"

definition PARAMETER_ENABLED_KEY :: jsstring where
  "PARAMETER_ENABLED_KEY = js ''playground_parameter_enabled''"

text \<open>\<open>Inl\<close>: \<open>JSON.parse\<close> throws; \<open>Inr None\<close>: nothing usable is stored.\<close>

definition readStoredMessagesValue :: "StorageEnv \<Rightarrow> localStorage \<Rightarrow> (unit + jsval option) \<times> localStorage" where
  "readStoredMessagesValue env ls = (case ls MESSAGES_KEY of
     None \<Rightarrow> (Inr None, ls)
   | Some saved \<Rightarrow>
       (if saved = [] then (Inr None, ls)
        else if length saved > MAX_STORED_MESSAGES_BYTES then (Inr None, ls(MESSAGES_KEY := None))
        else (case jsonParse env saved of Some v \<Rightarrow> (Inr (Some v), ls) | None \<Rightarrow> (Inl (), ls))))"

definition unwrapStoredValue :: "jsval \<Rightarrow> jsval" where
  "unwrapStoredValue v = (case v of
     JObj fs \<Rightarrow> (case (map_of fs (js ''version''), map_of fs (js ''data'')) of (Some _, Some d) \<Rightarrow> d | _ \<Rightarrow> v)
   | _ \<Rightarrow> v)"

definition writeStoredValue :: "StorageEnv \<Rightarrow> jsstring \<Rightarrow> jsval \<Rightarrow> localStorage \<Rightarrow> localStorage option" where
  "writeStoredValue env k d ls =
     (let payload = jsonStringify env (JObj [(js ''version'', JNum (Num STORAGE_VERSION)), (js ''data'', d)]) in
      if setItemThrows env ls k payload then None else Some (ls(k \<mapsto> payload)))"

text \<open>A failed write is caught and leaves the storage as it was.\<close>

definition saveMessages :: "StorageEnv \<Rightarrow> Message list \<Rightarrow> localStorage \<Rightarrow> localStorage" where
  "saveMessages env ms ls =
     (case messagesSchemaParse env (messagesValue env (trimMessages ms)) of
        None \<Rightarrow> ls
      | Some parsed \<Rightarrow>
          (case writeStoredValue env MESSAGES_KEY (messagesValue env parsed) ls of Some ls' \<Rightarrow> ls' | None \<Rightarrow> ls))"

fun falsyVal :: "jsval \<Rightarrow> bool" where
  "falsyVal JUndef = True"
| "falsyVal JNull = True"
| "falsyVal (JBool b) = (\<not> b)"
| "falsyVal (JNum n) = (n = Num 0 \<or> n = NaN)"
| "falsyVal (JStr s) = (s = [])"
| "falsyVal _ = False"

text \<open>The messages are saved again when a step returned another array than it got;
  \<open>trimMessagesByContentSize\<close> always does.\<close>

definition loadMessages ::
  "StorageEnv \<Rightarrow> (jsstring \<Rightarrow> jsstring) \<Rightarrow> int \<Rightarrow> localStorage \<Rightarrow> Message list option \<times> localStorage" where
  "loadMessages env t now ls =
     (case readStoredMessagesValue env ls of
        (Inr (Some v), ls') \<Rightarrow>
          (if falsyVal v then (None, ls')
           else (case messagesSchemaParse env (unwrapStoredValue v) of
               Some parsed \<Rightarrow>
                 (let sanitized = loadPipeline t parsed now in (Some sanitized, saveMessages env sanitized ls'))
             | None \<Rightarrow> (None, ls')))
      | (_, ls') \<Rightarrow> (None, ls'))"

definition clearPlaygroundData :: "localStorage \<Rightarrow> localStorage" where
  "clearPlaygroundData ls = ((ls(CONFIG_KEY := None))(PARAMETER_ENABLED_KEY := None))(MESSAGES_KEY := None)"

section \<open>Configuration\<close>

definition readStoredValue :: "StorageEnv \<Rightarrow> localStorage \<Rightarrow> jsstring \<Rightarrow> unit + jsval option" where
  "readStoredValue env ls k = (case ls k of
     None \<Rightarrow> Inr None
   | Some saved \<Rightarrow> (if saved = [] then Inr None
       else (case jsonParse env saved of Some v \<Rightarrow> Inr (Some v) | None \<Rightarrow> Inl ())))"

definition emptyConfig :: "'n PartialConfig" where
  "emptyConfig = \<lparr>p_model = None, p_group = None, p_channel_id = None, p_temperature = None, p_top_p = None,
     p_max_tokens = None, p_frequency_penalty = None, p_presence_penalty = None, p_seed = None, p_stream = None\<rparr>"

definition emptyEnabled :: PartialEnabled where
  "emptyEnabled = \<lparr>p_temperature_on = None, p_top_p_on = None, p_max_tokens_on = None,
     p_frequency_penalty_on = None, p_presence_penalty_on = None, p_seed_on = None\<rparr>"

definition loadConfig :: "StorageEnv \<Rightarrow> localStorage \<Rightarrow> rat PartialConfig" where
  "loadConfig env ls = (case readStoredValue env ls CONFIG_KEY of
     Inr (Some v) \<Rightarrow> (if falsyVal v then emptyConfig
       else (case configSchemaParse env (unwrapStoredValue v) of Some c \<Rightarrow> c | None \<Rightarrow> emptyConfig))
   | _ \<Rightarrow> emptyConfig)"

definition saveConfig :: "StorageEnv \<Rightarrow> rat PartialConfig \<Rightarrow> localStorage \<Rightarrow> localStorage" where
  "saveConfig env config ls = (case configSchemaParse env (configValue env config) of
     None \<Rightarrow> ls
   | Some parsed \<Rightarrow>
       (case writeStoredValue env CONFIG_KEY (configValue env parsed) ls of Some ls' \<Rightarrow> ls' | None \<Rightarrow> ls))"

definition loadParameterEnabled :: "StorageEnv \<Rightarrow> localStorage \<Rightarrow> PartialEnabled" where
  "loadParameterEnabled env ls = (case readStoredValue env ls PARAMETER_ENABLED_KEY of
     Inr (Some v) \<Rightarrow> (if falsyVal v then emptyEnabled
       else (case enabledSchemaParse env (unwrapStoredValue v) of Some c \<Rightarrow> c | None \<Rightarrow> emptyEnabled))
   | _ \<Rightarrow> emptyEnabled)"

definition saveParameterEnabled :: "StorageEnv \<Rightarrow> PartialEnabled \<Rightarrow> localStorage \<Rightarrow> localStorage" where
  "saveParameterEnabled env enabled ls = (case enabledSchemaParse env (enabledValue env enabled) of
     None \<Rightarrow> ls
   | Some parsed \<Rightarrow>
       (case writeStoredValue env PARAMETER_ENABLED_KEY (enabledValue env parsed) ls of
          Some ls' \<Rightarrow> ls' | None \<Rightarrow> ls))"

definition DEFAULT_CONFIG :: "rat PlaygroundConfig" where
  "DEFAULT_CONFIG = \<lparr>model = js ''gpt-4o'', group = js ''default'', channel_id = None, temperature = 7 / 10,
     top_p = 1, max_tokens = 4096, frequency_penalty = 0, presence_penalty = 0, seed = None, stream = True\<rparr>"

definition DEFAULT_PARAMETER_ENABLED :: ParameterEnabled where
  "DEFAULT_PARAMETER_ENABLED = \<lparr>temperature_on = True, top_p_on = True, max_tokens_on = False,
     frequency_penalty_on = True, presence_penalty_on = True, seed_on = False\<rparr>"

text \<open>Spreading a partial object over the defaults.\<close>

definition or_default :: "'a option \<Rightarrow> 'a \<Rightarrow> 'a" where
  "or_default x d = (case x of Some y \<Rightarrow> y | None \<Rightarrow> d)"

definition getInitialPlaygroundConfig :: "StorageEnv \<Rightarrow> localStorage \<Rightarrow> rat PlaygroundConfig" where
  "getInitialPlaygroundConfig env ls = (let p = loadConfig env ls; d = DEFAULT_CONFIG in
     \<lparr>model = or_default (p_model p) (model d), group = or_default (p_group p) (group d),
      channel_id = or_default (p_channel_id p) (channel_id d),
      temperature = or_default (p_temperature p) (temperature d), top_p = or_default (p_top_p p) (top_p d),
      max_tokens = or_default (p_max_tokens p) (max_tokens d),
      frequency_penalty = or_default (p_frequency_penalty p) (frequency_penalty d),
      presence_penalty = or_default (p_presence_penalty p) (presence_penalty d),
      seed = or_default (p_seed p) (seed d), stream = or_default (p_stream p) (stream d)\<rparr>)"

definition getInitialParameterEnabled :: "StorageEnv \<Rightarrow> localStorage \<Rightarrow> ParameterEnabled" where
  "getInitialParameterEnabled env ls = (let p = loadParameterEnabled env ls; d = DEFAULT_PARAMETER_ENABLED in
     \<lparr>temperature_on = or_default (p_temperature_on p) (temperature_on d),
      top_p_on = or_default (p_top_p_on p) (top_p_on d), max_tokens_on = or_default (p_max_tokens_on p) (max_tokens_on d),
      frequency_penalty_on = or_default (p_frequency_penalty_on p) (frequency_penalty_on d),
      presence_penalty_on = or_default (p_presence_penalty_on p) (presence_penalty_on d),
      seed_on = or_default (p_seed_on p) (seed_on d)\<rparr>)"

definition getInitialMessages :: "StorageEnv \<Rightarrow> (jsstring \<Rightarrow> jsstring) \<Rightarrow> int \<Rightarrow> localStorage \<Rightarrow> Message list \<times> localStorage" where
  "getInitialMessages env t now ls = (case loadMessages env t now ls of (r, ls') \<Rightarrow> (or_default r [], ls'))"

end
