(* ===== verification/PlaygroundProofs.thy ===== *)
theory PlaygroundProofs
  imports PlaygroundStorage
begin

text \<open>
  Theorems about the playground: the think-tag parser inverts the tagging of a text, streamed chunks add up to
  the full text, a conversation keeps its shape under every operation, and what is loaded from storage is a
  bounded, repaired suffix of what was stored.
\<close>

section \<open>Searching a text\<close>

lemma indexOf_None: "indexOf p s = None \<longleftrightarrow> \<not> sublist p s"
proof (induction s)
  case (Cons c cs)
  then show ?case by (auto simp: sublist_Cons_right)
qed auto

text \<open>A pattern whose first character does not occur again in it.\<close>

definition unbordered :: "jsstring \<Rightarrow> bool" where
  "unbordered p \<longleftrightarrow> p \<noteq> [] \<and> hd p \<notin> set (tl p)"

lemma unbordered_tags: "unbordered thinkOpen" "unbordered thinkClose"
  by (simp_all add: unbordered_def js.simps)

lemma indexOf_first:
  assumes "unbordered p" "\<not> sublist p v"
  shows "indexOf p (v @ p @ r) = Some (length v)"
  using assms(2)
proof (induction v)
  case Nil
  have "p \<noteq> []" using assms(1) by (simp add: unbordered_def)
  then show ?case by (cases p) auto
next
  case (Cons c v)
  have "\<not> prefix p (c # v @ p @ r)"
  proof
    assume "prefix p (c # v @ p @ r)"
    then have "prefix p ((c # v) @ (p @ r))" by simp
    then consider "prefix p (c # v)" | q where "p = (c # v) @ q" "prefix q (p @ r)" "q \<noteq> []"
      unfolding prefix_append by (metis append_Nil2 prefix_order.refl)
    then show False
    proof cases
      case 1
      then show False using Cons.prems by (auto intro: prefix_imp_sublist)
    next
      case 2
      then have "hd q = hd p" using assms(1) by (cases q; cases p) (auto simp: unbordered_def)
      moreover have "hd q \<in> set (tl p)" using 2 by (cases q) auto
      ultimately show False using assms(1) by (simp add: unbordered_def)
    qed
  qed
  moreover have "\<not> sublist p v" using Cons.prems by (auto simp: sublist_Cons_right)
  ultimately show ?case using Cons.IH by simp
qed

lemma indexOfFrom_first:
  "unbordered p \<Longrightarrow> \<not> sublist p v \<Longrightarrow> indexOfFrom (pre @ v @ p @ r) p (length pre) = Some (length pre + length v)"
  by (simp add: indexOfFrom_def indexOf_first)

lemma indexOfFrom_none: "\<not> sublist p v \<Longrightarrow> indexOfFrom (pre @ v) p (length pre) = None"
  by (simp add: indexOfFrom_def indexOf_None)

section \<open>Think tags\<close>

lemma length_tags [simp]: "length thinkOpen = 7" "length thinkClose = 8"
  by (simp_all add: length_js)

declare length_js [simp del]

text \<open>A tagged text: pieces of visible text, each followed by a closed reasoning section, and an ending that may
  hold an unclosed one.\<close>

fun renderThink :: "(jsstring \<times> jsstring) list \<Rightarrow> jsstring \<times> jsstring option \<Rightarrow> jsstring" where
  "renderThink [] (v, None) = v"
| "renderThink [] (v, Some r) = v @ thinkOpen @ r"
| "renderThink ((v, r) # xs) e = v @ thinkOpen @ r @ thinkClose @ renderThink xs e"

definition endReasoning :: "jsstring option \<Rightarrow> jsstring list" where
  "endReasoning e = (case e of None \<Rightarrow> [] | Some r \<Rightarrow> [r])"

definition taggable :: "(jsstring \<times> jsstring) list \<Rightarrow> jsstring \<times> jsstring option \<Rightarrow> bool" where
  "taggable xs e \<longleftrightarrow> list_all (\<lambda>(v, r). \<not> str_includes v thinkOpen \<and> \<not> str_includes r thinkClose) xs \<and>
     \<not> str_includes (fst e) thinkOpen \<and> (case snd e of Some r \<Rightarrow> \<not> str_includes r thinkClose | None \<Rightarrow> True)"

lemma thinkLoop_render:
  assumes "taggable xs e"
  shows "\<exists>vs'. thinkLoop (pre @ renderThink xs e) (length pre) vs rs =
      (vs', rs @ map snd xs @ endReasoning (snd e), snd e \<noteq> None) \<and>
    concat vs' = concat vs @ concat (map fst xs) @ fst e"
  using assms
proof (induction xs arbitrary: pre vs rs)
  case Nil
  obtain v r where e: "e = (v, r)" by fastforce
  show ?case
  proof (cases r)
    case None
    then have "indexOfFrom (pre @ v) thinkOpen (length pre) = None"
      using Nil e by (intro indexOfFrom_none) (simp add: taggable_def str_includes_def)
    then show ?thesis using None e by (simp add: thinkLoop.simps [of "pre @ v"] endReasoning_def)
  next
    case (Some t)
    have o: "indexOfFrom (pre @ v @ thinkOpen @ t) thinkOpen (length pre) = Some (length pre + length v)"
      using Nil e by (intro indexOfFrom_first) (simp_all add: taggable_def str_includes_def unbordered_tags)
    have "\<not> sublist thinkClose t" using Nil e Some by (simp add: taggable_def str_includes_def)
    then have c: "indexOfFrom (pre @ v @ thinkOpen @ t) thinkClose (length pre + length v + 7) = None"
      using indexOfFrom_none [of thinkClose t "pre @ v @ thinkOpen"] by (simp add: add.assoc)
    have t: "drop (length pre + length v + 7) (pre @ v @ thinkOpen @ t) = t" by simp
    have "thinkLoop (pre @ v @ thinkOpen @ t) (length pre) vs rs =
        (if v = [] then vs else vs @ [v], rs @ [t], True)"
      by (subst thinkLoop.simps) (simp add: o c t slice_def Let_def)
    then show ?thesis using Some e by (simp add: endReasoning_def)
  qed
next
  case (Cons x xs)
  obtain v r where x: "x = (v, r)" by fastforce
  define rest where "rest = renderThink xs e"
  have tag: "taggable xs e" "\<not> sublist thinkOpen v" "\<not> sublist thinkClose r"
    using Cons.prems x by (simp_all add: taggable_def str_includes_def)
  define pre' where "pre' = pre @ v @ thinkOpen @ r @ thinkClose"
  have s: "pre @ renderThink (x # xs) e = pre' @ rest" by (simp add: x rest_def pre'_def)
  have o: "indexOfFrom (pre' @ rest) thinkOpen (length pre) = Some (length pre + length v)"
    using indexOfFrom_first [OF unbordered_tags(1) tag(2), of pre "r @ thinkClose @ rest"] by (simp add: pre'_def)
  have c: "indexOfFrom (pre' @ rest) thinkClose (length pre + length v + 7) = Some (length pre + length v + 7 + length r)"
    using indexOfFrom_first [OF unbordered_tags(2) tag(3), of "pre @ v @ thinkOpen" rest]
    by (simp add: pre'_def add.assoc)
  define vs1 where "vs1 = (if length pre + length v > length pre then vs @ [slice (pre' @ rest) (length pre) (length pre + length v)] else vs)"
  have vs1: "concat vs1 = concat vs @ v" by (simp add: vs1_def slice_def pre'_def)
  have r: "slice (pre' @ rest) (length pre + length v + 7) (length pre + length v + 7 + length r) = r"
    by (simp add: slice_def pre'_def)
  have len: "length pre' = length pre + length v + 7 + length r + 8" by (simp add: pre'_def)
  have step: "thinkLoop (pre' @ rest) (length pre) vs rs = thinkLoop (pre' @ rest) (length pre') vs1 (rs @ [r])"
    by (subst thinkLoop.simps) (simp add: o c r len Let_def vs1_def)
  obtain vs' where "thinkLoop (pre' @ rest) (length pre') vs1 (rs @ [r]) =
      (vs', (rs @ [r]) @ map snd xs @ endReasoning (snd e), snd e \<noteq> None)"
      "concat vs' = concat vs1 @ concat (map fst xs) @ fst e"
    using Cons.IH [OF tag(1), of pre' vs1 "rs @ [r]"] unfolding rest_def by blast
  then show ?case unfolding s step using vs1 x by auto
qed

lemma render_includes: "xs \<noteq> [] \<or> snd e \<noteq> None \<Longrightarrow> str_includes (renderThink xs e) thinkOpen"
  by (cases "(xs, e)" rule: renderThink.cases) (auto simp: str_includes_def sublist_def)

text \<open>C24. Think tags: a text made of visible pieces and closed reasoning sections, possibly ending in an
  unclosed one, is taken apart into the visible text and the reasoning sections, and the open end is
  recognised.\<close>

theorem think_tags_roundtrip:
  assumes "taggable xs e" "xs \<noteq> [] \<or> snd e \<noteq> None"
  shows "parseThinkTags (renderThink xs e) =
    \<lparr>visibleContent = trim (concat (map fst xs) @ fst e),
     reasoningText = trim (join [10, 10] (map snd xs @ endReasoning (snd e))),
     hasUnclosedTag = (snd e \<noteq> None)\<rparr>"
  using thinkLoop_render [OF assms(1), of "[]" "[]" "[]"] render_includes [OF assms(2)]
  by (auto simp: parseThinkTags_def)

theorem think_tags_roundtrip_witness:
  "taggable [(js ''hi '', js ''plan'')] (js ''there'', Some (js ''more'')) \<and>
   parseThinkTags (js ''hi <think>plan</think>there<think>more'') =
     \<lparr>visibleContent = trim (js ''hi there''), reasoningText = trim (js ''plan'' @ [10, 10] @ js ''more''), hasUnclosedTag = True\<rparr>"
proof -
  have tag: "taggable [(js ''hi '', js ''plan'')] (js ''there'', Some (js ''more''))"
    by (simp add: taggable_def sublist_code)
  have "renderThink [(js ''hi '', js ''plan'')] (js ''there'', Some (js ''more'')) =
      js ''hi <think>plan</think>there<think>more''"
    by (simp flip: js_append)
  then show ?thesis
    using think_tags_roundtrip [OF tag] tag by (simp add: endReasoning_def js.simps)
qed

section \<open>Streaming\<close>

definition applyContentChunks :: "Message \<Rightarrow> (jsstring \<times> int) list \<Rightarrow> Message" where
  "applyContentChunks m chunks = foldl (\<lambda>m (c, now). applyStreamingChunk m ChunkContent c now) m chunks"

lemma content_update [simp]: "getMessageContent (updateCurrentVersionContent m t) = t"
  by (simp add: getMessageContent_def updateCurrentVersionContent_def getCurrentVersion_def)

lemma versions_timing [simp]:
  "versions (completeReasoningTiming m now) = versions m" "versions (completeAssistantTiming m now) = versions m"
  by (simp_all add: completeReasoningTiming_def completeAssistantTiming_def Let_def split: option.split)

lemma getMessageContent_versions: "versions m = versions m' \<Longrightarrow> getMessageContent m = getMessageContent m'"
  by (simp add: getMessageContent_def getCurrentVersion_def)

lemma versions_processStreaming:
  "versions (processStreamingContent m c now) = versions (updateCurrentVersionContent m (getMessageContent m @ c))"
  by (simp add: processStreamingContent_def getMessageContent_def Let_def)

lemma chunk_content:
  assumes "status m \<noteq> Some SError"
  shows "getMessageContent (applyStreamingChunk m ChunkContent c now) =
      getMessageContent m @ getAppendableChunk (getMessageContent m) c"
    and "status (applyStreamingChunk m ChunkContent c now) = Some SStreaming"
    and "from_role (applyStreamingChunk m ChunkContent c now) = from_role m"
proof -
  define q where "q = processStreamingContent m (getAppendableChunk (getMessageContent m) c) now"
  have app: "applyStreamingChunk m ChunkContent c now =
      (if isReasoningStreaming q = Some True then q else completeReasoningTiming q now)\<lparr>status := Some SStreaming\<rparr>"
    using assms by (simp add: applyStreamingChunk_def Let_def q_def getMessageContent_def)
  have "versions (applyStreamingChunk m ChunkContent c now) =
      versions (updateCurrentVersionContent m (getMessageContent m @ getAppendableChunk (getMessageContent m) c))"
    unfolding app using versions_processStreaming [of m _ now] by (simp add: q_def)
  from getMessageContent_versions [OF this]
  show "getMessageContent (applyStreamingChunk m ChunkContent c now) =
      getMessageContent m @ getAppendableChunk (getMessageContent m) c" by simp
  show "status (applyStreamingChunk m ChunkContent c now) = Some SStreaming" unfolding app by simp
  have "from_role q = from_role m"
    by (simp add: q_def processStreamingContent_def updateCurrentVersionContent_def Let_def)
  then show "from_role (applyStreamingChunk m ChunkContent c now) = from_role m"
    unfolding app by (simp add: completeReasoningTiming_def Let_def split: option.split)
qed

text \<open>No chunk repeats everything received so far.\<close>

fun freshDeltas :: "jsstring \<Rightarrow> (jsstring \<times> int) list \<Rightarrow> bool" where
  "freshDeltas acc [] = True"
| "freshDeltas acc ((c, _) # cs) = ((acc = [] \<or> \<not> startsWith c acc) \<and> freshDeltas (acc @ c) cs)"

text \<open>Every chunk is the text so far, continued.\<close>

fun snapshots :: "jsstring \<Rightarrow> (jsstring \<times> int) list \<Rightarrow> bool" where
  "snapshots acc [] = True"
| "snapshots acc ((c, _) # cs) = (startsWith c acc \<and> snapshots c cs)"

lemma deltas_content:
  "status m \<noteq> Some SError \<Longrightarrow> freshDeltas (getMessageContent m) chunks \<Longrightarrow>
     getMessageContent (applyContentChunks m chunks) = getMessageContent m @ concat (map fst chunks)"
proof (induction chunks arbitrary: m)
  case (Cons x chunks)
  obtain c now where x: "x = (c, now)" by fastforce
  have app: "getAppendableChunk (getMessageContent m) c = c"
    using Cons.prems(2) x by (simp add: getAppendableChunk_def)
  show ?case
    using Cons.IH [of "applyStreamingChunk m ChunkContent c now"] Cons.prems x
    by (simp add: applyContentChunks_def chunk_content app)
qed (simp add: applyContentChunks_def)

lemma snapshots_content:
  "status m \<noteq> Some SError \<Longrightarrow> snapshots (getMessageContent m) chunks \<Longrightarrow>
     getMessageContent (applyContentChunks m chunks) = last (getMessageContent m # map fst chunks)"
proof (induction chunks arbitrary: m)
  case (Cons x chunks)
  obtain c now where x: "x = (c, now)" by fastforce
  have app: "getMessageContent m @ getAppendableChunk (getMessageContent m) c = c"
    using Cons.prems(2) x by (auto simp: getAppendableChunk_def startsWith_def elim: prefixE)
  show ?case
    using Cons.IH [of "applyStreamingChunk m ChunkContent c now"] Cons.prems x
    by (auto simp: applyContentChunks_def chunk_content app)
qed (simp add: applyContentChunks_def)

lemma status_applyContentChunks:
  "status m \<noteq> Some SError \<Longrightarrow> status (applyContentChunks m chunks) \<noteq> Some SError"
  by (induction chunks arbitrary: m) (simp_all add: applyContentChunks_def chunk_content(2) split: prod.split)

lemma versions_finalize:
  "versions (finalizeMessage m api now) = versions (updateCurrentVersionContent m
     (if str_includes (getMessageContent m) thinkOpen then visibleContent (parseThinkTags (getMessageContent m))
      else getMessageContent m))"
  by (simp add: finalizeMessage_def getMessageContent_def Let_def)

text \<open>Streaming: when the chunks are true increments, or when each is a snapshot that continues the text so
  far, the completed message shows the text they stand for, freed of its think sections.\<close>

lemma streamed_text_complete:
  assumes "status m \<noteq> Some SError" "getMessageContent m = []"
    and "freshDeltas [] chunks \<and> text = concat (map fst chunks) \<or>
      snapshots [] chunks \<and> text = last ([] # map fst chunks)"
  shows "getMessageContent (completeAssistantMessage (applyContentChunks m chunks) now) =
      visibleContent (parseThinkTags text) \<and>
    status (completeAssistantMessage (applyContentChunks m chunks) now) = Some SComplete"
proof -
  define q where "q = applyContentChunks m chunks"
  have q: "getMessageContent q = text"
    using assms deltas_content [of m chunks] snapshots_content [of m chunks] by (auto simp: q_def)
  have "getMessageContent (completeAssistantMessage q now) = getMessageContent (updateCurrentVersionContent q
     (if str_includes text thinkOpen then visibleContent (parseThinkTags text) else text))"
    by (rule getMessageContent_versions) (simp add: completeAssistantMessage_def versions_finalize q)
  moreover have "status (completeAssistantMessage q now) = Some SComplete"
    by (simp add: completeAssistantMessage_def completeAssistantTiming_def Let_def)
  ultimately show ?thesis unfolding q_def [symmetric] by (simp add: parseThinkTags_def)
qed

text \<open>A chunk equal to all the text received so far is taken for a snapshot and adds nothing, so an answer that
  starts by repeating itself is stored without the repetition.\<close>

lemma repeated_increment_lost:
  assumes "status m \<noteq> Some SError" "getMessageContent m = []"
  shows "getMessageContent (applyContentChunks m [(c, t1), (c, t2)]) = c"
  using assms snapshots_content [of m "[(c, t1), (c, t2)]"] by (simp add: startsWith_def)

section \<open>The shape of a conversation\<close>

definition convOk :: "Message list \<Rightarrow> bool" where
  "convOk ms \<longleftrightarrow> distinct (map key ms) \<and> list_all (\<lambda>m. versions m \<noteq> []) ms \<and>
     list_all (\<lambda>m. \<not> isPendingAssistantMessage m) (butlast ms)"

text \<open>What the playground does to a conversation.  A new message is only sent when nothing is pending, and
  \<open>nanoid\<close> gives unused keys.\<close>

inductive convStep :: "Message list \<Rightarrow> Message list \<Rightarrow> bool" where
  send: "list_all (\<lambda>m. \<not> isPendingAssistantMessage m) ms \<Longrightarrow> {nanoid 0, nanoid 2} \<inter> key ` set ms = {} \<Longrightarrow>
    nanoid 0 \<noteq> nanoid 2 \<Longrightarrow> convStep ms (appendUserMessagePair nanoid ms text now)"
| regenerate: "createRegeneratedMessages nanoid ms k now = Some ms' \<Longrightarrow> nanoid 0 \<notin> key ` set ms \<Longrightarrow> convStep ms ms'"
| edit: "applyMessageEdit nanoid ms k text submit now = Some (ms', sent) \<Longrightarrow> nanoid 0 \<notin> key ` set ms \<Longrightarrow> convStep ms ms'"
| remove: "convStep ms (removeMessageByKey ms k)"
| chunk: "convStep ms (updateLastAssistantMessage ms (\<lambda>m. applyStreamingChunk m ty c now))"
| complete: "convStep ms (updateLastAssistantMessage ms (\<lambda>m. completeAssistantMessage m now))"
| respond: "convStep ms (updateLastAssistantMessage ms (\<lambda>m. applyChatCompletionChoice m choice now))"
| fail: "convStep ms (updateAssistantMessageWithError ms e code title now)"
| load: "convStep ms (sanitizeMessagesOnLoad t ms now)"

inductive convReachable :: "Message list \<Rightarrow> bool" where
  empty: "convReachable []"
| step: "convReachable ms \<Longrightarrow> convStep ms ms' \<Longrightarrow> convReachable ms'"

text \<open>Operations on one message keep its key and leave it with a version.\<close>

lemma key_timing [simp]:
  "key (completeReasoningTiming m now) = key m" "key (completeAssistantTiming m now) = key m"
  "key (updateCurrentVersionContent m c) = key m"
  "from_role (completeReasoningTiming m now) = from_role m" "from_role (completeAssistantTiming m now) = from_role m"
  "from_role (updateCurrentVersionContent m c) = from_role m"
  "status (completeReasoningTiming m now) = status m" "status (completeAssistantTiming m now) = status m"
  by (simp_all add: completeReasoningTiming_def completeAssistantTiming_def updateCurrentVersionContent_def Let_def
      split: option.split)

lemma versions_update [simp]: "versions (updateCurrentVersionContent m c) \<noteq> []"
  by (simp add: updateCurrentVersionContent_def)

lemma key_finalize [simp]: "key (finalizeMessage m api now) = key m" "from_role (finalizeMessage m api now) = from_role m"
  "versions (finalizeMessage m api now) \<noteq> []"
  by (simp_all add: finalizeMessage_def Let_def)

lemma key_process [simp]: "key (processStreamingContent m c now) = key m" "versions (processStreamingContent m c now) \<noteq> []"
  by (simp_all add: processStreamingContent_def Let_def)

lemma key_applyStreamingChunk:
  "key (applyStreamingChunk m ty c now) = key m"
  "versions m \<noteq> [] \<Longrightarrow> versions (applyStreamingChunk m ty c now) \<noteq> []"
  by (simp_all add: applyStreamingChunk_def Let_def split: StreamChunkType.split)

lemma key_complete:
  "key (completeAssistantMessage m now) = key m" "versions (completeAssistantMessage m now) \<noteq> []"
  "key (applyChatCompletionChoice m choice now) = key m" "versions (applyChatCompletionChoice m choice now) \<noteq> []"
  by (simp_all add: completeAssistantMessage_def applyChatCompletionChoice_def Let_def)

lemma convOk_snoc:
  "convOk (ms @ [m]) \<longleftrightarrow> distinct (map key ms) \<and> key m \<notin> key ` set ms \<and> list_all (\<lambda>m. versions m \<noteq> []) ms \<and>
     versions m \<noteq> [] \<and> list_all (\<lambda>m. \<not> isPendingAssistantMessage m) ms"
  by (auto simp: convOk_def)

lemma convOk_updateLast:
  assumes "convOk ms" "\<And>m. key (f m) = key m" "\<And>m. versions m \<noteq> [] \<Longrightarrow> versions (f m) \<noteq> []"
  shows "convOk (updateLastAssistantMessage ms f)"
proof (cases ms rule: rev_cases)
  case (snoc xs x)
  then show ?thesis using assms by (auto simp: updateLastAssistantMessage_def convOk_snoc)
qed (use assms in \<open>simp add: updateLastAssistantMessage_def\<close>)

lemma convOk_take_snoc:
  assumes "convOk ms" "i < length ms" "n \<le> i \<or> (n = i + 1 \<and> from_role (ms ! i) = RUser)" "key m \<notin> key ` set ms" "versions m \<noteq> []"
  shows "convOk (take n ms @ [m])"
proof -
  have "\<not> isPendingAssistantMessage x" if x: "x \<in> set (take n ms)" for x
  proof -
    obtain j where j: "j < n" "j < length ms" "x = ms ! j" using x by (auto simp: in_set_conv_nth)
    show ?thesis
    proof (cases "j < length ms - 1")
      case True
      then have "x \<in> set (butlast ms)" using j by (metis in_set_conv_nth length_butlast nth_butlast)
      then show ?thesis using assms(1) by (auto simp: convOk_def list_all_iff)
    next
      case False
      then have "j = i" using j assms(2,3) by auto
      then have "from_role x = RUser" using j assms(2,3) by auto
      then show ?thesis by (simp add: isPendingAssistantMessage_def)
    qed
  qed
  then show ?thesis
    using assms(1,4,5) unfolding convOk_snoc
    by (auto simp: convOk_def list_all_iff take_map [symmetric] intro: distinct_take dest: in_set_takeD)
qed

lemma findIndex_Some: "findIndex P xs = Some i \<Longrightarrow> i < length xs \<and> P (xs ! i)"
  by (induction xs arbitrary: i) (auto split: if_splits)

lemma loading_fields:
  "key (createLoadingAssistantMessage a b t) = a" "versions (createLoadingAssistantMessage a b t) \<noteq> []"
  "key (createUserMessage a b c t) = a" "versions (createUserMessage a b c t) \<noteq> []"
  "\<not> isPendingAssistantMessage (createUserMessage a b c t)"
  by (simp_all add: createLoadingAssistantMessage_def createUserMessage_def isPendingAssistantMessage_def)

lemma convOk_map:
  assumes "convOk ms" "\<And>m. key (f m) = key m" "\<And>m. versions m \<noteq> [] \<Longrightarrow> versions (f m) \<noteq> []"
    "\<And>m. isPendingAssistantMessage (f m) \<Longrightarrow> isPendingAssistantMessage m"
  shows "convOk (map f ms)"
  using assms by (auto simp: convOk_def comp_def list_all_iff map_butlast [symmetric])

lemma convOk_edit:
  assumes "convOk ms" "applyMessageEdit nanoid ms k text submit now = Some (ms', sent)" "nanoid 0 \<notin> key ` set ms"
  shows "convOk ms'"
proof -
  define f where "f m = (if key m = k then (updateCurrentVersionContent m text)\<lparr>createdAt := (if submit then Some now else createdAt m)\<rparr> else m)" for m
  obtain i where i: "findIndex (\<lambda>m. key m = k) ms = Some i"
      "ms' = map f ms \<or> from_role (map f ms ! i) = RUser \<and>
        ms' = take (i + 1) (map f ms) @ [createLoadingAssistantMessage (nanoid 0) (nanoid 1) now]"
    using assms(2) by (auto simp: applyMessageEdit_def f_def [abs_def] Let_def split: option.splits if_splits)
  have f: "key (f m) = key m" "versions m \<noteq> [] \<Longrightarrow> versions (f m) \<noteq> []"
      "isPendingAssistantMessage (f m) \<Longrightarrow> isPendingAssistantMessage m" for m
    by (auto simp: f_def isPendingAssistantMessage_def isAssistantMessagePending_def updateCurrentVersionContent_def split: if_splits)
  have ok: "convOk (map f ms)" using assms(1) f by (rule convOk_map)
  have "key ` set (map f ms) = key ` set ms" by (simp add: image_image f(1))
  then show ?thesis
    using i ok assms(3) findIndex_Some [OF i(1)] convOk_take_snoc [OF ok, of i "i + 1"] by (auto simp: loading_fields)
qed

lemma convOk_regenerate:
  assumes "convOk ms" "createRegeneratedMessages nanoid ms k now = Some ms'" "nanoid 0 \<notin> key ` set ms"
  shows "convOk ms'"
  using assms findIndex_Some [of "\<lambda>m. key m = k" ms]
  by (auto simp: createRegeneratedMessages_def loading_fields split: option.splits if_splits
      intro!: convOk_take_snoc [where i = i for i])

lemma convOk_remove: "convOk ms \<Longrightarrow> convOk (removeMessageByKey ms k)"
proof (cases ms rule: rev_cases)
  case (snoc xs x)
  assume "convOk ms"
  then have "convOk (filter (\<lambda>m. key m \<noteq> k) xs)" "key x \<noteq> k \<Longrightarrow> convOk (filter (\<lambda>m. key m \<noteq> k) xs @ [x])"
    unfolding snoc convOk_snoc
    by (auto simp: convOk_def list_all_iff distinct_map_filter dest: in_set_butlastD)
  then show ?thesis by (simp add: snoc removeMessageByKey_def)
qed (simp add: removeMessageByKey_def)

lemma lastIndex_Some:
  "lastIndex P xs = Some i \<Longrightarrow> i < length xs \<and> P (xs ! i) \<and> (\<forall>j. i < j \<longrightarrow> j < length xs \<longrightarrow> \<not> P (xs ! j))"
proof (induction xs arbitrary: i)
  case (Cons x xs)
  show ?case
  proof (cases "lastIndex P xs")
    case None
    then have none: "\<forall>j < length xs. \<not> P (xs ! j)"
      by (induction xs) (auto split: option.splits if_splits simp: nth_Cons split: nat.splits)
    with None Cons.prems show ?thesis by (auto simp: nth_Cons split: if_splits nat.splits)
  next
    case (Some k)
    with Cons.prems Cons.IH [OF Some] show ?thesis by (auto simp: nth_Cons split: nat.splits)
  qed
qed simp

lemma lastIndex_None: "lastIndex P xs = None \<longleftrightarrow> list_all (\<lambda>x. \<not> P x) xs"
  by (induction xs) (auto split: option.splits)

lemma sanitizePending_fields:
  "key (sanitizePending t m now) = key m" "versions (sanitizePending t m now) \<noteq> []"
  "\<not> isPendingAssistantMessage (sanitizePending t m now)"
  by (simp_all add: sanitizePending_def Let_def isPendingAssistantMessage_def isAssistantMessagePending_def)

lemma convOk_sanitize: "convOk ms \<Longrightarrow> convOk (sanitizeMessagesOnLoad t ms now)"
proof (cases "lastIndex isPendingAssistantMessage ms")
  case (Some i)
  assume ok: "convOk ms"
  have i: "i < length ms" using lastIndex_Some [OF Some] by simp
  have keys: "map key (ms[i := sanitizePending t (ms ! i) now]) = map key ms"
    unfolding map_update sanitizePending_fields(1) using i by (metis list_update_id nth_map)
  have "\<not> isPendingAssistantMessage m" if "m \<in> set (butlast (ms[i := sanitizePending t (ms ! i) now]))" for m
    using that ok sanitizePending_fields(3) [of t "ms ! i" now] set_update_subset_insert
    by (fastforce simp: convOk_def list_all_iff butlast_list_update split: if_splits)
  then show ?thesis
    using ok keys sanitizePending_fields(2) set_update_subset_insert [of ms i]
    unfolding sanitizeMessagesOnLoad_def Some by (fastforce simp: convOk_def list_all_iff)
qed (simp add: sanitizeMessagesOnLoad_def)

lemma convOk_step: "convStep ms ms' \<Longrightarrow> convOk ms \<Longrightarrow> convOk ms'"
proof (induction rule: convStep.induct)
  case (send ms nanoid c now)
  have "convOk ((ms @ [createUserMessage (nanoid 0) (nanoid 1) c now]) @ [createLoadingAssistantMessage (nanoid 2) (nanoid 3) now])"
    using send unfolding convOk_snoc by (auto simp: convOk_def loading_fields)
  then show ?case by (simp add: appendUserMessagePair_def)
next
  case (fail ms e code title now)
  then show ?case unfolding updateAssistantMessageWithError_def by (rule convOk_updateLast) simp_all
next
  case (chunk ms ty c now)
  then show ?case by (rule convOk_updateLast) (simp_all add: key_applyStreamingChunk)
next
  case (complete ms now)
  then show ?case by (rule convOk_updateLast) (simp_all add: key_complete)
next
  case (respond ms choice now)
  then show ?case by (rule convOk_updateLast) (simp_all add: key_complete)
qed (auto intro: convOk_edit convOk_regenerate convOk_remove convOk_sanitize)

text \<open>C23. The shape of a conversation: under sending, streaming, finishing, failing, editing, regenerating,
  deleting and loading, keys stay unique, every message has a version, and only the last message can be
  waiting for an answer.\<close>

theorem conversation_shape:
  assumes "convReachable ms"
  shows "distinct (map key ms) \<and> list_all (\<lambda>m. versions m \<noteq> []) ms \<and>
    list_all (\<lambda>m. \<not> isPendingAssistantMessage m) (butlast ms)"
proof -
  have "convOk ms" using assms by (induction rule: convReachable.induct) (auto simp: convOk_step, simp add: convOk_def)
  then show ?thesis by (simp add: convOk_def)
qed

theorem conversation_shape_witness:
  "\<exists>ms. convReachable ms \<and> length ms = 2 \<and> distinct (map key ms)"
proof -
  define nanoid where "nanoid i = (if i = 0 then js ''a'' else js ''b'')" for i :: nat
  have "convReachable (appendUserMessagePair nanoid [] (js ''hi'') 0)"
    by (rule convReachable.step [OF convReachable.empty], rule convStep.send) (simp_all add: nanoid_def js_inject)
  moreover have "length (appendUserMessagePair nanoid [] (js ''hi'') 0) = 2" by (simp add: appendUserMessagePair_def)
  ultimately show ?thesis using conversation_shape by blast
qed

section \<open>Loading a stored conversation\<close>

definition totalSize :: "Message list \<Rightarrow> nat" where
  "totalSize ms = sum_list (map getMessageSize ms)"

lemma sizeTrimLoop_spec:
  assumes "tot = totalSize res" "tot \<le> MAX_LOADED_MESSAGES_CHARS \<or> length res \<le> 1"
  shows "\<exists>pre. rev rs @ res = pre @ sizeTrimLoop rs tot res \<and>
    (totalSize (sizeTrimLoop rs tot res) \<le> MAX_LOADED_MESSAGES_CHARS \<or> length (sizeTrimLoop rs tot res) \<le> 1) \<and>
    (pre \<noteq> [] \<longrightarrow> MAX_LOADED_MESSAGES_CHARS < totalSize (last pre # sizeTrimLoop rs tot res))"
  using assms
proof (induction rs arbitrary: tot res)
  case (Cons m rs)
  show ?case
  proof (cases "res \<noteq> [] \<and> tot + getMessageSize m > MAX_LOADED_MESSAGES_CHARS")
    case True
    then show ?thesis using Cons.prems by (intro exI [of _ "rev rs @ [m]"]) (auto simp: totalSize_def)
  next
    case False
    then show ?thesis
      using Cons.IH [of "tot + getMessageSize m" "m # res"] Cons.prems by (auto simp: totalSize_def)
  qed
qed simp

text \<open>The size limit keeps the newest messages: what remains is the longest suffix of the conversation within
  the limit, and at least the last message.\<close>

lemma size_trim_longest_suffix:
  "\<exists>dropped. ms = dropped @ trimMessagesByContentSize ms \<and>
    (totalSize (trimMessagesByContentSize ms) \<le> MAX_LOADED_MESSAGES_CHARS \<or> length (trimMessagesByContentSize ms) \<le> 1) \<and>
    (dropped \<noteq> [] \<longrightarrow> MAX_LOADED_MESSAGES_CHARS < totalSize (last dropped # trimMessagesByContentSize ms))"
  using sizeTrimLoop_spec [of 0 "[]" "rev ms"] by (simp add: trimMessagesByContentSize_def totalSize_def)

lemma suffix_sizeTrim: "suffix (trimMessagesByContentSize ms) ms"
  using sizeTrimLoop_spec [of 0 "[]" "rev ms"]
  by (auto simp: trimMessagesByContentSize_def totalSize_def suffix_def)

lemma suffix_trimMessages: "suffix (trimMessages ms) ms" "length (trimMessages ms) \<le> 100"
  by (simp_all add: trimMessages_def MAX_STORED_MESSAGES_def suffix_drop)

lemma normalize_fields:
  "key (normalizeStoredMessageForLoad m now) = key m"
  "from_role (normalizeStoredMessageForLoad m now) = from_role m"
  "isPendingAssistantMessage (normalizeStoredMessageForLoad m now) \<Longrightarrow> isPendingAssistantMessage m"
  "versions m \<noteq> [] \<Longrightarrow> versions (normalizeStoredMessageForLoad m now) \<noteq> []"
  by (auto simp: normalizeStoredMessageForLoad_def shortenStoredMessage_def isPendingAssistantMessage_def
      isAssistantMessagePending_def Let_def split: if_splits)

lemma convOk_suffix: "suffix xs ms \<Longrightarrow> convOk ms \<Longrightarrow> convOk xs"
proof (cases xs rule: rev_cases)
  case Nil
  then show ?thesis by (simp add: convOk_def)
next
  case (snoc ys y)
  assume "suffix xs ms" "convOk ms"
  then obtain zs where "ms = (zs @ ys) @ [y]" unfolding snoc by (auto simp: suffix_def)
  then show ?thesis using \<open>convOk ms\<close> unfolding snoc by (simp only: convOk_snoc) auto
qed

lemma sanitize_none_pending:
  assumes "convOk ms"
  shows "list_all (\<lambda>m. \<not> isPendingAssistantMessage m) (sanitizeMessagesOnLoad t ms now)"
proof (cases "lastIndex isPendingAssistantMessage ms")
  case None
  then show ?thesis using lastIndex_None [THEN iffD1, OF None] unfolding sanitizeMessagesOnLoad_def by simp
next
  case (Some i)
  have i: "i < length ms" "isPendingAssistantMessage (ms ! i)" using lastIndex_Some [OF Some] by auto
  have "i = length ms - 1"
  proof (rule ccontr)
    assume "i \<noteq> length ms - 1"
    then have "i < length (butlast ms)" using i by simp
    then have "ms ! i \<in> set (butlast ms)" by (metis nth_butlast nth_mem)
    then show False using assms i(2) by (auto simp: convOk_def list_all_iff)
  qed
  then show ?thesis
    using assms i sanitizePending_fields(3) [of t "ms ! i" now]
    unfolding sanitizeMessagesOnLoad_def Some option.case
    by (cases ms rule: rev_cases) (auto simp: convOk_snoc)
qed

lemma map_key_sanitize: "map key (sanitizeMessagesOnLoad t ms now) = map key ms"
proof (cases "lastIndex isPendingAssistantMessage ms")
  case (Some i)
  have "i < length ms" using lastIndex_Some [OF Some] by simp
  then show ?thesis
    unfolding sanitizeMessagesOnLoad_def Some option.case map_update sanitizePending_fields(1) by (metis list_update_id nth_map)
qed (simp add: sanitizeMessagesOnLoad_def)

text \<open>Loading repairs a conversation: from a well-shaped stored conversation it returns its newest
  messages, at most a hundred, in order, none of them waiting for an answer, and again well shaped.\<close>

lemma load_repairs:
  assumes "convOk parsed"
  shows "suffix (map key (loadPipeline t parsed now)) (map key parsed) \<and>
    length (loadPipeline t parsed now) \<le> 100 \<and>
    list_all (\<lambda>m. \<not> isPendingAssistantMessage m) (loadPipeline t parsed now) \<and> convOk (loadPipeline t parsed now)"
proof -
  define norm where "norm = map (\<lambda>m. normalizeStoredMessageForLoad m now) parsed"
  define trimmed where "trimmed = trimMessagesByContentSize (trimMessages norm)"
  have keys: "map key norm = map key parsed" by (simp add: norm_def normalize_fields)
  have suf: "suffix trimmed (trimMessages norm)" "suffix (trimMessages norm) norm"
    by (simp_all add: trimmed_def suffix_sizeTrim suffix_trimMessages)
  have ok: "convOk trimmed"
    using suf assms convOk_map [OF assms, of "\<lambda>m. normalizeStoredMessageForLoad m now"] normalize_fields
    by (auto simp: norm_def intro: convOk_suffix)
  have "suffix (map key trimmed) (map key parsed)"
    using suf keys by (metis map_mono_suffix suffix_order.trans)
  moreover have "length trimmed \<le> 100"
    using suf(1) suffix_trimMessages(2) [of norm] by (meson le_trans suffix_length_le)
  moreover have "loadPipeline t parsed now = sanitizeMessagesOnLoad t trimmed now"
    by (simp add: loadPipeline_def trimmed_def norm_def)
  moreover have "length (sanitizeMessagesOnLoad t trimmed now) = length trimmed"
    by (metis length_map map_key_sanitize)
  ultimately show ?thesis
    using sanitize_none_pending [OF ok] convOk_sanitize [OF ok] by (simp add: map_key_sanitize)
qed

section \<open>Saving and loading\<close>

definition storedEnvelope :: "StorageEnv \<Rightarrow> Message list \<Rightarrow> jsval" where
  "storedEnvelope env ms =
     JObj [(js ''version'', JNum (Num STORAGE_VERSION)), (js ''data'', messagesValue env (trimMessages ms))]"

definition storedText :: "StorageEnv \<Rightarrow> Message list \<Rightarrow> jsstring" where
  "storedText env ms = jsonStringify env (storedEnvelope env ms)"

lemma unwrap_envelope: "unwrapStoredValue (storedEnvelope env ms) = messagesValue env (trimMessages ms)"
  by (simp add: unwrapStoredValue_def storedEnvelope_def js.simps)

lemma saveMessages_stores:
  assumes "messagesSchemaParse env (messagesValue env (trimMessages ms)) = Some (trimMessages ms)"
    and "\<not> setItemThrows env ls MESSAGES_KEY (storedText env ms)"
  shows "saveMessages env ms ls = ls(MESSAGES_KEY \<mapsto> storedText env ms)"
  using assms by (simp add: saveMessages_def writeStoredValue_def storedText_def storedEnvelope_def Let_def)

text \<open>C40. Saving and loading: when the browser accepts the write and JSON and the schema give back what was
  written, the next load returns the last hundred saved messages, repaired, provided the text is within the
  size limit.  Beyond the limit, which saving does not check, the load finds nothing and deletes the text.\<close>

theorem save_then_load:
  assumes schema: "messagesSchemaParse env (messagesValue env (trimMessages ms)) = Some (trimMessages ms)"
    and json: "jsonParse env (storedText env ms) = Some (storedEnvelope env ms)" "storedText env ms \<noteq> []"
    and accepted: "\<not> setItemThrows env ls MESSAGES_KEY (storedText env ms)"
  shows "if length (storedText env ms) \<le> MAX_STORED_MESSAGES_BYTES
    then fst (loadMessages env t now (saveMessages env ms ls)) = Some (loadPipeline t (trimMessages ms) now)
    else loadMessages env t now (saveMessages env ms ls) = (None, ls(MESSAGES_KEY := None))"
proof -
  have saved: "saveMessages env ms ls MESSAGES_KEY = Some (storedText env ms)"
    by (simp add: saveMessages_stores [OF schema accepted])
  have notFalsy: "\<not> falsyVal (storedEnvelope env ms)" by (simp add: storedEnvelope_def)
  show ?thesis
  proof (cases "length (storedText env ms) \<le> MAX_STORED_MESSAGES_BYTES")
    case True
    then have "readStoredMessagesValue env (saveMessages env ms ls)
        = (Inr (Some (storedEnvelope env ms)), saveMessages env ms ls)"
      using json saved by (simp add: readStoredMessagesValue_def)
    then show ?thesis using True notFalsy schema by (simp add: loadMessages_def unwrap_envelope Let_def)
  next
    case False
    then have "readStoredMessagesValue env (saveMessages env ms ls)
        = (Inr None, (saveMessages env ms ls)(MESSAGES_KEY := None))"
      using json saved by (simp add: readStoredMessagesValue_def)
    then show ?thesis
      using False by (simp add: loadMessages_def saveMessages_stores [OF schema accepted])
  qed
qed

definition storedMessage :: Message where
  "storedMessage = createUserMessage (js ''a'') (js ''b'') (js ''hi'') 0"

definition oneMessageEnv :: StorageEnv where
  "oneMessageEnv = \<lparr>jsonParse = (\<lambda>s. if s = js ''[m]''
       then Some (JObj [(js ''version'', JNum (Num 1)), (js ''data'', JArr [JStr (js ''m'')])]) else None),
     jsonStringify = (\<lambda>_. js ''[m]''), setItemThrows = (\<lambda>_ _ _. False),
     messagesSchemaParse = (\<lambda>v. if v = JArr [JStr (js ''m'')] then Some [storedMessage] else None),
     messagesValue = (\<lambda>_. JArr [JStr (js ''m'')]), configSchemaParse = (\<lambda>_. None), configValue = (\<lambda>_. JNull),
     enabledSchemaParse = (\<lambda>_. None), enabledValue = (\<lambda>_. JNull)\<rparr>"

theorem save_then_load_witness:
  "fst (loadMessages oneMessageEnv id 5 (saveMessages oneMessageEnv [storedMessage] Map.empty)) =
     Some (loadPipeline id [storedMessage] 5)"
  using save_then_load [of oneMessageEnv "[storedMessage]" Map.empty id 5]
  by (simp add: oneMessageEnv_def storedText_def storedEnvelope_def trimMessages_def STORAGE_VERSION_def
      MAX_STORED_MESSAGES_BYTES_def MAX_STORED_MESSAGES_def js.simps)

text \<open>Messages sent to the model: exactly the valid messages in order, of which none is an empty answer, so
  the placeholder of the answer being generated is never sent; an image model is never streamed; a sampling
  parameter is sent exactly when it is switched on.\<close>

lemma payload_messages:
  "map msg_content (req_messages (buildChatCompletionPayload ms config enabled)) =
     map getMessageContent (filter isValidMessage ms) \<and>
   list_all (\<lambda>c. msg_role c \<noteq> RAssistant \<or> trim (msg_content c) \<noteq> [])
     (req_messages (buildChatCompletionPayload ms config enabled)) \<and>
   buildChatCompletionPayload (ms @ [createLoadingAssistantMessage k v now]) config enabled =
     buildChatCompletionPayload ms config enabled \<and>
   (req_stream (buildChatCompletionPayload ms config enabled) \<longleftrightarrow> stream config \<and> \<not> isImageGenerationModel (model config)) \<and>
   (req_seed (buildChatCompletionPayload ms config enabled) = None \<longleftrightarrow> \<not> seed_on enabled \<or> seed config = None)"
proof -
  have placeholder: "\<not> isValidMessage (createLoadingAssistantMessage k v now)"
    by (simp add: isValidMessage_def createLoadingAssistantMessage_def createMessageVersion_def hasMessageContent_def
        getMessageContent_def getCurrentVersion_def trim_def)
  have "list_all (\<lambda>c. msg_role c \<noteq> RAssistant \<or> trim (msg_content c) \<noteq> []) (map formatMessageForAPI (filter isValidMessage ms))"
    by (auto simp: list_all_iff formatMessageForAPI_def isValidMessage_def hasMessageContent_def getMessageContent_def)
  then show ?thesis
    by (auto simp: buildChatCompletionPayload_def Let_def placeholder formatMessageForAPI_def getMessageContent_def)
qed

end
