(* ===== verification/StreamRequest.thy ===== *)
theory StreamRequest
  imports PlaygroundMessages
begin

text \<open>
  Streaming an answer (\<open>src/web/src/features/playground/hooks/use-stream-request.ts\<close> and
  \<open>lib/streaming/stream-utils.ts\<close>): decoding the events of a stream, and the controller that lets only the
  latest request through.

  The controller is an automaton.  An event is a call of one of its methods, the settling of the headers a call
  of \<open>send\<close> waits for, or an event of a source; the answer is the list of things it does to the outside, in
  order.  A call of \<open>send\<close> makes at most one source, so the source is identified by the \<open>requestGeneration\<close> of
  its call.  \<open>JSON.parse\<close> is a parameter that returns the data at the type the code gives it.
\<close>

section \<open>Decoding\<close>

record ChunkDelta =
  delta_content :: "jsstring option"
  delta_reasoning_content :: "jsstring option"

record ChatCompletionChunk =
  chunk_choices :: "ChunkDelta option list option"

record StreamErrorPayload =
  payload_code :: "jsstring option"
  payload_message :: "jsstring option"

text \<open>\<open>chunkOf\<close>: \<open>None\<close> when parsing, or reading the choices of null, throws.  \<open>errorOf\<close>: \<open>None\<close> when parsing
  throws, \<open>Some None\<close> when there is no error object.\<close>

record StreamEnv =
  chunkOf :: "jsstring \<Rightarrow> ChatCompletionChunk option"
  errorOf :: "jsstring \<Rightarrow> StreamErrorPayload option option"

definition PARSE_ERROR :: jsstring where
  "PARSE_ERROR = js ''Error parsing response data''"

definition STREAM_START_ERROR :: jsstring where
  "STREAM_START_ERROR = js ''Error establishing connection''"

definition CONNECTION_CLOSED :: jsstring where
  "CONNECTION_CLOSED = js ''Connection closed''"

definition STREAM_DONE_MESSAGE :: jsstring where
  "STREAM_DONE_MESSAGE = js ''[DONE]''"

definition STREAM_CLOSED_READY_STATE :: int where
  "STREAM_CLOSED_READY_STATE = 2"

record StreamErrorDetails =
  det_errorCode :: "jsstring option"
  det_errorMessage :: jsstring

definition nonEmpty :: "jsstring option \<Rightarrow> jsstring option" where
  "nonEmpty s = (case s of Some t \<Rightarrow> if t = [] then None else Some t | None \<Rightarrow> None)"

definition parseStreamErrorDetails :: "StreamEnv \<Rightarrow> jsstring option \<Rightarrow> StreamErrorDetails" where
  "parseStreamErrorDetails env edata =
     (let fallback = \<lparr>det_errorCode = None, det_errorMessage = or_str edata API_REQUEST_ERROR\<rparr> in
      case nonEmpty edata of
        None \<Rightarrow> fallback
      | Some d \<Rightarrow>
          (case errorOf env d of
             Some (Some e) \<Rightarrow> \<lparr>det_errorCode = nonEmpty (payload_code e),
                det_errorMessage = or_str (payload_message e) (det_errorMessage fallback)\<rparr>
           | _ \<Rightarrow> fallback))"

record StreamMessageUpdate =
  upd_type :: StreamChunkType
  upd_chunk :: jsstring

definition firstDelta :: "ChatCompletionChunk \<Rightarrow> ChunkDelta option" where
  "firstDelta chunk = (case chunk_choices chunk of Some (d # _) \<Rightarrow> d | _ \<Rightarrow> None)"

definition parseStreamMessageUpdates :: "StreamEnv \<Rightarrow> jsstring \<Rightarrow> unit + StreamMessageUpdate list" where
  "parseStreamMessageUpdates env edata = (case chunkOf env edata of
     None \<Rightarrow> Inl ()
   | Some chunk \<Rightarrow> Inr (case firstDelta chunk of
       None \<Rightarrow> []
     | Some delta \<Rightarrow>
         (case nonEmpty (delta_reasoning_content delta) of
            Some c \<Rightarrow> [\<lparr>upd_type = ChunkReasoning, upd_chunk = c\<rparr>] | None \<Rightarrow> []) @
         (case nonEmpty (delta_content delta) of
            Some c \<Rightarrow> [\<lparr>upd_type = ChunkContent, upd_chunk = c\<rparr>] | None \<Rightarrow> [])))"

definition isStreamDoneMessage :: "jsstring \<Rightarrow> bool" where
  "isStreamDoneMessage edata \<longleftrightarrow> edata = STREAM_DONE_MESSAGE"

definition isStreamClosedReadyState :: "int option \<Rightarrow> bool" where
  "isStreamClosedReadyState readyState \<longleftrightarrow> readyState = Some STREAM_CLOSED_READY_STATE"

definition getStreamReadyStateError :: "int option \<Rightarrow> int option \<Rightarrow> jsstring option" where
  "getStreamReadyStateError eventReadyState httpStatus = (case (eventReadyState, httpStatus) of
     (Some r, Some s) \<Rightarrow>
       (if r \<ge> STREAM_CLOSED_READY_STATE \<and> s \<noteq> 200
        then Some (js ''HTTP '' @ int_str s @ js '': '' @ CONNECTION_CLOSED) else None)
   | _ \<Rightarrow> None)"

section \<open>The controller\<close>

text \<open>Where a call of \<open>send\<close> stands: waiting for headers, listening to its source (with its variable
  \<open>completed\<close>), or returned before it made a source.\<close>

datatype CallPhase = AwaitHeaders | Listening bool | Returned

record ('p, 'cb) SendCall =
  call_payload :: 'p
  call_callbacks :: 'cb
  call_phase :: CallPhase

record ('p, 'cb) StreamController =
  generation :: nat
  source :: "nat option"
  sendCalls :: "nat \<rightharpoonup> ('p, 'cb) SendCall"

datatype ('p, 'h, 'cb) StreamEffect =
    CreateSource nat 'p 'h
  | StartStream nat
  | CloseSource nat
  | SetStreaming bool
  | OnUpdate 'cb StreamChunkType jsstring
  | OnComplete 'cb
  | OnError 'cb jsstring "jsstring option"

type_synonym ('p, 'h, 'cb) controlled = "('p, 'cb) StreamController \<times> ('p, 'h, 'cb) StreamEffect list"

definition initialController :: "('p, 'cb) StreamController" where
  "initialController = \<lparr>generation = 0, source = None, sendCalls = Map.empty\<rparr>"

definition setPhase :: "('p, 'cb) StreamController \<Rightarrow> nat \<Rightarrow> CallPhase \<Rightarrow> ('p, 'cb) StreamController" where
  "setPhase c g ph = c\<lparr>sendCalls := (sendCalls c)(g := map_option (call_phase_update (\<lambda>_. ph)) (sendCalls c g))\<rparr>"

definition closeActiveSource :: "('p, 'cb) StreamController \<Rightarrow> nat \<Rightarrow> ('p, 'h, 'cb) controlled" where
  "closeActiveSource c target =
     (if source c = Some target then (c\<lparr>source := None\<rparr>, [CloseSource target, SetStreaming False])
      else (c, [CloseSource target]))"

definition closePrevious :: "nat option \<Rightarrow> ('p, 'h, 'cb) StreamEffect list" where
  "closePrevious src = (case src of Some g \<Rightarrow> [CloseSource g] | None \<Rightarrow> [])"

text \<open>\<open>send\<close> up to its \<open>await\<close>.\<close>

definition sendStart :: "('p, 'cb) StreamController \<Rightarrow> 'p \<Rightarrow> 'cb \<Rightarrow> ('p, 'h, 'cb) controlled" where
  "sendStart c payload callbacks =
     (let requestGeneration = generation c + 1 in
      (c\<lparr>generation := requestGeneration, source := None,
         sendCalls := (sendCalls c)(requestGeneration \<mapsto>
           \<lparr>call_payload = payload, call_callbacks = callbacks, call_phase = AwaitHeaders\<rparr>)\<rparr>,
       closePrevious (source c) @ [SetStreaming False]))"

text \<open>The headers are refused: \<open>Some\<close> is the message of an \<open>Error\<close>, \<open>None\<close> any other value.\<close>

definition sendRejected :: "('p, 'cb) StreamController \<Rightarrow> nat \<Rightarrow> jsstring option \<Rightarrow> ('p, 'h, 'cb) controlled" where
  "sendRejected c g err = (case sendCalls c g of
     Some call \<Rightarrow>
       (if call_phase call \<noteq> AwaitHeaders then (c, [])
        else if generation c \<noteq> g then (setPhase c g Returned, [])
        else (setPhase c g Returned,
          [OnError (call_callbacks call) (case err of Some e \<Rightarrow> e | None \<Rightarrow> STREAM_START_ERROR) None]))
   | None \<Rightarrow> (c, []))"

definition isCurrentSource :: "('p, 'cb) StreamController \<Rightarrow> nat \<Rightarrow> bool" where
  "isCurrentSource c g \<longleftrightarrow> generation c = g \<and> source c = Some g"

definition completed :: "('p, 'cb) StreamController \<Rightarrow> nat \<Rightarrow> bool" where
  "completed c g \<longleftrightarrow> (case sendCalls c g of Some call \<Rightarrow> call_phase call \<noteq> Listening False | None \<Rightarrow> True)"

definition handleError ::
  "('p, 'cb) StreamController \<Rightarrow> nat \<Rightarrow> jsstring \<Rightarrow> jsstring option \<Rightarrow> ('p, 'h, 'cb) controlled" where
  "handleError c g errorMessage errCode =
     (if \<not> isCurrentSource c g \<or> completed c g then (c, [])
      else (case (sendCalls c g, closeActiveSource (setPhase c g (Listening True)) g) of
          (Some call, c', effects) \<Rightarrow> (c', OnError (call_callbacks call) errorMessage errCode # effects)
        | (None, c', effects) \<Rightarrow> (c, [])))"

text \<open>The rest of \<open>send\<close> when the headers arrive; \<open>streamThrows\<close>: starting the source throws.\<close>

definition sendResumed ::
  "('p, 'cb) StreamController \<Rightarrow> nat \<Rightarrow> 'h \<Rightarrow> bool \<Rightarrow> ('p, 'h, 'cb) controlled" where
  "sendResumed c g headers streamThrows = (case sendCalls c g of
     Some call \<Rightarrow>
       (if call_phase call \<noteq> AwaitHeaders then (c, [])
        else if generation c \<noteq> g then (setPhase c g Returned, [])
        else
          (let c1 = (setPhase c g (Listening False))\<lparr>source := Some g\<rparr>;
               (c2, effects) = (if \<not> isCurrentSource c1 g then (c1, [])
                 else if streamThrows then handleError c1 g STREAM_START_ERROR None
                 else (c1, [StartStream g])) in
           (c2, [CreateSource g (call_payload call) headers, SetStreaming True] @ effects)))
   | None \<Rightarrow> (c, []))"

definition onMessage :: "StreamEnv \<Rightarrow> ('p, 'cb) StreamController \<Rightarrow> nat \<Rightarrow> jsstring option \<Rightarrow> ('p, 'h, 'cb) controlled" where
  "onMessage env c g eventData =
     (if \<not> isCurrentSource c g \<or> completed c g then (c, [])
      else (let edata = (case eventData of Some d \<Rightarrow> d | None \<Rightarrow> []) in
        case sendCalls c g of
          None \<Rightarrow> (c, [])
        | Some call \<Rightarrow>
            (if isStreamDoneMessage edata
             then (case closeActiveSource (setPhase c g (Listening True)) g of
                 (c', effects) \<Rightarrow> (c', effects @ [OnComplete (call_callbacks call)]))
             else (case parseStreamMessageUpdates env edata of
                 Inr updates \<Rightarrow> (c, map (\<lambda>u. OnUpdate (call_callbacks call) (upd_type u) (upd_chunk u)) updates)
               | Inl _ \<Rightarrow> handleError c g PARSE_ERROR None))))"

definition onErrorEvent ::
  "StreamEnv \<Rightarrow> ('p, 'cb) StreamController \<Rightarrow> nat \<Rightarrow> int option \<Rightarrow> jsstring option \<Rightarrow> ('p, 'h, 'cb) controlled" where
  "onErrorEvent env c g sourceReadyState eventData =
     (if \<not> isCurrentSource c g \<or> completed c g then (c, [])
      else if isStreamClosedReadyState sourceReadyState then (c, [])
      else (let d = parseStreamErrorDetails env eventData in handleError c g (det_errorMessage d) (det_errorCode d)))"

definition onReadyStateChange ::
  "('p, 'cb) StreamController \<Rightarrow> nat \<Rightarrow> int option \<Rightarrow> int option \<Rightarrow> ('p, 'h, 'cb) controlled" where
  "onReadyStateChange c g eventReadyState httpStatus =
     (if \<not> isCurrentSource c g \<or> completed c g then (c, [])
      else (case nonEmpty (getStreamReadyStateError eventReadyState httpStatus) of
          Some e \<Rightarrow> handleError c g e None | None \<Rightarrow> (c, [])))"

definition cancel :: "('p, 'cb) StreamController \<Rightarrow> bool \<Rightarrow> ('p, 'h, 'cb) controlled" where
  "cancel c notify =
     (c\<lparr>generation := generation c + 1, source := None\<rparr>,
      closePrevious (source c) @ (if notify then [SetStreaming False] else []))"

definition stop :: "('p, 'cb) StreamController \<Rightarrow> ('p, 'h, 'cb) controlled" where
  "stop c = cancel c True"

definition dispose :: "('p, 'cb) StreamController \<Rightarrow> ('p, 'h, 'cb) controlled" where
  "dispose c = cancel c False"

datatype ('p, 'h, 'cb) StreamEvent =
    Send 'p 'cb
  | HeadersArrive nat 'h bool
  | HeadersFail nat "jsstring option"
  | MessageEvent nat "jsstring option"
  | ErrorEvent nat "int option" "jsstring option"
  | ReadyStateEvent nat "int option" "int option"
  | Stop
  | Dispose

fun controllerStep :: "StreamEnv \<Rightarrow> ('p, 'cb) StreamController \<Rightarrow> ('p, 'h, 'cb) StreamEvent \<Rightarrow> ('p, 'h, 'cb) controlled" where
  "controllerStep env c (Send payload callbacks) = sendStart c payload callbacks"
| "controllerStep env c (HeadersArrive g headers throws) = sendResumed c g headers throws"
| "controllerStep env c (HeadersFail g err) = sendRejected c g err"
| "controllerStep env c (MessageEvent g d) = onMessage env c g d"
| "controllerStep env c (ErrorEvent g ready d) = onErrorEvent env c g ready d"
| "controllerStep env c (ReadyStateEvent g ready s) = onReadyStateChange c g ready s"
| "controllerStep env c Stop = stop c"
| "controllerStep env c Dispose = dispose c"

end
