(* ===== verification/ChatHandler.thy ===== *)
theory ChatHandler
  imports StreamRequest
begin

text \<open>
  Sending and receiving in the playground (\<open>src/web/src/features/playground/hooks/use-chat-handler.ts\<close> and
  \<open>hooks/use-playground-conversation.ts\<close>): the handlers that start a request, buffer streamed chunks, flush them
  on a timer, finish, fail and stop, together with the stream controller they drive and the conversation they
  update.

  The references and states of the hooks are one record.  \<open>onMessageUpdate\<close> hands a function to React, which
  runs the functions it was given, in order, when it renders; the functions the code makes are the constructors
  of \<open>MessageUpdate\<close>, and rendering is an operation of its own.  The callbacks given to the controller are
  identified by the generation they were made for.  Translations (\<open>t\<close>), the time and the results of \<open>nanoid\<close>
  are arguments.  Notifications on the screen are not modelled.
\<close>

section \<open>Errors of requests\<close>

definition NETWORK_ERROR :: jsstring where
  "NETWORK_ERROR = js ''Network connection failed or server not responding''"

record RequestErrorLike =
  err_data_code :: "jsstring option"
  err_data_message :: "jsstring option"
  err_message :: "jsstring option"

record RequestErrorDetails =
  req_errorCode :: "jsstring option"
  req_errorMessage :: jsstring

definition parseRequestErrorDetails :: "RequestErrorLike \<Rightarrow> RequestErrorDetails" where
  "parseRequestErrorDetails e =
     \<lparr>req_errorCode = nonEmpty (err_data_code e),
      req_errorMessage = or_str (err_data_message e) (or_str (err_message e) API_REQUEST_ERROR)\<rparr>"

definition KNOWN_ERROR_MESSAGES :: "jsstring list" where
  "KNOWN_ERROR_MESSAGES =
     [API_REQUEST_ERROR, NETWORK_ERROR, PARSE_ERROR, STREAM_START_ERROR, CONNECTION_CLOSED, INTERRUPTED]"

definition getDisplayError :: "(jsstring \<Rightarrow> jsstring) \<Rightarrow> jsstring \<Rightarrow> jsstring" where
  "getDisplayError t error =
     (if error \<in> set KNOWN_ERROR_MESSAGES then t error
      else if suffix (js '': '' @ CONNECTION_CLOSED) error
      then take (length error - length CONNECTION_CLOSED) error @ t CONNECTION_CLOSED
      else error)"

section \<open>State\<close>

record PendingStreamChunks =
  pend_generation :: nat
  pend_content :: jsstring
  pend_reasoning :: jsstring

datatype MessageUpdate =
    SetMessages "Message list"
  | RemoveMessage jsstring
  | FlushChunks nat jsstring jsstring
  | CompleteStream nat
  | FailStream nat jsstring "jsstring option" jsstring
  | ApplyResponse nat "ChatCompletionChoice list"
  | AttachVideos "jsstring list"
  | CompleteStopped nat

record VideoGenerationRequest =
  vid_model :: jsstring
  vid_group :: jsstring
  vid_channel_id :: "int option"
  vid_prompt :: jsstring
  vid_duration :: nat
  vid_resolution :: jsstring
  vid_aspect_ratio :: jsstring
  vid_generate_audio :: bool

datatype VideoStatus = VPending | VInProgress | VCompleted | VFailed | VCancelled | VExpired

record VideoGenerationResponse =
  task_status :: VideoStatus
  task_error :: "jsstring option"
  task_unsigned_urls :: "jsstring list option"

text \<open>What an asynchronous call waits for: an answer without streaming, the state of a video task, or the pause
  before asking again.  An abort controller is identified by the generation that made it.\<close>

datatype Waiting = ForResponse | ForTask | ForPause

record 'n ChatHandler =
  controller :: "('n ChatCompletionRequest, nat) StreamController"
  requestGeneration :: nat
  pendingStreamChunks :: PendingStreamChunks
  streamFlushTimer :: "nat option"
  isRequesting :: bool
  isStreaming :: bool
  abortController :: "nat option"
  aborted :: "nat list"
  waiting :: "nat \<rightharpoonup> Waiting"
  chatCalls :: "'n ChatCompletionRequest list"
  videoCalls :: "VideoGenerationRequest list"
  messages :: "Message list"
  messageUpdates :: "MessageUpdate list"
  editingMessageKey :: "jsstring option"
  config :: "'n PlaygroundConfig"
  parameterEnabled :: ParameterEnabled

definition initialChatHandler :: "'n PlaygroundConfig \<Rightarrow> ParameterEnabled \<Rightarrow> Message list \<Rightarrow> 'n ChatHandler" where
  "initialChatHandler cfg enabled ms =
     \<lparr>controller = initialController, requestGeneration = 0,
      pendingStreamChunks = \<lparr>pend_generation = 0, pend_content = [], pend_reasoning = []\<rparr>, streamFlushTimer = None,
      isRequesting = False, isStreaming = False, abortController = None, aborted = [], waiting = Map.empty,
      chatCalls = [], videoCalls = [], messages = ms, messageUpdates = [], editingMessageKey = None, config = cfg,
      parameterEnabled = enabled\<rparr>"

definition isGenerating :: "'n ChatHandler \<Rightarrow> bool" where
  "isGenerating h \<longleftrightarrow> isStreaming h \<or> isRequesting h"

section \<open>Message updates\<close>

definition applyFlushed :: "jsstring \<Rightarrow> jsstring \<Rightarrow> int \<Rightarrow> Message \<Rightarrow> Message" where
  "applyFlushed reasoningChunk contentChunk now m =
     (let m1 = (if reasoningChunk \<noteq> [] then applyStreamingChunk m ChunkReasoning reasoningChunk now else m) in
      if contentChunk \<noteq> [] then applyStreamingChunk m1 ChunkContent contentChunk now else m1)"

text \<open>One update, run when the current generation is \<open>current\<close>.\<close>

fun runUpdate :: "nat \<Rightarrow> int \<Rightarrow> MessageUpdate \<Rightarrow> Message list \<Rightarrow> Message list" where
  "runUpdate current now (SetMessages ms) prev = ms"
| "runUpdate current now (RemoveMessage k) prev = removeMessageByKey prev k"
| "runUpdate current now (FlushChunks g reasoningChunk contentChunk) prev =
     (if g \<noteq> current then prev else updateLastAssistantMessage prev (applyFlushed reasoningChunk contentChunk now))"
| "runUpdate current now (CompleteStream g) prev =
     (if g \<noteq> current then prev
      else updateLastAssistantMessage prev (\<lambda>m. if isAssistantMessageFinal m then m else completeAssistantMessage m now))"
| "runUpdate current now (FailStream g displayError code title) prev =
     (if g \<noteq> current then prev else updateAssistantMessageWithError prev displayError code title now)"
| "runUpdate current now (ApplyResponse g choices) prev =
     (if g \<noteq> current then prev
      else updateLastAssistantMessage prev (\<lambda>m.
        case applyChatCompletionResponse m choices now of Some m' \<Rightarrow> m' | None \<Rightarrow> m))"
| "runUpdate current now (AttachVideos urls) prev =
     updateLastAssistantMessage prev (\<lambda>m. completeAssistantMessage (m\<lparr>videos := Some urls\<rparr>) now)"
| "runUpdate current now (CompleteStopped g) prev =
     (if g \<noteq> current then prev
      else updateLastAssistantMessage prev (\<lambda>m. if isAssistantMessagePending m then completeAssistantMessage m now else m))"

definition onMessageUpdate :: "'n ChatHandler \<Rightarrow> MessageUpdate \<Rightarrow> 'n ChatHandler" where
  "onMessageUpdate h u = h\<lparr>messageUpdates := messageUpdates h @ [u]\<rparr>"

definition settledMessages :: "'n ChatHandler \<Rightarrow> int \<Rightarrow> Message list" where
  "settledMessages h now = fold (runUpdate (requestGeneration h) now) (messageUpdates h) (messages h)"

definition render :: "'n ChatHandler \<Rightarrow> int \<Rightarrow> 'n ChatHandler" where
  "render h now = h\<lparr>messages := settledMessages h now, messageUpdates := []\<rparr>"

section \<open>Streaming handlers\<close>

definition mergePendingStreamChunk :: "jsstring \<Rightarrow> jsstring \<Rightarrow> jsstring" where
  "mergePendingStreamChunk currentChunk nextChunk =
     (if currentChunk = [] \<or> \<not> startsWith nextChunk currentChunk then currentChunk @ nextChunk else nextChunk)"

definition discardPendingStreamUpdates :: "'n ChatHandler \<Rightarrow> nat \<Rightarrow> 'n ChatHandler" where
  "discardPendingStreamUpdates h g =
     h\<lparr>streamFlushTimer := None, pendingStreamChunks := \<lparr>pend_generation = g, pend_content = [], pend_reasoning = []\<rparr>\<rparr>"

definition flushStreamUpdates :: "'n ChatHandler \<Rightarrow> nat \<Rightarrow> 'n ChatHandler" where
  "flushStreamUpdates h g =
     (if g \<noteq> requestGeneration h then h
      else
        (let h1 = h\<lparr>streamFlushTimer := None\<rparr>; p = pendingStreamChunks h in
         if pend_generation p \<noteq> g then h1
         else if pend_reasoning p = [] \<and> pend_content p = [] then h1
         else onMessageUpdate
           (h1\<lparr>pendingStreamChunks := \<lparr>pend_generation = g, pend_content = [], pend_reasoning = []\<rparr>\<rparr>)
           (FlushChunks g (pend_reasoning p) (pend_content p))))"

definition scheduleStreamFlush :: "'n ChatHandler \<Rightarrow> nat \<Rightarrow> 'n ChatHandler" where
  "scheduleStreamFlush h g =
     (if g \<noteq> requestGeneration h then h
      else if streamFlushTimer h \<noteq> None then h else h\<lparr>streamFlushTimer := Some g\<rparr>)"

definition flushTimerFires :: "'n ChatHandler \<Rightarrow> 'n ChatHandler" where
  "flushTimerFires h = (case streamFlushTimer h of Some g \<Rightarrow> flushStreamUpdates h g | None \<Rightarrow> h)"

definition handleStreamUpdate :: "'n ChatHandler \<Rightarrow> nat \<Rightarrow> StreamChunkType \<Rightarrow> jsstring \<Rightarrow> 'n ChatHandler" where
  "handleStreamUpdate h g type chunk =
     (let p = pendingStreamChunks h in
      if g \<noteq> requestGeneration h then h
      else if pend_generation p \<noteq> g then h
      else scheduleStreamFlush (h\<lparr>pendingStreamChunks := (case type of
          ChunkReasoning \<Rightarrow> p\<lparr>pend_reasoning := mergePendingStreamChunk (pend_reasoning p) chunk\<rparr>
        | ChunkContent \<Rightarrow> p\<lparr>pend_content := mergePendingStreamChunk (pend_content p) chunk\<rparr>)\<rparr>) g)"

definition handleStreamComplete :: "'n ChatHandler \<Rightarrow> nat \<Rightarrow> 'n ChatHandler" where
  "handleStreamComplete h g =
     (if g \<noteq> requestGeneration h then h
      else onMessageUpdate ((flushStreamUpdates h g)\<lparr>isRequesting := False\<rparr>) (CompleteStream g))"

definition handleStreamError ::
  "(jsstring \<Rightarrow> jsstring) \<Rightarrow> 'n ChatHandler \<Rightarrow> nat \<Rightarrow> jsstring \<Rightarrow> jsstring option \<Rightarrow> 'n ChatHandler" where
  "handleStreamError t h g error code =
     (if g \<noteq> requestGeneration h then h
      else onMessageUpdate ((flushStreamUpdates h g)\<lparr>isRequesting := False\<rparr>)
        (FailStream g (getDisplayError t error) code (t API_REQUEST_ERROR)))"

text \<open>What the controller does to the hooks.\<close>

fun controllerEffect ::
  "(jsstring \<Rightarrow> jsstring) \<Rightarrow> 'n ChatHandler \<Rightarrow> ('n ChatCompletionRequest, 'h, nat) StreamEffect \<Rightarrow> 'n ChatHandler" where
  "controllerEffect t h (SetStreaming b) = h\<lparr>isStreaming := b\<rparr>"
| "controllerEffect t h (OnUpdate g type chunk) = handleStreamUpdate h g type chunk"
| "controllerEffect t h (OnComplete g) = handleStreamComplete h g"
| "controllerEffect t h (OnError g e code) = handleStreamError t h g e code"
| "controllerEffect t h (CreateSource _ _ _) = h"
| "controllerEffect t h (StartStream _) = h"
| "controllerEffect t h (CloseSource _) = h"

definition driveController ::
  "StreamEnv \<Rightarrow> (jsstring \<Rightarrow> jsstring) \<Rightarrow> 'n ChatHandler \<Rightarrow>
     ('n ChatCompletionRequest, 'h, nat) StreamEvent \<Rightarrow> 'n ChatHandler" where
  "driveController env t h e = (case controllerStep env (controller h) e of
     (c, effects) \<Rightarrow> foldl (controllerEffect t) (h\<lparr>controller := c\<rparr>) effects)"

section \<open>Sending\<close>

definition abortCurrent :: "'n ChatHandler \<Rightarrow> 'n ChatHandler" where
  "abortCurrent h = h\<lparr>aborted := (case abortController h of Some a \<Rightarrow> a # aborted h | None \<Rightarrow> aborted h), abortController := None\<rparr>"

definition sendStreamingChat ::
  "StreamEnv \<Rightarrow> (jsstring \<Rightarrow> jsstring) \<Rightarrow> 'n ChatHandler \<Rightarrow> Message list \<Rightarrow> 'n ChatHandler" where
  "sendStreamingChat env t h ms =
     (let g = requestGeneration h + 1;
          h1 = (discardPendingStreamUpdates (abortCurrent (h\<lparr>requestGeneration := g\<rparr>)) g)\<lparr>isRequesting := True\<rparr>;
          payload = buildChatCompletionPayload ms (config h) (parameterEnabled h) in
      driveController env t h1 (Send payload g :: ('n ChatCompletionRequest, unit, nat) StreamEvent))"

definition stopStream :: "StreamEnv \<Rightarrow> (jsstring \<Rightarrow> jsstring) \<Rightarrow> 'n ChatHandler \<Rightarrow> 'n ChatHandler" where
  "stopStream env t h = driveController env t h (Stop :: ('n ChatCompletionRequest, unit, nat) StreamEvent)"

text \<open>The common start of the two kinds of request that do not stream.\<close>

definition beginRequest ::
  "StreamEnv \<Rightarrow> (jsstring \<Rightarrow> jsstring) \<Rightarrow> 'n ChatHandler \<Rightarrow> Waiting \<Rightarrow> 'n ChatHandler" where
  "beginRequest env t h w =
     (let g = requestGeneration h + 1;
          h1 = abortCurrent (discardPendingStreamUpdates (stopStream env t (h\<lparr>requestGeneration := g\<rparr>)) g) in
      h1\<lparr>abortController := Some g, isRequesting := True, waiting := (waiting h1)(g \<mapsto> w)\<rparr>)"

definition sendNonStreamingChat ::
  "StreamEnv \<Rightarrow> (jsstring \<Rightarrow> jsstring) \<Rightarrow> 'n ChatHandler \<Rightarrow> Message list \<Rightarrow> 'n ChatHandler" where
  "sendNonStreamingChat env t h ms =
     (let payload = buildChatCompletionPayload ms (config h) (parameterEnabled h);
          h1 = beginRequest env t h ForResponse in
      h1\<lparr>chatCalls := chatCalls h1 @ [payload]\<rparr>)"

definition requestFinally :: "'n ChatHandler \<Rightarrow> nat \<Rightarrow> 'n ChatHandler" where
  "requestFinally h g =
     (let h1 = h\<lparr>waiting := (waiting h)(g := None)\<rparr> in
      if requestGeneration h1 = g then h1\<lparr>abortController := None, isRequesting := False\<rparr> else h1)"

text \<open>The answer of a request without streaming: choices, or an error.\<close>

definition responseSettles ::
  "(jsstring \<Rightarrow> jsstring) \<Rightarrow> 'n ChatHandler \<Rightarrow> nat \<Rightarrow> RequestErrorLike + ChatCompletionChoice list \<Rightarrow> 'n ChatHandler" where
  "responseSettles t h g result =
     (if waiting h g \<noteq> Some ForResponse then h
      else requestFinally
        (if g \<in> set (aborted h) \<or> requestGeneration h \<noteq> g then h
         else (case result of
             Inr choices \<Rightarrow>
               (if \<not> hasChatCompletionChoice choices then handleStreamError t h g API_REQUEST_ERROR None
                else onMessageUpdate h (ApplyResponse g choices))
           | Inl e \<Rightarrow>
               (let d = parseRequestErrorDetails e in handleStreamError t h g (req_errorMessage d) (req_errorCode d)))) g)"

definition videoRequest :: "'n ChatHandler \<Rightarrow> Message list \<Rightarrow> VideoGenerationRequest" where
  "videoRequest h ms =
     \<lparr>vid_model = model (config h), vid_group = group (config h), vid_channel_id = channel_id (config h),
      vid_prompt = (if ms = [] then [] else case versions (last ms) of v # _ \<Rightarrow> content v | [] \<Rightarrow> []),
      vid_duration = 10, vid_resolution = js ''720p'', vid_aspect_ratio = js ''16:9'',
      vid_generate_audio = supportsGeneratedAudio (model (config h))\<rparr>"

definition sendVideo ::
  "StreamEnv \<Rightarrow> (jsstring \<Rightarrow> jsstring) \<Rightarrow> 'n ChatHandler \<Rightarrow> Message list \<Rightarrow> 'n ChatHandler" where
  "sendVideo env t h ms =
     (let h1 = beginRequest env t h ForTask in h1\<lparr>videoCalls := videoCalls h1 @ [videoRequest h ms]\<rparr>)"

text \<open>The state of a video task arrives: it is asked again after a pause until it is final.\<close>

definition taskSettles ::
  "(jsstring \<Rightarrow> jsstring) \<Rightarrow> 'n ChatHandler \<Rightarrow> nat \<Rightarrow> RequestErrorLike + VideoGenerationResponse \<Rightarrow> 'n ChatHandler" where
  "taskSettles t h g result =
     (if waiting h g \<noteq> Some ForTask then h
      else (case result of
          Inr task \<Rightarrow>
            (if task_status task \<in> {VPending, VInProgress} then h\<lparr>waiting := (waiting h)(g \<mapsto> ForPause)\<rparr>
             else requestFinally
               (case task_unsigned_urls task of
                  Some (url # urls) \<Rightarrow>
                    (if task_status task = VCompleted then onMessageUpdate h (AttachVideos (url # urls))
                     else handleStreamError t h g (or_str (task_error task) (t (js ''Video generation failed''))) None)
                | _ \<Rightarrow> handleStreamError t h g (or_str (task_error task) (t (js ''Video generation failed''))) None) g)
        | Inl e \<Rightarrow>
            requestFinally
              (if g \<in> set (aborted h) then h
               else (let d = parseRequestErrorDetails e in handleStreamError t h g (req_errorMessage d) (req_errorCode d))) g))"

definition pauseEnds :: "'n ChatHandler \<Rightarrow> nat \<Rightarrow> 'n ChatHandler" where
  "pauseEnds h g =
     (if waiting h g \<noteq> Some ForPause then h
      else if g \<in> set (aborted h) then requestFinally h g
      else h\<lparr>waiting := (waiting h)(g \<mapsto> ForTask)\<rparr>)"

definition sendChat ::
  "StreamEnv \<Rightarrow> (jsstring \<Rightarrow> jsstring) \<Rightarrow> 'n ChatHandler \<Rightarrow> Message list \<Rightarrow> 'n ChatHandler" where
  "sendChat env t h ms =
     (if isVideoGenerationModel (model (config h)) then sendVideo env t h ms
      else if stream (config h) \<and> \<not> isImageGenerationModel (model (config h)) then sendStreamingChat env t h ms
      else sendNonStreamingChat env t h ms)"

definition stopGeneration :: "StreamEnv \<Rightarrow> (jsstring \<Rightarrow> jsstring) \<Rightarrow> 'n ChatHandler \<Rightarrow> 'n ChatHandler" where
  "stopGeneration env t h =
     (let stopped = requestGeneration h; idle = stopped + 1;
          h1 = discardPendingStreamUpdates ((flushStreamUpdates h stopped)\<lparr>requestGeneration := idle\<rparr>) idle;
          h2 = (abortCurrent (stopStream env t h1))\<lparr>isRequesting := False\<rparr> in
      onMessageUpdate h2 (CompleteStopped idle))"

section \<open>Actions on the conversation\<close>

definition handleSendMessage ::
  "StreamEnv \<Rightarrow> (jsstring \<Rightarrow> jsstring) \<Rightarrow> (nat \<Rightarrow> jsstring) \<Rightarrow> int \<Rightarrow> 'n ChatHandler \<Rightarrow> jsstring \<Rightarrow> 'n ChatHandler" where
  "handleSendMessage env t nanoid now h input =
     (let next = appendUserMessagePair nanoid (messages h) input now in
      sendChat env t (onMessageUpdate h (SetMessages next)) next)"

definition handleRegenerateMessage ::
  "StreamEnv \<Rightarrow> (jsstring \<Rightarrow> jsstring) \<Rightarrow> (nat \<Rightarrow> jsstring) \<Rightarrow> int \<Rightarrow> 'n ChatHandler \<Rightarrow> jsstring \<Rightarrow> 'n ChatHandler" where
  "handleRegenerateMessage env t nanoid now h messageKey =
     (case createRegeneratedMessages nanoid (messages h) messageKey now of
        None \<Rightarrow> h
      | Some next \<Rightarrow> sendChat env t (onMessageUpdate h (SetMessages next)) next)"

definition handleEditMessage :: "'n ChatHandler \<Rightarrow> jsstring \<Rightarrow> 'n ChatHandler" where
  "handleEditMessage h messageKey = h\<lparr>editingMessageKey := Some messageKey\<rparr>"

definition handleEditOpenChange :: "'n ChatHandler \<Rightarrow> bool \<Rightarrow> 'n ChatHandler" where
  "handleEditOpenChange h open = (if \<not> open then h\<lparr>editingMessageKey := None\<rparr> else h)"

definition applyEdit ::
  "StreamEnv \<Rightarrow> (jsstring \<Rightarrow> jsstring) \<Rightarrow> (nat \<Rightarrow> jsstring) \<Rightarrow> int \<Rightarrow> 'n ChatHandler \<Rightarrow> jsstring \<Rightarrow> bool \<Rightarrow> 'n ChatHandler" where
  "applyEdit env t nanoid now h newContent shouldSubmit =
     (case nonEmpty (editingMessageKey h) of
        None \<Rightarrow> h
      | Some k \<Rightarrow>
          (case applyMessageEdit nanoid (messages h) k newContent shouldSubmit now of
             None \<Rightarrow> h
           | Some (ms, shouldSend) \<Rightarrow>
               (let h1 = onMessageUpdate (h\<lparr>editingMessageKey := None\<rparr>) (SetMessages ms) in
                if shouldSend then sendChat env t h1 ms else h1)))"

definition handleDeleteMessage :: "'n ChatHandler \<Rightarrow> jsstring \<Rightarrow> 'n ChatHandler" where
  "handleDeleteMessage h messageKey = onMessageUpdate h (RemoveMessage messageKey)"

section \<open>All the events of the page\<close>

datatype ('n, 'h) ChatEvent =
    UserSends "nat \<Rightarrow> jsstring" int jsstring
  | UserRegenerates "nat \<Rightarrow> jsstring" int jsstring
  | UserEdits jsstring
  | EditOpenChanges bool
  | UserSubmitsEdit "nat \<Rightarrow> jsstring" int jsstring bool
  | UserDeletes jsstring
  | UserStops
  | ConfigChanges "'n PlaygroundConfig" ParameterEnabled
  | NetworkEvent "('n ChatCompletionRequest, 'h, nat) StreamEvent"
  | ResponseSettles nat "RequestErrorLike + ChatCompletionChoice list"
  | TaskSettles nat "RequestErrorLike + VideoGenerationResponse"
  | PauseEnds nat
  | FlushTimer
  | Renders int

text \<open>The events of the network: \<open>send\<close>, \<open>stop\<close> and \<open>dispose\<close> come from the handlers only.\<close>

fun isNetworkEvent :: "('p, 'h, 'cb) StreamEvent \<Rightarrow> bool" where
  "isNetworkEvent (Send _ _) = False"
| "isNetworkEvent Stop = False"
| "isNetworkEvent Dispose = False"
| "isNetworkEvent _ = True"

fun chatStep :: "StreamEnv \<Rightarrow> (jsstring \<Rightarrow> jsstring) \<Rightarrow> 'n ChatHandler \<Rightarrow> ('n, 'h) ChatEvent \<Rightarrow> 'n ChatHandler" where
  "chatStep env t h (UserSends nanoid now input) = handleSendMessage env t nanoid now h input"
| "chatStep env t h (UserRegenerates nanoid now k) = handleRegenerateMessage env t nanoid now h k"
| "chatStep env t h (UserEdits k) = handleEditMessage h k"
| "chatStep env t h (EditOpenChanges b) = handleEditOpenChange h b"
| "chatStep env t h (UserSubmitsEdit nanoid now input submit) = applyEdit env t nanoid now h input submit"
| "chatStep env t h (UserDeletes k) = handleDeleteMessage h k"
| "chatStep env t h UserStops = stopGeneration env t h"
| "chatStep env t h (ConfigChanges cfg enabled) = h\<lparr>config := cfg, parameterEnabled := enabled\<rparr>"
| "chatStep env t h (NetworkEvent e) = (if isNetworkEvent e then driveController env t h e else h)"
| "chatStep env t h (ResponseSettles g r) = responseSettles t h g r"
| "chatStep env t h (TaskSettles g r) = taskSettles t h g r"
| "chatStep env t h (PauseEnds g) = pauseEnds h g"
| "chatStep env t h FlushTimer = flushTimerFires h"
| "chatStep env t h (Renders now) = render h now"

definition runChat :: "StreamEnv \<Rightarrow> (jsstring \<Rightarrow> jsstring) \<Rightarrow> 'n ChatHandler \<Rightarrow> ('n, 'h) ChatEvent list \<Rightarrow> 'n ChatHandler" where
  "runChat env t h evs = foldl (chatStep env t) h evs"

end
