(* ===== verification/StreamProofs.thy ===== *)
theory StreamProofs
  imports StreamRequest
begin

text \<open>
  Theorems about the stream controller.  What its clients rely on is a locale: an automaton that serves one
  owner at a time, calls only that owner's callbacks and ends with a final call.  The laws over whole runs are
  proved in the locale; the controller is its interpretation.
\<close>

section \<open>Runs of an automaton with outputs\<close>

fun runSteps :: "('s \<Rightarrow> 'e \<Rightarrow> 's \<times> 'o list) \<Rightarrow> 's \<Rightarrow> 'e list \<Rightarrow> 's \<times> 'o list" where
  "runSteps step s [] = (s, [])"
| "runSteps step s (e # es) =
     (case step s e of (s', out) \<Rightarrow> (case runSteps step s' es of (s'', out') \<Rightarrow> (s'', out @ out')))"

lemma runSteps_append:
  "runSteps step s (xs @ ys) =
     (case runSteps step s xs of (s', out) \<Rightarrow> (case runSteps step s' ys of (s'', out') \<Rightarrow> (s'', out @ out')))"
  by (induction xs arbitrary: s) (simp_all split: prod.splits)

lemma runSteps_invariant:
  assumes "\<And>s e s' out. P s \<Longrightarrow> step s e = (s', out) \<Longrightarrow> P s'"
  shows "P s \<Longrightarrow> P (fst (runSteps step s es))"
proof (induction es arbitrary: s)
  case (Cons e es)
  obtain s' out where "step s e = (s', out)" by fastforce
  then show ?case using Cons.IH [of s'] Cons.prems assms [of s e s' out] by (auto split: prod.split)
qed simp

text \<open>At most one final output, and nothing after it.\<close>

fun endsOnce :: "('o \<Rightarrow> bool) \<Rightarrow> 'o list \<Rightarrow> bool" where
  "endsOnce final [] = True"
| "endsOnce final (x # xs) = (if final x then xs = [] else endsOnce final xs)"

lemma endsOnce_append_open: "\<forall>x \<in> set xs. \<not> final x \<Longrightarrow> endsOnce final (xs @ ys) = endsOnce final ys"
  by (induction xs) auto

section \<open>Serving the latest request only\<close>

locale latest_wins =
  fixes step :: "'s \<Rightarrow> 'e \<Rightarrow> 's \<times> 'o list" and inv :: "'s \<Rightarrow> bool" and owner :: "'s \<Rightarrow> 'cb option"
    and starts :: "'e \<Rightarrow> 'cb option" and callee :: "'o \<Rightarrow> 'cb option" and final :: "'o \<Rightarrow> bool"
  assumes inv_step: "inv s \<Longrightarrow> step s e = (s', out) \<Longrightarrow> inv s'"
    and callee_owner: "inv s \<Longrightarrow> step s e = (s', out) \<Longrightarrow> x \<in> set out \<Longrightarrow> callee x = Some cb \<Longrightarrow> owner s = Some cb"
    and start_silent: "inv s \<Longrightarrow> step s e = (s', out) \<Longrightarrow> starts e = Some cb \<Longrightarrow>
      owner s' = Some cb \<and> (\<forall>x \<in> set out. callee x = None)"
    and owner_keep: "inv s \<Longrightarrow> step s e = (s', out) \<Longrightarrow> starts e = None \<Longrightarrow> owner s' = owner s \<or> owner s' = None"
    and final_ends: "inv s \<Longrightarrow> step s e = (s', out) \<Longrightarrow> x \<in> set out \<Longrightarrow> callee x = Some cb \<Longrightarrow> final x \<Longrightarrow> owner s' = None"
    and step_endsOnce: "inv s \<Longrightarrow> step s e = (s', out) \<Longrightarrow> endsOnce final (filter (\<lambda>x. callee x = Some cb) out)"
begin

definition calls :: "'cb \<Rightarrow> 'o list \<Rightarrow> 'o list" where
  "calls cb out = filter (\<lambda>x. callee x = Some cb) out"

lemma calls_append [simp]: "calls cb (xs @ ys) = calls cb xs @ calls cb ys"
  by (simp add: calls_def)

lemma not_owner_silent: "inv s \<Longrightarrow> step s e = (s', out) \<Longrightarrow> owner s \<noteq> Some cb \<Longrightarrow> calls cb out = []"
  using callee_owner by (fastforce simp: calls_def filter_empty_conv)

lemma run_not_owner:
  assumes "inv s" "owner s \<noteq> Some cb" "Some cb \<notin> starts ` set es"
  shows "calls cb (snd (runSteps step s es)) = []"
  using assms
proof (induction es arbitrary: s)
  case (Cons e es)
  obtain s' out where st: "step s e = (s', out)" by fastforce
  have "owner s' \<noteq> Some cb"
    using start_silent [OF Cons.prems(1) st] owner_keep [OF Cons.prems(1) st] Cons.prems(2,3)
    by (cases "starts e") auto
  then show ?case
    using Cons.IH [of s'] Cons.prems st inv_step [OF Cons.prems(1) st] not_owner_silent [OF Cons.prems(1) st]
    by (auto split: prod.split)
qed (simp add: calls_def)

lemma run_owner:
  assumes "inv s" "Some cb \<notin> starts ` set es"
  shows "endsOnce final (calls cb (snd (runSteps step s es)))"
  using assms
proof (induction es arbitrary: s)
  case (Cons e es)
  obtain s' out where st: "step s e = (s', out)" by fastforce
  have inv': "inv s'" by (rule inv_step [OF Cons.prems(1) st])
  show ?case
  proof (cases "owner s' = Some cb")
    case True
    then have "\<forall>x \<in> set (calls cb out). \<not> final x"
      using final_ends [OF Cons.prems(1) st] by (auto simp: calls_def)
    then show ?thesis
      using Cons.IH [of s'] Cons.prems st inv' by (auto simp: endsOnce_append_open split: prod.split)
  next
    case False
    then have "calls cb (snd (runSteps step s' es)) = []" using run_not_owner inv' Cons.prems(2) by auto
    then show ?thesis
      using step_endsOnce [OF Cons.prems(1) st, of cb] st by (auto simp: calls_def split: prod.split)
  qed
qed (simp add: calls_def)

theorem calls_end_once:
  assumes "inv s" "owner s \<noteq> Some cb" "distinct (filter (\<lambda>x. x \<noteq> None) (map starts es))"
  shows "endsOnce final (calls cb (snd (runSteps step s es)))"
  using assms
proof (induction es arbitrary: s)
  case (Cons e es)
  obtain s' out where st: "step s e = (s', out)" by fastforce
  have inv': "inv s'" by (rule inv_step [OF Cons.prems(1) st])
  have silent: "calls cb out = []" using not_owner_silent Cons.prems(1,2) st by blast
  show ?case
  proof (cases "starts e = Some cb")
    case True
    then have "Some cb \<notin> starts ` set es" using Cons.prems(3) by auto
    from run_owner [OF inv' this] show ?thesis using st silent by (auto split: prod.split)
  next
    case False
    then have "owner s' \<noteq> Some cb"
      using start_silent [OF Cons.prems(1) st] owner_keep [OF Cons.prems(1) st] Cons.prems(2)
      by (cases "starts e") auto
    then show ?thesis
      using Cons.IH [of s'] Cons.prems st inv' silent by (auto split: prod.split if_splits)
  qed
qed (simp add: calls_def)

end

section \<open>The controller is such an automaton\<close>

definition listening :: "('p, 'cb) StreamController \<Rightarrow> bool" where
  "listening c = (case sendCalls c (generation c) of Some call \<Rightarrow> call_phase call = Listening False | None \<Rightarrow> False)"

definition ctlInv :: "('p, 'cb) StreamController \<Rightarrow> bool" where
  "ctlInv c \<longleftrightarrow> (\<forall>g. generation c < g \<longrightarrow> sendCalls c g = None) \<and>
     source c = (if listening c then Some (generation c) else None)"

definition ctlOwner :: "('p, 'cb) StreamController \<Rightarrow> 'cb option" where
  "ctlOwner c = (case sendCalls c (generation c) of
     Some call \<Rightarrow> (if call_phase call \<in> {AwaitHeaders, Listening False} then Some (call_callbacks call) else None)
   | None \<Rightarrow> None)"

fun startedBy :: "('p, 'h, 'cb) StreamEvent \<Rightarrow> 'cb option" where
  "startedBy (Send _ cb) = Some cb"
| "startedBy _ = None"

fun callbackOf :: "('p, 'h, 'cb) StreamEffect \<Rightarrow> 'cb option" where
  "callbackOf (OnUpdate cb _ _) = Some cb"
| "callbackOf (OnComplete cb) = Some cb"
| "callbackOf (OnError cb _ _) = Some cb"
| "callbackOf _ = None"

fun endsCall :: "('p, 'h, 'cb) StreamEffect \<Rightarrow> bool" where
  "endsCall (OnComplete _) = True"
| "endsCall (OnError _ _ _) = True"
| "endsCall _ = False"

text \<open>The result of a failing source, of a finished one, and of an event of a source that does not count.\<close>

lemma handleError_live:
  assumes "sendCalls c g = Some call" "call_phase call = Listening False" "generation c = g" "source c = Some g"
  shows "handleError c g msg code =
    ((setPhase c g (Listening True))\<lparr>source := None\<rparr>,
     [OnError (call_callbacks call) msg code, CloseSource g, SetStreaming False])"
  using assms by (simp add: handleError_def isCurrentSource_def completed_def closeActiveSource_def setPhase_def)

lemma not_current_cases:
  assumes "ctlInv c"
  obtains (idle) "\<not> isCurrentSource c g \<or> completed c g"
  | (live) call where "sendCalls c g = Some call" "call_phase call = Listening False" "generation c = g" "source c = Some g"
  using assms by (cases "isCurrentSource c g") (auto simp: isCurrentSource_def ctlInv_def listening_def split: if_splits option.splits)

lemma stale_event_ignored:
  assumes "\<not> isCurrentSource c g \<or> completed c g"
  shows "onMessage env c g d = (c, [])" "onErrorEvent env c g r d = (c, [])" "onReadyStateChange c g r s = (c, [])"
    "handleError c g msg code = (c, [])"
  using assms by (simp_all only: onMessage_def onErrorEvent_def onReadyStateChange_def handleError_def if_True)

lemmas controller_defs = sendStart_def sendRejected_def sendResumed_def onMessage_def onErrorEvent_def
  onReadyStateChange_def cancel_def stop_def dispose_def closeActiveSource_def closePrevious_def

text \<open>What one step can do, as a relation: the abstract view of the controller from which the laws follow.\<close>

inductive ctlMove :: "('p, 'cb) StreamController \<Rightarrow> ('p, 'h, 'cb) StreamEvent \<Rightarrow> ('p, 'h, 'cb) controlled \<Rightarrow> bool" where
  nothing: "startedBy e = None \<Longrightarrow> ctlMove c e (c, [])"
| started: "ctlMove c (Send payload cb) (sendStart c payload cb)"
| stopped: "ctlMove c Stop (cancel c True)"
| disposed: "ctlMove c Dispose (cancel c False)"
| returned: "g \<noteq> generation c \<Longrightarrow> startedBy e = None \<Longrightarrow> ctlMove c e (setPhase c g Returned, [])"
| refused: "sendCalls c (generation c) = Some (call :: ('p, 'cb) SendCall) \<Longrightarrow> call_phase call = AwaitHeaders \<Longrightarrow>
    startedBy e = None \<Longrightarrow> ctlMove c e (setPhase c (generation c) Returned, [OnError (call_callbacks call) msg None])"
| opened: "sendCalls c (generation c) = Some (call :: ('p, 'cb) SendCall) \<Longrightarrow> call_phase call = AwaitHeaders \<Longrightarrow> g = generation c \<Longrightarrow>
    startedBy e = None \<Longrightarrow> ctlMove c e ((setPhase c g (Listening False))\<lparr>source := Some g\<rparr>,
      [CreateSource g (call_payload call) h, SetStreaming True, StartStream g])"
| unstartable: "sendCalls c (generation c) = Some (call :: ('p, 'cb) SendCall) \<Longrightarrow> call_phase call = AwaitHeaders \<Longrightarrow> g = generation c \<Longrightarrow>
    startedBy e = None \<Longrightarrow> ctlMove c e ((setPhase c g (Listening True))\<lparr>source := None\<rparr>,
      [CreateSource g (call_payload call) h, SetStreaming True, OnError (call_callbacks call) msg None, CloseSource g, SetStreaming False])"
| updated: "sendCalls c (generation c) = Some (call :: ('p, 'cb) SendCall) \<Longrightarrow> call_phase call = Listening False \<Longrightarrow>
    startedBy e = None \<Longrightarrow> ctlMove c e (c, map (\<lambda>u. OnUpdate (call_callbacks call) (upd_type u) (upd_chunk u)) (us :: StreamMessageUpdate list))"
| failed: "sendCalls c (generation c) = Some (call :: ('p, 'cb) SendCall) \<Longrightarrow> call_phase call = Listening False \<Longrightarrow> g = generation c \<Longrightarrow>
    startedBy e = None \<Longrightarrow> ctlMove c e ((setPhase c g (Listening True))\<lparr>source := None\<rparr>,
      [OnError (call_callbacks call) msg code, CloseSource g, SetStreaming False])"
| finished: "sendCalls c (generation c) = Some (call :: ('p, 'cb) SendCall) \<Longrightarrow> call_phase call = Listening False \<Longrightarrow> g = generation c \<Longrightarrow>
    startedBy e = None \<Longrightarrow> ctlMove c e ((setPhase c g (Listening True))\<lparr>source := None\<rparr>,
      [CloseSource g, SetStreaming False, OnComplete (call_callbacks call)])"

lemma handleError_move: "ctlInv c \<Longrightarrow> startedBy e = None \<Longrightarrow> ctlMove c e (handleError c g msg code)"
  by (erule not_current_cases [of c g]) (simp_all add: stale_event_ignored handleError_live ctlMove.intros)

lemma onMessage_move:
  assumes "ctlInv c" "startedBy e = None"
  shows "ctlMove c e (onMessage env c g d)"
  using assms(1)
proof (cases rule: not_current_cases [of c g])
  case idle
  then show ?thesis using assms(2) by (simp add: stale_event_ignored ctlMove.nothing)
next
  case (live call)
  define edata where "edata = (case d of Some d \<Rightarrow> d | None \<Rightarrow> [])"
  have eq: "onMessage env c g d =
     (if isStreamDoneMessage edata
      then ((setPhase c g (Listening True))\<lparr>source := None\<rparr>, [CloseSource g, SetStreaming False, OnComplete (call_callbacks call)])
      else (case parseStreamMessageUpdates env edata of
          Inr updates \<Rightarrow> (c, map (\<lambda>u. OnUpdate (call_callbacks call) (upd_type u) (upd_chunk u)) updates)
        | Inl _ \<Rightarrow> handleError c g PARSE_ERROR None))"
    using live
    by (simp add: onMessage_def isCurrentSource_def completed_def edata_def closeActiveSource_def setPhase_def)
  show ?thesis
    unfolding eq using live assms by (auto simp: handleError_move intro!: ctlMove.intros split: sum.split)
qed

lemma sendResumed_eq:
  fixes c :: "('p, 'cb) StreamController" and h :: 'h
  assumes "sendCalls c g = Some call" "call_phase call = AwaitHeaders" "generation c = g"
  shows "sendResumed c g h throws =
    (if throws
     then ((setPhase c g (Listening True))\<lparr>source := None\<rparr>, [CreateSource g (call_payload call) h, SetStreaming True,
       OnError (call_callbacks call) STREAM_START_ERROR None, CloseSource g, SetStreaming False])
     else ((setPhase c g (Listening False))\<lparr>source := Some g\<rparr>,
       [CreateSource g (call_payload call) h, SetStreaming True, StartStream g]))"
proof -
  define c1 where "c1 = (setPhase c g (Listening False))\<lparr>source := Some g\<rparr>"
  have "(handleError c1 g STREAM_START_ERROR None :: ('p, 'h, 'cb) controlled) =
      ((setPhase c g (Listening True))\<lparr>source := None\<rparr>,
       [OnError (call_callbacks call) STREAM_START_ERROR None, CloseSource g, SetStreaming False])"
    using handleError_live [of c1 g "call\<lparr>call_phase := Listening False\<rparr>"] assms by (simp add: c1_def setPhase_def)
  moreover have "isCurrentSource c1 g" using assms by (simp add: c1_def isCurrentSource_def setPhase_def)
  ultimately show ?thesis
    unfolding sendResumed_def assms(1) using assms(2,3) by (simp add: c1_def [symmetric])
qed

lemma sendResumed_move:
  assumes "startedBy e = None"
  shows "ctlMove c e (sendResumed c g h throws)"
proof (cases "sendCalls c g")
  case (Some call)
  show ?thesis
  proof (cases "call_phase call = AwaitHeaders \<and> generation c = g")
    case True
    then show ?thesis
      using Some assms by (auto simp: sendResumed_eq intro: ctlMove.opened ctlMove.unstartable)
  next
    case False
    then show ?thesis
      using Some assms by (auto simp: sendResumed_def intro: ctlMove.nothing ctlMove.returned)
  qed
qed (simp add: sendResumed_def ctlMove.nothing assms)

lemma controllerStep_move:
  assumes "ctlInv c"
  shows "ctlMove c e (controllerStep env c e)"
proof (cases e)
  case (Send payload cb)
  then show ?thesis by (simp add: ctlMove.started)
next
  case (HeadersArrive g h throws)
  then show ?thesis by (simp add: sendResumed_move)
next
  case (HeadersFail g err)
  then show ?thesis
    by (auto simp: sendRejected_def intro: ctlMove.intros split: option.split)
next
  case (MessageEvent g d)
  then show ?thesis by (simp add: onMessage_move [OF assms])
next
  case (ErrorEvent g ready d)
  then show ?thesis
    by (simp add: onErrorEvent_def Let_def ctlMove.nothing handleError_move [OF assms])
next
  case (ReadyStateEvent g ready s)
  then show ?thesis
    by (simp add: onReadyStateChange_def ctlMove.nothing handleError_move [OF assms] split: option.split)
next
  case Stop
  then show ?thesis by (simp add: stop_def ctlMove.stopped)
next
  case Dispose
  then show ?thesis by (simp add: dispose_def ctlMove.disposed)
qed

lemma ctlInv_initial: "ctlInv initialController"
  by (simp add: ctlInv_def listening_def initialController_def)

lemma ctlInv_next [simp]: "ctlInv c \<Longrightarrow> sendCalls c (Suc (generation c)) = None"
  by (simp add: ctlInv_def)

lemma setPhase_simps [simp]:
  "generation (setPhase c g ph) = generation c" "source (setPhase c g ph) = source c"
  "sendCalls (setPhase c g ph) g' = (if g' = g then map_option (call_phase_update (\<lambda>_. ph)) (sendCalls c g) else sendCalls c g')"
  by (simp_all add: setPhase_def)

lemma ctlMove_inv: "ctlMove c e r \<Longrightarrow> ctlInv c \<Longrightarrow> ctlInv (fst r)"
  by (induction rule: ctlMove.induct)
    (auto simp: ctlInv_def listening_def sendStart_def cancel_def Let_def)

lemma ctlMove_callee:
  "ctlMove c e r \<Longrightarrow> x \<in> set (snd r) \<Longrightarrow> callbackOf x = Some cb \<Longrightarrow> ctlOwner c = Some cb"
  by (induction rule: ctlMove.induct)
    (auto simp: ctlOwner_def sendStart_def cancel_def closePrevious_def Let_def split: option.splits if_splits)

lemma ctlMove_owner:
  "ctlMove c e r \<Longrightarrow> ctlInv c \<Longrightarrow>
     (case startedBy e of Some cb \<Rightarrow> ctlOwner (fst r) = Some cb \<and> (\<forall>x \<in> set (snd r). callbackOf x = None)
      | None \<Rightarrow> ctlOwner (fst r) = ctlOwner c \<or> ctlOwner (fst r) = None)"
  by (induction rule: ctlMove.induct)
    (auto simp: ctlOwner_def sendStart_def cancel_def closePrevious_def Let_def split: option.splits)

lemma ctlMove_final:
  "ctlMove c e r \<Longrightarrow> x \<in> set (snd r) \<Longrightarrow> endsCall x \<Longrightarrow> ctlOwner (fst r) = None"
  by (induction rule: ctlMove.induct)
    (auto simp: ctlOwner_def sendStart_def cancel_def closePrevious_def setPhase_def Let_def split: option.splits if_splits)

lemma endsOnce_updates: "endsOnce endsCall (filter P (map (\<lambda>u. OnUpdate cb (f u) (g u)) us))"
  by (induction us) simp_all

lemma ctlMove_endsOnce: "ctlMove c e r \<Longrightarrow> endsOnce endsCall (filter (\<lambda>x. callbackOf x = Some cb) (snd r))"
  by (induction rule: ctlMove.induct)
    (simp_all add: endsOnce_updates sendStart_def cancel_def closePrevious_def Let_def split: option.split)

interpretation ctl: latest_wins "controllerStep env" ctlInv ctlOwner startedBy callbackOf endsCall
  for env :: StreamEnv
proof
  fix c :: "('a, 'b) StreamController" and e :: "('a, 'c, 'b) StreamEvent" and c' out x cb
  assume inv: "ctlInv c" and st: "controllerStep env c e = (c', out)"
  have move: "ctlMove c e (c', out)" using controllerStep_move [OF inv, of e env] st by simp
  show "ctlInv c'" using ctlMove_inv [OF move inv] by simp
  show "x \<in> set out \<Longrightarrow> callbackOf x = Some cb \<Longrightarrow> ctlOwner c = Some cb" using ctlMove_callee [OF move] by simp
  show "startedBy e = Some cb \<Longrightarrow> ctlOwner c' = Some cb \<and> (\<forall>x \<in> set out. callbackOf x = None)"
    using ctlMove_owner [OF move inv] by simp
  show "startedBy e = None \<Longrightarrow> ctlOwner c' = ctlOwner c \<or> ctlOwner c' = None"
    using ctlMove_owner [OF move inv] by simp
  show "x \<in> set out \<Longrightarrow> callbackOf x = Some cb \<Longrightarrow> endsCall x \<Longrightarrow> ctlOwner c' = None"
    using ctlMove_final [OF move] by simp
  show "endsOnce endsCall (filter (\<lambda>x. callbackOf x = Some cb) out)" using ctlMove_endsOnce [OF move] by simp
qed

section \<open>Properties of the controller\<close>

abbreviation "runController env \<equiv> runSteps (controllerStep env)"

lemma run_inv: "ctlInv (fst (runController env initialController evs))"
  by (rule runSteps_invariant) (auto intro: ctl.inv_step ctlInv_initial)

text \<open>A new call, \<open>stop\<close> and \<open>dispose\<close> take the controller away from its owner without a callback.\<close>

fun supersedes :: "('p, 'h, 'cb) StreamEvent \<Rightarrow> bool" where
  "supersedes (Send _ _) = True"
| "supersedes Stop = True"
| "supersedes Dispose = True"
| "supersedes _ = False"

lemma supersedes_owner:
  assumes "ctlInv c" "supersedes e" "startedBy e \<noteq> Some cb"
  shows "ctlOwner (fst (controllerStep env c e)) \<noteq> Some cb \<and>
    (\<forall>x \<in> set (snd (controllerStep env c e)). callbackOf x = None)"
  using assms
  by (cases e) (auto simp: sendStart_def stop_def dispose_def cancel_def ctlOwner_def closePrevious_def Let_def
      split: option.splits)

text \<open>C7. Only the latest request is heard: over any run in which each request has its own callbacks, a request
  is told the end of its answer at most once, as completion or as an error, and nothing after it; and once
  another request is sent, or the stream is stopped or disposed, it is told nothing any more, whatever its
  source still emits.\<close>

theorem latest_request_only:
  assumes "distinct (filter (\<lambda>x. x \<noteq> None) (map startedBy (before @ e # later)))"
    and "supersedes e" "startedBy e \<noteq> Some cb" "Some cb \<in> startedBy ` set before"
  shows "endsOnce endsCall (filter (\<lambda>x. callbackOf x = Some cb) (snd (runController env initialController before))) \<and>
    filter (\<lambda>x. callbackOf x = Some cb)
      (snd (runController env (fst (runController env initialController before)) (e # later))) = []"
proof
  have "distinct (filter (\<lambda>x. x \<noteq> None) (map startedBy before))" using assms(1) by simp
  then show "endsOnce endsCall (filter (\<lambda>x. callbackOf x = Some cb) (snd (runController env initialController before)))"
    by (rule ctl.calls_end_once [OF ctlInv_initial, unfolded ctl.calls_def, rotated])
      (simp add: ctlOwner_def initialController_def)
next
  define c where "c = fst (runController env initialController before)"
  obtain c' out where st: "controllerStep env c e = (c', out)" by fastforce
  have inv: "ctlInv c" unfolding c_def by (rule run_inv)
  have "distinct (filter (\<lambda>x. x \<noteq> None) (map startedBy before) @ filter (\<lambda>x. x \<noteq> None) (map startedBy (e # later)))"
    using assms(1) by (simp only: map_append filter_append)
  moreover have "Some cb \<in> set (filter (\<lambda>x. x \<noteq> None) (map startedBy before))" using assms(4) by simp
  ultimately have "Some cb \<notin> set (filter (\<lambda>x. x \<noteq> None) (map startedBy (e # later)))"
    unfolding distinct_append by blast
  then have later: "Some cb \<notin> startedBy ` set later" by (simp split: if_splits)
  have step: "ctlOwner c' \<noteq> Some cb" "\<forall>x \<in> set out. callbackOf x = None"
    using supersedes_owner [OF inv assms(2,3), of env] st by simp_all
  have "filter (\<lambda>x. callbackOf x = Some cb) (snd (runController env c' later)) = []"
    by (rule ctl.run_not_owner [unfolded ctl.calls_def, OF ctl.inv_step [OF inv st] step(1) later])
  moreover have "filter (\<lambda>x. callbackOf x = Some cb) out = []" using step(2) by simp
  moreover have "snd (runController env c (e # later)) = out @ snd (runController env c' later)"
    using st by (simp split: prod.split)
  ultimately show "filter (\<lambda>x. callbackOf x = Some cb) (snd (runController env c (e # later))) = []"
    by (simp only: filter_append append_Nil)
qed

text \<open>The sources that were opened and not closed, and the last reported streaming state.\<close>

fun openSources :: "nat set \<Rightarrow> ('p, 'h, 'cb) StreamEffect list \<Rightarrow> nat set" where
  "openSources opened [] = opened"
| "openSources opened (x # xs) = openSources (case x of CreateSource g _ _ \<Rightarrow> insert g opened | CloseSource g \<Rightarrow> opened - {g} | _ \<Rightarrow> opened) xs"

fun reportedStreaming :: "bool \<Rightarrow> ('p, 'h, 'cb) StreamEffect list \<Rightarrow> bool" where
  "reportedStreaming b [] = b"
| "reportedStreaming b (x # xs) = reportedStreaming (case x of SetStreaming b' \<Rightarrow> b' | _ \<Rightarrow> b) xs"

lemma openSources_append: "openSources A (xs @ ys) = openSources (openSources A xs) ys"
  by (induction xs arbitrary: A) simp_all

lemma reportedStreaming_append: "reportedStreaming b (xs @ ys) = reportedStreaming (reportedStreaming b xs) ys"
  by (induction xs arbitrary: b) simp_all

lemma updates_neutral:
  "openSources A (map (\<lambda>u. OnUpdate cb (f u) (h u)) us) = A"
  "reportedStreaming b (map (\<lambda>u. OnUpdate cb (f u) (h u)) us) = b"
  by (induction us) simp_all

lemma ctlMove_sources:
  "ctlMove c e r \<Longrightarrow> ctlInv c \<Longrightarrow> openSources (set_option (source c)) (snd r) = set_option (source (fst r))"
  by (induction rule: ctlMove.induct)
    (auto simp: sendStart_def cancel_def closePrevious_def updates_neutral ctlInv_def listening_def Let_def split: option.split)

lemma ctlMove_streaming:
  "ctlMove c e r \<Longrightarrow> ctlInv c \<Longrightarrow> e \<noteq> Dispose \<Longrightarrow>
     reportedStreaming (source c \<noteq> None) (snd r) = (source (fst r) \<noteq> None)"
  by (induction rule: ctlMove.induct)
    (auto simp: sendStart_def cancel_def closePrevious_def updates_neutral ctlInv_def listening_def Let_def split: option.split)

lemma run_sources:
  "ctlInv c \<Longrightarrow> runController env c evs = (c', out) \<Longrightarrow>
     openSources (set_option (source c)) out = set_option (source c') \<and>
     (Dispose \<notin> set evs \<longrightarrow> reportedStreaming (source c \<noteq> None) out = (source c' \<noteq> None))"
proof (induction evs arbitrary: c out)
  case (Cons e evs)
  obtain c1 out1 where st: "controllerStep env c e = (c1, out1)" by fastforce
  obtain out2 where rest: "runController env c1 evs = (c', out2)" "out = out1 @ out2"
    using Cons.prems(2) st by (auto split: prod.splits)
  have move: "ctlMove c e (c1, out1)" using controllerStep_move [OF Cons.prems(1), of e env] st by simp
  show ?case
    using Cons.IH [OF ctl.inv_step [OF Cons.prems(1) st] rest(1)] ctlMove_sources [OF move Cons.prems(1)]
      ctlMove_streaming [OF move Cons.prems(1)] rest(2)
    by (auto simp: openSources_append reportedStreaming_append)
qed simp

text \<open>C31. Sources are not leaked: after any run, the sources opened and not yet closed are exactly the one the
  controller holds, which belongs to the latest request; and as long as the controller is not disposed, the
  reported streaming state says whether there is one.\<close>

theorem no_leaked_source:
  assumes "runController env initialController evs = (c, out)"
  shows "openSources {} out = set_option (source c) \<and> set_option (source c) \<subseteq> {generation c} \<and>
    (Dispose \<notin> set evs \<longrightarrow> reportedStreaming False out = (source c \<noteq> None))"
proof -
  have "ctlInv c" using run_inv [of env evs] assms by simp
  then have "set_option (source c) \<subseteq> {generation c}" by (simp add: ctlInv_def)
  then show ?thesis using run_sources [OF ctlInv_initial assms] by (simp add: initialController_def)
qed

section \<open>Witnesses\<close>

definition witnessEnv :: StreamEnv where
  "witnessEnv = \<lparr>chunkOf = (\<lambda>d. Some \<lparr>chunk_choices = Some [Some \<lparr>delta_content = Some d, delta_reasoning_content = None\<rparr>]\<rparr>),
     errorOf = (\<lambda>_. None)\<rparr>"

definition firstAnswer :: "(unit, unit, nat) StreamEvent list" where
  "firstAnswer = [Send () 1, HeadersArrive 1 () False, MessageEvent 1 (Some (js ''hi''))]"

theorem no_leaked_source_witness:
  "openSources {} (snd (runController witnessEnv initialController firstAnswer)) = {1}"
  using no_leaked_source [of witnessEnv firstAnswer "fst (runController witnessEnv initialController firstAnswer)"
      "snd (runController witnessEnv initialController firstAnswer)"]
  by (simp add: firstAnswer_def witnessEnv_def initialController_def sendStart_def sendResumed_eq closePrevious_def
      onMessage_def isCurrentSource_def completed_def isStreamDoneMessage_def STREAM_DONE_MESSAGE_def
      parseStreamMessageUpdates_def firstDelta_def nonEmpty_def)

theorem latest_request_only_witness:
  "filter (\<lambda>x. callbackOf x = Some 1)
     (snd (runController witnessEnv (fst (runController witnessEnv initialController firstAnswer))
       (Send () 2 # [MessageEvent 1 (Some (js ''late''))] :: (unit, unit, nat) StreamEvent list))) = []"
  using latest_request_only [of firstAnswer "Send () 2" "[MessageEvent 1 (Some (js ''late''))]" 1 witnessEnv]
  by (simp add: firstAnswer_def del: runSteps.simps)

end
