(* ===== verification/ChatProofs.thy ===== *)
theory ChatProofs
  imports ChatHandler StreamProofs PlaygroundProofs
begin

text \<open>
  Theorems about sending and receiving: a streamed answer is delivered whatever the order of timers and
  renderings, a stopped answer stays as it is, buffering can change the text, and a video request never carries
  the prompt.
\<close>

section \<open>What the handlers leave alone\<close>

lemma onMessageUpdate_simps [simp]:
  "controller (onMessageUpdate h u) = controller h" "requestGeneration (onMessageUpdate h u) = requestGeneration h"
  "pendingStreamChunks (onMessageUpdate h u) = pendingStreamChunks h" "streamFlushTimer (onMessageUpdate h u) = streamFlushTimer h"
  "isRequesting (onMessageUpdate h u) = isRequesting h" "isStreaming (onMessageUpdate h u) = isStreaming h"
  "abortController (onMessageUpdate h u) = abortController h" "aborted (onMessageUpdate h u) = aborted h"
  "waiting (onMessageUpdate h u) = waiting h" "videoCalls (onMessageUpdate h u) = videoCalls h"
  "messages (onMessageUpdate h u) = messages h" "config (onMessageUpdate h u) = config h"
  "messageUpdates (onMessageUpdate h u) = messageUpdates h @ [u]"
  by (simp_all add: onMessageUpdate_def)

lemma flush_simps [simp]:
  "controller (flushStreamUpdates h g) = controller h" "requestGeneration (flushStreamUpdates h g) = requestGeneration h"
  "isRequesting (flushStreamUpdates h g) = isRequesting h" "isStreaming (flushStreamUpdates h g) = isStreaming h"
  "abortController (flushStreamUpdates h g) = abortController h" "aborted (flushStreamUpdates h g) = aborted h"
  "waiting (flushStreamUpdates h g) = waiting h" "videoCalls (flushStreamUpdates h g) = videoCalls h"
  "messages (flushStreamUpdates h g) = messages h" "config (flushStreamUpdates h g) = config h"
  by (simp_all add: flushStreamUpdates_def Let_def)

lemma update_simps [simp]:
  "controller (handleStreamUpdate h g ty c) = controller h" "requestGeneration (handleStreamUpdate h g ty c) = requestGeneration h"
  "isRequesting (handleStreamUpdate h g ty c) = isRequesting h" "isStreaming (handleStreamUpdate h g ty c) = isStreaming h"
  "abortController (handleStreamUpdate h g ty c) = abortController h" "aborted (handleStreamUpdate h g ty c) = aborted h"
  "waiting (handleStreamUpdate h g ty c) = waiting h" "videoCalls (handleStreamUpdate h g ty c) = videoCalls h"
  "messages (handleStreamUpdate h g ty c) = messages h" "config (handleStreamUpdate h g ty c) = config h"
  "messageUpdates (handleStreamUpdate h g ty c) = messageUpdates h"
  by (simp_all add: handleStreamUpdate_def scheduleStreamFlush_def Let_def)

lemma error_simps [simp]:
  "controller (handleStreamError t h g e code) = controller h" "requestGeneration (handleStreamError t h g e code) = requestGeneration h"
  "isStreaming (handleStreamError t h g e code) = isStreaming h" "abortController (handleStreamError t h g e code) = abortController h"
  "aborted (handleStreamError t h g e code) = aborted h" "waiting (handleStreamError t h g e code) = waiting h"
  "videoCalls (handleStreamError t h g e code) = videoCalls h" "messages (handleStreamError t h g e code) = messages h"
  "config (handleStreamError t h g e code) = config h"
  by (simp_all add: handleStreamError_def)

lemma complete_simps [simp]:
  "controller (handleStreamComplete h g) = controller h" "requestGeneration (handleStreamComplete h g) = requestGeneration h"
  "isStreaming (handleStreamComplete h g) = isStreaming h" "abortController (handleStreamComplete h g) = abortController h"
  "aborted (handleStreamComplete h g) = aborted h" "waiting (handleStreamComplete h g) = waiting h"
  "videoCalls (handleStreamComplete h g) = videoCalls h" "messages (handleStreamComplete h g) = messages h"
  "config (handleStreamComplete h g) = config h"
  by (simp_all add: handleStreamComplete_def)

lemma effect_simps [simp]:
  "controller (controllerEffect t h x) = controller h" "requestGeneration (controllerEffect t h x) = requestGeneration h"
  "abortController (controllerEffect t h x) = abortController h" "aborted (controllerEffect t h x) = aborted h"
  "waiting (controllerEffect t h x) = waiting h" "videoCalls (controllerEffect t h x) = videoCalls h"
  "messages (controllerEffect t h x) = messages h" "config (controllerEffect t h x) = config h"
  by (cases x; simp)+

lemma effects_simps [simp]:
  "controller (foldl (controllerEffect t) h xs) = controller h"
  "requestGeneration (foldl (controllerEffect t) h xs) = requestGeneration h"
  "abortController (foldl (controllerEffect t) h xs) = abortController h"
  "aborted (foldl (controllerEffect t) h xs) = aborted h" "waiting (foldl (controllerEffect t) h xs) = waiting h"
  "videoCalls (foldl (controllerEffect t) h xs) = videoCalls h" "messages (foldl (controllerEffect t) h xs) = messages h"
  "config (foldl (controllerEffect t) h xs) = config h"
  by (induction xs arbitrary: h) simp_all

lemma drive_simps [simp]:
  "controller (driveController env t h e) = fst (controllerStep env (controller h) e)"
  "requestGeneration (driveController env t h e) = requestGeneration h"
  "abortController (driveController env t h e) = abortController h" "aborted (driveController env t h e) = aborted h"
  "waiting (driveController env t h e) = waiting h" "videoCalls (driveController env t h e) = videoCalls h"
  "messages (driveController env t h e) = messages h" "config (driveController env t h e) = config h"
  by (simp_all add: driveController_def split: prod.split)

lemma begin_simps [simp]:
  "requestGeneration (abortCurrent h) = requestGeneration h" "videoCalls (abortCurrent h) = videoCalls h"
  "messages (abortCurrent h) = messages h" "config (abortCurrent h) = config h" "controller (abortCurrent h) = controller h"
  "waiting (abortCurrent h) = waiting h"
  "requestGeneration (discardPendingStreamUpdates h g) = requestGeneration h"
  "videoCalls (discardPendingStreamUpdates h g) = videoCalls h" "messages (discardPendingStreamUpdates h g) = messages h"
  "config (discardPendingStreamUpdates h g) = config h" "controller (discardPendingStreamUpdates h g) = controller h"
  "waiting (discardPendingStreamUpdates h g) = waiting h" "messageUpdates (discardPendingStreamUpdates h g) = messageUpdates h"
  "messageUpdates (abortCurrent h) = messageUpdates h" "isStreaming (abortCurrent h) = isStreaming h"
  "isRequesting (abortCurrent h) = isRequesting h" "isStreaming (discardPendingStreamUpdates h g) = isStreaming h"
  "isRequesting (discardPendingStreamUpdates h g) = isRequesting h"
  "pendingStreamChunks (abortCurrent h) = pendingStreamChunks h" "streamFlushTimer (abortCurrent h) = streamFlushTimer h"
  "streamFlushTimer (discardPendingStreamUpdates h g) = None"
  "pendingStreamChunks (discardPendingStreamUpdates h g) = \<lparr>pend_generation = g, pend_content = [], pend_reasoning = []\<rparr>"
  by (simp_all add: abortCurrent_def discardPendingStreamUpdates_def)

section \<open>Video requests\<close>

text \<open>Whatever the conversation does before it sends, its last message is the empty placeholder.\<close>

lemma last_version_loading:
  "versions (last (ms @ [createLoadingAssistantMessage k v now])) = [createMessageVersion v []]"
  by (simp add: createLoadingAssistantMessage_def)

lemma prompt_loading: "vid_prompt (videoRequest h (ms @ [createLoadingAssistantMessage k v now])) = []"
  by (simp add: videoRequest_def createLoadingAssistantMessage_def createMessageVersion_def)

lemma videoCalls_requestFinally [simp]: "videoCalls (requestFinally h g) = videoCalls h"
  by (simp add: requestFinally_def Let_def)

lemma videoCalls_sendChat:
  "videoCalls (sendChat env t h ms) =
     videoCalls h @ (if isVideoGenerationModel (model (config h)) then [videoRequest h ms] else [])"
  by (simp add: sendChat_def sendVideo_def sendNonStreamingChat_def sendStreamingChat_def beginRequest_def stopStream_def Let_def)

text \<open>Every list a handler sends ends in the placeholder.\<close>

lemma sent_lists_end_loading:
  "\<exists>ms k v. appendUserMessagePair nanoid xs input now = ms @ [createLoadingAssistantMessage k v now]"
  "createRegeneratedMessages nanoid xs mk now = Some next \<Longrightarrow> \<exists>ms k v. next = ms @ [createLoadingAssistantMessage k v now]"
  "applyMessageEdit nanoid xs mk input submit now = Some (next, True) \<Longrightarrow>
     \<exists>ms k v. next = ms @ [createLoadingAssistantMessage k v now]"
proof -
  show "\<exists>ms k v. appendUserMessagePair nanoid xs input now = ms @ [createLoadingAssistantMessage k v now]"
    unfolding appendUserMessagePair_def by (metis append.assoc append_Cons append_Nil)
qed (auto simp: createRegeneratedMessages_def applyMessageEdit_def Let_def split: option.splits if_splits)

lemma videoCalls_step:
  assumes "list_all (\<lambda>r. vid_prompt r = []) (videoCalls h)"
  shows "list_all (\<lambda>r. vid_prompt r = []) (videoCalls (chatStep env t h e))"
proof (cases e)
  case (UserSends nanoid now input)
  then show ?thesis
    using assms sent_lists_end_loading(1) [of nanoid "messages h" input now]
    by (auto simp: handleSendMessage_def videoCalls_sendChat prompt_loading Let_def)
next
  case (UserRegenerates nanoid now k)
  then show ?thesis
    using assms sent_lists_end_loading(2) [of nanoid "messages h" k now]
    by (auto simp: handleRegenerateMessage_def videoCalls_sendChat prompt_loading split: option.split)
next
  case (UserSubmitsEdit nanoid now input submit)
  then show ?thesis
    using assms
    by (auto simp: applyEdit_def videoCalls_sendChat prompt_loading Let_def split: option.splits prod.splits
        dest!: sent_lists_end_loading(3))
qed (use assms in \<open>simp_all add: handleEditMessage_def handleEditOpenChange_def handleDeleteMessage_def stopGeneration_def
    stopStream_def responseSettles_def taskSettles_def pauseEnds_def flushTimerFires_def render_def Let_def
    split: sum.split option.split list.split\<close>)

text \<open>A video request never carries the prompt: with a video model, sending a text makes one request for a
  video, and however the page is used every such request has an empty prompt, because the prompt is read from
  the last message of the conversation, which is the placeholder of the answer.\<close>

lemma video_prompt_empty:
  assumes "isVideoGenerationModel (model (config h))" "list_all (\<lambda>r. vid_prompt r = []) (videoCalls h)"
  shows "length (videoCalls (handleSendMessage env t nanoid now h input)) = length (videoCalls h) + 1 \<and>
    list_all (\<lambda>r. vid_prompt r = []) (videoCalls (runChat env t h (UserSends nanoid now input # evs)))"
proof
  show "length (videoCalls (handleSendMessage env t nanoid now h input)) = length (videoCalls h) + 1"
    using assms(1) by (simp add: handleSendMessage_def videoCalls_sendChat Let_def)
  have "list_all (\<lambda>r. vid_prompt r = []) (videoCalls h) \<Longrightarrow> list_all (\<lambda>r. vid_prompt r = []) (videoCalls (runChat env t h evs))" for h evs
    unfolding runChat_def by (induction evs arbitrary: h) (simp_all add: videoCalls_step)
  then show "list_all (\<lambda>r. vid_prompt r = []) (videoCalls (runChat env t h (UserSends nanoid now input # evs)))"
    using assms(2) by blast
qed

definition videoConfig :: "rat PlaygroundConfig" where
  "videoConfig = DEFAULT_CONFIG\<lparr>model := js ''sora''\<rparr>"

section \<open>Stopping\<close>

definition chatInv :: "'n ChatHandler \<Rightarrow> bool" where
  "chatInv h \<longleftrightarrow> ctlInv (controller h) \<and> (\<forall>g. waiting h g \<noteq> None \<longrightarrow> g \<le> requestGeneration h)"

lemma ctlInv_drive [simp]: "ctlInv (controller h) \<Longrightarrow> ctlInv (fst (controllerStep env (controller h) e))"
  using ctl.inv_step by (metis prod.collapse)

lemma ctlInv_sendStart [simp]: "ctlInv c \<Longrightarrow> ctlInv (fst (sendStart c p cb))"
  by (rule ctlMove_inv [OF ctlMove.started])

lemma ctlInv_stop [simp]: "ctlInv c \<Longrightarrow> ctlInv (fst (stop c))"
  unfolding stop_def by (rule ctlMove_inv [OF ctlMove.stopped])

lemma chatInv_sendChat: "chatInv h \<Longrightarrow> chatInv (sendChat env t h ms)"
  by (auto simp: chatInv_def sendChat_def sendVideo_def sendNonStreamingChat_def sendStreamingChat_def beginRequest_def
      stopStream_def Let_def le_SucI)

lemma chatInv_onMessageUpdate [simp]: "chatInv (onMessageUpdate h u) = chatInv h"
  by (simp add: chatInv_def)

lemma chatInv_editing [simp]: "chatInv (h\<lparr>editingMessageKey := k\<rparr>) = chatInv h"
  by (simp add: chatInv_def)

lemma chatInv_finally: "chatInv h \<Longrightarrow> chatInv (requestFinally h g)"
  by (auto simp: chatInv_def requestFinally_def Let_def)

lemma chatInv_error: "chatInv h \<Longrightarrow> chatInv (handleStreamError t h g e code)"
  by (simp add: chatInv_def)

lemma chatInv_step: "chatInv h \<Longrightarrow> chatInv (chatStep env t h e)"
proof (induction env t h e rule: chatStep.induct)
  case (5 env t h nanoid now input submit)
  then show ?case
    by (simp add: applyEdit_def Let_def chatInv_sendChat split: option.split prod.split)
next
  case (9 env t h e)
  then show ?case using ctlInv_drive [of h env e] by (simp add: chatInv_def)
next
  case (10 env t h g r)
  then show ?case
    by (simp add: responseSettles_def chatInv_finally chatInv_error Let_def split: sum.split)
next
  case (11 env t h g r)
  then show ?case
    by (auto simp: taskSettles_def chatInv_finally chatInv_error Let_def split: sum.split option.split list.split)
      (auto simp: chatInv_def)
qed (auto simp: handleSendMessage_def handleRegenerateMessage_def handleEditMessage_def handleEditOpenChange_def
    handleDeleteMessage_def pauseEnds_def chatInv_sendChat chatInv_finally Let_def split: option.split,
    auto simp: chatInv_def stopGeneration_def stopStream_def flushTimerFires_def render_def Let_def le_SucI split: option.split)

lemma chatInv_reachable: "chatInv (runChat env t (initialChatHandler cfg enabled ms) evs)"
proof -
  have "chatInv h \<Longrightarrow> chatInv (runChat env t h evs)" for h
    unfolding runChat_def by (induction evs arbitrary: h) (simp_all add: chatInv_step)
  then show ?thesis by (simp add: chatInv_def initialChatHandler_def ctlInv_initial)
qed

text \<open>What may still happen to a request after it was stopped: an aborted request does not succeed.\<close>

fun lateEvent :: "('n, 'h) ChatEvent \<Rightarrow> bool" where
  "lateEvent (NetworkEvent e) = True"
| "lateEvent (ResponseSettles _ _) = True"
| "lateEvent (TaskSettles _ r) = (case r of Inl _ \<Rightarrow> True | Inr task \<Rightarrow> task_status task \<noteq> VCompleted)"
| "lateEvent (PauseEnds _) = True"
| "lateEvent FlushTimer = True"
| "lateEvent _ = False"

text \<open>A state in which no request is in progress.\<close>

definition idleHandler :: "'n ChatHandler \<Rightarrow> bool" where
  "idleHandler h \<longleftrightarrow> ctlInv (controller h) \<and> ctlOwner (controller h) = None \<and> streamFlushTimer h = None \<and>
     (\<forall>g. waiting h g \<noteq> None \<longrightarrow> g < requestGeneration h) \<and> \<not> isGenerating h"

lemma ctlMove_ownerless:
  "ctlMove c e r \<Longrightarrow> ctlInv c \<Longrightarrow> ctlOwner c = None \<Longrightarrow> isNetworkEvent e \<Longrightarrow> snd r = [] \<and> ctlOwner (fst r) = None"
  by (induction rule: ctlMove.induct) (auto simp: ctlOwner_def split: option.splits if_splits)

lemma drive_ownerless:
  assumes "ctlInv (controller h)" "ctlOwner (controller h) = None" "isNetworkEvent e"
  shows "\<exists>c. driveController env t h e = h\<lparr>controller := c\<rparr> \<and> ctlInv c \<and> ctlOwner c = None"
proof -
  obtain c out where st: "controllerStep env (controller h) e = (c, out)" by fastforce
  then have "out = []" "ctlOwner c = None"
    using ctlMove_ownerless [OF controllerStep_move [OF assms(1), of e env] assms] by simp_all
  then show ?thesis using st ctl.inv_step [OF assms(1) st] by (auto simp: driveController_def)
qed

lemma stale_error: "g \<noteq> requestGeneration h \<Longrightarrow> handleStreamError t h g e code = h"
  by (simp add: handleStreamError_def)

lemma late_step:
  assumes "idleHandler h" "lateEvent e"
  shows "idleHandler (chatStep env t h e) \<and> messages (chatStep env t h e) = messages h \<and>
    messageUpdates (chatStep env t h e) = messageUpdates h \<and> requestGeneration (chatStep env t h e) = requestGeneration h"
proof -
  have wait: "waiting h g = Some w \<Longrightarrow> g < requestGeneration h" for g w
    using assms(1) by (auto simp: idleHandler_def)
  show ?thesis
  proof (cases e)
    case (NetworkEvent e')
    show ?thesis
    proof (cases "isNetworkEvent e'")
      case True
      then obtain c where "driveController env t h e' = h\<lparr>controller := c\<rparr>" "ctlInv c" "ctlOwner c = None"
        using assms(1) drive_ownerless [of h e' env t] by (auto simp: idleHandler_def)
      then show ?thesis
        using assms(1) True unfolding NetworkEvent chatStep.simps by (simp add: idleHandler_def isGenerating_def del: drive_simps)
    qed (use assms(1) NetworkEvent in simp)
  next
    case (ResponseSettles g r)
    then show ?thesis
      using assms(1) wait [of g] by (auto simp: responseSettles_def requestFinally_def idleHandler_def isGenerating_def Let_def)
  next
    case (TaskSettles g r)
    then show ?thesis
      using assms wait [of g]
      by (auto simp: taskSettles_def requestFinally_def idleHandler_def isGenerating_def stale_error Let_def
          split: sum.splits option.splits list.splits)
  next
    case (PauseEnds g)
    then show ?thesis
      using assms(1) wait [of g] by (auto simp: pauseEnds_def requestFinally_def idleHandler_def isGenerating_def Let_def)
  next
    case FlushTimer
    then show ?thesis using assms(1) by (simp add: flushTimerFires_def idleHandler_def)
  qed (use assms(2) in simp_all)
qed

lemma late_run:
  "idleHandler h \<Longrightarrow> list_all lateEvent evs \<Longrightarrow>
     idleHandler (runChat env t h evs) \<and> messages (runChat env t h evs) = messages h \<and>
     messageUpdates (runChat env t h evs) = messageUpdates h \<and> requestGeneration (runChat env t h evs) = requestGeneration h"
  unfolding runChat_def by (induction evs arbitrary: h) (simp_all add: late_step)

lemma stop_simps:
  assumes "ctlInv (controller h)"
  shows "stopStream env t h = h\<lparr>controller := (controller h)\<lparr>generation := generation (controller h) + 1, source := None\<rparr>, isStreaming := False\<rparr>"
  by (simp add: stopStream_def driveController_def stop_def cancel_def closePrevious_def split: option.split)

lemma stop_idle:
  assumes "chatInv h"
  shows "idleHandler (stopGeneration env t h) \<and> messages (stopGeneration env t h) = messages h \<and>
    requestGeneration (stopGeneration env t h) = requestGeneration h + 1 \<and>
    (\<exists>us. messageUpdates (stopGeneration env t h) = messageUpdates h @ us @ [CompleteStopped (requestGeneration h + 1)])"
proof -
  have c: "ctlInv (controller h)" using assms by (simp add: chatInv_def)
  have flush: "\<exists>us. messageUpdates (flushStreamUpdates h g) = messageUpdates h @ us" for g
    by (auto simp: flushStreamUpdates_def Let_def)
  have "ctlInv ((controller h)\<lparr>generation := generation (controller h) + 1, source := None\<rparr>)"
    using ctlMove_inv [OF ctlMove.stopped c] by (simp add: cancel_def)
  then show ?thesis
    using assms flush [of "requestGeneration h"] ctlInv_next [OF c]
    by (auto simp: stopGeneration_def stop_simps idleHandler_def isGenerating_def chatInv_def ctlOwner_def less_Suc_eq_le Let_def)
qed

lemma completeAssistantMessage_status [simp]: "status (completeAssistantMessage m now) = Some SComplete"
  by (simp add: completeAssistantMessage_def)


definition chatConfig :: "rat PlaygroundConfig" where
  "chatConfig = DEFAULT_CONFIG"


section \<open>Delivery of a streamed answer\<close>

text \<open>No run of consecutive chunks starts with the text of a run right before it, so that increments cannot be taken for snapshots.\<close>

definition unambiguous :: "jsstring list \<Rightarrow> bool" where
  "unambiguous cs \<longleftrightarrow> (\<forall>as bs ds es. cs = as @ bs @ ds @ es \<longrightarrow> bs \<noteq> [] \<longrightarrow> ds \<noteq> [] \<longrightarrow> \<not> prefix (concat bs) (concat ds))"

lemma unambiguousD:
  "unambiguous (as @ bs @ ds @ es) \<Longrightarrow> bs \<noteq> [] \<Longrightarrow> ds \<noteq> [] \<Longrightarrow> \<not> prefix (concat bs) (concat ds)"
  unfolding unambiguous_def by blast

text \<open>A message that is being generated, with its text so far.\<close>

definition growing :: "jsstring \<Rightarrow> Message \<Rightarrow> bool" where
  "growing tx m \<longleftrightarrow> from_role m = RAssistant \<and> isAssistantMessagePending m \<and> getMessageContent m = tx"

lemma growing_loading: "growing [] (createLoadingAssistantMessage k v now)"
  by (simp add: growing_def createLoadingAssistantMessage_def isAssistantMessagePending_def getMessageContent_def
      getCurrentVersion_def createMessageVersion_def)

lemma growing_reasoning: "growing tx m \<Longrightarrow> growing tx (applyStreamingChunk m ChunkReasoning c now)"
  by (auto simp: growing_def applyStreamingChunk_def isAssistantMessagePending_def getMessageContent_def
      getCurrentVersion_def Let_def)

lemma growing_content:
  assumes "growing tx m" "tx = [] \<or> \<not> prefix tx c"
  shows "growing (tx @ c) (applyStreamingChunk m ChunkContent c now)"
proof -
  have "status m \<noteq> Some SError" using assms(1) by (auto simp: growing_def isAssistantMessagePending_def)
  then show ?thesis
    using assms chunk_content [of m c now]
    by (auto simp: growing_def isAssistantMessagePending_def getAppendableChunk_def startsWith_def)
qed

lemma growing_flushed:
  assumes "growing tx m" "c = [] \<or> tx = [] \<or> \<not> prefix tx c"
  shows "growing (tx @ c) (applyFlushed r c now m)"
  using assms growing_reasoning [of tx m r now] growing_content [of tx _ c now]
  by (auto simp: applyFlushed_def Let_def)

lemma growing_complete:
  assumes "growing tx m"
  shows "\<not> isAssistantMessageFinal m" "status (completeAssistantMessage m now) = Some SComplete"
    "getMessageContent (completeAssistantMessage m now) = visibleContent (parseThinkTags tx)"
proof -
  show "\<not> isAssistantMessageFinal m"
    using assms by (auto simp: growing_def isAssistantMessagePending_def isAssistantMessageFinal_def)
  have "getMessageContent (completeAssistantMessage m now) = getMessageContent (updateCurrentVersionContent m
     (if str_includes tx thinkOpen then visibleContent (parseThinkTags tx) else tx))"
    using assms by (intro getMessageContent_versions) (simp add: completeAssistantMessage_def versions_finalize growing_def)
  then show "getMessageContent (completeAssistantMessage m now) = visibleContent (parseThinkTags tx)"
    by (simp add: parseThinkTags_def)
qed simp

text \<open>The state while generation \<open>G\<close> streams: once its updates have run, the conversation is \<open>front\<close> and a message
  with the text of the flushed chunks; the others are in the buffer.\<close>

definition streamingState :: "'n ChatHandler \<Rightarrow> nat \<Rightarrow> Message list \<Rightarrow> jsstring list \<Rightarrow> jsstring list \<Rightarrow> bool" where
  "streamingState h G front flushed buffered \<longleftrightarrow>
     requestGeneration h = G \<and> pend_generation (pendingStreamChunks h) = G \<and>
     pend_content (pendingStreamChunks h) = concat buffered \<and>
     (\<forall>now. \<exists>m. settledMessages h now = front @ [m] \<and> growing (concat flushed) m)"

lemma streaming_render:
  assumes "streamingState h G front flushed buffered"
  shows "streamingState (render h now) G front flushed buffered"
  using assms by (auto simp: streamingState_def render_def settledMessages_def)

lemma settled_onMessageUpdate:
  "settledMessages (onMessageUpdate h u) now = runUpdate (requestGeneration h) now u (settledMessages h now)"
  by (simp add: settledMessages_def onMessageUpdate_def)

lemma updateLast_snoc: "from_role m = RAssistant \<Longrightarrow> updateLastAssistantMessage (front @ [m]) f = front @ [f m]"
  by (simp add: updateLastAssistantMessage_def)

lemma streaming_flush:
  assumes st: "streamingState h G front flushed buffered"
    and fresh: "flushed = [] \<or> buffered = [] \<or> \<not> prefix (concat flushed) (concat buffered)" and ne: "[] \<notin> set buffered"
  shows "streamingState (flushStreamUpdates h G) G front (flushed @ buffered) []"
proof -
  define h1 where "h1 = h\<lparr>streamFlushTimer := None\<rparr>"
  define p where "p = pendingStreamChunks h"
  have G: "requestGeneration h = G" "pend_generation p = G" "pend_content p = concat buffered"
    using st by (simp_all add: streamingState_def p_def)
  have settled1: "settledMessages (h1\<lparr>pendingStreamChunks := q\<rparr>) now = settledMessages h now" for now q
    by (simp add: settledMessages_def h1_def)
  show ?thesis
  proof (cases "pend_reasoning p = [] \<and> pend_content p = []")
    case True
    then have "buffered = []" using ne G(3) by (cases buffered) auto
    moreover have "flushStreamUpdates h G = h1" using True G by (simp add: flushStreamUpdates_def h1_def p_def)
    ultimately show ?thesis using st by (auto simp: streamingState_def h1_def settledMessages_def)
  next
    case False
    then have eq: "flushStreamUpdates h G = onMessageUpdate
        (h1\<lparr>pendingStreamChunks := \<lparr>pend_generation = G, pend_content = [], pend_reasoning = []\<rparr>\<rparr>)
        (FlushChunks G (pend_reasoning p) (concat buffered))"
      using G unfolding flushStreamUpdates_def Let_def p_def h1_def by auto
    have "\<exists>m. settledMessages (flushStreamUpdates h G) now = front @ [m] \<and> growing (concat (flushed @ buffered)) m" for now
    proof -
      obtain m where m: "settledMessages h now = front @ [m]" "growing (concat flushed) m"
        using st by (auto simp: streamingState_def)
      then have "settledMessages (flushStreamUpdates h G) now = front @ [applyFlushed (pend_reasoning p) (concat buffered) now m]"
        unfolding eq settled_onMessageUpdate settled1 by (simp add: h1_def G growing_def updateLast_snoc)
      moreover have "growing (concat flushed @ concat buffered) (applyFlushed (pend_reasoning p) (concat buffered) now m)"
        using fresh by (intro growing_flushed [OF m(2)]) auto
      ultimately show ?thesis by simp
    qed
    then show ?thesis by (simp add: streamingState_def G) (simp add: eq)
  qed
qed

lemma streaming_update:
  assumes "streamingState h G front flushed buffered" "buffered = [] \<or> \<not> prefix (concat buffered) c" "[] \<notin> set buffered"
  shows "streamingState (handleStreamUpdate h G ChunkContent c) G front flushed (buffered @ [c])"
proof -
  have "concat buffered = [] \<longleftrightarrow> buffered = []" using assms(3) by (cases buffered) auto
  then show ?thesis
    using assms unfolding streamingState_def settledMessages_def
    by (auto simp: handleStreamUpdate_def scheduleStreamFlush_def mergePendingStreamChunk_def startsWith_def Let_def)
qed

lemma streaming_reasoning:
  assumes "streamingState h G front flushed buffered"
  shows "streamingState (handleStreamUpdate h G ChunkReasoning c) G front flushed buffered"
  using assms unfolding streamingState_def settledMessages_def
  by (auto simp: handleStreamUpdate_def scheduleStreamFlush_def Let_def)

lemma streaming_fields:
  "streamingState (h\<lparr>controller := c\<rparr>) G front fl bu = streamingState h G front fl bu"
  "streamingState (h\<lparr>isStreaming := b\<rparr>) G front fl bu = streamingState h G front fl bu"
  "streamingState (h\<lparr>isRequesting := b\<rparr>) G front fl bu = streamingState h G front fl bu"
  by (simp_all add: streamingState_def settledMessages_def)

text \<open>The controller listens to the source of request \<open>g\<close> on behalf of generation \<open>G\<close>.\<close>

definition liveFor :: "('p, nat) StreamController \<Rightarrow> nat \<Rightarrow> nat \<Rightarrow> bool" where
  "liveFor c g G \<longleftrightarrow> generation c = g \<and> source c = Some g \<and>
     (case sendCalls c g of Some call \<Rightarrow> call_callbacks call = G \<and> call_phase call = Listening False | None \<Rightarrow> False)"

definition deltaContents :: "StreamEnv \<Rightarrow> jsstring \<Rightarrow> jsstring list" where
  "deltaContents env d = (case parseStreamMessageUpdates env d of
     Inr us \<Rightarrow> map upd_chunk (filter (\<lambda>u. upd_type u = ChunkContent) us) | Inl _ \<Rightarrow> [])"

lemma streaming_message:
  fixes h :: "'n ChatHandler" and e :: "('n ChatCompletionRequest, 'h, nat) StreamEvent"
  assumes e: "e = MessageEvent g (Some d)" and st: "streamingState h G front flushed buffered" and live: "liveFor (controller h) g G"
    and d: "\<not> isStreamDoneMessage d" "chunkOf env d \<noteq> None"
    and fresh: "list_all (\<lambda>c. buffered = [] \<or> \<not> prefix (concat buffered) c) (deltaContents env d)" "[] \<notin> set buffered"
  shows "streamingState (driveController env t h e) G front flushed (buffered @ deltaContents env d)"
    and "controller (driveController env t h e) = controller h"
proof -
  obtain call where call: "sendCalls (controller h) g = Some call" "call_callbacks call = G" "call_phase call = Listening False"
      "generation (controller h) = g" "source (controller h) = Some g"
    using live by (auto simp: liveFor_def split: option.splits)
  obtain us where us: "parseStreamMessageUpdates env d = Inr us"
    using d(2) by (auto simp: parseStreamMessageUpdates_def)
  have msg: "controllerStep env (controller h) e = (controller h, map (\<lambda>u. OnUpdate G (upd_type u) (upd_chunk u)) us)"
    using call d(1) us by (simp add: e onMessage_def isCurrentSource_def completed_def)
  then show "controller (driveController env t h e) = controller h" by simp
  consider "us = []" | c where "us = [\<lparr>upd_type = ChunkReasoning, upd_chunk = c\<rparr>]"
    | c where "us = [\<lparr>upd_type = ChunkContent, upd_chunk = c\<rparr>]"
    | c c' where "us = [\<lparr>upd_type = ChunkReasoning, upd_chunk = c\<rparr>, \<lparr>upd_type = ChunkContent, upd_chunk = c'\<rparr>]"
    using us by (auto simp: parseStreamMessageUpdates_def split: option.splits)
  then show "streamingState (driveController env t h e) G front flushed (buffered @ deltaContents env d)"
    using st fresh us msg
    by cases (simp_all add: driveController_def deltaContents_def streaming_update streaming_reasoning)
qed

lemma streaming_timer:
  assumes "streamingState h G front flushed buffered" "unambiguous (flushed @ buffered @ rest)" "[] \<notin> set buffered"
  shows "\<exists>fl bu. streamingState (flushTimerFires h) G front fl bu \<and> fl @ bu = flushed @ buffered \<and> [] \<notin> set bu"
    and "controller (flushTimerFires h) = controller h" "isRequesting (flushTimerFires h) = isRequesting h"
proof -
  have fresh: "flushed = [] \<or> buffered = [] \<or> \<not> prefix (concat flushed) (concat buffered)"
    using unambiguousD [of "[]" flushed buffered rest] assms(2) by auto
  have flush: "streamingState (flushStreamUpdates h G) G front (flushed @ buffered) []"
    by (rule streaming_flush [OF assms(1) fresh assms(3)])
  have "flushTimerFires h = flushStreamUpdates h G \<or> flushTimerFires h = h"
    using assms(1) by (auto simp: flushTimerFires_def flushStreamUpdates_def streamingState_def split: option.split)
  then show "\<exists>fl bu. streamingState (flushTimerFires h) G front fl bu \<and> fl @ bu = flushed @ buffered \<and> [] \<notin> set bu"
  proof
    assume "flushTimerFires h = flushStreamUpdates h G"
    with flush show ?thesis by (intro exI [of _ "flushed @ buffered"] exI [of _ "[]"]) simp
  next
    assume "flushTimerFires h = h"
    with assms(1,3) show ?thesis by (intro exI [of _ flushed] exI [of _ buffered]) simp
  qed
qed (simp_all add: flushTimerFires_def split: option.split)

text \<open>What happens between the headers and the end: messages of the source, timers and renderings.\<close>

fun streamEvent :: "StreamEnv \<Rightarrow> nat \<Rightarrow> ('n, 'h) ChatEvent \<Rightarrow> bool" where
  "streamEvent env g (NetworkEvent (MessageEvent g' (Some d))) = (g' = g \<and> \<not> isStreamDoneMessage d \<and> chunkOf env d \<noteq> None)"
| "streamEvent env g FlushTimer = True"
| "streamEvent env g (Renders now) = True"
| "streamEvent env g _ = False"

fun eventContents :: "StreamEnv \<Rightarrow> ('n, 'h) ChatEvent \<Rightarrow> jsstring list" where
  "eventContents env (NetworkEvent (MessageEvent g (Some d))) = deltaContents env d"
| "eventContents env _ = []"

lemma streaming_step:
  assumes "streamEvent env g e" and st: "streamingState h G front flushed buffered" and live: "liveFor (controller h) g G"
    and fresh: "unambiguous (flushed @ buffered @ eventContents env e @ rest)" and ne: "[] \<notin> set (buffered @ eventContents env e)"
  shows "\<exists>fl bu. streamingState (chatStep env t h e) G front fl bu \<and> fl @ bu = flushed @ buffered @ eventContents env e \<and>
    [] \<notin> set bu \<and> controller (chatStep env t h e) = controller h"
proof -
  consider d where "e = NetworkEvent (MessageEvent g (Some d))" "\<not> isStreamDoneMessage d" "chunkOf env d \<noteq> None"
    | "e = FlushTimer" | now where "e = Renders now"
    using assms(1) by (cases "(env, g, e)" rule: streamEvent.cases) auto
  then show ?thesis
  proof cases
    case 1
    have "list_all (\<lambda>c. buffered = [] \<or> \<not> prefix (concat buffered) c) (deltaContents env d)"
    proof (cases "deltaContents env d")
      case (Cons c cs)
      have "cs = []"
        using Cons by (auto simp: deltaContents_def parseStreamMessageUpdates_def split: sum.splits option.splits)
      then show ?thesis
        using Cons fresh 1 unambiguousD [of flushed buffered "[c]" rest] by auto
    qed simp
    from streaming_message [OF refl st live 1(2,3) this] ne 1 show ?thesis
      by (intro exI [of _ flushed] exI [of _ "buffered @ deltaContents env d"]) auto
  next
    case 2
    then show ?thesis using streaming_timer [OF st, of rest] fresh ne by auto
  next
    case 3
    then show ?thesis using streaming_render [OF st, of now] ne by (auto simp: render_def)
  qed
qed

lemma streaming_run:
  assumes "list_all (streamEvent env g) evs" "streamingState h G front flushed buffered" "liveFor (controller h) g G"
    and "unambiguous (flushed @ buffered @ concat (map (eventContents env) evs))"
    and "[] \<notin> set (buffered @ concat (map (eventContents env) evs))"
  shows "\<exists>fl bu. streamingState (runChat env t h evs) G front fl bu \<and> [] \<notin> set bu \<and>
    fl @ bu = flushed @ buffered @ concat (map (eventContents env) evs) \<and> controller (runChat env t h evs) = controller h"
  using assms
proof (induction evs arbitrary: h flushed buffered)
  case Nil
  then show ?case by (auto simp: runChat_def)
next
  case (Cons e evs)
  obtain fl bu where step: "streamingState (chatStep env t h e) G front fl bu"
      "fl @ bu = flushed @ buffered @ eventContents env e" "[] \<notin> set bu" "controller (chatStep env t h e) = controller h"
    using streaming_step [of env g e h G front flushed buffered "concat (map (eventContents env) evs)" t] Cons.prems by auto
  then have "fl @ bu @ concat (map (eventContents env) evs) = flushed @ buffered @ concat (map (eventContents env) (e # evs))"
    by (metis append.assoc concat.simps(2) list.simps(9))
  with Cons.IH [of "chatStep env t h e" fl bu] Cons.prems step show ?case by (simp add: runChat_def)
qed

lemma nonEmpty_ne [simp]: "nonEmpty s \<noteq> Some []" "Some [] \<noteq> nonEmpty s"
  by (auto simp: nonEmpty_def split: option.splits)

lemma deltaContents_ne: "[] \<notin> set (deltaContents env d)"
  by (auto simp: deltaContents_def parseStreamMessageUpdates_def split: sum.splits option.splits)

lemma eventContents_ne: "[] \<notin> set (eventContents env e)"
  by (cases "(env, e)" rule: eventContents.cases) (simp_all add: deltaContents_ne)

lemma send_starts_stream:
  assumes "stream (config h)" "\<not> isVideoGenerationModel (model (config h))" "\<not> isImageGenerationModel (model (config h))"
  shows "streamingState (handleSendMessage env t nanoid now h input) (requestGeneration h + 1)
      (messages h @ [createUserMessage (nanoid 0) (nanoid 1) input now]) [] []"
    and "generation (controller (handleSendMessage env t nanoid now h input)) = generation (controller h) + 1"
    and "sendCalls (controller (handleSendMessage env t nanoid now h input)) (generation (controller h) + 1) =
      Some \<lparr>call_payload = buildChatCompletionPayload (appendUserMessagePair nanoid (messages h) input now) (config h) (parameterEnabled h),
        call_callbacks = requestGeneration h + 1, call_phase = AwaitHeaders\<rparr>"
proof -
  define next' where "next' = appendUserMessagePair nanoid (messages h) input now"
  define G where "G = requestGeneration h + 1"
  define h1 where "h1 = (discardPendingStreamUpdates (abortCurrent ((onMessageUpdate h (SetMessages next'))\<lparr>requestGeneration := G\<rparr>)) G)
      \<lparr>isRequesting := True\<rparr>"
  define c where "c = (controller h)\<lparr>generation := generation (controller h) + 1, source := None,
      sendCalls := (sendCalls (controller h))(generation (controller h) + 1 \<mapsto>
        \<lparr>call_payload = buildChatCompletionPayload next' (config h) (parameterEnabled h), call_callbacks = G,
         call_phase = AwaitHeaders\<rparr>)\<rparr>"
  have eq: "handleSendMessage env t nanoid now h input = h1\<lparr>controller := c, isStreaming := False\<rparr>"
    using assms unfolding handleSendMessage_def sendChat_def sendStreamingChat_def driveController_def Let_def
    by (simp add: next'_def [symmetric] G_def [symmetric])
      (simp add: h1_def c_def sendStart_def closePrevious_def G_def onMessageUpdate_def abortCurrent_def
        discardPendingStreamUpdates_def Let_def split: option.split)
  have h1: "requestGeneration h1 = G" "messageUpdates h1 = messageUpdates h @ [SetMessages next']"
    "pendingStreamChunks h1 = \<lparr>pend_generation = G, pend_content = [], pend_reasoning = []\<rparr>"
    by (simp_all add: h1_def)
  have "settledMessages h1 now' = (messages h @ [createUserMessage (nanoid 0) (nanoid 1) input now]) @
      [createLoadingAssistantMessage (nanoid 2) (nanoid 3) now]" for now'
    by (simp add: settledMessages_def h1 next'_def appendUserMessagePair_def)
  then have "streamingState h1 G (messages h @ [createUserMessage (nanoid 0) (nanoid 1) input now]) [] []"
    using growing_loading [of "nanoid 2" "nanoid 3" now] by (auto simp: streamingState_def h1)
  then show "streamingState (handleSendMessage env t nanoid now h input) (requestGeneration h + 1)
      (messages h @ [createUserMessage (nanoid 0) (nanoid 1) input now]) [] []"
    by (simp add: eq streaming_fields G_def)
  show "generation (controller (handleSendMessage env t nanoid now h input)) = generation (controller h) + 1"
    by (simp add: eq c_def)
  show "sendCalls (controller (handleSendMessage env t nanoid now h input)) (generation (controller h) + 1) =
      Some \<lparr>call_payload = buildChatCompletionPayload (appendUserMessagePair nanoid (messages h) input now) (config h) (parameterEnabled h),
        call_callbacks = requestGeneration h + 1, call_phase = AwaitHeaders\<rparr>"
    by (simp add: eq c_def next'_def G_def)
qed

fun quietEvent :: "('n, 'h) ChatEvent \<Rightarrow> bool" where
  "quietEvent FlushTimer = True"
| "quietEvent (Renders _) = True"
| "quietEvent _ = False"

lemma quiet_run:
  assumes "list_all quietEvent evs" "streamingState h G front [] []"
  shows "streamingState (runChat env t h evs) G front [] [] \<and> controller (runChat env t h evs) = controller h"
  using assms
proof (induction evs arbitrary: h)
  case (Cons e evs)
  have "streamingState (chatStep env t h e) G front [] [] \<and> controller (chatStep env t h e) = controller h"
    using Cons.prems streaming_timer [OF Cons.prems(2), of "[]"] streaming_render [OF Cons.prems(2)]
    by (cases e) (auto simp: unambiguous_def render_def)
  with Cons show ?case by (simp add: runChat_def)
qed (simp add: runChat_def)

lemma headers_start_source:
  fixes h :: "'n ChatHandler" and hdr :: 'h
  assumes "streamingState h G front [] []" "generation (controller h) = g"
    and "sendCalls (controller h) g = Some \<lparr>call_payload = p, call_callbacks = G, call_phase = AwaitHeaders\<rparr>"
  shows "streamingState (driveController env t h (HeadersArrive g hdr False)) G front [] [] \<and>
    liveFor (controller (driveController env t h (HeadersArrive g hdr False))) g G"
  using assms by (simp add: driveController_def sendResumed_eq streaming_fields liveFor_def)

lemma done_completes:
  fixes h :: "'n ChatHandler" and e :: "('n ChatCompletionRequest, 'h, nat) StreamEvent"
  assumes st: "streamingState h G front flushed buffered" and live: "liveFor (controller h) g G"
    and fresh: "unambiguous (flushed @ buffered)" "[] \<notin> set buffered" and e: "e = MessageEvent g (Some STREAM_DONE_MESSAGE)"
  shows "\<exists>m. messages (render (driveController env t h e) now) = front @ [m] \<and> from_role m = RAssistant \<and>
      status m = Some SComplete \<and> getMessageContent m = visibleContent (parseThinkTags (concat (flushed @ buffered)))"
    and "\<not> isGenerating (render (driveController env t h e) now)"
proof -
  obtain call where call: "sendCalls (controller h) g = Some call" "call_callbacks call = G" "call_phase call = Listening False"
      "generation (controller h) = g" "source (controller h) = Some g"
    using live by (auto simp: liveFor_def split: option.splits)
  define h1 where "h1 = h\<lparr>controller := fst (controllerStep env (controller h) e), isStreaming := False\<rparr>"
  have st1: "streamingState h1 G front flushed buffered" using st by (simp add: h1_def streaming_fields)
  have "flushed = [] \<or> buffered = [] \<or> \<not> prefix (concat flushed) (concat buffered)"
    using unambiguousD [of "[]" flushed buffered "[]"] fresh(1) by auto
  then have st2: "streamingState (flushStreamUpdates h1 G) G front (flushed @ buffered) []"
    using streaming_flush [OF st1 _ fresh(2)] by blast
  have eq: "driveController env t h e = onMessageUpdate ((flushStreamUpdates h1 G)\<lparr>isRequesting := False\<rparr>) (CompleteStream G)"
    using call st by (simp add: driveController_def e onMessage_def isCurrentSource_def completed_def isStreamDoneMessage_def
        closeActiveSource_def setPhase_def handleStreamComplete_def h1_def streamingState_def)
  obtain m where m: "settledMessages (flushStreamUpdates h1 G) now = front @ [m]" "growing (concat (flushed @ buffered)) m"
    using st2 by (auto simp: streamingState_def)
  have "messages (render (driveController env t h e) now) = front @ [completeAssistantMessage m now]"
    using m st1 growing_complete(1) [OF m(2)] unfolding eq
    by (simp add: render_def settledMessages_def onMessageUpdate_def streamingState_def growing_def updateLast_snoc)
  then show "\<exists>m. messages (render (driveController env t h e) now) = front @ [m] \<and> from_role m = RAssistant \<and>
      status m = Some SComplete \<and> getMessageContent m = visibleContent (parseThinkTags (concat (flushed @ buffered)))"
    using growing_complete(2,3) [OF m(2), of now] m(2) by (auto simp: growing_def completeAssistantMessage_def finalizeMessage_def Let_def)
  show "\<not> isGenerating (render (driveController env t h e) now)"
    unfolding eq by (simp add: render_def isGenerating_def h1_def)
qed

text \<open>C1. A streamed answer is delivered: after a text is sent with a streaming chat model, once the headers
  arrive, the source emits its chunks and \<open>[DONE]\<close>, and the page renders, the conversation is the old one with
  the user's message and a finished answer whose text is that of all the chunks, freed of its think sections,
  and the page is not generating; whenever the flush timer fires and the page renders in between.  This holds for
  unambiguous chunks: increments no run of which starts with the text of a run right before it.  Of other sequences,
  such as a text sent twice, the code may drop a part, taking an increment for a snapshot.\<close>

theorem stream_delivery:
  assumes model: "stream (config h)" "\<not> isVideoGenerationModel (model (config h))" "\<not> isImageGenerationModel (model (config h))"
    and g: "g = generation (controller h) + 1"
    and quiet: "list_all quietEvent waits" and events: "list_all (streamEvent env g) evs"
    and increments: "unambiguous (concat (map (eventContents env) evs))"
    and h': "h' = runChat env t h ([UserSends nanoid now input] @ waits @ [NetworkEvent (HeadersArrive g hdr False)] @ evs @
      [NetworkEvent (MessageEvent g (Some STREAM_DONE_MESSAGE)), Renders now'])"
  shows "(\<exists>m. messages h' = messages h @ [createUserMessage (nanoid 0) (nanoid 1) input now, m] \<and>
      from_role m = RAssistant \<and> status m = Some SComplete \<and>
      getMessageContent m = visibleContent (parseThinkTags (concat (concat (map (eventContents env) evs))))) \<and> \<not> isGenerating h'"
proof -
  define G where "G = requestGeneration h + 1"
  define front where "front = messages h @ [createUserMessage (nanoid 0) (nanoid 1) input now]"
  define h1 where "h1 = runChat env t (handleSendMessage env t nanoid now h input) waits"
  define h2 where "h2 = driveController env t h1 (HeadersArrive g hdr False)"
  define h3 where "h3 = runChat env t h2 evs"
  note start = send_starts_stream [OF model, of env t nanoid now input]
  have "streamingState h1 G front [] [] \<and> controller h1 = controller (handleSendMessage env t nanoid now h input)"
    unfolding h1_def by (rule quiet_run [OF quiet]) (use start(1) in \<open>simp add: G_def front_def\<close>)
  then have h2: "streamingState h2 G front [] [] \<and> liveFor (controller h2) g G"
    unfolding h2_def using start(2,3) by (intro headers_start_source) (auto simp: g G_def)
  have "[] \<notin> set (concat (map (eventContents env) evs))" using eventContents_ne by auto
  then obtain fl bu where h3: "streamingState h3 G front fl bu" "[] \<notin> set bu"
      "fl @ bu = concat (map (eventContents env) evs)" "liveFor (controller h3) g G"
    using streaming_run [OF events, of h2 G front "[]" "[]" t] h2 increments unfolding h3_def by auto
  define ends where "ends = (MessageEvent g (Some STREAM_DONE_MESSAGE) :: ('a ChatCompletionRequest, 'b, nat) StreamEvent)"
  have "h' = render (driveController env t h3 ends) now'"
    unfolding h' h3_def h2_def h1_def runChat_def ends_def by simp
  then show ?thesis
    using done_completes [OF h3(1,4) _ h3(2) ends_def, of env t now'] h3(3) increments by (auto simp: front_def)
qed

lemma unambiguous_pair: "\<not> prefix c d \<Longrightarrow> unambiguous [c, d]"
  by (auto simp: unambiguous_def Cons_eq_append_conv)

theorem stream_delivery_witness:
  "\<exists>h' m. h' = runChat witnessEnv id (initialChatHandler chatConfig DEFAULT_PARAMETER_ENABLED [])
     ([UserSends (\<lambda>_. js ''k'') 0 (js ''hi'')] @ [Renders 1] @ [NetworkEvent (HeadersArrive 1 () False)] @
       [NetworkEvent (MessageEvent 1 (Some (js ''Hel''))), FlushTimer, Renders 2, NetworkEvent (MessageEvent 1 (Some (js ''lo'')))] @
       [NetworkEvent (MessageEvent 1 (Some STREAM_DONE_MESSAGE)), Renders 3]) \<and>
     last (messages h') = m \<and> getMessageContent m = visibleContent (parseThinkTags (js ''Hello'')) \<and> \<not> isGenerating h'"
proof -
  let ?h = "initialChatHandler chatConfig DEFAULT_PARAMETER_ENABLED []"
  let ?evs = "[NetworkEvent (MessageEvent 1 (Some (js ''Hel''))), FlushTimer, Renders 2,
    NetworkEvent (MessageEvent 1 (Some (js ''lo'')))] :: (rat, unit) ChatEvent list"
  have config: "config ?h = DEFAULT_CONFIG" "generation (controller ?h) = 0"
    by (simp_all add: initialChatHandler_def chatConfig_def initialController_def)
  have model: "stream DEFAULT_CONFIG" "\<not> isVideoGenerationModel (model DEFAULT_CONFIG)"
    "\<not> isImageGenerationModel (model DEFAULT_CONFIG)"
    by (simp_all add: DEFAULT_CONFIG_def isVideoGenerationModel_def isImageGenerationModel_def toLowerCase_def
        js.simps str_includes_def sublist_code)
  have contents: "concat (map (eventContents witnessEnv) ?evs) = [js ''Hel'', js ''lo'']"
    by (simp add: deltaContents_def parseStreamMessageUpdates_def witnessEnv_def firstDelta_def nonEmpty_def)
  have "list_all (streamEvent witnessEnv 1) ?evs"
    by (simp add: isStreamDoneMessage_def STREAM_DONE_MESSAGE_def witnessEnv_def)
  moreover have "unambiguous (concat (map (eventContents witnessEnv) ?evs))"
    unfolding contents by (rule unambiguous_pair) simp
  moreover have "concat [js ''Hel'', js ''lo''] = js ''Hello''" by (simp flip: js_append)
  ultimately show ?thesis
    using stream_delivery [of ?h 1 "[Renders 1]" witnessEnv ?evs _ id "\<lambda>_. js ''k''" 0 "js ''hi''" "()" 3, OF _ _ _ _ _ _ _ refl]
      config model contents by fastforce
qed

section \<open>Buffering\<close>

text \<open>The text can depend on the timer: when an increment starts with the one before it, and both arrive
  between two flushes, the first is dropped; when the timer fires between them, both are kept.\<close>

lemma flush_timing_changes_text:
  assumes "growing tx m" "tx \<noteq> []" "c1 \<noteq> []" "prefix c1 c2" "\<not> prefix tx c2"
  shows "getMessageContent (applyFlushed [] (mergePendingStreamChunk c1 c2) now m) = tx @ c2 \<and>
    getMessageContent (applyFlushed [] c2 now' (applyFlushed [] c1 now m)) = tx @ c1 @ c2"
proof -
  have "\<not> prefix tx c1" "\<not> prefix (tx @ c1) c2" "c2 \<noteq> []"
    using assms(3-5) by (auto dest: prefix_order.trans append_prefixD)
  then have "growing ((tx @ c1) @ c2) (applyFlushed [] c2 now' (applyFlushed [] c1 now m))"
    using growing_flushed [OF growing_flushed [OF assms(1), of c1 "[]" now], of c2 "[]" now'] by simp
  moreover have "growing (tx @ c2) (applyFlushed [] (mergePendingStreamChunk c1 c2) now m)"
    using growing_flushed [OF assms(1), of c2 "[]" now] assms(3-5) by (simp add: mergePendingStreamChunk_def startsWith_def)
  ultimately show ?thesis by (simp add: growing_def)
qed

end
