(* ===== verification/JsonText.thy ===== *)
theory JsonText
  imports JsPrelude
begin

text \<open>
  Strings as JSON text: \<open>JSON.stringify\<close> of a string, with the escapes of the standard (control characters and
  lone surrogates are written as hexadecimal escapes), and \<open>JSON.parse\<close> of a text that starts with a quote.
  Reading back what was written gives the string again.
\<close>

section \<open>Writing\<close>

definition hexDigit :: "nat \<Rightarrow> nat" where
  "hexDigit n = (if n < 10 then 48 + n else 87 + n)"

definition hex4 :: "nat \<Rightarrow> jsstring" where
  "hex4 c = [92, 117, hexDigit (c div 4096 mod 16), hexDigit (c div 256 mod 16), hexDigit (c div 16 mod 16), hexDigit (c mod 16)]"

definition highSurrogate :: "nat \<Rightarrow> bool" where
  "highSurrogate c \<longleftrightarrow> 55296 \<le> c \<and> c \<le> 56319"

definition lowSurrogate :: "nat \<Rightarrow> bool" where
  "lowSurrogate c \<longleftrightarrow> 56320 \<le> c \<and> c \<le> 57343"

definition escapeUnit :: "nat \<Rightarrow> jsstring" where
  "escapeUnit c =
     (if c = 34 then [92, 34] else if c = 92 then [92, 92] else if c = 8 then [92, 98] else if c = 9 then [92, 116]
      else if c = 10 then [92, 110] else if c = 12 then [92, 102] else if c = 13 then [92, 114]
      else if c < 32 \<or> lowSurrogate c \<or> highSurrogate c then hex4 c else [c])"

fun escapeUnits :: "jsstring \<Rightarrow> jsstring" where
  "escapeUnits [] = []"
| "escapeUnits [c] = escapeUnit c"
| "escapeUnits (c # d # cs) =
     (if highSurrogate c \<and> lowSurrogate d then c # d # escapeUnits cs else escapeUnit c @ escapeUnits (d # cs))"

definition jsonQuote :: "jsstring \<Rightarrow> jsstring" where
  "jsonQuote s = 34 # escapeUnits s @ [34]"

section \<open>Reading\<close>

definition hexValue :: "nat \<Rightarrow> nat option" where
  "hexValue c = (if 48 \<le> c \<and> c \<le> 57 then Some (c - 48) else if 97 \<le> c \<and> c \<le> 102 then Some (c - 87)
     else if 65 \<le> c \<and> c \<le> 70 then Some (c - 55) else None)"

definition hexValue4 :: "nat \<Rightarrow> nat \<Rightarrow> nat \<Rightarrow> nat \<Rightarrow> nat option" where
  "hexValue4 a b c d = (case (hexValue a, hexValue b, hexValue c, hexValue d) of
     (Some w, Some x, Some y, Some z) \<Rightarrow> Some (((w * 16 + x) * 16 + y) * 16 + z) | _ \<Rightarrow> None)"

definition simpleEscape :: "nat \<Rightarrow> nat option" where
  "simpleEscape c = map_of [(34, 34), (92, 92), (47, 47), (98, 8), (102, 12), (110, 10), (114, 13), (116, 9)] c"

text \<open>The rest of a string literal, up to and including its closing quote at the end of the text.\<close>

fun unescapeUnits :: "jsstring \<Rightarrow> jsstring option" where
  "unescapeUnits [] = None"
| "unescapeUnits (c # cs) =
     (if c = 34 then (if cs = [] then Some [] else None)
      else if c = 92 then
        (case cs of
           e # rest \<Rightarrow>
             (case simpleEscape e of
                Some u \<Rightarrow> map_option (Cons u) (unescapeUnits rest)
              | None \<Rightarrow>
                  (if e \<noteq> 117 then None
                   else (case rest of
                       h1 # h2 # h3 # h4 # rest' \<Rightarrow>
                         (case hexValue4 h1 h2 h3 h4 of
                            Some u \<Rightarrow> map_option (Cons u) (unescapeUnits rest') | None \<Rightarrow> None)
                     | _ \<Rightarrow> None)))
         | [] \<Rightarrow> None)
      else if c < 32 then None
      else map_option (Cons c) (unescapeUnits cs))"

definition jsonUnquote :: "jsstring \<Rightarrow> jsstring option" where
  "jsonUnquote s = (case s of c # cs \<Rightarrow> if c = 34 then unescapeUnits cs else None | [] \<Rightarrow> None)"

section \<open>Reading what was written\<close>

lemma hexValue_hexDigit [simp]: "n < 16 \<Longrightarrow> hexValue (hexDigit n) = Some n"
  by (auto simp: hexValue_def hexDigit_def)

lemma hexValue4_hex:
  assumes "c < 65536"
  shows "hexValue4 (hexDigit (c div 4096 mod 16)) (hexDigit (c div 256 mod 16)) (hexDigit (c div 16 mod 16)) (hexDigit (c mod 16)) = Some c"
proof -
  have "c div 4096 = c div 256 div 16" "c div 256 = c div 16 div 16" by (simp_all flip: div_mult2_eq)
  then have "c div 4096 * 16 + c div 256 mod 16 = c div 256" "c div 256 * 16 + c div 16 mod 16 = c div 16"
    by (metis div_mult_mod_eq)+
  moreover have "c div 16 * 16 + c mod 16 = c" by (rule div_mult_mod_eq)
  moreover have top: "c div 4096 mod 16 = c div 4096" using assms by simp
  ultimately have "((c div 4096 mod 16 * 16 + c div 256 mod 16) * 16 + c div 16 mod 16) * 16 + c mod 16 = c" by metis
  moreover have "c div 4096 < 16" using assms by simp
  ultimately show ?thesis unfolding hexValue4_def by (simp add: top)
qed

declare unescapeUnits.simps(2) [simp del]

lemma unescape_plain: "c \<noteq> 34 \<Longrightarrow> c \<noteq> 92 \<Longrightarrow> 32 \<le> c \<Longrightarrow> unescapeUnits (c # cs) = map_option (Cons c) (unescapeUnits cs)"
  by (simp add: unescapeUnits.simps(2))

lemma unescape_simple: "simpleEscape e = Some u \<Longrightarrow> unescapeUnits (92 # e # cs) = map_option (Cons u) (unescapeUnits cs)"
  by (simp add: unescapeUnits.simps(2))

lemma unescape_hex: "c < 65536 \<Longrightarrow> unescapeUnits (hex4 c @ cs) = map_option (Cons c) (unescapeUnits cs)"
  using hexValue4_hex [of c] by (simp add: hex4_def unescapeUnits.simps(2) simpleEscape_def)

lemma unescape_escapeUnit:
  assumes "c < 65536"
  shows "unescapeUnits (escapeUnit c @ cs) = map_option (Cons c) (unescapeUnits cs)"
proof (cases "c \<in> {34, 92, 8, 9, 10, 12, 13}")
  case True
  then show ?thesis by (elim insertE) (auto simp: escapeUnit_def unescape_simple simpleEscape_def)
next
  case False
  then show ?thesis
    using assms unescape_hex [of c cs] unescape_plain [of c cs] by (auto simp: escapeUnit_def)
qed

lemma unescape_escapeUnits:
  "list_all (\<lambda>c. c < 65536) s \<Longrightarrow> unescapeUnits (escapeUnits s @ [34]) = Some s"
proof (induction s rule: escapeUnits.induct)
  case 1
  then show ?case by (simp add: unescapeUnits.simps(2))
next
  case (2 c)
  then show ?case using unescape_escapeUnit [of c "[34]"] by (simp add: unescapeUnits.simps(2))
next
  case (3 c d cs)
  show ?case
  proof (cases "highSurrogate c \<and> lowSurrogate d")
    case True
    then have "unescapeUnits (c # d # escapeUnits cs @ [34]) = Some (c # d # cs)"
      using 3 by (simp add: unescape_plain highSurrogate_def lowSurrogate_def)
    then show ?thesis using True by simp
  next
    case False
    then show ?thesis using 3 unescape_escapeUnit [of c "escapeUnits (d # cs) @ [34]"] by auto
  qed
qed

theorem jsonUnquote_quote: "list_all (\<lambda>c. c < 65536) s \<Longrightarrow> jsonUnquote (jsonQuote s) = Some s"
  by (simp add: jsonUnquote_def jsonQuote_def unescape_escapeUnits)

text \<open>Text that needs no escapes.\<close>

definition plainUnit :: "nat \<Rightarrow> bool" where
  "plainUnit c \<longleftrightarrow> c \<noteq> 34 \<and> c \<noteq> 92 \<and> 32 \<le> c \<and> \<not> highSurrogate c \<and> \<not> lowSurrogate c"

lemma escapeUnits_plain: "list_all plainUnit s \<Longrightarrow> escapeUnits s = s"
  by (induction s rule: escapeUnits.induct) (auto simp: plainUnit_def escapeUnit_def)

lemma jsonQuote_plain: "list_all plainUnit s \<Longrightarrow> jsonQuote s = 34 # s @ [34]"
  by (simp add: jsonQuote_def escapeUnits_plain)

end
