(* ===== verification/RequestRules.thy ===== *)
theory RequestRules
  imports JsonText "HOL-Library.Monad_Syntax"
begin

text \<open>
  Request rules of a billing expression (\<open>src/web/src/features/pricing/lib/billing-expr.ts\<close>, from the request
  rule parser on): the conditions an administrator edits, the text they are written to, the parser that reads
  the text back, and splitting a billing expression into its base and its rules.

  The regular expressions are written as scanners.  In each of them a repeated class is followed by a character
  outside the class, so that the first way to match is the only one.  Writing and reading of strings is that of
  \<open>JsonText\<close>.  An exception is \<open>Inl\<close>.
\<close>

section \<open>Constants and data\<close>

definition MATCH_EQ :: jsstring where "MATCH_EQ = js ''eq''"
definition MATCH_CONTAINS :: jsstring where "MATCH_CONTAINS = js ''contains''"
definition MATCH_GT :: jsstring where "MATCH_GT = js ''gt''"
definition MATCH_GTE :: jsstring where "MATCH_GTE = js ''gte''"
definition MATCH_LT :: jsstring where "MATCH_LT = js ''lt''"
definition MATCH_LTE :: jsstring where "MATCH_LTE = js ''lte''"
definition MATCH_EXISTS :: jsstring where "MATCH_EXISTS = js ''exists''"
definition MATCH_RANGE :: jsstring where "MATCH_RANGE = js ''range''"

definition TIME_FUNCS :: "jsstring list" where
  "TIME_FUNCS = [js ''hour'', js ''minute'', js ''weekday'', js ''month'', js ''day'']"

datatype ParamSource = Param | Header

record ParamHeaderCondition =
  ph_source :: ParamSource
  ph_path :: jsstring
  ph_mode :: jsstring
  ph_value :: jsstring

record TimeCondition =
  tc_timeFunc :: jsstring
  tc_timezone :: jsstring
  tc_mode :: jsstring
  tc_value :: jsstring
  tc_rangeStart :: jsstring
  tc_rangeEnd :: jsstring

datatype RequestCondition = OnRequest ParamHeaderCondition | OnTime TimeCondition

record RequestRuleGroup =
  conditions :: "RequestCondition list"
  multiplier :: jsstring

section \<open>Scanning\<close>

definition stripPrefix :: "jsstring \<Rightarrow> jsstring \<Rightarrow> jsstring option" where
  "stripPrefix p s = (if prefix p s then Some (drop (length p) s) else None)"

definition span1 :: "(nat \<Rightarrow> bool) \<Rightarrow> jsstring \<Rightarrow> (jsstring \<times> jsstring) option" where
  "span1 P s = (if takeWhile P s = [] then None else Some (takeWhile P s, dropWhile P s))"

text \<open>The class \<open>[\d.eE+-]\<close>.\<close>

definition isNumChar :: "nat \<Rightarrow> bool" where
  "isNumChar c \<longleftrightarrow> is_digit c \<or> c \<in> {46, 101, 69, 43, 45}"

definition isLineEnd :: "nat \<Rightarrow> bool" where
  "isLineEnd c \<longleftrightarrow> c \<in> {10, 13, 8232, 8233}"

definition exponentOk :: "jsstring \<Rightarrow> bool" where
  "exponentOk s = (case s of
     [] \<Rightarrow> True
   | e # r \<Rightarrow>
       (e = 101 \<or> e = 69) \<and>
       (let r' = (case r of c # cs \<Rightarrow> if c = 43 \<or> c = 45 then cs else r | [] \<Rightarrow> r) in r' \<noteq> [] \<and> list_all is_digit r'))"

text \<open>\<open>NUMERIC_LITERAL_REGEX\<close>.\<close>

definition isNumericLiteral :: "jsstring \<Rightarrow> bool" where
  "isNumericLiteral s =
     (let s1 = (case s of c # cs \<Rightarrow> if c = 45 then cs else s | [] \<Rightarrow> s);
          int' = takeWhile is_digit s1; r = dropWhile is_digit s1 in
      if int' \<noteq> []
      then exponentOk (case r of c # cs \<Rightarrow> if c = 46 then dropWhile is_digit cs else r | [] \<Rightarrow> r)
      else (case r of
          c # cs \<Rightarrow> c = 46 \<and> takeWhile is_digit cs \<noteq> [] \<and> exponentOk (dropWhile is_digit cs)
        | [] \<Rightarrow> False))"

text \<open>\<open>"([^"]+)"\<close>: the quoted text and what follows.\<close>

definition quotedText :: "jsstring \<Rightarrow> (jsstring \<times> jsstring) option" where
  "quotedText s = do {
     r \<leftarrow> stripPrefix [34] s;
     (q, r') \<leftarrow> span1 (\<lambda>c. c \<noteq> 34) r;
     rest \<leftarrow> stripPrefix [34] r';
     Some (q, rest)}"

text \<open>\<open>name("...")\<close>: the argument and what follows.\<close>

definition callText :: "jsstring \<Rightarrow> jsstring \<Rightarrow> (jsstring \<times> jsstring) option" where
  "callText name s = do {
     r \<leftarrow> stripPrefix (name @ js ''('') s;
     (q, r') \<leftarrow> quotedText r;
     rest \<leftarrow> stripPrefix (js '')'') r';
     Some (q, rest)}"

text \<open>A literal that fills the text: \<open>"(?:[^"\\]|\\.)*"\<close>.\<close>

fun quotedBody :: "jsstring \<Rightarrow> bool" where
  "quotedBody [] = False"
| "quotedBody (c # cs) =
     (if c = 34 then cs = []
      else if c = 92 then (case cs of d # ds \<Rightarrow> \<not> isLineEnd d \<and> quotedBody ds | [] \<Rightarrow> False)
      else quotedBody cs)"

definition quotedLiteral :: "jsstring \<Rightarrow> bool" where
  "quotedLiteral s = (case s of c # cs \<Rightarrow> c = 34 \<and> quotedBody cs | [] \<Rightarrow> False)"

section \<open>Splitting at top level\<close>

text \<open>The loop of \<open>splitTopLevelMultiply\<close> and \<open>splitTopLevelAnd\<close>: the depth, the piece so far, the rest.\<close>

function splitTopLoop :: "jsstring \<Rightarrow> int \<Rightarrow> jsstring \<Rightarrow> jsstring \<Rightarrow> jsstring list" where
  "splitTopLoop sep depth piece [] = [trim piece]"
| "splitTopLoop sep depth piece (c # cs) =
     (let depth' = depth + (if c = 40 then 1 else 0) - (if c = 41 then 1 else 0) in
      if depth' = 0 \<and> prefix sep (c # cs)
      then trim piece # splitTopLoop sep depth' [] (drop (length sep - 1) cs)
      else splitTopLoop sep depth' (piece @ [c]) cs)"
  by pat_completeness auto
termination by (relation "measure (\<lambda>(sep, depth, piece, rest). length rest)") auto

definition splitTopLevelMultiply :: "jsstring \<Rightarrow> jsstring list" where
  "splitTopLevelMultiply expr = filter (\<lambda>p. p \<noteq> []) (splitTopLoop (js '' * '') 0 [] expr)"

definition splitTopLevelAnd :: "jsstring \<Rightarrow> jsstring list" where
  "splitTopLevelAnd expr = filter (\<lambda>p. p \<noteq> []) (splitTopLoop (js '' && '') 0 [] expr)"

section \<open>Parsing conditions\<close>

text \<open>\<open>parseExprLiteral\<close> followed by \<open>String\<close>.  A text that is neither a word, a number nor a string literal can
  still be an array or object of JSON; the parameter gives its text.\<close>

definition parseExprLiteral :: "(jsstring \<Rightarrow> jsstring option) \<Rightarrow> jsstring \<Rightarrow> jsstring option" where
  "parseExprLiteral otherJson raw =
     (let t = trim raw in
      if t = js ''true'' \<or> t = js ''false'' then Some t
      else if isNumericLiteral t then Some t
      else if prefix [34] t then jsonUnquote t
      else if t = js ''null'' then None
      else otherJson t)"

definition timeCall :: "jsstring \<Rightarrow> (jsstring \<times> jsstring \<times> jsstring) option" where
  "timeCall s = (case find (\<lambda>f. callText f s \<noteq> None) TIME_FUNCS of
     Some f \<Rightarrow> map_option (Pair f) (callText f s) | None \<Rightarrow> None)"

definition allNumChars :: "jsstring \<Rightarrow> jsstring option" where
  "allNumChars s = (if s \<noteq> [] \<and> list_all isNumChar s then Some s else None)"

definition timeRange :: "jsstring \<Rightarrow> TimeCondition option" where
  "timeRange s = do {
     (f, tz, r1) \<leftarrow> timeCall s;
     r2 \<leftarrow> stripPrefix (js '' >= '') r1;
     (n1, r3) \<leftarrow> span1 isNumChar r2;
     r4 \<leftarrow> stripPrefix (js '' || '' @ f @ js ''('' @ [34] @ tz @ [34] @ js '') < '') r3;
     n2 \<leftarrow> allNumChars r4;
     Some \<lparr>tc_timeFunc = f, tc_timezone = tz, tc_mode = MATCH_RANGE, tc_value = [], tc_rangeStart = n1, tc_rangeEnd = n2\<rparr>}"

definition timeCompare :: "jsstring \<Rightarrow> TimeCondition option" where
  "timeCompare s = do {
     (f, tz, r1) \<leftarrow> timeCall s;
     (mode, r2) \<leftarrow> (case stripPrefix (js '' == '') r1 of
         Some r \<Rightarrow> Some (MATCH_EQ, r)
       | None \<Rightarrow> (case stripPrefix (js '' >= '') r1 of
           Some r \<Rightarrow> Some (MATCH_GTE, r)
         | None \<Rightarrow> map_option (Pair MATCH_LT) (stripPrefix (js '' < '') r1)));
     n \<leftarrow> allNumChars r2;
     Some \<lparr>tc_timeFunc = f, tc_timezone = tz, tc_mode = mode, tc_value = n, tc_rangeStart = [], tc_rangeEnd = []\<rparr>}"

definition inParens :: "jsstring \<Rightarrow> jsstring option" where
  "inParens s = (if length s \<ge> 2 \<and> hd s = 40 \<and> last s = 41 then Some (butlast (tl s)) else None)"

definition tryParseTimeCondition :: "jsstring \<Rightarrow> TimeCondition option" where
  "tryParseTimeCondition expr = (case timeRange expr of
     Some c \<Rightarrow> Some c
   | None \<Rightarrow> (case Option.bind (inParens expr) timeRange of
       Some c \<Rightarrow> Some c
     | None \<Rightarrow> timeCompare expr))"

definition headerExists :: "jsstring \<Rightarrow> jsstring option" where
  "headerExists s = do {(p, r) \<leftarrow> callText (js ''header'') s; if r = js '' != '' @ [34, 34] then Some p else None}"

definition paramExists :: "jsstring \<Rightarrow> jsstring option" where
  "paramExists s = do {(p, r) \<leftarrow> callText (js ''param'') s; if r = js '' != nil'' then Some p else None}"

text \<open>\<open>has(header("..."), "...")\<close>: the path and the literal.\<close>

definition headerContains :: "jsstring \<Rightarrow> (jsstring \<times> jsstring) option" where
  "headerContains s = do {
     r0 \<leftarrow> stripPrefix (js ''has('') s;
     (p, r1) \<leftarrow> callText (js ''header'') r0;
     r2 \<leftarrow> stripPrefix (js '', '') r1;
     if r2 \<noteq> [] \<and> last r2 = 41 \<and> quotedLiteral (butlast r2) then Some (p, butlast r2) else None}"

definition paramContains :: "jsstring \<Rightarrow> (jsstring \<times> jsstring) option" where
  "paramContains s = do {
     (p, r0) \<leftarrow> callText (js ''param'') s;
     r1 \<leftarrow> stripPrefix (js '' != nil && has('') r0;
     (p', r2) \<leftarrow> callText (js ''param'') r1;
     r3 \<leftarrow> stripPrefix (js '', '') r2;
     if r3 \<noteq> [] \<and> last r3 = 41 \<and> quotedLiteral (butlast r3) \<and> p = p' then Some (p, butlast r3) else None}"

definition paramCompare :: "jsstring \<Rightarrow> (jsstring \<times> jsstring \<times> jsstring) option" where
  "paramCompare s = do {
     (p, r0) \<leftarrow> callText (js ''param'') s;
     r1 \<leftarrow> stripPrefix (js '' != nil && '') r0;
     (p', r2) \<leftarrow> callText (js ''param'') r1;
     (mode, r3) \<leftarrow> (case stripPrefix (js '' > '') r2 of
         Some r \<Rightarrow> Some (MATCH_GT, r)
       | None \<Rightarrow> (case stripPrefix (js '' >= '') r2 of
           Some r \<Rightarrow> Some (MATCH_GTE, r)
         | None \<Rightarrow> (case stripPrefix (js '' < '') r2 of
             Some r \<Rightarrow> Some (MATCH_LT, r)
           | None \<Rightarrow> map_option (Pair MATCH_LTE) (stripPrefix (js '' <= '') r2))));
     n \<leftarrow> allNumChars r3;
     if p = p' then Some (p, mode, n) else None}"

definition equalsText :: "jsstring \<Rightarrow> (ParamSource \<times> jsstring \<times> jsstring) option" where
  "equalsText s = do {
     (src, p, r) \<leftarrow> (case callText (js ''param'') s of
         Some (p, r) \<Rightarrow> Some (Param, p, r)
       | None \<Rightarrow> map_option (Pair Header) (callText (js ''header'') s));
     v \<leftarrow> stripPrefix (js '' == '') r;
     if v \<noteq> [] \<and> list_all (\<lambda>c. \<not> isLineEnd c) v then Some (src, p, v) else None}"

definition onRequest :: "ParamSource \<Rightarrow> jsstring \<Rightarrow> jsstring \<Rightarrow> jsstring \<Rightarrow> RequestCondition" where
  "onRequest src p mode v = OnRequest \<lparr>ph_source = src, ph_path = p, ph_mode = mode, ph_value = v\<rparr>"

text \<open>\<open>JSON.parse\<close> of a quoted literal, outside any \<open>try\<close>.\<close>

definition unquoteOrThrow :: "(jsstring \<Rightarrow> RequestCondition) \<Rightarrow> jsstring \<Rightarrow> unit + RequestCondition option" where
  "unquoteOrThrow f lit = (case jsonUnquote lit of Some v \<Rightarrow> Inr (Some (f v)) | None \<Rightarrow> Inl ())"

definition tryParseRequestCondition ::
  "(jsstring \<Rightarrow> jsstring option) \<Rightarrow> jsstring \<Rightarrow> unit + RequestCondition option" where
  "tryParseRequestCondition otherJson expr =
     (case tryParseTimeCondition expr of
        Some c \<Rightarrow> Inr (Some (OnTime c))
      | None \<Rightarrow>
     (case headerExists expr of
        Some p \<Rightarrow> Inr (Some (onRequest Header p MATCH_EXISTS []))
      | None \<Rightarrow>
     (case paramExists expr of
        Some p \<Rightarrow> Inr (Some (onRequest Param p MATCH_EXISTS []))
      | None \<Rightarrow>
     (case headerContains expr of
        Some (p, lit) \<Rightarrow> unquoteOrThrow (onRequest Header p MATCH_CONTAINS) lit
      | None \<Rightarrow>
     (case paramContains expr of
        Some (p, lit) \<Rightarrow> unquoteOrThrow (onRequest Param p MATCH_CONTAINS) lit
      | None \<Rightarrow>
     (case paramCompare expr of
        Some (p, mode, n) \<Rightarrow> Inr (Some (onRequest Param p mode n))
      | None \<Rightarrow>
     (case equalsText expr of
        Some (src, p, v) \<Rightarrow> Inr (map_option (onRequest src p MATCH_EQ) (parseExprLiteral otherJson v))
      | None \<Rightarrow> Inr None)))))))"

section \<open>Parsing rules\<close>

text \<open>\<open>^\((.+) \? ([\d.eE+-]+) : 1\)$\<close>: the condition and the multiplier.\<close>

definition ruleFactor :: "jsstring \<Rightarrow> (jsstring \<times> jsstring) option" where
  "ruleFactor s =
     (let tail = js '' : 1)'' in
      if \<not> prefix (js ''('') s \<or> \<not> suffix tail s \<or> length s < 1 + length tail then None
      else
        (let inner = take (length s - 1 - length tail) (drop 1 s);
             num = rev (takeWhile isNumChar (rev inner)); before = rev (dropWhile isNumChar (rev inner)) in
         if num = [] \<or> \<not> suffix (js '' ? '') before \<or> length before < 4 then None
         else Some (take (length before - 3) before, num)))"

fun parseConditions ::
  "(jsstring \<Rightarrow> jsstring option) \<Rightarrow> jsstring list \<Rightarrow> unit + RequestCondition list option" where
  "parseConditions otherJson [] = Inr (Some [])"
| "parseConditions otherJson (part # parts) =
     (case tryParseRequestCondition otherJson (trim part) of
        Inl e \<Rightarrow> Inl e
      | Inr None \<Rightarrow> Inr None
      | Inr (Some c) \<Rightarrow>
          (case parseConditions otherJson parts of
             Inr (Some cs) \<Rightarrow> Inr (Some (c # cs)) | r \<Rightarrow> r))"

definition tryParseRuleGroupFactor ::
  "(jsstring \<Rightarrow> jsstring option) \<Rightarrow> jsstring \<Rightarrow> unit + RequestRuleGroup option" where
  "tryParseRuleGroupFactor otherJson part = (case ruleFactor part of
     None \<Rightarrow> Inr None
   | Some (cond, factor) \<Rightarrow>
       (case parseConditions otherJson (splitTopLevelAnd cond) of
          Inl e \<Rightarrow> Inl e
        | Inr None \<Rightarrow> Inr None
        | Inr (Some cs) \<Rightarrow> Inr (if cs = [] then None else Some \<lparr>conditions = cs, multiplier = factor\<rparr>)))"

fun parseGroups ::
  "(jsstring \<Rightarrow> jsstring option) \<Rightarrow> jsstring list \<Rightarrow> unit + RequestRuleGroup list option" where
  "parseGroups otherJson [] = Inr (Some [])"
| "parseGroups otherJson (part # parts) =
     (case tryParseRuleGroupFactor otherJson part of
        Inl e \<Rightarrow> Inl e
      | Inr None \<Rightarrow> Inr None
      | Inr (Some g) \<Rightarrow>
          (case parseGroups otherJson parts of
             Inr (Some gs) \<Rightarrow> Inr (Some (g # gs)) | r \<Rightarrow> r))"

definition tryParseRequestRuleExpr ::
  "(jsstring \<Rightarrow> jsstring option) \<Rightarrow> jsstring \<Rightarrow> unit + RequestRuleGroup list option" where
  "tryParseRequestRuleExpr otherJson expr =
     (let trimmed = trim expr in
      if trimmed = [] then Inr (Some []) else parseGroups otherJson (splitTopLevelMultiply trimmed))"

section \<open>Writing rules\<close>

definition createEmptyCondition :: ParamHeaderCondition where
  "createEmptyCondition = \<lparr>ph_source = Param, ph_path = [], ph_mode = MATCH_EQ, ph_value = []\<rparr>"

definition createEmptyTimeCondition :: TimeCondition where
  "createEmptyTimeCondition = \<lparr>tc_timeFunc = js ''hour'', tc_timezone = js ''Asia/Shanghai'', tc_mode = MATCH_GTE,
     tc_value = [], tc_rangeStart = [], tc_rangeEnd = []\<rparr>"

definition createEmptyRuleGroup :: RequestRuleGroup where
  "createEmptyRuleGroup = \<lparr>conditions = [OnRequest createEmptyCondition], multiplier = []\<rparr>"

definition createEmptyTimeRuleGroup :: RequestRuleGroup where
  "createEmptyTimeRuleGroup = \<lparr>conditions = [OnTime createEmptyTimeCondition], multiplier = []\<rparr>"

definition timeMatchModes :: "jsstring list" where
  "timeMatchModes = [MATCH_EQ, MATCH_GTE, MATCH_LT, MATCH_RANGE]"

definition requestMatchModes :: "ParamSource \<Rightarrow> jsstring list" where
  "requestMatchModes src = (let base = [MATCH_EQ, MATCH_CONTAINS, MATCH_EXISTS] in
     if src = Header then base else base @ [MATCH_GT, MATCH_GTE, MATCH_LT, MATCH_LTE])"

definition normalizeTimeCondition :: "TimeCondition \<Rightarrow> TimeCondition" where
  "normalizeTimeCondition c =
     c\<lparr>tc_timeFunc := (if tc_timeFunc c \<in> set TIME_FUNCS then tc_timeFunc c else js ''hour''),
       tc_timezone := or_str (Some (tc_timezone c)) (js ''Asia/Shanghai''),
       tc_mode := (if tc_mode c \<in> set timeMatchModes then tc_mode c else MATCH_GTE)\<rparr>"

definition normalizeRequestCondition :: "ParamHeaderCondition \<Rightarrow> ParamHeaderCondition" where
  "normalizeRequestCondition c =
     c\<lparr>ph_mode := (if ph_mode c \<in> set (requestMatchModes (ph_source c)) then ph_mode c else MATCH_EQ)\<rparr>"

definition normalizeCondition :: "RequestCondition \<Rightarrow> RequestCondition" where
  "normalizeCondition c = (case c of
     OnTime tc \<Rightarrow> OnTime (normalizeTimeCondition tc) | OnRequest rc \<Rightarrow> OnRequest (normalizeRequestCondition rc))"

definition buildExprLiteral :: "jsstring \<Rightarrow> jsstring \<Rightarrow> jsstring" where
  "buildExprLiteral mode v =
     (let t = trim v in
      if mode = MATCH_CONTAINS then jsonQuote t
      else if t = js ''true'' \<or> t = js ''false'' then t
      else if isNumericLiteral t then t
      else jsonQuote t)"

definition timeOperator :: "jsstring \<Rightarrow> jsstring" where
  "timeOperator mode = (if mode = MATCH_GTE then js ''>='' else if mode = MATCH_LT then js ''<'' else js ''=='')"

definition buildTimeConditionExpr :: "TimeCondition \<Rightarrow> jsstring" where
  "buildTimeConditionExpr cond =
     (let n = normalizeTimeCondition cond;
          fn = tc_timeFunc n @ js ''('' @ jsonQuote (tc_timezone n) @ js '')'' in
      if tc_mode n = MATCH_RANGE then
        (let s = trim (tc_rangeStart n); e = trim (tc_rangeEnd n) in
         if \<not> isNumericLiteral s \<or> \<not> isNumericLiteral e then []
         else fn @ js '' >= '' @ s @ js '' || '' @ fn @ js '' < '' @ e)
      else
        (let v = trim (tc_value n) in
         if \<not> isNumericLiteral v then [] else fn @ js '' '' @ timeOperator (tc_mode n) @ js '' '' @ v))"

definition compareOperator :: "jsstring \<Rightarrow> jsstring" where
  "compareOperator mode = (if mode = MATCH_GT then js ''>'' else if mode = MATCH_GTE then js ''>=''
     else if mode = MATCH_LT then js ''<'' else js ''<='')"

definition buildRequestConditionExpr :: "RequestCondition \<Rightarrow> jsstring" where
  "buildRequestConditionExpr cond = (case cond of
     OnTime tc \<Rightarrow> buildTimeConditionExpr tc
   | OnRequest rc \<Rightarrow>
       (let n = normalizeRequestCondition rc; path = trim (ph_path n); mode = ph_mode n; isHeader = (ph_source n = Header);
            sourceExpr = (if isHeader then js ''header('' else js ''param('') @ jsonQuote path @ js '')'' in
        if path = [] then []
        else if mode = MATCH_EXISTS then sourceExpr @ (if isHeader then js '' != '' @ [34, 34] else js '' != nil'')
        else if mode = MATCH_CONTAINS then
          (if isHeader then [] else sourceExpr @ js '' != nil && '') @
          js ''has('' @ sourceExpr @ js '', '' @ buildExprLiteral mode (ph_value n) @ js '')''
        else if mode \<in> {MATCH_GT, MATCH_GTE, MATCH_LT, MATCH_LTE} then
          (let num = trim (ph_value n) in
           if \<not> isNumericLiteral num then []
           else sourceExpr @ js '' != nil && '' @ sourceExpr @ js '' '' @ compareOperator mode @ js '' '' @ num)
        else sourceExpr @ js '' == '' @ buildExprLiteral mode (ph_value n)))"

definition buildRuleGroupFactor :: "RequestRuleGroup \<Rightarrow> jsstring" where
  "buildRuleGroupFactor g =
     (let factor = trim (multiplier g); condExprs = filter (\<lambda>e. e \<noteq> []) (map buildRequestConditionExpr (conditions g)) in
      if \<not> isNumericLiteral factor \<or> condExprs = [] then []
      else
        (let combined = (case condExprs of
             [e] \<Rightarrow> e
           | es \<Rightarrow> join (js '' && '') (map (\<lambda>e. if str_includes e (js '' || '') then js ''('' @ e @ js '')'' else e) es)) in
         js ''('' @ combined @ js '' ? '' @ factor @ js '' : 1)''))"

definition buildRequestRuleExpr :: "RequestRuleGroup list \<Rightarrow> jsstring" where
  "buildRequestRuleExpr groups = join (js '' * '') (filter (\<lambda>e. e \<noteq> []) (map buildRuleGroupFactor groups))"

section \<open>Base expression and rules\<close>

definition depthStep :: "int \<Rightarrow> nat \<Rightarrow> int" where
  "depthStep d c = d + (if c = 40 then 1 else 0) - (if c = 41 then 1 else 0)"

text \<open>The loop of \<open>hasFullOuterParens\<close>: the depth must not be zero before the last character.\<close>

fun outerParensLoop :: "int \<Rightarrow> jsstring \<Rightarrow> bool" where
  "outerParensLoop d [] = (d = 0)"
| "outerParensLoop d (c # cs) = (if depthStep d c = 0 \<and> cs \<noteq> [] then False else outerParensLoop (depthStep d c) cs)"

definition hasFullOuterParens :: "jsstring \<Rightarrow> bool" where
  "hasFullOuterParens expr \<longleftrightarrow> prefix [40] expr \<and> suffix [41] expr \<and> outerParensLoop 0 expr"

lemma length_trim: "length (trim s) \<le> length s"
  by (simp add: trim_def) (metis dual_order.trans length_dropWhile_le length_rev)

function unwrapLoop :: "jsstring \<Rightarrow> jsstring" where
  "unwrapLoop current = (if hasFullOuterParens current then unwrapLoop (trim (butlast (tl current))) else current)"
  by pat_completeness auto
termination
proof (relation "measure length")
  fix s assume "hasFullOuterParens s"
  then have "s \<noteq> []" by (auto simp: hasFullOuterParens_def)
  then show "(trim (butlast (tl s)), s) \<in> measure length"
    using length_trim [of "butlast (tl s)"] by (cases s) auto
qed simp

declare unwrapLoop.simps [simp del]

definition unwrapOuterParens :: "jsstring \<Rightarrow> jsstring" where
  "unwrapOuterParens expr = unwrapLoop (trim expr)"

record SplitExpr =
  billingExpr :: jsstring
  requestRuleExpr :: jsstring

fun isRulePart :: "unit + RequestRuleGroup list option \<Rightarrow> bool" where
  "isRulePart (Inr (Some (_ # _))) = True"
| "isRulePart _ = False"

definition splitBillingExprAndRequestRules ::
  "(jsstring \<Rightarrow> jsstring option) \<Rightarrow> jsstring \<Rightarrow> unit + SplitExpr" where
  "splitBillingExprAndRequestRules otherJson expr =
     (let trimmed = trim expr; parts = splitTopLevelMultiply trimmed;
          parsed = map (tryParseRequestRuleExpr otherJson) parts;
          ruleParts = filter (\<lambda>p. isRulePart (tryParseRequestRuleExpr otherJson p)) parts;
          baseParts = filter (\<lambda>p. \<not> isRulePart (tryParseRequestRuleExpr otherJson p)) parts in
      if trimmed = [] then Inr \<lparr>billingExpr = [], requestRuleExpr = []\<rparr>
      else if length parts \<le> 1 then Inr \<lparr>billingExpr = trimmed, requestRuleExpr = []\<rparr>
      else if \<exists>r \<in> set parsed. r = Inl () then Inl ()
      else if ruleParts = [] \<or> length baseParts \<noteq> 1 then Inr \<lparr>billingExpr = trimmed, requestRuleExpr = []\<rparr>
      else Inr \<lparr>billingExpr = unwrapOuterParens (hd baseParts), requestRuleExpr = join (js '' * '') ruleParts\<rparr>)"

definition combineBillingExpr :: "jsstring \<Rightarrow> jsstring \<Rightarrow> jsstring" where
  "combineBillingExpr baseExpr rules' =
     (let base = trim baseExpr; rules = trim rules' in
      if base = [] then [] else if rules = [] then base else js ''('' @ base @ js '') * '' @ rules)"

record SplitVersion =
  schemaVersion :: "jsstring option"
  version_body :: jsstring

definition splitBillingExprVersion :: "jsstring \<Rightarrow> SplitVersion" where
  "splitBillingExprVersion expr =
     (let trimmed = trim expr in
      if prefix (js ''v1:'') trimmed then \<lparr>schemaVersion = Some (js ''v1''), version_body = trim (drop 3 trimmed)\<rparr>
      else if prefix (js ''v2:'') trimmed then \<lparr>schemaVersion = Some (js ''v2''), version_body = trim (drop 3 trimmed)\<rparr>
      else \<lparr>schemaVersion = None, version_body = trimmed\<rparr>)"

end
