(* ===== verification/RequestRuleProofs.thy ===== *)
theory RequestRuleProofs
  imports RequestRules
begin

text \<open>
  Theorems about request rules: which rules the parser reads back from the text the editor writes, and that a
  billing expression put together from a base and rules is taken apart again.
\<close>

section \<open>Splitting a joined text\<close>

definition depthAfter :: "int \<Rightarrow> jsstring \<Rightarrow> int" where
  "depthAfter d s = foldl depthStep d s"

lemma depthAfter_simps [simp]:
  "depthAfter d [] = d" "depthAfter d (c # s) = depthAfter (depthStep d c) s" "depthAfter d (s @ t) = depthAfter (depthAfter d s) t"
  by (simp_all add: depthAfter_def)

text \<open>No separator starts in the first text at depth zero.\<close>

fun noSplit :: "jsstring \<Rightarrow> int \<Rightarrow> jsstring \<Rightarrow> jsstring \<Rightarrow> bool" where
  "noSplit sep d [] rest = True"
| "noSplit sep d (c # cs) rest = ((depthStep d c = 0 \<longrightarrow> \<not> prefix sep (c # cs @ rest)) \<and> noSplit sep (depthStep d c) cs rest)"

lemma noSplit_append: "noSplit sep d (s @ t) rest \<longleftrightarrow> noSplit sep d s (t @ rest) \<and> noSplit sep (depthAfter d s) t rest"
  by (induction s arbitrary: d) auto

lemma splitTopLoop_Cons:
  "splitTopLoop sep d p (c # cs) =
     (if depthStep d c = 0 \<and> prefix sep (c # cs)
      then trim p # splitTopLoop sep 0 [] (drop (length sep - 1) cs) else splitTopLoop sep (depthStep d c) (p @ [c]) cs)"
  by (simp add: depthStep_def Let_def)

declare splitTopLoop.simps(2) [simp del]

lemma splitTopLoop_skip:
  "noSplit sep d s rest \<Longrightarrow> splitTopLoop sep d p (s @ rest) = splitTopLoop sep (depthAfter d s) (p @ s) rest"
  by (induction s arbitrary: d p) (auto simp: splitTopLoop_Cons)

text \<open>A text that stays in one piece, alone or before a separator.\<close>

definition atomic :: "jsstring \<Rightarrow> jsstring \<Rightarrow> bool" where
  "atomic sep s \<longleftrightarrow> depthAfter 0 s = 0 \<and> (\<forall>rest. rest = [] \<or> prefix sep rest \<longrightarrow> noSplit sep 0 s rest)"

lemma splitTopLoop_atomic:
  assumes "atomic sep s"
  shows "splitTopLoop sep 0 p s = [trim (p @ s)]"
    and "sep = c # cs \<Longrightarrow> c \<noteq> 40 \<Longrightarrow> c \<noteq> 41 \<Longrightarrow> splitTopLoop sep 0 p (s @ sep @ t) = trim (p @ s) # splitTopLoop sep 0 [] t"
proof -
  have "noSplit sep 0 s []" "noSplit sep 0 s (sep @ t)" "depthAfter 0 s = 0" using assms by (auto simp: atomic_def)
  note skip = splitTopLoop_skip [OF this(1), of p] splitTopLoop_skip [OF this(2), of p]
  show "splitTopLoop sep 0 p s = [trim (p @ s)]" using skip(1) \<open>depthAfter 0 s = 0\<close> by simp
  show "sep = c # cs \<Longrightarrow> c \<noteq> 40 \<Longrightarrow> c \<noteq> 41 \<Longrightarrow> splitTopLoop sep 0 p (s @ sep @ t) = trim (p @ s) # splitTopLoop sep 0 [] t"
    using skip(2) \<open>depthAfter 0 s = 0\<close> by (simp add: splitTopLoop_Cons depthStep_def)
qed

lemma splitTopLoop_join:
  assumes "list_all (atomic sep) ps" "ps \<noteq> []" "sep = c # cs" "c \<noteq> 40" "c \<noteq> 41"
  shows "splitTopLoop sep 0 [] (join sep ps) = map trim ps"
  using assms
proof (induction ps)
  case (Cons s ps)
  then show ?case
  proof (cases ps)
    case Nil
    then show ?thesis using Cons.prems splitTopLoop_atomic(1) [of sep s "[]"] by simp
  next
    case (Cons t qs)
    then show ?thesis
      using Cons.prems Cons.IH splitTopLoop_atomic(2) [of sep s c cs "[]" "join sep ps"] by simp
  qed
qed simp

lemma join_concat:
  "\<forall>ps \<in> set pss. ps \<noteq> [] \<Longrightarrow> join sep (concat pss) = join sep (map (join sep) pss)"
proof (induction pss)
  case (Cons ps pss)
  have join_app: "qs \<noteq> [] \<Longrightarrow> rs \<noteq> [] \<Longrightarrow> join sep (qs @ rs) = join sep qs @ sep @ join sep rs" for qs rs :: "'a list list"
  proof (induction qs)
    case (Cons q qs)
    then show ?case by (cases qs; cases rs) auto
  qed simp
  show ?case
  proof (cases pss)
    case Nil
    then show ?thesis by simp
  next
    case (Cons p' pss')
    then have "concat pss \<noteq> []" using Cons.prems by auto
    then show ?thesis using Cons.prems Cons.IH join_app [of ps "concat pss"] Cons by auto
  qed
qed simp

section \<open>Texts with matching parentheses\<close>

inductive nested :: "jsstring \<Rightarrow> bool" where
  empty: "nested []"
| plain: "c \<noteq> 40 \<Longrightarrow> c \<noteq> 41 \<Longrightarrow> nested s \<Longrightarrow> nested (c # s)"
| wrap: "nested s \<Longrightarrow> nested t \<Longrightarrow> nested (40 # s @ 41 # t)"

lemma nested_append: "nested s \<Longrightarrow> nested t \<Longrightarrow> nested (s @ t)"
  by (induction rule: nested.induct) (auto intro: nested.intros)

lemma nested_noparens: "list_all (\<lambda>c. c \<noteq> 40 \<and> c \<noteq> 41) s \<Longrightarrow> nested s"
  by (induction s) (auto intro: nested.intros)

lemma depthAfter_nested [simp]: "nested s \<Longrightarrow> depthAfter d s = d"
  by (induction arbitrary: d rule: nested.induct) (simp_all add: depthStep_def)

lemma nested_deep: "nested s \<Longrightarrow> 0 < d \<Longrightarrow> noSplit sep d s rest"
proof (induction arbitrary: d rest rule: nested.induct)
  case (wrap s t)
  then show ?case by (simp add: depthStep_def noSplit_append)
qed (simp_all add: depthStep_def)

lemma atomic_wrapped:
  assumes "nested s" "sep = c # cs" "c \<noteq> 40" "c \<noteq> 41"
  shows "atomic sep (40 # s @ [41])"
  using assms by (auto simp: atomic_def depthStep_def noSplit_append nested_deep)

lemma noSplit_nosep:
  "list_all (\<lambda>c. c \<noteq> 40 \<and> c \<noteq> 41 \<and> c \<noteq> b) s \<Longrightarrow> noSplit (b # bs) d s rest"
  by (induction s) (simp_all add: depthStep_def)

lemma noSplit_and_free:
  assumes "list_all (\<lambda>c. c \<noteq> 40 \<and> c \<noteq> 41) s" "\<not> str_includes s (js '' && '')" "s \<noteq> [] \<longrightarrow> last s \<noteq> 32 \<and> last s \<noteq> 38"
  shows "noSplit (js '' && '') d s rest"
  using assms
proof (induction s)
  case (Cons c cs)
  have "\<not> prefix (js '' && '') (c # cs @ rest)"
  proof
    assume pre: "prefix (js '' && '') (c # cs @ rest)"
    show False
    proof (cases "4 \<le> length (c # cs)")
      case True
      then have "prefix (js '' && '') (c # cs)"
        using prefix_length_prefix [OF pre, of "c # cs"] by (simp add: prefix_def)
      then show ?thesis using Cons.prems(2) by (auto simp: str_includes_def intro: prefix_imp_sublist)
    next
      case False
      then show ?thesis
        using pre Cons.prems(3) by (cases cs; cases "tl cs"; cases "tl (tl cs)") (auto simp: js.simps)
    qed
  qed
  moreover have "\<not> str_includes cs (js '' && '')"
    using Cons.prems(2) by (auto simp: str_includes_def sublist_Cons_right)
  ultimately show ?case using Cons by (auto simp: depthStep_def split: if_splits)
qed simp

section \<open>Scanning what was written\<close>

lemma stripPrefix_append [simp]: "stripPrefix p (p @ s) = Some s"
  by (simp add: stripPrefix_def)

lemma span1_run: "s \<noteq> [] \<Longrightarrow> list_all P s \<Longrightarrow> rest = [] \<or> \<not> P (hd rest) \<Longrightarrow> span1 P (s @ rest) = Some (s, rest)"
  by (cases rest; cases s) (auto simp: span1_def list_all_iff takeWhile_append dropWhile_append)

text \<open>A path or time zone that is written without escapes.\<close>

definition plainName :: "jsstring \<Rightarrow> bool" where
  "plainName p \<longleftrightarrow> p \<noteq> [] \<and> list_all (\<lambda>c. plainUnit c \<and> c \<noteq> 40 \<and> c \<noteq> 41) p"

lemma plainName_quote: "plainName p \<Longrightarrow> jsonQuote p = 34 # p @ [34]"
  by (rule jsonQuote_plain) (simp add: plainName_def list_all_iff)

lemma quotedText_quote: "plainName p \<Longrightarrow> quotedText (jsonQuote p @ r) = Some (p, r)"
proof -
  assume p: "plainName p"
  then have "span1 (\<lambda>c. c \<noteq> 34) (p @ 34 # r) = Some (p, 34 # r)"
    by (intro span1_run) (auto simp: plainName_def plainUnit_def list_all_iff)
  then show ?thesis by (simp add: quotedText_def plainName_quote [OF p] stripPrefix_def)
qed

lemma callText_call:
  assumes "plainName p"
  shows "callText name (name @ js ''('' @ jsonQuote p @ js '')'' @ r) = Some (p, r)"
proof -
  have "stripPrefix (name @ js ''('') (name @ js ''('' @ jsonQuote p @ js '')'' @ r) = Some (jsonQuote p @ js '')'' @ r)"
    using stripPrefix_append [of "name @ js ''(''"] by simp
  then show ?thesis by (simp add: callText_def quotedText_quote [OF assms])
qed

lemma callText_other: "\<not> prefix (name @ js ''('') s \<Longrightarrow> callText name s = None"
  by (simp add: callText_def stripPrefix_def)

lemma exponent_chars: "exponentOk t \<Longrightarrow> list_all isNumChar t"
  by (auto simp: exponentOk_def isNumChar_def list_all_iff Let_def split: list.splits if_splits)

lemma digits_then_chars: "list_all isNumChar (dropWhile is_digit t) \<Longrightarrow> list_all isNumChar t"
  by (induction t) (auto simp: isNumChar_def split: if_splits)

lemma numeric_chars:
  assumes "isNumericLiteral s"
  shows "s \<noteq> [] \<and> list_all isNumChar s"
proof -
  define s1 where "s1 = (case s of c # cs \<Rightarrow> if c = 45 then cs else s | [] \<Rightarrow> s)"
  define r where "r = dropWhile is_digit s1"
  have "takeWhile is_digit s1 \<noteq> [] \<and> exponentOk (case r of c # cs \<Rightarrow> if c = 46 then dropWhile is_digit cs else r | [] \<Rightarrow> r) \<or>
      (\<exists>cs. r = 46 # cs \<and> exponentOk (dropWhile is_digit cs))"
    using assms unfolding isNumericLiteral_def Let_def s1_def [symmetric] r_def [symmetric]
    by (auto split: if_splits list.splits)
  then have "s1 \<noteq> [] \<and> list_all isNumChar r"
    by (auto simp: isNumChar_def [of 46] r_def [symmetric] split: list.splits if_splits
        dest!: exponent_chars intro: digits_then_chars) (auto simp: r_def)
  then have "s1 \<noteq> [] \<and> list_all isNumChar s1" unfolding r_def by (auto intro: digits_then_chars)
  then show ?thesis unfolding s1_def by (auto simp: isNumChar_def [of 45] split: list.splits if_splits)
qed

lemma allNumChars_numeric: "isNumericLiteral s \<Longrightarrow> allNumChars s = Some s"
  using numeric_chars [of s] by (simp add: allNumChars_def)

lemma isNumChar_props: "isNumChar c \<Longrightarrow> c \<noteq> 32 \<and> c \<noteq> 40 \<and> c \<noteq> 41 \<and> c \<noteq> 34 \<and> c \<noteq> 38 \<and> \<not> is_ws c \<and> c \<noteq> 124"
  by (auto simp: isNumChar_def is_digit_def is_ws_def)

lemma trim_numeric: "isNumericLiteral s \<Longrightarrow> trim s = s"
  using numeric_chars [of s] isNumChar_props by (intro trim_id) (auto simp: list_all_iff)

lemma quotedBody_escape: "quotedBody (escapeUnit c @ s) = quotedBody s"
proof (cases "c \<in> {34, 92, 8, 9, 10, 12, 13}")
  case True
  then show ?thesis by (elim insertE) (auto simp: escapeUnit_def isLineEnd_def)
next
  case False
  then show ?thesis by (auto simp: escapeUnit_def hex4_def hexDigit_def isLineEnd_def)
qed

lemma quotedBody_escapes: "quotedBody (escapeUnits s @ [34])"
proof (induction s rule: escapeUnits.induct)
  case (2 c)
  then show ?case using quotedBody_escape [of c "[34]"] by simp
next
  case (3 c d cs)
  then show ?case
    using quotedBody_escape [of c "escapeUnits (d # cs) @ [34]"]
    by (auto simp: highSurrogate_def lowSurrogate_def)
qed simp

lemma quotedLiteral_quote: "quotedLiteral (jsonQuote s)"
  by (simp add: quotedLiteral_def jsonQuote_def quotedBody_escapes)

section \<open>Reading back one condition\<close>

lemma rparen: "js '')'' = [41]"
  by (simp add: js.simps)

text \<open>The call \<open>header("...")\<close> or \<open>param("...")\<close>.\<close>

definition sourceName :: "ParamSource \<Rightarrow> jsstring" where
  "sourceName src = (if src = Header then js ''header'' else js ''param'')"

definition sourceText :: "ParamSource \<Rightarrow> jsstring \<Rightarrow> jsstring" where
  "sourceText src p = sourceName src @ js ''('' @ jsonQuote p @ js '')''"

lemma timeCall_None: "\<forall>f \<in> set TIME_FUNCS. \<not> prefix (f @ js ''('') s \<Longrightarrow> timeCall s = None"
proof -
  assume "\<forall>f \<in> set TIME_FUNCS. \<not> prefix (f @ js ''('') s"
  then have "find (\<lambda>f. callText f s \<noteq> None) TIME_FUNCS = None" by (auto simp: find_None_iff callText_other)
  then show ?thesis by (simp add: timeCall_def)
qed

lemma no_time_condition:
  assumes "name \<in> {js ''header'', js ''param'', js ''has''}"
  shows "tryParseTimeCondition (name @ js ''('' @ r) = None"
proof -
  have "timeCall (name @ js ''('' @ r) = None"
    using assms by (intro timeCall_None) (auto simp: TIME_FUNCS_def js.simps)
  moreover have "inParens (name @ js ''('' @ r) = None" using assms by (auto simp: inParens_def js.simps)
  ultimately show ?thesis by (simp add: tryParseTimeCondition_def timeRange_def timeCompare_def)
qed

lemma callText_source:
  assumes "plainName p"
  shows "callText (sourceName src) (sourceText src p @ r) = Some (p, r)"
    and "src' \<noteq> src \<Longrightarrow> callText (sourceName src') (sourceText src p @ r) = None"
proof -
  show "callText (sourceName src) (sourceText src p @ r) = Some (p, r)"
    using callText_call [OF assms, of "sourceName src" r] by (simp add: sourceText_def)
  show "src' \<noteq> src \<Longrightarrow> callText (sourceName src') (sourceText src p @ r) = None"
    by (cases src; cases src') (auto simp: sourceText_def sourceName_def js.simps intro!: callText_other)
qed

lemma callText_src:
  assumes "plainName p"
  shows "callText (js ''header'') (sourceText Header p @ r) = Some (p, r)" "callText (js ''param'') (sourceText Param p @ r) = Some (p, r)"
    "callText (js ''header'') (sourceText Param p @ r) = None" "callText (js ''param'') (sourceText Header p @ r) = None"
  using callText_source(1) [OF assms, of Header r] callText_source(1) [OF assms, of Param r]
    callText_source(2) [OF assms, of Header Param r] callText_source(2) [OF assms, of Param Header r]
  by (simp_all add: sourceName_def)

lemma no_time_source: "tryParseTimeCondition (sourceText src p @ r) = None"
  using no_time_condition [of "sourceName src" "jsonQuote p @ js '')'' @ r"] by (simp add: sourceText_def sourceName_def)

lemma stripPrefix_source: "stripPrefix (js ''has('') (sourceText src p @ r) = None"
  by (cases src) (simp_all add: stripPrefix_def sourceText_def sourceName_def js.simps)

definition quotable :: "jsstring \<Rightarrow> bool" where
  "quotable v \<longleftrightarrow> list_all (\<lambda>c. c < 65536 \<and> c \<noteq> 40 \<and> c \<noteq> 41) v \<and> trim v = v"

lemma quotable_unquote: "quotable v \<Longrightarrow> jsonUnquote (jsonQuote v) = Some v"
  by (intro jsonUnquote_quote) (simp add: quotable_def list_all_iff)

lemma hexDigit_range [simp]: "hexDigit n \<noteq> 40" "hexDigit n \<noteq> 41"
  by (simp_all add: hexDigit_def)

lemma escapeUnit_noparens: "c \<noteq> 40 \<Longrightarrow> c \<noteq> 41 \<Longrightarrow> list_all (\<lambda>c. c \<noteq> 40 \<and> c \<noteq> 41) (escapeUnit c)"
  by (simp add: escapeUnit_def hex4_def)

lemma escapeUnits_noparens:
  "list_all (\<lambda>c. c \<noteq> 40 \<and> c \<noteq> 41) s \<Longrightarrow> list_all (\<lambda>c. c \<noteq> 40 \<and> c \<noteq> 41) (escapeUnits s)"
  by (induction s rule: escapeUnits.induct) (simp_all add: escapeUnit_noparens)

lemma quote_noparens: "quotable v \<Longrightarrow> list_all (\<lambda>c. c \<noteq> 40 \<and> c \<noteq> 41) (jsonQuote v)"
  using escapeUnits_noparens [of v] by (simp add: jsonQuote_def quotable_def list_all_iff)

lemma trim_ends: "s \<noteq> [] \<Longrightarrow> \<not> is_ws (hd s) \<Longrightarrow> \<not> is_ws (last s) \<Longrightarrow> trim s = s"
proof -
  assume s: "s \<noteq> []" "\<not> is_ws (hd s)" "\<not> is_ws (last s)"
  then have "dropWhile is_ws s = s" by (cases s) auto
  moreover have "dropWhile is_ws (rev s) = rev s" using s by (cases "rev s") (auto simp: hd_rev [symmetric])
  ultimately show ?thesis by (simp add: trim_def)
qed

lemma trim_quote: "trim (jsonQuote v) = jsonQuote v"
  by (rule trim_ends) (simp_all add: jsonQuote_def is_ws_def)

lemma literal_roundtrip:
  assumes "quotable v"
  shows "parseExprLiteral otherJson (buildExprLiteral MATCH_EQ v) = Some v"
proof -
  have v: "trim v = v" using assms by (simp add: quotable_def)
  have "\<not> isNumericLiteral (jsonQuote v)"
    using numeric_chars [of "jsonQuote v"] isNumChar_props [of 34] by (auto simp: jsonQuote_def)
  moreover have "jsonQuote v \<noteq> js ''true''" "jsonQuote v \<noteq> js ''false''" "prefix [34] (jsonQuote v)"
    by (simp_all add: jsonQuote_def js.simps)
  ultimately have "parseExprLiteral otherJson (jsonQuote v) = Some v"
    by (simp add: parseExprLiteral_def trim_quote quotable_unquote [OF assms])
  moreover have "parseExprLiteral otherJson v = Some v" if "v = js ''true'' \<or> v = js ''false'' \<or> isNumericLiteral v"
    using that v unfolding parseExprLiteral_def Let_def v by (auto split: if_splits)
  ultimately show ?thesis
    by (auto simp: buildExprLiteral_def v MATCH_EQ_def MATCH_CONTAINS_def Let_def js.simps)
qed

text \<open>Texts of the conditions on a request, by mode.\<close>

lemma existence_read:
  assumes "plainName p"
  shows "tryParseRequestCondition otherJson (sourceText Header p @ js '' != '' @ [34, 34]) = Inr (Some (onRequest Header p MATCH_EXISTS []))"
    and "tryParseRequestCondition otherJson (sourceText Param p @ js '' != nil'') = Inr (Some (onRequest Param p MATCH_EXISTS []))"
  using callText_src [OF assms]
  by (simp_all add: tryParseRequestCondition_def no_time_source headerExists_def paramExists_def)

lemma contains_read:
  assumes "plainName p" "quotable v"
  shows "tryParseRequestCondition otherJson (js ''has('' @ sourceText Header p @ js '', '' @ jsonQuote v @ js '')'') =
    Inr (Some (onRequest Header p MATCH_CONTAINS v))"
proof -
  let ?r = "sourceText Header p @ js '', '' @ jsonQuote v @ js '')''"
  have has: "js ''has('' @ ?r = js ''has'' @ js ''('' @ ?r" by (simp flip: js_append)
  have "tryParseTimeCondition (js ''has('' @ ?r) = None" unfolding has by (rule no_time_condition) simp
  moreover have "callText (js ''header'') (js ''has('' @ ?r) = None" "callText (js ''param'') (js ''has('' @ ?r) = None"
    by (rule callText_other, simp add: js.simps)+
  moreover have "headerContains (js ''has('' @ ?r) = Some (p, jsonQuote v)"
    using callText_src(1) [OF assms(1), of "js '', '' @ jsonQuote v @ js '')''"] quotedLiteral_quote [of v]
    by (simp add: headerContains_def rparen)
  ultimately show ?thesis
    by (simp add: tryParseRequestCondition_def headerExists_def paramExists_def unquoteOrThrow_def quotable_unquote [OF assms(2)])
qed

lemma equals_read:
  assumes "plainName p" "quotable v" "list_all (\<lambda>c. \<not> isLineEnd c) (buildExprLiteral MATCH_EQ v)"
  shows "tryParseRequestCondition otherJson (sourceText src p @ js '' == '' @ buildExprLiteral MATCH_EQ v) =
    Inr (Some (onRequest src p MATCH_EQ v))"
proof -
  have "buildExprLiteral MATCH_EQ v \<noteq> []"
    using numeric_chars [of "trim v"] by (auto simp: buildExprLiteral_def jsonQuote_def Let_def)
  then have eq: "equalsText (sourceText src p @ js '' == '' @ buildExprLiteral MATCH_EQ v) = Some (src, p, buildExprLiteral MATCH_EQ v)"
    using callText_src [OF assms(1)] assms(3)
    by (cases src) (simp_all add: equalsText_def)
  have "stripPrefix (js '' != nil && has('') (js '' == '' @ r) = None" "stripPrefix (js '' != nil && '') (js '' == '' @ r) = None"
    "js '' == '' @ r \<noteq> js '' != '' @ [34, 34]" "js '' == '' @ r \<noteq> js '' != nil''" for r
    by (simp_all add: stripPrefix_def js.simps)
  then have "headerExists (sourceText src p @ js '' == '' @ r) = None" "paramExists (sourceText src p @ js '' == '' @ r) = None"
    "headerContains (sourceText src p @ js '' == '' @ r) = None" "paramContains (sourceText src p @ js '' == '' @ r) = None"
    "paramCompare (sourceText src p @ js '' == '' @ r) = None" for r
    using callText_src [OF assms(1)]
    by (cases src; simp add: headerExists_def paramExists_def headerContains_def paramContains_def paramCompare_def
        stripPrefix_source)+
  then show ?thesis
    by (simp add: tryParseRequestCondition_def no_time_source eq literal_roundtrip [OF assms(2)])
qed

text \<open>The second half of a guarded condition on a parameter is not read.\<close>

lemma guarded_unread:
  assumes "plainName p"
  shows "tryParseRequestCondition otherJson (js ''has('' @ sourceText Param p @ r) = Inr None"
    and "mode \<in> {MATCH_GT, MATCH_GTE, MATCH_LT, MATCH_LTE} \<Longrightarrow>
      tryParseRequestCondition otherJson (sourceText Param p @ js '' '' @ compareOperator mode @ js '' '' @ n) = Inr None"
proof -
  let ?r = "sourceText Param p @ r"
  have has: "js ''has('' @ ?r = js ''has'' @ js ''('' @ ?r" by (simp flip: js_append)
  have "tryParseTimeCondition (js ''has('' @ ?r) = None" unfolding has by (rule no_time_condition) simp
  moreover have "callText (js ''header'') (js ''has('' @ ?r) = None" "callText (js ''param'') (js ''has('' @ ?r) = None"
    by (rule callText_other, simp add: js.simps)+
  moreover have "headerContains (js ''has('' @ ?r) = None"
    using callText_src(3) [OF assms, of r] by (simp add: headerContains_def)
  ultimately show "tryParseRequestCondition otherJson (js ''has('' @ ?r) = Inr None"
    by (simp add: tryParseRequestCondition_def headerExists_def paramExists_def paramContains_def paramCompare_def equalsText_def)
next
  let ?t = "js '' '' @ compareOperator mode @ js '' '' @ n"
  assume "mode \<in> {MATCH_GT, MATCH_GTE, MATCH_LT, MATCH_LTE}"
  then have op: "compareOperator mode \<in> {js ''>'', js ''>='', js ''<'', js ''<=''}" by (auto simp: compareOperator_def)
  then have "?t \<noteq> js '' != nil''" "stripPrefix (js '' != nil && has('') ?t = None" "stripPrefix (js '' != nil && '') ?t = None"
    "stripPrefix (js '' == '') ?t = None"
    by (auto simp: stripPrefix_def js.simps)
  then show "tryParseRequestCondition otherJson (sourceText Param p @ ?t) = Inr None"
    using callText_src [OF assms]
    by (simp add: tryParseRequestCondition_def no_time_source headerExists_def paramExists_def headerContains_def
        paramContains_def paramCompare_def equalsText_def stripPrefix_source)
qed

text \<open>The call of a time function.\<close>

definition timeText :: "TimeCondition \<Rightarrow> jsstring" where
  "timeText tc = tc_timeFunc tc @ js ''('' @ jsonQuote (tc_timezone tc) @ js '')''"

definition isRange :: "RequestCondition \<Rightarrow> bool" where
  "isRange c = (case c of OnTime tc \<Rightarrow> tc_mode tc = MATCH_RANGE | OnRequest _ \<Rightarrow> False)"

text \<open>A time condition as the parser returns it.\<close>

definition wfTime :: "TimeCondition \<Rightarrow> bool" where
  "wfTime tc \<longleftrightarrow> tc_timeFunc tc \<in> set TIME_FUNCS \<and> plainName (tc_timezone tc) \<and> tc_mode tc \<in> set timeMatchModes \<and>
     (if tc_mode tc = MATCH_RANGE then tc_value tc = [] \<and> isNumericLiteral (tc_rangeStart tc) \<and> isNumericLiteral (tc_rangeEnd tc)
      else isNumericLiteral (tc_value tc) \<and> tc_rangeStart tc = [] \<and> tc_rangeEnd tc = [])"

lemmas match_defs = MATCH_EQ_def MATCH_CONTAINS_def MATCH_GT_def MATCH_GTE_def MATCH_LT_def MATCH_LTE_def MATCH_EXISTS_def
  MATCH_RANGE_def

lemma match_neq [simp]:
  "MATCH_EQ \<noteq> MATCH_CONTAINS" "MATCH_EQ \<noteq> MATCH_GT" "MATCH_EQ \<noteq> MATCH_GTE" "MATCH_EQ \<noteq> MATCH_LT" "MATCH_EQ \<noteq> MATCH_LTE" "MATCH_EQ \<noteq> MATCH_EXISTS" "MATCH_EQ \<noteq> MATCH_RANGE"
  "MATCH_CONTAINS \<noteq> MATCH_EQ" "MATCH_CONTAINS \<noteq> MATCH_GT" "MATCH_CONTAINS \<noteq> MATCH_GTE" "MATCH_CONTAINS \<noteq> MATCH_LT" "MATCH_CONTAINS \<noteq> MATCH_LTE" "MATCH_CONTAINS \<noteq> MATCH_EXISTS" "MATCH_CONTAINS \<noteq> MATCH_RANGE"
  "MATCH_GT \<noteq> MATCH_EQ" "MATCH_GT \<noteq> MATCH_CONTAINS" "MATCH_GT \<noteq> MATCH_GTE" "MATCH_GT \<noteq> MATCH_LT" "MATCH_GT \<noteq> MATCH_LTE" "MATCH_GT \<noteq> MATCH_EXISTS" "MATCH_GT \<noteq> MATCH_RANGE"
  "MATCH_GTE \<noteq> MATCH_EQ" "MATCH_GTE \<noteq> MATCH_CONTAINS" "MATCH_GTE \<noteq> MATCH_GT" "MATCH_GTE \<noteq> MATCH_LT" "MATCH_GTE \<noteq> MATCH_LTE" "MATCH_GTE \<noteq> MATCH_EXISTS" "MATCH_GTE \<noteq> MATCH_RANGE"
  "MATCH_LT \<noteq> MATCH_EQ" "MATCH_LT \<noteq> MATCH_CONTAINS" "MATCH_LT \<noteq> MATCH_GT" "MATCH_LT \<noteq> MATCH_GTE" "MATCH_LT \<noteq> MATCH_LTE" "MATCH_LT \<noteq> MATCH_EXISTS" "MATCH_LT \<noteq> MATCH_RANGE"
  "MATCH_LTE \<noteq> MATCH_EQ" "MATCH_LTE \<noteq> MATCH_CONTAINS" "MATCH_LTE \<noteq> MATCH_GT" "MATCH_LTE \<noteq> MATCH_GTE" "MATCH_LTE \<noteq> MATCH_LT" "MATCH_LTE \<noteq> MATCH_EXISTS" "MATCH_LTE \<noteq> MATCH_RANGE"
  "MATCH_EXISTS \<noteq> MATCH_EQ" "MATCH_EXISTS \<noteq> MATCH_CONTAINS" "MATCH_EXISTS \<noteq> MATCH_GT" "MATCH_EXISTS \<noteq> MATCH_GTE" "MATCH_EXISTS \<noteq> MATCH_LT" "MATCH_EXISTS \<noteq> MATCH_LTE" "MATCH_EXISTS \<noteq> MATCH_RANGE"
  "MATCH_RANGE \<noteq> MATCH_EQ" "MATCH_RANGE \<noteq> MATCH_CONTAINS" "MATCH_RANGE \<noteq> MATCH_GT" "MATCH_RANGE \<noteq> MATCH_GTE" "MATCH_RANGE \<noteq> MATCH_LT" "MATCH_RANGE \<noteq> MATCH_LTE" "MATCH_RANGE \<noteq> MATCH_EXISTS"
  by (simp_all add: match_defs js.simps)

lemma call_name_unique:
  assumes "40 \<notin> set f" "40 \<notin> set g" "prefix (g @ js ''('') (f @ js ''('' @ r)"
  shows "g = f"
proof -
  have head: "takeWhile (\<lambda>c. c \<noteq> 40) (h @ 40 # y) = h" if "40 \<notin> set h" for h y :: jsstring
    using that by (subst takeWhile_append2) auto
  from assms(3) obtain z where "f @ 40 # r = g @ 40 # z" by (auto simp: prefix_def js.simps)
  from arg_cong [OF this, of "takeWhile (\<lambda>c. c \<noteq> 40)"] show ?thesis
    unfolding head [OF assms(1)] head [OF assms(2)] by simp
qed

lemma time_func_chars: "f \<in> set TIME_FUNCS \<Longrightarrow> f \<noteq> [] \<and> list_all (\<lambda>c. 97 \<le> c \<and> c \<le> 122) f"
  by (auto simp: TIME_FUNCS_def js.simps)

lemma timeCall_call:
  assumes "f \<in> set TIME_FUNCS" "plainName tz"
  shows "timeCall (f @ js ''('' @ jsonQuote tz @ js '')'' @ r) = Some (f, tz, r)"
proof -
  let ?s = "f @ js ''('' @ jsonQuote tz @ js '')'' @ r"
  have call: "callText f ?s = Some (tz, r)" by (rule callText_call [OF assms(2)])
  have "callText g ?s = None" if g: "g \<in> set TIME_FUNCS" "g \<noteq> f" for g
  proof (rule callText_other, rule notI)
    have "40 \<notin> set f" "40 \<notin> set g" using time_func_chars [OF g(1)] time_func_chars [OF assms(1)] by (auto simp: list_all_iff)
    moreover assume "prefix (g @ js ''('') ?s"
    ultimately show False using g(2) call_name_unique by metis
  qed
  then have "\<forall>g \<in> set TIME_FUNCS. callText g ?s \<noteq> None \<longleftrightarrow> g = f" using call by (metis option.simps(3))
  then have "find (\<lambda>g. callText g ?s \<noteq> None) TIME_FUNCS = find (\<lambda>g. g = f) TIME_FUNCS"
    by (intro find_cong) auto
  also have "\<dots> = Some f" using assms(1) by (auto simp: TIME_FUNCS_def)
  finally show ?thesis using call by (simp add: timeCall_def)
qed

lemma time_written:
  assumes "wfTime tc"
  shows "buildTimeConditionExpr tc =
    (if tc_mode tc = MATCH_RANGE
     then timeText tc @ js '' >= '' @ tc_rangeStart tc @ js '' || '' @ timeText tc @ js '' < '' @ tc_rangeEnd tc
     else timeText tc @ js '' '' @ timeOperator (tc_mode tc) @ js '' '' @ tc_value tc)"
proof -
  have "normalizeTimeCondition tc = tc"
    using assms by (simp add: normalizeTimeCondition_def wfTime_def plainName_def or_str_def)
  then show ?thesis using assms by (simp add: buildTimeConditionExpr_def timeText_def wfTime_def trim_numeric Let_def)
qed

lemma range_read:
  assumes "wfTime tc" "tc_mode tc = MATCH_RANGE"
  shows "timeRange (buildTimeConditionExpr tc) = Some tc"
proof -
  let ?f = "tc_timeFunc tc" and ?z = "tc_timezone tc" and ?a = "tc_rangeStart tc" and ?b = "tc_rangeEnd tc"
  have wf: "?f \<in> set TIME_FUNCS" "plainName ?z" "isNumericLiteral ?a" "isNumericLiteral ?b" "tc_value tc = []"
    using assms by (simp_all add: wfTime_def)
  let ?second = "?f @ js ''('' @ [34] @ ?z @ [34] @ js '') < '' @ ?b"
  have "buildTimeConditionExpr tc = ?f @ js ''('' @ jsonQuote ?z @ js '')'' @ js '' >= '' @ ?a @ js '' || '' @ ?second"
    using assms by (simp add: time_written timeText_def plainName_quote [OF wf(2)] js.simps)
  moreover have "span1 isNumChar (?a @ js '' || '' @ ?second) = Some (?a, js '' || '' @ ?second)"
    using numeric_chars [OF wf(3)] by (intro span1_run) (auto simp: js.simps isNumChar_def is_digit_def)
  moreover have "stripPrefix (js '' || '' @ ?f @ js ''('' @ [34] @ ?z @ [34] @ js '') < '') (js '' || '' @ ?second) = Some ?b"
    using stripPrefix_append [of "js '' || '' @ ?f @ js ''('' @ [34] @ ?z @ [34] @ js '') < ''" ?b] by simp
  ultimately show ?thesis
    using assms(2) wf by (simp add: timeRange_def timeCall_call allNumChars_numeric)
qed

lemma timeText_hd: "wfTime tc \<Longrightarrow> hd (timeText tc) \<noteq> 40 \<and> timeText tc \<noteq> []"
  using time_func_chars [of "tc_timeFunc tc"] by (cases "tc_timeFunc tc") (auto simp: timeText_def wfTime_def)

lemma time_read:
  assumes "wfTime tc"
  shows "tryParseTimeCondition (buildTimeConditionExpr tc) = Some tc"
proof (cases "tc_mode tc = MATCH_RANGE")
  case True
  then show ?thesis using range_read [OF assms] by (simp add: tryParseTimeCondition_def)
next
  case False
  let ?t = "js '' '' @ timeOperator (tc_mode tc) @ js '' '' @ tc_value tc"
  have wf: "tc_timeFunc tc \<in> set TIME_FUNCS" "plainName (tc_timezone tc)" "isNumericLiteral (tc_value tc)"
    "tc_rangeStart tc = []" "tc_rangeEnd tc = []" "tc_mode tc \<in> {MATCH_EQ, MATCH_GTE, MATCH_LT}"
    using assms False by (auto simp: wfTime_def timeMatchModes_def)
  have call: "timeCall (timeText tc @ r) = Some (tc_timeFunc tc, tc_timezone tc, r)" for r
    using timeCall_call [OF wf(1,2), of r] by (simp add: timeText_def)
  have num: "span1 isNumChar (tc_value tc) = Some (tc_value tc, [])"
    using span1_run [of "tc_value tc" isNumChar "[]"] numeric_chars [OF wf(3)] by simp
  have range: "timeRange (timeText tc @ ?t) = None"
  proof (cases "tc_mode tc = MATCH_GTE")
    case True
    then have t: "?t = js '' >= '' @ tc_value tc" by (simp add: timeOperator_def flip: js_append)
    have "stripPrefix (js '' || '' @ p) [] = None" for p by (simp add: stripPrefix_def js.simps)
    then show ?thesis unfolding t by (simp add: timeRange_def call num)
  next
    case False
    then have "stripPrefix (js '' >= '') ?t = None"
      using wf(6) by (auto simp: timeOperator_def stripPrefix_def js.simps)
    then show ?thesis by (simp add: timeRange_def call)
  qed
  have cmp: "timeCompare (timeText tc @ ?t) = Some tc"
  proof -
    have "(case stripPrefix (js '' == '') ?t of Some r \<Rightarrow> Some (MATCH_EQ, r)
       | None \<Rightarrow> (case stripPrefix (js '' >= '') ?t of Some r \<Rightarrow> Some (MATCH_GTE, r)
         | None \<Rightarrow> map_option (Pair MATCH_LT) (stripPrefix (js '' < '') ?t))) = Some (tc_mode tc, tc_value tc)"
      using wf(6) by (auto simp: timeOperator_def stripPrefix_def js.simps)
    then show ?thesis using wf by (simp add: timeCompare_def call allNumChars_numeric)
  qed
  have "inParens (timeText tc @ ?t) = None" using timeText_hd [OF assms] by (simp add: inParens_def)
  then show ?thesis using range cmp False by (simp add: tryParseTimeCondition_def time_written [OF assms])
qed

lemma range_wrapped_read:
  assumes "wfTime tc" "tc_mode tc = MATCH_RANGE"
  shows "tryParseTimeCondition (40 # buildTimeConditionExpr tc @ [41]) = Some tc"
proof -
  let ?e = "buildTimeConditionExpr tc"
  have "timeCall (40 # ?e @ [41]) = None"
    using time_func_chars by (intro timeCall_None ballI) (fastforce simp: neq_Nil_conv)
  then have "timeRange (40 # ?e @ [41]) = None" by (simp add: timeRange_def)
  moreover have "inParens (40 # ?e @ [41]) = Some ?e" by (simp add: inParens_def butlast_append)
  ultimately show ?thesis using range_read [OF assms] by (simp add: tryParseTimeCondition_def)
qed

section \<open>Reading back a list of conditions\<close>

text \<open>A condition as the editor holds it after reading: normalised, with names and values that are written without
  changing them.  A value compared with \<open>==\<close> stands at depth zero, where \<open> && \<close> is looked for, and a text with
  \<open> || \<close> in it is put in parentheses, which only a time range is read with.\<close>

definition wfRequest :: "ParamHeaderCondition \<Rightarrow> bool" where
  "wfRequest c \<longleftrightarrow> plainName (ph_path c) \<and> trim (ph_path c) = ph_path c \<and>
     ph_mode c \<in> set (requestMatchModes (ph_source c)) \<and>
     (if ph_mode c = MATCH_EXISTS then ph_value c = []
      else if ph_mode c = MATCH_CONTAINS then quotable (ph_value c)
      else if ph_mode c = MATCH_EQ then quotable (ph_value c) \<and>
        (let lit = buildExprLiteral MATCH_EQ (ph_value c) in
         \<not> str_includes lit (js '' && '') \<and> list_all (\<lambda>u. \<not> isLineEnd u) lit)
      else isNumericLiteral (ph_value c))"

definition wfCondition :: "RequestCondition \<Rightarrow> bool" where
  "wfCondition c \<longleftrightarrow> (case c of OnTime tc \<Rightarrow> wfTime tc | OnRequest rc \<Rightarrow> wfRequest rc) \<and>
     (isRange c \<or> \<not> str_includes (buildRequestConditionExpr c) (js '' || ''))"

text \<open>Conditions on a body parameter that are written with a test for its presence before them.\<close>

definition guarded :: "RequestCondition \<Rightarrow> bool" where
  "guarded c = (case c of
     OnTime _ \<Rightarrow> False
   | OnRequest rc \<Rightarrow> ph_source rc = Param \<and> ph_mode rc \<in> {MATCH_CONTAINS, MATCH_GT, MATCH_GTE, MATCH_LT, MATCH_LTE})"

text \<open>The pieces at depth zero of a condition in a conjunction.\<close>

definition pieces :: "bool \<Rightarrow> RequestCondition \<Rightarrow> jsstring list" where
  "pieces multi c = (case c of
     OnTime tc \<Rightarrow> (let e = buildTimeConditionExpr tc in [if multi \<and> isRange c then 40 # e @ [41] else e])
   | OnRequest rc \<Rightarrow>
       (let src = sourceText (ph_source rc) (ph_path rc); v = ph_value rc in
        (if guarded c then [src @ js '' != nil''] else []) @
        [if ph_mode rc = MATCH_EXISTS then src @ (if ph_source rc = Header then js '' != '' @ [34, 34] else js '' != nil'')
         else if ph_mode rc = MATCH_CONTAINS then js ''has('' @ src @ js '', '' @ jsonQuote v @ js '')''
         else if ph_mode rc = MATCH_EQ then src @ js '' == '' @ buildExprLiteral MATCH_EQ v
         else src @ js '' '' @ compareOperator (ph_mode rc) @ js '' '' @ v]))"

lemma request_written:
  assumes "wfRequest rc"
  shows "buildRequestConditionExpr (OnRequest rc) = join (js '' && '') (pieces m (OnRequest rc))"
proof -
  have "normalizeRequestCondition rc = rc" using assms by (simp add: normalizeRequestCondition_def wfRequest_def)
  moreover have "js '' != nil && '' = js '' != nil'' @ js '' && ''" by (simp flip: js_append)
  moreover have "buildExprLiteral MATCH_CONTAINS (ph_value rc) = jsonQuote (ph_value rc)" if "quotable (ph_value rc)"
    using that by (simp add: buildExprLiteral_def quotable_def Let_def)
  moreover have "js ''header('' = js ''header'' @ js ''(''" "js ''param('' = js ''param'' @ js ''(''" by (simp_all flip: js_append)
  moreover have "ph_path rc \<noteq> []" "trim (ph_path rc) = ph_path rc" "ph_mode rc \<in> set (requestMatchModes (ph_source rc))"
    using assms by (simp_all add: wfRequest_def plainName_def)
  ultimately show ?thesis
    using assms
    by (cases "ph_source rc")
      (auto simp: buildRequestConditionExpr_def pieces_def guarded_def sourceText_def sourceName_def wfRequest_def
        requestMatchModes_def trim_numeric Let_def)
qed

lemma condition_written:
  assumes "wfCondition c"
  shows "(if multi \<and> str_includes (buildRequestConditionExpr c) (js '' || '')
          then js ''('' @ buildRequestConditionExpr c @ js '')'' else buildRequestConditionExpr c) =
         join (js '' && '') (pieces multi c)"
proof (cases c)
  case (OnRequest rc)
  then have "\<not> str_includes (buildRequestConditionExpr c) (js '' || '')" "wfRequest rc"
    using assms by (auto simp: wfCondition_def isRange_def)
  then show ?thesis using request_written [of rc multi] OnRequest by simp
next
  case (OnTime tc)
  then have tc: "wfTime tc" and alt: "isRange c \<or> \<not> str_includes (buildTimeConditionExpr tc) (js '' || '')"
    using assms by (auto simp: wfCondition_def buildRequestConditionExpr_def)
  have "str_includes (buildTimeConditionExpr tc) (js '' || '')" if "isRange c"
    using that OnTime time_written [OF tc] str_includes_self_append [of "timeText tc @ js '' >= '' @ tc_rangeStart tc" "js '' || ''"]
    by (simp add: isRange_def)
  then show ?thesis using alt OnTime by (auto simp: pieces_def buildRequestConditionExpr_def Let_def js.simps)
qed

text \<open>Texts that the search for \<open> && \<close> leaves in one piece, and what may stand between two of them.\<close>

definition solid :: "jsstring \<Rightarrow> bool" where
  "solid s \<longleftrightarrow> s \<noteq> [] \<and> \<not> is_ws (hd s) \<and> hd s \<noteq> 38 \<and> \<not> is_ws (last s) \<and> last s \<noteq> 38"

definition unsplit :: "jsstring \<Rightarrow> bool" where
  "unsplit s \<longleftrightarrow> solid s \<and> nested s \<and> (\<forall>rest. noSplit (js '' && '') 0 s rest)"

definition gap :: "jsstring \<Rightarrow> bool" where
  "gap g \<longleftrightarrow> nested g \<and> (\<forall>c rest. c \<noteq> 38 \<longrightarrow> noSplit (js '' && '') 0 g (c # rest))"

lemma unsplit_gap: "unsplit a \<Longrightarrow> gap g \<Longrightarrow> unsplit b \<Longrightarrow> unsplit (a @ g @ b)"
  by (cases b) (auto simp: unsplit_def gap_def solid_def noSplit_append nested_append)

lemma gaps: "gap (js '' >= '')" "gap (js '' < '')" "gap (js '' == '')" "gap (js '' != '')" "gap (js '' || '')" "gap (js '' > '')" "gap (js '' <= '')"
  by (auto simp: gap_def js.simps intro!: nested.intros)

lemma unsplit_flat:
  assumes "solid s" "list_all (\<lambda>c. c \<noteq> 40 \<and> c \<noteq> 41) s" "\<not> str_includes s (js '' && '')"
  shows "unsplit s"
  using assms noSplit_and_free [of s 0] by (auto simp: unsplit_def solid_def is_ws_def nested_noparens)

lemma unsplit_call:
  assumes "name \<noteq> []" "list_all (\<lambda>c. 97 \<le> c \<and> c \<le> 122) name" "nested a"
  shows "unsplit (name @ js ''('' @ a @ js '')'')"
proof -
  have "list_all (\<lambda>c. c \<noteq> 40 \<and> c \<noteq> 41 \<and> c \<noteq> 32) name" using assms(2) by (auto simp: list_all_iff)
  then have "nested name" "noSplit (js '' && '') 0 name rest" for rest
    by (auto simp: list_all_iff js.simps intro!: nested_noparens noSplit_nosep)
  moreover have "noSplit (js '' && '') 0 (js ''('' @ a @ js '')'') rest" for rest
    using assms(3) by (simp add: js.simps depthStep_def noSplit_append nested_deep)
  moreover have "nested (js ''('' @ a @ js '')'')" using nested.wrap [OF assms(3) nested.empty] by (simp add: js.simps)
  moreover have "97 \<le> hd name" "hd name \<le> 122" using assms(1,2) by (cases name; auto)+
  then have "\<not> is_ws (hd name)" "hd name \<noteq> 38" by (auto simp: is_ws_def)
  ultimately show ?thesis
    using assms(1) by (auto simp: unsplit_def solid_def noSplit_append nested_append js.simps is_ws_def)
qed

lemma plainName_nested: "plainName p \<Longrightarrow> nested (jsonQuote p)"
  by (auto simp: plainName_quote plainName_def list_all_iff intro!: nested_noparens)

lemma unsplit_source: "plainName p \<Longrightarrow> unsplit (sourceText src p)"
  unfolding sourceText_def by (rule unsplit_call) (auto simp: sourceName_def js.simps plainName_nested)

lemma unsplit_time: "wfTime tc \<Longrightarrow> unsplit (timeText tc)"
  unfolding timeText_def using time_func_chars [of "tc_timeFunc tc"] by (intro unsplit_call) (auto simp: wfTime_def plainName_nested)

lemma no_and_without_space: "list_all (\<lambda>c. c \<noteq> 32) s \<Longrightarrow> \<not> str_includes s (js '' && '')"
  by (auto simp: str_includes_def sublist_def js.simps)

lemma unsplit_numeric: "isNumericLiteral n \<Longrightarrow> unsplit n"
proof -
  assume n: "isNumericLiteral n"
  have "\<forall>c \<in> set n. c \<noteq> 32 \<and> c \<noteq> 40 \<and> c \<noteq> 41 \<and> c \<noteq> 38 \<and> \<not> is_ws c"
    using numeric_chars [OF n] isNumChar_props by (auto simp: list_all_iff)
  then show ?thesis
    using numeric_chars [OF n] by (intro unsplit_flat no_and_without_space) (auto simp: solid_def list_all_iff)
qed

lemma unsplit_literal:
  assumes "quotable v" "\<not> str_includes (buildExprLiteral MATCH_EQ v) (js '' && '')"
  shows "unsplit (buildExprLiteral MATCH_EQ v)"
proof -
  have "unsplit (js ''true'')" "unsplit (js ''false'')"
    by (rule unsplit_flat; simp add: js.simps solid_def is_ws_def str_includes_def sublist_code)+
  moreover have "unsplit (jsonQuote v)" if "\<not> str_includes (jsonQuote v) (js '' && '')"
    using that quote_noparens [OF assms(1)] by (intro unsplit_flat) (simp_all add: solid_def jsonQuote_def is_ws_def)
  ultimately show ?thesis
    using assms unsplit_numeric [of v] unfolding buildExprLiteral_def quotable_def Let_def by (auto split: if_splits)
qed

lemma quotable_nested: "quotable v \<Longrightarrow> nested (jsonQuote v)"
  by (rule nested_noparens) (rule quote_noparens)

lemma unsplit_words: "unsplit (js ''nil'')" "unsplit [34, 34]"
  by (rule unsplit_flat; simp add: js.simps solid_def is_ws_def str_includes_def sublist_code)+

lemma unsplit_contains:
  assumes "plainName p" "quotable v"
  shows "unsplit (js ''has('' @ sourceText src p @ js '', '' @ jsonQuote v @ js '')'')"
proof -
  have "nested (sourceText src p @ js '', '' @ jsonQuote v)"
    using unsplit_source [OF assms(1), of src] quotable_nested [OF assms(2)]
    by (auto simp: unsplit_def js.simps intro!: nested_append nested.intros)
  from unsplit_call [of "js ''has''", OF _ _ this] show ?thesis by (simp add: js.simps)
qed

lemma unsplit_wrapped:
  assumes "nested s"
  shows "unsplit (40 # s @ [41])"
  using assms nested.wrap [OF assms nested.empty]
  by (auto simp: unsplit_def solid_def is_ws_def js.simps depthStep_def noSplit_append nested_deep)

lemma time_unsplit:
  assumes "wfTime tc"
  shows "unsplit (buildTimeConditionExpr tc)"
proof -
  note time = unsplit_time [OF assms]
  have "gap (js '' '' @ timeOperator m @ js '' '')" for m
    using gaps by (simp add: timeOperator_def flip: js_append)
  then have "unsplit (timeText tc @ js '' '' @ timeOperator (tc_mode tc) @ js '' '' @ tc_value tc)" if "isNumericLiteral (tc_value tc)"
    using unsplit_gap [OF time _ unsplit_numeric [OF that]] by fastforce
  moreover have "unsplit (timeText tc @ js '' >= '' @ tc_rangeStart tc @ js '' || '' @ timeText tc @ js '' < '' @ tc_rangeEnd tc)"
    if "isNumericLiteral (tc_rangeStart tc)" "isNumericLiteral (tc_rangeEnd tc)"
    using that by (intro unsplit_gap gaps time unsplit_numeric)
  ultimately show ?thesis using assms by (simp add: time_written wfTime_def)
qed

lemma pieces_unsplit:
  assumes "wfCondition c"
  shows "list_all unsplit (pieces multi c)"
proof (cases c)
  case (OnTime tc)
  then have "unsplit (buildTimeConditionExpr tc)" using assms by (simp add: wfCondition_def time_unsplit)
  then show ?thesis using OnTime unsplit_wrapped by (auto simp: pieces_def unsplit_def Let_def)
next
  case (OnRequest rc)
  then have wf: "wfRequest rc" using assms by (simp add: wfCondition_def)
  then have name: "plainName (ph_path rc)" by (simp add: wfRequest_def)
  note src = unsplit_source [OF name]
  have "js '' != nil'' = js '' != '' @ js ''nil''" by (simp flip: js_append)
  then have exists: "unsplit (sourceText s (ph_path rc) @ js '' != nil'')" "unsplit (sourceText s (ph_path rc) @ js '' != '' @ [34, 34])" for s
    using unsplit_gap [OF src gaps(4)] unsplit_words by simp_all
  have "gap (js '' '' @ compareOperator m @ js '' '')" for m
    using gaps by (simp add: compareOperator_def flip: js_append)
  then have "unsplit (sourceText s (ph_path rc) @ js '' '' @ compareOperator m @ js '' '' @ ph_value rc)"
    if "isNumericLiteral (ph_value rc)" for s m
    using unsplit_gap [OF src _ unsplit_numeric [OF that]] by fastforce
  then show ?thesis
    using wf OnRequest exists unsplit_contains [OF name] unsplit_gap [OF src gaps(3) unsplit_literal]
    by (auto simp: pieces_def wfRequest_def Let_def)
qed

lemma pieces_read:
  assumes "wfCondition c"
  shows "\<not> guarded c \<Longrightarrow> \<exists>p. pieces multi c = [p] \<and> tryParseRequestCondition otherJson p = Inr (Some c)"
    and "guarded c \<Longrightarrow> \<exists>p q d. pieces multi c = [p, q] \<and> tryParseRequestCondition otherJson p = Inr (Some d) \<and>
      tryParseRequestCondition otherJson q = Inr None"
proof -
  have both: "(\<not> guarded c \<longrightarrow> (\<exists>p. pieces multi c = [p] \<and> tryParseRequestCondition otherJson p = Inr (Some c))) \<and>
    (guarded c \<longrightarrow> (\<exists>p q d. pieces multi c = [p, q] \<and> tryParseRequestCondition otherJson p = Inr (Some d) \<and>
      tryParseRequestCondition otherJson q = Inr None))"
  proof (cases c)
    case (OnTime tc)
    then have "wfTime tc" using assms by (simp add: wfCondition_def)
    then show ?thesis
      using OnTime time_read [of tc] range_wrapped_read [of tc]
      by (auto simp: pieces_def guarded_def isRange_def tryParseRequestCondition_def Let_def)
  next
    case (OnRequest rc)
    then have wf: "wfRequest rc" using assms by (simp add: wfCondition_def)
    then have name: "plainName (ph_path rc)" by (simp add: wfRequest_def)
    have c: "c = onRequest (ph_source rc) (ph_path rc) (ph_mode rc) (ph_value rc)" using OnRequest by (simp add: onRequest_def)
    show ?thesis
    proof (cases "guarded c")
      case False
      then have "ph_mode rc \<in> {MATCH_EXISTS, MATCH_EQ} \<or> ph_source rc = Header \<and> ph_mode rc = MATCH_CONTAINS"
        using wf OnRequest by (cases "ph_source rc") (auto simp: guarded_def wfRequest_def requestMatchModes_def)
      then show ?thesis
        using False wf OnRequest c existence_read [OF name, of otherJson] contains_read [OF name, of "ph_value rc" otherJson]
          equals_read [OF name, of "ph_value rc" otherJson]
        by (cases "ph_source rc") (auto simp: pieces_def wfRequest_def Let_def)
    next
      case True
      then have "ph_source rc = Param" "ph_mode rc \<in> {MATCH_CONTAINS, MATCH_GT, MATCH_GTE, MATCH_LT, MATCH_LTE}"
        using OnRequest by (auto simp: guarded_def)
      then show ?thesis
        using True OnRequest existence_read(2) [OF name, where otherJson = otherJson] guarded_unread [OF name, where otherJson = otherJson]
        by (auto simp: pieces_def Let_def)
    qed
  qed
  then show "\<not> guarded c \<Longrightarrow> \<exists>p. pieces multi c = [p] \<and> tryParseRequestCondition otherJson p = Inr (Some c)"
    and "guarded c \<Longrightarrow> \<exists>p q d. pieces multi c = [p, q] \<and> tryParseRequestCondition otherJson p = Inr (Some d) \<and>
      tryParseRequestCondition otherJson q = Inr None" by blast+
qed

lemma trim_solid: "solid s \<Longrightarrow> trim s = s"
  by (rule trim_ends) (auto simp: solid_def)

lemma conditions_read:
  assumes "list_all wfCondition cs"
  shows "parseConditions otherJson (concat (map (pieces multi) cs)) = Inr (if \<exists>c \<in> set cs. guarded c then None else Some cs)"
  using assms
proof (induction cs)
  case (Cons c cs)
  then have c: "wfCondition c" and trimmed: "\<forall>p \<in> set (pieces multi c). trim p = p"
    using pieces_unsplit [of c multi] by (auto simp: list_all_iff unsplit_def trim_solid)
  show ?case
  proof (cases "guarded c")
    case True
    then show ?thesis using pieces_read(2) [OF c True, of multi otherJson] trimmed by fastforce
  next
    case False
    then show ?thesis using pieces_read(1) [OF c False, of multi otherJson] trimmed Cons by fastforce
  qed
qed simp

section \<open>Reading back rules\<close>

definition wfGroup :: "RequestRuleGroup \<Rightarrow> bool" where
  "wfGroup g \<longleftrightarrow> conditions g \<noteq> [] \<and> list_all wfCondition (conditions g) \<and> isNumericLiteral (multiplier g)"

definition allPieces :: "RequestRuleGroup \<Rightarrow> jsstring list" where
  "allPieces g = concat (map (pieces (length (conditions g) \<noteq> 1)) (conditions g))"

lemma pieces_nonempty: "pieces multi c \<noteq> []"
  by (cases c) (simp_all add: pieces_def Let_def)

lemma allPieces_facts:
  assumes "wfGroup g"
  shows "list_all unsplit (allPieces g)" "allPieces g \<noteq> []"
  using assms pieces_unsplit pieces_nonempty by (auto simp: allPieces_def wfGroup_def list_all_iff neq_Nil_conv)

lemma join_solid_nested:
  assumes "ps \<noteq> []" "list_all unsplit ps"
  shows "nested (join (js '' && '') ps)" "join (js '' && '') ps \<noteq> []"
proof -
  have amp: "nested (js '' && '')" by (simp add: js.simps nested.intros)
  have "nested (join (js '' && '') ps) \<and> join (js '' && '') ps \<noteq> []"
    using assms
  proof (induction "js '' && ''" ps rule: join.induct)
    case (3 x y ys)
    then show ?case using amp by (auto simp: unsplit_def intro!: nested_append)
  qed (auto simp: unsplit_def solid_def)
  then show "nested (join (js '' && '') ps)" "join (js '' && '') ps \<noteq> []" by simp_all
qed

lemma split_and_pieces:
  assumes "ps \<noteq> []" "list_all unsplit ps"
  shows "splitTopLevelAnd (join (js '' && '') ps) = ps"
proof -
  have "list_all (atomic (js '' && '')) ps" using assms(2) by (auto simp: list_all_iff unsplit_def atomic_def)
  then have "splitTopLoop (js '' && '') 0 [] (join (js '' && '') ps) = map trim ps"
    using assms(1) by (intro splitTopLoop_join [where c = 32 and cs = "js ''&& ''"]) (simp_all add: js.simps)
  also have "\<dots> = ps" using assms(2) by (intro map_idI) (auto simp: list_all_iff unsplit_def trim_solid)
  finally show ?thesis
    using assms(2) by (auto simp: splitTopLevelAnd_def list_all_iff unsplit_def solid_def intro!: filter_True)
qed

lemma condition_nonempty:
  assumes "wfCondition c"
  shows "buildRequestConditionExpr c \<noteq> []"
  using condition_written [OF assms, of False] join_solid_nested(2) [OF pieces_nonempty pieces_unsplit [OF assms], of False] by simp

lemma group_written:
  assumes "wfGroup g"
  shows "buildRuleGroupFactor g = 40 # (join (js '' && '') (allPieces g) @ js '' ? '' @ multiplier g @ js '' : 1'') @ [41]"
proof -
  let ?cs = "conditions g" and ?texts = "map buildRequestConditionExpr (conditions g)"
  have wf: "list_all wfCondition ?cs" "?cs \<noteq> []" "isNumericLiteral (multiplier g)" using assms by (simp_all add: wfGroup_def)
  have texts: "filter (\<lambda>e. e \<noteq> []) ?texts = ?texts"
    using wf(1) condition_nonempty by (auto simp: list_all_iff intro!: filter_True)
  define combined where "combined = (case ?texts of [e] \<Rightarrow> e
     | es \<Rightarrow> join (js '' && '') (map (\<lambda>e. if str_includes e (js '' || '') then js ''('' @ e @ js '')'' else e) es))"
  have "combined = join (js '' && '') (allPieces g)"
  proof (cases "length ?cs = 1")
    case True
    then obtain c where "?cs = [c]" by (metis length_0_conv length_Suc_conv One_nat_def)
    then show ?thesis using wf condition_written [of c False] by (simp add: combined_def allPieces_def)
  next
    case False
    then have "combined = join (js '' && '') (map (\<lambda>e. if str_includes e (js '' || '') then js ''('' @ e @ js '')'' else e) ?texts)"
      by (auto simp: combined_def split: list.splits)
    also have "\<dots> = join (js '' && '') (map (\<lambda>c. join (js '' && '') (pieces True c)) ?cs)"
      unfolding map_map comp_def
      by (intro arg_cong [of _ _ "join _"] map_cong refl) (use wf(1) condition_written [of _ True] in \<open>auto simp: list_all_iff\<close>)
    also have "\<dots> = join (js '' && '') (concat (map (pieces True) ?cs))"
      by (subst join_concat) (auto simp: pieces_nonempty comp_def)
    finally show ?thesis using False by (simp add: allPieces_def)
  qed
  then show ?thesis
    using wf texts by (simp add: buildRuleGroupFactor_def combined_def [symmetric] trim_numeric Let_def js.simps)
qed

lemma ruleFactor_written:
  assumes "isNumericLiteral m" "cond \<noteq> []"
  shows "ruleFactor (40 # (cond @ js '' ? '' @ m @ js '' : 1'') @ [41]) = Some (cond, m)"
proof -
  have m: "\<forall>c \<in> set (rev m). isNumChar c" "m \<noteq> []" using numeric_chars [OF assms(1)] by (auto simp: list_all_iff)
  have "\<not> isNumChar 32" by (simp add: isNumChar_def is_digit_def)
  then have "takeWhile isNumChar (rev m @ 32 # 63 # 32 # rev cond) = rev m"
    "dropWhile isNumChar (rev m @ 32 # 63 # 32 # rev cond) = 32 # 63 # 32 # rev cond"
    using m(1) by (subst takeWhile_append2 dropWhile_append2; simp)+
  then have scan: "rev (takeWhile isNumChar (rev (cond @ [32, 63, 32] @ m))) = m"
    "rev (dropWhile isNumChar (rev (cond @ [32, 63, 32] @ m))) = cond @ [32, 63, 32]"
    by simp_all
  let ?inner = "cond @ [32, 63, 32] @ m" and ?tail = "[32, 58, 32, 49, 41]"
  have whole: "40 # (cond @ js '' ? '' @ m @ js '' : 1'') @ [41] = 40 # ?inner @ ?tail" "js '' : 1)'' = ?tail" by (simp_all add: js.simps)
  have ends: "prefix (js ''('') (40 # ?inner @ ?tail)" "suffix ?tail (40 # ?inner @ ?tail)" by (auto simp: js.simps suffix_def)
  have inner: "take (length (40 # ?inner @ ?tail) - 1 - length ?tail) (drop 1 (40 # ?inner @ ?tail)) = ?inner"
    by (simp add: numeral_3_eq_3)
  have "ruleFactor (40 # ?inner @ ?tail) =
      (if m = [] \<or> \<not> suffix (js '' ? '') (cond @ [32, 63, 32]) \<or> length (cond @ [32, 63, 32]) < 4 then None
       else Some (take (length (cond @ [32, 63, 32]) - 3) (cond @ [32, 63, 32]), m))"
    unfolding ruleFactor_def Let_def whole(2) inner scan using ends by simp
  then show ?thesis unfolding whole(1) using m(2) assms(2) by (cases cond) (simp_all add: js.simps suffix_def)
qed

lemma group_nested:
  assumes "wfGroup g"
  shows "nested (join (js '' && '') (allPieces g) @ js '' ? '' @ multiplier g @ js '' : 1'')"
proof -
  have "nested (multiplier g)" using assms unsplit_numeric by (auto simp: wfGroup_def unsplit_def)
  then show ?thesis
    using join_solid_nested(1) [OF allPieces_facts(2,1) [OF assms]]
    by (auto simp: js.simps intro!: nested_append nested.intros)
qed

lemma group_text:
  assumes "wfGroup g"
  shows "atomic (js '' * '') (buildRuleGroupFactor g)" "solid (buildRuleGroupFactor g)"
  using atomic_wrapped [OF group_nested [OF assms], of "js '' * ''" 32 "js ''* ''"] group_written [OF assms]
  by (simp_all add: solid_def is_ws_def js.simps)

lemma group_read:
  assumes "wfGroup g"
  shows "tryParseRuleGroupFactor otherJson (buildRuleGroupFactor g) =
    Inr (if \<exists>c \<in> set (conditions g). guarded c then None else Some g)"
proof -
  have "ruleFactor (buildRuleGroupFactor g) = Some (join (js '' && '') (allPieces g), multiplier g)"
    using assms join_solid_nested(2) [OF allPieces_facts(2,1) [OF assms]]
    by (simp add: group_written ruleFactor_written wfGroup_def del: append.simps append_assoc)
  moreover have "parseConditions otherJson (allPieces g) = Inr (if \<exists>c \<in> set (conditions g). guarded c then None else Some (conditions g))"
    using assms by (simp add: allPieces_def conditions_read wfGroup_def)
  ultimately show ?thesis
    using assms by (simp add: tryParseRuleGroupFactor_def split_and_pieces allPieces_facts wfGroup_def)
qed

lemma groups_read:
  "list_all wfGroup gs \<Longrightarrow>
   parseGroups otherJson (map buildRuleGroupFactor gs) =
     Inr (if \<exists>g \<in> set gs. \<exists>c \<in> set (conditions g). guarded c then None else Some gs)"
  by (induction gs) (simp_all add: group_read)

lemma rules_written:
  assumes "list_all wfGroup gs"
  shows "buildRequestRuleExpr gs = join (js '' * '') (map buildRuleGroupFactor gs)"
proof -
  have "filter (\<lambda>e. e \<noteq> []) (map buildRuleGroupFactor gs) = map buildRuleGroupFactor gs"
    using assms by (auto simp: list_all_iff group_written intro!: filter_True)
  then show ?thesis by (simp add: buildRequestRuleExpr_def)
qed

lemma join_solid:
  "ps \<noteq> [] \<Longrightarrow> list_all solid ps \<Longrightarrow> solid (join sep ps)"
proof (induction sep ps rule: join.induct)
  case (3 sep x y ys)
  then show ?case by (auto simp: solid_def)
qed simp_all

lemma split_multiply_texts:
  assumes "ps \<noteq> []" "list_all (atomic (js '' * '')) ps" "list_all solid ps"
  shows "splitTopLevelMultiply (join (js '' * '') ps) = ps"
proof -
  have "splitTopLoop (js '' * '') 0 [] (join (js '' * '') ps) = map trim ps"
    using assms by (intro splitTopLoop_join [where c = 32 and cs = "js ''* ''"]) (simp_all add: js.simps)
  also have "\<dots> = ps" using assms(3) by (intro map_idI) (auto simp: list_all_iff trim_solid)
  finally show ?thesis using assms(3) by (auto simp: splitTopLevelMultiply_def list_all_iff solid_def intro!: filter_True)
qed

lemma rules_read:
  assumes "list_all wfGroup gs"
  shows "tryParseRequestRuleExpr otherJson (buildRequestRuleExpr gs) =
    Inr (if \<exists>g \<in> set gs. \<exists>c \<in> set (conditions g). guarded c then None else Some gs)"
proof (cases "gs = []")
  case True
  then show ?thesis by (simp add: tryParseRequestRuleExpr_def buildRequestRuleExpr_def trim_def)
next
  case False
  have solid: "list_all solid (map buildRuleGroupFactor gs)" "list_all (atomic (js '' * '')) (map buildRuleGroupFactor gs)"
    using assms group_text by (auto simp: list_all_iff)
  have "solid (buildRequestRuleExpr gs)" using False solid(1) by (simp add: rules_written [OF assms] join_solid)
  then show ?thesis
    using False split_multiply_texts [OF _ solid(2,1)] groups_read [OF assms]
    by (auto simp: tryParseRequestRuleExpr_def rules_written [OF assms] trim_solid solid_def Let_def)
qed

section \<open>Taking a billing expression apart\<close>

definition guardedGroup :: "RequestRuleGroup \<Rightarrow> bool" where
  "guardedGroup g \<longleftrightarrow> list_ex guarded (conditions g)"

text \<open>A base expression with matching parentheses that is not itself in parentheses and does not end like a rule.\<close>

definition wfBase :: "jsstring \<Rightarrow> bool" where
  "wfBase base \<longleftrightarrow> solid base \<and> nested base \<and> \<not> hasFullOuterParens base \<and> \<not> suffix (js '' : 1'') base"

lemma outerParens_nested:
  "nested s \<Longrightarrow> 0 < d \<Longrightarrow> t \<noteq> [] \<Longrightarrow> outerParensLoop d (s @ t) = outerParensLoop d t"
  by (induction arbitrary: d t rule: nested.induct) (simp_all add: depthStep_def)

lemma unwrap_base:
  assumes "wfBase base"
  shows "unwrapOuterParens (40 # base @ [41]) = base"
proof -
  have base: "solid base" "nested base" "\<not> hasFullOuterParens base" using assms by (simp_all add: wfBase_def)
  have "outerParensLoop 0 (40 # base @ [41])"
    using outerParens_nested [OF base(2), of 1 "[41]"] by (simp add: depthStep_def)
  then have "hasFullOuterParens (40 # base @ [41])" by (simp add: hasFullOuterParens_def suffix_def)
  moreover have "trim (40 # base @ [41]) = 40 # base @ [41]" by (rule trim_ends) (simp_all add: is_ws_def)
  ultimately show ?thesis
    using base by (simp add: unwrapOuterParens_def unwrapLoop.simps [of "40 # base @ [41]"] unwrapLoop.simps [of base] trim_solid butlast_append)
qed

lemma base_not_rule:
  assumes "wfBase base"
  shows "tryParseRequestRuleExpr otherJson (40 # base @ [41]) = Inr None"
proof -
  let ?p = "40 # base @ [41]"
  have solid: "solid ?p" by (simp add: solid_def is_ws_def)
  have "atomic (js '' * '') ?p"
    using assms atomic_wrapped [of base "js '' * ''" 32 "js ''* ''"] by (simp add: wfBase_def js.simps)
  then have "splitTopLevelMultiply ?p = [?p]" using split_multiply_texts [of "[?p]"] solid by simp
  moreover have "\<not> suffix (js '' : 1)'') ?p"
  proof
    assume "suffix (js '' : 1)'') ?p"
    then obtain z where z: "40 # base @ [41] = z @ [32, 58, 32, 49, 41]" by (auto simp: suffix_def js.simps)
    then have "(40 # base) @ [41] = (z @ [32, 58, 32, 49]) @ [41]" by simp
    then have "40 # base = z @ [32, 58, 32, 49]" by (rule append_same_eq [THEN iffD1])
    then have "suffix (js '' : 1'') base" by (cases z) (auto simp: js.simps suffix_def)
    then show False using assms by (simp add: wfBase_def)
  qed
  then have "tryParseRuleGroupFactor otherJson ?p = Inr None" by (simp add: tryParseRuleGroupFactor_def ruleFactor_def Let_def)
  ultimately show ?thesis using solid by (simp add: tryParseRequestRuleExpr_def trim_solid Let_def)
qed

lemma factor_parsed:
  "wfGroup g \<Longrightarrow> tryParseRequestRuleExpr otherJson (buildRuleGroupFactor g) = Inr (if guardedGroup g then None else Some [g])"
  using rules_read [of "[g]" otherJson] rules_written [of "[g]"] by (auto simp: guardedGroup_def list_ex_iff)

lemma filter_factors:
  assumes "list_all wfGroup gs"
  shows "filter (\<lambda>p. isRulePart (tryParseRequestRuleExpr otherJson p)) (map buildRuleGroupFactor gs) =
      map buildRuleGroupFactor (filter (\<lambda>g. \<not> guardedGroup g) gs)"
    and "filter (\<lambda>p. \<not> isRulePart (tryParseRequestRuleExpr otherJson p)) (map buildRuleGroupFactor gs) =
      map buildRuleGroupFactor (filter guardedGroup gs)"
  using assms by (induction gs) (simp_all add: factor_parsed)

lemma split_of_combine:
  assumes "wfBase base" "list_all wfGroup gs" "gs \<noteq> []"
  shows "splitBillingExprAndRequestRules otherJson (combineBillingExpr base (buildRequestRuleExpr gs)) =
    Inr (if list_ex guardedGroup gs
         then \<lparr>billingExpr = combineBillingExpr base (buildRequestRuleExpr gs), requestRuleExpr = []\<rparr>
         else \<lparr>billingExpr = base, requestRuleExpr = buildRequestRuleExpr gs\<rparr>)"
proof -
  let ?base = "40 # base @ [41]" and ?rules = "buildRequestRuleExpr gs" and ?texts = "map buildRuleGroupFactor gs"
  let ?whole = "combineBillingExpr base ?rules" and ?parse = "tryParseRequestRuleExpr otherJson"
  have solid: "list_all solid ?texts" and atomic: "list_all (atomic (js '' * '')) ?texts"
    using assms(2) group_text by (auto simp: list_all_iff)
  have rules: "solid ?rules" using assms(3) solid by (simp add: rules_written [OF assms(2)] join_solid)
  have whole: "?whole = join (js '' * '') (?base # ?texts)"
  proof -
    have "solid base" using assms(1) by (simp add: wfBase_def)
    then have "?whole = js ''('' @ base @ js '') * '' @ ?rules"
      using rules by (simp add: combineBillingExpr_def trim_solid) (auto simp: solid_def)
    then show ?thesis using assms(3) unfolding rules_written [OF assms(2)] by (cases gs) (simp_all add: js.simps)
  qed
  have base: "atomic (js '' * '') ?base" "solid ?base"
    using assms(1) atomic_wrapped [of base "js '' * ''" 32 "js ''* ''"] by (simp_all add: wfBase_def js.simps solid_def is_ws_def)
  have parts: "splitTopLevelMultiply ?whole = ?base # ?texts" and tw: "trim ?whole = ?whole" and "?whole \<noteq> []"
    unfolding whole using base atomic solid split_multiply_texts [of "?base # ?texts"] join_solid [of "?base # ?texts" "js '' * ''"]
    by (simp_all add: trim_solid solid_def)
  moreover have "\<forall>r \<in> set (map ?parse (?base # ?texts)). r \<noteq> Inl ()"
    using assms(2) by (auto simp: base_not_rule [OF assms(1)] factor_parsed list_all_iff)
  moreover have "filter (\<lambda>p. isRulePart (?parse p)) (?base # ?texts) = map buildRuleGroupFactor (filter (\<lambda>g. \<not> guardedGroup g) gs)"
    "filter (\<lambda>p. \<not> isRulePart (?parse p)) (?base # ?texts) = ?base # map buildRuleGroupFactor (filter guardedGroup gs)"
    by (simp_all add: base_not_rule [OF assms(1)] filter_factors [OF assms(2)])
  moreover have "filter (\<lambda>g. \<not> guardedGroup g) gs = gs" "filter guardedGroup gs = []" if "\<not> list_ex guardedGroup gs"
    using that by (auto simp: list_ex_iff filter_empty_conv intro!: filter_True)
  moreover have "filter guardedGroup gs \<noteq> []" if "list_ex guardedGroup gs" using that by (auto simp: list_ex_iff filter_empty_conv)
  ultimately show ?thesis
    using assms(3) by (auto simp: splitBillingExprAndRequestRules_def Let_def unwrap_base [OF assms(1)] rules_written [OF assms(2)])
qed

section \<open>Theorems\<close>

text \<open>Parentheses are counted inside a quoted value too: after one that is not closed, no further condition is split
  off, and the text of both is not a condition.  Values with parentheses are therefore left out of the round trip.\<close>

lemma quoted_paren_unsplit:
  "splitTopLevelAnd (js ''has(header('' @ [34] @ js ''ua'' @ [34] @ js ''), '' @ [34] @ js ''(iPhone'' @ [34] @ js '') && c'') =
     [js ''has(header('' @ [34] @ js ''ua'' @ [34] @ js ''), '' @ [34] @ js ''(iPhone'' @ [34] @ js '') && c'']"
  by (simp add: splitTopLevelAnd_def splitTopLoop.simps js.simps trim_def is_ws_def)

text \<open>C22.  Well-formed rules are read back as they were written, except that the whole text is unreadable as soon as one
  group tests a body parameter for a part of its value or compares it with a number: these two kinds of condition are
  written with \<open> && \<close> in them, where the reader takes the text apart.  A rule is well formed when it has a condition and a
  numeric multiplier; names of headers, parameters and time zones are not empty and have no parentheses and nothing that
  JSON escapes, and headers and parameters no blanks at their ends; values that are compared or searched have no
  parentheses and no blanks at their ends; a value compared for equality has no \<open> && \<close> and no line end; only a time range
  has \<open> || \<close> in it; bounds are numeric; and modes and time functions are the known ones.  The other rules that the editor
  can write are not claimed to be read back, and some are not.\<close>

theorem rules_roundtrip:
  assumes "list_all wfGroup gs"
  shows "tryParseRequestRuleExpr otherJson (buildRequestRuleExpr gs) = Inr (if list_ex guardedGroup gs then None else Some gs)"
  using rules_read [OF assms, of otherJson] by (simp add: guardedGroup_def list_ex_iff)

definition nightRule :: RequestRuleGroup where
  "nightRule =
    \<lparr>conditions = [OnTime \<lparr>tc_timeFunc = js ''hour'', tc_timezone = js ''UTC'', tc_mode = MATCH_RANGE, tc_value = [],
        tc_rangeStart = js ''22'', tc_rangeEnd = js ''6''\<rparr>,
      onRequest Header (js ''x-tier'') MATCH_EQ (js ''gold'')],
     multiplier = js ''0.5''\<rparr>"

definition sizeRule :: RequestRuleGroup where
  "sizeRule = \<lparr>conditions = [onRequest Param (js ''size'') MATCH_GT (js ''10'')], multiplier = js ''2''\<rparr>"

lemmas text_eval = js.simps trim_def is_ws_def jsonQuote_def escapeUnit_def plainUnit_def plainName_def quotable_def
  isNumericLiteral_def exponentOk_def is_digit_def str_includes_def sublist_code isLineEnd_def Let_def
  highSurrogate_def lowSurrogate_def

lemma example_rules: "wfGroup nightRule" "wfGroup sizeRule" "\<not> guardedGroup nightRule" "guardedGroup sizeRule"
proof -
  show "guardedGroup sizeRule" by (simp add: sizeRule_def guardedGroup_def guarded_def onRequest_def)
  show "\<not> guardedGroup nightRule" by (simp add: nightRule_def guardedGroup_def guarded_def onRequest_def)
  have num: "isNumericLiteral (js ''10'')" "isNumericLiteral (js ''2'')" "isNumericLiteral (js ''22'')" "isNumericLiteral (js ''6'')"
    "isNumericLiteral (js ''0.5'')" by (simp_all add: text_eval)
  have name: "plainName (js ''size'')" "plainName (js ''x-tier'')" "plainName (js ''UTC'')" by (simp_all add: text_eval)
  have words: "trim (js ''size'') = js ''size''" "trim (js ''x-tier'') = js ''x-tier''" "trim (js ''gold'') = js ''gold''"
    "quotable (js ''gold'')" "buildExprLiteral MATCH_EQ (js ''gold'') = 34 # js ''gold'' @ [34]"
    by (simp_all add: text_eval buildExprLiteral_def)
  have "buildRequestConditionExpr (onRequest Param (js ''size'') MATCH_GT (js ''10'')) = js ''param('' @ [34] @ js ''size'' @ [34] @
      js '') != nil && param('' @ [34] @ js ''size'' @ [34] @ js '') > 10''"
    by (simp add: buildRequestConditionExpr_def onRequest_def normalizeRequestCondition_def requestMatchModes_def words
        plainName_quote name trim_numeric num compareOperator_def Let_def) (simp add: js.simps)
  then have "\<not> str_includes (buildRequestConditionExpr (onRequest Param (js ''size'') MATCH_GT (js ''10''))) (js '' || '')"
    by (simp add: text_eval)
  then show "wfGroup sizeRule"
    by (simp add: sizeRule_def wfGroup_def wfCondition_def wfRequest_def onRequest_def requestMatchModes_def num name words)
  have "buildRequestConditionExpr (onRequest Header (js ''x-tier'') MATCH_EQ (js ''gold'')) = js ''header('' @ [34] @ js ''x-tier'' @ [34] @
      js '') == '' @ [34] @ js ''gold'' @ [34]"
    by (simp add: buildRequestConditionExpr_def onRequest_def normalizeRequestCondition_def requestMatchModes_def words
        plainName_quote name Let_def) (simp add: js.simps)
  then have "\<not> str_includes (buildRequestConditionExpr (onRequest Header (js ''x-tier'') MATCH_EQ (js ''gold''))) (js '' || '')"
    by (simp add: text_eval)
  moreover have "\<not> str_includes (34 # js ''gold'' @ [34]) (js '' && '')" "list_all (\<lambda>u. \<not> isLineEnd u) (34 # js ''gold'' @ [34])"
    by (simp_all add: text_eval)
  ultimately show "wfGroup nightRule"
    by (simp add: nightRule_def wfGroup_def wfCondition_def wfRequest_def wfTime_def onRequest_def requestMatchModes_def num name words
        isRange_def TIME_FUNCS_def timeMatchModes_def)
qed

theorem rules_roundtrip_witness:
  "tryParseRequestRuleExpr (\<lambda>_. None) (buildRequestRuleExpr [nightRule]) = Inr (Some [nightRule]) \<and>
   tryParseRequestRuleExpr (\<lambda>_. None) (buildRequestRuleExpr [nightRule, sizeRule]) = Inr None"
  using rules_roundtrip [of "[nightRule]" "\<lambda>_. None"] rules_roundtrip [of "[nightRule, sizeRule]" "\<lambda>_. None"] example_rules by simp

text \<open> A base expression and rules put together are taken apart into the same base and rules; when a group is
  unreadable the whole expression is taken for the base and no rules are found.\<close>

lemma billing_roundtrip:
  assumes "wfBase base" "list_all wfGroup gs" "gs \<noteq> []"
  shows "splitBillingExprAndRequestRules otherJson (combineBillingExpr base (buildRequestRuleExpr gs)) =
    Inr (if list_ex guardedGroup gs
         then \<lparr>billingExpr = combineBillingExpr base (buildRequestRuleExpr gs), requestRuleExpr = []\<rparr>
         else \<lparr>billingExpr = base, requestRuleExpr = buildRequestRuleExpr gs\<rparr>)"
  by (rule split_of_combine [OF assms])

lemma example_base: "wfBase (js ''p * 2 + c * 8'')"
proof -
  have "list_all (\<lambda>c. c \<noteq> 40 \<and> c \<noteq> 41) (js ''p * 2 + c * 8'')" "\<not> suffix (js '' : 1'') (js ''p * 2 + c * 8'')"
    "\<not> hasFullOuterParens (js ''p * 2 + c * 8'')" "solid (js ''p * 2 + c * 8'')"
    by (simp_all add: js.simps hasFullOuterParens_def solid_def is_ws_def suffix_to_prefix)
  then show ?thesis by (simp add: wfBase_def nested_noparens)
qed

end
