(* ===== verification/HttpClient.thy ===== *)
theory HttpClient
  imports AuthSession "HOL-Library.AList"
begin

text \<open>
  The HTTP client of the web application (\<open>src/web/src/lib/http-client.ts\<close>) and its messages for error codes
  (\<open>src/web/src/lib/server-error-message.ts\<close>), on top of the login session.

  A call of the client is a request that the request interceptor equips with the access token, an answer, and
  the response interceptor, which may refresh the login and send the request again.  \<open>apiRequest\<close> is the call
  on a list of turns: for every request sent, what the rest of the page does until the answer, the answer, and
  what a refresh meets that the answer makes the client await.  It is \<open>None\<close> when the list ends before the call.

  The HTTP package is outside: a turn gives its answer, or the error it rejects with.  Translations are outside
  too; a notification of a translated text keeps its key.
\<close>

section \<open>Messages for error codes\<close>

definition serverErrorMessageKeys :: "(jsstring \<times> jsstring) list" where
  "serverErrorMessageKeys =
    [(js ''AUTH_SESSION_LIMIT'', js ''Too many active login sessions. On a device where you are already signed in, open Login sessions and use '' @ [8220] @ js ''Sign out other sessions'' @ [8221] @ js '' to revoke them. If you cannot access a signed-in device, reset your password to sign out all sessions.''),
     (js ''AUTH_SESSION_ISSUANCE_LIMIT'', js ''Too many login sessions were created recently. Please wait for the rolling window to pass, then try again.''),
     (js ''TELEGRAM_BIND_DISABLED'', js ''Telegram binding is disabled.''),
     (js ''TELEGRAM_BIND_INVALID_REQUEST'', js ''The Telegram authorization request is invalid or expired.''),
     (js ''TELEGRAM_BIND_FLOW_INVALID'', js ''This Telegram binding request has expired or has already been used.''),
     (js ''TELEGRAM_BIND_SESSION_INVALID'', js ''The login session that started this Telegram binding is no longer valid.''),
     (js ''TELEGRAM_BIND_ALREADY_BOUND'', js ''This Telegram account is already bound.''),
     (js ''TELEGRAM_BIND_USER_DELETED'', js ''This user account no longer exists.''),
     (js ''TELEGRAM_BIND_USER_DISABLED'', js ''This user account is disabled.''),
     (js ''TELEGRAM_BIND_INTERNAL_ERROR'', js ''Telegram binding failed. Please try again.'')]"

text \<open>The table is an object, so that the properties every object inherits are found in it as well.\<close>

definition inheritedProperties :: "jsstring list" where
  "inheritedProperties = [js ''constructor'', js ''__defineGetter__'', js ''__defineSetter__'', js ''hasOwnProperty'',
     js ''__lookupGetter__'', js ''__lookupSetter__'', js ''isPrototypeOf'', js ''propertyIsEnumerable'', js ''toString'',
     js ''valueOf'', js ''__proto__'', js ''toLocaleString'']"

datatype MessageKey = OwnText jsstring | Inherited jsstring

definition serverErrorPayload :: "jsval \<Rightarrow> jsval option" where
  "serverErrorPayload v =
     (if \<not> isRecord v then None
      else (let response = get_prop v (js ''response'') in
        if isRecord response \<and> isRecord (get_prop response (js ''data'')) then Some (get_prop response (js ''data'')) else Some v))"

definition getServerErrorMessageKey :: "jsval \<Rightarrow> MessageKey option" where
  "getServerErrorMessageKey v = (case serverErrorPayload v of
     None \<Rightarrow> None
   | Some payload \<Rightarrow>
       (case get_prop payload (js ''code'') of
          JStr code \<Rightarrow>
            (case map_of serverErrorMessageKeys code of
               Some t \<Rightarrow> Some (OwnText t)
             | None \<Rightarrow> if code \<in> set inheritedProperties then Some (Inherited code) else None)
        | _ \<Rightarrow> None))"

section \<open>The state of the client\<close>

record ApiRequestConfig =
  skipBusinessError :: bool
  skipErrorHandler :: bool
  disableDuplicate :: bool
  skipAuthRefresh :: bool
  authRetry :: bool
  acceptAuthRotation :: bool
  req_headers :: "(jsstring \<times> jsstring) list"

datatype Toast = Translated MessageKey | Shown jsval

text \<open>The unsettled requests of \<open>api.get\<close>, each with the key that its \<open>finally\<close> deletes, are numbered in the
  order they are sent.\<close>

record HttpPage =
  auth :: AuthPage
  inFlightGet :: "jsstring \<rightharpoonup> nat"
  openGets :: "(nat \<times> jsstring option) list"
  sentGets :: nat
  pathname :: jsstring
  navigations :: "jsstring list"
  toasts :: "Toast list"

definition toastError :: "Toast \<Rightarrow> HttpPage \<Rightarrow> HttpPage" where
  "toastError t hp = hp\<lparr>toasts := toasts hp @ [t]\<rparr>"

definition toastUnless :: "bool \<Rightarrow> Toast \<Rightarrow> HttpPage \<Rightarrow> HttpPage" where
  "toastUnless skip t hp = (if skip then hp else toastError t hp)"

section \<open>Reads that are under way\<close>

definition getKey :: "jsstring \<Rightarrow> jsstring option \<Rightarrow> HttpPage \<Rightarrow> jsstring" where
  "getKey url params hp =
     or_str (currentSID (auth hp)) (js ''anonymous'') @ js '':'' @ url @ js ''?'' @
     (case params of Some p \<Rightarrow> p | None \<Rightarrow> js ''{}'')"

definition originalGet :: "jsstring option \<Rightarrow> HttpPage \<Rightarrow> nat \<times> HttpPage" where
  "originalGet key hp = (sentGets hp, hp\<lparr>openGets := openGets hp @ [(sentGets hp, key)], sentGets := sentGets hp + 1\<rparr>)"

definition apiGet :: "jsstring \<Rightarrow> jsstring option \<Rightarrow> ApiRequestConfig \<Rightarrow> HttpPage \<Rightarrow> nat \<times> HttpPage" where
  "apiGet url params config hp =
     (if disableDuplicate config then originalGet None hp
      else
        (let key = getKey url params hp in
         case inFlightGet hp key of
           Some existingRequest \<Rightarrow> (existingRequest, hp)
         | None \<Rightarrow>
             (let (request, hp1) = originalGet (Some key) hp in
              (request, hp1\<lparr>inFlightGet := (inFlightGet hp1)(key \<mapsto> request)\<rparr>))))"

definition getSettles :: "nat \<Rightarrow> HttpPage \<Rightarrow> HttpPage" where
  "getSettles request hp = (case map_of (openGets hp) request of
     None \<Rightarrow> hp
   | Some key \<Rightarrow>
       (let hp1 = hp\<lparr>openGets := filter (\<lambda>(r, _). r \<noteq> request) (openGets hp)\<rparr> in
        case key of Some k \<Rightarrow> hp1\<lparr>inFlightGet := (inFlightGet hp1)(k := None)\<rparr> | None \<Rightarrow> hp1))"

section \<open>The interceptors\<close>

definition redirectToSignIn :: "HttpPage \<Rightarrow> HttpPage" where
  "redirectToSignIn hp =
     (if pathname hp \<noteq> js ''/sign-in'' then hp\<lparr>navigations := navigations hp @ [js ''/sign-in'']\<rparr> else hp)"

definition bearer :: "AuthPage \<Rightarrow> ApiRequestConfig \<Rightarrow> ApiRequestConfig" where
  "bearer p config = (if truthyToken (store p)
     then config\<lparr>req_headers := AList.update (js ''Authorization'') (js ''Bearer '' @ the (accessToken (store p))) (req_headers config)\<rparr>
     else config)"

definition requestInterceptor :: "ApiRequestConfig \<Rightarrow> HttpPage \<Rightarrow> ApiRequestConfig" where
  "requestInterceptor config hp = bearer (auth hp) config"

fun truthy :: "jsval \<Rightarrow> bool" where
  "truthy JUndef = False"
| "truthy JNull = False"
| "truthy (JBool b) = b"
| "truthy (JNum n) = (case n of Num q \<Rightarrow> q \<noteq> 0 | NaN \<Rightarrow> False | Infinite \<Rightarrow> True)"
| "truthy (JStr s) = (s \<noteq> [])"
| "truthy (JArr _) = True"
| "truthy (JObj _) = True"

definition requestFailed :: Toast where
  "requestFailed = Translated (OwnText (js ''Request failed''))"

definition sessionExpired :: Toast where
  "sessionExpired = Translated (OwnText (js ''Session expired!''))"

definition onFulfilled :: "ApiRequestConfig \<Rightarrow> jsval \<Rightarrow> HttpPage \<Rightarrow> AuthRotationError option \<times> HttpPage" where
  "onFulfilled config d hp =
     (let rotated =
        (if acceptAuthRotation config \<and> get_prop d (js ''success'') = JBool True
         then (case applyAuthRotation (get_prop d (js ''data'')) (auth hp) of
             Inl e \<Rightarrow> Inl e | Inr p \<Rightarrow> Inr (hp\<lparr>auth := p\<rparr>))
         else Inr hp) in
      case rotated of
        Inl e \<Rightarrow> (Some e, hp)
      | Inr hp1 \<Rightarrow>
          (if \<not> skipBusinessError config \<and> get_prop d (js ''success'') = JBool False
           then (None, toastError (case getServerErrorMessageKey d of
               Some k \<Rightarrow> Translated k
             | None \<Rightarrow> if truthy (get_prop d (js ''message'')) then Shown (get_prop d (js ''message'')) else requestFailed) hp1)
           else (None, hp1)))"

definition errorStatus :: "jsval \<Rightarrow> jsval" where
  "errorStatus e = get_prop (get_prop e (js ''response'')) (js ''status'')"

definition errorToast :: "jsval \<Rightarrow> Toast" where
  "errorToast e = (case getServerErrorMessageKey e of
     Some k \<Rightarrow> Translated k
   | None \<Rightarrow>
       (let inner = get_prop (get_prop (get_prop e (js ''response'')) (js ''data'')) (js ''message''); outer = get_prop e (js ''message'') in
        if truthy inner then Shown inner else if truthy outer then Shown outer else requestFailed))"

datatype RejectStep = AwaitRefresh ApiRequestConfig | Resend ApiRequestConfig | Rethrow

text \<open>The handler of a rejection up to its \<open>await\<close>, and from there on.  The configuration is absent when the error
  carries none.\<close>

definition onRejected :: "ApiRequestConfig option \<Rightarrow> jsval \<Rightarrow> HttpPage \<Rightarrow> RejectStep \<times> HttpPage" where
  "onRejected config e hp =
     (let skip = (case config of Some c \<Rightarrow> skipErrorHandler c | None \<Rightarrow> False) in
      if errorStatus e = JNum (Num 401) then
        (case config of
           None \<Rightarrow> (Rethrow, toastUnless skip sessionExpired hp)
         | Some c \<Rightarrow>
             (if \<not> skipAuthRefresh c \<and> \<not> authRetry c then (AwaitRefresh (c\<lparr>authRetry := True\<rparr>), hp)
              else if authRetry c then
                (Rethrow, redirectToSignIn (toastUnless skip sessionExpired
                   (hp\<lparr>auth := clearAuthentication False BComplete (auth hp)\<rparr>)))
              else (Rethrow, toastUnless skip sessionExpired hp)))
      else (Rethrow, toastUnless skip (errorToast e) hp))"

definition afterRefresh :: "ApiRequestConfig \<Rightarrow> RefreshOutcome \<Rightarrow> HttpPage \<Rightarrow> RejectStep \<times> HttpPage" where
  "afterRefresh config outcome hp = (case outcome of
     Authenticated _ \<Rightarrow> (Resend (bearer (auth hp) config), hp)
   | Anonymous \<Rightarrow> (Rethrow, redirectToSignIn (toastUnless (skipErrorHandler config) sessionExpired hp))
   | OutOfSync _ \<Rightarrow> (Rethrow, redirectToSignIn (toastUnless (skipErrorHandler config) sessionExpired hp))
   | TransientError _ \<Rightarrow> (Rethrow, hp))"

section \<open>A call of the client\<close>

text \<open>What an awaited refresh meets: when the call starts it, the lock and the server; when one is under way
  already, its result and the page when it settles.\<close>

record RefreshEnv =
  env_lock :: LockResult
  env_exchanges :: "AuthPage Exchange list"
  env_joined :: "(jsval + RefreshOutcome) \<times> (AuthPage \<Rightarrow> AuthPage)"

definition awaitRefresh :: "RefreshEnv \<Rightarrow> AuthPage \<Rightarrow> ((jsval + RefreshOutcome) \<times> AuthPage) option" where
  "awaitRefresh env p = (case refreshAuthentication p of
     (Resolved outcome, p1) \<Rightarrow> Some (Inr outcome, p1)
   | (Joined _, p1) \<Rightarrow> Some (fst (env_joined env), snd (env_joined env) p1)
   | (Started e, p1) \<Rightarrow>
       map_option (\<lambda>(r, p2). (r, refreshSettled p2)) (performRefreshWithBrowserLock e (env_lock env) (env_exchanges env) p1))"

datatype WireResult = Answered jsval | Failed bool jsval

record Turn =
  whileWaiting :: "AuthPage \<Rightarrow> AuthPage"
  wire :: WireResult
  refreshEnv :: RefreshEnv

datatype ApiResult = Response jsval | RotationFailed AuthRotationError | RefreshRejected jsval | Thrown jsval

fun apiRequest :: "ApiRequestConfig \<Rightarrow> Turn list \<Rightarrow> HttpPage \<Rightarrow> (ApiResult \<times> HttpPage \<times> ApiRequestConfig list) option" where
  "apiRequest config [] hp = None"
| "apiRequest config (t # ts) hp =
     (let sent = requestInterceptor config hp; hp1 = hp\<lparr>auth := whileWaiting t (auth hp)\<rparr> in
      case wire t of
        Answered d \<Rightarrow>
          (case onFulfilled sent d hp1 of
             (None, hp2) \<Rightarrow> Some (Response d, hp2, [sent]) | (Some e, hp2) \<Rightarrow> Some (RotationFailed e, hp2, [sent]))
      | Failed hasConfig e \<Rightarrow>
          (case onRejected (if hasConfig then Some sent else None) e hp1 of
             (AwaitRefresh config', hp2) \<Rightarrow>
               (case awaitRefresh (refreshEnv t) (auth hp2) of
                  None \<Rightarrow> None
                | Some (Inl e', p) \<Rightarrow> Some (RefreshRejected e', hp2\<lparr>auth := p\<rparr>, [sent])
                | Some (Inr outcome, p) \<Rightarrow>
                    (case afterRefresh config' outcome (hp2\<lparr>auth := p\<rparr>) of
                       (Resend config'', hp3) \<Rightarrow>
                         map_option (\<lambda>(r, hp4, sents). (r, hp4, sent # sents)) (apiRequest config'' ts hp3)
                     | (_, hp3) \<Rightarrow> Some (Thrown e, hp3, [sent])))
           | (_, hp2) \<Rightarrow> Some (Thrown e, hp2, [sent])))"

end
