(* ===== verification/HttpProofs.thy ===== *)
theory HttpProofs
  imports HttpClient AuthProofs
begin

text \<open>
  Theorems about the HTTP client and the login session together: a call sends at most two requests and always
  comes to an end, the second request carries the token that the refresh brought, a second refusal signs the
  page out, and reads with the same key share one request.
\<close>

section \<open>What a successful refresh leaves in the store\<close>

definition bundleStored :: "AuthBundle \<Rightarrow> AuthPage \<Rightarrow> bool" where
  "bundleStored b p \<longleftrightarrow> access_token b \<noteq> [] \<and> accessToken (store p) = Some (access_token b) \<and>
     session (store p) = Some (bundle_session b)"

lemma parsed_token: "pageParseBundle v = Some b \<Longrightarrow> access_token b \<noteq> []"
  by (auto simp: pageParseBundle_def isAuthBundle_def hasValidTokenFields_def asAuthBundle_def split: if_splits)

lemma afterResponse_bundle:
  assumes "afterResponse (refreshRuntime e) n a r p = (Finished (Authenticated b), p')"
  shows "bundleStored b p'"
proof -
  have "responseBundle (refreshRuntime e) (response_data r) = Some b \<and> p' = applyAuthBundle b False p"
    using assms
    by (auto simp: afterResponse_def Let_def refreshRuntime_def split: if_splits option.splits)
  then show ?thesis
    by (auto simp: bundleStored_def setBundle_def responseBundle_def refreshRuntime_def split: if_splits dest: parsed_token)
qed

lemma run_bundle:
  "run (refreshRuntime e) n a xs p = Some (Authenticated b, p', sids) \<Longrightarrow> bundleStored b p'"
proof (induction xs arbitrary: n a p sids)
  case Nil
  then show ?case by (simp add: run.simps split: if_splits)
next
  case (Cons x xs)
  then show ?case
    by (fastforce simp: run.simps [of _ n a "x # xs" p] Let_def
        split: if_splits prod.splits RunStep.splits dest: afterResponse_bundle)
qed

lemma settled_bundle [simp]: "bundleStored b (refreshSettled p) = bundleStored b p"
  by (simp add: bundleStored_def refreshSettled_def)

lemma awaited_bundle:
  assumes "awaitRefresh env p = Some (Inr (Authenticated b), p')" "refreshPromise p = None"
  shows "bundleStored b p'"
  using assms
  by (auto simp: awaitRefresh_def refreshAuthentication_def performRefreshWithBrowserLock_def runRefresh_def
      createRefreshRunner_def split: if_splits LockResult.splits dest: run_bundle)

lemma awaitRefresh_total:
  assumes "8 \<le> length (env_exchanges env)"
  shows "awaitRefresh env p \<noteq> None"
proof -
  have "performRefreshWithBrowserLock e lock (env_exchanges env) q \<noteq> None" for e lock q
  proof -
    have "runRefresh e (env_exchanges env) q' \<noteq> None" for q'
      using run_total [of 0 True "env_exchanges env" "refreshRuntime e" q'] assms
      by (auto simp: runRefresh_def createRefreshRunner_def stepsLeft_def)
    then show ?thesis by (cases lock) (simp_all add: performRefreshWithBrowserLock_def del: not_None_eq)
  qed
  then show ?thesis by (auto simp: awaitRefresh_def split: prod.splits RefreshCall.splits)
qed

section \<open>One request of a call\<close>

definition unauthorized :: "jsval \<Rightarrow> bool" where
  "unauthorized e \<longleftrightarrow> errorStatus e = JNum (Num 401)"

definition refreshes :: "ApiRequestConfig \<Rightarrow> Turn \<Rightarrow> bool" where
  "refreshes c t = (case wire t of
     Failed hasConfig e \<Rightarrow> hasConfig \<and> unauthorized e \<and> \<not> skipAuthRefresh c \<and> \<not> authRetry c
   | Answered _ \<Rightarrow> False)"

lemma bearer_flags [simp]:
  "authRetry (bearer p c) = authRetry c" "skipAuthRefresh (bearer p c) = skipAuthRefresh c"
  "skipErrorHandler (bearer p c) = skipErrorHandler c" "requestInterceptor c hp = bearer (auth hp) c"
  by (simp_all add: bearer_def requestInterceptor_def)

lemma bearer_header:
  "bundleStored b p \<Longrightarrow> map_of (req_headers (bearer p c)) (js ''Authorization'') = Some (js ''Bearer '' @ access_token b)"
  by (simp add: bundleStored_def bearer_def truthyToken_def update_conv')

lemma onRejected_awaits:
  "onRejected (Some c) e hp = (AwaitRefresh c', hp') \<longleftrightarrow>
     unauthorized e \<and> \<not> skipAuthRefresh c \<and> \<not> authRetry c \<and> c' = c\<lparr>authRetry := True\<rparr> \<and> hp' = hp"
  "onRejected None e hp \<noteq> (AwaitRefresh c', hp')" "onRejected oc e hp \<noteq> (Resend c', hp')"
  by (auto simp: onRejected_def unauthorized_def Let_def split: option.splits)

text \<open>A request that does not lead to a refresh is the last one of its call.\<close>

lemma call_ends:
  assumes "\<not> refreshes c t"
  shows "\<exists>r hp'. apiRequest c (t # ts) hp = Some (r, hp', [requestInterceptor c hp])"
proof (cases "wire t")
  case (Answered d)
  then show ?thesis by (auto simp: Let_def split: prod.splits option.splits)
next
  case (Failed hasConfig e)
  obtain st hp2 where st: "onRejected (if hasConfig then Some (bearer (auth hp) c) else None) e
      (hp\<lparr>auth := whileWaiting t (auth hp)\<rparr>) = (st, hp2)" by fastforce
  have "st = Rethrow"
    using assms Failed st onRejected_awaits(1) [of "bearer (auth hp) c" e] onRejected_awaits(2) [of e] onRejected_awaits(3)
    by (cases st; cases hasConfig) (auto simp: refreshes_def)
  then show ?thesis using st Failed by (simp add: Let_def)
qed

text \<open>One that does awaits it and ends with an error, or is sent again.\<close>

lemma call_awaits:
  assumes "refreshes c t" "awaitRefresh (refreshEnv t) (whileWaiting t (auth hp)) = Some (r, p)"
  shows "r = Inr (Authenticated b) \<Longrightarrow> apiRequest c (t # ts) hp =
      map_option (\<lambda>(res, hp', sents). (res, hp', requestInterceptor c hp # sents))
        (apiRequest (bearer p ((requestInterceptor c hp)\<lparr>authRetry := True\<rparr>)) ts (hp\<lparr>auth := p\<rparr>))"
    and "\<nexists>b. r = Inr (Authenticated b) \<Longrightarrow> \<exists>res hp'. apiRequest c (t # ts) hp = Some (res, hp', [requestInterceptor c hp])"
proof -
  from assms(1) obtain e where e: "wire t = Failed True e" "unauthorized e" "\<not> skipAuthRefresh c" "\<not> authRetry c"
    by (auto simp: refreshes_def split: WireResult.splits)
  then have "onRejected (Some (bearer (auth hp) c)) e (hp\<lparr>auth := whileWaiting t (auth hp)\<rparr>) =
      (AwaitRefresh ((bearer (auth hp) c)\<lparr>authRetry := True\<rparr>), hp\<lparr>auth := whileWaiting t (auth hp)\<rparr>)"
    by (simp add: onRejected_awaits)
  note turn = this e(1) assms(2)
  show "r = Inr (Authenticated b) \<Longrightarrow> apiRequest c (t # ts) hp =
      map_option (\<lambda>(res, hp', sents). (res, hp', requestInterceptor c hp # sents))
        (apiRequest (bearer p ((requestInterceptor c hp)\<lparr>authRetry := True\<rparr>)) ts (hp\<lparr>auth := p\<rparr>))"
    using turn by (simp add: Let_def afterRefresh_def)
  show "\<nexists>b. r = Inr (Authenticated b) \<Longrightarrow> \<exists>res hp'. apiRequest c (t # ts) hp = Some (res, hp', [requestInterceptor c hp])"
    using turn by (cases r) (auto simp: Let_def afterRefresh_def split: RefreshOutcome.splits)
qed

section \<open>A whole call\<close>

lemma retry_is_last: "\<not> refreshes (bearer p (c\<lparr>authRetry := True\<rparr>)) t"
  by (simp add: refreshes_def split: WireResult.splits)

text \<open>C10. A call always comes to an end, after one request or two; it sends a second one exactly when the first was
  refused with status 401, the call may refresh the login, and the refresh succeeds.\<close>

theorem api_call_bounded:
  assumes "8 \<le> length (env_exchanges (refreshEnv t1))"
  shows "\<exists>r hp' sent. apiRequest c (t1 # t2 # ts) hp = Some (r, hp', sent) \<and> length sent \<in> {1, 2} \<and>
    (length sent = 2 \<longleftrightarrow> refreshes c t1 \<and>
      (\<exists>b p. awaitRefresh (refreshEnv t1) (whileWaiting t1 (auth hp)) = Some (Inr (Authenticated b), p)))"
proof (cases "refreshes c t1")
  case False
  then show ?thesis using call_ends [of c t1 "t2 # ts" hp] by auto
next
  case True
  obtain r p where r: "awaitRefresh (refreshEnv t1) (whileWaiting t1 (auth hp)) = Some (r, p)"
    using awaitRefresh_total [OF assms] by fastforce
  show ?thesis
  proof (cases "\<exists>b. r = Inr (Authenticated b)")
    case ok: True
    then show ?thesis
      using True r call_awaits(1) [OF True r, of _ "t2 # ts"]
        call_ends [OF retry_is_last [of p "requestInterceptor c hp" t2], of ts "hp\<lparr>auth := p\<rparr>"]
      by (fastforce simp del: apiRequest.simps)
  next
    case failed: False
    then show ?thesis using r call_awaits(2) [OF True r failed, of "t2 # ts"] by auto
  qed
qed

definition plainConfig :: ApiRequestConfig where
  "plainConfig = \<lparr>skipBusinessError = False, skipErrorHandler = False, disableDuplicate = False, skipAuthRefresh = False,
     authRetry = False, acceptAuthRotation = False, req_headers = []\<rparr>"

definition refusal :: jsval where
  "refusal = JObj [(js ''response'', JObj [(js ''status'', JNum (Num 401))])]"

definition grantingTurn :: Turn where
  "grantingTurn = \<lparr>whileWaiting = \<lambda>p. p, wire = Failed True refusal, refreshEnv = \<lparr>env_lock = NoLocks,
     env_exchanges = replicate 8 \<lparr>beforeResponse = \<lambda>p. p, response = requestRefresh sampleGrant, duringDelay = \<lambda>p. p\<rparr>,
     env_joined = (Inr Anonymous, \<lambda>p. p)\<rparr>\<rparr>"

definition initialHttpPage :: "AuthPage \<Rightarrow> jsstring \<Rightarrow> HttpPage" where
  "initialHttpPage p path = \<lparr>auth = p, inFlightGet = Map.empty, openGets = [], sentGets = 0, pathname = path,
     navigations = [], toasts = []\<rparr>"

definition sampleHttpPage :: HttpPage where
  "sampleHttpPage = initialHttpPage samplePage (js ''/console'')"

theorem api_call_bounded_witness:
  "\<exists>r hp' sent. apiRequest plainConfig [grantingTurn, grantingTurn] sampleHttpPage = Some (r, hp', sent) \<and> length sent \<in> {1, 2}"
proof -
  have "8 \<le> length (env_exchanges (refreshEnv grantingTurn))" by (simp add: grantingTurn_def)
  from api_call_bounded [OF this, of plainConfig grantingTurn "[]" sampleHttpPage] show ?thesis by blast
qed

text \<open>C11. The request that is sent again carries the token of the refresh that the call has started, and a second
  refusal drops the login in this tab only and leads to the sign-in page.\<close>

theorem retried_call:
  assumes "refreshes c t1" "refreshPromise (whileWaiting t1 (auth hp)) = None"
    and "awaitRefresh (refreshEnv t1) (whileWaiting t1 (auth hp)) = Some (Inr (Authenticated b), p)"
    and "wire t2 = Failed True e" "unauthorized e" "pathname hp \<noteq> js ''/sign-in''"
  shows "\<exists>hp' sent1 sent2. apiRequest c (t1 # t2 # ts) hp = Some (Thrown e, hp', [sent1, sent2]) \<and>
    map_of (req_headers sent2) (js ''Authorization'') = Some (js ''Bearer '' @ access_token b) \<and>
    store (auth hp') = reset BComplete (store (whileWaiting t2 p)) \<and>
    authEpoch (auth hp') = authEpoch (whileWaiting t2 p) + 1 \<and>
    published (auth hp') = published (whileWaiting t2 p) \<and> navigations hp' = navigations hp @ [js ''/sign-in'']"
proof -
  let ?c = "bearer p ((requestInterceptor c hp)\<lparr>authRetry := True\<rparr>)" and ?hp = "hp\<lparr>auth := p\<rparr>"
  have stored: "bundleStored b p" by (rule awaited_bundle [OF assms(3,2)])
  have published: "published (clearAuthentication False BComplete q) = published q" for q
    by (simp add: clearAuthentication_def Let_def split: option.splits)
  have "apiRequest ?c (t2 # ts) ?hp = Some (Thrown e, redirectToSignIn (toastUnless (skipErrorHandler c) sessionExpired
      (?hp\<lparr>auth := clearAuthentication False BComplete (whileWaiting t2 p)\<rparr>)), [requestInterceptor ?c ?hp])"
    using assms(4,5) by (simp add: Let_def onRejected_def unauthorized_def)
  then show ?thesis
    using call_awaits(1) [OF assms(1,3) refl, of "t2 # ts"] bearer_header [OF stored] assms(6) published
    by (simp add: redirectToSignIn_def toastUnless_def toastError_def del: apiRequest.simps)
qed

lemma grantingTurn_refreshes: "refreshes plainConfig grantingTurn"
  by (simp add: refreshes_def grantingTurn_def plainConfig_def unauthorized_def errorStatus_def refusal_def js.simps)

lemma samplePage_fields: "authEpoch samplePage = 1" "refreshPromise samplePage = None" "refreshRateLimitedUntil samplePage = 0"
  "clock samplePage = 5000"
  by (simp_all add: samplePage_def applyAuthBundle_def publishAuthSessionEvent_def initialAuthPage_def Let_def)

lemma sample_grant_accepted:
  assumes "authEpoch p = 1"
  shows "run (refreshRuntime 1) 0 True (\<lparr>beforeResponse = \<lambda>p. p, response = requestRefresh sampleGrant, duringDelay = \<lambda>p. p\<rparr> # xs) p =
    Some (Authenticated (asAuthBundle sampleBundle), applyAuthBundle (asAuthBundle sampleBundle) False p, [currentSID p])"
proof -
  have "pageParseBundle sampleBundle = Some (asAuthBundle sampleBundle)"
    by (simp add: pageParseBundle_def sampleBundle_def isAuthBundle_def hasValidTokenFields_def isAuthUser_def isLoginSession_def
        finite_pos_def js.simps)
  then have "responseBundle (refreshRuntime 1) (response_data (requestRefresh sampleGrant)) = Some (asAuthBundle sampleBundle)"
    by (simp add: responseBundle_def requestRefresh_def sampleGrant_def refreshRuntime_def js.simps)
  then have "afterResponse (refreshRuntime 1) 0 True (requestRefresh sampleGrant) p =
      (Finished (Authenticated (asAuthBundle sampleBundle)), applyAuthBundle (asAuthBundle sampleBundle) False p)"
    using assms by (simp add: afterResponse_def isStale_def Let_def) (simp add: refreshRuntime_def)
  then show ?thesis using assms by (simp add: page_runtime.run_Cons del: One_nat_def)
qed

theorem retried_call_witness:
  "\<exists>hp' sent1 sent2. apiRequest plainConfig [grantingTurn, grantingTurn] sampleHttpPage = Some (Thrown refusal, hp', [sent1, sent2]) \<and>
     map_of (req_headers sent2) (js ''Authorization'') = Some (js ''Bearer '' @ access_token (asAuthBundle sampleBundle)) \<and>
     navigations hp' = [js ''/sign-in'']"
proof -
  have page: "auth sampleHttpPage = samplePage" "navigations sampleHttpPage = []" "pathname sampleHttpPage \<noteq> js ''/sign-in''"
    by (simp_all add: sampleHttpPage_def initialHttpPage_def js.simps)
  have turn: "whileWaiting grantingTurn = (\<lambda>p. p)" "wire grantingTurn = Failed True refusal" "env_lock (refreshEnv grantingTurn) = NoLocks"
    "env_exchanges (refreshEnv grantingTurn) = \<lparr>beforeResponse = \<lambda>p. p, response = requestRefresh sampleGrant, duringDelay = \<lambda>p. p\<rparr> #
      replicate 7 \<lparr>beforeResponse = \<lambda>p. p, response = requestRefresh sampleGrant, duringDelay = \<lambda>p. p\<rparr>"
    by (simp_all add: grantingTurn_def eval_nat_numeral)
  have "\<exists>p. awaitRefresh (refreshEnv grantingTurn) samplePage = Some (Inr (Authenticated (asAuthBundle sampleBundle)), p)"
    by (simp add: awaitRefresh_def refreshAuthentication_def samplePage_fields performRefreshWithBrowserLock_def turn runRefresh_def
        createRefreshRunner_def sample_grant_accepted del: One_nat_def)
  then obtain p where "awaitRefresh (refreshEnv grantingTurn) samplePage = Some (Inr (Authenticated (asAuthBundle sampleBundle)), p)" ..
  moreover have "unauthorized refusal" by (simp add: unauthorized_def errorStatus_def refusal_def js.simps)
  ultimately show ?thesis
    using retried_call [OF grantingTurn_refreshes, of sampleHttpPage "asAuthBundle sampleBundle" p grantingTurn refusal "[]"]
      page turn(1,2) samplePage_fields(2) by auto
qed

section \<open>Shared reads\<close>

text \<open>The calls and the settling of reads, interleaved with whatever else the page does.\<close>

inductive httpReachable :: "HttpPage \<Rightarrow> bool" where
  start: "httpReachable (initialHttpPage p path)"
| get: "httpReachable hp \<Longrightarrow> httpReachable (snd (apiGet url params c hp))"
| settle: "httpReachable hp \<Longrightarrow> httpReachable (getSettles i hp)"
| other: "httpReachable hp \<Longrightarrow> httpReachable (hp\<lparr>auth := p, pathname := path, navigations := ns, toasts := ts\<rparr>)"

definition getsOk :: "HttpPage \<Rightarrow> bool" where
  "getsOk hp \<longleftrightarrow> distinct (map fst (openGets hp)) \<and> (\<forall>(i, _) \<in> set (openGets hp). i < sentGets hp) \<and>
     (\<forall>k i. inFlightGet hp k = Some i \<longleftrightarrow> (i, Some k) \<in> set (openGets hp))"

lemma getsOkD:
  assumes "getsOk hp"
  shows "distinct (map fst (openGets hp))" "(i, ok) \<in> set (openGets hp) \<Longrightarrow> i < sentGets hp"
    "(i, Some k) \<in> set (openGets hp) \<longleftrightarrow> inFlightGet hp k = Some i"
  using assms by (auto simp: getsOk_def)

lemma getsOk_send:
  assumes "getsOk hp"
  shows "getsOk (hp\<lparr>openGets := openGets hp @ [(sentGets hp, None)], sentGets := sentGets hp + 1\<rparr>)"
    and "inFlightGet hp k = None \<Longrightarrow> getsOk (hp\<lparr>openGets := openGets hp @ [(sentGets hp, Some k)], sentGets := sentGets hp + 1,
      inFlightGet := (inFlightGet hp)(k \<mapsto> sentGets hp)\<rparr>)"
proof -
  note ok = getsOkD [OF assms]
  have new: "sentGets hp \<notin> fst ` set (openGets hp)" using ok(2) by fastforce
  have less: "\<forall>x \<in> set (openGets hp). fst x < Suc (sentGets hp)" using ok(2) by (metis less_SucI prod.collapse)
  show "getsOk (hp\<lparr>openGets := openGets hp @ [(sentGets hp, None)], sentGets := sentGets hp + 1\<rparr>)"
    using new less ok(1,3) by (auto simp: getsOk_def)
  have old: "inFlightGet hp k' \<noteq> Some (sentGets hp)" for k' using new ok(3) by force
  show "getsOk (hp\<lparr>openGets := openGets hp @ [(sentGets hp, Some k)], sentGets := sentGets hp + 1,
      inFlightGet := (inFlightGet hp)(k \<mapsto> sentGets hp)\<rparr>)" if "inFlightGet hp k = None"
    using new less ok(1,3) that old by (auto simp: getsOk_def)
qed

lemma getsOk_get: "getsOk hp \<Longrightarrow> getsOk (snd (apiGet url params c hp))"
  using getsOk_send by (simp add: apiGet_def originalGet_def Let_def split: option.splits)

lemma getsOk_settle:
  assumes "getsOk hp"
  shows "getsOk (getSettles i hp)"
proof (cases "map_of (openGets hp) i")
  case (Some key)
  note ok = getsOkD [OF assms]
  have dist: "distinct (map fst (filter (\<lambda>(r, _). r \<noteq> i) (openGets hp)))" using ok(1) by (rule distinct_map_filter)
  have uniq: "(i, k) \<in> set (openGets hp) \<longleftrightarrow> k = key" for k
    using map_of_eq_Some_iff [OF ok(1), of i k] Some by auto
  have free: "inFlightGet hp k = Some i \<longleftrightarrow> Some k = key" for k using uniq [of "Some k"] ok(3) by simp
  show ?thesis
  proof (cases key)
    case None
    then show ?thesis using Some ok(2,3) dist free by (auto simp: getsOk_def getSettles_def Let_def)
  next
    case (Some k)
    then have "inFlightGet hp k = Some i" using free by simp
    then have "inFlightGet hp k = Some j \<longleftrightarrow> j = i" for j by auto
    then show ?thesis
      using \<open>map_of (openGets hp) i = Some key\<close> Some ok(2,3) dist free by (auto simp: getsOk_def getSettles_def Let_def)
  qed
qed (simp add: getSettles_def assms)

lemma reachable_getsOk: "httpReachable hp \<Longrightarrow> getsOk hp"
proof (induction rule: httpReachable.induct)
  case (start p path)
  then show ?case by (simp add: getsOk_def initialHttpPage_def)
next
  case (other hp p path ns ts)
  then show ?case by (simp add: getsOk_def)
qed (simp_all add: getsOk_get getsOk_settle)

text \<open>C32. While a read is unsettled, reads of the same address and parameters in the same login session share its
  request: after a read exactly one request of its key is open, the one that is returned, and a new one is sent
  exactly when none was open.\<close>

theorem get_single_flight:
  assumes "httpReachable hp" "\<not> disableDuplicate c" "apiGet url params c hp = (i, hp')"
  shows "filter (\<lambda>(_, k). k = Some (getKey url params hp)) (openGets hp') = [(i, Some (getKey url params hp))] \<and>
    (sentGets hp' = sentGets hp + 1 \<longleftrightarrow> Some (getKey url params hp) \<notin> snd ` set (openGets hp)) \<and>
    (Some (getKey url params hp) \<in> snd ` set (openGets hp) \<longrightarrow> hp' = hp)"
proof -
  let ?k = "getKey url params hp"
  have ok: "getsOk hp" by (rule reachable_getsOk [OF assms(1)])
  have one: "xs = [x]" if "distinct xs" "set xs = {x}" for xs and x :: "nat \<times> jsstring option"
    using that by (cases xs; cases "tl xs") auto
  have single: "filter (\<lambda>(_, k). k = Some ?k) xs = [(j, Some ?k)]"
    if "distinct (map fst xs)" "\<forall>m. (m, Some ?k) \<in> set xs \<longleftrightarrow> m = j" for j and xs :: "(nat \<times> jsstring option) list"
  proof -
    have "distinct (filter (\<lambda>(_, k). k = Some ?k) xs)" using that(1) by (simp add: distinct_map)
    moreover have "set (filter (\<lambda>(_, k). k = Some ?k) xs) = {(j, Some ?k)}" using that(2) by auto
    ultimately show ?thesis by (rule one)
  qed
  have "getsOk hp'" using getsOk_get [OF ok, of url params c] assms(3) by simp
  moreover have "inFlightGet hp' ?k = Some i"
    using assms(2,3) by (auto simp: apiGet_def originalGet_def Let_def split: option.splits)
  ultimately have "filter (\<lambda>(_, k). k = Some ?k) (openGets hp') = [(i, Some ?k)]"
    by (intro single) (auto simp: getsOkD)
  moreover have "Some ?k \<in> snd ` set (openGets hp) \<longleftrightarrow> inFlightGet hp ?k \<noteq> None"
  proof -
    have "Some ?k \<in> snd ` set (openGets hp) \<longleftrightarrow> (\<exists>j. (j, Some ?k) \<in> set (openGets hp))" by force
    then show ?thesis by (simp add: getsOkD(3) [OF ok])
  qed
  ultimately show ?thesis
    using assms(2,3) by (auto simp: apiGet_def originalGet_def Let_def split: option.splits)
qed

theorem get_single_flight_witness:
  "\<exists>i hp'. apiGet (js ''/api/user'') None plainConfig sampleHttpPage = (i, hp') \<and>
     filter (\<lambda>(_, k). k = Some (getKey (js ''/api/user'') None sampleHttpPage)) (openGets hp') =
       [(i, Some (getKey (js ''/api/user'') None sampleHttpPage))] \<and> sentGets hp' = sentGets sampleHttpPage + 1"
proof -
  obtain i hp' where get: "apiGet (js ''/api/user'') None plainConfig sampleHttpPage = (i, hp')" by fastforce
  have "httpReachable sampleHttpPage" unfolding sampleHttpPage_def by (rule httpReachable.start)
  moreover have "\<not> disableDuplicate plainConfig" "openGets sampleHttpPage = []"
    by (simp_all add: sampleHttpPage_def plainConfig_def initialHttpPage_def)
  ultimately show ?thesis using get_single_flight [OF _ _ get] get by auto
qed

end
