(* ===== verification/CivilTime.thy ===== *)
theory CivilTime
  imports JsPrelude
begin

text \<open>
  The calendar of the language's \<open>Date\<close>: days since 1 January 1970 and their year, month and day of the month, in
  the proleptic Gregorian calendar, and \<open>Date.UTC\<close> with the components of an instant in milliseconds.  Months count
  from 1 here.  The calendar is shown to be a bijection between day numbers and valid dates.
\<close>

section \<open>Years\<close>

definition leapYear :: "int \<Rightarrow> bool" where
  "leapYear y \<longleftrightarrow> y mod 4 = 0 \<and> (y mod 100 \<noteq> 0 \<or> y mod 400 = 0)"

definition dayFromYear :: "int \<Rightarrow> int" where
  "dayFromYear y = 365 * (y - 1970) + (y - 1969) div 4 - (y - 1901) div 100 + (y - 1601) div 400"

definition daysInYear :: "int \<Rightarrow> int" where
  "daysInYear y = (if leapYear y then 366 else 365)"

lemma div_step:
  fixes k n :: int
  assumes "0 < n"
  shows "(k + 1) div n = k div n + (if (k + 1) mod n = 0 then 1 else 0)"
proof (cases "k mod n + 1 = n")
  case True
  have eq: "k + 1 = n * (k div n + 1) + 0" using True mult_div_mod_eq [of n k] unfolding distrib_left by linarith
  have "(k + 1) div n = k div n + 1" "(k + 1) mod n = 0"
    using int_div_pos_eq [OF eq] int_mod_pos_eq [OF eq] assms by simp_all
  then show ?thesis by simp
next
  case False
  have eq: "k + 1 = n * (k div n) + (k mod n + 1)" using mult_div_mod_eq [of n k] by linarith
  have "0 \<le> k mod n + 1" "k mod n + 1 < n" "k mod n + 1 \<noteq> 0"
    using False assms pos_mod_bound [OF assms, of k] pos_mod_sign [OF assms, of k] by linarith+
  then show ?thesis using int_div_pos_eq [OF eq] int_mod_pos_eq [OF eq] by simp
qed

lemma mod_shift: "(k - m) mod n = 0 \<longleftrightarrow> k mod n = 0" if "m mod n = 0" for k m n :: int
  using that by (metis diff_zero mod_diff_right_eq)

lemma leap_dvd: "y mod 400 = 0 \<Longrightarrow> y mod 100 = 0" "y mod 100 = 0 \<Longrightarrow> y mod 4 = 0" for y :: int
  using dvd_trans [of 100 400 y] dvd_trans [of 4 100 y] by (simp_all add: mod_eq_0_iff_dvd)

lemma leap_count:
  fixes a b c y :: int
  assumes "R \<Longrightarrow> Q" "Q \<Longrightarrow> P"
  shows "365 * (y + 1 - 1970) + (a + (if P then 1 else 0)) - (b + (if Q then 1 else 0)) + (c + (if R then 1 else 0)) =
    365 * (y - 1970) + a - b + c + (if P \<and> (\<not> Q \<or> R) then 366 else 365)"
  using assms by auto

lemma dayFromYear_step: "dayFromYear (y + 1) = dayFromYear y + daysInYear y"
proof -
  have shift: "(y - 1968) mod 4 = 0 \<longleftrightarrow> y mod 4 = 0" "(y - 1900) mod 100 = 0 \<longleftrightarrow> y mod 100 = 0"
    "(y - 1600) mod 400 = 0 \<longleftrightarrow> y mod 400 = 0"
    by (rule mod_shift; simp)+
  have e: "y + 1 - 1969 = y - 1969 + 1" "y + 1 - 1901 = y - 1901 + 1" "y + 1 - 1601 = y - 1601 + 1"
    "y - 1969 + 1 = y - 1968" "y - 1901 + 1 = y - 1900" "y - 1601 + 1 = y - 1600" by simp_all
  define a b c where "a = (y - 1969) div 4" and "b = (y - 1901) div 100" and "c = (y - 1601) div 400"
  have steps: "(y + 1 - 1969) div 4 = a + (if y mod 4 = 0 then 1 else 0)"
    "(y + 1 - 1901) div 100 = b + (if y mod 100 = 0 then 1 else 0)"
    "(y + 1 - 1601) div 400 = c + (if y mod 400 = 0 then 1 else 0)"
    unfolding a_def b_def c_def e(1-3)
    using div_step [of 4 "y - 1969"] div_step [of 100 "y - 1901"] div_step [of 400 "y - 1601"]
    unfolding e(4-6) shift by (simp_all only: zero_less_numeral)
  show ?thesis
    unfolding dayFromYear_def daysInYear_def leapYear_def steps a_def [symmetric] b_def [symmetric] c_def [symmetric]
    by (rule leap_count [OF leap_dvd])
qed

lemma dayFromYear_less: "dayFromYear y < dayFromYear (y + 1)"
  by (simp add: dayFromYear_step daysInYear_def)

lemma dayFromYear_mono: "y < z \<Longrightarrow> dayFromYear (y + 1) \<le> dayFromYear z"
proof (induction z rule: int_gr_induct)
  case (step i)
  then show ?case using dayFromYear_less [of i] by simp
qed simp

function yearUp :: "int \<Rightarrow> int \<Rightarrow> int" where
  "yearUp d y = (if dayFromYear (y + 1) \<le> d then yearUp d (y + 1) else y)"
  by pat_completeness auto
termination
proof (relation "measure (\<lambda>(d, y). nat (d - dayFromYear y))")
  fix d y assume "dayFromYear (y + 1) \<le> d"
  then show "((d, y + 1), d, y) \<in> measure (\<lambda>(d, y). nat (d - dayFromYear y))"
    using dayFromYear_less [of y] by simp
qed simp

declare yearUp.simps [simp del]

text \<open>The year of a day: from an estimate that is never too late.\<close>

definition yearFromDay :: "int \<Rightarrow> int" where
  "yearFromDay d = yearUp d (1969 + (400 * d) div 146097)"

lemma estimate: "dayFromYear (1969 + (400 * d) div 146097) \<le> d"
proof -
  define q where "q = (400 * d) div 146097"
  have "146097 * q \<le> 400 * d" unfolding q_def by linarith
  moreover have "4 * (q div 4) \<le> q" "q + 68 - 99 \<le> 100 * ((q + 68) div 100)" "400 * ((q + 368) div 400) \<le> q + 368"
    by linarith+
  ultimately show ?thesis unfolding q_def [symmetric] dayFromYear_def by simp
qed

lemma yearUp_bounds: "dayFromYear y \<le> d \<Longrightarrow> dayFromYear (yearUp d y) \<le> d \<and> d < dayFromYear (yearUp d y + 1)"
proof (induction d y rule: yearUp.induct)
  case (1 d y)
  then show ?case by (cases "dayFromYear (y + 1) \<le> d") (simp_all add: yearUp.simps [of d y])
qed

lemma yearFromDay_bounds: "dayFromYear (yearFromDay d) \<le> d" "d < dayFromYear (yearFromDay d + 1)"
  using yearUp_bounds [OF estimate [of d]] by (simp_all add: yearFromDay_def)

lemma yearFromDay_eq: "dayFromYear y \<le> d \<Longrightarrow> d < dayFromYear (y + 1) \<Longrightarrow> yearFromDay d = y"
  using dayFromYear_mono [of y "yearFromDay d"] dayFromYear_mono [of "yearFromDay d" y] yearFromDay_bounds [of d]
  by linarith

section \<open>Months\<close>

text \<open>The days of the year before a month, and after December.\<close>

definition daysBeforeMonth :: "bool \<Rightarrow> int \<Rightarrow> int" where
  "daysBeforeMonth leap m =
     (if m \<le> 1 then 0 else if m = 2 then 31
      else [59, 90, 120, 151, 181, 212, 243, 273, 304, 334, 365] ! nat (min m 13 - 3) + (if leap then 1 else 0))"

definition daysInMonth :: "int \<Rightarrow> int \<Rightarrow> int" where
  "daysInMonth y m = daysBeforeMonth (leapYear y) (m + 1) - daysBeforeMonth (leapYear y) m"

definition monthFromDay :: "int \<Rightarrow> int" where
  "monthFromDay d = (let y = yearFromDay d; n = d - dayFromYear y in
     int (length (filter (\<lambda>m. daysBeforeMonth (leapYear y) m \<le> n) [1, 2, 3, 4, 5, 6, 7, 8, 9, 10, 11, 12])))"

definition dateFromDay :: "int \<Rightarrow> int" where
  "dateFromDay d = (let y = yearFromDay d in d - dayFromYear y - daysBeforeMonth (leapYear y) (monthFromDay d) + 1)"

text \<open>\<open>MakeDay\<close> of the language, where months and days beyond their range carry over.\<close>

definition makeDay :: "int \<Rightarrow> int \<Rightarrow> int \<Rightarrow> int" where
  "makeDay y m d = (let y' = y + (m - 1) div 12; m' = (m - 1) mod 12 + 1 in
     dayFromYear y' + daysBeforeMonth (leapYear y') m' + d - 1)"

definition validDate :: "int \<Rightarrow> int \<Rightarrow> int \<Rightarrow> bool" where
  "validDate y m d \<longleftrightarrow> 1 \<le> m \<and> m \<le> 12 \<and> 1 \<le> d \<and> d \<le> daysInMonth y m"

lemma month_cases: "1 \<le> m \<Longrightarrow> m \<le> 12 \<Longrightarrow> m \<in> {1, 2, 3, 4, 5, 6, 7, 8, 9, 10, 11, 12 :: int}"
  by (simp only: insert_iff empty_iff) presburger

lemma month_eval:
  "daysBeforeMonth l 1 = 0" "daysBeforeMonth l 2 = 31" "daysBeforeMonth l 3 = 59 + (if l then 1 else 0)"
  "daysBeforeMonth l 4 = 90 + (if l then 1 else 0)" "daysBeforeMonth l 5 = 120 + (if l then 1 else 0)"
  "daysBeforeMonth l 6 = 151 + (if l then 1 else 0)" "daysBeforeMonth l 7 = 181 + (if l then 1 else 0)"
  "daysBeforeMonth l 8 = 212 + (if l then 1 else 0)" "daysBeforeMonth l 9 = 243 + (if l then 1 else 0)"
  "daysBeforeMonth l 10 = 273 + (if l then 1 else 0)" "daysBeforeMonth l 11 = 304 + (if l then 1 else 0)"
  "daysBeforeMonth l 12 = 334 + (if l then 1 else 0)" "daysBeforeMonth l 13 = 365 + (if l then 1 else 0)"
  by (simp_all add: daysBeforeMonth_def numeral_eq_Suc)

lemma daysInMonth_bounds: "1 \<le> m \<Longrightarrow> m \<le> 12 \<Longrightarrow> 28 \<le> daysInMonth y m \<and> daysInMonth y m \<le> 31"
  by (drule (1) month_cases) (auto simp: daysInMonth_def month_eval)

lemma month_in_year:
  assumes "1 \<le> m" "m \<le> 12" "1 \<le> d" "d \<le> daysInMonth y m"
  shows "0 \<le> daysBeforeMonth (leapYear y) m + d - 1" "daysBeforeMonth (leapYear y) m + d - 1 < daysInYear y"
  using month_cases [OF assms(1,2)] assms(3,4) by (auto simp: daysInMonth_def daysInYear_def month_eval split: if_splits)

lemma month_count:
  assumes "1 \<le> m" "m \<le> 12" "daysBeforeMonth l m \<le> n" "n < daysBeforeMonth l (m + 1)"
  shows "length (filter (\<lambda>k. daysBeforeMonth l k \<le> n) [1, 2, 3, 4, 5, 6, 7, 8, 9, 10, 11, 12]) = nat m"
  using month_cases [OF assms(1,2)] assms(3,4)
  by (elim insertE) (cases l; simp add: month_eval)+

lemma makeDay_valid:
  assumes "validDate y m d"
  shows "makeDay y m d = dayFromYear y + daysBeforeMonth (leapYear y) m + d - 1"
    "dayFromYear y \<le> makeDay y m d" "makeDay y m d < dayFromYear (y + 1)"
proof -
  have m: "1 \<le> m" "m \<le> 12" using assms by (simp_all add: validDate_def)
  then have "(m - 1) div 12 = 0" "(m - 1) mod 12 = m - 1" by (simp_all add: div_pos_pos_trivial mod_pos_pos_trivial)
  then show *: "makeDay y m d = dayFromYear y + daysBeforeMonth (leapYear y) m + d - 1" by (simp add: makeDay_def)
  show "dayFromYear y \<le> makeDay y m d" "makeDay y m d < dayFromYear (y + 1)"
    using month_in_year [of m d y] assms unfolding * dayFromYear_step validDate_def by linarith+
qed

text \<open>A valid date is given back by the day it stands for.\<close>

lemma fields_of_makeDay:
  assumes "validDate y m d"
  shows "yearFromDay (makeDay y m d) = y" "monthFromDay (makeDay y m d) = m" "dateFromDay (makeDay y m d) = d"
proof -
  show year: "yearFromDay (makeDay y m d) = y" by (rule yearFromDay_eq [OF makeDay_valid(2,3) [OF assms]])
  have m: "1 \<le> m" "m \<le> 12" "1 \<le> d" "d \<le> daysInMonth y m" using assms by (simp_all add: validDate_def)
  have n: "makeDay y m d - dayFromYear y = daysBeforeMonth (leapYear y) m + d - 1" by (simp add: makeDay_valid(1) [OF assms])
  have "length (filter (\<lambda>k. daysBeforeMonth (leapYear y) k \<le> daysBeforeMonth (leapYear y) m + d - 1)
      [1, 2, 3, 4, 5, 6, 7, 8, 9, 10, 11, 12]) = nat m"
    using m by (intro month_count) (auto simp: daysInMonth_def)
  then show month: "monthFromDay (makeDay y m d) = m"
    unfolding monthFromDay_def Let_def year n using m(1) by simp
  show "dateFromDay (makeDay y m d) = d" unfolding dateFromDay_def Let_def month year using n by simp
qed

lemma interval_search:
  fixes f :: "int \<Rightarrow> int"
  shows "f 1 \<le> n \<Longrightarrow> n < f (1 + int j) \<Longrightarrow> \<exists>m. 1 \<le> m \<and> m \<le> int j \<and> f m \<le> n \<and> n < f (m + 1)"
proof (induction j)
  case (Suc j)
  show ?case
  proof (cases "n < f (1 + int j)")
    case True
    then obtain m where "1 \<le> m" "m \<le> int j" "f m \<le> n" "n < f (m + 1)" using Suc by blast
    then show ?thesis by (intro exI [of _ m]) simp
  next
    case False
    then show ?thesis using Suc.prems(2) by (intro exI [of _ "1 + int j"]) (simp add: algebra_simps)
  qed
qed simp

lemma month_search:
  assumes "0 \<le> n" "n < daysInYear y"
  shows "\<exists>m. 1 \<le> m \<and> m \<le> 12 \<and> daysBeforeMonth (leapYear y) m \<le> n \<and> n < daysBeforeMonth (leapYear y) (m + 1)"
  using interval_search [of "daysBeforeMonth (leapYear y)" n 12] assms
  by (simp add: month_eval daysInYear_def split: if_splits)

text \<open>Every day is that of a valid date, its own.\<close>

lemma makeDay_of_fields:
  shows "validDate (yearFromDay n) (monthFromDay n) (dateFromDay n)"
    and "makeDay (yearFromDay n) (monthFromDay n) (dateFromDay n) = n"
proof -
  let ?y = "yearFromDay n" let ?k = "n - dayFromYear ?y"
  have k: "0 \<le> ?k" "?k < daysInYear ?y" using yearFromDay_bounds [of n] dayFromYear_step [of ?y] by simp_all
  obtain m where m: "1 \<le> m" "m \<le> 12" "daysBeforeMonth (leapYear ?y) m \<le> ?k" "?k < daysBeforeMonth (leapYear ?y) (m + 1)"
    using month_search [OF k] by blast
  have month: "monthFromDay n = m"
    unfolding monthFromDay_def Let_def month_count [OF m] using m(1) by simp
  have date: "dateFromDay n = ?k - daysBeforeMonth (leapYear ?y) m + 1" by (simp add: dateFromDay_def month Let_def)
  show valid: "validDate ?y (monthFromDay n) (dateFromDay n)"
    using m unfolding validDate_def month date daysInMonth_def by linarith
  show "makeDay ?y (monthFromDay n) (dateFromDay n) = n"
    using makeDay_valid(1) [OF valid] unfolding month date by simp
qed

section \<open>Instants\<close>

definition msPerDay :: int where
  "msPerDay = 86400000"

record NumericDateTimeParts =
  day :: int
  hour :: int
  minute :: int
  month :: int
  second :: int
  year :: int

text \<open>The components that \<open>getUTCFullYear\<close> and its like give for an instant.\<close>

definition utcParts :: "int \<Rightarrow> NumericDateTimeParts" where
  "utcParts ms = (let n = ms div msPerDay; r = ms mod msPerDay in
     \<lparr>day = dateFromDay n, hour = r div 3600000, minute = r div 60000 mod 60, month = monthFromDay n,
      second = r div 1000 mod 60, year = yearFromDay n\<rparr>)"

text \<open>\<open>Date.UTC\<close>, where a year of at most two digits belongs to the last century.\<close>

definition dateUTC :: "int \<Rightarrow> int \<Rightarrow> int \<Rightarrow> int \<Rightarrow> int \<Rightarrow> int \<Rightarrow> int" where
  "dateUTC y m d h mi s = (let y' = (if 0 \<le> y \<and> y \<le> 99 then 1900 + y else y) in
     makeDay y' m d * msPerDay + h * 3600000 + mi * 60000 + s * 1000)"

definition validTime :: "int \<Rightarrow> int \<Rightarrow> int \<Rightarrow> bool" where
  "validTime h m s \<longleftrightarrow> 0 \<le> h \<and> h \<le> 23 \<and> 0 \<le> m \<and> m \<le> 59 \<and> 0 \<le> s \<and> s \<le> 59"

lemma utcParts_UTC:
  assumes "validDate y m d" "validTime h mi s" "100 \<le> y"
  shows "utcParts (dateUTC y m d h mi s) = \<lparr>day = d, hour = h, minute = mi, month = m, second = s, year = y\<rparr>"
proof -
  define r where "r = h * 3600000 + mi * 60000 + s * 1000"
  have r: "0 \<le> r" "r < msPerDay" using assms(2) by (auto simp: r_def validTime_def msPerDay_def)
  have utc: "dateUTC y m d h mi s = msPerDay * makeDay y m d + r" using assms(3) by (simp add: dateUTC_def r_def)
  have dm: "dateUTC y m d h mi s div msPerDay = makeDay y m d" "dateUTC y m d h mi s mod msPerDay = r"
    using int_div_pos_eq [OF utc r] int_mod_pos_eq [OF utc r] by simp_all
  have "r div 3600000 = h" "r div 60000 = h * 60 + mi" "r div 1000 = (h * 60 + mi) * 60 + s"
    unfolding r_def using assms(2) unfolding validTime_def
    by (intro int_div_pos_eq [where r = "mi * 60000 + s * 1000"] int_div_pos_eq [where r = "s * 1000"]
        int_div_pos_eq [where r = 0]; simp)+
  moreover have "(h * 60 + mi) mod 60 = mi" "((h * 60 + mi) * 60 + s) mod 60 = s"
    using assms(2) unfolding validTime_def by (simp_all add: mod_add_left_eq [symmetric])
  ultimately show ?thesis
    by (simp add: utcParts_def Let_def dm fields_of_makeDay [OF assms(1)])
qed

lemma utcParts_valid:
  "validDate (year (utcParts ms)) (month (utcParts ms)) (day (utcParts ms))"
  "validTime (hour (utcParts ms)) (minute (utcParts ms)) (second (utcParts ms))"
proof -
  have "0 \<le> ms mod msPerDay" "ms mod msPerDay < 86400000" by (simp_all add: msPerDay_def)
  moreover have "ms mod msPerDay div 3600000 \<le> 23" using calculation by linarith
  moreover have "x mod 60 \<le> 59" for x :: int using pos_mod_bound [of 60 x] by simp
  ultimately show "validTime (hour (utcParts ms)) (minute (utcParts ms)) (second (utcParts ms))"
    by (simp add: validTime_def utcParts_def Let_def pos_imp_zdiv_nonneg_iff)
  show "validDate (year (utcParts ms)) (month (utcParts ms)) (day (utcParts ms))"
    by (simp add: utcParts_def Let_def makeDay_of_fields)
qed

lemma clock_parts:
  fixes a b c x y :: int
  assumes "a = b * 60 + y" "b = c * 60 + x"
  shows "c * 3600000 + x * 60000 + y * 1000 = a * 1000"
  using assms by simp

lemma clock_sum:
  fixes r :: int
  shows "r div 3600000 * 3600000 + r div 60000 mod 60 * 60000 + r div 1000 mod 60 * 1000 = r div 1000 * 1000"
proof -
  have e: "r div 60000 = r div 1000 div 60" "r div 3600000 = r div 1000 div 60 div 60" by (simp_all add: zdiv_zmult2_eq [symmetric])
  have "q = q div 60 * 60 + q mod 60" for q :: int by simp
  then show ?thesis unfolding e by (intro clock_parts)
qed

lemma UTC_utcParts:
  assumes "\<not> (0 \<le> year (utcParts ms) \<and> year (utcParts ms) \<le> 99)"
  shows "dateUTC (year (utcParts ms)) (month (utcParts ms)) (day (utcParts ms)) (hour (utcParts ms)) (minute (utcParts ms))
    (second (utcParts ms)) = ms div 1000 * 1000"
proof -
  define n r where "n = ms div msPerDay" and "r = ms mod msPerDay"
  have parts: "utcParts ms = \<lparr>day = dateFromDay n, hour = r div 3600000, minute = r div 60000 mod 60, month = monthFromDay n,
      second = r div 1000 mod 60, year = yearFromDay n\<rparr>"
    by (simp add: utcParts_def Let_def n_def r_def)
  have "dateUTC (yearFromDay n) (monthFromDay n) (dateFromDay n) h mi s = n * msPerDay + (h * 3600000 + mi * 60000 + s * 1000)" for h mi s
    using assms unfolding dateUTC_def parts by (auto simp: Let_def makeDay_of_fields)
  then have "dateUTC (year (utcParts ms)) (month (utcParts ms)) (day (utcParts ms)) (hour (utcParts ms)) (minute (utcParts ms))
      (second (utcParts ms)) = n * msPerDay + r div 1000 * 1000"
    unfolding parts by (simp only: NumericDateTimeParts.simps clock_sum)
  moreover have "ms div 1000 = n * 86400 + r div 1000"
  proof -
    have "ms = r + (n * 86400) * 1000" by (simp add: n_def r_def msPerDay_def)
    then show ?thesis by simp
  qed
  ultimately show ?thesis by (simp add: msPerDay_def)
qed

lemma yearFromDay_mono: "a \<le> b \<Longrightarrow> yearFromDay a \<le> yearFromDay b"
  using dayFromYear_mono [of "yearFromDay b" "yearFromDay a"] yearFromDay_bounds [of a] yearFromDay_bounds [of b] by linarith

end
