(* ===== verification/JsNumber.thy ===== *)
theory JsNumber
  imports JsValue
begin

text \<open>
  \<open>Number\<close> of a string: blanks around it are dropped, the empty text is zero, and decimal literals with sign,
  fraction and exponent and the hexadecimal, octal and binary forms are read.  The value is exact; the rounding to a
  binary fraction is not modelled.
\<close>

definition digitOf :: "nat \<Rightarrow> nat option" where
  "digitOf c = (if 48 \<le> c \<and> c \<le> 57 then Some (c - 48) else if 97 \<le> c \<and> c \<le> 122 then Some (c - 87)
     else if 65 \<le> c \<and> c \<le> 90 then Some (c - 55) else None)"

definition radixDigits :: "nat \<Rightarrow> jsstring \<Rightarrow> bool" where
  "radixDigits b s \<longleftrightarrow> s \<noteq> [] \<and> list_all (\<lambda>c. case digitOf c of Some d \<Rightarrow> d < b | None \<Rightarrow> False) s"

definition radixValue :: "nat \<Rightarrow> jsstring \<Rightarrow> nat" where
  "radixValue b s = foldl (\<lambda>n c. b * n + (case digitOf c of Some d \<Rightarrow> d | None \<Rightarrow> 0)) 0 s"

definition radixPrefix :: "jsstring \<Rightarrow> nat option" where
  "radixPrefix s = (case s of
     z # x # _ \<Rightarrow>
       (if z \<noteq> 48 then None else if x = 120 \<or> x = 88 then Some 16 else if x = 111 \<or> x = 79 then Some 8
        else if x = 98 \<or> x = 66 then Some 2 else None)
   | _ \<Rightarrow> None)"

text \<open>The exponent of a decimal literal: nothing, or a letter e with an optional sign and digits.\<close>

definition exponentValue :: "jsstring \<Rightarrow> int option" where
  "exponentValue s = (case s of
     [] \<Rightarrow> Some 0
   | e # r \<Rightarrow>
       (if e \<noteq> 101 \<and> e \<noteq> 69 then None
        else
          (let neg = (case r of c # _ \<Rightarrow> c = 45 | [] \<Rightarrow> False);
               ds = (case r of c # cs \<Rightarrow> if c = 43 \<or> c = 45 then cs else r | [] \<Rightarrow> r) in
           if ds = [] \<or> \<not> list_all is_digit ds then None
           else Some (if neg then - int (digits_val ds) else int (digits_val ds)))))"

definition powerOfTen :: "int \<Rightarrow> rat" where
  "powerOfTen e = (if 0 \<le> e then 10 ^ nat e else 1 / 10 ^ nat (- e))"

definition decimalValue :: "jsstring \<Rightarrow> rat option" where
  "decimalValue s =
     (let i = takeWhile is_digit s; r = dropWhile is_digit s;
          f = (case r of c # cs \<Rightarrow> if c = 46 then takeWhile is_digit cs else [] | [] \<Rightarrow> []);
          e = (case r of c # cs \<Rightarrow> if c = 46 then dropWhile is_digit cs else r | [] \<Rightarrow> []) in
      if i = [] \<and> f = [] then None
      else (case exponentValue e of
          Some n \<Rightarrow> Some (of_nat (digits_val (i @ f)) * powerOfTen (n - int (length f))) | None \<Rightarrow> None))"

definition jsNumber :: "jsstring \<Rightarrow> rat jsnum" where
  "jsNumber s =
     (let t = trim s in
      if t = [] then Num 0
      else (case radixPrefix t of
          Some b \<Rightarrow> if radixDigits b (drop 2 t) then Num (of_nat (radixValue b (drop 2 t))) else NaN
        | None \<Rightarrow>
            (let neg = (hd t = 45); u = (if hd t = 43 \<or> hd t = 45 then tl t else t) in
             if u = js ''Infinity'' then Infinite
             else (case decimalValue u of Some q \<Rightarrow> Num (if neg then - q else q) | None \<Rightarrow> NaN))))"

lemma takeWhile_all [simp]: "list_all P s \<Longrightarrow> takeWhile P s = s" "list_all P s \<Longrightarrow> dropWhile P s = []"
  by (auto simp: list_all_iff)

text \<open>A run of digits is read as its value.\<close>

lemma jsNumber_digits:
  assumes "s \<noteq> []" "list_all is_digit s"
  shows "jsNumber s = Num (of_nat (digits_val s))"
proof -
  have t: "trim s = s" using assms(2) digit_not_ws by (intro trim_id) (auto simp: list_all_iff)
  have "is_digit (hd s)" using assms by (cases s) auto
  then have hd: "hd s \<noteq> 43" "hd s \<noteq> 45" by (auto simp: is_digit_def)
  have "s \<noteq> js ''Infinity''" using \<open>is_digit (hd s)\<close> by (auto simp: js.simps is_digit_def)
  moreover have "radixPrefix s = None"
    using assms(2) by (auto simp: radixPrefix_def is_digit_def split: list.splits)
  ultimately show ?thesis
    using assms hd by (simp add: jsNumber_def t Let_def decimalValue_def exponentValue_def powerOfTen_def)
qed

end
