(* ===== verification/ConsoleDates.thy ===== *)
theory ConsoleDates
  imports CivilTime JsNumber
begin

text \<open>
  Date ranges of the console: \<open>src/frontend/apps/console/src/lib/date-range.ts\<close> and \<open>time-zone.ts\<close> in the same
  directory.

  What the browser knows about time zones is an argument: which names are valid, the offset of a zone at an instant
  in milliseconds, and the local zone.  A \<open>Date\<close> at local midnight is the number of its calendar day, and the
  local calendar is taken to have every day.  A date that the language calls invalid, and the number of its
  instant, is \<open>None\<close>.  \<open>numericParts\<close> is only used with valid zones.
\<close>

section \<open>Values\<close>

record DateRangeValue =
  preset :: jsstring
  range_from :: jsstring
  range_to :: jsstring
  endTimestamp :: "int option"
  startTimestamp :: "int option"
  timeZone :: "jsstring option"

record Intl =
  zoneValid :: "jsstring \<Rightarrow> bool"
  zoneOffset :: "jsstring \<Rightarrow> int \<Rightarrow> int"
  resolvedZone :: jsstring
  localTime :: "jsstring \<Rightarrow> int option"
  timezoneOffset :: "int \<Rightarrow> int"

definition pad :: "int \<Rightarrow> nat \<Rightarrow> jsstring" where
  "pad v len = (let s = int_str v in replicate (len - length s) 48 @ s)"

fun str_less :: "jsstring \<Rightarrow> jsstring \<Rightarrow> bool" where
  "str_less [] ys = (ys \<noteq> [])"
| "str_less (x # xs) [] = False"
| "str_less (x # xs) (y # ys) = (x < y \<or> x = y \<and> str_less xs ys)"

section \<open>Calendar days of the local zone\<close>

definition MAX_DATE_RANGE_DAYS :: int where
  "MAX_DATE_RANGE_DAYS = 180"

definition localDateToKey :: "int option \<Rightarrow> jsstring" where
  "localDateToKey date = (case date of
     Some d \<Rightarrow> int_str (yearFromDay d) @ js ''-'' @ pad (monthFromDay d) 2 @ js ''-'' @ pad (dateFromDay d) 2
   | None \<Rightarrow> js ''NaN-NaN-NaN'')"

text \<open>\<open>new Date(year, month - 1, day)\<close>, whose arguments are truncated.\<close>

definition truncated :: "rat jsnum \<Rightarrow> int option" where
  "truncated n = (case n of Num q \<Rightarrow> Some (if 0 \<le> q then \<lfloor>q\<rfloor> else \<lceil>q\<rceil>) | _ \<Rightarrow> None)"

definition numPred :: "rat jsnum \<Rightarrow> rat jsnum" where
  "numPred n = (case n of Num q \<Rightarrow> Num (q - 1) | _ \<Rightarrow> n)"

definition newLocalDate :: "rat jsnum \<Rightarrow> rat jsnum \<Rightarrow> rat jsnum \<Rightarrow> int option" where
  "newLocalDate y m d = (case (truncated y, truncated m, truncated d) of
     (Some y', Some m', Some d') \<Rightarrow>
       (let n = makeDay (if 0 \<le> y' \<and> y' \<le> 99 then 1900 + y' else y') (m' + 1) d' in
        if \<bar>n\<bar> \<le> 100000000 then Some n else None)
   | _ \<Rightarrow> None)"

definition localDateFromKey :: "jsstring \<Rightarrow> int option" where
  "localDateFromKey dateKey =
     newLocalDate (jsNumber (substring dateKey 0 4)) (numPred (jsNumber (substring dateKey 5 7))) (jsNumber (substring dateKey 8 10))"

definition parseIntText :: "jsstring \<Rightarrow> int" where
  "parseIntText s = int (digits_val (takeWhile is_digit s))"

text \<open>The second argument is the local day of the reference date.\<close>

definition createDateRange :: "jsstring \<Rightarrow> int \<Rightarrow> DateRangeValue" where
  "createDateRange p today =
     (if p = js ''yesterday''
      then (let key = localDateToKey (Some (today - 1)) in
        \<lparr>preset = p, range_from = key, range_to = key, endTimestamp = None, startTimestamp = None, timeZone = None\<rparr>)
      else
        (let days = (if p = js ''today'' then 1 else parseIntText p) in
         \<lparr>preset = p, range_from = localDateToKey (Some (today - (days - 1))), range_to = localDateToKey (Some today),
          endTimestamp = None, startTimestamp = None, timeZone = None\<rparr>))"

definition exactTimes :: "DateRangeValue \<Rightarrow> (int \<times> int) option" where
  "exactTimes r = (case (startTimestamp r, endTimestamp r) of
     (Some s, Some e) \<Rightarrow> if s \<le> e then Some (s, e) else None | _ \<Rightarrow> None)"

definition dateRangeToUnix :: "Intl \<Rightarrow> DateRangeValue \<Rightarrow> (int \<times> int) option" where
  "dateRangeToUnix intl r = (case exactTimes r of
     Some se \<Rightarrow> Some se
   | None \<Rightarrow>
       (case (localTime intl (range_from r @ js ''T00:00:00''), localTime intl (range_to r @ js ''T23:59:59.999'')) of
          (Some s, Some e) \<Rightarrow> Some (s div 1000, e div 1000) | _ \<Rightarrow> None))"

definition dayInMilliseconds :: int where
  "dayInMilliseconds = 86400000"

text \<open>Rounding to the nearest integer, halves up.\<close>

definition roundDiv :: "int \<Rightarrow> int \<Rightarrow> int" where
  "roundDiv a b = (2 * a + b) div (2 * b)"

definition dateRangeDayCount :: "Intl \<Rightarrow> DateRangeValue \<Rightarrow> int option" where
  "dateRangeDayCount intl r = (case exactTimes r of
     Some (s, e) \<Rightarrow> Some (max 1 (- ((- (e - s + 1)) div 86400)))
   | None \<Rightarrow>
       (case (localTime intl (range_from r @ js ''T00:00:00''), localTime intl (range_to r @ js ''T00:00:00'')) of
          (Some s, Some e) \<Rightarrow> Some (max 1 (roundDiv (e - s) dayInMilliseconds + 1)) | _ \<Rightarrow> None))"

definition createCustomDateRange :: "Intl \<Rightarrow> jsstring \<Rightarrow> jsstring \<Rightarrow> DateRangeValue option" where
  "createCustomDateRange intl from to =
     (let r = \<lparr>preset = js ''custom'', range_from = from, range_to = to, endTimestamp = None, startTimestamp = None, timeZone = None\<rparr> in
      if from = [] \<or> to = [] \<or> str_less to from then None
      else if localDateToKey (localDateFromKey from) \<noteq> from \<or> localDateToKey (localDateFromKey to) \<noteq> to then None
      else if (case dateRangeDayCount intl r of Some n \<Rightarrow> n > MAX_DATE_RANGE_DAYS | None \<Rightarrow> False) then None
      else Some r)"

definition timestampMatchesDateRange :: "Intl \<Rightarrow> int \<Rightarrow> DateRangeValue \<Rightarrow> bool" where
  "timestampMatchesDateRange intl t r = (case dateRangeToUnix intl r of Some (s, e) \<Rightarrow> s \<le> t \<and> t \<le> e | None \<Rightarrow> False)"

section \<open>Times in a zone\<close>

definition isValidTimeZone :: "Intl \<Rightarrow> jsstring option \<Rightarrow> bool" where
  "isValidTimeZone intl tz = (case tz of Some z \<Rightarrow> z \<noteq> [] \<and> zoneValid intl z | None \<Rightarrow> False)"

definition resolveBrowserTimeZone :: "Intl \<Rightarrow> jsstring" where
  "resolveBrowserTimeZone intl = (if isValidTimeZone intl (Some (resolvedZone intl)) then resolvedZone intl else js ''UTC'')"

definition numericParts :: "Intl \<Rightarrow> int \<Rightarrow> jsstring \<Rightarrow> NumericDateTimeParts" where
  "numericParts intl ms tz = utcParts (ms + zoneOffset intl tz ms)"

definition partsToUtc :: "NumericDateTimeParts \<Rightarrow> int" where
  "partsToUtc p = dateUTC (year p) (month p) (day p) (hour p) (minute p) (second p)"

definition validParts :: "NumericDateTimeParts \<Rightarrow> bool" where
  "validParts p \<longleftrightarrow> \<not> (year p < 1970 \<or> year p > 9999) \<and> \<not> (month p < 1 \<or> month p > 12) \<and> \<not> (day p < 1 \<or> day p > 31) \<and>
     \<not> (hour p < 0 \<or> hour p > 23) \<and> \<not> (minute p < 0 \<or> minute p > 59) \<and> \<not> (second p < 0 \<or> second p > 59) \<and>
     (let n = utcParts (partsToUtc p) in year n = year p \<and> month n = month p \<and> day n = day p)"

record ZonedDateTimeParts =
  zoned_date :: jsstring
  zoned_time :: jsstring

definition formatZonedDateTimeParts :: "Intl \<Rightarrow> int option \<Rightarrow> jsstring \<Rightarrow> ZonedDateTimeParts" where
  "formatZonedDateTimeParts intl t tz = (case t of
     None \<Rightarrow> \<lparr>zoned_date = [], zoned_time = []\<rparr>
   | Some s \<Rightarrow>
       (let p = numericParts intl (s * 1000) tz in
        \<lparr>zoned_date = pad (year p) 4 @ js ''-'' @ pad (month p) 2 @ js ''-'' @ pad (day p) 2,
         zoned_time = pad (hour p) 2 @ js '':'' @ pad (minute p) 2 @ js '':'' @ pad (second p) 2\<rparr>))"

text \<open>\<open>^(\d{4})-(\d{2})-(\d{2})$\<close> and \<open>^(\d{2}):(\d{2})(?::(\d{2}))?$\<close>.\<close>

definition dateMatch :: "jsstring \<Rightarrow> (jsstring \<times> jsstring \<times> jsstring) option" where
  "dateMatch s = (if length s = 10 \<and> s ! 4 = 45 \<and> s ! 7 = 45 \<and>
       list_all is_digit (substring s 0 4) \<and> list_all is_digit (substring s 5 7) \<and> list_all is_digit (substring s 8 10)
     then Some (substring s 0 4, substring s 5 7, substring s 8 10) else None)"

definition timeMatch :: "jsstring \<Rightarrow> (jsstring \<times> jsstring \<times> jsstring option) option" where
  "timeMatch s =
     (let h = substring s 0 2; m = substring s 3 5; sec = substring s 6 8 in
      if length s = 5 \<and> s ! 2 = 58 \<and> list_all is_digit h \<and> list_all is_digit m then Some (h, m, None)
      else if length s = 8 \<and> s ! 2 = 58 \<and> s ! 5 = 58 \<and> list_all is_digit h \<and> list_all is_digit m \<and> list_all is_digit sec
        then Some (h, m, Some sec)
      else None)"

fun zoneLoop :: "nat \<Rightarrow> Intl \<Rightarrow> jsstring \<Rightarrow> int \<Rightarrow> int \<Rightarrow> int" where
  "zoneLoop 0 intl tz desiredUtc guess = guess"
| "zoneLoop (Suc n) intl tz desiredUtc guess =
     (let adjustment = desiredUtc - partsToUtc (numericParts intl guess tz); guess' = guess + adjustment in
      if adjustment = 0 then guess' else zoneLoop n intl tz desiredUtc guess')"

definition desiredParts :: "jsstring \<Rightarrow> jsstring \<Rightarrow> NumericDateTimeParts option" where
  "desiredParts dateValue timeValue = (case (dateMatch dateValue, timeMatch timeValue) of
     (Some (y, mo, d), Some (h, mi, s)) \<Rightarrow>
       Some \<lparr>day = int (digits_val d), hour = int (digits_val h), minute = int (digits_val mi), month = int (digits_val mo),
         second = (case s of Some t \<Rightarrow> int (digits_val t) | None \<Rightarrow> 0), year = int (digits_val y)\<rparr>
   | _ \<Rightarrow> None)"

definition parseZonedDateTime :: "Intl \<Rightarrow> jsstring \<Rightarrow> jsstring \<Rightarrow> jsstring \<Rightarrow> int option" where
  "parseZonedDateTime intl dateValue timeValue tz =
     (if \<not> isValidTimeZone intl (Some tz) then None
      else (case desiredParts dateValue timeValue of
          None \<Rightarrow> None
        | Some desired \<Rightarrow>
            (if \<not> validParts desired then None
             else
               (let desiredUtc = partsToUtc desired; guess = zoneLoop 4 intl tz desiredUtc desiredUtc in
                if partsToUtc (numericParts intl guess tz) \<noteq> desiredUtc then None else Some (guess div 1000)))))"

definition timeZoneOffsetMinutesAt :: "Intl \<Rightarrow> int \<Rightarrow> jsstring \<Rightarrow> int" where
  "timeZoneOffsetMinutesAt intl t tz =
     (if \<not> isValidTimeZone intl (Some tz) then - timezoneOffset intl (t * 1000)
      else roundDiv (partsToUtc (numericParts intl (t * 1000) tz) - t * 1000) 60000)"

definition formatTimeZoneOffset :: "Intl \<Rightarrow> int \<Rightarrow> jsstring \<Rightarrow> jsstring" where
  "formatTimeZoneOffset intl t tz =
     (let offset = timeZoneOffsetMinutesAt intl t tz in
      if offset = 0 then js ''UTC''
      else js ''UTC'' @ (if offset \<ge> 0 then js ''+'' else js ''-'') @ pad (\<bar>offset\<bar> div 60) 2 @ js '':'' @ pad (\<bar>offset\<bar> mod 60) 2)"

text \<open>\<open>shiftDateKey\<close> is only used with keys of four, two and two digits.\<close>

definition shiftDateKey :: "jsstring \<Rightarrow> int \<Rightarrow> jsstring" where
  "shiftDateKey dateKey days = (case split_on 45 dateKey of
     y # m # d # _ \<Rightarrow>
       (let n = dateUTC (int (digits_val y)) (int (digits_val m)) (int (digits_val d) + days) 12 0 0; p = utcParts n in
        pad (year p) 4 @ js ''-'' @ pad (month p) 2 @ js ''-'' @ pad (day p) 2)
   | _ \<Rightarrow> [])"

definition withExactTimeRange :: "Intl \<Rightarrow> DateRangeValue \<Rightarrow> jsstring \<Rightarrow> jsstring \<Rightarrow> jsstring \<Rightarrow> DateRangeValue" where
  "withExactTimeRange intl r startTime endTime tz =
     (case (parseZonedDateTime intl (range_from r) startTime tz, parseZonedDateTime intl (range_to r) endTime tz) of
        (Some s, Some e) \<Rightarrow> r\<lparr>endTimestamp := Some e, startTimestamp := Some s, timeZone := Some tz\<rparr>
      | _ \<Rightarrow> r)"

definition createZonedDateRange :: "Intl \<Rightarrow> jsstring \<Rightarrow> jsstring \<Rightarrow> int \<Rightarrow> DateRangeValue" where
  "createZonedDateRange intl p tz referenceMs =
     (let today = zoned_date (formatZonedDateTimeParts intl (Some (referenceMs div 1000)) tz);
          to = (if p = js ''yesterday'' then shiftDateKey today (- 1) else today);
          days = (if p = js ''today'' \<or> p = js ''yesterday'' then 1 else parseIntText p);
          from = shiftDateKey to (- (days - 1)) in
      withExactTimeRange intl
        \<lparr>preset = p, range_from = from, range_to = to, endTimestamp = None, startTimestamp = None, timeZone = None\<rparr>
        (js ''00:00:00'') (js ''23:59:59'') tz)"

definition createRecentZonedDateRange :: "Intl \<Rightarrow> int \<Rightarrow> jsstring \<Rightarrow> int \<Rightarrow> DateRangeValue" where
  "createRecentZonedDateRange intl seconds tz referenceMs =
     (let e = referenceMs div 1000; s = e - seconds in
      \<lparr>preset = js ''custom'', range_from = zoned_date (formatZonedDateTimeParts intl (Some s) tz),
       range_to = zoned_date (formatZonedDateTimeParts intl (Some e) tz), endTimestamp = Some e, startTimestamp = Some s,
       timeZone = Some tz\<rparr>)"

end
