(* ===== verification/ListSearch.thy ===== *)
theory ListSearch
  imports ConsoleDates
begin

text \<open>
  Search parameters of the console's lists: \<open>src/frontend/apps/console/src/lib/list-search.ts\<close>.  The parameters come
  from the address of the page as an object of unchecked values; every list has a parser that keeps what is valid.
  Ranges of dates are resolved from the parameters and written back to them.  A parameter that is absent is \<open>None\<close>.
\<close>

section \<open>Parameters of the lists\<close>

record PaginationSearch =
  order :: "jsstring option"
  page :: "int option"
  pageSize :: "int option"

record DateRangeSearch =
  search_from :: "jsstring option"
  search_range :: "jsstring option"
  search_to :: "jsstring option"

record RangeListSearch = DateRangeSearch +
  range_order :: "jsstring option"
  range_page :: "int option"
  range_pageSize :: "int option"

record ApiKeySearch = PaginationSearch +
  key_detail :: "int option"
  key_q :: "jsstring option"
  key_status :: "jsstring option"

record RequestLogSearch = RangeListSearch +
  log_detail :: "jsstring option"
  detailTab :: "jsstring option"
  log_end :: "int option"
  field :: "jsstring option"
  log_q :: "jsstring option"
  log_start :: "int option"
  log_status :: "jsstring option"
  tz :: "jsstring option"

record AccountActivitySearch = RangeListSearch +
  activity_detail :: "jsstring option"
  activity_type :: "jsstring option"

record TaskSearch = RangeListSearch +
  task_detail :: "jsstring option"
  task_status :: "jsstring option"
  task_type :: "jsstring option"

record BillingSearch = RangeListSearch +
  bill_detail :: "jsstring option"
  ledgerDetail :: "jsstring option"
  ledgerOrder :: "jsstring option"
  ledgerPage :: "int option"
  ledgerPageSize :: "int option"
  ledgerType :: "jsstring option"
  bill_q :: "jsstring option"
  bill_status :: "jsstring option"
  bill_tab :: "jsstring option"
  bill_type :: "jsstring option"

record ModelSearch =
  availability :: "jsstring option"
  model_detail :: "jsstring option"
  family :: "jsstring option"
  model_order :: "jsstring option"
  model_q :: "jsstring option"
  model_sort :: "jsstring option"

section \<open>Single values\<close>

definition parseDateKey :: "jsval \<Rightarrow> jsstring option" where
  "parseDateKey v = (case v of
     JStr s \<Rightarrow> if dateMatch s = None then None else if localDateToKey (localDateFromKey s) = s then Some s else None
   | _ \<Rightarrow> None)"

definition parseEnum :: "jsval \<Rightarrow> jsstring list \<Rightarrow> jsstring option" where
  "parseEnum v allowed = (case v of JStr s \<Rightarrow> if s \<in> set allowed then Some s else None | _ \<Rightarrow> None)"

definition parseKeyword :: "jsval \<Rightarrow> jsstring option" where
  "parseKeyword v = (case v of
     JStr s \<Rightarrow> (let keyword = take 128 (trim s) in if keyword = [] then None else Some keyword) | _ \<Rightarrow> None)"

definition numberOf :: "jsval \<Rightarrow> rat jsnum" where
  "numberOf v = (case v of JNum n \<Rightarrow> n | JStr s \<Rightarrow> jsNumber s | _ \<Rightarrow> NaN)"

definition integerBetween :: "int \<Rightarrow> int \<Rightarrow> rat jsnum \<Rightarrow> int option" where
  "integerBetween lo hi n = (case n of
     Num q \<Rightarrow> if of_int \<lfloor>q\<rfloor> = q \<and> lo \<le> \<lfloor>q\<rfloor> \<and> \<lfloor>q\<rfloor> \<le> hi then Some \<lfloor>q\<rfloor> else None | _ \<Rightarrow> None)"

definition parsePositiveInteger :: "jsval \<Rightarrow> int option" where
  "parsePositiveInteger v = integerBetween 1 10000 (numberOf v)"

definition parseUnixTimestamp :: "jsval \<Rightarrow> int option" where
  "parseUnixTimestamp v = integerBetween 0 253402300799 (numberOf v)"

definition parseTimeZone :: "Intl \<Rightarrow> jsval \<Rightarrow> jsstring option" where
  "parseTimeZone intl v = (case v of JStr s \<Rightarrow> if isValidTimeZone intl (Some s) then Some s else None | _ \<Rightarrow> None)"

definition parsePageSize :: "jsval \<Rightarrow> int list \<Rightarrow> int option" where
  "parsePageSize v allowed = (case parsePositiveInteger v of
     Some n \<Rightarrow> if n \<noteq> 0 \<and> n \<in> set allowed then Some n else None | None \<Rightarrow> None)"

definition defaultPageSizes :: "int list" where
  "defaultPageSizes = [10, 20, 50, 100]"

definition orders :: "jsstring list" where
  "orders = [js ''asc'', js ''desc'']"

definition dateRangePresets :: "jsstring list" where
  "dateRangePresets = [js ''today'', js ''yesterday'', js ''3d'', js ''7d'', js ''14d'', js ''30d'', js ''90d'', js ''180d'', js ''custom'']"

section \<open>The parsers\<close>

definition parseDateRangeSearch :: "jsval \<Rightarrow> DateRangeSearch" where
  "parseDateRangeSearch search = \<lparr>search_from = parseDateKey (get_prop search (js ''from'')),
     search_range = parseEnum (get_prop search (js ''range'')) dateRangePresets,
     search_to = parseDateKey (get_prop search (js ''to''))\<rparr>"

definition rangeList :: "jsval \<Rightarrow> int list \<Rightarrow> RangeListSearch" where
  "rangeList search sizes = DateRangeSearch.extend (parseDateRangeSearch search)
     \<lparr>range_order = parseEnum (get_prop search (js ''order'')) orders,
      range_page = parsePositiveInteger (get_prop search (js ''page'')),
      range_pageSize = parsePageSize (get_prop search (js ''pageSize'')) sizes\<rparr>"

definition parseApiKeySearch :: "jsval \<Rightarrow> ApiKeySearch" where
  "parseApiKeySearch search = \<lparr>order = parseEnum (get_prop search (js ''order'')) orders,
     page = parsePositiveInteger (get_prop search (js ''page'')),
     pageSize = parsePageSize (get_prop search (js ''pageSize'')) defaultPageSizes,
     key_detail = parsePositiveInteger (get_prop search (js ''detail'')), key_q = parseKeyword (get_prop search (js ''q'')),
     key_status = parseEnum (get_prop search (js ''status''))
       [js ''all'', js ''active'', js ''disabled'', js ''expired'', js ''exhausted'']\<rparr>"

definition parseRequestLogSearch :: "Intl \<Rightarrow> jsval \<Rightarrow> RequestLogSearch" where
  "parseRequestLogSearch intl search =
     (let detail = parseKeyword (get_prop search (js ''detail'')); start = parseUnixTimestamp (get_prop search (js ''start''));
          end' = parseUnixTimestamp (get_prop search (js ''end''));
          exactRangeValid = (case (start, end') of (Some s, Some e) \<Rightarrow> s \<le> e | _ \<Rightarrow> False) in
      RangeListSearch.extend (rangeList search defaultPageSizes)
       \<lparr>log_detail = detail,
        detailTab = (if detail \<noteq> None
          then parseEnum (get_prop search (js ''detailTab'')) [js ''overview'', js ''usage'', js ''diagnostics''] else None),
        log_end = (if exactRangeValid then end' else None),
        field = parseEnum (get_prop search (js ''field'')) [js ''request'', js ''service_trace'', js ''model'', js ''api_key''],
        log_q = parseKeyword (get_prop search (js ''q'')), log_start = (if exactRangeValid then start else None),
        log_status = parseEnum (get_prop search (js ''status'')) [js ''all'', js ''succeeded'', js ''failed''],
        tz = (if exactRangeValid then parseTimeZone intl (get_prop search (js ''tz'')) else None)\<rparr>)"

definition parseAccountActivitySearch :: "jsval \<Rightarrow> AccountActivitySearch" where
  "parseAccountActivitySearch search = RangeListSearch.extend (rangeList search defaultPageSizes)
     \<lparr>activity_detail = parseKeyword (get_prop search (js ''detail'')),
      activity_type = parseEnum (get_prop search (js ''type'')) [js ''all'', js ''management'', js ''system'', js ''login'']\<rparr>"

definition parseTaskSearch :: "jsval \<Rightarrow> TaskSearch" where
  "parseTaskSearch search = RangeListSearch.extend (rangeList search [12, 24, 48])
     \<lparr>task_detail = parseKeyword (get_prop search (js ''detail'')),
      task_status = parseEnum (get_prop search (js ''status''))
        [js ''all'', js ''queued'', js ''processing'', js ''succeeded'', js ''failed'', js ''cancelled'', js ''expired''],
      task_type = parseEnum (get_prop search (js ''type'')) [js ''all'', js ''image'', js ''video'', js ''audio'']\<rparr>"

definition parseBillingSearch :: "jsval \<Rightarrow> BillingSearch" where
  "parseBillingSearch search =
     (let tab = parseEnum (get_prop search (js ''tab'')) [js ''history'', js ''ledger'', js ''plans''] in
      RangeListSearch.extend (rangeList search defaultPageSizes)
       \<lparr>bill_detail = (if tab = None \<or> tab = Some (js ''history'') then parseKeyword (get_prop search (js ''detail'')) else None),
        ledgerDetail = (if tab = Some (js ''ledger'') then parseKeyword (get_prop search (js ''ledgerDetail'')) else None),
        ledgerOrder = parseEnum (get_prop search (js ''ledgerOrder'')) orders,
        ledgerPage = parsePositiveInteger (get_prop search (js ''ledgerPage'')),
        ledgerPageSize = parsePageSize (get_prop search (js ''ledgerPageSize'')) defaultPageSizes,
        ledgerType = parseEnum (get_prop search (js ''ledgerType'')) [js ''all'', js ''topup'', js ''refund''],
        bill_q = parseKeyword (get_prop search (js ''q'')),
        bill_status = parseEnum (get_prop search (js ''status''))
          [js ''all'', js ''completed'', js ''pending'', js ''failed'', js ''expired''],
        bill_tab = tab, bill_type = parseEnum (get_prop search (js ''type'')) [js ''all'', js ''topup'', js ''subscription'']\<rparr>)"

definition parseUsageSearch :: "jsval \<Rightarrow> DateRangeSearch" where
  "parseUsageSearch = parseDateRangeSearch"

definition parseOverviewSearch :: "jsval \<Rightarrow> DateRangeSearch" where
  "parseOverviewSearch = parseDateRangeSearch"

definition parseModelSearch :: "jsval \<Rightarrow> ModelSearch" where
  "parseModelSearch search = \<lparr>availability = parseEnum (get_prop search (js ''availability'')) [js ''all'', js ''available''],
     model_detail = parseKeyword (get_prop search (js ''detail'')),
     family = parseEnum (get_prop search (js ''family''))
       [js ''chat'', js ''reasoning'', js ''embedding'', js ''image'', js ''audio'', js ''video'', js ''unknown''],
     model_order = parseEnum (get_prop search (js ''order'')) orders,
     model_q = parseKeyword (get_prop search (js ''q'')),
     model_sort = parseEnum (get_prop search (js ''sort''))
       [js ''capabilities'', js ''context'', js ''inputPrice'', js ''model'', js ''outputPrice'', js ''status'', js ''type'']\<rparr>"

definition parsePlaygroundSearch :: "jsval \<Rightarrow> jsstring option" where
  "parsePlaygroundSearch search = parseKeyword (get_prop search (js ''model''))"

section \<open>Patches\<close>

text \<open>A patch names the parameters it changes; one that changes parameters of overlays only leaves the scroll
  position.\<close>

definition searchPatchShouldResetScroll :: "jsstring list \<Rightarrow> jsstring list \<Rightarrow> bool" where
  "searchPatchShouldResetScroll changedKeys overlayKeys \<longleftrightarrow>
     changedKeys = [] \<or> list_ex (\<lambda>key. key \<notin> set overlayKeys) changedKeys"

definition truthyText :: "jsstring option \<Rightarrow> bool" where
  "truthyText s \<longleftrightarrow> (case s of Some t \<Rightarrow> t \<noteq> [] | None \<Rightarrow> False)"

text \<open>The reference date is the local day of the call.\<close>

definition resolveDateRange :: "Intl \<Rightarrow> 'a DateRangeSearch_scheme \<Rightarrow> jsstring \<Rightarrow> int \<Rightarrow> DateRangeValue" where
  "resolveDateRange intl search fallback today =
     (let custom = (if search_range search = Some (js ''custom'') \<and> truthyText (search_from search) \<and> truthyText (search_to search)
        then createCustomDateRange intl (the (search_from search)) (the (search_to search)) else None) in
      case custom of
        Some r \<Rightarrow> r
      | None \<Rightarrow>
          (case search_range search of
             Some p \<Rightarrow> if p \<noteq> [] \<and> p \<noteq> js ''custom'' then createDateRange p today else createDateRange fallback today
           | None \<Rightarrow> createDateRange fallback today))"

definition dateRangeSearchPatch :: "DateRangeValue \<Rightarrow> jsstring \<Rightarrow> DateRangeSearch" where
  "dateRangeSearchPatch r fallback =
     (if preset r = js ''custom''
      then \<lparr>search_from = Some (range_from r), search_range = Some (js ''custom''), search_to = Some (range_to r)\<rparr>
      else \<lparr>search_from = None, search_range = (if preset r = fallback then None else Some (preset r)), search_to = None\<rparr>)"

definition resolveRequestLogRange ::
  "Intl \<Rightarrow> 'a RequestLogSearch_scheme \<Rightarrow> jsstring \<Rightarrow> int \<Rightarrow> DateRangeValue" where
  "resolveRequestLogRange intl search fallback referenceMs =
     (let tz' = (if isValidTimeZone intl (tz search) then the (tz search) else resolveBrowserTimeZone intl);
          exact = (case (log_start search, log_end search) of
            (Some s, Some e) \<Rightarrow>
              (if s \<le> e
               then map_option (\<lambda>c. c\<lparr>preset := (case search_range search of Some p \<Rightarrow> p | None \<Rightarrow> js ''custom''),
                     startTimestamp := Some s, endTimestamp := Some e, timeZone := Some tz'\<rparr>)
                   (createCustomDateRange intl (zoned_date (formatZonedDateTimeParts intl (Some s) tz'))
                     (zoned_date (formatZonedDateTimeParts intl (Some e) tz')))
               else None)
          | _ \<Rightarrow> None) in
      case exact of
        Some r \<Rightarrow> r
      | None \<Rightarrow>
          (case search_range search of
             Some p \<Rightarrow>
               (if p \<noteq> [] \<and> p \<noteq> js ''custom'' then createZonedDateRange intl p tz' referenceMs
                else
                  (case (if p = js ''custom'' \<and> truthyText (search_from search) \<and> truthyText (search_to search)
                      then createCustomDateRange intl (the (search_from search)) (the (search_to search)) else None) of
                     Some c \<Rightarrow> withExactTimeRange intl c (js ''00:00:00'') (js ''23:59:59'') tz'
                   | None \<Rightarrow> createZonedDateRange intl fallback tz' referenceMs))
           | None \<Rightarrow> createZonedDateRange intl fallback tz' referenceMs))"

record RequestLogRangePatch = DateRangeSearch +
  patch_start :: "int option"
  patch_end :: "int option"
  patch_tz :: "jsstring option"

definition requestLogRangeSearchPatch :: "DateRangeValue \<Rightarrow> jsstring \<Rightarrow> RequestLogRangePatch" where
  "requestLogRangeSearchPatch r fallback =
     (let custom = (preset r = js ''custom'') in
      \<lparr>search_from = (if custom then Some (range_from r) else None),
       search_range = (if preset r = fallback then None else Some (preset r)),
       search_to = (if custom then Some (range_to r) else None),
       patch_start = startTimestamp r, patch_end = endTimestamp r, patch_tz = timeZone r\<rparr>)"

text \<open>The page merges a patch into its parameters.\<close>

definition mergeRangePatch :: "RequestLogRangePatch \<Rightarrow> RequestLogSearch \<Rightarrow> RequestLogSearch" where
  "mergeRangePatch patch search = search\<lparr>search_from := search_from patch, search_range := search_range patch,
     search_to := search_to patch, log_start := patch_start patch, log_end := patch_end patch, tz := patch_tz patch\<rparr>"

end
