(* ===== verification/ConsoleDateProofs.thy ===== *)
theory ConsoleDateProofs
  imports ConsoleDates
begin

text \<open>
  Theorems about dates of the console: padded numbers are read back, a date and time that is parsed in a zone is
  shown as it was entered, and a zone without a change nearby always gives an answer.
\<close>

section \<open>Padded numbers\<close>

lemma digits_val_snoc: "digits_val (s @ [c]) = 10 * digits_val s + (c - 48)"
  by (simp add: digits_val_def)

lemma pad_digits_aux:
  "list_all is_digit s \<Longrightarrow> s \<noteq> [] \<Longrightarrow> replicate (length s - length (nat_str (digits_val s))) 48 @ nat_str (digits_val s) = s"
proof (induction s rule: rev_induct)
  case (snoc c t)
  have c: "48 \<le> c" "c \<le> 57" "is_digit c" using snoc.prems(1) by (simp_all add: is_digit_def)
  show ?case
  proof (cases "digits_val t = 0")
    case True
    then have "nat_str (digits_val (t @ [c])) = [c]" using c by (simp add: digits_val_snoc nat_str.simps)
    moreover have "t = replicate (length t) 48"
    proof (cases "t = []")
      case False
      then have "replicate (length t - 1) 48 @ [48] = t" using snoc True by (simp add: nat_str.simps)
      then show ?thesis using False by (metis length_greater_0_conv replicate_append_same replicate_Suc Suc_pred')
    qed simp
    ultimately show ?thesis by simp
  next
    case False
    then have "t \<noteq> []" by (auto simp: digits_val_def)
    obtain k where k: "c = 48 + k" "k < 10"
    proof
      show "c = 48 + (c - 48)" "c - 48 < 10" using c(1,2) by simp_all
    qed
    have "digits_val (t @ [c]) div 10 = digits_val t" "48 + digits_val (t @ [c]) mod 10 = c" "\<not> digits_val (t @ [c]) < 10"
      using k False by (simp_all add: digits_val_snoc)
    then have "nat_str (digits_val (t @ [c])) = nat_str (digits_val t) @ [c]" by (simp add: nat_str.simps [of "digits_val (t @ [c])"])
    then show ?thesis using snoc \<open>t \<noteq> []\<close> by (simp flip: append_assoc)
  qed
qed simp

lemma pad_digits: "list_all is_digit s \<Longrightarrow> s \<noteq> [] \<Longrightarrow> pad (int (digits_val s)) (length s) = s"
  using pad_digits_aux [of s] by (simp add: pad_def int_str_def)

section \<open>Matching\<close>

lemma substring_parts: "length s = 10 \<Longrightarrow> s = substring s 0 4 @ [s ! 4] @ substring s 5 7 @ [s ! 7] @ substring s 8 10"
  and substring_parts8: "length s = 8 \<Longrightarrow> s = substring s 0 2 @ [s ! 2] @ substring s 3 5 @ [s ! 5] @ substring s 6 8"
  and substring_parts5: "length s = 5 \<Longrightarrow> s = substring s 0 2 @ [s ! 2] @ substring s 3 5"
  by (auto simp: substring_def numeral_eq_Suc length_Suc_conv)

lemma length_substring: "j \<le> length s \<Longrightarrow> length (substring s i j) = j - i"
  by (simp add: substring_def)

lemma dateMatch_text:
  assumes "dateMatch s = Some (y, m, d)"
  shows "s = y @ js ''-'' @ m @ js ''-'' @ d" "length y = 4" "length m = 2" "length d = 2"
    "list_all is_digit y" "list_all is_digit m" "list_all is_digit d"
proof -
  have s: "length s = 10" "s ! 4 = 45" "s ! 7 = 45" "y = substring s 0 4" "m = substring s 5 7" "d = substring s 8 10"
    "list_all is_digit y" "list_all is_digit m" "list_all is_digit d"
    using assms by (auto simp: dateMatch_def split: if_splits)
  show "s = y @ js ''-'' @ m @ js ''-'' @ d" using substring_parts [OF s(1)] s(2-6) by (simp add: js.simps)
  show "length y = 4" "length m = 2" "length d = 2" using s(1) by (simp_all add: s(4-6) length_substring)
qed (use assms in \<open>auto simp: dateMatch_def split: if_splits\<close>)

lemma timeMatch_text:
  assumes "timeMatch s = Some (h, m, sec)"
  shows "s = h @ js '':'' @ m @ (case sec of Some t \<Rightarrow> js '':'' @ t | None \<Rightarrow> [])" "length h = 2" "length m = 2"
    "list_all is_digit h" "list_all is_digit m" "sec = Some t \<Longrightarrow> list_all is_digit t \<and> length t = 2"
    "sec = None \<longleftrightarrow> length s = 5"
proof -
  have hm: "h = substring s 0 2" "m = substring s 3 5" "s ! 2 = 58" "list_all is_digit h" "list_all is_digit m"
    and cases: "sec = None \<and> length s = 5 \<or> sec = Some (substring s 6 8) \<and> length s = 8 \<and> s ! 5 = 58 \<and> list_all is_digit (substring s 6 8)"
    using assms by (auto simp: timeMatch_def Let_def split: if_splits)
  show "list_all is_digit h" "list_all is_digit m" "sec = None \<longleftrightarrow> length s = 5" using hm(4,5) cases by auto
  show "length h = 2" "length m = 2" "sec = Some t \<Longrightarrow> list_all is_digit t \<and> length t = 2"
    using cases hm(1,2) by (auto simp: length_substring)
  show "s = h @ js '':'' @ m @ (case sec of Some t \<Rightarrow> js '':'' @ t | None \<Rightarrow> [])"
    using cases hm(1-3) substring_parts5 [of s] substring_parts8 [of s] by (auto simp: js.simps)
qed

section \<open>The search for an instant\<close>

lemma utcParts_whole: "utcParts (ms div 1000 * 1000) = utcParts ms"
proof -
  define n r where "n = ms div msPerDay" and "r = ms mod msPerDay"
  have r: "0 \<le> r" "r < msPerDay" by (simp_all add: r_def msPerDay_def)
  have ms: "ms = msPerDay * n + r" by (simp add: n_def r_def)
  have whole: "ms div 1000 * 1000 = msPerDay * n + r div 1000 * 1000"
  proof -
    have "ms = r + (n * 86400) * 1000" using ms by (simp add: msPerDay_def)
    then have "ms div 1000 = n * 86400 + r div 1000" by simp
    then show ?thesis by (simp add: msPerDay_def)
  qed
  have r': "0 \<le> r div 1000 * 1000" "r div 1000 * 1000 < msPerDay" using r by (simp_all add: msPerDay_def)
  have clock: "r div 1000 * 1000 div 1000 = r div 1000" "r div 1000 * 1000 div 60000 = r div 60000"
    "r div 1000 * 1000 div 3600000 = r div 3600000"
    using zdiv_zmult2_eq [of 60 r 1000] zdiv_zmult2_eq [of 60 "r div 1000 * 1000" 1000]
      zdiv_zmult2_eq [of 3600 r 1000] zdiv_zmult2_eq [of 3600 "r div 1000 * 1000" 1000] by simp_all
  have "ms div 1000 * 1000 div msPerDay = n" "ms div 1000 * 1000 mod msPerDay = r div 1000 * 1000"
    using int_div_pos_eq [OF whole r'] int_mod_pos_eq [OF whole r'] by simp_all
  then show ?thesis by (simp add: utcParts_def Let_def clock n_def [symmetric] r_def [symmetric])
qed

lemma epoch_year: "- 20 * msPerDay \<le> ms \<Longrightarrow> 1969 \<le> year (utcParts ms)"
proof -
  assume "- 20 * msPerDay \<le> ms"
  then have "- 20 \<le> ms div msPerDay" by (simp add: msPerDay_def)
  then have "yearFromDay (- 20) \<le> yearFromDay (ms div msPerDay)" by (rule yearFromDay_mono)
  moreover have "yearFromDay (- 20) = 1969" by (rule yearFromDay_eq) (simp_all add: dayFromYear_def)
  ultimately show ?thesis by (simp add: utcParts_def Let_def)
qed

definition smallOffsets :: "Intl \<Rightarrow> jsstring \<Rightarrow> bool" where
  "smallOffsets intl tz \<longleftrightarrow> (\<forall>ms. \<bar>zoneOffset intl tz ms\<bar> < msPerDay)"

lemma parts_at:
  assumes "smallOffsets intl tz" "- 19 * msPerDay \<le> ms"
  shows "partsToUtc (numericParts intl ms tz) = (ms + zoneOffset intl tz ms) div 1000 * 1000"
proof -
  have "- 20 * msPerDay \<le> ms + zoneOffset intl tz ms"
    using assms by (simp add: smallOffsets_def msPerDay_def) (smt (verit, best))
  from epoch_year [OF this] show ?thesis
    unfolding partsToUtc_def numericParts_def by (intro UTC_utcParts) simp
qed

text \<open>Every guess is a whole second, and after the first step within two days of the desired time.\<close>

lemma zoneLoop_guess:
  assumes "smallOffsets intl tz" "0 \<le> desired" "desired mod 1000 = 0" "guess mod 1000 = 0" "desired - 2 * msPerDay \<le> guess"
  shows "zoneLoop n intl tz desired guess mod 1000 = 0" "desired - 2 * msPerDay \<le> zoneLoop n intl tz desired guess"
proof -
  have "zoneLoop n intl tz desired guess mod 1000 = 0 \<and> desired - 2 * msPerDay \<le> zoneLoop n intl tz desired guess"
    using assms(4,5)
  proof (induction n arbitrary: guess)
    case (Suc n)
    let ?x = "guess + zoneOffset intl tz guess"
    have utc: "partsToUtc (numericParts intl guess tz) = ?x div 1000 * 1000"
      using assms(2) Suc.prems(2) by (intro parts_at [OF assms(1)]) (simp add: msPerDay_def)
    let ?g = "guess + (desired - ?x div 1000 * 1000)"
    have "?g mod 1000 = 0" using assms(3) Suc.prems(1) by (simp add: mod_eq_0_iff_dvd)
    moreover have "desired - 2 * msPerDay \<le> ?g"
      using assms(1) [unfolded smallOffsets_def, rule_format, of guess] by (simp add: msPerDay_def)
    ultimately show ?case using Suc.IH [of ?g] Suc.prems by (simp add: utc Let_def)
  qed simp
  then show "zoneLoop n intl tz desired guess mod 1000 = 0" "desired - 2 * msPerDay \<le> zoneLoop n intl tz desired guess"
    by simp_all
qed

lemma validParts_facts:
  assumes "validParts p"
  shows "utcParts (partsToUtc p) = p" "0 \<le> partsToUtc p" "partsToUtc p mod 1000 = 0"
proof -
  let ?u = "utcParts (partsToUtc p)"
  have p: "1970 \<le> year p" "validTime (hour p) (minute p) (second p)"
    and u: "year ?u = year p" "month ?u = month p" "day ?u = day p"
    using assms by (auto simp: validParts_def validTime_def Let_def)
  have date: "validDate (year p) (month p) (day p)" using utcParts_valid(1) [of "partsToUtc p"] u by simp
  have "?u = \<lparr>day = day p, hour = hour p, minute = minute p, month = month p, second = second p, year = year p\<rparr>"
    unfolding partsToUtc_def by (rule utcParts_UTC [OF date p(2)]) (use p(1) in simp)
  then show "?u = p" by simp
  have "dayFromYear 1970 \<le> makeDay (year p) (month p) (day p)"
    using makeDay_valid(2) [OF date] dayFromYear_mono [of 1969 "year p"] p(1) by simp
  then have "0 \<le> makeDay (year p) (month p) (day p)" by (simp add: dayFromYear_def)
  then show "0 \<le> partsToUtc p" using p by (simp add: partsToUtc_def dateUTC_def validTime_def msPerDay_def)
  show "partsToUtc p mod 1000 = 0" by (simp add: partsToUtc_def dateUTC_def Let_def msPerDay_def mod_eq_0_iff_dvd)
qed

lemma parse_renders:
  assumes "smallOffsets intl tz" "parseZonedDateTime intl d t tz = Some ts"
  obtains p where "desiredParts d t = Some p" "validParts p" "numericParts intl (ts * 1000) tz = p"
proof -
  obtain p where p: "desiredParts d t = Some p" "validParts p"
    and eq: "partsToUtc (numericParts intl (zoneLoop 4 intl tz (partsToUtc p) (partsToUtc p)) tz) = partsToUtc p"
    and ts: "ts = zoneLoop 4 intl tz (partsToUtc p) (partsToUtc p) div 1000"
    using assms(2) by (auto simp: parseZonedDateTime_def Let_def split: if_splits option.splits)
  define g where "g = zoneLoop 4 intl tz (partsToUtc p) (partsToUtc p)"
  note facts = validParts_facts [OF p(2)]
  have g: "g mod 1000 = 0" "partsToUtc p - 2 * msPerDay \<le> g"
    unfolding g_def using facts by (intro zoneLoop_guess [OF assms(1)]; simp add: msPerDay_def)+
  then have whole: "ts * 1000 = g" using ts unfolding g_def [symmetric] by (simp add: minus_mod_eq_div_mult [symmetric])
  let ?x = "g + zoneOffset intl tz g"
  have "partsToUtc (numericParts intl g tz) = ?x div 1000 * 1000"
    using facts(2) g(2) by (intro parts_at [OF assms(1)]) (simp add: msPerDay_def)
  then have "utcParts ?x = p" using eq facts(1) utcParts_whole [of ?x] by (simp add: g_def)
  then show ?thesis using that p whole by (simp add: numericParts_def)
qed

lemma desired_text:
  assumes "desiredParts d t = Some p"
  shows "d = pad (year p) 4 @ js ''-'' @ pad (month p) 2 @ js ''-'' @ pad (day p) 2"
    "(if length t = 5 then t @ js '':00'' else t) = pad (hour p) 2 @ js '':'' @ pad (minute p) 2 @ js '':'' @ pad (second p) 2"
proof -
  obtain y mo da h mi s where dm: "dateMatch d = Some (y, mo, da)" and tm: "timeMatch t = Some (h, mi, s)"
    and p: "p = \<lparr>day = int (digits_val da), hour = int (digits_val h), minute = int (digits_val mi), month = int (digits_val mo),
        second = (case s of Some u \<Rightarrow> int (digits_val u) | None \<Rightarrow> 0), year = int (digits_val y)\<rparr>"
    using assms by (auto simp: desiredParts_def split: option.splits)
  note dt = dateMatch_text [OF dm] and tt = timeMatch_text [OF tm]
  have two: "pad (int (digits_val x)) 2 = x" if "list_all is_digit x" "length x = 2" for x
    using pad_digits [OF that(1)] that(2) by fastforce
  have "pad (int (digits_val y)) 4 = y" using pad_digits [OF dt(5)] dt(2) by fastforce
  then show "d = pad (year p) 4 @ js ''-'' @ pad (month p) 2 @ js ''-'' @ pad (day p) 2"
    using dt by (simp add: p two)
  show "(if length t = 5 then t @ js '':00'' else t) = pad (hour p) 2 @ js '':'' @ pad (minute p) 2 @ js '':'' @ pad (second p) 2"
  proof (cases s)
    case None
    moreover have "pad 0 2 = js ''00''" by (simp add: pad_def int_str_def nat_str.simps js.simps numeral_eq_Suc)
    moreover have "js '':00'' = js '':'' @ js ''00''" by (simp flip: js_append)
    ultimately show ?thesis using tt by (simp add: p two)
  next
    case (Some u)
    then show ?thesis using tt by (simp add: p two)
  qed
qed

lemma parsed_shows:
  assumes "smallOffsets intl tz" "parseZonedDateTime intl d t tz = Some ts"
  shows "formatZonedDateTimeParts intl (Some ts) tz = \<lparr>zoned_date = d, zoned_time = (if length t = 5 then t @ js '':00'' else t)\<rparr>"
proof -
  from parse_renders [OF assms] obtain p where p: "desiredParts d t = Some p" "numericParts intl (ts * 1000) tz = p" by blast
  then show ?thesis using desired_text [OF p(1)] by (simp add: formatZonedDateTimeParts_def Let_def)
qed

lemma parsed_found:
  assumes "smallOffsets intl tz"
    and *: "isValidTimeZone intl (Some tz) \<and> desiredParts d t = Some p \<and> validParts p \<and> off mod 1000 = 0 \<and>
      (\<forall>ms. \<bar>ms - partsToUtc p\<bar> < msPerDay \<longrightarrow> zoneOffset intl tz ms = off)"
  shows "parseZonedDateTime intl d t tz = Some ((partsToUtc p - off) div 1000)"
proof -
  let ?u = "partsToUtc p"
  have facts: "0 \<le> ?u" "?u mod 1000 = 0" "off mod 1000 = 0" using * validParts_facts [of p] by simp_all
  have off: "zoneOffset intl tz ?u = off" using * by (simp add: msPerDay_def)
  then have small: "\<bar>off\<bar> < msPerDay" using assms(1) [unfolded smallOffsets_def, rule_format, of ?u] by simp
  then have off': "zoneOffset intl tz (?u - off) = off" using * by (simp add: msPerDay_def)
  have at: "partsToUtc (numericParts intl ?u tz) = ?u + off" "partsToUtc (numericParts intl (?u - off) tz) = ?u"
    using facts small parts_at [OF assms(1), of ?u] parts_at [OF assms(1), of "?u - off"] off off'
    by (simp_all add: msPerDay_def minus_mod_eq_div_mult [symmetric] mod_add_eq [symmetric])
  then have "zoneLoop 4 intl tz ?u ?u = ?u - off" by (simp add: numeral_eq_Suc Let_def)
  then show "parseZonedDateTime intl d t tz = Some ((?u - off) div 1000)"
    using * at(2) by (simp add: parseZonedDateTime_def Let_def)
qed

text \<open>C35. Entering a date and a time in a zone: an instant that is found shows in the zone exactly the date and time
  entered, and one is found whenever the offset of the zone does not change around it.\<close>

theorem zoned_roundtrip:
  assumes "smallOffsets intl tz"
  shows "(parseZonedDateTime intl d t tz = Some ts \<longrightarrow>
      formatZonedDateTimeParts intl (Some ts) tz = \<lparr>zoned_date = d, zoned_time = (if length t = 5 then t @ js '':00'' else t)\<rparr>) \<and>
    (isValidTimeZone intl (Some tz) \<and> desiredParts d t = Some p \<and> validParts p \<and> off mod 1000 = 0 \<and>
      (\<forall>ms. \<bar>ms - partsToUtc p\<bar> < msPerDay \<longrightarrow> zoneOffset intl tz ms = off) \<longrightarrow>
      parseZonedDateTime intl d t tz = Some ((partsToUtc p - off) div 1000))"
  by (intro conjI impI; (rule parsed_shows [OF assms] | rule parsed_found [OF assms]); assumption)

text \<open>A browser in Greenwich, whose local calendar days start at midnight there.\<close>

definition utcIntl :: Intl where
  "utcIntl = \<lparr>zoneValid = (\<lambda>z. z = js ''UTC''), zoneOffset = \<lambda>_ _. 0, resolvedZone = js ''UTC'',
     localTime = \<lambda>s. map_option ((*) msPerDay) (localDateFromKey (take 10 s)), timezoneOffset = \<lambda>_. 0\<rparr>"

lemma utcIntl_simps [simp]:
  "zoneOffset utcIntl z ms = 0" "zoneValid utcIntl z \<longleftrightarrow> z = js ''UTC''"
  "localTime utcIntl s = map_option ((*) msPerDay) (localDateFromKey (take 10 s))" "smallOffsets utcIntl z"
  "isValidTimeZone utcIntl (Some (js ''UTC''))"
  by (simp_all add: utcIntl_def smallOffsets_def msPerDay_def isValidTimeZone_def js.simps)

text \<open>A valid date of four digits and a time, and their instant.\<close>

lemma valid_parts:
  assumes "validDate y m d" "validTime h mi s" "1970 \<le> y" "y \<le> 9999"
  shows "validParts \<lparr>day = d, hour = h, minute = mi, month = m, second = s, year = y\<rparr>"
proof -
  have "d \<le> 31" using assms(1) daysInMonth_bounds [of m y] by (auto simp: validDate_def)
  then show ?thesis
    using assms utcParts_UTC [OF assms(1,2)] by (auto simp: validParts_def partsToUtc_def validDate_def validTime_def)
qed

theorem zoned_roundtrip_witness:
  "parseZonedDateTime utcIntl (js ''2024-02-29'') (js ''12:30'') (js ''UTC'') = Some 1709209800 \<and>
   formatZonedDateTimeParts utcIntl (Some 1709209800) (js ''UTC'') = \<lparr>zoned_date = js ''2024-02-29'', zoned_time = js ''12:30:00''\<rparr>"
proof -
  let ?p = "\<lparr>day = 29, hour = 12, minute = 30, month = 2, second = 0, year = 2024\<rparr>"
  have p: "desiredParts (js ''2024-02-29'') (js ''12:30'') = Some ?p"
    by (simp add: desiredParts_def dateMatch_def timeMatch_def js.simps substring_def is_digit_def digits_val_def Let_def)
  have valid: "validDate 2024 2 29" by (simp add: validDate_def daysInMonth_def month_eval leapYear_def)
  have utc: "partsToUtc ?p = 1709209800000"
    by (simp add: partsToUtc_def dateUTC_def makeDay_valid [OF valid] month_eval dayFromYear_def msPerDay_def)
  have parse: "parseZonedDateTime utcIntl (js ''2024-02-29'') (js ''12:30'') (js ''UTC'') = Some 1709209800"
    using zoned_roundtrip [of utcIntl "js ''UTC''" "js ''2024-02-29''" "js ''12:30''" 0 ?p 0] p utc valid_parts [OF valid, of 12 30 0]
    by (simp add: validTime_def)
  then show ?thesis
    using zoned_roundtrip [of utcIntl "js ''UTC''" "js ''2024-02-29''" "js ''12:30''" 1709209800 ?p 0] by (simp add: js.simps)
qed

end
