(* ===== verification/ListSearchProofs.thy ===== *)
theory ListSearchProofs
  imports ListSearch ConsoleDateProofs
begin

text \<open>
  Theorems about the search parameters of the console: what the parsers let through, and which ranges of dates
  survive the way into the address and back.
\<close>

section \<open>What the parsers let through\<close>

definition between :: "int \<Rightarrow> int \<Rightarrow> int option \<Rightarrow> bool" where
  "between lo hi n \<longleftrightarrow> (case n of Some k \<Rightarrow> lo \<le> k \<and> k \<le> hi | None \<Rightarrow> True)"

definition oneOf :: "'a list \<Rightarrow> 'a option \<Rightarrow> bool" where
  "oneOf allowed v \<longleftrightarrow> (case v of Some x \<Rightarrow> x \<in> set allowed | None \<Rightarrow> True)"

definition dateKey :: "jsstring option \<Rightarrow> bool" where
  "dateKey v \<longleftrightarrow> (case v of
     Some s \<Rightarrow> \<exists>y m d. validDate y m d \<and> 1000 \<le> y \<and> y \<le> 9999 \<and> s = int_str y @ js ''-'' @ pad m 2 @ js ''-'' @ pad d 2
   | None \<Rightarrow> True)"

definition keyword :: "jsstring option \<Rightarrow> bool" where
  "keyword v \<longleftrightarrow> (case v of Some s \<Rightarrow> s \<noteq> [] \<and> length s \<le> 128 \<and> \<not> is_ws (hd s) | None \<Rightarrow> True)"

lemma enum_ok: "oneOf allowed (parseEnum v allowed)"
  by (simp add: oneOf_def parseEnum_def split: jsval.splits)

lemma integer_ok: "between lo hi (integerBetween lo hi n)"
  by (simp add: between_def integerBetween_def split: jsnum.splits)

lemma page_ok: "between 1 10000 (parsePositiveInteger v)" "between 0 253402300799 (parseUnixTimestamp v)"
  by (simp_all add: parsePositiveInteger_def parseUnixTimestamp_def integer_ok)

lemma size_ok: "oneOf sizes (parsePageSize v sizes)"
  by (simp add: oneOf_def parsePageSize_def split: option.splits)

lemma trim_hd: "trim s \<noteq> [] \<Longrightarrow> \<not> is_ws (hd (trim s))"
proof -
  assume ne: "trim s \<noteq> []"
  have "dropWhile is_ws (trim s) = trim s" unfolding trim_def by (rule dropWhile_rev_dropWhile)
  then show ?thesis using ne hd_dropWhile [of is_ws "trim s"] by simp
qed

lemma keyword_ok: "keyword (parseKeyword v)"
  using trim_hd by (auto simp: keyword_def parseKeyword_def Let_def hd_take split: jsval.splits)

lemma nat_str_four: "length (nat_str n) = 4 \<Longrightarrow> 1000 \<le> n \<and> n \<le> 9999"
proof -
  assume len: "length (nat_str n) = 4"
  have step: "length (nat_str k) = (if k < 10 then 1 else length (nat_str (k div 10)) + 1)" for k
    by (subst nat_str.simps) simp
  have "length (nat_str k) \<ge> 1" for k using step [of k] by (simp split: if_splits)
  then have "k < 10 \<Longrightarrow> length (nat_str k) = 1" "10 \<le> k \<Longrightarrow> length (nat_str k) = length (nat_str (k div 10)) + 1" for k
    using step [of k] by simp_all
  note one = this
  have "\<not> n < 1000"
  proof
    assume "n < 1000"
    then have "n div 10 div 10 < 10" by simp
    then show False using len one [of n] one [of "n div 10"] one [of "n div 10 div 10"] by linarith
  qed
  moreover have "\<not> 10000 \<le> n"
  proof
    assume "10000 \<le> n"
    then have "10 \<le> n div 10" "10 \<le> n div 10 div 10" "10 \<le> n div 10 div 10 div 10" "10 \<le> n" by simp_all
    then show False
      using len one(2) [of n] one(2) [of "n div 10"] one(2) [of "n div 10 div 10"] one(2) [of "n div 10 div 10 div 10"]
        step [of "n div 10 div 10 div 10 div 10"] by (simp split: if_splits)
  qed
  ultimately show ?thesis by simp
qed

lemma int_str_digits: "0 \<le> i \<Longrightarrow> list_all is_digit (int_str i)"
  using nat_str_digits by (simp add: int_str_def list_all_iff)

lemma dateKey_ok: "dateKey (parseDateKey v)"
proof (cases "parseDateKey v")
  case (Some k)
  then obtain y mo d where "dateMatch k = Some (y, mo, d)" and key: "localDateToKey (localDateFromKey k) = k"
    by (auto simp: parseDateKey_def split: jsval.splits if_splits)
  note k = dateMatch_text [OF this(1)]
  then have hd: "is_digit (hd k)" by (cases y) auto
  then obtain n where n: "localDateFromKey k = Some n"
    using key by (cases "localDateFromKey k") (auto simp: localDateToKey_def js.simps is_digit_def)
  let ?y = "yearFromDay n"
  have text_n: "k = int_str ?y @ js ''-'' @ pad (monthFromDay n) 2 @ js ''-'' @ pad (dateFromDay n) 2"
    using key n by (simp add: localDateToKey_def)
  have nonneg: "0 \<le> ?y" using hd text_n by (cases "?y < 0") (auto simp: int_str_def js.simps is_digit_def)
  have "takeWhile is_digit k = y" using k by (simp add: js.simps takeWhile_append is_digit_def list_all_iff)
  moreover have "takeWhile is_digit k = int_str ?y"
    using text_n int_str_digits [OF nonneg] by (simp add: js.simps takeWhile_append is_digit_def list_all_iff)
  ultimately have "length (nat_str (nat ?y)) = 4" using k(2) nonneg by (simp add: int_str_def)
  then have "1000 \<le> ?y" "?y \<le> 9999" using nat_str_four [of "nat ?y"] nonneg by linarith+
  then show ?thesis using text_n Some makeDay_of_fields(1) [of n] unfolding dateKey_def by auto
qed (simp add: dateKey_def)


definition dateRangeTyped :: "'a DateRangeSearch_scheme \<Rightarrow> bool" where
  "dateRangeTyped s \<longleftrightarrow> dateKey (search_from s) \<and> oneOf dateRangePresets (search_range s) \<and> dateKey (search_to s)"

definition rangeListTyped :: "int list \<Rightarrow> 'a RangeListSearch_scheme \<Rightarrow> bool" where
  "rangeListTyped sizes s \<longleftrightarrow> dateRangeTyped s \<and> oneOf [js ''asc'', js ''desc''] (range_order s) \<and> between 1 10000 (range_page s) \<and>
     oneOf sizes (range_pageSize s)"

definition apiKeyTyped :: "ApiKeySearch \<Rightarrow> bool" where
  "apiKeyTyped s \<longleftrightarrow> oneOf [js ''asc'', js ''desc''] (order s) \<and> between 1 10000 (page s) \<and> oneOf [10, 20, 50, 100] (pageSize s) \<and>
     between 1 10000 (key_detail s) \<and> keyword (key_q s) \<and>
     oneOf [js ''all'', js ''active'', js ''disabled'', js ''expired'', js ''exhausted''] (key_status s)"

definition exactRangeTyped :: "Intl \<Rightarrow> RequestLogSearch \<Rightarrow> bool" where
  "exactRangeTyped intl s \<longleftrightarrow> (case (log_start s, log_end s) of
     (Some a, Some b) \<Rightarrow> 0 \<le> a \<and> a \<le> b \<and> b \<le> 253402300799 \<and> (tz s = None \<or> isValidTimeZone intl (tz s))
   | (None, None) \<Rightarrow> tz s = None
   | _ \<Rightarrow> False)"

definition requestLogTyped :: "Intl \<Rightarrow> RequestLogSearch \<Rightarrow> bool" where
  "requestLogTyped intl s \<longleftrightarrow> rangeListTyped [10, 20, 50, 100] s \<and> keyword (log_detail s) \<and> (log_detail s = None \<longrightarrow> detailTab s = None) \<and>
     oneOf [js ''overview'', js ''usage'', js ''diagnostics''] (detailTab s) \<and>
     oneOf [js ''request'', js ''service_trace'', js ''model'', js ''api_key''] (field s) \<and> keyword (log_q s) \<and>
     oneOf [js ''all'', js ''succeeded'', js ''failed''] (log_status s) \<and> exactRangeTyped intl s"

definition billingTyped :: "BillingSearch \<Rightarrow> bool" where
  "billingTyped s \<longleftrightarrow> rangeListTyped [10, 20, 50, 100] s \<and> keyword (bill_detail s) \<and> keyword (ledgerDetail s) \<and>
     (bill_detail s = None \<or> ledgerDetail s = None) \<and>
     oneOf [js ''asc'', js ''desc''] (ledgerOrder s) \<and> between 1 10000 (ledgerPage s) \<and> oneOf [10, 20, 50, 100] (ledgerPageSize s) \<and>
     oneOf [js ''all'', js ''topup'', js ''refund''] (ledgerType s) \<and> keyword (bill_q s) \<and>
     oneOf [js ''all'', js ''completed'', js ''pending'', js ''failed'', js ''expired''] (bill_status s) \<and>
     oneOf [js ''history'', js ''ledger'', js ''plans''] (bill_tab s) \<and> oneOf [js ''all'', js ''topup'', js ''subscription''] (bill_type s)"

definition modelTyped :: "ModelSearch \<Rightarrow> bool" where
  "modelTyped s \<longleftrightarrow> oneOf [js ''all'', js ''available''] (availability s) \<and> keyword (model_detail s) \<and>
     oneOf [js ''chat'', js ''reasoning'', js ''embedding'', js ''image'', js ''audio'', js ''video'', js ''unknown''] (family s) \<and>
     oneOf [js ''asc'', js ''desc''] (model_order s) \<and> keyword (model_q s) \<and>
     oneOf [js ''capabilities'', js ''context'', js ''inputPrice'', js ''model'', js ''outputPrice'', js ''status'', js ''type''] (model_sort s)"

lemmas value_ok = enum_ok page_ok size_ok keyword_ok dateKey_ok

lemma range_ok: "dateRangeTyped (parseDateRangeSearch v)"
  by (simp add: dateRangeTyped_def parseDateRangeSearch_def value_ok)

lemma rangeList_ok: "rangeListTyped sizes (RangeListSearch.extend (rangeList v sizes) ext)"
  using range_ok [of v]
  by (simp add: rangeListTyped_def dateRangeTyped_def rangeList_def RangeListSearch.defs DateRangeSearch.defs orders_def
    value_ok)

definition activityTyped :: "AccountActivitySearch \<Rightarrow> bool" where
  "activityTyped s \<longleftrightarrow> rangeListTyped [10, 20, 50, 100] s \<and> keyword (activity_detail s) \<and>
     oneOf [js ''all'', js ''management'', js ''system'', js ''login''] (activity_type s)"

definition taskTyped :: "TaskSearch \<Rightarrow> bool" where
  "taskTyped s \<longleftrightarrow> rangeListTyped [12, 24, 48] s \<and> keyword (task_detail s) \<and>
     oneOf [js ''all'', js ''queued'', js ''processing'', js ''succeeded'', js ''failed'', js ''cancelled'', js ''expired''] (task_status s) \<and>
     oneOf [js ''all'', js ''image'', js ''video'', js ''audio''] (task_type s)"

lemma none_ok: "keyword None" "oneOf allowed None"
  by (simp_all add: keyword_def oneOf_def)

lemma apiKey_typed: "apiKeyTyped (parseApiKeySearch v)"
  by (simp add: apiKeyTyped_def parseApiKeySearch_def orders_def defaultPageSizes_def value_ok)

lemma activity_typed: "activityTyped (parseAccountActivitySearch v)"
  unfolding activityTyped_def
proof (intro conjI)
  show "rangeListTyped [10, 20, 50, 100] (parseAccountActivitySearch v)"
    unfolding parseAccountActivitySearch_def defaultPageSizes_def by (rule rangeList_ok)
qed (simp_all add: parseAccountActivitySearch_def RangeListSearch.defs value_ok)

lemma task_typed: "taskTyped (parseTaskSearch v)"
  unfolding taskTyped_def
proof (intro conjI)
  show "rangeListTyped [12, 24, 48] (parseTaskSearch v)" unfolding parseTaskSearch_def by (rule rangeList_ok)
qed (simp_all add: parseTaskSearch_def RangeListSearch.defs value_ok)

lemma billing_typed: "billingTyped (parseBillingSearch v)"
  unfolding billingTyped_def
proof (intro conjI)
  show "rangeListTyped [10, 20, 50, 100] (parseBillingSearch v)"
    unfolding parseBillingSearch_def Let_def defaultPageSizes_def by (rule rangeList_ok)
qed (simp_all add: parseBillingSearch_def Let_def RangeListSearch.defs value_ok none_ok orders_def defaultPageSizes_def)

lemma model_typed: "modelTyped (parseModelSearch v)"
  by (simp add: modelTyped_def parseModelSearch_def orders_def value_ok)

lemma exact_typed: "exactRangeTyped intl (parseRequestLogSearch intl v)"
  using page_ok(2) [of "get_prop v (js ''start'')"] page_ok(2) [of "get_prop v (js ''end'')"]
  by (auto simp: exactRangeTyped_def parseRequestLogSearch_def RangeListSearch.defs Let_def between_def parseTimeZone_def
    split: option.splits jsval.splits)

lemma requestLog_typed: "requestLogTyped intl (parseRequestLogSearch intl v)"
  unfolding requestLogTyped_def
proof (intro conjI)
  show "exactRangeTyped intl (parseRequestLogSearch intl v)" by (rule exact_typed)
  show "rangeListTyped [10, 20, 50, 100] (parseRequestLogSearch intl v)"
    unfolding parseRequestLogSearch_def Let_def defaultPageSizes_def by (rule rangeList_ok)
qed (simp_all add: parseRequestLogSearch_def Let_def RangeListSearch.defs value_ok none_ok)

text \<open>C33. Whatever the address of a page holds, a list works with search parameters of their types: pages between 1
  and 10000, sizes, orders and filters among those offered, dates that exist, keywords of at most 128 units that do not
  start with a blank, and exact times that come in pairs, in order and with a zone that exists.\<close>

theorem search_typed:
  "apiKeyTyped (parseApiKeySearch v) \<and> requestLogTyped intl (parseRequestLogSearch intl v) \<and>
   activityTyped (parseAccountActivitySearch v) \<and> taskTyped (parseTaskSearch v) \<and> billingTyped (parseBillingSearch v) \<and>
   modelTyped (parseModelSearch v) \<and> dateRangeTyped (parseUsageSearch v) \<and> dateRangeTyped (parseOverviewSearch v) \<and>
   keyword (parsePlaygroundSearch v)"
  by (simp add: apiKey_typed requestLog_typed activity_typed task_typed billing_typed model_typed range_ok keyword_ok
    parseUsageSearch_def parseOverviewSearch_def parsePlaygroundSearch_def)

section \<open>Ranges in the address\<close>

lemma parse_text: "parseEnum (JStr s) allowed = (if s \<in> set allowed then Some s else None)"
  by (simp add: parseEnum_def)

text \<open>An address that carries the parameters of a patch.\<close>

definition textOf :: "jsstring option \<Rightarrow> jsval" where
  "textOf s = (case s of Some t \<Rightarrow> JStr t | None \<Rightarrow> JUndef)"

definition carries :: "jsval \<Rightarrow> DateRangeSearch \<Rightarrow> bool" where
  "carries address s \<longleftrightarrow> get_prop address (js ''from'') = textOf (search_from s) \<and>
     get_prop address (js ''range'') = textOf (search_range s) \<and> get_prop address (js ''to'') = textOf (search_to s)"

lemma custom_range:
  assumes "createCustomDateRange intl a b = Some r"
  shows "preset r = js ''custom''" "range_from r = a" "range_to r = b" "a \<noteq> []" "b \<noteq> []"
    "r = \<lparr>preset = js ''custom'', range_from = a, range_to = b, endTimestamp = None, startTimestamp = None, timeZone = None\<rparr>"
  using assms by (auto simp: createCustomDateRange_def Let_def split: if_splits)

lemma preset_range: "preset (createDateRange p today) = p"
  by (simp add: createDateRange_def Let_def)

lemma parsed_keys:
  "search_from (parseDateRangeSearch raw) = Some a \<Longrightarrow> parseDateKey (JStr a) = Some a"
  "search_to (parseDateRangeSearch raw) = Some b \<Longrightarrow> parseDateKey (JStr b) = Some b"
  by (auto simp: parseDateRangeSearch_def parseDateKey_def split: jsval.splits if_splits)

text \<open>What a resolved range is: an accepted pair of dates from the address, or a preset.\<close>

lemma resolved_cases:
  assumes "resolveDateRange intl (parseDateRangeSearch raw) fallback today = r"
  obtains (custom) a b where "createCustomDateRange intl a b = Some r" "parseDateKey (JStr a) = Some a" "parseDateKey (JStr b) = Some b"
  | (named) p where "r = createDateRange p today" "p = fallback \<or> p \<in> set dateRangePresets \<and> p \<noteq> js ''custom'' \<and> p \<noteq> []"
proof (cases "search_range (parseDateRangeSearch raw)")
  case None
  then show ?thesis using assms named [of fallback] by (simp add: resolveDateRange_def Let_def)
next
  case (Some p)
  then have p: "p \<in> set dateRangePresets"
    by (auto simp: parseDateRangeSearch_def parseEnum_def split: jsval.splits if_splits)
  show ?thesis
  proof (cases "p = js ''custom''")
    case True
    then show ?thesis
      using Some assms custom named [of fallback] parsed_keys [of raw]
      by (auto simp: resolveDateRange_def truthyText_def Let_def split: option.splits if_splits)
  next
    case False
    moreover have "p \<noteq> []" using p by (auto simp: dateRangePresets_def js.simps)
    ultimately show ?thesis using Some assms p named [of p] by (simp add: resolveDateRange_def Let_def)
  qed
qed

text \<open>C34. A range of dates in the address of a page: when the range that the page has resolved is written to the
  address, reading the address gives the same range, whichever address it came from.\<close>

theorem date_range_roundtrip:
  assumes "fallback \<in> set dateRangePresets" "fallback \<noteq> js ''custom''"
    and "carries address (dateRangeSearchPatch (resolveDateRange intl (parseDateRangeSearch raw) fallback today) fallback)"
  shows "resolveDateRange intl (parseDateRangeSearch address) fallback today = resolveDateRange intl (parseDateRangeSearch raw) fallback today"
proof -
  define r where "r = resolveDateRange intl (parseDateRangeSearch raw) fallback today"
  have carried: "carries address (dateRangeSearchPatch r fallback)" using assms(3) by (simp add: r_def)
  have "resolveDateRange intl (parseDateRangeSearch address) fallback today = r"
    using r_def [symmetric]
  proof (cases rule: resolved_cases)
    case (custom a b)
    then show ?thesis
      using carried custom_range [OF custom(1)]
      by (simp add: carries_def dateRangeSearchPatch_def textOf_def parseDateRangeSearch_def parse_text resolveDateRange_def
        truthyText_def dateRangePresets_def)
  next
    case (named p)
    then have p: "p \<in> set dateRangePresets" "p \<noteq> js ''custom''" "p \<noteq> []"
      using assms(1,2) by (auto simp: dateRangePresets_def js.simps)
    have "get_prop address (js ''range'') = textOf (if p = fallback then None else Some p)"
      using carried p(2) by (simp add: carries_def dateRangeSearchPatch_def named(1) preset_range)
    then have "search_range (parseDateRangeSearch address) = (if p = fallback then None else Some p)"
      using p(1) by (simp add: textOf_def parseDateRangeSearch_def parseEnum_def)
    then show ?thesis using p(2,3) by (simp add: named(1) resolveDateRange_def Let_def)
  qed
  then show ?thesis by (simp add: r_def)
qed

theorem date_range_roundtrip_witness:
  "let address = JObj [(js ''range'', JStr (js ''7d''))]; intl = \<lparr>zoneValid = \<lambda>_. True, zoneOffset = \<lambda>_ _. 0, resolvedZone = js ''UTC'', localTime = \<lambda>_. None, timezoneOffset = \<lambda>_. 0\<rparr> in
   resolveDateRange intl (parseDateRangeSearch address) (js ''30d'') 20000 =
     resolveDateRange intl (parseDateRangeSearch (JObj [(js ''range'', JStr (js ''7d'')), (js ''from'', JStr (js ''x''))])) (js ''30d'') 20000"
  unfolding Let_def
  by (rule date_range_roundtrip)
    (simp_all add: dateRangePresets_def js.simps carries_def dateRangeSearchPatch_def resolveDateRange_def parseDateRangeSearch_def parseEnum_def
      createDateRange_def textOf_def parseDateKey_def dateMatch_def Let_def)

lemma exact_range:
  assumes "smallOffsets intl z" "parseZonedDateTime intl (range_from base) st z = Some s" "parseZonedDateTime intl (range_to base) et z = Some e"
  shows "withExactTimeRange intl base st et z = base\<lparr>endTimestamp := Some e, startTimestamp := Some s, timeZone := Some z\<rparr>"
    "zoned_date (formatZonedDateTimeParts intl (Some s) z) = range_from base"
    "zoned_date (formatZonedDateTimeParts intl (Some e) z) = range_to base"
    "isValidTimeZone intl (Some z)"
proof -
  show "isValidTimeZone intl (Some z)" using assms(2) by (auto simp: parseZonedDateTime_def split: if_splits)
qed (simp_all add: withExactTimeRange_def assms(2,3) parsed_shows [OF assms(1,2)] parsed_shows [OF assms(1,3)])

text \<open>A range of the request log in the address: the dates, the exact times and the zone come back, for a
  range that the calendar accepts and whose times exist in the zone.  The name of the range comes back unless it is the
  default of the page: the patch leaves the default out, and the exact times make it a custom range.\<close>

lemma request_log_range_roundtrip:
  assumes "smallOffsets intl z" "createCustomDateRange intl (range_from base) (range_to base) \<noteq> None"
    and "parseZonedDateTime intl (range_from base) st z = Some s" "parseZonedDateTime intl (range_to base) et z = Some e" "s \<le> e"
  shows "resolveRequestLogRange intl (mergeRangePatch (requestLogRangeSearchPatch (withExactTimeRange intl base st et z) fallback) search) fallback referenceMs =
    (withExactTimeRange intl base st et z)\<lparr>preset := if preset base = fallback then js ''custom'' else preset base\<rparr>"
proof -
  obtain c where c: "createCustomDateRange intl (range_from base) (range_to base) = Some c" using assms(2) by blast
  note exact = exact_range [OF assms(1,3,4)]
  show ?thesis
    using custom_range(6) [OF c] assms(5)
    by (simp add: exact c resolveRequestLogRange_def mergeRangePatch_def requestLogRangeSearchPatch_def Let_def)
qed

lemma leap_day: "validDate 2024 2 29" "makeDay 2024 2 29 = 19782"
proof -
  show valid: "validDate 2024 2 29" by (simp add: validDate_def daysInMonth_def month_eval leapYear_def)
  show "makeDay 2024 2 29 = 19782" by (simp add: makeDay_valid [OF valid] month_eval dayFromYear_def)
qed

lemma leap_day_key: "localDateFromKey (js ''2024-02-29'') = Some 19782" "localDateToKey (Some 19782) = js ''2024-02-29''"
proof -
  have "jsNumber [50, 48, 50, 52] = Num 2024" "jsNumber [48, 50] = Num 2" "jsNumber [50, 57] = Num 29"
    using jsNumber_digits [of "[50, 48, 50, 52]"] jsNumber_digits [of "[48, 50]"] jsNumber_digits [of "[50, 57]"]
    by (simp_all add: is_digit_def digits_val_def)
  then show "localDateFromKey (js ''2024-02-29'') = Some 19782"
    by (simp add: localDateFromKey_def js.simps substring_def newLocalDate_def truncated_def numPred_def leap_day(2))
  show "localDateToKey (Some 19782) = js ''2024-02-29''"
    using fields_of_makeDay [OF leap_day(1)]
    by (simp add: localDateToKey_def leap_day(2) pad_def int_str_def nat_str.simps js.simps)
qed

lemma leap_day_instants:
  "parseZonedDateTime utcIntl (js ''2024-02-29'') (js ''00:00:00'') (js ''UTC'') = Some 1709164800"
  "parseZonedDateTime utcIntl (js ''2024-02-29'') (js ''23:59:59'') (js ''UTC'') = Some 1709251199"
proof -
  have p: "desiredParts (js ''2024-02-29'') (js ''00:00:00'') = Some \<lparr>day = 29, hour = 0, minute = 0, month = 2, second = 0, year = 2024\<rparr>"
    "desiredParts (js ''2024-02-29'') (js ''23:59:59'') = Some \<lparr>day = 29, hour = 23, minute = 59, month = 2, second = 59, year = 2024\<rparr>"
    by (simp_all add: desiredParts_def dateMatch_def timeMatch_def js.simps substring_def is_digit_def digits_val_def Let_def)
  have found: "parseZonedDateTime utcIntl d t (js ''UTC'') = Some (partsToUtc p div 1000)"
    if "desiredParts d t = Some p" "validParts p" for d t p
    using parsed_found [of utcIntl "js ''UTC''" d t p 0] that by simp
  show "parseZonedDateTime utcIntl (js ''2024-02-29'') (js ''00:00:00'') (js ''UTC'') = Some 1709164800"
    using found [OF p(1)] valid_parts [OF leap_day(1), of 0 0 0]
    by (simp add: validTime_def partsToUtc_def dateUTC_def leap_day(2) msPerDay_def)
  show "parseZonedDateTime utcIntl (js ''2024-02-29'') (js ''23:59:59'') (js ''UTC'') = Some 1709251199"
    using found [OF p(2)] valid_parts [OF leap_day(1), of 23 59 59]
    by (simp add: validTime_def partsToUtc_def dateUTC_def leap_day(2) msPerDay_def)
qed

end
