(* ===== verification/DemoTypes.thy ===== *)
theory DemoTypes
  imports ConsoleDates KeyedFold
begin

text \<open>
  Types of the console's data layer that the demonstration repository uses, from
  \<open>src/frontend/apps/console/src/data/contracts.ts\<close>, and the state of that repository.  A value that may be null or
  absent is an option.  Amounts of money and rates are exact fractions.  Of the records of the request log the fields
  are those that the repository fills.
\<close>

section \<open>Enumerations\<close>

datatype SortOrder = Asc | Desc
datatype ApiKeyStatus = Active | Disabled | Expired | Exhausted | UnknownStatus
datatype Environment = Development | Staging | Production | Unclassified
datatype RequestStatus = Succeeded | Failed | Processing
datatype SearchField = ByRequest | ByServiceTrace | ByModel | ByApiKey
datatype AccountActivityType = Management | System | Login
datatype TaskStatus = TaskQueued | TaskProcessing | TaskSucceeded | TaskFailed | TaskCancelled | TaskExpired | TaskUnknown
datatype TaskType = ImageTask | VideoTask | AudioTask | UnknownTask
datatype TransactionType = Topup | Redeem | Usage | Subscription
datatype TransactionStatus = Completed | Pending | TransactionFailed | TransactionExpired
datatype BillingLedgerEntryType = LedgerTopup | LedgerRefund
datatype NotificationChannel = Bark | Email | Gotify | Webhook
datatype PaymentType = Balance | Creem | Epay | Stripe | WaffoPancake

text \<open>A filter of a list: \<open>all\<close>, or one value.\<close>

datatype 'a choice = All | Only 'a

definition admits :: "'a choice \<Rightarrow> 'a \<Rightarrow> bool" where
  "admits c x \<longleftrightarrow> (case c of All \<Rightarrow> True | Only y \<Rightarrow> x = y)"

section \<open>Users, keys and accounts\<close>

record ConsoleUser =
  user_id :: int
  username :: jsstring
  usernameEditable :: bool
  passwordSet :: bool
  displayName :: jsstring
  email :: jsstring
  user_group :: jsstring
  role :: int
  quotaUnits :: int
  usedQuotaUnits :: int
  requestCount :: int
  user_createdAt :: "int option"

record ConsoleSession =
  user :: ConsoleUser
  accessToken :: "jsstring option"
  accessExpiresAt :: "int option"
  sessionId :: "jsstring option"

record ApiKeyRecord =
  key_id :: int
  key_name :: jsstring
  maskedKey :: jsstring
  key_status :: ApiKeyStatus
  key_createdAt :: int
  lastUsedAt :: "int option"
  key_expiresAt :: "int option"
  unlimitedQuota :: bool
  remainingQuotaUsd :: rat
  usedQuotaUsd :: rat
  key_group :: jsstring
  environment :: Environment
  allowedModels :: "jsstring list"
  allowedIps :: "jsstring list"

text \<open>The input of a change has the fields of a new key and an identifier; what the source calls \<open>quotaUsd\<close> for a new key and
  \<open>remainingQuotaUsd\<close> for a change is the one field \<open>new_quotaUsd\<close>.\<close>

record CreateApiKeyInput =
  new_name :: jsstring
  new_expiresAt :: "int option"
  new_unlimitedQuota :: bool
  new_quotaUsd :: rat
  new_group :: jsstring
  new_environment :: Environment
  new_allowedModels :: "jsstring list"
  new_allowedIps :: "jsstring list"

record UpdateApiKeyInput = CreateApiKeyInput +
  upd_id :: int

record AccountPreferences =
  balanceWarningThresholdUsd :: "rat option"
  barkUrl :: jsstring
  gotifyPriority :: int
  gotifyToken :: jsstring
  gotifyTokenConfigured :: bool
  gotifyUrl :: jsstring
  notificationEmail :: jsstring
  recordIpForced :: bool
  recordIpLog :: bool
  notifyType :: "NotificationChannel option"
  webhookSecret :: jsstring
  webhookSecretConfigured :: bool
  webhookUrl :: jsstring

record LoginSessionRecord =
  login_id :: jsstring
  current :: bool
  login_method :: jsstring
  ip :: jsstring
  login_userAgent :: jsstring
  login_createdAt :: int
  lastActiveAt :: int
  login_expiresAt :: int

datatype VerificationMethod = TwoFactor | Passkey | Password

record AccountSecurity =
  backupCodesRemaining :: "int option"
  passkeyEnabled :: bool
  passkeyLastUsedAt :: "int option"
  twoFactorEnabled :: bool
  twoFactorLocked :: bool
  emailBound :: bool
  evmWalletAddress :: "jsstring option"
  evmWalletEnabled :: bool
  evmWalletLastUsedAt :: "int option"
  evmWalletRemovable :: bool
  evmWalletVerificationMethod :: "VerificationMethod option"

record AccountData =
  account_user :: ConsoleUser
  preferences :: AccountPreferences
  security :: AccountSecurity
  sessions :: "LoginSessionRecord list"

section \<open>Lists\<close>

record PaginationInput =
  page :: int
  pageSize :: int
  order :: SortOrder

record 'a PaginatedResult =
  items :: "'a list"
  result_page :: int
  result_pageSize :: int
  total :: int

record ApiKeyListInput = PaginationInput +
  key_keyword :: jsstring
  key_filter :: "ApiKeyStatus choice"

record RequestLogAnalyticsInput =
  log_keyword :: jsstring
  log_range :: DateRangeValue
  searchField :: SearchField
  log_filter :: "RequestStatus choice"

record RequestLogToolSurcharge =
  surcharge_name :: jsstring
  surcharge_count :: int
  unitPrice :: rat
  surcharge_totalCost :: rat

record RequestLogRecord =
  log_id :: jsstring
  serviceTraceId :: "jsstring option"
  sourceIp :: "jsstring option"
  endpoint :: "jsstring option"
  model :: "jsstring option"
  apiKeyName :: "jsstring option"
  createdAt :: int
  status :: RequestStatus
  statusCode :: "int option"
  inputTokens :: int
  inputTokensTotal :: "int option"
  outputTokens :: int
  cacheReadTokens :: "int option"
  cacheWrite5mTokens :: "int option"
  textInputTokens :: "int option"
  textOutputTokens :: "int option"
  toolSurcharges :: "RequestLogToolSurcharge list option"
  latencyMs :: "int option"
  cost :: rat
  billingSource :: "jsstring option"
  billingStage :: "jsstring option"
  estimatedCost :: "rat option"
  preConsumedCost :: "rat option"
  finalCost :: "rat option"
  adjustmentCost :: "rat option"
  usageCountSource :: "jsstring option"
  usageSemantic :: "jsstring option"
  errorCode :: "jsstring option"
  errorMessage :: "jsstring option"

record RequestLogAnalyticsPoint =
  bucketStart :: int
  point_bucketSeconds :: int
  succeeded :: int
  failed :: int
  rpm :: rat
  tpm :: rat
  tokens :: int
  point_cost :: rat
  cacheHitTokens :: int
  cacheHitRate :: "rat option"

record RequestLogAnalytics =
  analytics_requestCount :: int
  failureCount :: int
  failureRate :: "rat option"
  peakRpm :: int
  peakTpm :: int
  totalTokens :: int
  totalCost :: rat
  total_cacheHitTokens :: int
  total_cacheHitRate :: "rat option"
  series :: "RequestLogAnalyticsPoint list"

record AccountActivityRecord =
  activity_id :: jsstring
  activity_eventId :: "jsstring option"
  activity_type :: AccountActivityType
  activity_createdAt :: int
  activity_content :: "jsstring option"
  activity_action :: "jsstring option"
  parameters :: "(jsstring \<times> jsstring) list option"
  activity_sourceIp :: "jsstring option"
  loginMethod :: "jsstring option"
  activity_userAgent :: "jsstring option"

record TaskMetadata =
  durationSeconds :: "int option"
  resolution :: "jsstring option"
  aspectRatio :: "jsstring option"
  outputCount :: "int option"
  quality :: "jsstring option"
  voice :: "jsstring option"
  format :: "jsstring option"

record TaskRecord =
  task_id :: jsstring
  task_type :: TaskType
  task_model :: "jsstring option"
  prompt :: jsstring
  platform :: "jsstring option"
  task_action :: "jsstring option"
  task_status :: TaskStatus
  progress :: "int option"
  task_createdAt :: int
  startedAt :: "int option"
  updatedAt :: "int option"
  completedAt :: "int option"
  failureReason :: "jsstring option"
  resultUrl :: "jsstring option"
  task_cost :: rat
  metadata :: TaskMetadata

record BillingLedgerEntry =
  ledger_id :: jsstring
  ledger_eventId :: "jsstring option"
  ledger_type :: BillingLedgerEntryType
  ledger_createdAt :: int
  ledger_content :: "jsstring option"
  ledger_sourceIp :: "jsstring option"
  amountUsd :: "rat option"
  ledger_model :: "jsstring option"
  ledger_apiKeyName :: "jsstring option"
  taskId :: "jsstring option"

section \<open>Billing\<close>

record BillingTransaction =
  transaction_id :: jsstring
  transaction_type :: TransactionType
  amount :: rat
  transaction_status :: TransactionStatus
  transaction_createdAt :: int
  description :: "jsstring option"

record BillingTransactionListInput = PaginationInput +
  transaction_keyword :: jsstring
  transaction_range :: DateRangeValue
  status_filter :: "TransactionStatus choice"
  type_filter :: "TransactionType choice"

record SubscriptionPaymentMethod =
  method_id :: jsstring
  method_name :: jsstring
  method_type :: PaymentType
  paymentMethod :: "jsstring option"

record SubscriptionPlan =
  plan_id :: int
  plan_name :: jsstring
  price :: rat
  currency :: jsstring
  interval :: jsstring
  durationUnit :: jsstring
  durationValue :: int
  quotaUsd :: rat
  plan_unlimitedQuota :: bool
  quotaResetPeriod :: jsstring
  features :: "jsstring list"
  plan_current :: bool
  purchaseCount :: int
  purchaseLimit :: int
  paymentMethods :: "SubscriptionPaymentMethod list"

record BillingData =
  balance :: rat
  totalUsage :: rat
  monthSpend :: "rat option"
  pendingAmount :: "rat option"
  billing_currency :: jsstring
  transactions :: "BillingTransaction list"
  plans :: "SubscriptionPlan list"

record RechargeProduct =
  product_id :: jsstring
  product_name :: jsstring
  product_price :: rat
  creditUsd :: rat
  product_currency :: jsstring

text \<open>The state of the module: its variables, the two collections of subscriptions, and the records that its lists
  are made from.\<close>

record DemoState =
  demoSession :: "ConsoleSession option"
  apiKeys :: "ApiKeyRecord list"
  nextApiKeyId :: int
  demoBalance :: rat
  demoCurrentPlanIds :: "int list"
  demoSubscriptionPurchases :: "(int \<times> int) list"
  account :: AccountData
  tasks :: "TaskRecord list"
  requestLogs :: "RequestLogRecord list"
  accountActivity :: "AccountActivityRecord list"
  billingLedger :: "BillingLedgerEntry list"
  loadedAt :: int

text \<open>What the language and the browser provide: letter case, dates, and the clock at a call in milliseconds.\<close>

record DemoEnv =
  lowerCase :: "jsstring \<Rightarrow> jsstring"
  upperCase :: "jsstring \<Rightarrow> jsstring"
  browser :: Intl
  dateNow :: int

type_synonym 'a outcome = "jsstring + 'a"

end
