(* ===== verification/DemoData.thy ===== *)
theory DemoData
  imports DemoTypes
begin

text \<open>
  The records that the demonstration repository starts with,
  \<open>src/frontend/apps/console/src/data/demo-repository.ts\<close>, relative to the second at which its module was loaded.
  The unit of the cost of a task, which has one value only, is left out.
\<close>

definition demoApiKeys :: "int \<Rightarrow> ApiKeyRecord list" where
  "demoApiKeys now = [
     \<lparr>key_id = 1, key_name = js ''Production app'', maskedKey = js ''sk-live-'' @ replicate 8 8226 @ js ''a82f'', key_status = Active,
      key_createdAt = now - 86400 * 16, lastUsedAt = Some (now - 3600 * 4), key_expiresAt = Some (now + 86400 * 120), unlimitedQuota = False,
      remainingQuotaUsd = 75, usedQuotaUsd = 25, key_group = js ''default'', environment = Production, allowedModels = [js ''gpt-5'',
      js ''claude-sonnet-4''], allowedIps = [js ''203.0.113.0/24'']\<rparr>,
     \<lparr>key_id = 2, key_name = js ''Local development'', maskedKey = js ''sk-test-'' @ replicate 8 8226 @ js ''c41b'', key_status = Active,
      key_createdAt = now - 86400 * 3, lastUsedAt = None, key_expiresAt = None, unlimitedQuota = True, remainingQuotaUsd = 0, usedQuotaUsd = 21 / 5,
      key_group = js ''auto'', environment = Development, allowedModels = [], allowedIps = []\<rparr>,
     \<lparr>key_id = 3, key_name = js ''Legacy integration'', maskedKey = js ''sk-live-'' @ replicate 8 8226 @ js ''73de'', key_status = Disabled,
      key_createdAt = now - 86400 * 75, lastUsedAt = Some (now - 86400 * 9), key_expiresAt = Some (now + 86400 * 4), unlimitedQuota = False,
      remainingQuotaUsd = 6 / 5, usedQuotaUsd = 494 / 5, key_group = js ''default'', environment = Production, allowedModels = [js ''gpt-4o''],
      allowedIps = []\<rparr>]"

definition demoTasks :: "int \<Rightarrow> TaskRecord list" where
  "demoTasks now = [
     \<lparr>task_id = js ''task_img_8fa12'', task_type = ImageTask, task_model = Some (js ''imagen-4''),
      prompt = js ''A modern API operations center at night'', platform = Some (js ''Google''), task_action = Some (js ''image.generate''),
      task_status = TaskSucceeded, progress = Some 100, task_createdAt = now - 3600, startedAt = Some (now - 3596), updatedAt = Some (now - 3500),
      completedAt = Some (now - 3500), failureReason = None, resultUrl = Some (js ''https://example.com/results/task_img_8fa12.png''),
      task_cost = 2 / 25, metadata = \<lparr>durationSeconds = None, resolution = Some (js ''1024'' @ [215] @ js ''1024''),
      aspectRatio = Some (js ''1:1''), outputCount = Some 1, quality = Some (js ''HD''), voice = None, format = Some (js ''PNG'')\<rparr>\<rparr>,
     \<lparr>task_id = js ''task_vid_29c71'', task_type = VideoTask, task_model = Some (js ''veo-3''),
      prompt = js ''Slow camera orbit around a glass data sculpture'', platform = Some (js ''Google''), task_action = Some (js ''video.generate''),
      task_status = TaskProcessing, progress = Some 64, task_createdAt = now - 900, startedAt = Some (now - 882), updatedAt = Some (now - 30),
      completedAt = None, failureReason = None, resultUrl = None, task_cost = 21 / 50, metadata = \<lparr>durationSeconds = Some 8,
      resolution = Some (js ''1920'' @ [215] @ js ''1080''), aspectRatio = Some (js ''16:9''), outputCount = Some 1, quality = Some (js ''1080p''),
      voice = None, format = Some (js ''MP4'')\<rparr>\<rparr>,
     \<lparr>task_id = js ''task_audio_11bd2'', task_type = AudioTask, task_model = Some (js ''gpt-4o-mini-tts''),
      prompt = js ''Product onboarding narration'', platform = Some (js ''OpenAI''), task_action = Some (js ''audio.speech''),
      task_status = TaskQueued, progress = Some 12, task_createdAt = now - 240, startedAt = None, updatedAt = Some (now - 120), completedAt = None,
      failureReason = None, resultUrl = None, task_cost = 3 / 100, metadata = \<lparr>durationSeconds = Some 42, resolution = None,
      aspectRatio = None, outputCount = Some 1, quality = None, voice = Some (js ''alloy''), format = Some (js ''MP3'')\<rparr>\<rparr>,
     \<lparr>task_id = js ''task_img_4ed93'', task_type = ImageTask, task_model = Some (js ''flux-1.1-pro''),
      prompt = js ''Minimal product hero with translucent blue materials'', platform = Some (js ''Fal''), task_action = Some (js ''image.generate''),
      task_status = TaskFailed, progress = Some 46, task_createdAt = now - 5400, startedAt = Some (now - 5394), updatedAt = Some (now - 5320),
      completedAt = Some (now - 5320), failureReason = Some (js ''The service rejected the requested aspect ratio.''), resultUrl = None,
      task_cost = 0, metadata = \<lparr>durationSeconds = None, resolution = Some (js ''1536'' @ [215] @ js ''1024''),
      aspectRatio = Some (js ''3:2''), outputCount = Some 2, quality = Some (js ''Standard''), voice = None,
      format = Some (js ''WEBP'')\<rparr>\<rparr>,
     \<lparr>task_id = js ''task_vid_73ac9'', task_type = VideoTask, task_model = Some (js ''kling-v2.1''),
      prompt = js ''A clean macro shot of water flowing across a circuit board'', platform = Some (js ''Kling''),
      task_action = Some (js ''video.generate''), task_status = TaskSucceeded, progress = Some 100, task_createdAt = now - 9200,
      startedAt = Some (now - 9180), updatedAt = Some (now - 9010), completedAt = Some (now - 9010), failureReason = None,
      resultUrl = Some (js ''https://example.com/results/task_vid_73ac9.mp4''), task_cost = 19 / 25, metadata = \<lparr>durationSeconds = Some 10,
      resolution = Some (js ''1280'' @ [215] @ js ''720''), aspectRatio = Some (js ''16:9''), outputCount = Some 1, quality = Some (js ''720p''),
      voice = None, format = Some (js ''MP4'')\<rparr>\<rparr>,
     \<lparr>task_id = js ''task_audio_97ce4'', task_type = AudioTask, task_model = Some (js ''suno-v4.5''),
      prompt = js ''Warm electronic brand theme with a short uplifting ending'', platform = Some (js ''Suno''),
      task_action = Some (js ''music.generate''), task_status = TaskSucceeded, progress = Some 100, task_createdAt = now - 12400,
      startedAt = Some (now - 12390), updatedAt = Some (now - 12200), completedAt = Some (now - 12200), failureReason = None,
      resultUrl = Some (js ''https://example.com/results/task_audio_97ce4.mp3''), task_cost = 3 / 25, metadata = \<lparr>durationSeconds = Some 30,
      resolution = None, aspectRatio = None, outputCount = Some 1, quality = None, voice = Some (js ''instrumental''),
      format = Some (js ''MP3'')\<rparr>\<rparr>]"

definition demoRequestLogs :: "int \<Rightarrow> RequestLogRecord list" where
  "demoRequestLogs now = [
     \<lparr>log_id = js ''req-1008'', serviceTraceId = Some (js ''trace-svc-7fe26c''), sourceIp = Some (js ''203.0.113.24''),
      endpoint = Some (js ''/v1/chat/completions''), model = Some (js ''gpt-5''), apiKeyName = Some (js ''Production app''), createdAt = now - 120,
      status = Succeeded, statusCode = Some 200, inputTokens = 1842, inputTokensTotal = Some 2142, outputTokens = 624, cacheReadTokens = Some 300,
      cacheWrite5mTokens = Some 120, textInputTokens = Some 1842, textOutputTokens = Some 624,
      toolSurcharges = Some [\<lparr>surcharge_name = js ''web_search'', surcharge_count = 1, unitPrice = 10, surcharge_totalCost = 1 / 100\<rparr>],
      latencyMs = Some 812, cost = 23 / 1250, billingSource = Some (js ''wallet''), billingStage = Some (js ''completed''),
      estimatedCost = Some (9 / 500), preConsumedCost = Some (1 / 50), finalCost = Some (23 / 1250), adjustmentCost = Some (- (1 / 625)),
      usageCountSource = Some (js ''service_reported''), usageSemantic = Some (js ''openai''), errorCode = None, errorMessage = None\<rparr>,
     \<lparr>log_id = js ''req-1007'', serviceTraceId = Some (js ''trace-svc-15d6a1''), sourceIp = Some (js ''198.51.100.17''),
      endpoint = Some (js ''/v1/images/generations''), model = Some (js ''imagen-4''), apiKeyName = Some (js ''Production app''),
      createdAt = now - 1080, status = Succeeded, statusCode = Some 200, inputTokens = 0, inputTokensTotal = None, outputTokens = 0,
      cacheReadTokens = None, cacheWrite5mTokens = None, textInputTokens = None, textOutputTokens = None, toolSurcharges = None,
      latencyMs = Some 9340, cost = 2 / 25, billingSource = None, billingStage = None, estimatedCost = None, preConsumedCost = None, finalCost = None,
      adjustmentCost = None, usageCountSource = None, usageSemantic = None, errorCode = None, errorMessage = None\<rparr>,
     \<lparr>log_id = js ''req-1006'', serviceTraceId = Some (js ''trace-svc-c9438e''), sourceIp = Some (js ''127.0.0.1''),
      endpoint = Some (js ''/v1/embeddings''), model = Some (js ''text-embedding-3-large''), apiKeyName = Some (js ''Local development''),
      createdAt = now - 3600, status = Succeeded, statusCode = Some 200, inputTokens = 8460, inputTokensTotal = None, outputTokens = 0,
      cacheReadTokens = None, cacheWrite5mTokens = None, textInputTokens = None, textOutputTokens = None, toolSurcharges = None, latencyMs = Some 326,
      cost = 11 / 10000, billingSource = None, billingStage = None, estimatedCost = None, preConsumedCost = None, finalCost = None,
      adjustmentCost = None, usageCountSource = None, usageSemantic = None, errorCode = None, errorMessage = None\<rparr>,
     \<lparr>log_id = js ''req-1005'', serviceTraceId = Some (js ''trace-svc-8bbd02''), sourceIp = Some (js ''203.0.113.24''),
      endpoint = Some (js ''/v1/messages''), model = Some (js ''claude-sonnet-4''), apiKeyName = Some (js ''Production app''), createdAt = now - 7200,
      status = Failed, statusCode = Some 429, inputTokens = 0, inputTokensTotal = None, outputTokens = 0, cacheReadTokens = None,
      cacheWrite5mTokens = None, textInputTokens = None, textOutputTokens = None, toolSurcharges = None, latencyMs = Some 104, cost = 0,
      billingSource = None, billingStage = None, estimatedCost = None, preConsumedCost = None, finalCost = None, adjustmentCost = None,
      usageCountSource = None, usageSemantic = None, errorCode = Some (js ''rate_limit_exceeded''),
      errorMessage = Some (js ''The service is temporarily rate limited.'')\<rparr>,
     \<lparr>log_id = js ''req-0988'', serviceTraceId = Some (js ''trace-svc-d3fc42''), sourceIp = None,
      endpoint = Some (js ''/v1/chat/completions''), model = Some (js ''gemini-2.5-pro''), apiKeyName = Some (js ''Production app''),
      createdAt = now - 86400 * 4, status = Succeeded, statusCode = Some 200, inputTokens = 3210, inputTokensTotal = None, outputTokens = 902,
      cacheReadTokens = None, cacheWrite5mTokens = None, textInputTokens = None, textOutputTokens = None, toolSurcharges = None,
      latencyMs = Some 1240, cost = 63 / 5000, billingSource = None, billingStage = None, estimatedCost = None, preConsumedCost = None,
      finalCost = None, adjustmentCost = None, usageCountSource = None, usageSemantic = None, errorCode = None, errorMessage = None\<rparr>]"

definition demoAccountActivity :: "int \<Rightarrow> AccountActivityRecord list" where
  "demoAccountActivity now = [
     \<lparr>activity_id = js ''evt-login-1003'', activity_eventId = Some (js ''evt-login-1003''), activity_type = Login,
      activity_createdAt = now - 420, activity_content = Some (js ''Logged in successfully via password''), activity_action = Some (js ''login''),
      parameters = Some [(js ''method'', js ''password'')], activity_sourceIp = Some (js ''203.0.113.24''), loginMethod = Some (js ''password''),
      activity_userAgent = Some (js ''Mozilla/5.0 (Macintosh; Intel Mac OS X 10_15_7)'')\<rparr>,
     \<lparr>activity_id = js ''evt-passkey-1002'', activity_eventId = Some (js ''evt-passkey-1002''), activity_type = Management,
      activity_createdAt = now - 86400, activity_content = Some (js ''Registered a passkey''), activity_action = Some (js ''user.passkey_register''),
      parameters = None, activity_sourceIp = Some (js ''203.0.113.24''), loginMethod = None, activity_userAgent = None\<rparr>,
     \<lparr>activity_id = js ''evt-system-1001'', activity_eventId = Some (js ''evt-system-1001''), activity_type = System,
      activity_createdAt = now - 86400 * 7, activity_content = Some (js ''New account credit granted''), activity_action = None, parameters = None,
      activity_sourceIp = None, loginMethod = None, activity_userAgent = None\<rparr>]"

definition demoBillingLedger :: "int \<Rightarrow> BillingLedgerEntry list" where
  "demoBillingLedger now = [
     \<lparr>ledger_id = js ''billing-refund-1002'', ledger_eventId = Some (js ''billing-refund-1002''), ledger_type = LedgerRefund,
      ledger_createdAt = now - 7200, ledger_content = Some (js ''Unused task reservation returned to the account balance''), ledger_sourceIp = None,
      amountUsd = Some (3 / 25), ledger_model = Some (js ''seedance-2.0''), ledger_apiKeyName = Some (js ''Production app''),
      taskId = Some (js ''task_video_4a7d2'')\<rparr>,
     \<lparr>ledger_id = js ''billing-credit-1001'', ledger_eventId = None, ledger_type = LedgerTopup, ledger_createdAt = now - 86400 * 8,
      ledger_content = Some (js ''Account recharge completed''), ledger_sourceIp = Some (js ''203.0.113.24''), amountUsd = None, ledger_model = None,
      ledger_apiKeyName = None, taskId = None\<rparr>]"

definition demoUser :: "int \<Rightarrow> ConsoleUser" where
  "demoUser now = \<lparr>user_id = 1001, username = js ''demo'', usernameEditable = False, passwordSet = True,
     displayName = js ''Demo Developer'', email = js ''demo@token-boat.local'', user_group = js ''default'', role = 1,
     quotaUnits = 12840, usedQuotaUnits = 4820, requestCount = 12842, user_createdAt = Some (now - 86400 * 90)\<rparr>"

definition demoAccount :: "int \<Rightarrow> AccountData" where
  "demoAccount now = \<lparr>account_user = demoUser now,
     preferences = \<lparr>balanceWarningThresholdUsd = Some 20, barkUrl = [], gotifyPriority = 5, gotifyToken = [], gotifyTokenConfigured = False,
      gotifyUrl = [], notificationEmail = js ''demo@token-boat.local'', recordIpForced = True, recordIpLog = True,
      notifyType = Some Email, webhookSecret = [], webhookSecretConfigured = True,
      webhookUrl = js ''https://merchant.example.com/hooks/quota''\<rparr>,
     security = \<lparr>backupCodesRemaining = None, passkeyEnabled = True, passkeyLastUsedAt = Some (now - 3600), twoFactorEnabled = False,
      twoFactorLocked = False, emailBound = True, evmWalletAddress = None, evmWalletEnabled = False, evmWalletLastUsedAt = None,
      evmWalletRemovable = False, evmWalletVerificationMethod = Some Password\<rparr>,
     sessions = [
      \<lparr>login_id = js ''demo-current-session'', current = True, login_method = js ''Passkey'', ip = js ''127.0.0.1'',
       login_userAgent = js ''Chrome on macOS'', login_createdAt = now - 86400 * 4, lastActiveAt = now - 60,
       login_expiresAt = now + 86400 * 26\<rparr>,
      \<lparr>login_id = js ''demo-mobile-session'', current = False, login_method = js ''Password'', ip = js ''192.0.2.24'',
       login_userAgent = js ''Safari on iPhone'', login_createdAt = now - 86400 * 12, lastActiveAt = now - 86400 * 2,
       login_expiresAt = now + 86400 * 18\<rparr>]\<rparr>"

definition initialDemoState :: "int \<Rightarrow> DemoState" where
  "initialDemoState now = \<lparr>
     demoSession = Some \<lparr>user = demoUser now, accessToken = None, accessExpiresAt = None, sessionId = Some (js ''demo-current-session'')\<rparr>,
     apiKeys = demoApiKeys now, nextApiKeyId = 4, demoBalance = 642 / 5, demoCurrentPlanIds = [2],
     demoSubscriptionPurchases = [(2, 1)], account = demoAccount now, tasks = demoTasks now, requestLogs = demoRequestLogs now,
     accountActivity = demoAccountActivity now, billingLedger = demoBillingLedger now, loadedAt = now\<rparr>"

text \<open>The configuration of recharging: its discounts by amount, and the units of quota for one unit of money.\<close>

definition discounts :: "(rat \<times> rat) list" where
  "discounts = [(100, 19 / 20), (250, 9 / 10), (500, 17 / 20)]"

definition quotaPerUnit :: int where
  "quotaPerUnit = 100"

end
