(* ===== verification/DemoRepository.thy ===== *)
theory DemoRepository
  imports DemoData
begin

text \<open>
  The demonstration repository of the console, \<open>src/frontend/apps/console/src/data/demo-repository.ts\<close>: a data
  layer that keeps its records in variables of the module.  A method is a function of the state; one that may throw
  gives a message on the left, and one that changes the state gives the new state, also when it throws.
\<close>

section \<open>Pages\<close>

text \<open>\<open>Array.prototype.slice\<close>, whose negative positions count from the end.\<close>

definition sliceIndex :: "int \<Rightarrow> int \<Rightarrow> int" where
  "sliceIndex len i = (if i < 0 then max 0 (len + i) else min i len)"

definition arraySlice :: "'a list \<Rightarrow> int \<Rightarrow> int \<Rightarrow> 'a list" where
  "arraySlice xs a b =
     (let len = int (length xs); a' = sliceIndex len a; b' = sliceIndex len b in take (nat (b' - a')) (drop (nat a') xs))"

definition paginate :: "'a list \<Rightarrow> 'b PaginationInput_scheme \<Rightarrow> 'a PaginatedResult" where
  "paginate xs inp =
     (let start = (page inp - 1) * pageSize inp in
      \<lparr>items = arraySlice xs start (start + pageSize inp), result_page = page inp, result_pageSize = pageSize inp,
       total = int (length xs)\<rparr>)"

definition byCreation :: "('a \<Rightarrow> int) \<Rightarrow> SortOrder \<Rightarrow> 'a \<Rightarrow> 'a \<Rightarrow> int" where
  "byCreation created ord left right = (if ord = Asc then created left - created right else created right - created left)"

section \<open>Sessions\<close>

definition demoSecurityResult :: "DemoState \<Rightarrow> (AccountData \<times> ConsoleSession) outcome" where
  "demoSecurityResult st = (case demoSession st of
     None \<Rightarrow> Inl (js ''The demo session is unavailable.'') | Some s \<Rightarrow> Inr (account st, s))"

definition newSession :: "ConsoleUser \<Rightarrow> string \<Rightarrow> ConsoleSession" where
  "newSession u sid = \<lparr>user = u, accessToken = None, accessExpiresAt = None, sessionId = Some (js sid)\<rparr>"

definition register :: "jsstring \<Rightarrow> jsstring option \<Rightarrow> DemoState \<Rightarrow> DemoState" where
  "register name mail st =
     (let u = (account_user (account st))\<lparr>username := trim name, displayName := trim name,
            email := (case mail of Some m \<Rightarrow> trim m | None \<Rightarrow> [])\<rparr> in
      st\<lparr>demoSession := Some (newSession u ''demo-current-session''), account := (account st)\<lparr>account_user := u\<rparr>\<rparr>)"

definition getSession :: "DemoState \<Rightarrow> ConsoleSession option" where
  "getSession st = demoSession st"

definition signIn :: "jsstring \<Rightarrow> DemoState \<Rightarrow> ConsoleSession \<times> DemoState" where
  "signIn name st =
     (let shown = (if trim name = [] then js ''Demo Developer'' else trim name);
          u = (account_user (account st))\<lparr>username := shown, displayName := shown\<rparr>; s = newSession u ''demo-current-session'' in
      (s, st\<lparr>demoSession := Some s, account := (account st)\<lparr>account_user := u\<rparr>\<rparr>))"

definition verifyTwoFactorLogin :: "DemoState \<Rightarrow> ConsoleSession outcome" where
  "verifyTwoFactorLogin st = (case demoSession st of
     None \<Rightarrow> Inl (js ''The demo session is unavailable.'') | Some s \<Rightarrow> Inr s)"

definition signInWithPasskey :: "DemoState \<Rightarrow> ConsoleSession option" where
  "signInWithPasskey st = demoSession st"

definition completeEVMWalletAuth :: "DemoState \<Rightarrow> ConsoleSession \<times> DemoState" where
  "completeEVMWalletAuth st = (case demoSession st of
     Some s \<Rightarrow> (s, st)
   | None \<Rightarrow>
       (let u = (account_user (account st))\<lparr>username := js ''evm_demo'', displayName := js ''0xDemo'' @ [8230] @ js ''EVM''\<rparr>;
            s = newSession u ''demo-evm-session'' in
        (s, st\<lparr>demoSession := Some s\<rparr>)))"

definition clearLocalSession :: "DemoState \<Rightarrow> DemoState" where
  "clearLocalSession st = st\<lparr>demoSession := None\<rparr>"

definition signOut :: "DemoState \<Rightarrow> DemoState" where
  "signOut st = st\<lparr>demoSession := None\<rparr>"

section \<open>API keys\<close>

definition activeApiKeys :: "DemoState \<Rightarrow> int" where
  "activeApiKeys st = int (length (filter (\<lambda>k. key_status k = Active) (apiKeys st)))"

definition onboardingSteps :: "DemoState \<Rightarrow> (jsstring \<times> bool) list" where
  "onboardingSteps st = [(js ''create-key'', length (apiKeys st) > 0), (js ''fund-account'', demoBalance st > 0), (js ''first-request'', True)]"

definition listApiKeys :: "DemoState \<Rightarrow> ApiKeyRecord list" where
  "listApiKeys st = apiKeys st"

definition matchingKeys :: "DemoEnv \<Rightarrow> ApiKeyListInput \<Rightarrow> DemoState \<Rightarrow> ApiKeyRecord list" where
  "matchingKeys env inp st =
     (let keyword = lowerCase env (trim (key_keyword inp)) in
      filter (\<lambda>k. admits (key_filter inp) (key_status k) \<and>
          (keyword = [] \<or> str_includes (lowerCase env (key_name k @ js '' '' @ maskedKey k @ js '' '' @ key_group k)) keyword))
        (apiKeys st))"

definition getApiKeysPage :: "DemoEnv \<Rightarrow> ApiKeyListInput \<Rightarrow> DemoState \<Rightarrow> ApiKeyRecord PaginatedResult" where
  "getApiKeysPage env inp st = paginate (js_sort (byCreation key_createdAt (order inp)) (matchingKeys env inp st)) inp"

text \<open>\<open>toString(16)\<close>.\<close>

fun hexStr :: "nat \<Rightarrow> jsstring" where
  "hexStr n = (if n < 16 then [if n < 10 then 48 + n else 87 + n]
     else hexStr (n div 16) @ [if n mod 16 < 10 then 48 + n mod 16 else 87 + n mod 16])"

declare hexStr.simps [simp del]

definition keySuffix :: "int \<Rightarrow> jsstring" where
  "keySuffix i = (let s = hexStr (nat i) in replicate (4 - length s) 48 @ s)"

definition createApiKey :: "DemoEnv \<Rightarrow> CreateApiKeyInput \<Rightarrow> DemoState \<Rightarrow> (ApiKeyRecord \<times> jsstring) \<times> DemoState" where
  "createApiKey env inp st =
     (let i = nextApiKeyId st; suffix = keySuffix i; secret = js ''sk-demo-'' @ int_str i @ js ''-token-boat-'' @ suffix;
          record = \<lparr>key_id = i, key_name = new_name inp, maskedKey = js ''sk-demo-'' @ replicate 8 8226 @ suffix, key_status = Active,
            key_createdAt = dateNow env div 1000, lastUsedAt = None, key_expiresAt = new_expiresAt inp,
            unlimitedQuota = new_unlimitedQuota inp, remainingQuotaUsd = (if new_unlimitedQuota inp then 0 else new_quotaUsd inp),
            usedQuotaUsd = 0, key_group = new_group inp, environment = new_environment inp, allowedModels = new_allowedModels inp,
            allowedIps = new_allowedIps inp\<rparr> in
      ((record, secret), st\<lparr>nextApiKeyId := i + 1, apiKeys := record # apiKeys st\<rparr>))"

definition replaceKey :: "int \<Rightarrow> (ApiKeyRecord \<Rightarrow> ApiKeyRecord) \<Rightarrow> DemoState \<Rightarrow> ApiKeyRecord outcome \<times> DemoState" where
  "replaceKey i f st = (case find (\<lambda>k. key_id k = i) (apiKeys st) of
     None \<Rightarrow> (Inl (js ''API key not found.''), st)
   | Some k \<Rightarrow> (Inr (f k), st\<lparr>apiKeys := map (\<lambda>x. if key_id x = i then f k else x) (apiKeys st)\<rparr>))"

definition updateApiKey :: "UpdateApiKeyInput \<Rightarrow> DemoState \<Rightarrow> ApiKeyRecord outcome \<times> DemoState" where
  "updateApiKey inp st = replaceKey (upd_id inp) (\<lambda>k. k\<lparr>key_name := new_name inp, key_expiresAt := new_expiresAt inp,
     unlimitedQuota := new_unlimitedQuota inp, remainingQuotaUsd := (if new_unlimitedQuota inp then 0 else new_quotaUsd inp),
     key_group := new_group inp, environment := new_environment inp, allowedModels := new_allowedModels inp,
     allowedIps := new_allowedIps inp\<rparr>) st"

definition setApiKeyEnabled :: "int \<Rightarrow> bool \<Rightarrow> DemoState \<Rightarrow> ApiKeyRecord outcome \<times> DemoState" where
  "setApiKeyEnabled i enabled st = replaceKey i (\<lambda>k. k\<lparr>key_status := (if enabled then Active else Disabled)\<rparr>) st"

definition revokeApiKey :: "int \<Rightarrow> DemoState \<Rightarrow> DemoState" where
  "revokeApiKey i st = st\<lparr>apiKeys := filter (\<lambda>k. key_id k \<noteq> i) (apiKeys st)\<rparr>"

section \<open>The request log\<close>

definition fieldIncludes :: "DemoEnv \<Rightarrow> jsstring option \<Rightarrow> jsstring \<Rightarrow> bool" where
  "fieldIncludes env v keyword = (case v of Some s \<Rightarrow> str_includes (lowerCase env s) keyword | None \<Rightarrow> False)"

definition logMatches :: "DemoEnv \<Rightarrow> 'a RequestLogAnalyticsInput_scheme \<Rightarrow> RequestLogRecord \<Rightarrow> bool" where
  "logMatches env inp l =
     (let keyword = lowerCase env (trim (log_keyword inp)) in
      if \<not> timestampMatchesDateRange (browser env) (createdAt l) (log_range inp) then False
      else if \<not> admits (log_filter inp) (status l) then False
      else if keyword = [] then True
      else (case searchField inp of
          ByRequest \<Rightarrow> str_includes (lowerCase env (log_id l)) keyword
        | ByServiceTrace \<Rightarrow> fieldIncludes env (serviceTraceId l) keyword
        | ByModel \<Rightarrow> fieldIncludes env (model l) keyword
        | ByApiKey \<Rightarrow> fieldIncludes env (apiKeyName l) keyword))"

definition filterRequestLogs :: "DemoEnv \<Rightarrow> 'a RequestLogAnalyticsInput_scheme \<Rightarrow> DemoState \<Rightarrow> RequestLogRecord list" where
  "filterRequestLogs env inp st = filter (logMatches env inp) (requestLogs st)"

definition getRequestLogsPage ::
  "DemoEnv \<Rightarrow> RequestLogAnalyticsInput \<Rightarrow> PaginationInput \<Rightarrow> DemoState \<Rightarrow> RequestLogRecord PaginatedResult" where
  "getRequestLogsPage env inp pg st = paginate (js_sort (byCreation createdAt (order pg)) (filterRequestLogs env inp st)) pg"

definition getRequestLog :: "jsstring \<Rightarrow> DemoState \<Rightarrow> RequestLogRecord outcome" where
  "getRequestLog requestId st = (case find (\<lambda>l. log_id l = trim requestId) (requestLogs st) of
     None \<Rightarrow> Inl (js ''Request not found.'') | Some l \<Rightarrow> Inr l)"

section \<open>Analysis of the request log\<close>

definition bucketSecondsFor :: "int option \<Rightarrow> int" where
  "bucketSecondsFor days = (case days of
     None \<Rightarrow> 86400 | Some d \<Rightarrow> if d \<le> 1 then 300 else if d \<le> 7 then 3600 else if d \<le> 31 then 21600 else 86400)"

definition timezoneOffsetSeconds :: "DemoEnv \<Rightarrow> DateRangeValue \<Rightarrow> int \<Rightarrow> int" where
  "timezoneOffsetSeconds env r start = (case timeZone r of
     Some z \<Rightarrow>
       (if z = [] then - timezoneOffset (browser env) (start * 1000) * 60
        else timeZoneOffsetMinutesAt (browser env) start z * 60)
   | None \<Rightarrow> - timezoneOffset (browser env) (start * 1000) * 60)"

definition bucketOf :: "int \<Rightarrow> int \<Rightarrow> int \<Rightarrow> int" where
  "bucketOf offset seconds t = (t + offset) div seconds * seconds - offset"

definition addToBucket ::
  "int \<Rightarrow> int \<Rightarrow> (int \<times> RequestLogRecord list) list \<Rightarrow> RequestLogRecord \<Rightarrow> (int \<times> RequestLogRecord list) list" where
  "addToBucket offset seconds buckets l =
     (let b = bucketOf offset seconds (createdAt l) in
      AList.update b ((case map_of buckets b of Some ls \<Rightarrow> ls | None \<Rightarrow> []) @ [l]) buckets)"

definition logTokens :: "RequestLogRecord \<Rightarrow> int" where
  "logTokens l = (if status l = Succeeded then inputTokens l + outputTokens l else 0)"

definition addToMinute :: "(int \<times> int \<times> int) list \<Rightarrow> RequestLogRecord \<Rightarrow> (int \<times> int \<times> int) list" where
  "addToMinute minuteTotals l =
     (let minute = createdAt l div 60; (r, t) = (case map_of minuteTotals minute of Some rt \<Rightarrow> rt | None \<Rightarrow> (0, 0)) in
      AList.update minute (r + 1, t + logTokens l) minuteTotals)"

text \<open>The sums that a loop over the records of a bucket, or over all records, keeps.\<close>

record LogTotals =
  sum_tokens :: int
  sum_cost :: rat
  sum_cacheHitTokens :: int
  cacheRateInputTokens :: int
  cacheObservations :: int
  completeCacheObservations :: int

definition noTotals :: LogTotals where
  "noTotals = \<lparr>sum_tokens = 0, sum_cost = 0, sum_cacheHitTokens = 0, cacheRateInputTokens = 0, cacheObservations = 0,
     completeCacheObservations = 0\<rparr>"

definition addLog :: "LogTotals \<Rightarrow> RequestLogRecord \<Rightarrow> LogTotals" where
  "addLog t l =
     (let t1 = t\<lparr>sum_tokens := sum_tokens t + logTokens l, sum_cost := sum_cost t + cost l\<rparr> in
      case cacheReadTokens l of
        None \<Rightarrow> t1
      | Some c \<Rightarrow>
          (let t2 = t1\<lparr>cacheObservations := cacheObservations t1 + 1, sum_cacheHitTokens := sum_cacheHitTokens t1 + c\<rparr> in
           case inputTokensTotal l of
             None \<Rightarrow> t2
           | Some n \<Rightarrow> t2\<lparr>completeCacheObservations := completeCacheObservations t2 + 1,
               cacheRateInputTokens := cacheRateInputTokens t2 + n\<rparr>))"

definition logTotals :: "RequestLogRecord list \<Rightarrow> LogTotals" where
  "logTotals ls = foldl addLog noTotals ls"

definition cacheRate :: "LogTotals \<Rightarrow> rat option" where
  "cacheRate t =
     (if cacheObservations t > 0 \<and> cacheObservations t = completeCacheObservations t \<and> cacheRateInputTokens t > 0
      then Some (of_int (sum_cacheHitTokens t) / of_int (cacheRateInputTokens t) * 100) else None)"

definition seriesPoint :: "int \<Rightarrow> int \<Rightarrow> RequestLogRecord list \<Rightarrow> RequestLogAnalyticsPoint" where
  "seriesPoint b seconds logs =
     (let ok = int (length (filter (\<lambda>l. status l = Succeeded) logs)); t = logTotals logs; minutes = of_int seconds / 60 in
      \<lparr>bucketStart = b, point_bucketSeconds = seconds, succeeded = ok, failed = int (length logs) - ok,
       rpm = of_nat (length logs) / minutes, tpm = of_int (sum_tokens t) / minutes, tokens = sum_tokens t,
       point_cost = sum_cost t, cacheHitTokens = sum_cacheHitTokens t, cacheHitRate = cacheRate t\<rparr>)"

function bucketStarts :: "int \<Rightarrow> int \<Rightarrow> int \<Rightarrow> int list" where
  "bucketStarts b lastBucket seconds =
     (if seconds \<le> 0 \<or> lastBucket < b then [] else b # bucketStarts (b + seconds) lastBucket seconds)"
  by pat_completeness auto

termination
  by (relation "measure (\<lambda>(b, lastBucket, seconds). nat (lastBucket - b + 1))") auto

declare bucketStarts.simps [simp del]

definition getRequestLogAnalytics :: "DemoEnv \<Rightarrow> RequestLogAnalyticsInput \<Rightarrow> DemoState \<Rightarrow> RequestLogAnalytics" where
  "getRequestLogAnalytics env inp st =
     (let filtered = filterRequestLogs env inp st;
          seconds = bucketSecondsFor (dateRangeDayCount (browser env) (log_range inp));
          starts = (case dateRangeToUnix (browser env) (log_range inp) of
            None \<Rightarrow> []
          | Some (start, end') \<Rightarrow>
              (let offset = timezoneOffsetSeconds env (log_range inp) start;
                   buckets = foldl (addToBucket offset seconds) [] filtered in
               map (\<lambda>b. (b, case map_of buckets b of Some ls \<Rightarrow> ls | None \<Rightarrow> []))
                 (bucketStarts (bucketOf offset seconds start) (bucketOf offset seconds end') seconds)));
          minuteTotals = foldl addToMinute [] filtered;
          failures = int (length (filter (\<lambda>l. status l = Failed) filtered)); t = logTotals filtered in
      \<lparr>analytics_requestCount = int (length filtered), failureCount = failures,
       failureRate = (if length filtered > 0 then Some (of_int failures / of_nat (length filtered) * 100) else None),
       peakRpm = foldl max 0 (map (fst \<circ> snd) minuteTotals), peakTpm = foldl max 0 (map (snd \<circ> snd) minuteTotals),
       totalTokens = sum_tokens t, totalCost = sum_cost t, total_cacheHitTokens = sum_cacheHitTokens t,
       total_cacheHitRate = cacheRate t, series = map (\<lambda>(b, logs). seriesPoint b seconds logs) starts\<rparr>)"

section \<open>Activity, tasks and the ledger\<close>

definition getAccountActivityPage ::
  "DemoEnv \<Rightarrow> DateRangeValue \<Rightarrow> AccountActivityType choice \<Rightarrow> PaginationInput \<Rightarrow> DemoState \<Rightarrow> AccountActivityRecord PaginatedResult" where
  "getAccountActivityPage env rng kind pg st = paginate (js_sort (byCreation activity_createdAt (order pg))
     (filter (\<lambda>a. timestampMatchesDateRange (browser env) (activity_createdAt a) rng \<and> admits kind (activity_type a)) (accountActivity st))) pg"

definition getBillingLedgerPage ::
  "DemoEnv \<Rightarrow> DateRangeValue \<Rightarrow> BillingLedgerEntryType choice \<Rightarrow> PaginationInput \<Rightarrow> DemoState \<Rightarrow> BillingLedgerEntry PaginatedResult" where
  "getBillingLedgerPage env rng kind pg st = paginate (js_sort (byCreation ledger_createdAt (order pg))
     (filter (\<lambda>e. timestampMatchesDateRange (browser env) (ledger_createdAt e) rng \<and> admits kind (ledger_type e)) (billingLedger st))) pg"

definition getTasksPage ::
  "DemoEnv \<Rightarrow> DateRangeValue \<Rightarrow> TaskStatus choice \<Rightarrow> TaskType choice \<Rightarrow> PaginationInput \<Rightarrow> DemoState \<Rightarrow> TaskRecord PaginatedResult" where
  "getTasksPage env rng stat kind pg st = paginate (js_sort (byCreation task_createdAt (order pg))
     (filter (\<lambda>t. timestampMatchesDateRange (browser env) (task_createdAt t) rng \<and> admits stat (task_status t) \<and> admits kind (task_type t))
       (tasks st))) pg"

record TaskTypeCounts =
  count_all :: int
  count_image :: int
  count_video :: int
  count_audio :: int

definition getTaskTypeCounts :: "DemoEnv \<Rightarrow> DateRangeValue \<Rightarrow> TaskStatus choice \<Rightarrow> DemoState \<Rightarrow> TaskTypeCounts" where
  "getTaskTypeCounts env rng stat st =
     (let filtered = filter (\<lambda>t. timestampMatchesDateRange (browser env) (task_createdAt t) rng \<and> admits stat (task_status t)) (tasks st);
          count = (\<lambda>kind. int (length (filter (\<lambda>t. task_type t = kind) filtered))) in
      \<lparr>count_all = int (length filtered), count_image = count ImageTask, count_video = count VideoTask, count_audio = count AudioTask\<rparr>)"

text \<open>The result of a task is an empty file: unit.\<close>

definition getTaskResult :: "jsstring \<Rightarrow> DemoState \<Rightarrow> unit outcome" where
  "getTaskResult i st = (case find (\<lambda>t. task_id t = i \<and> task_type t = VideoTask) (tasks st) of
     Some t \<Rightarrow>
       (case resultUrl t of Some u \<Rightarrow> if u = [] then Inl (js ''Task result not found.'') else Inr () | None \<Rightarrow> Inl (js ''Task result not found.''))
   | None \<Rightarrow> Inl (js ''Task result not found.''))"

section \<open>Billing\<close>

definition billingTransactions :: "DemoState \<Rightarrow> BillingTransaction list" where
  "billingTransactions st =
     [\<lparr>transaction_id = js ''tx-2041'', transaction_type = Usage, amount = - (321 / 25), transaction_status = Completed,
       transaction_createdAt = loadedAt st - 86400, description = Some (js ''API usage '' @ [183] @ js '' August 27'')\<rparr>,
      \<lparr>transaction_id = js ''tx-2038'', transaction_type = Topup, amount = 100, transaction_status = Completed,
       transaction_createdAt = loadedAt st - 86400 * 8, description = Some (js ''Card top-up'')\<rparr>,
      \<lparr>transaction_id = js ''tx-2020'', transaction_type = Subscription, amount = - 29, transaction_status = Completed,
       transaction_createdAt = loadedAt st - 86400 * 20, description = Some (js ''Developer Pro subscription'')\<rparr>]"

definition purchases :: "DemoState \<Rightarrow> int \<Rightarrow> int" where
  "purchases st i = (case map_of (demoSubscriptionPurchases st) i of Some n \<Rightarrow> n | None \<Rightarrow> 0)"

definition balanceMethod :: SubscriptionPaymentMethod where
  "balanceMethod = \<lparr>method_id = js ''balance'', method_name = js ''Account balance'', method_type = Balance, paymentMethod = None\<rparr>"

definition stripeMethod :: SubscriptionPaymentMethod where
  "stripeMethod = \<lparr>method_id = js ''stripe'', method_name = js ''Stripe'', method_type = Stripe, paymentMethod = None\<rparr>"

definition alipayMethod :: SubscriptionPaymentMethod where
  "alipayMethod = \<lparr>method_id = js ''alipay'', method_name = js ''Alipay'', method_type = Epay, paymentMethod = Some (js ''alipay'')\<rparr>"

definition billingPlans :: "DemoState \<Rightarrow> SubscriptionPlan list" where
  "billingPlans st =
     [\<lparr>plan_id = 1, plan_name = js ''Pay as you go'', price = 0, currency = js ''USD'', interval = js ''month'', durationUnit = js ''month'',
       durationValue = 1, quotaUsd = 0, plan_unlimitedQuota = True, quotaResetPeriod = js ''never'',
       features = [js ''Usage-based billing'', js ''All public models'', js ''Community support''],
       plan_current = (1 \<in> set (demoCurrentPlanIds st)), purchaseCount = purchases st 1, purchaseLimit = 0, paymentMethods = [balanceMethod]\<rparr>,
      \<lparr>plan_id = 2, plan_name = js ''Developer Pro'', price = 29, currency = js ''USD'', interval = js ''month'', durationUnit = js ''month'',
       durationValue = 1, quotaUsd = 200, plan_unlimitedQuota = False, quotaResetPeriod = js ''monthly'',
       features = [js ''$200.00000 monthly quota'', js ''Priority routing'', js ''Email support''],
       plan_current = (2 \<in> set (demoCurrentPlanIds st)), purchaseCount = purchases st 2, purchaseLimit = 0,
       paymentMethods = [balanceMethod, stripeMethod]\<rparr>,
      \<lparr>plan_id = 3, plan_name = js ''Team'', price = 99, currency = js ''USD'', interval = js ''month'', durationUnit = js ''month'',
       durationValue = 1, quotaUsd = 800, plan_unlimitedQuota = False, quotaResetPeriod = js ''monthly'',
       features = [js ''$800.00000 monthly quota'', js ''Shared workspace'', js ''Priority support''],
       plan_current = (3 \<in> set (demoCurrentPlanIds st)), purchaseCount = purchases st 3, purchaseLimit = 3,
       paymentMethods = [balanceMethod, stripeMethod, alipayMethod]\<rparr>]"

definition buildBilling :: "DemoState \<Rightarrow> BillingData" where
  "buildBilling st = \<lparr>balance = demoBalance st,
     totalUsage = (case demoSession st of Some s \<Rightarrow> of_int (usedQuotaUnits (user s)) / of_int quotaPerUnit | None \<Rightarrow> 0),
     monthSpend = Some (241 / 5), pendingAmount = Some 0, billing_currency = js ''USD'', transactions = billingTransactions st,
     plans = billingPlans st\<rparr>"

definition getBilling :: "DemoState \<Rightarrow> BillingData" where
  "getBilling st = buildBilling st"

definition transactionMatches :: "DemoEnv \<Rightarrow> BillingTransactionListInput \<Rightarrow> BillingTransaction \<Rightarrow> bool" where
  "transactionMatches env inp t =
     (let keyword = lowerCase env (trim (transaction_keyword inp)) in
      timestampMatchesDateRange (browser env) (transaction_createdAt t) (transaction_range inp) \<and>
      admits (status_filter inp) (transaction_status t) \<and> admits (type_filter inp) (transaction_type t) \<and>
      (keyword = [] \<or> str_includes (lowerCase env (transaction_id t @ js '' '' @
          (case description t of Some d \<Rightarrow> d | None \<Rightarrow> js ''null''))) keyword))"

definition getBillingTransactionsPage ::
  "DemoEnv \<Rightarrow> BillingTransactionListInput \<Rightarrow> DemoState \<Rightarrow> BillingTransaction PaginatedResult" where
  "getBillingTransactionsPage env inp st = paginate (js_sort (byCreation transaction_createdAt (order inp))
     (filter (transactionMatches env inp) (transactions (buildBilling st)))) inp"

definition redeemCode :: "DemoEnv \<Rightarrow> jsstring \<Rightarrow> DemoState \<Rightarrow> BillingData outcome \<times> DemoState" where
  "redeemCode env code st =
     (if upperCase env (trim code) \<noteq> js ''TOKEN-BOAT-DEMO'' then (Inl (js ''The redemption code is invalid.''), st)
      else (let st' = st\<lparr>demoBalance := demoBalance st + 25\<rparr> in (Inr (buildBilling st'), st')))"

text \<open>\<open>Number(x.toFixed(2))\<close>.\<close>

definition toCents :: "rat \<Rightarrow> rat" where
  "toCents x = (if 0 \<le> x then of_int \<lfloor>x * 100 + 1 / 2\<rfloor> / 100 else - (of_int \<lfloor>- x * 100 + 1 / 2\<rfloor> / 100))"

definition getRechargeQuote :: "rat \<Rightarrow> jsstring \<Rightarrow> rat \<times> jsstring" where
  "getRechargeQuote amt cur =
     (let discount = (case map_of discounts amt of Some d \<Rightarrow> d | None \<Rightarrow> 1) in (toCents (amt * discount), cur))"

definition createRechargeCheckout :: "rat \<Rightarrow> RechargeProduct option \<Rightarrow> DemoState \<Rightarrow> DemoState" where
  "createRechargeCheckout amt product st =
     st\<lparr>demoBalance := demoBalance st + (case product of Some p \<Rightarrow> creditUsd p | None \<Rightarrow> amt)\<rparr>"

definition purchaseSubscription :: "int \<Rightarrow> PaymentType \<Rightarrow> DemoState \<Rightarrow> unit outcome \<times> DemoState" where
  "purchaseSubscription planId method st = (case find (\<lambda>p. plan_id p = planId) (plans (buildBilling st)) of
     None \<Rightarrow> (Inl (js ''Subscription plan not found.''), st)
   | Some plan \<Rightarrow>
       (if method = Balance \<and> demoBalance st < price plan then (Inl (js ''Insufficient account balance.''), st)
        else
          (let st1 = (if method = Balance then st\<lparr>demoBalance := demoBalance st - price plan\<rparr> else st) in
           (Inr (), st1\<lparr>
              demoCurrentPlanIds := (if plan_id plan \<in> set (demoCurrentPlanIds st1) then demoCurrentPlanIds st1
                else demoCurrentPlanIds st1 @ [plan_id plan]),
              demoSubscriptionPurchases := AList.update (plan_id plan) (purchases st1 (plan_id plan) + 1) (demoSubscriptionPurchases st1)\<rparr>))))"

section \<open>The account\<close>

definition getAccount :: "DemoState \<Rightarrow> AccountData" where
  "getAccount st = account st"

text \<open>A new user record goes to the account and, when signed in, to the session.\<close>

definition setAccountUser :: "ConsoleUser \<Rightarrow> DemoState \<Rightarrow> DemoState" where
  "setAccountUser u st = st\<lparr>account := (account st)\<lparr>account_user := u\<rparr>, demoSession := map_option (\<lambda>s. s\<lparr>user := u\<rparr>) (demoSession st)\<rparr>"

definition updateProfile :: "jsstring \<Rightarrow> jsstring \<Rightarrow> jsstring \<Rightarrow> DemoState \<Rightarrow> AccountData \<times> DemoState" where
  "updateProfile name shown mail st =
     (let u = account_user (account st);
          st' = setAccountUser (u\<lparr>username := (if usernameEditable u then name else username u), usernameEditable := False,
            displayName := shown, email := mail\<rparr>) st in
      (account st', st'))"

definition changePassword :: "DemoState \<Rightarrow> (AccountData \<times> ConsoleSession) outcome" where
  "changePassword st = demoSecurityResult st"

definition updatePreferences :: "AccountPreferences \<Rightarrow> DemoState \<Rightarrow> AccountData \<times> DemoState" where
  "updatePreferences inp st =
     (let acct = (account st)\<lparr>preferences := inp\<lparr>gotifyToken := [],
            gotifyTokenConfigured := gotifyTokenConfigured inp \<or> gotifyToken inp \<noteq> [], webhookSecret := [],
            webhookSecretConfigured := webhookSecretConfigured inp \<or> webhookSecret inp \<noteq> []\<rparr>\<rparr> in
      (acct, st\<lparr>account := acct\<rparr>))"

definition revokeSession :: "jsstring \<Rightarrow> DemoState \<Rightarrow> AccountData \<times> DemoState" where
  "revokeSession i st =
     (let acct = (account st)\<lparr>sessions := filter (\<lambda>s. login_id s \<noteq> i) (sessions (account st))\<rparr> in (acct, st\<lparr>account := acct\<rparr>))"

definition revokeOtherSessions :: "DemoState \<Rightarrow> (AccountData \<times> int) \<times> DemoState" where
  "revokeOtherSessions st =
     (let revokedCount = int (length (filter (\<lambda>s. \<not> current s) (sessions (account st))));
          acct = (account st)\<lparr>sessions := filter current (sessions (account st))\<rparr> in
      ((acct, revokedCount), st\<lparr>account := acct\<rparr>))"

definition setSecurity :: "(AccountSecurity \<Rightarrow> AccountSecurity) \<Rightarrow> DemoState \<Rightarrow> (AccountData \<times> ConsoleSession) outcome \<times> DemoState" where
  "setSecurity f st =
     (let st' = st\<lparr>account := (account st)\<lparr>security := f (security (account st))\<rparr>\<rparr> in (demoSecurityResult st', st'))"

definition enableTwoFactor :: "DemoState \<Rightarrow> (AccountData \<times> ConsoleSession) outcome \<times> DemoState" where
  "enableTwoFactor = setSecurity (\<lambda>s. s\<lparr>backupCodesRemaining := Some 5, twoFactorEnabled := True\<rparr>)"

definition disableTwoFactor :: "DemoState \<Rightarrow> (AccountData \<times> ConsoleSession) outcome \<times> DemoState" where
  "disableTwoFactor = setSecurity (\<lambda>s. s\<lparr>backupCodesRemaining := None, twoFactorEnabled := False\<rparr>)"

definition newBackupCodes :: "jsstring list" where
  "newBackupCodes = [js ''TB-9Q4M-2K7P'', js ''TB-8R5X-3N6C'', js ''TB-7B1V-9L4D'', js ''TB-2H6F-3J8S'', js ''TB-9E5W-7A2T'']"

definition regenerateTwoFactorBackupCodes ::
  "DemoState \<Rightarrow> ((AccountData \<times> ConsoleSession) \<times> jsstring list) outcome \<times> DemoState" where
  "regenerateTwoFactorBackupCodes st =
     (case setSecurity (\<lambda>s. s\<lparr>backupCodesRemaining := Some (int (length newBackupCodes))\<rparr>) st of
        (Inl e, st') \<Rightarrow> (Inl e, st') | (Inr r, st') \<Rightarrow> (Inr (r, newBackupCodes), st'))"

definition registerPasskey :: "DemoEnv \<Rightarrow> DemoState \<Rightarrow> (AccountData \<times> ConsoleSession) outcome \<times> DemoState" where
  "registerPasskey env = setSecurity (\<lambda>s. s\<lparr>passkeyEnabled := True, passkeyLastUsedAt := Some (dateNow env div 1000)\<rparr>)"

definition removePasskey :: "DemoState \<Rightarrow> (AccountData \<times> ConsoleSession) outcome \<times> DemoState" where
  "removePasskey = setSecurity (\<lambda>s. s\<lparr>passkeyEnabled := False, passkeyLastUsedAt := None\<rparr>)"

definition completeEVMWalletBinding :: "DemoEnv \<Rightarrow> DemoState \<Rightarrow> (AccountData \<times> ConsoleSession) outcome \<times> DemoState" where
  "completeEVMWalletBinding env = setSecurity (\<lambda>s. s\<lparr>
     evmWalletAddress := Some (js ''0x0000000000000000000000000000000000000001''), evmWalletEnabled := True,
     evmWalletLastUsedAt := Some (dateNow env div 1000), evmWalletRemovable := True\<rparr>)"

definition removeEVMWallet :: "DemoState \<Rightarrow> (AccountData \<times> ConsoleSession) outcome \<times> DemoState" where
  "removeEVMWallet = setSecurity (\<lambda>s. s\<lparr>evmWalletAddress := None, evmWalletEnabled := False, evmWalletLastUsedAt := None,
     evmWalletRemovable := False\<rparr>)"

definition completeEVMWalletPasswordSetup :: "DemoState \<Rightarrow> (AccountData \<times> ConsoleSession) outcome \<times> DemoState" where
  "completeEVMWalletPasswordSetup st =
     (let st' = setAccountUser ((account_user (account st))\<lparr>passwordSet := True\<rparr>) st in (demoSecurityResult st', st'))"

section \<open>The playground\<close>

record PlaygroundModel =
  pg_id :: jsstring
  pg_label :: jsstring
  pg_group :: jsstring
  pg_endpoints :: "jsstring list"

definition listPlaygroundModels :: "jsstring \<Rightarrow> PlaygroundModel list" where
  "listPlaygroundModels grp = filter (\<lambda>m. pg_group m = grp \<or> grp = js ''auto'')
     [\<lparr>pg_id = js ''gpt-5'', pg_label = js ''GPT-5'', pg_group = js ''default'', pg_endpoints = [js ''openai'']\<rparr>,
      \<lparr>pg_id = js ''claude-sonnet-4'', pg_label = js ''Claude Sonnet 4'', pg_group = js ''default'', pg_endpoints = [js ''openai'']\<rparr>,
      \<lparr>pg_id = js ''gpt-image-2'', pg_label = js ''GPT Image 2'', pg_group = js ''default'', pg_endpoints = [js ''image-generation'']\<rparr>,
      \<lparr>pg_id = js ''seedance-2.0'', pg_label = js ''Seedance 2.0'', pg_group = js ''default'', pg_endpoints = [js ''openai-video'']\<rparr>,
      \<lparr>pg_id = js ''gemini-2.5-pro'', pg_label = js ''Gemini 2.5 Pro'', pg_group = js ''auto'', pg_endpoints = [js ''openai'']\<rparr>]"

section \<open>Calls\<close>

datatype DemoCall =
    Register jsstring "jsstring option"
  | SignIn jsstring
  | CompleteEVMWalletAuth
  | ClearLocalSession
  | SignOut
  | CreateApiKey CreateApiKeyInput
  | UpdateApiKey UpdateApiKeyInput
  | SetApiKeyEnabled int bool
  | RevokeApiKey int
  | RedeemCode jsstring
  | CreateRechargeCheckout rat "RechargeProduct option"
  | PurchaseSubscription int PaymentType
  | UpdateProfile jsstring jsstring jsstring
  | UpdatePreferences AccountPreferences
  | RevokeSession jsstring
  | RevokeOtherSessions
  | EnableTwoFactor
  | DisableTwoFactor
  | RegenerateTwoFactorBackupCodes
  | RegisterPasskey
  | RemovePasskey
  | CompleteEVMWalletBinding
  | RemoveEVMWallet
  | CompleteEVMWalletPasswordSetup

text \<open>The state after a call, whether it returned or threw.\<close>

fun demoCall :: "DemoEnv \<Rightarrow> DemoCall \<Rightarrow> DemoState \<Rightarrow> DemoState" where
  "demoCall env (Register name mail) st = register name mail st"
| "demoCall env (SignIn name) st = snd (signIn name st)"
| "demoCall env CompleteEVMWalletAuth st = snd (completeEVMWalletAuth st)"
| "demoCall env ClearLocalSession st = clearLocalSession st"
| "demoCall env SignOut st = signOut st"
| "demoCall env (CreateApiKey inp) st = snd (createApiKey env inp st)"
| "demoCall env (UpdateApiKey inp) st = snd (updateApiKey inp st)"
| "demoCall env (SetApiKeyEnabled i enabled) st = snd (setApiKeyEnabled i enabled st)"
| "demoCall env (RevokeApiKey i) st = revokeApiKey i st"
| "demoCall env (RedeemCode code) st = snd (redeemCode env code st)"
| "demoCall env (CreateRechargeCheckout amt product) st = createRechargeCheckout amt product st"
| "demoCall env (PurchaseSubscription i method) st = snd (purchaseSubscription i method st)"
| "demoCall env (UpdateProfile name shown mail) st = snd (updateProfile name shown mail st)"
| "demoCall env (UpdatePreferences inp) st = snd (updatePreferences inp st)"
| "demoCall env (RevokeSession i) st = snd (revokeSession i st)"
| "demoCall env RevokeOtherSessions st = snd (revokeOtherSessions st)"
| "demoCall env EnableTwoFactor st = snd (enableTwoFactor st)"
| "demoCall env DisableTwoFactor st = snd (disableTwoFactor st)"
| "demoCall env RegenerateTwoFactorBackupCodes st = snd (regenerateTwoFactorBackupCodes st)"
| "demoCall env RegisterPasskey st = snd (registerPasskey env st)"
| "demoCall env RemovePasskey st = snd (removePasskey st)"
| "demoCall env CompleteEVMWalletBinding st = snd (completeEVMWalletBinding env st)"
| "demoCall env RemoveEVMWallet st = snd (removeEVMWallet st)"
| "demoCall env CompleteEVMWalletPasswordSetup st = snd (completeEVMWalletPasswordSetup st)"

text \<open>The states that calls, each at its own time, lead to.\<close>

inductive demoReachable :: "int \<Rightarrow> DemoState \<Rightarrow> bool" for now :: int where
  start: "demoReachable now (initialDemoState now)"
| call: "demoReachable now st \<Longrightarrow> demoReachable now (demoCall env c st)"

end
