(* ===== verification/DemoAnalytics.thy ===== *)
theory DemoAnalytics
  imports DemoRepository
begin

text \<open>
  The analysis of the request log: the buckets of the series tile the range, every record that matches falls into
  exactly one of them, and so the series adds up to the totals.
\<close>

section \<open>Buckets\<close>

lemma bucketOf_bounds:
  assumes "0 < seconds"
  shows "bucketOf off seconds t \<le> t" "t < bucketOf off seconds t + seconds"
  using pos_mod_sign [OF assms, of "t + off"] pos_mod_bound [OF assms, of "t + off"] div_mult_mod_eq [of "t + off" seconds]
  unfolding bucketOf_def by linarith+

lemma bucketOf_mono: "0 < seconds \<Longrightarrow> s \<le> t \<Longrightarrow> bucketOf off seconds s \<le> bucketOf off seconds t"
  by (simp add: bucketOf_def zdiv_mono1)

lemma starts_step: "0 < seconds \<Longrightarrow> b \<le> l \<Longrightarrow> bucketStarts b l seconds = b # bucketStarts (b + seconds) l seconds"
  "l < b \<Longrightarrow> bucketStarts b l seconds = []"
  by (simp_all add: bucketStarts.simps [of b l seconds])

lemma starts_mem: "0 < seconds \<Longrightarrow> b + int k * seconds \<le> l \<Longrightarrow> b + int k * seconds \<in> set (bucketStarts b l seconds)"
proof (induction k arbitrary: b)
  case 0
  then show ?case by (simp add: starts_step)
next
  case (Suc k)
  have "b \<le> b + int (Suc k) * seconds" using Suc.prems(1) by simp
  then have "b \<le> l" using Suc.prems(2) by linarith
  then show ?case using Suc.IH [of "b + seconds"] Suc.prems by (simp add: starts_step algebra_simps)
qed

lemma starts_form:
  assumes "0 < seconds" "x \<in> set (bucketStarts b l seconds)"
  obtains k where "x = b + int k * seconds"
  using assms(2)
proof (induction b l seconds arbitrary: thesis rule: bucketStarts.induct)
  case (1 b l seconds)
  then have "\<not> (seconds \<le> 0 \<or> l < b)" by (auto simp: bucketStarts.simps [of b l seconds])
  then consider "x = b" | "x \<in> set (bucketStarts (b + seconds) l seconds)" using 1(3) by (auto simp: bucketStarts.simps [of b l seconds])
  then show ?case
  proof cases
    case 1
    then show ?thesis using "1.prems"(1) [of 0] by simp
  next
    case 2
    obtain k where "x = b + seconds + int k * seconds" using "1.IH" \<open>\<not> (seconds \<le> 0 \<or> l < b)\<close> 2 by blast
    then show ?thesis using "1.prems"(1) [of "Suc k"] by (simp add: algebra_simps)
  qed
qed

lemma starts_distinct: "distinct (bucketStarts b l seconds)"
proof (induction b l seconds rule: bucketStarts.induct)
  case (1 b l seconds)
  show ?case
  proof (cases "seconds \<le> 0 \<or> l < b")
    case True
    then show ?thesis by (simp add: bucketStarts.simps [of b l seconds])
  next
    case False
    have "b \<notin> set (bucketStarts (b + seconds) l seconds)"
    proof
      assume "b \<in> set (bucketStarts (b + seconds) l seconds)"
      then obtain k where "b = b + seconds + int k * seconds" using False starts_form [of seconds b "b + seconds" l] by auto
      moreover have "0 \<le> int k * seconds" using False by simp
      ultimately show False using False by linarith
    qed
    then show ?thesis using False 1 by (simp add: bucketStarts.simps [of b l seconds])
  qed
qed

text \<open>Between the buckets of the ends of a range lie the buckets of its instants, and no others.\<close>

lemma bucket_in_starts:
  assumes "0 < seconds" "s \<le> t" "t \<le> e"
  shows "bucketOf off seconds t \<in> set (bucketStarts (bucketOf off seconds s) (bucketOf off seconds e) seconds)"
proof -
  define k where "k = nat ((t + off) div seconds - (s + off) div seconds)"
  have "(t + off) div seconds = (s + off) div seconds + int k" using zdiv_mono1 [of "s + off" "t + off" seconds] assms by (simp add: k_def)
  then have "bucketOf off seconds t = bucketOf off seconds s + int k * seconds" by (simp add: bucketOf_def distrib_right)
  then show ?thesis
    using starts_mem [OF assms(1), of "bucketOf off seconds s" k "bucketOf off seconds e"] bucketOf_mono [OF assms(1,3), of off] by simp
qed

lemma start_of_instant:
  assumes "0 < seconds" "b \<in> set (bucketStarts (bucketOf off seconds s) l seconds)"
  shows "b \<le> t \<and> t < b + seconds \<longleftrightarrow> b = bucketOf off seconds t"
proof
  assume at: "b \<le> t \<and> t < b + seconds"
  obtain k where "b = bucketOf off seconds s + int k * seconds" using starts_form [OF assms] by blast
  then have b: "b + off = ((s + off) div seconds + int k) * seconds" by (simp add: bucketOf_def algebra_simps)
  have eq: "t + off = seconds * ((s + off) div seconds + int k) + (t - b)" using b by (simp add: algebra_simps)
  have "(t + off) div seconds = (s + off) div seconds + int k" using int_div_pos_eq [OF eq] at by simp
  then show "b = bucketOf off seconds t" using b by (simp add: bucketOf_def)
qed (use bucketOf_bounds [OF assms(1)] in auto)

section \<open>Sums\<close>

text \<open>Summing by keys that cover the elements is summing everything.\<close>

lemma sum_by_key:
  fixes f :: "'a \<Rightarrow> 'b::comm_monoid_add"
  assumes "distinct ks" "\<And>x. x \<in> set xs \<Longrightarrow> g x \<in> set ks"
  shows "sum_list (map (\<lambda>k. sum_list (map f (filter (\<lambda>x. g x = k) xs))) ks) = sum_list (map f xs)"
  using assms(2)
proof (induction xs)
  case (Cons x xs)
  have one: "sum_list (map (\<lambda>k. if g x = k then f x else 0) ks) = f x"
  proof -
    have "sum_list (map (\<lambda>k. if g x = k then f x else 0) ks) = (\<Sum>k\<in>set ks. if g x = k then f x else 0)"
      using assms(1) by (simp add: sum_list_distinct_conv_sum_set)
    then show ?thesis using Cons.prems by simp
  qed
  have split: "sum_list (map f (filter (\<lambda>x. g x = k) (x # xs))) =
      (if g x = k then f x else 0) + sum_list (map f (filter (\<lambda>x. g x = k) xs))" for k by simp
  show ?case unfolding split sum_list_addf one using Cons by simp
qed simp

definition cacheHits :: "RequestLogRecord \<Rightarrow> int" where
  "cacheHits l = (case cacheReadTokens l of Some c \<Rightarrow> c | None \<Rightarrow> 0)"

lemma totals_fold:
  "sum_tokens (foldl addLog t ls) = sum_tokens t + sum_list (map logTokens ls)"
  "sum_cost (foldl addLog t ls) = sum_cost t + sum_list (map cost ls)"
  "sum_cacheHitTokens (foldl addLog t ls) = sum_cacheHitTokens t + sum_list (map cacheHits ls)"
  by (induction ls arbitrary: t) (simp_all add: addLog_def cacheHits_def Let_def split: option.splits)

lemma totals_sums:
  "sum_tokens (logTotals ls) = sum_list (map logTokens ls)" "sum_cost (logTotals ls) = sum_list (map cost ls)"
  "sum_cacheHitTokens (logTotals ls) = sum_list (map cacheHits ls)"
  by (simp_all add: logTotals_def totals_fold noTotals_def)

lemma buckets_hold:
  "(case map_of (foldl (addToBucket off seconds) [] ls) b of Some xs \<Rightarrow> xs | None \<Rightarrow> []) =
     filter (\<lambda>l. bucketOf off seconds (createdAt l) = b) ls"
proof (induction ls rule: rev_induct)
  case (snoc l ls)
  then show ?case by (auto simp: addToBucket_def Let_def update_conv' split: option.splits)
qed simp

lemma length_sum: "int (length (filter P xs)) = sum_list (map (\<lambda>x. if P x then 1 else 0) xs)" "int (length xs) = sum_list (map (\<lambda>x. 1) xs)"
  by (induction xs) simp_all

lemma point_sums:
  "succeeded (seriesPoint b seconds ls) + failed (seriesPoint b seconds ls) = sum_list (map (\<lambda>_. 1) ls)"
  "failed (seriesPoint b seconds ls) = sum_list (map (\<lambda>l. if status l = Succeeded then 0 else 1) ls)"
  "tokens (seriesPoint b seconds ls) = sum_list (map logTokens ls)"
  "point_cost (seriesPoint b seconds ls) = sum_list (map cost ls)"
  "cacheHitTokens (seriesPoint b seconds ls) = sum_list (map cacheHits ls)"
proof -
  show "failed (seriesPoint b seconds ls) = sum_list (map (\<lambda>l. if status l = Succeeded then 0 else 1) ls)"
    unfolding seriesPoint_def Let_def by (induction ls) simp_all
  show "succeeded (seriesPoint b seconds ls) + failed (seriesPoint b seconds ls) = sum_list (map (\<lambda>_. 1) ls)"
    unfolding seriesPoint_def Let_def by (simp add: length_sum(2))
qed (simp_all add: seriesPoint_def Let_def totals_sums)

lemma seconds_pos: "0 < bucketSecondsFor d"
  by (simp add: bucketSecondsFor_def split: option.splits)

lemma filtered_in_range:
  assumes "l \<in> set (filterRequestLogs env inp st)"
  obtains s e where "dateRangeToUnix (browser env) (log_range inp) = Some (s, e)" "s \<le> createdAt l" "createdAt l \<le> e"
  using assms by (auto simp: filterRequestLogs_def logMatches_def timestampMatchesDateRange_def Let_def split: if_splits option.splits)

text \<open>The series, in terms of the records that match.\<close>

lemma series_form:
  assumes "dateRangeToUnix (browser env) (log_range inp) = Some (s, e)"
  defines "seconds \<equiv> bucketSecondsFor (dateRangeDayCount (browser env) (log_range inp))"
  defines "off \<equiv> timezoneOffsetSeconds env (log_range inp) s"
  shows "series (getRequestLogAnalytics env inp st) =
    map (\<lambda>b. seriesPoint b seconds (filter (\<lambda>l. bucketOf off seconds (createdAt l) = b) (filterRequestLogs env inp st)))
      (bucketStarts (bucketOf off seconds s) (bucketOf off seconds e) seconds)"
  by (simp add: getRequestLogAnalytics_def assms(1) seconds_def off_def Let_def buckets_hold comp_def)

lemma series_sum:
  fixes f :: "RequestLogRecord \<Rightarrow> 'b::comm_monoid_add"
  assumes "\<And>b seconds ls. g (seriesPoint b seconds ls) = sum_list (map f ls)"
  shows "sum_list (map g (series (getRequestLogAnalytics env inp st))) = sum_list (map f (filterRequestLogs env inp st))"
proof (cases "dateRangeToUnix (browser env) (log_range inp)")
  case None
  then have "filterRequestLogs env inp st = []" using filtered_in_range [of _ env inp st] by (metis list.set_intros(1) neq_Nil_conv option.distinct(1))
  then show ?thesis by (simp add: getRequestLogAnalytics_def None Let_def)
next
  case (Some se)
  obtain s e where se: "dateRangeToUnix (browser env) (log_range inp) = Some (s, e)" using Some by (cases se) simp
  show ?thesis
    unfolding series_form [OF se] map_map comp_def assms
  proof (rule sum_by_key [OF starts_distinct])
    fix l assume "l \<in> set (filterRequestLogs env inp st)"
    then have "s \<le> createdAt l" "createdAt l \<le> e" using se by (auto elim: filtered_in_range)
    then show "bucketOf (timezoneOffsetSeconds env (log_range inp) s) (bucketSecondsFor (dateRangeDayCount (browser env) (log_range inp))) (createdAt l)
      \<in> set (bucketStarts (bucketOf (timezoneOffsetSeconds env (log_range inp) s) (bucketSecondsFor (dateRangeDayCount (browser env) (log_range inp))) s)
        (bucketOf (timezoneOffsetSeconds env (log_range inp) s) (bucketSecondsFor (dateRangeDayCount (browser env) (log_range inp))) e)
        (bucketSecondsFor (dateRangeDayCount (browser env) (log_range inp))))"
      by (intro bucket_in_starts seconds_pos)
  qed
qed

lemma totals_of_analytics:
  "analytics_requestCount (getRequestLogAnalytics env inp st) = sum_list (map (\<lambda>_. 1) (filterRequestLogs env inp st))"
  "failureCount (getRequestLogAnalytics env inp st) = sum_list (map (\<lambda>l. if status l = Failed then 1 else 0) (filterRequestLogs env inp st))"
  "totalTokens (getRequestLogAnalytics env inp st) = sum_list (map logTokens (filterRequestLogs env inp st))"
  "totalCost (getRequestLogAnalytics env inp st) = sum_list (map cost (filterRequestLogs env inp st))"
  "total_cacheHitTokens (getRequestLogAnalytics env inp st) = sum_list (map cacheHits (filterRequestLogs env inp st))"
proof -
  show "failureCount (getRequestLogAnalytics env inp st) = sum_list (map (\<lambda>l. if status l = Failed then 1 else 0) (filterRequestLogs env inp st))"
    by (simp add: getRequestLogAnalytics_def Let_def length_sum(1))
qed (simp_all add: getRequestLogAnalytics_def Let_def totals_sums length_sum(2))

lemma failed_or_pending:
  "sum_list (map (\<lambda>l. if status l = Succeeded then 0 else 1) ls) =
     sum_list (map (\<lambda>l. if status l = Failed then 1 else 0) ls) + int (length (filter (\<lambda>l. status l = Processing) ls))"
  by (induction ls) (auto intro: RequestStatus.exhaust)

lemma series_tiles:
  assumes "dateRangeToUnix (browser env) (log_range inp) = Some (s, e)" "s \<le> t" "t \<le> e"
  shows "length (filter (\<lambda>p. bucketStart p \<le> t \<and> t < bucketStart p + point_bucketSeconds p) (series (getRequestLogAnalytics env inp st))) = 1"
proof -
  let ?n = "bucketSecondsFor (dateRangeDayCount (browser env) (log_range inp))" and ?off = "timezoneOffsetSeconds env (log_range inp) s"
  let ?bs = "bucketStarts (bucketOf ?off ?n s) (bucketOf ?off ?n e) ?n"
  have "filter (\<lambda>b. b \<le> t \<and> t < b + ?n) ?bs = filter (\<lambda>b. b = bucketOf ?off ?n t) ?bs"
    by (intro filter_cong refl start_of_instant [OF seconds_pos])
  moreover have "length (filter (\<lambda>b. b = c) bs) = 1" if "distinct bs" "c \<in> set bs" for c and bs :: "int list"
    using that by (induction bs) (auto simp: filter_empty_conv)
  ultimately have "length (filter (\<lambda>b. b \<le> t \<and> t < b + ?n) ?bs) = 1"
    using starts_distinct bucket_in_starts [OF seconds_pos assms(2,3)] by simp
  then show ?thesis by (simp add: series_form [OF assms(1)] filter_map comp_def seriesPoint_def Let_def)
qed

text \<open>C36. The analysis of the request log adds up: over the series, the numbers of requests, tokens, costs and cached
  tokens sum to the totals; the failures of the series are those of the total and the requests still under way.  The
  buckets of the series tile the range: every second of it lies in exactly one.\<close>

theorem analytics_add_up:
  assumes "dateRangeToUnix (browser env) (log_range inp) = Some (s, e)"
  shows "let a = getRequestLogAnalytics env inp st in
    sum_list (map (\<lambda>p. succeeded p + failed p) (series a)) = analytics_requestCount a \<and>
    sum_list (map failed (series a)) = failureCount a + int (length (filter (\<lambda>l. status l = Processing) (filterRequestLogs env inp st))) \<and>
    sum_list (map tokens (series a)) = totalTokens a \<and> sum_list (map point_cost (series a)) = totalCost a \<and>
    sum_list (map cacheHitTokens (series a)) = total_cacheHitTokens a \<and>
    (\<forall>t. s \<le> t \<and> t \<le> e \<longrightarrow>
      length (filter (\<lambda>p. bucketStart p \<le> t \<and> t < bucketStart p + point_bucketSeconds p) (series a)) = 1)"
  unfolding Let_def totals_of_analytics
  using series_sum [of "\<lambda>p. succeeded p + failed p", OF point_sums(1)] series_sum [of failed, OF point_sums(2)] series_sum [of tokens, OF point_sums(3)]
    series_sum [of point_cost, OF point_sums(4)] series_sum [of cacheHitTokens, OF point_sums(5)] series_tiles [OF assms] failed_or_pending
  by (intro conjI allI impI) (simp_all only:, simp_all)

text \<open>A browser in Greenwich, and the seconds 90000 to 100000 of a log that was loaded at their end.\<close>

definition demoEnv :: DemoEnv where
  "demoEnv = \<lparr>lowerCase = \<lambda>s. s, upperCase = \<lambda>s. s,
     browser = \<lparr>zoneValid = \<lambda>z. z = js ''UTC'', zoneOffset = \<lambda>_ _. 0, resolvedZone = js ''UTC'', localTime = \<lambda>_. None, timezoneOffset = \<lambda>_. 0\<rparr>,
     dateNow = 100000000\<rparr>"

definition sampleRange :: DateRangeValue where
  "sampleRange = \<lparr>preset = js ''custom'', range_from = [], range_to = [], endTimestamp = Some 100000, startTimestamp = Some 90000, timeZone = None\<rparr>"

definition sampleLogQuery :: RequestLogAnalyticsInput where
  "sampleLogQuery = \<lparr>log_keyword = [], log_range = sampleRange, searchField = ByRequest, log_filter = All\<rparr>"

lemma sample_range [simp]: "dateRangeToUnix intl sampleRange = Some (90000, 100000)"
  by (simp add: dateRangeToUnix_def exactTimes_def sampleRange_def)

theorem analytics_add_up_witness:
  "let a = getRequestLogAnalytics demoEnv sampleLogQuery (initialDemoState 100000) in
   sum_list (map tokens (series a)) = totalTokens a \<and> totalTokens a = 10926"
proof -
  have "filterRequestLogs demoEnv sampleLogQuery (initialDemoState 100000) = take 4 (demoRequestLogs 100000)"
    by (simp add: filterRequestLogs_def logMatches_def sampleLogQuery_def demoEnv_def initialDemoState_def demoRequestLogs_def
      timestampMatchesDateRange_def admits_def)
  then have "totalTokens (getRequestLogAnalytics demoEnv sampleLogQuery (initialDemoState 100000)) = 10926"
    by (simp add: totals_of_analytics demoRequestLogs_def logTokens_def)
  then show ?thesis
    using analytics_add_up [of demoEnv sampleLogQuery 90000 100000 "initialDemoState 100000"] by (simp add: sampleLogQuery_def Let_def)
qed

end
