(* ===== verification/DemoProofs.thy ===== *)
theory DemoProofs
  imports DemoAnalytics
begin

text \<open>
  Theorems about the demonstration repository: an invariant of its state, identifiers of keys that are never reused,
  pages that together are the whole list, and an analysis of the request log whose series adds up to its totals.
\<close>

section \<open>Pages\<close>

lemma arraySlice_in: "0 \<le> a \<Longrightarrow> a \<le> b \<Longrightarrow> arraySlice xs a b = take (nat (b - a)) (drop (nat a) xs)"
proof -
  assume ab: "0 \<le> a" "a \<le> b"
  show ?thesis
  proof (cases "a \<le> int (length xs)")
    case True
    then have "nat (min b (int (length xs)) - a) = min (nat (b - a)) (length xs - nat a)" using ab by linarith
    moreover have "take (min m (length ys)) ys = take m ys" for m and ys :: "'a list" by (cases "m \<le> length ys") simp_all
    ultimately show ?thesis
      using ab True by (simp add: arraySlice_def sliceIndex_def Let_def flip: length_drop)
  next
    case False
    then show ?thesis using ab by (simp add: arraySlice_def sliceIndex_def Let_def)
  qed
qed

lemma chunks: "concat (map (\<lambda>k. take n (drop (k * n) xs)) [0..<m]) = take (m * n) xs"
proof (induction m)
  case (Suc m)
  then show ?case using take_add [of "m * n" n xs] by (simp add: add.commute)
qed simp

text \<open>What a list promises: its pages of any positive size, in order, are all the selected records once each, oldest
  or newest first.\<close>

definition pageCount :: "int \<Rightarrow> nat \<Rightarrow> nat" where
  "pageCount n len = nat ((int len + n - 1) div n)"

definition pagesCover :: "(SortOrder \<Rightarrow> int \<Rightarrow> int \<Rightarrow> 'a PaginatedResult) \<Rightarrow> 'a list \<Rightarrow> ('a \<Rightarrow> int) \<Rightarrow> SortOrder \<Rightarrow> int \<Rightarrow> bool" where
  "pagesCover pageOf selected created ord n \<longleftrightarrow>
     (let xs = concat (map (\<lambda>k. items (pageOf ord n (int k + 1))) [0..<pageCount n (length selected)]) in
      mset xs = mset selected \<and>
      sorted_wrt (\<lambda>x y. if ord = Asc then created x \<le> created y else created y \<le> created x) xs \<and>
      (\<forall>p. 1 \<le> p \<longrightarrow> items (pageOf ord n p) = take (nat n) (drop (nat ((p - 1) * n)) xs)) \<and>
      (\<forall>p. total (pageOf ord n p) = int (length selected)))"

locale creation_list =
  fixes pageOf :: "SortOrder \<Rightarrow> int \<Rightarrow> int \<Rightarrow> 'a PaginatedResult" and selected :: "'a list" and created :: "'a \<Rightarrow> int"
  assumes pageOf: "pageOf ord n p = paginate (js_sort (byCreation created ord) selected) \<lparr>page = p, pageSize = n, order = ord\<rparr>"
begin

definition sortedList :: "SortOrder \<Rightarrow> 'a list" where
  "sortedList ord = js_sort (byCreation created ord) selected"

lemma page_items: "0 < n \<Longrightarrow> 1 \<le> p \<Longrightarrow> items (pageOf ord n p) = take (nat n) (drop (nat ((p - 1) * n)) (sortedList ord))"
  by (simp add: pageOf paginate_def Let_def arraySlice_in sortedList_def)

lemma all_pages:
  assumes "0 < n"
  shows "concat (map (\<lambda>k. items (pageOf ord n (int k + 1))) [0..<pageCount n (length selected)]) = sortedList ord"
proof -
  have "items (pageOf ord n (int k + 1)) = take (nat n) (drop (k * nat n) (sortedList ord))" for k
    using assms page_items [of n "int k + 1" ord] by (simp add: nat_mult_distrib)
  moreover have "length (sortedList ord) \<le> pageCount n (length selected) * nat n"
  proof -
    define len where "len = int (length selected)"
    have "len \<le> (len + n - 1) div n * n"
      using div_mult_mod_eq [of "len + n - 1" n] pos_mod_bound [OF assms, of "len + n - 1"] by linarith
    moreover have "0 \<le> (len + n - 1) div n" using assms by (simp add: len_def pos_imp_zdiv_nonneg_iff)
    ultimately have "nat len \<le> nat ((len + n - 1) div n) * nat n" by (metis nat_mono nat_mult_distrib)
    then show ?thesis by (simp add: pageCount_def sortedList_def len_def)
  qed
  ultimately show ?thesis by (simp add: chunks)
qed

lemma in_order: "sorted_wrt (\<lambda>x y. if ord = Asc then created x \<le> created y else created y \<le> created x) (sortedList ord)"
proof (cases "ord = Asc")
  case True
  then have "byCreation created ord = (\<lambda>x y. created x - created y)" by (simp add: byCreation_def fun_eq_iff)
  then show ?thesis using js_comparator.sort_sorted [OF js_comparator_key [of created]] True by (simp add: sortedList_def)
next
  case False
  then have "byCreation created ord = (\<lambda>x y. created y - created x)" by (simp add: byCreation_def fun_eq_iff)
  then show ?thesis using js_comparator.sort_sorted [OF js_comparator_key_desc [of created]] False by (simp add: sortedList_def)
qed

lemma pages_cover: "0 < n \<Longrightarrow> pagesCover pageOf selected created ord n"
  unfolding pagesCover_def
  by (simp only: all_pages Let_def, intro conjI in_order)
    (simp_all add: page_items, simp_all add: sortedList_def pageOf paginate_def Let_def)

end

interpretation key_list: creation_list "\<lambda>ord n p. getApiKeysPage env (inp\<lparr>page := p, pageSize := n, order := ord\<rparr>) st"
  "matchingKeys env inp st" key_createdAt for env inp st
  by unfold_locales (simp add: getApiKeysPage_def matchingKeys_def paginate_def Let_def)

interpretation log_list: creation_list "\<lambda>ord n p. getRequestLogsPage env inp \<lparr>page = p, pageSize = n, order = ord\<rparr> st"
  "filterRequestLogs env inp st" createdAt for env inp st
  by unfold_locales (simp add: getRequestLogsPage_def)

interpretation activity_list: creation_list "\<lambda>ord n p. getAccountActivityPage env rng kind \<lparr>page = p, pageSize = n, order = ord\<rparr> st"
  "filter (\<lambda>a. timestampMatchesDateRange (browser env) (activity_createdAt a) rng \<and> admits kind (activity_type a)) (accountActivity st)"
  activity_createdAt for env rng kind st
  by unfold_locales (simp add: getAccountActivityPage_def)

interpretation ledger_list: creation_list "\<lambda>ord n p. getBillingLedgerPage env rng kind \<lparr>page = p, pageSize = n, order = ord\<rparr> st"
  "filter (\<lambda>e. timestampMatchesDateRange (browser env) (ledger_createdAt e) rng \<and> admits kind (ledger_type e)) (billingLedger st)"
  ledger_createdAt for env rng kind st
  by unfold_locales (simp add: getBillingLedgerPage_def)

interpretation task_list: creation_list "\<lambda>ord n p. getTasksPage env rng stat kind \<lparr>page = p, pageSize = n, order = ord\<rparr> st"
  "filter (\<lambda>t. timestampMatchesDateRange (browser env) (task_createdAt t) rng \<and> admits stat (task_status t) \<and> admits kind (task_type t)) (tasks st)"
  task_createdAt for env rng stat kind st
  by unfold_locales (simp add: getTasksPage_def)

lemma transactionMatches_page: "transactionMatches env (inp\<lparr>page := p, pageSize := n, order := ord\<rparr>) = transactionMatches env inp"
  by (simp add: fun_eq_iff transactionMatches_def)

interpretation transaction_list: creation_list
  "\<lambda>ord n p. getBillingTransactionsPage env (inp\<lparr>page := p, pageSize := n, order := ord\<rparr>) st"
  "filter (transactionMatches env inp) (transactions (buildBilling st))" transaction_createdAt for env inp st
  by unfold_locales (simp add: getBillingTransactionsPage_def transactionMatches_page paginate_def Let_def)

text \<open>C38. Paging through a list of the console: for every positive size, the pages from the first to the last are
  exactly the records that match the filter, each once, ordered by their creation, and every page reports the number of
  all of them.\<close>

theorem pages_are_the_list:
  assumes "0 < n"
  shows "pagesCover (\<lambda>ord n p. getApiKeysPage env (keyQuery\<lparr>page := p, pageSize := n, order := ord\<rparr>) st)
      (matchingKeys env keyQuery st) key_createdAt ord n \<and>
    pagesCover (\<lambda>ord n p. getRequestLogsPage env logQuery \<lparr>page = p, pageSize = n, order = ord\<rparr> st)
      (filterRequestLogs env logQuery st) createdAt ord n \<and>
    pagesCover (\<lambda>ord n p. getAccountActivityPage env rng activityKind \<lparr>page = p, pageSize = n, order = ord\<rparr> st)
      (filter (\<lambda>a. timestampMatchesDateRange (browser env) (activity_createdAt a) rng \<and> admits activityKind (activity_type a)) (accountActivity st))
      activity_createdAt ord n \<and>
    pagesCover (\<lambda>ord n p. getBillingLedgerPage env rng ledgerKind \<lparr>page = p, pageSize = n, order = ord\<rparr> st)
      (filter (\<lambda>e. timestampMatchesDateRange (browser env) (ledger_createdAt e) rng \<and> admits ledgerKind (ledger_type e)) (billingLedger st))
      ledger_createdAt ord n \<and>
    pagesCover (\<lambda>ord n p. getTasksPage env rng taskState taskKind \<lparr>page = p, pageSize = n, order = ord\<rparr> st)
      (filter (\<lambda>t. timestampMatchesDateRange (browser env) (task_createdAt t) rng \<and> admits taskState (task_status t) \<and> admits taskKind (task_type t)) (tasks st))
      task_createdAt ord n \<and>
    pagesCover (\<lambda>ord n p. getBillingTransactionsPage env (billQuery\<lparr>page := p, pageSize := n, order := ord\<rparr>) st)
      (filter (transactionMatches env billQuery) (transactions (buildBilling st))) transaction_createdAt ord n"
  using key_list.pages_cover [OF assms] log_list.pages_cover [OF assms] activity_list.pages_cover [OF assms]
    ledger_list.pages_cover [OF assms] task_list.pages_cover [OF assms] transaction_list.pages_cover [OF assms]
  by (intro conjI)

theorem pages_are_the_list_witness:
  "pagesCover (\<lambda>ord n p. getTasksPage demoEnv sampleRange All (Only VideoTask) \<lparr>page = p, pageSize = n, order = ord\<rparr> (initialDemoState 100000))
     (filter (\<lambda>t. timestampMatchesDateRange (browser demoEnv) (task_createdAt t) sampleRange \<and> admits All (task_status t) \<and>
       admits (Only VideoTask) (task_type t)) (tasks (initialDemoState 100000))) task_createdAt Desc 2"
  using pages_are_the_list [of 2 demoEnv undefined "initialDemoState 100000" Desc sampleLogQuery sampleRange All All All "Only VideoTask" undefined]
  by simp

section \<open>The state\<close>

definition keysOk :: "DemoState \<Rightarrow> bool" where
  "keysOk st \<longleftrightarrow> distinct (map key_id (apiKeys st)) \<and> 0 < nextApiKeyId st \<and>
     list_all (\<lambda>k. 0 < key_id k \<and> key_id k < nextApiKeyId st \<and> (unlimitedQuota k \<longrightarrow> remainingQuotaUsd k = 0)) (apiKeys st)"

definition secretsHidden :: "DemoState \<Rightarrow> bool" where
  "secretsHidden st \<longleftrightarrow> gotifyToken (preferences (account st)) = [] \<and> webhookSecret (preferences (account st)) = []"

definition plansOk :: "DemoState \<Rightarrow> bool" where
  "plansOk st \<longleftrightarrow> distinct (demoCurrentPlanIds st) \<and> (\<forall>i. 0 \<le> purchases st i \<and> (i \<in> set (demoCurrentPlanIds st) \<longleftrightarrow> 0 < purchases st i))"

definition securityOk :: "AccountSecurity \<Rightarrow> bool" where
  "securityOk s \<longleftrightarrow> (passkeyEnabled s \<longleftrightarrow> passkeyLastUsedAt s \<noteq> None) \<and> (evmWalletEnabled s \<longleftrightarrow> evmWalletAddress s \<noteq> None) \<and>
     (evmWalletEnabled s \<longleftrightarrow> evmWalletRemovable s) \<and> (twoFactorEnabled s \<longrightarrow> backupCodesRemaining s \<noteq> None)"

definition sessionsOk :: "DemoState \<Rightarrow> bool" where
  "sessionsOk st \<longleftrightarrow> distinct (map login_id (sessions (account st))) \<and> length (filter current (sessions (account st))) \<le> 1"

definition demoOk :: "DemoState \<Rightarrow> bool" where
  "demoOk st \<longleftrightarrow> keysOk st \<and> secretsHidden st \<and> plansOk st \<and> securityOk (security (account st)) \<and> sessionsOk st"

lemma replaceKey_ok:
  assumes "keysOk st" "\<And>k. key_id (f k) = key_id k" "\<And>k. unlimitedQuota k \<longrightarrow> remainingQuotaUsd k = 0 \<Longrightarrow> unlimitedQuota (f k) \<longrightarrow> remainingQuotaUsd (f k) = 0"
  shows "keysOk (snd (replaceKey i f st))"
proof (cases "find (\<lambda>k. key_id k = i) (apiKeys st)")
  case (Some k)
  then have k: "k \<in> set (apiKeys st)" "key_id k = i" by (auto simp: find_Some_iff)
  have ids: "map (key_id \<circ> (\<lambda>x. if key_id x = i then f k else x)) (apiKeys st) = map key_id (apiKeys st)"
    using assms(2) k(2) by simp
  have keys: "apiKeys (snd (replaceKey i f st)) = map (\<lambda>x. if key_id x = i then f k else x) (apiKeys st)"
    "nextApiKeyId (snd (replaceKey i f st)) = nextApiKeyId st" by (simp_all add: replaceKey_def Some)
  show ?thesis unfolding keysOk_def keys
  proof (intro conjI)
    show "distinct (map key_id (map (\<lambda>x. if key_id x = i then f k else x) (apiKeys st)))"
      unfolding map_map ids using assms(1) by (simp add: keysOk_def)
  qed (use assms k in \<open>auto simp: keysOk_def list_all_iff\<close>)
qed (use assms in \<open>simp add: replaceKey_def\<close>)

lemma purchase_ok:
  assumes "plansOk st"
  shows "plansOk (snd (purchaseSubscription i method st))"
proof (cases "fst (purchaseSubscription i method st)")
  case (Inl e)
  then have "snd (purchaseSubscription i method st) = st"
    by (auto simp: purchaseSubscription_def Let_def split: option.splits if_splits)
  then show ?thesis using assms by simp
next
  case (Inr u)
  let ?st' = "snd (purchaseSubscription i method st)"
  obtain plan where "find (\<lambda>p. plan_id p = i) (plans (buildBilling st)) = Some plan" "plan_id plan = i"
    using Inr by (auto simp: purchaseSubscription_def find_Some_iff split: option.splits)
  then have ids: "demoCurrentPlanIds ?st' = (if i \<in> set (demoCurrentPlanIds st) then demoCurrentPlanIds st else demoCurrentPlanIds st @ [i])"
    and bought: "demoSubscriptionPurchases ?st' = AList.update i (purchases st i + 1) (demoSubscriptionPurchases st)"
    using Inr by (auto simp: purchaseSubscription_def Let_def purchases_def split: if_splits)
  have p: "purchases ?st' j = (if j = i then purchases st i + 1 else purchases st j)" for j
    unfolding purchases_def bought by (simp add: update_conv')
  show ?thesis using assms by (auto simp: plansOk_def p ids)
qed

lemma regenerate_snd:
  "snd (regenerateTwoFactorBackupCodes st) = snd (setSecurity (\<lambda>s. s\<lparr>backupCodesRemaining := Some (int (length newBackupCodes))\<rparr>) st)"
  by (simp add: regenerateTwoFactorBackupCodes_def split: prod.splits sum.splits)

lemmas account_calls = register_def signIn_def clearLocalSession_def signOut_def setAccountUser_def updateProfile_def
  updatePreferences_def revokeSession_def revokeOtherSessions_def setSecurity_def enableTwoFactor_def disableTwoFactor_def
  regenerate_snd registerPasskey_def removePasskey_def completeEVMWalletBinding_def removeEVMWallet_def
  completeEVMWalletPasswordSetup_def createRechargeCheckout_def revokeApiKey_def createApiKey_def updateApiKey_def
  setApiKeyEnabled_def Let_def

text \<open>What the remaining calls leave alone.\<close>

lemma replaceKey_frame:
  "account (snd (replaceKey i f st)) = account st" "nextApiKeyId (snd (replaceKey i f st)) = nextApiKeyId st"
  "demoCurrentPlanIds (snd (replaceKey i f st)) = demoCurrentPlanIds st"
  "demoSubscriptionPurchases (snd (replaceKey i f st)) = demoSubscriptionPurchases st"
  by (simp_all add: replaceKey_def split: option.splits)

lemma wallet_frame:
  "account (snd (completeEVMWalletAuth st)) = account st" "nextApiKeyId (snd (completeEVMWalletAuth st)) = nextApiKeyId st"
  "apiKeys (snd (completeEVMWalletAuth st)) = apiKeys st"
  "demoCurrentPlanIds (snd (completeEVMWalletAuth st)) = demoCurrentPlanIds st"
  "demoSubscriptionPurchases (snd (completeEVMWalletAuth st)) = demoSubscriptionPurchases st"
  by (simp_all add: completeEVMWalletAuth_def Let_def split: option.splits)

lemma redeem_frame:
  "account (snd (redeemCode env code st)) = account st" "nextApiKeyId (snd (redeemCode env code st)) = nextApiKeyId st"
  "apiKeys (snd (redeemCode env code st)) = apiKeys st"
  "demoCurrentPlanIds (snd (redeemCode env code st)) = demoCurrentPlanIds st"
  "demoSubscriptionPurchases (snd (redeemCode env code st)) = demoSubscriptionPurchases st"
  by (simp_all add: redeemCode_def Let_def)

lemma purchase_frame:
  "account (snd (purchaseSubscription i method st)) = account st" "nextApiKeyId (snd (purchaseSubscription i method st)) = nextApiKeyId st"
  "apiKeys (snd (purchaseSubscription i method st)) = apiKeys st"
  by (simp_all add: purchaseSubscription_def Let_def split: option.splits)

lemmas call_frames = replaceKey_frame wallet_frame redeem_frame purchase_frame

lemma call_keys:
  assumes "keysOk st"
  shows "keysOk (demoCall env c st)"
proof (cases c)
  case (CreateApiKey inp)
  then show ?thesis using assms by (auto simp: keysOk_def createApiKey_def Let_def list_all_iff)
next
  case (UpdateApiKey inp)
  then show ?thesis using assms by (simp add: updateApiKey_def replaceKey_ok)
next
  case (SetApiKeyEnabled i b)
  then show ?thesis using assms by (simp add: setApiKeyEnabled_def replaceKey_ok)
next
  case (RevokeApiKey i)
  then show ?thesis using assms by (auto simp: keysOk_def revokeApiKey_def list_all_iff intro: distinct_map_filter)
qed (use assms in \<open>simp_all add: keysOk_def account_calls call_frames\<close>)

lemma call_secrets: "secretsHidden st \<Longrightarrow> secretsHidden (demoCall env c st)"
  by (cases c) (simp_all add: secretsHidden_def account_calls call_frames)

lemma call_plans: "plansOk st \<Longrightarrow> plansOk (demoCall env c st)"
proof (cases "\<exists>i method. c = PurchaseSubscription i method")
  case False
  then have "demoCurrentPlanIds (demoCall env c st) = demoCurrentPlanIds st"
    by (cases c) (simp_all add: account_calls call_frames)
  moreover have "demoSubscriptionPurchases (demoCall env c st) = demoSubscriptionPurchases st"
    using False by (cases c) (simp_all add: account_calls call_frames)
  ultimately show "plansOk st \<Longrightarrow> ?thesis" by (simp add: plansOk_def purchases_def)
qed (auto simp: purchase_ok)

lemma call_security: "securityOk (security (account st)) \<Longrightarrow> securityOk (security (account (demoCall env c st)))"
  by (cases c; simp add: account_calls call_frames; auto simp: securityOk_def)

lemma filter_current: "length (filter current xs) \<le> 1 \<Longrightarrow> length (filter current (filter P xs)) \<le> 1"
proof -
  have "length (filter current (filter P xs)) \<le> length (filter current xs)" by (induction xs) simp_all
  then show "length (filter current xs) \<le> 1 \<Longrightarrow> ?thesis" by simp
qed

lemma call_sessions: "sessionsOk st \<Longrightarrow> sessionsOk (demoCall env c st)"
  by (cases c) (simp_all add: sessionsOk_def account_calls call_frames distinct_map_filter filter_current del: filter_filter One_nat_def)

lemma initial_ok: "demoOk (initialDemoState now)"
  by (simp add: demoOk_def keysOk_def secretsHidden_def plansOk_def securityOk_def sessionsOk_def initialDemoState_def demoApiKeys_def
    demoAccount_def purchases_def)

lemma reachable_ok: "demoReachable now st \<Longrightarrow> demoOk st"
proof (induction rule: demoReachable.induct)
  case start
  show ?case by (rule initial_ok)
next
  case (call st env c)
  then show ?case by (simp add: demoOk_def call_keys call_secrets call_plans call_security call_sessions)
qed

text \<open>C37. However the demonstration repository is used, its API keys have different positive identifiers below the
  next one, keys without limit have no remaining amount, no secret of the notification settings is kept, the plans in use
  are those bought at least once, the flags of passkey, wallet and second factor agree with their data, and at most one
  login session is the current one.\<close>

theorem demo_invariant:
  assumes "demoReachable now st"
  shows "keysOk st \<and> secretsHidden st \<and> plansOk st \<and> securityOk (security (account st)) \<and> sessionsOk st"
  using reachable_ok [OF assms] by (simp add: demoOk_def)

theorem demo_invariant_witness:
  "let st = demoCall demoEnv (PurchaseSubscription 3 Stripe) (initialDemoState 0) in
   set (demoCurrentPlanIds st) = {2, 3} \<and> plansOk st"
proof -
  have "demoReachable 0 (demoCall demoEnv (PurchaseSubscription 3 Stripe) (initialDemoState 0))"
    by (intro demoReachable.intros)
  from demo_invariant [OF this] show ?thesis
    by (simp add: purchaseSubscription_def buildBilling_def billingPlans_def initialDemoState_def Let_def insert_commute)
qed

text \<open>Calls one after another.\<close>

fun demoCalls :: "(DemoEnv \<times> DemoCall) list \<Rightarrow> DemoState \<Rightarrow> DemoState" where
  "demoCalls [] st = st"
| "demoCalls ((env, c) # cs) st = demoCalls cs (demoCall env c st)"

definition keyIds :: "DemoState \<Rightarrow> int set" where
  "keyIds st = key_id ` set (apiKeys st)"

lemma replaceKey_ids: "\<lbrakk>\<And>k. key_id (f k) = key_id k\<rbrakk> \<Longrightarrow> keyIds (snd (replaceKey i f st)) \<subseteq> keyIds st"
  by (auto simp: keyIds_def replaceKey_def find_Some_iff split: option.splits if_splits)

lemma call_ids: "keyIds (demoCall env c st) \<subseteq> insert (nextApiKeyId st) (keyIds st) \<and> nextApiKeyId st \<le> nextApiKeyId (demoCall env c st) \<and>
    (nextApiKeyId (demoCall env c st) = nextApiKeyId st \<longrightarrow> keyIds (demoCall env c st) \<subseteq> keyIds st)"
proof (cases c)
  case (CreateApiKey inp)
  then show ?thesis by (auto simp: keyIds_def createApiKey_def Let_def)
next
  case (UpdateApiKey inp)
  have "keyIds (snd (updateApiKey inp st)) \<subseteq> keyIds st" unfolding updateApiKey_def by (rule replaceKey_ids) simp
  moreover have "nextApiKeyId (snd (updateApiKey inp st)) = nextApiKeyId st" by (simp add: updateApiKey_def replaceKey_frame)
  ultimately show ?thesis using UpdateApiKey by auto
next
  case (SetApiKeyEnabled i b)
  have "keyIds (snd (setApiKeyEnabled i b st)) \<subseteq> keyIds st" unfolding setApiKeyEnabled_def by (rule replaceKey_ids) simp
  moreover have "nextApiKeyId (snd (setApiKeyEnabled i b st)) = nextApiKeyId st" by (simp add: setApiKeyEnabled_def replaceKey_frame)
  ultimately show ?thesis using SetApiKeyEnabled by auto
next
  case (RevokeApiKey i)
  then show ?thesis by (auto simp: keyIds_def revokeApiKey_def)
qed (simp_all add: keyIds_def account_calls call_frames subset_insertI)

lemma calls_ids: "i < nextApiKeyId st \<Longrightarrow> i \<notin> keyIds st \<Longrightarrow> i \<notin> keyIds (demoCalls cs st)"
proof (induction cs st rule: demoCalls.induct)
  case (2 env c cs st)
  then show ?case using call_ids [of env c st] by (auto dest!: subsetD)
qed simp

text \<open>C39. The identifier of a revoked API key never returns: whatever is called afterwards, no key has it again.\<close>

theorem revoked_key_gone:
  assumes "demoReachable now st" "i \<in> keyIds st"
  shows "i \<notin> keyIds (demoCalls cs (revokeApiKey i st))"
proof (rule calls_ids)
  show "i < nextApiKeyId (revokeApiKey i st)"
    using reachable_ok [OF assms(1)] assms(2) by (auto simp: demoOk_def keysOk_def list_all_iff keyIds_def revokeApiKey_def)
qed (auto simp: keyIds_def revokeApiKey_def)

theorem revoked_key_gone_witness:
  "\<forall>env inp. 2 \<notin> keyIds (demoCalls [(env, CreateApiKey inp), (env, SetApiKeyEnabled 2 True)] (revokeApiKey 2 (initialDemoState 0)))"
  by (intro allI, rule revoked_key_gone [OF demoReachable.start]) (simp add: keyIds_def initialDemoState_def demoApiKeys_def)

end
