(* ===== verification/LiveContract.thy ===== *)
theory LiveContract
  imports JsNumber
begin

text \<open>
  Reading the answers of the server in the console: \<open>src/frontend/apps/console/src/data/live-contract.ts\<close> and the
  conversions at the start of \<open>live-repository.ts\<close> in the same directory.  An answer is an unchecked value; a reader
  gives the value of a property at its type, a default, or an error that names the field.

  Errors are on the left of a sum.  \<open>JSON.parse\<close>, the text of a number and the letter case are arguments.  Numbers are
  exact.
\<close>

section \<open>Errors\<close>

text \<open>
  A \<open>LiveDataContractError\<close> with its field; a plain \<open>Error\<close> with its message; the error of the API client with its
  message, status, code and request identifier, where message and code are the values of the answer; a rejected
  \<open>fetch\<close>; and the \<open>TypeError\<close> of reading a property of \<open>null\<close>.
\<close>

datatype LiveError =
    LiveDataContractError jsstring
  | PlainError jsstring
  | ApiClientError jsval nat jsval "jsstring option"
  | FetchRejected
  | NullTypeError

type_synonym 'a live = "LiveError + 'a"

definition bindE :: "'a live \<Rightarrow> ('a \<Rightarrow> 'b live) \<Rightarrow> 'b live" where
  "bindE r f = (case r of Inl e \<Rightarrow> Inl e | Inr x \<Rightarrow> f x)"

lemma bindE_simps [simp]: "bindE (Inr x) f = f x" "bindE (Inl e) f = Inl e"
  by (simp_all add: bindE_def)

lemma bindE_Inr: "bindE r f = Inr y \<longleftrightarrow> (\<exists>x. r = Inr x \<and> f x = Inr y)"
  by (cases r) auto

lemma bindE_Inl: "bindE r f = Inl e \<longleftrightarrow> r = Inl e \<or> (\<exists>x. r = Inr x \<and> f x = Inl e)"
  by (cases r) auto

definition guardE :: "bool \<Rightarrow> jsstring \<Rightarrow> unit live" where
  "guardE ok field = (if ok then Inr () else Inl (LiveDataContractError field))"

lemma guardE_Inr [simp]: "guardE ok field = Inr u \<longleftrightarrow> ok"
  by (simp add: guardE_def)

text \<open>\<open>map\<close> with the index, up to the first error.\<close>

fun mapE_from :: "nat \<Rightarrow> (nat \<Rightarrow> 'a \<Rightarrow> 'b live) \<Rightarrow> 'a list \<Rightarrow> 'b list live" where
  "mapE_from i f [] = Inr []"
| "mapE_from i f (x # xs) = bindE (f i x) (\<lambda>y. bindE (mapE_from (Suc i) f xs) (\<lambda>ys. Inr (y # ys)))"

definition mapE :: "(nat \<Rightarrow> 'a \<Rightarrow> 'b live) \<Rightarrow> 'a list \<Rightarrow> 'b list live" where
  "mapE f xs = mapE_from 0 f xs"

lemma mapE_from_Inr: "mapE_from i f xs = Inr ys \<Longrightarrow> list_all2 (\<lambda>x y. \<exists>k. f k x = Inr y) xs ys"
  by (induction xs arbitrary: i ys) (auto simp: bindE_Inr)

lemma mapE_from_Inl: "mapE_from i f xs = Inl e \<Longrightarrow> \<exists>x \<in> set xs. \<exists>k. f k x = Inl e"
  by (induction xs arbitrary: i) (auto simp: bindE_Inl)

lemma mapE_Inr: "mapE f xs = Inr ys \<Longrightarrow> list_all2 (\<lambda>x y. \<exists>k. f k x = Inr y) xs ys"
  by (simp add: mapE_def mapE_from_Inr)

lemma mapE_Inl: "mapE f xs = Inl e \<Longrightarrow> \<exists>x \<in> set xs. \<exists>k. f k x = Inl e"
  by (simp add: mapE_def mapE_from_Inl)

lemma mapE_all: "mapE f xs = Inr ys \<Longrightarrow> (\<And>k x y. f k x = Inr y \<Longrightarrow> P y) \<Longrightarrow> list_all P ys"
  using mapE_Inr [of f xs ys] by (auto simp: list_all2_conv_all_nth list_all_length)

text \<open>A weak congruence: a chain of binds is evaluated from its first result.\<close>

lemma bindE_first: "r = r' \<Longrightarrow> bindE r f = bindE r' f"
  by simp

text \<open>\<open>field[index].name\<close>.\<close>

definition indexed :: "string \<Rightarrow> nat \<Rightarrow> string \<Rightarrow> jsstring" where
  "indexed field i name = js field @ js ''['' @ nat_str i @ js '']'' @ js name"

section \<open>Readers\<close>

definition asRecord :: "jsval \<Rightarrow> jsval" where
  "asRecord v = (if isRecord v then v else JObj [])"

text \<open>\<open>Number(value)\<close>.  An array is read through its text, so that one with a single element stands for the
  element and one with several is not a number.\<close>

fun elementNumber :: "jsval \<Rightarrow> rat jsnum" where
  "elementNumber (JNum n) = n"
| "elementNumber (JStr s) = jsNumber s"
| "elementNumber (JArr []) = Num 0"
| "elementNumber (JArr [v]) = elementNumber v"
| "elementNumber JNull = Num 0"
| "elementNumber JUndef = Num 0"
| "elementNumber _ = NaN"

definition toNumber :: "jsval \<Rightarrow> rat jsnum" where
  "toNumber v = (case v of
     JUndef \<Rightarrow> NaN | JNull \<Rightarrow> Num 0 | JBool b \<Rightarrow> Num (if b then 1 else 0) | _ \<Rightarrow> elementNumber v)"

definition readString :: "jsval \<Rightarrow> string \<Rightarrow> jsstring \<Rightarrow> jsstring" where
  "readString record key fallback = (case get_prop record (js key) of JStr s \<Rightarrow> s | _ \<Rightarrow> fallback)"

text \<open>\<open>readString(record, key) || null\<close>.\<close>

definition readText :: "jsval \<Rightarrow> string \<Rightarrow> jsstring option" where
  "readText record key = (let s = readString record key [] in if s = [] then None else Some s)"

definition missing :: "jsval \<Rightarrow> bool" where
  "missing v \<longleftrightarrow> v = JNull \<or> v = JUndef \<or> v = JStr []"

definition readOptionalNumber :: "jsval \<Rightarrow> string \<Rightarrow> rat option" where
  "readOptionalNumber record key =
     (let v = get_prop record (js key) in
      if missing v then None else (case toNumber v of Num q \<Rightarrow> Some q | _ \<Rightarrow> None))"

definition readNumber :: "jsval \<Rightarrow> string \<Rightarrow> rat jsnum \<Rightarrow> rat jsnum" where
  "readNumber record key fallback =
     (let v = get_prop record (js key) in
      if missing v then fallback else (case toNumber v of Num q \<Rightarrow> Num q | _ \<Rightarrow> fallback))"

definition readOptionalBoolean :: "jsval \<Rightarrow> string \<Rightarrow> bool option" where
  "readOptionalBoolean record key = (case get_prop record (js key) of JBool b \<Rightarrow> Some b | _ \<Rightarrow> None)"

definition requireString :: "jsval \<Rightarrow> string \<Rightarrow> jsstring \<Rightarrow> jsstring live" where
  "requireString record key field =
     (let v = trim (readString record key []) in if v = [] then Inl (LiveDataContractError field) else Inr v)"

definition requireStringField :: "jsval \<Rightarrow> string \<Rightarrow> jsstring \<Rightarrow> jsstring live" where
  "requireStringField record key field = (case get_prop record (js key) of
     JStr s \<Rightarrow> Inr s | _ \<Rightarrow> Inl (LiveDataContractError field))"

definition requireNumber :: "jsval \<Rightarrow> string \<Rightarrow> jsstring \<Rightarrow> rat live" where
  "requireNumber record key field = (case readOptionalNumber record key of
     Some q \<Rightarrow> Inr q | None \<Rightarrow> Inl (LiveDataContractError field))"

definition requireBoolean :: "jsval \<Rightarrow> string \<Rightarrow> jsstring \<Rightarrow> bool live" where
  "requireBoolean record key field = (case readOptionalBoolean record key of
     Some b \<Rightarrow> Inr b | None \<Rightarrow> Inl (LiveDataContractError field))"

definition readItems :: "jsval \<Rightarrow> jsval list" where
  "readItems v = (case v of JArr xs \<Rightarrow> xs | _ \<Rightarrow> (case get_prop (asRecord v) (js ''items'') of JArr xs \<Rightarrow> xs | _ \<Rightarrow> []))"

definition requireItems :: "jsval \<Rightarrow> jsstring \<Rightarrow> jsval list live" where
  "requireItems v field = (case v of
     JArr xs \<Rightarrow> Inr xs
   | _ \<Rightarrow> (case get_prop (asRecord v) (js ''items'') of JArr xs \<Rightarrow> Inr xs | _ \<Rightarrow> Inl (LiveDataContractError field)))"

definition readOptionalItems :: "jsval \<Rightarrow> jsstring \<Rightarrow> jsval list live" where
  "readOptionalItems v field = (if v = JNull \<or> v = JUndef then Inr [] else requireItems v field)"

text \<open>\<open>Date.parse\<close> is an argument.\<close>

definition readUnixTime :: "(jsstring \<Rightarrow> int option) \<Rightarrow> jsval \<Rightarrow> string \<Rightarrow> rat option" where
  "readUnixTime dateParse record key = (case get_prop record (js key) of
     JNum (Num q) \<Rightarrow> if q > 0 then Some q else None
   | JStr s \<Rightarrow> if s = [] then None else map_option (\<lambda>ms. of_int (ms div 1000)) (dateParse s)
   | _ \<Rightarrow> None)"

section \<open>Amounts\<close>

definition quotaUnitsToUsd :: "rat \<Rightarrow> rat jsnum \<Rightarrow> rat live" where
  "quotaUnitsToUsd quota quotaPerUnit = (case quotaPerUnit of
     Num u \<Rightarrow> if u \<le> 0 then Inl (LiveDataContractError (js ''status.quota_per_unit'')) else Inr (quota / u)
   | _ \<Rightarrow> Inl (LiveDataContractError (js ''status.quota_per_unit'')))"

definition maxSafeInteger :: int where
  "maxSafeInteger = 9007199254740991"

text \<open>\<open>Math.round\<close>: to the nearest integer, halves up.\<close>

definition mathRound :: "rat \<Rightarrow> int" where
  "mathRound x = \<lfloor>x + 1 / 2\<rfloor>"

definition usdToQuotaUnits :: "rat jsnum \<Rightarrow> rat jsnum \<Rightarrow> jsstring \<Rightarrow> int live" where
  "usdToQuotaUnits amountUsd quotaPerUnit field = (case amountUsd of
     Num a \<Rightarrow>
       (if a < 0 then Inl (LiveDataContractError field)
        else (case quotaPerUnit of
            Num u \<Rightarrow>
              (if u \<le> 0 then Inl (LiveDataContractError (js ''status.quota_per_unit''))
               else
                 (let quota = mathRound (a * u) in
                  if \<bar>quota\<bar> > maxSafeInteger \<or> a > 0 \<and> quota = 0 then Inl (LiveDataContractError field) else Inr quota))
          | _ \<Rightarrow> Inl (LiveDataContractError (js ''status.quota_per_unit''))))
   | _ \<Rightarrow> Inl (LiveDataContractError field))"

section \<open>Embedded JSON\<close>

definition parseRecord :: "(jsstring \<Rightarrow> jsval option) \<Rightarrow> jsval \<Rightarrow> jsstring option \<Rightarrow> jsval live" where
  "parseRecord parseJson v field = (case v of
     JStr s \<Rightarrow>
       (if s = [] then Inr (JObj [])
        else (case parseJson s of
            None \<Rightarrow> (case field of Some f \<Rightarrow> Inl (LiveDataContractError f) | None \<Rightarrow> Inr (JObj []))
          | Some p \<Rightarrow>
              (case field of
                 Some f \<Rightarrow> (case p of JObj fs \<Rightarrow> Inr p | _ \<Rightarrow> Inl (LiveDataContractError f))
               | None \<Rightarrow> Inr (asRecord p))))
   | _ \<Rightarrow> Inr (asRecord v))"

definition parseOptionalRecord :: "(jsstring \<Rightarrow> jsval option) \<Rightarrow> jsval \<Rightarrow> jsstring \<Rightarrow> jsval live" where
  "parseOptionalRecord parseJson v field =
     (if missing v then Inr (JObj [])
      else (case v of
          JStr s \<Rightarrow>
            (case parseJson s of
               None \<Rightarrow> Inl (LiveDataContractError field)
             | Some p \<Rightarrow> (case p of JNull \<Rightarrow> Inr (JObj []) | JObj fs \<Rightarrow> Inr p | _ \<Rightarrow> Inl (LiveDataContractError field)))
        | JObj fs \<Rightarrow> Inr v
        | _ \<Rightarrow> Inl (LiveDataContractError field)))"

definition parseList :: "(jsstring \<Rightarrow> jsval option) \<Rightarrow> jsval \<Rightarrow> jsstring \<Rightarrow> jsval list live" where
  "parseList parseJson v field = (case v of
     JArr xs \<Rightarrow> Inr xs
   | JStr s \<Rightarrow>
       (if s = [] then Inr []
        else (case parseJson s of Some (JArr xs) \<Rightarrow> Inr xs | _ \<Rightarrow> Inl (LiveDataContractError field)))
   | JNull \<Rightarrow> Inr []
   | JUndef \<Rightarrow> Inr []
   | _ \<Rightarrow> Inl (LiveDataContractError field))"

end
