(* ===== verification/LiveMappers.thy ===== *)
theory LiveMappers
  imports LiveContract
begin

text \<open>
  From answers of the server to the console's records: the mappers of
  \<open>src/frontend/apps/console/src/data/live-repository.ts\<close> for API keys and tasks, and for pages of
  records.  Numbers of an answer are fractions, as the
  code does not ask for integers where this model has a fraction.  The fields of a record are read in the order of the
  code, so that the first error is the one reported.
\<close>

record LiveEnv =
  parseJson :: "jsstring \<Rightarrow> jsval option"
  numText :: "rat \<Rightarrow> jsstring"
  lowerCase :: "jsstring \<Rightarrow> jsstring"
  upperCase :: "jsstring \<Rightarrow> jsstring"
  encodeURIComponent :: "jsstring \<Rightarrow> jsstring"
  urlProtocol :: "jsstring \<Rightarrow> jsstring option"

definition positive :: "rat \<Rightarrow> rat option" where
  "positive q = (if q > 0 then Some q else None)"

definition orText :: "jsstring option \<Rightarrow> jsstring option \<Rightarrow> jsstring option" where
  "orText a b = (case a of Some s \<Rightarrow> Some s | None \<Rightarrow> b)"

definition textOrNone :: "jsstring option \<Rightarrow> jsstring option" where
  "textOrNone s = (case s of Some t \<Rightarrow> if t = [] then None else Some t | None \<Rightarrow> None)"

section \<open>Pages\<close>

record 'a LivePage =
  page_items :: "'a list"
  page_number :: rat
  page_size :: rat
  page_total :: rat

definition mapPaginatedResult :: "jsval \<Rightarrow> (jsval \<Rightarrow> 'a live) \<Rightarrow> 'a LivePage live" where
  "mapPaginatedResult v mapItem =
     (let page = asRecord v in
      bindE (requireItems v (js ''pagination.items'')) (\<lambda>raw.
      bindE (mapE (\<lambda>_. mapItem) raw) (\<lambda>xs.
      bindE (requireNumber page ''page'' (js ''pagination.page'')) (\<lambda>p.
      bindE (requireNumber page ''page_size'' (js ''pagination.page_size'')) (\<lambda>n.
      bindE (requireNumber page ''total'' (js ''pagination.total'')) (\<lambda>t.
      Inr \<lparr>page_items = xs, page_number = p, page_size = n, page_total = t\<rparr>))))))"

definition toSearchPattern :: "jsstring \<Rightarrow> jsstring" where
  "toSearchPattern v = (if length v \<ge> 2 then js ''%'' @ v @ js ''%'' else v)"

section \<open>API keys\<close>

datatype LiveKeyStatus = KeyActive | KeyDisabled | KeyExpired | KeyExhausted | KeyUnknown

definition mapApiKeyStatus :: "rat \<Rightarrow> LiveKeyStatus" where
  "mapApiKeyStatus s = (if s = 1 then KeyActive else if s = 2 then KeyDisabled else if s = 3 then KeyExpired
     else if s = 4 then KeyExhausted else KeyUnknown)"

record LiveApiKey =
  lk_id :: rat
  lk_name :: jsstring
  lk_maskedKey :: jsstring
  lk_status :: LiveKeyStatus
  lk_createdAt :: rat
  lk_lastUsedAt :: "rat option"
  lk_expiresAt :: "rat option"
  lk_unlimitedQuota :: bool
  lk_remainingQuotaUsd :: rat
  lk_usedQuotaUsd :: rat
  lk_group :: jsstring
  lk_allowedModels :: "jsstring list"
  lk_allowedIps :: "jsstring list"

text \<open>The mask of a key: at most its first and last four units, without stars and bullets in front.\<close>

definition lastUnits :: "nat \<Rightarrow> jsstring \<Rightarrow> jsstring" where
  "lastUnits n s = drop (length s - n) s"

definition maskKey :: "jsstring \<Rightarrow> jsstring" where
  "maskKey key =
     (let normalizedKey = (if startsWith key (js ''sk-'') then drop 3 key else key);
          visiblePrefix = filter (\<lambda>c. c \<noteq> 42 \<and> c \<noteq> 8226) (take 4 normalizedKey); suffix = lastUnits 4 normalizedKey in
      js ''sk-'' @ visiblePrefix @ replicate 8 8226 @ suffix)"

definition listedTexts :: "jsstring list \<Rightarrow> jsstring list" where
  "listedTexts parts = filter (\<lambda>s. s \<noteq> []) (map trim parts)"

text \<open>Splitting at runs of line feeds and commas, \<open>/[\n,]+/\<close>: the empty pieces within a run are dropped afterwards.\<close>

definition splitIps :: "jsstring \<Rightarrow> jsstring list" where
  "splitIps s = concat (map (split_on 10) (split_on 44 s))"

definition mapApiKey :: "jsval \<Rightarrow> rat jsnum \<Rightarrow> LiveApiKey live" where
  "mapApiKey v quotaPerUnit =
     (let record = asRecord v in
      bindE (requireString record ''key'' (js ''api_key.key'')) (\<lambda>key.
      bindE (requireNumber record ''expired_time'' (js ''api_key.expired_time'')) (\<lambda>expiresAt.
      bindE (requireNumber record ''accessed_time'' (js ''api_key.accessed_time'')) (\<lambda>lastUsedAt.
      bindE (requireStringField record ''model_limits'' (js ''api_key.model_limits'')) (\<lambda>modelLimits.
      bindE (if get_prop record (js ''allow_ips'') = JNull then Inr []
             else requireStringField record ''allow_ips'' (js ''api_key.allow_ips'')) (\<lambda>allowIps.
      bindE (requireNumber record ''id'' (js ''api_key.id'')) (\<lambda>i.
      bindE (requireString record ''name'' (js ''api_key.name'')) (\<lambda>name.
      bindE (requireNumber record ''status'' (js ''api_key.status'')) (\<lambda>status.
      bindE (requireNumber record ''created_time'' (js ''api_key.created_time'')) (\<lambda>created.
      bindE (requireBoolean record ''unlimited_quota'' (js ''api_key.unlimited_quota'')) (\<lambda>unlimited.
      bindE (requireNumber record ''remain_quota'' (js ''api_key.remain_quota'')) (\<lambda>remain.
      bindE (quotaUnitsToUsd remain quotaPerUnit) (\<lambda>remainUsd.
      bindE (requireNumber record ''used_quota'' (js ''api_key.used_quota'')) (\<lambda>used.
      bindE (quotaUnitsToUsd used quotaPerUnit) (\<lambda>usedUsd.
      Inr \<lparr>lk_id = i, lk_name = name, lk_maskedKey = maskKey key, lk_status = mapApiKeyStatus status, lk_createdAt = created,
        lk_lastUsedAt = positive lastUsedAt, lk_expiresAt = positive expiresAt, lk_unlimitedQuota = unlimited,
        lk_remainingQuotaUsd = remainUsd, lk_usedQuotaUsd = usedUsd, lk_group = trim (readString record ''group'' []),
        lk_allowedModels = listedTexts (split_on 44 modelLimits), lk_allowedIps = listedTexts (splitIps allowIps)\<rparr>)))))))))))))))"

section \<open>Tasks\<close>

datatype LiveTaskStatus = LtQueued | LtProcessing | LtSucceeded | LtFailed | LtCancelled | LtExpired | LtUnknown

definition mapTaskStatus :: "LiveEnv \<Rightarrow> jsstring \<Rightarrow> LiveTaskStatus" where
  "mapTaskStatus env v =
     (let u = upperCase env v in
      if u \<in> {js ''NOT_START'', js ''SUBMITTED'', js ''QUEUED''} then LtQueued
      else if u \<in> {js ''SUCCESS'', js ''SUCCEEDED'', js ''COMPLETED''} then LtSucceeded
      else if u \<in> {js ''FAILURE'', js ''FAILED''} then LtFailed
      else if u \<in> {js ''IN_PROGRESS'', js ''PROCESSING''} then LtProcessing
      else if u \<in> {js ''CANCELLED'', js ''CANCELED''} then LtCancelled
      else if u = js ''EXPIRED'' then LtExpired
      else LtUnknown)"

datatype LiveTaskType = LtImage | LtVideo | LtAudio | LtUnknownType

definition includesAny :: "jsstring \<Rightarrow> string list \<Rightarrow> bool" where
  "includesAny s words \<longleftrightarrow> list_ex (\<lambda>w. str_includes s (js w)) words"

text \<open>\<open>stable.diffusion\<close> with any unit but a line end in between.\<close>

definition stableDiffusion :: "jsstring \<Rightarrow> bool" where
  "stableDiffusion s \<longleftrightarrow> list_ex (\<lambda>t. startsWith t (js ''stable'') \<and> startsWith (drop 7 t) (js ''diffusion'') \<and>
     (case drop 6 t of c # _ \<Rightarrow> c \<noteq> 10 \<and> c \<noteq> 13 \<and> c \<noteq> 8232 \<and> c \<noteq> 8233 | [] \<Rightarrow> False)) (suffixes s)"

definition inferTaskType :: "LiveEnv \<Rightarrow> jsstring option \<Rightarrow> jsstring option \<Rightarrow> jsstring option \<Rightarrow> LiveTaskType" where
  "inferTaskType env platform action model =
     (let part = (\<lambda>v. case v of Some s \<Rightarrow> s | None \<Rightarrow> []);
          descriptor = lowerCase env (part platform @ js '' '' @ part action @ js '' '' @ part model) in
      if includesAny descriptor [''suno'', ''audio'', ''speech'', ''tts'', ''music'', ''lyrics''] then LtAudio
      else if includesAny descriptor [''video'', ''veo'', ''kling'', ''sora'', ''runway'', ''luma'', ''hailuo'', ''vidu'', ''seedance''] then LtVideo
      else if includesAny descriptor [''image'', ''draw'', ''midjourney'', ''mj'', ''flux'', ''dall-e'', ''seedream''] \<or> stableDiffusion descriptor
        then LtImage
      else LtUnknownType)"

definition readTaskValue :: "jsval list \<Rightarrow> string list \<Rightarrow> jsval" where
  "readTaskValue sources keys =
     (case find (\<lambda>v. \<not> missing v) (concat (map (\<lambda>source. map (\<lambda>key. get_prop source (js key)) keys) sources)) of
        Some v \<Rightarrow> v | None \<Rightarrow> JNull)"

definition readTaskString :: "jsval list \<Rightarrow> string list \<Rightarrow> jsstring option" where
  "readTaskString sources keys = (case readTaskValue sources keys of
     JStr s \<Rightarrow> if trim s = [] then None else Some s | _ \<Rightarrow> None)"

definition readTaskNumber :: "jsval list \<Rightarrow> string list \<Rightarrow> rat option" where
  "readTaskNumber sources keys =
     (let v = readTaskValue sources keys in
      if missing v then None else (case toNumber v of Num q \<Rightarrow> if q \<ge> 0 then Some q else None | _ \<Rightarrow> None))"

record LiveTask =
  lt_id :: jsstring
  lt_type :: LiveTaskType
  lt_model :: "jsstring option"
  lt_prompt :: jsstring
  lt_platform :: "jsstring option"
  lt_action :: "jsstring option"
  lt_status :: LiveTaskStatus
  lt_progress :: "rat option"
  lt_createdAt :: rat
  lt_startedAt :: "rat option"
  lt_updatedAt :: "rat option"
  lt_completedAt :: "rat option"
  lt_failureReason :: "jsstring option"
  lt_resultUrl :: "jsstring option"
  lt_cost :: rat
  lt_durationSeconds :: "rat option"
  lt_resolution :: "jsstring option"
  lt_aspectRatio :: "jsstring option"
  lt_outputCount :: "rat option"
  lt_quality :: "jsstring option"
  lt_voice :: "jsstring option"
  lt_format :: "jsstring option"

text \<open>\<open>Number.parseFloat\<close>: the longest decimal literal that the text starts with.  The leading number of a progress
  is a text or a number; for other values the code reads the text \<open>[object Object]\<close> or of a list, of which only a
  leading number counts, and these are left to an argument of the text.\<close>

definition parseFloat :: "jsstring \<Rightarrow> rat jsnum" where
  "parseFloat s =
     (let t = dropWhile is_ws s; neg = (case t of c # _ \<Rightarrow> c = 45 | [] \<Rightarrow> False);
          u = (case t of c # cs \<Rightarrow> if c = 43 \<or> c = 45 then cs else t | [] \<Rightarrow> t) in
      if startsWith u (js ''Infinity'') then Infinite
      else (case find (\<lambda>p. decimalValue p \<noteq> None) (rev (prefixes u)) of
          Some p \<Rightarrow> (case decimalValue p of Some q \<Rightarrow> Num (if neg then - q else q) | None \<Rightarrow> NaN)
        | None \<Rightarrow> NaN))"

definition replaceFirst :: "nat \<Rightarrow> jsstring \<Rightarrow> jsstring" where
  "replaceFirst c s = takeWhile (\<lambda>x. x \<noteq> c) s @ drop 1 (dropWhile (\<lambda>x. x \<noteq> c) s)"

definition progressText :: "LiveEnv \<Rightarrow> (jsval \<Rightarrow> jsstring) \<Rightarrow> jsval \<Rightarrow> jsstring" where
  "progressText env textOf v = (case v of JUndef \<Rightarrow> [] | JNull \<Rightarrow> [] | JStr s \<Rightarrow> s | JNum (Num q) \<Rightarrow> numText env q | _ \<Rightarrow> textOf v)"

definition clampPercent :: "rat \<Rightarrow> rat" where
  "clampPercent q = max 0 (min q 100)"

definition isEmptyRecord :: "jsval \<Rightarrow> bool" where
  "isEmptyRecord v = (case v of JObj fs \<Rightarrow> fs = [] | JArr xs \<Rightarrow> xs = [] | _ \<Rightarrow> True)"

definition mapLiveTaskRecord :: "LiveEnv \<Rightarrow> (jsval \<Rightarrow> jsstring) \<Rightarrow> jsval \<Rightarrow> rat jsnum \<Rightarrow> LiveTask live" where
  "mapLiveTaskRecord env textOf v quotaPerUnit =
     (let record = asRecord v; properties = asRecord (get_prop record (js ''properties'')) in
      bindE (parseRecord (parseJson env) (get_prop record (js ''data'')) None) (\<lambda>data.
      bindE (parseRecord (parseJson env) (get_prop properties (js ''input'')) None) (\<lambda>input.
      let sources = [input, data, properties, record]; platform = readText record ''platform''; action = readText record ''action'';
          model = readTaskString sources [''origin_model_name'', ''model'', ''upstream_model_name''];
          status = mapTaskStatus env (readString record ''status'' []);
          progress = (if status = LtSucceeded then Some 100
            else (case parseFloat (replaceFirst 37 (progressText env textOf (get_prop record (js ''progress'')))) of
                Num q \<Rightarrow> Some (clampPercent q) | _ \<Rightarrow> None));
          rawInput = readString properties ''input'' [];
          prompt = (case readTaskString sources [''prompt'', ''input'', ''text'', ''description''] of
              Some s \<Rightarrow> s | None \<Rightarrow> if rawInput \<noteq> [] \<and> isEmptyRecord input then rawInput else []);
          rawFailureReason = readText record ''fail_reason'' in
      bindE (parseRecord (parseJson env) (case rawFailureReason of Some s \<Rightarrow> JStr s | None \<Rightarrow> JNull) None) (\<lambda>failurePayload.
      let nestedFailure = asRecord (get_prop failurePayload (js ''error''));
          failureReason = orText (readTaskString [failurePayload, nestedFailure] [''message'', ''reason'', ''detail'']) rawFailureReason;
          completedAt = readNumber record ''finish_time'' NaN; startedAt = readNumber record ''start_time'' NaN;
          rawId = readString record ''task_id'' []; numericId = readOptionalNumber record ''id'' in
      bindE (guardE (rawId \<noteq> [] \<or> numericId \<noteq> None) (js ''task.task_id'')) (\<lambda>_.
      bindE (case readOptionalNumber record ''submit_time'' of
               Some q \<Rightarrow> Inr q | None \<Rightarrow> requireNumber record ''created_at'' (js ''task.created_at'')) (\<lambda>createdAt.
      let i = (if rawId \<noteq> [] then rawId else (case numericId of Some q \<Rightarrow> numText env q | None \<Rightarrow> []));
          kind = inferTaskType env platform action model; upstreamResultUrl = readText record ''result_url'';
          resultUrl = (if kind = LtVideo \<and> status = LtSucceeded \<and> upstreamResultUrl \<noteq> None
            then Some (js ''/v1/videos/'' @ encodeURIComponent env i @ js ''/content?index=0'') else upstreamResultUrl) in
      bindE (requireNumber record ''quota'' (js ''task.quota'')) (\<lambda>quota.
      bindE (quotaUnitsToUsd quota quotaPerUnit) (\<lambda>usd.
      Inr \<lparr>lt_id = i, lt_type = kind, lt_model = model, lt_prompt = prompt, lt_platform = platform, lt_action = action,
        lt_status = status, lt_progress = progress, lt_createdAt = createdAt,
        lt_startedAt = (case startedAt of Num q \<Rightarrow> positive q | _ \<Rightarrow> None), lt_updatedAt = readOptionalNumber record ''updated_at'',
        lt_completedAt = (case completedAt of Num q \<Rightarrow> positive q | _ \<Rightarrow> None), lt_failureReason = failureReason,
        lt_resultUrl = resultUrl, lt_cost = usd,
        lt_durationSeconds = readTaskNumber sources [''duration_seconds'', ''duration'', ''seconds''],
        lt_resolution = readTaskString sources [''resolution'', ''size'', ''dimensions''],
        lt_aspectRatio = readTaskString sources [''aspect_ratio'', ''aspectRatio''],
        lt_outputCount = readTaskNumber sources [''n'', ''count'', ''number_of_outputs''],
        lt_quality = readTaskString sources [''quality''], lt_voice = readTaskString sources [''voice'', ''speaker''],
        lt_format = readTaskString sources [''format'', ''response_format'', ''output_format'']\<rparr>))))))))"

end
