(* ===== verification/LiveRecords.thy ===== *)
theory LiveRecords
  imports LiveMappers
begin

text \<open>
  More mappers of \<open>src/frontend/apps/console/src/data/live-repository.ts\<close>: activity, the ledger, login sessions,
  preferences and the status of the platform.
\<close>

section \<open>Activity and the ledger\<close>

definition LOG_TYPE_TOPUP :: rat where "LOG_TYPE_TOPUP = 1"
definition LOG_TYPE_CONSUME :: rat where "LOG_TYPE_CONSUME = 2"
definition LOG_TYPE_MANAGE :: rat where "LOG_TYPE_MANAGE = 3"
definition LOG_TYPE_SYSTEM :: rat where "LOG_TYPE_SYSTEM = 4"
definition LOG_TYPE_ERROR :: rat where "LOG_TYPE_ERROR = 5"
definition LOG_TYPE_REFUND :: rat where "LOG_TYPE_REFUND = 6"
definition LOG_TYPE_LOGIN :: rat where "LOG_TYPE_LOGIN = 7"

datatype LiveEvent = ChatEvent | ImageEvent | EmbeddingEvent | TaskEvent | UnknownEvent

text \<open>A path that starts with a segment: the text, and then its end or a slash.\<close>

definition underPath :: "jsstring \<Rightarrow> string \<Rightarrow> bool" where
  "underPath path p \<longleftrightarrow> startsWith path (js p) \<and> (case drop (length p) path of [] \<Rightarrow> True | c # _ \<Rightarrow> c = 47)"

definition activityEvent :: "jsstring \<Rightarrow> LiveEvent" where
  "activityEvent endpoint =
     (if underPath endpoint ''/v1/images'' then ImageEvent
      else if underPath endpoint ''/v1/embeddings'' then EmbeddingEvent
      else if underPath endpoint ''/v1/videos'' \<or> underPath endpoint ''/v1/tasks'' then TaskEvent
      else if list_ex (underPath endpoint) [''/v1/chat/completions'', ''/v1/completions'', ''/v1/responses'', ''/pg/chat/completions'',
          ''/pg/completions'', ''/pg/responses''] then ChatEvent
      else UnknownEvent)"

record LiveActivity =
  la_id :: jsstring
  la_event :: LiveEvent
  la_model :: "jsstring option"
  la_createdAt :: rat
  la_succeeded :: bool

definition mapActivity :: "LiveEnv \<Rightarrow> jsval \<Rightarrow> LiveActivity live" where
  "mapActivity env v =
     (let record = asRecord v in
      bindE (parseOptionalRecord (parseJson env) (get_prop record (js ''other'')) (js ''activity.other'')) (\<lambda>other.
      let endpoint = lowerCase env (case readText record ''request_path'' of Some s \<Rightarrow> s | None \<Rightarrow> readString other ''request_path'' []) in
      bindE (requireNumber record ''type'' (js ''activity.type'')) (\<lambda>logType.
      bindE (requireString record ''request_id'' (js ''activity.request_id'')) (\<lambda>i.
      bindE (requireNumber record ''created_at'' (js ''activity.created_at'')) (\<lambda>created.
      Inr \<lparr>la_id = i, la_event = activityEvent endpoint, la_model = orText (readText record ''model_name'') (readText record ''model''),
        la_createdAt = created, la_succeeded = (logType = LOG_TYPE_CONSUME)\<rparr>)))))"

text \<open>The recent activity keeps the entries of requests only.\<close>

definition recentActivity :: "LiveEnv \<Rightarrow> jsval \<Rightarrow> LiveActivity list live" where
  "recentActivity env response =
     bindE (requireItems response (js ''activity.items'')) (\<lambda>raw.
       mapE (\<lambda>_. mapActivity env) (filter (\<lambda>v. case readOptionalNumber (asRecord v) ''type'' of
         Some t \<Rightarrow> t = LOG_TYPE_CONSUME \<or> t = LOG_TYPE_ERROR | None \<Rightarrow> False) raw))"

datatype LiveActivityType = LaManagement | LaSystem | LaLogin

record LiveAccountActivity =
  aa_id :: jsstring
  aa_eventId :: "jsstring option"
  aa_type :: LiveActivityType
  aa_createdAt :: rat
  aa_content :: "jsstring option"
  aa_action :: "jsstring option"
  aa_parameters :: "jsval option"
  aa_sourceIp :: "jsstring option"
  aa_loginMethod :: "jsstring option"
  aa_userAgent :: "jsstring option"

definition activityTypeOf :: "rat \<Rightarrow> LiveActivityType live" where
  "activityTypeOf t = (if t = LOG_TYPE_MANAGE then Inr LaManagement else if t = LOG_TYPE_SYSTEM then Inr LaSystem
     else if t = LOG_TYPE_LOGIN then Inr LaLogin else Inl (LiveDataContractError (js ''account_activity.type'')))"

definition activityParameters :: "jsval \<Rightarrow> jsval option live" where
  "activityParameters params = (case params of
     JNull \<Rightarrow> Inr None | JUndef \<Rightarrow> Inr None
   | JObj fs \<Rightarrow> Inr (if fs = [] then None else Some params)
   | _ \<Rightarrow> Inl (LiveDataContractError (js ''account_activity.other.op.params'')))"

definition mapAccountActivity :: "LiveEnv \<Rightarrow> jsval \<Rightarrow> LiveAccountActivity live" where
  "mapAccountActivity env v =
     (let record = asRecord v in
      bindE (requireNumber record ''type'' (js ''account_activity.type'')) (\<lambda>logType.
      bindE (activityTypeOf logType) (\<lambda>kind.
      bindE (requireNumber record ''created_at'' (js ''account_activity.created_at'')) (\<lambda>created.
      bindE (guardE (created > 0) (js ''account_activity.created_at'')) (\<lambda>_.
      let eventId = readText record ''request_id''; rowId = readOptionalNumber record ''id'' in
      bindE (guardE (eventId \<noteq> None \<or> rowId \<noteq> None) (js ''account_activity.request_id'')) (\<lambda>_.
      bindE (parseOptionalRecord (parseJson env) (get_prop record (js ''other'')) (js ''account_activity.other'')) (\<lambda>other.
      let op = asRecord (get_prop other (js ''op'')) in
      bindE (activityParameters (get_prop op (js ''params''))) (\<lambda>parameters.
      let fallback = readString (case parameters of Some p \<Rightarrow> p | None \<Rightarrow> JObj []) ''method'' [];
          method = readString other ''login_method'' fallback in
      Inr \<lparr>aa_id = (case eventId of Some e \<Rightarrow> e | None \<Rightarrow> (case rowId of Some q \<Rightarrow> numText env q | None \<Rightarrow> [])), aa_eventId = eventId,
        aa_type = kind, aa_createdAt = created, aa_content = readText record ''content'', aa_action = readText op ''action'',
        aa_parameters = parameters, aa_sourceIp = readText record ''ip'',
        aa_loginMethod = (if kind = LaLogin \<and> method \<noteq> [] then Some method else None), aa_userAgent = readText other ''user_agent''\<rparr>))))))))"

datatype LiveLedgerType = LlTopup | LlRefund

record LiveLedgerEntry =
  ll_id :: jsstring
  ll_eventId :: "jsstring option"
  ll_type :: LiveLedgerType
  ll_createdAt :: rat
  ll_content :: "jsstring option"
  ll_sourceIp :: "jsstring option"
  amountQuota :: "rat option"
  ll_model :: "jsstring option"
  ll_apiKeyName :: "jsstring option"
  ll_taskId :: "jsstring option"

definition mapBillingLedgerEntry :: "LiveEnv \<Rightarrow> jsval \<Rightarrow> LiveLedgerEntry live" where
  "mapBillingLedgerEntry env v =
     (let record = asRecord v in
      bindE (requireNumber record ''type'' (js ''billing_ledger.type'')) (\<lambda>logType.
      bindE (if logType = LOG_TYPE_TOPUP then Inr LlTopup else if logType = LOG_TYPE_REFUND then Inr LlRefund
             else Inl (LiveDataContractError (js ''billing_ledger.type''))) (\<lambda>kind.
      bindE (requireNumber record ''created_at'' (js ''billing_ledger.created_at'')) (\<lambda>created.
      bindE (guardE (created > 0) (js ''billing_ledger.created_at'')) (\<lambda>_.
      let eventId = readText record ''request_id''; taskId = readText record ''task_id''; rowId = readOptionalNumber record ''id'' in
      bindE (guardE (eventId \<noteq> None \<or> taskId \<noteq> None \<or> rowId \<noteq> None) (js ''billing_ledger.id'')) (\<lambda>_.
      bindE (if kind = LlRefund
             then bindE (requireNumber record ''quota'' (js ''billing_ledger.quota'')) (\<lambda>q.
                    bindE (guardE (q \<ge> 0) (js ''billing_ledger.quota'')) (\<lambda>_. Inr (Some q)))
             else Inr None) (\<lambda>quota.
      Inr \<lparr>ll_id = (case orText eventId taskId of Some e \<Rightarrow> e | None \<Rightarrow> (case rowId of Some q \<Rightarrow> numText env q | None \<Rightarrow> [])),
        ll_eventId = eventId, ll_type = kind, ll_createdAt = created, ll_content = readText record ''content'',
        ll_sourceIp = readText record ''ip'', amountQuota = quota, ll_model = readText record ''model_name'',
        ll_apiKeyName = readText record ''token_name'', ll_taskId = taskId\<rparr>)))))))"

section \<open>Sessions and preferences\<close>

record LiveLoginSession =
  ls_id :: jsstring
  ls_current :: bool
  ls_method :: jsstring
  ls_ip :: jsstring
  ls_userAgent :: jsstring
  ls_createdAt :: rat
  ls_lastActiveAt :: rat
  ls_expiresAt :: rat

definition mapLoginSession :: "jsval \<Rightarrow> LiveLoginSession live" where
  "mapLoginSession v =
     (let record = asRecord v in
      bindE (requireString record ''sid'' (js ''login_session.sid'')) (\<lambda>i.
      bindE (requireBoolean record ''current'' (js ''login_session.current'')) (\<lambda>cur.
      bindE (requireString record ''login_method'' (js ''login_session.login_method'')) (\<lambda>method.
      bindE (requireNumber record ''created_at'' (js ''login_session.created_at'')) (\<lambda>created.
      bindE (requireNumber record ''last_active_at'' (js ''login_session.last_active_at'')) (\<lambda>active.
      bindE (requireNumber record ''expires_at'' (js ''login_session.expires_at'')) (\<lambda>expires.
      Inr \<lparr>ls_id = i, ls_current = cur, ls_method = method, ls_ip = readString record ''ip'' [],
        ls_userAgent = readString record ''user_agent'' [], ls_createdAt = created, ls_lastActiveAt = active, ls_expiresAt = expires\<rparr>)))))))"

datatype LiveChannel = LcEmail | LcWebhook | LcBark | LcGotify

definition mapNotificationType :: "jsstring \<Rightarrow> LiveChannel option live" where
  "mapNotificationType v = (if v = [] then Inr None else if v = js ''email'' then Inr (Some LcEmail)
     else if v = js ''webhook'' then Inr (Some LcWebhook) else if v = js ''bark'' then Inr (Some LcBark)
     else if v = js ''gotify'' then Inr (Some LcGotify) else Inl (LiveDataContractError (js ''user_setting.notify_type'')))"

record LivePreferences =
  lp_balanceWarningThresholdUsd :: "rat option"
  lp_barkUrl :: jsstring
  lp_gotifyPriority :: rat
  lp_gotifyToken :: jsstring
  lp_gotifyTokenConfigured :: bool
  lp_gotifyUrl :: jsstring
  lp_notificationEmail :: jsstring
  lp_notifyType :: "LiveChannel option"
  lp_recordIpForced :: bool
  lp_recordIpLog :: bool
  lp_webhookSecret :: jsstring
  lp_webhookSecretConfigured :: bool
  lp_webhookUrl :: jsstring

definition mapAccountPreferences :: "LiveEnv \<Rightarrow> jsval \<Rightarrow> rat jsnum \<Rightarrow> LivePreferences live" where
  "mapAccountPreferences env v quotaPerUnit =
     bindE (parseRecord (parseJson env) v (Some (js ''user_setting''))) (\<lambda>settings.
     bindE (requireNumber settings ''quota_warning_threshold'' (js ''user_setting.quota_warning_threshold'')) (\<lambda>threshold.
     bindE (requireBoolean settings ''record_ip_forced'' (js ''user_setting.record_ip_forced'')) (\<lambda>forced.
     bindE (if threshold > 0 then bindE (quotaUnitsToUsd threshold quotaPerUnit) (\<lambda>q. Inr (Some q)) else Inr None) (\<lambda>warning.
     bindE (requireNumber settings ''gotify_priority'' (js ''user_setting.gotify_priority'')) (\<lambda>priority.
     bindE (requireBoolean settings ''gotify_token_configured'' (js ''user_setting.gotify_token_configured'')) (\<lambda>gotify.
     bindE (mapNotificationType (readString settings ''notify_type'' [])) (\<lambda>channel.
     bindE (if forced then Inr True else requireBoolean settings ''record_ip_log'' (js ''user_setting.record_ip_log'')) (\<lambda>recordIp.
     bindE (requireBoolean settings ''webhook_secret_configured'' (js ''user_setting.webhook_secret_configured'')) (\<lambda>webhook.
     Inr \<lparr>lp_balanceWarningThresholdUsd = warning, lp_barkUrl = readString settings ''bark_url'' [], lp_gotifyPriority = priority,
       lp_gotifyToken = [], lp_gotifyTokenConfigured = gotify, lp_gotifyUrl = readString settings ''gotify_url'' [],
       lp_notificationEmail = readString settings ''notification_email'' [], lp_notifyType = channel, lp_recordIpForced = forced,
       lp_recordIpLog = recordIp, lp_webhookSecret = [], lp_webhookSecretConfigured = webhook,
       lp_webhookUrl = readString settings ''webhook_url'' []\<rparr>)))))))))"

section \<open>The status of the platform\<close>

datatype MonitorStatus = Operational | Degraded | Outage | UnknownMonitor

record PlatformMonitor =
  monitor_group_index :: nat
  monitor_index :: nat
  monitor_group :: jsstring
  monitor_name :: jsstring
  monitor_status :: MonitorStatus
  uptimePercent :: "rat option"

definition monitorStatus :: "rat jsnum \<Rightarrow> MonitorStatus" where
  "monitorStatus raw = (if raw = Num 1 then Operational else if raw = Num 0 then Outage else if raw = Num 2 then Degraded else UnknownMonitor)"

definition uptimeOf :: "rat jsnum \<Rightarrow> rat option" where
  "uptimeOf raw = (case raw of Num q \<Rightarrow> Some (min 100 (max 0 (if q \<le> 1 then q * 100 else q))) | _ \<Rightarrow> None)"

definition mapMonitor :: "nat \<Rightarrow> jsstring \<Rightarrow> nat \<Rightarrow> jsval \<Rightarrow> PlatformMonitor live" where
  "mapMonitor groupIndex categoryName monitorIndex v =
     (let monitor = asRecord v in
      bindE (requireString monitor ''name'' (indexed ''uptime.groups'' groupIndex '''' @ indexed ''.monitors'' monitorIndex ''.name'')) (\<lambda>name.
      Inr \<lparr>monitor_group_index = groupIndex, monitor_index = monitorIndex,
        monitor_group = (case readText monitor ''group'' of Some g \<Rightarrow> g | None \<Rightarrow> categoryName), monitor_name = name,
        monitor_status = monitorStatus (readNumber monitor ''status'' (Num (- 1))),
        uptimePercent = uptimeOf (readNumber monitor ''uptime'' NaN)\<rparr>))"

definition mapMonitorGroup :: "nat \<Rightarrow> jsval \<Rightarrow> PlatformMonitor list live" where
  "mapMonitorGroup groupIndex v =
     (let group' = asRecord v in
      bindE (requireItems (get_prop group' (js ''monitors'')) (indexed ''uptime.groups'' groupIndex ''.monitors'')) (\<lambda>raw.
        mapE (mapMonitor groupIndex (readString group' ''categoryName'' [])) raw))"

record PlatformStatus =
  configured :: "bool option"
  monitors :: "PlatformMonitor list"
  platform_status :: MonitorStatus
  platform_uptime :: "rat option"

definition overallStatus :: "PlatformMonitor list \<Rightarrow> MonitorStatus" where
  "overallStatus ms =
     (if list_ex (\<lambda>m. monitor_status m = Outage) ms then Outage
      else if list_ex (\<lambda>m. monitor_status m = Degraded) ms then Degraded
      else if length ms > 0 \<and> list_all (\<lambda>m. monitor_status m = Operational) ms then Operational else UnknownMonitor)"

definition mapPlatformStatus :: "jsval \<Rightarrow> PlatformStatus live" where
  "mapPlatformStatus v =
     bindE (requireItems v (js ''uptime.groups'')) (\<lambda>groups.
     bindE (mapE mapMonitorGroup groups) (\<lambda>mss.
     let ms = concat mss; uptimes = concat (map (\<lambda>m. case uptimePercent m of None \<Rightarrow> [] | Some u \<Rightarrow> [u]) ms) in
     Inr \<lparr>configured = (if length groups > 0 then Some True else None), monitors = ms, platform_status = overallStatus ms,
       platform_uptime = (if uptimes = [] then None else Some (Min (set uptimes)))\<rparr>))"

end
