(* ===== verification/LiveBilling.thy ===== *)
theory LiveBilling
  imports LiveRecords
begin

text \<open>
  Money in the console's live data layer, \<open>src/frontend/apps/console/src/data/live-repository.ts\<close>: transactions,
  subscription plans with their ways of payment, the answers of the payment services, and the prices of the model
  catalog.
\<close>

section \<open>Transactions\<close>

datatype LiveTransactionStatus = TxCompleted | TxPending | TxFailed | TxExpired

record LiveTransaction =
  tx_id :: jsstring
  tx_subscription :: bool
  tx_amount :: rat
  tx_status :: LiveTransactionStatus
  tx_createdAt :: rat
  tx_description :: "jsstring option"

definition transactionStatus :: "jsstring \<Rightarrow> LiveTransactionStatus live" where
  "transactionStatus s = (if s = js ''success'' then Inr TxCompleted else if s = js ''pending'' then Inr TxPending
     else if s = js ''failed'' then Inr TxFailed else if s = js ''expired'' then Inr TxExpired
     else Inl (LiveDataContractError (js ''billing_transaction.status'')))"

definition mapBillingTransaction :: "jsval \<Rightarrow> LiveTransaction live" where
  "mapBillingTransaction v =
     (let record = asRecord v in
      bindE (requireString record ''status'' (js ''billing_transaction.status'')) (\<lambda>statusValue.
      bindE (transactionStatus statusValue) (\<lambda>status.
      bindE (requireString record ''order_type'' (js ''billing_transaction.order_type'')) (\<lambda>orderType.
      bindE (guardE (orderType = js ''wallet'' \<or> orderType = js ''subscription'') (js ''billing_transaction.order_type'')) (\<lambda>_.
      bindE (case readOptionalNumber record ''money'' of
               Some q \<Rightarrow> Inr q | None \<Rightarrow> requireNumber record ''amount'' (js ''billing_transaction.amount'')) (\<lambda>rawAmount.
      bindE (requireString record ''trade_no'' (js ''billing_transaction.trade_no'')) (\<lambda>i.
      bindE (requireNumber record ''create_time'' (js ''billing_transaction.create_time'')) (\<lambda>created.
      Inr \<lparr>tx_id = i, tx_subscription = (orderType = js ''subscription''),
        tx_amount = (if orderType = js ''subscription'' then - \<bar>rawAmount\<bar> else rawAmount), tx_status = status, tx_createdAt = created,
        tx_description = readText record ''payment_method''\<rparr>))))))))"

datatype ConfirmationStatus = ConfirmCompleted | ConfirmFailed | ConfirmPending

text \<open>Whether a subscription of a plan is active, in the answer of the server.\<close>

definition subscriptionRecord :: "jsval \<Rightarrow> jsval" where
  "subscriptionRecord v =
     (let s = get_prop (asRecord v) (js ''subscription'') in asRecord (if s = JNull \<or> s = JUndef then v else s))"

definition confirmSubscription :: "rat option \<Rightarrow> jsval \<Rightarrow> ConfirmationStatus live" where
  "confirmSubscription planId response = (case planId of
     None \<Rightarrow> Inr ConfirmPending
   | Some p \<Rightarrow>
       (if p = 0 then Inr ConfirmPending
        else bindE (requireItems (get_prop (asRecord response) (js ''subscriptions'')) (js ''subscription.subscriptions'')) (\<lambda>raw.
          Inr (if list_ex (\<lambda>v. let r = subscriptionRecord v in
                 readNumber r ''plan_id'' NaN = Num p \<and> readString r ''status'' [] = js ''active'') raw
               then ConfirmCompleted else ConfirmPending))))"

definition confirmOrder :: "jsstring option \<Rightarrow> jsval \<Rightarrow> ConfirmationStatus live" where
  "confirmOrder orderId response = (case orderId of
     None \<Rightarrow> Inr ConfirmPending
   | Some o' \<Rightarrow>
       (if o' = [] then Inr ConfirmPending
        else bindE (requireItems response (js ''billing.transactions'')) (\<lambda>raw.
          case find (\<lambda>r. readString r ''trade_no'' [] = o') (map asRecord raw) of
            None \<Rightarrow> Inr ConfirmPending
          | Some r \<Rightarrow>
              (let status = readString r ''status'' [] in
               if status = js ''success'' then Inr ConfirmCompleted
               else if status = js ''pending'' then Inr ConfirmPending
               else if status = js ''failed'' \<or> status = js ''expired'' then Inr ConfirmFailed
               else Inl (LiveDataContractError (js ''billing_transaction.status''))))))"

section \<open>Answers of the payment services\<close>

record LegacyPaymentResponse =
  payment_data :: jsval
  payment_message :: "jsstring option"
  payment_order_id :: "jsstring option"
  payment_success :: "bool option"
  payment_url :: "jsstring option"

definition unwrapLegacyPayment :: "LegacyPaymentResponse \<Rightarrow> jsval live" where
  "unwrapLegacyPayment response =
     (if payment_success response = Some True \<or> payment_message response = Some (js ''success'') then Inr (payment_data response)
      else Inl (PlainError (case payment_data response of
          JStr s \<Rightarrow> s
        | _ \<Rightarrow> (case textOrNone (payment_message response) of Some m \<Rightarrow> m | None \<Rightarrow> js ''Payment request failed''))))"

text \<open>A form with the entries of the answer as its fields, whose texts are an argument, or a redirection.\<close>

datatype LiveCheckout =
    FormCheckout jsstring "(jsstring \<times> jsstring) list" "jsstring option"
  | RedirectCheckout jsstring "jsstring option"

definition recordEntries :: "jsval \<Rightarrow> (jsstring \<times> jsval) list" where
  "recordEntries v = (case v of JObj fs \<Rightarrow> fs | JArr xs \<Rightarrow> zip (map nat_str [0..<length xs]) xs | _ \<Rightarrow> [])"

definition mapPaymentCheckout :: "(jsval \<Rightarrow> jsstring) \<Rightarrow> LegacyPaymentResponse \<Rightarrow> LiveCheckout live" where
  "mapPaymentCheckout textOf response =
     bindE (unwrapLegacyPayment response) (\<lambda>data.
     let record = asRecord data;
         orderId = orText (textOrNone (payment_order_id response)) (orText (readText record ''order_id'')
           (orText (readText record ''trade_no'') (readText record ''out_trade_no''))) in
     case textOrNone (payment_url response) of
       Some url \<Rightarrow> Inr (FormCheckout url (map (\<lambda>(k, x). (k, textOf x)) (recordEntries record)) orderId)
     | None \<Rightarrow>
         (case orText (readText record ''pay_link'') (orText (readText record ''payment_url'') (orText (readText record ''checkout_url'')
             (case data of JStr s \<Rightarrow> textOrNone (Some s) | _ \<Rightarrow> None))) of
            Some url \<Rightarrow> Inr (RedirectCheckout url orderId)
          | None \<Rightarrow> Inl (PlainError (js ''The payment provider did not return a checkout URL''))))"

section \<open>Subscription plans\<close>

datatype LivePaymentType = PayBalance | PayCreem | PayEpay | PayStripe | PayWaffoPancake

record LivePaymentMethod =
  pm_id :: jsstring
  pm_name :: jsstring
  pm_type :: LivePaymentType
  pm_paymentMethod :: "jsstring option"

definition fixedMethod :: "string \<Rightarrow> string \<Rightarrow> LivePaymentType \<Rightarrow> LivePaymentMethod" where
  "fixedMethod i name kind = \<lparr>pm_id = js i, pm_name = js name, pm_type = kind, pm_paymentMethod = None\<rparr>"

fun epayMethods :: "nat \<Rightarrow> jsval list \<Rightarrow> LivePaymentMethod list live" where
  "epayMethods i [] = Inr []"
| "epayMethods i (v # vs) =
     (let method = asRecord v; kind = readString method ''type'' [] in
      if kind = [] \<or> kind \<in> {js ''creem'', js ''stripe'', js ''waffo'', js ''waffo_pancake''} then epayMethods (Suc i) vs
      else bindE (requireString method ''name'' (indexed ''topup.pay_methods'' i ''.name'')) (\<lambda>name.
        bindE (epayMethods (Suc i) vs) (\<lambda>ms.
        Inr (\<lparr>pm_id = js ''epay-'' @ kind @ js ''-'' @ nat_str i, pm_name = name, pm_type = PayEpay, pm_paymentMethod = Some kind\<rparr> # ms))))"

record LivePlan =
  pl_id :: rat
  pl_name :: jsstring
  pl_price :: rat
  pl_currency :: jsstring
  pl_durationUnit :: jsstring
  pl_durationValue :: rat
  pl_quotaUsd :: rat
  pl_unlimitedQuota :: bool
  pl_quotaResetPeriod :: jsstring
  pl_features :: "jsstring list"
  pl_current :: bool
  pl_purchaseCount :: int
  pl_purchaseLimit :: rat
  pl_paymentMethods :: "LivePaymentMethod list"

definition durationUnits :: "jsstring list" where
  "durationUnits = [js ''year'', js ''month'', js ''day'', js ''hour'', js ''custom'']"

definition mapSubscriptionPlan ::
  "LiveEnv \<Rightarrow> jsval \<Rightarrow> jsval \<Rightarrow> rat list \<Rightarrow> (rat \<times> int) list \<Rightarrow> rat jsnum \<Rightarrow> LivePlan live" where
  "mapSubscriptionPlan env v topup activePlanIds purchaseCounts quotaPerUnit =
     (let inner = get_prop (asRecord v) (js ''plan''); plan = asRecord (if inner = JNull \<or> inner = JUndef then v else inner) in
      bindE (requireNumber plan ''id'' (js ''subscription_plan.id'')) (\<lambda>i.
      bindE (requireString plan ''duration_unit'' (js ''subscription_plan.duration_unit'')) (\<lambda>unit.
      bindE (guardE (unit \<in> set durationUnits) (js ''subscription_plan.duration_unit'')) (\<lambda>_.
      bindE (requireBoolean topup ''enable_stripe_topup'' (js ''topup.enable_stripe_topup'')) (\<lambda>stripe.
      bindE (requireBoolean topup ''enable_creem_topup'' (js ''topup.enable_creem_topup'')) (\<lambda>creem.
      bindE (requireBoolean topup ''enable_waffo_pancake_topup'' (js ''topup.enable_waffo_pancake_topup'')) (\<lambda>pancake.
      bindE (requireBoolean topup ''enable_online_topup'' (js ''topup.enable_online_topup'')) (\<lambda>epay.
      bindE (requireBoolean plan ''allow_balance_pay'' (js ''subscription_plan.allow_balance_pay'')) (\<lambda>balance.
      bindE (if epay then bindE (parseList (parseJson env) (get_prop topup (js ''pay_methods'')) (js ''topup.pay_methods'')) (epayMethods 0)
             else Inr []) (\<lambda>epays.
      bindE (requireNumber plan ''total_amount'' (js ''subscription_plan.total_amount'')) (\<lambda>totalAmount.
      bindE (requireNumber plan ''duration_value'' (js ''subscription_plan.duration_value'')) (\<lambda>durationValue.
      bindE (requireNumber plan ''price_amount'' (js ''subscription_plan.price_amount'')) (\<lambda>price.
      bindE (requireNumber plan ''max_purchase_per_user'' (js ''subscription_plan.max_purchase_per_user'')) (\<lambda>limit.
      bindE (guardE (durationValue > 0) (js ''subscription_plan.duration_value'')) (\<lambda>_.
      bindE (guardE (totalAmount \<ge> 0) (js ''subscription_plan.total_amount'')) (\<lambda>_.
      bindE (guardE (price \<ge> 0) (js ''subscription_plan.price_amount'')) (\<lambda>_.
      bindE (guardE (limit \<ge> 0) (js ''subscription_plan.max_purchase_per_user'')) (\<lambda>_.
      bindE (requireString plan ''title'' (js ''subscription_plan.title'')) (\<lambda>name.
      bindE (requireString plan ''currency'' (js ''subscription_plan.currency'')) (\<lambda>cur.
      bindE (if totalAmount > 0 then quotaUnitsToUsd totalAmount quotaPerUnit else Inr 0) (\<lambda>quota.
      bindE (requireString plan ''quota_reset_period'' (js ''subscription_plan.quota_reset_period'')) (\<lambda>period.
      Inr \<lparr>pl_id = i, pl_name = name, pl_price = price, pl_currency = cur, pl_durationUnit = unit, pl_durationValue = durationValue,
        pl_quotaUsd = quota, pl_unlimitedQuota = (totalAmount = 0), pl_quotaResetPeriod = period,
        pl_features = (case readText plan ''subtitle'' of Some s \<Rightarrow> [s] | None \<Rightarrow> []), pl_current = (i \<in> set activePlanIds),
        pl_purchaseCount = (case map_of purchaseCounts i of Some n \<Rightarrow> n | None \<Rightarrow> 0), pl_purchaseLimit = limit,
        pl_paymentMethods =
          (if balance then [fixedMethod ''balance'' ''Account balance'' PayBalance] else []) @
          (if stripe \<and> readText plan ''stripe_price_id'' \<noteq> None then [fixedMethod ''stripe'' ''Stripe'' PayStripe] else []) @
          (if creem \<and> readText plan ''creem_product_id'' \<noteq> None then [fixedMethod ''creem'' ''Creem'' PayCreem] else []) @
          (if pancake \<and> readText plan ''waffo_pancake_product_id'' \<noteq> None
           then [fixedMethod ''waffo_pancake'' ''Waffo Pancake'' PayWaffoPancake] else []) @ epays\<rparr>))))))))))))))))))))))"

text \<open>The plans in use and how often each was bought, from the subscriptions of the user.\<close>

definition planIdOf :: "jsval \<Rightarrow> rat live" where
  "planIdOf v = requireNumber (subscriptionRecord v) ''plan_id'' (js ''subscription.plan_id'')"

definition activePlans :: "jsval \<Rightarrow> rat list live" where
  "activePlans subscription =
     bindE (requireItems (get_prop subscription (js ''subscriptions'')) (js ''subscription.subscriptions'')) (\<lambda>raw.
     bindE (mapE (\<lambda>_. planIdOf) raw) (\<lambda>ids. Inr (uniq (filter (\<lambda>i. i > 0) ids))))"

definition countPurchase :: "(rat \<times> int) list \<Rightarrow> rat \<Rightarrow> (rat \<times> int) list" where
  "countPurchase counts i =
     (if i > 0 then AList.update i ((case map_of counts i of Some n \<Rightarrow> n | None \<Rightarrow> 0) + 1) counts else counts)"

definition purchaseCounts :: "jsval \<Rightarrow> (rat \<times> int) list live" where
  "purchaseCounts subscription =
     bindE (requireItems (get_prop subscription (js ''all_subscriptions'')) (js ''subscription.all_subscriptions'')) (\<lambda>raw.
     bindE (mapE (\<lambda>_. planIdOf) raw) (\<lambda>ids. Inr (foldl countPurchase [] ids)))"

section \<open>Prices of the catalog\<close>

record CatalogPriceSelection =
  selected_amount :: rat
  several :: bool
  selected_unit :: jsstring

definition catalogInputPriceComponents :: "jsstring list" where
  "catalogInputPriceComponents = [js ''token_input'', js ''image_token_input'', js ''audio_token_input'', js ''image_input'',
     js ''audio_input'', js ''video_input'', js ''character_input'']"

definition catalogOutputPriceComponents :: "jsstring list" where
  "catalogOutputPriceComponents = [js ''token_output'', js ''image_token_output'', js ''audio_token_output'', js ''video_output'',
     js ''request'', js ''generated_item'', js ''image_output'', js ''audio_output'', js ''character_output'']"

text \<open>The candidates for a component, with their amounts.\<close>

definition priceCandidates :: "jsval list \<Rightarrow> jsstring \<Rightarrow> (jsval \<times> rat) list" where
  "priceCandidates its component =
     concat (map (\<lambda>item. if readString item ''component'' [] = component
       then (case readNumber item ''amount'' NaN of Num q \<Rightarrow> if q \<ge> 0 then [(item, q)] else [] | _ \<Rightarrow> []) else []) its)"

definition lowest :: "(jsval \<times> rat) \<Rightarrow> (jsval \<times> rat) \<Rightarrow> (jsval \<times> rat)" where
  "lowest least candidate = (if snd candidate < snd least then candidate else least)"

fun selectFrom :: "jsval list \<Rightarrow> jsstring list \<Rightarrow> CatalogPriceSelection option live" where
  "selectFrom its [] = Inr None"
| "selectFrom its (component # components) =
     (case priceCandidates its component of
        [] \<Rightarrow> selectFrom its components
      | c # cs \<Rightarrow>
          (let selected = foldl lowest c cs in
           bindE (requireString (fst selected) ''unit'' (js ''pricing.items[].unit'')) (\<lambda>unit.
           Inr (Some \<lparr>selected_amount = snd selected, several = (cs \<noteq> []), selected_unit = unit\<rparr>))))"

definition selectCatalogPrice :: "jsval \<Rightarrow> jsstring list \<Rightarrow> CatalogPriceSelection option live" where
  "selectCatalogPrice summary components = selectFrom (map asRecord (readItems (get_prop summary (js ''items'')))) components"

datatype PriceUnit = PerMillionTokens | PerRequest | PerSecond

definition catalogPriceUnit :: "jsstring \<Rightarrow> PriceUnit option" where
  "catalogPriceUnit unit = (if unit = js ''second'' then Some PerSecond
     else if unit = js ''request'' \<or> unit = js ''item'' then Some PerRequest
     else if unit = js ''token'' then Some PerMillionTokens else None)"

record CatalogPriceItem =
  ci_key :: jsstring
  ci_component :: jsstring
  ci_amount :: rat
  ci_baseAmount :: "rat option"
  ci_unit :: jsstring
  ci_unitSize :: rat
  ci_tier :: "jsstring option"
  ci_upperBound :: "jsstring option"
  ci_operation :: "jsstring option"
  ci_quality :: "jsstring option"
  ci_resolution :: "jsstring option"
  ci_withAudio :: "jsstring option"
  ci_appliedGroup :: "jsstring option"
  ci_appliedGroupLabel :: "jsstring option"

record CatalogPriceSummary =
  cs_currency :: jsstring
  cs_billingMode :: jsstring
  cs_priceStructure :: jsstring
  cs_comparisonScope :: "jsstring option"
  cs_candidateCount :: "rat option"
  cs_items :: "CatalogPriceItem list"

definition itemField :: "jsstring \<Rightarrow> nat \<Rightarrow> string \<Rightarrow> jsstring" where
  "itemField field i name = field @ indexed ''.items'' i name"

definition mapCatalogPriceItem :: "jsstring \<Rightarrow> nat \<Rightarrow> jsval \<Rightarrow> CatalogPriceItem live" where
  "mapCatalogPriceItem field i v =
     (let item = asRecord v in
      bindE (requireString item ''component'' (itemField field i ''.component'')) (\<lambda>component.
      bindE (requireString item ''unit'' (itemField field i ''.unit'')) (\<lambda>unit.
      bindE (requireNumber item ''amount'' (itemField field i ''.amount'')) (\<lambda>amt.
      let baseAmount = readOptionalNumber item ''base_amount'' in
      bindE (requireNumber item ''unit_size'' (itemField field i ''.unit_size'')) (\<lambda>unitSize.
      bindE (guardE (amt \<ge> 0) (itemField field i ''.amount'')) (\<lambda>_.
      bindE (guardE (case baseAmount of Some b \<Rightarrow> b \<ge> 0 | None \<Rightarrow> True) (itemField field i ''.base_amount'')) (\<lambda>_.
      bindE (guardE (unitSize > 0) (itemField field i ''.unit_size'')) (\<lambda>_.
      Inr \<lparr>ci_key = readString item ''key'' (component @ js ''-'' @ nat_str i), ci_component = component, ci_amount = amt,
        ci_baseAmount = baseAmount, ci_unit = unit, ci_unitSize = unitSize, ci_tier = readText item ''tier'',
        ci_upperBound = readText item ''upper_bound'', ci_operation = readText item ''operation'', ci_quality = readText item ''quality'',
        ci_resolution = readText item ''resolution'', ci_withAudio = readText item ''with_audio'',
        ci_appliedGroup = readText item ''applied_group'', ci_appliedGroupLabel = readText item ''applied_group_label''\<rparr>))))))))"

definition mapCatalogPriceSummary :: "jsval \<Rightarrow> jsstring \<Rightarrow> CatalogPriceSummary option live" where
  "mapCatalogPriceSummary v field =
     (let summary = asRecord v in
      if isEmptyRecord summary then Inr None
      else bindE (requireItems (get_prop summary (js ''items'')) (field @ js ''.items'')) (\<lambda>raw.
        if raw = [] then Inr None
        else bindE (requireString summary ''currency'' (field @ js ''.currency'')) (\<lambda>cur.
          bindE (mapE (mapCatalogPriceItem field) raw) (\<lambda>its.
          bindE (requireString summary ''billing_mode'' (field @ js ''.billing_mode'')) (\<lambda>mode.
          bindE (requireString summary ''price_structure'' (field @ js ''.price_structure'')) (\<lambda>struct.
          Inr (Some \<lparr>cs_currency = cur, cs_billingMode = mode, cs_priceStructure = struct, cs_comparisonScope = readText summary ''comparison_scope'',
            cs_candidateCount = (case readNumber summary ''candidate_count'' NaN of Num q \<Rightarrow> Some q | _ \<Rightarrow> None), cs_items = its\<rparr>)))))))"

definition selectCatalogPriceSummary :: "jsval \<Rightarrow> jsstring \<Rightarrow> jsval option live" where
  "selectCatalogPriceSummary record grp =
     (let summary = asRecord (get_prop (asRecord (get_prop record (js ''sales_prices_by_group''))) grp) in
      if isEmptyRecord summary then Inr None
      else bindE (requireItems (get_prop summary (js ''items'')) (js ''pricing.group.items'')) (\<lambda>its.
        Inr (if length its > 0 then Some summary else None)))"

end
