(* ===== verification/LiveAnalytics.thy ===== *)
theory LiveAnalytics
  imports LiveBilling DemoAnalytics
begin

text \<open>
  Usage figures and the analysis of the request log in the live data layer of the console,
  \<open>src/frontend/apps/console/src/data/live-repository.ts\<close>.  The server sends points; the console checks them and lays
  them on the buckets of the range, which are computed as in the demonstration repository.
\<close>

section \<open>Usage\<close>

record UsageSummary =
  costQuota :: rat
  us_requestCount :: rat
  us_successRate :: "rat option"
  us_totalTokens :: rat

definition percentOf :: "rat \<Rightarrow> rat \<Rightarrow> rat option" where
  "percentOf part whole = (if whole > 0 then Some (part / whole * 100) else None)"

definition mapUsageSummary :: "jsval \<Rightarrow> UsageSummary live" where
  "mapUsageSummary v =
     (let stats = asRecord v in
      bindE (requireNumber stats ''request_count'' (js ''usage.request_count'')) (\<lambda>ok.
      bindE (requireNumber stats ''failure_count'' (js ''usage.failure_count'')) (\<lambda>bad.
      bindE (requireNumber stats ''quota'' (js ''usage.quota'')) (\<lambda>quota.
      bindE (requireNumber stats ''total_tokens'' (js ''usage.total_tokens'')) (\<lambda>tok.
      Inr \<lparr>costQuota = quota, us_requestCount = ok + bad, us_successRate = percentOf ok (ok + bad), us_totalTokens = tok\<rparr>)))))"

record UsagePoint =
  up_dayStart :: rat
  up_requests :: rat
  up_cost :: rat
  up_tokens :: rat

text \<open>The day of a point is shown as a date of the local calendar; the model keeps its start.\<close>

definition mapUsagePoint :: "rat jsnum \<Rightarrow> nat \<Rightarrow> jsval \<Rightarrow> UsagePoint live" where
  "mapUsagePoint units i v =
     (let point = asRecord v in
      bindE (requireNumber point ''day_start'' (indexed ''usage.series'' i ''.day_start'')) (\<lambda>dayStart.
      bindE (requireNumber point ''request_count'' (indexed ''usage.series'' i ''.request_count'')) (\<lambda>ok.
      bindE (requireNumber point ''failure_count'' (indexed ''usage.series'' i ''.failure_count'')) (\<lambda>bad.
      bindE (guardE (\<not> (dayStart \<le> 0 \<or> ok < 0 \<or> bad < 0)) (indexed ''usage.series'' i '''')) (\<lambda>_.
      bindE (requireNumber point ''total_tokens'' (indexed ''usage.series'' i ''.total_tokens'')) (\<lambda>tok.
      bindE (requireNumber point ''quota'' (indexed ''usage.series'' i ''.quota'')) (\<lambda>quota.
      bindE (quotaUnitsToUsd quota units) (\<lambda>usd.
      Inr \<lparr>up_dayStart = dayStart, up_requests = ok + bad, up_cost = usd, up_tokens = tok\<rparr>))))))))"

record UsageShare =
  sh_key :: "rat option"
  sh_name :: "jsstring option"
  sh_requests :: rat
  sh_tokens :: rat
  sh_cost :: rat
  sh_successRate :: "rat option"

definition mapModelUsage :: "rat jsnum \<Rightarrow> nat \<Rightarrow> jsval \<Rightarrow> UsageShare live" where
  "mapModelUsage units i v =
     (let model = asRecord v in
      bindE (requireNumber model ''request_count'' (indexed ''usage.models'' i ''.request_count'')) (\<lambda>ok.
      bindE (requireNumber model ''failure_count'' (indexed ''usage.models'' i ''.failure_count'')) (\<lambda>bad.
      bindE (guardE (\<not> (ok < 0 \<or> bad < 0)) (indexed ''usage.models'' i '''')) (\<lambda>_.
      bindE (requireString model ''model_name'' (indexed ''usage.models'' i ''.model_name'')) (\<lambda>name.
      bindE (requireNumber model ''total_tokens'' (indexed ''usage.models'' i ''.total_tokens'')) (\<lambda>tok.
      bindE (requireNumber model ''quota'' (indexed ''usage.models'' i ''.quota'')) (\<lambda>quota.
      bindE (quotaUnitsToUsd quota units) (\<lambda>usd.
      Inr \<lparr>sh_key = None, sh_name = Some name, sh_requests = ok + bad, sh_tokens = tok, sh_cost = usd,
        sh_successRate = percentOf ok (ok + bad)\<rparr>))))))))"

definition mapKeyUsage :: "rat jsnum \<Rightarrow> nat \<Rightarrow> jsval \<Rightarrow> UsageShare live" where
  "mapKeyUsage units i v =
     (let key = asRecord v in
      bindE (requireNumber key ''token_id'' (indexed ''usage.api_keys'' i ''.token_id'')) (\<lambda>keyId.
      bindE (requireNumber key ''request_count'' (indexed ''usage.api_keys'' i ''.request_count'')) (\<lambda>ok.
      bindE (requireNumber key ''failure_count'' (indexed ''usage.api_keys'' i ''.failure_count'')) (\<lambda>bad.
      bindE (guardE (\<not> (of_int \<lfloor>keyId\<rfloor> \<noteq> keyId \<or> keyId < 0 \<or> ok < 0 \<or> bad < 0)) (indexed ''usage.api_keys'' i '''')) (\<lambda>_.
      bindE (requireNumber key ''total_tokens'' (indexed ''usage.api_keys'' i ''.total_tokens'')) (\<lambda>tok.
      bindE (requireNumber key ''quota'' (indexed ''usage.api_keys'' i ''.quota'')) (\<lambda>quota.
      bindE (quotaUnitsToUsd quota units) (\<lambda>usd.
      Inr \<lparr>sh_key = Some keyId, sh_name = readText key ''token_name'', sh_requests = ok + bad, sh_tokens = tok, sh_cost = usd,
        sh_successRate = percentOf ok (ok + bad)\<rparr>))))))))"

record LiveUsage =
  lu_totalRequests :: rat
  lu_totalTokens :: rat
  lu_totalCost :: rat
  lu_averageLatencyMs :: "rat option"
  lu_successRate :: "rat option"
  lu_series :: "UsagePoint list"
  lu_models :: "UsageShare list"
  lu_apiKeys :: "UsageShare list"

definition mapUsageAnalytics :: "jsval \<Rightarrow> rat jsnum \<Rightarrow> LiveUsage live" where
  "mapUsageAnalytics v units =
     (let stats = asRecord v in
      bindE (mapUsageSummary stats) (\<lambda>summary.
      let latency = readOptionalNumber stats ''average_latency_ms'' in
      bindE (guardE (case latency of Some l \<Rightarrow> l \<ge> 0 | None \<Rightarrow> True) (js ''usage.average_latency_ms'')) (\<lambda>_.
      bindE (requireItems (get_prop stats (js ''series'')) (js ''usage.series'')) (\<lambda>rawSeries.
      bindE (mapE (mapUsagePoint units) rawSeries) (\<lambda>ser.
      bindE (guardE (\<not> (us_requestCount summary > 0 \<and> ser = [])) (js ''usage.series'')) (\<lambda>_.
      bindE (requireItems (get_prop stats (js ''models'')) (js ''usage.models'')) (\<lambda>rawModels.
      bindE (mapE (mapModelUsage units) rawModels) (\<lambda>models.
      bindE (requireItems (get_prop stats (js ''api_keys'')) (js ''usage.api_keys'')) (\<lambda>rawKeys.
      bindE (mapE (mapKeyUsage units) rawKeys) (\<lambda>keys.
      bindE (quotaUnitsToUsd (costQuota summary) units) (\<lambda>usd.
      Inr \<lparr>lu_totalRequests = us_requestCount summary, lu_totalTokens = us_totalTokens summary, lu_totalCost = usd,
        lu_averageLatencyMs = latency, lu_successRate = us_successRate summary, lu_series = ser, lu_models = models,
        lu_apiKeys = keys\<rparr>)))))))))))"

section \<open>The request log\<close>

record LivePoint =
  lpt_bucketStart :: rat
  lpt_bucketSeconds :: rat
  lpt_succeeded :: rat
  lpt_failed :: rat
  lpt_rpm :: rat
  lpt_tpm :: rat
  lpt_tokens :: rat
  lpt_cost :: rat
  lpt_cacheHitTokens :: rat
  lpt_cacheHitRate :: "rat option"

definition pointField :: "nat \<Rightarrow> string \<Rightarrow> jsstring" where
  "pointField i name = indexed ''request_log_analytics.series'' i name"

definition mapLivePoint :: "int \<Rightarrow> rat jsnum \<Rightarrow> nat \<Rightarrow> jsval \<Rightarrow> LivePoint live" where
  "mapLivePoint bucketSeconds units i v =
     (let point = asRecord v in
      bindE (requireNumber point ''day_start'' (pointField i ''.day_start'')) (\<lambda>start.
      bindE (requireNumber point ''bucket_seconds'' (pointField i ''.bucket_seconds'')) (\<lambda>seconds.
      bindE (requireNumber point ''request_count'' (pointField i ''.request_count'')) (\<lambda>ok.
      bindE (requireNumber point ''failure_count'' (pointField i ''.failure_count'')) (\<lambda>bad.
      bindE (requireNumber point ''total_tokens'' (pointField i ''.total_tokens'')) (\<lambda>tok.
      bindE (requireNumber point ''cache_hit_tokens'' (pointField i ''.cache_hit_tokens'')) (\<lambda>hits.
      let rate = readOptionalNumber point ''cache_hit_rate'' in
      bindE (requireNumber point ''quota'' (pointField i ''.quota'')) (\<lambda>quota.
      bindE (guardE (\<not> (start \<le> 0 \<or> seconds \<noteq> of_int bucketSeconds \<or> ok < 0 \<or> bad < 0 \<or> tok < 0 \<or> hits < 0 \<or>
          (case rate of Some r \<Rightarrow> r < 0 \<or> r > 1 | None \<Rightarrow> False) \<or> quota < 0)) (pointField i '''')) (\<lambda>_.
      bindE (quotaUnitsToUsd quota units) (\<lambda>usd.
      Inr \<lparr>lpt_bucketStart = start, lpt_bucketSeconds = seconds, lpt_succeeded = ok, lpt_failed = bad, lpt_rpm = (ok + bad) / (seconds / 60),
        lpt_tpm = tok / (seconds / 60), lpt_tokens = tok, lpt_cost = usd, lpt_cacheHitTokens = hits,
        lpt_cacheHitRate = map_option (\<lambda>r. r * 100) rate\<rparr>))))))))))"

definition emptyPoint :: "int \<Rightarrow> int \<Rightarrow> LivePoint" where
  "emptyPoint b seconds = \<lparr>lpt_bucketStart = of_int b, lpt_bucketSeconds = of_int seconds, lpt_succeeded = 0, lpt_failed = 0, lpt_rpm = 0,
     lpt_tpm = 0, lpt_tokens = 0, lpt_cost = 0, lpt_cacheHitTokens = 0, lpt_cacheHitRate = None\<rparr>"

text \<open>\<open>new Map(points.map(p => [p.bucketStart, p]))\<close>: of several points with a start the last one counts.\<close>

definition pointsByStart :: "LivePoint list \<Rightarrow> (rat \<times> LivePoint) list" where
  "pointsByStart ps = foldl (\<lambda>m p. AList.update (lpt_bucketStart p) p m) [] ps"

definition laidOut :: "int \<Rightarrow> int \<Rightarrow> int \<Rightarrow> int \<Rightarrow> LivePoint list \<Rightarrow> LivePoint list" where
  "laidOut start end' offset seconds ps =
     map (\<lambda>b. case map_of (pointsByStart ps) (of_int b) of Some p \<Rightarrow> p | None \<Rightarrow> emptyPoint b seconds)
       (bucketStarts (bucketOf offset seconds start) (bucketOf offset seconds end') seconds)"

record LiveLogAnalytics =
  ln_requestCount :: rat
  ln_failureCount :: rat
  ln_failureRate :: "rat option"
  ln_peakRpm :: rat
  ln_peakTpm :: rat
  ln_totalTokens :: rat
  ln_totalCost :: rat
  ln_cacheHitTokens :: rat
  ln_cacheHitRate :: "rat option"
  ln_series :: "LivePoint list"

text \<open>\<open>start\<close> and \<open>end\<close> are the range in seconds, \<open>offset\<close> that of the zone at its start in seconds.\<close>

definition requestLogAnalytics :: "int \<Rightarrow> int \<Rightarrow> int \<Rightarrow> int \<Rightarrow> jsval \<Rightarrow> rat jsnum \<Rightarrow> LiveLogAnalytics live" where
  "requestLogAnalytics start end' offset bucketSeconds response units =
     (let stats = asRecord response; summaryField = js ''request_log_analytics.summary'' in
      bindE (requireNumber stats ''request_count'' (js ''request_log_analytics.request_count'')) (\<lambda>ok.
      bindE (requireNumber stats ''failure_count'' (js ''request_log_analytics.failure_count'')) (\<lambda>bad.
      bindE (requireNumber stats ''total_tokens'' (js ''request_log_analytics.total_tokens'')) (\<lambda>tok.
      bindE (requireNumber stats ''cache_hit_tokens'' (js ''request_log_analytics.cache_hit_tokens'')) (\<lambda>hits.
      bindE (guardE (\<not> (ok < 0 \<or> bad < 0 \<or> tok < 0 \<or> hits < 0)) summaryField) (\<lambda>_.
      bindE (requireItems (get_prop stats (js ''series'')) (js ''request_log_analytics.series'')) (\<lambda>raw.
      bindE (mapE (mapLivePoint bucketSeconds units) raw) (\<lambda>points.
      bindE (guardE (\<not> (ok + bad > 0 \<and> points = [])) (js ''request_log_analytics.series'')) (\<lambda>_.
      bindE (if ok + bad > 0
             then bindE (requireNumber stats ''failure_rate'' (js ''request_log_analytics.failure_rate'')) (\<lambda>r. Inr (Some (r * 100)))
             else Inr None) (\<lambda>failureRate'.
      let cacheRate' = map_option (\<lambda>r. r * 100) (readOptionalNumber stats ''cache_hit_rate'') in
      bindE (requireNumber stats ''peak_rpm'' (js ''request_log_analytics.peak_rpm'')) (\<lambda>peakR.
      bindE (requireNumber stats ''peak_tpm'' (js ''request_log_analytics.peak_tpm'')) (\<lambda>peakT.
      bindE (requireNumber stats ''quota'' (js ''request_log_analytics.quota'')) (\<lambda>quota.
      bindE (guardE (\<not> ((case failureRate' of Some r \<Rightarrow> r < 0 \<or> r > 100 | None \<Rightarrow> False) \<or>
          (case cacheRate' of Some r \<Rightarrow> r < 0 \<or> r > 100 | None \<Rightarrow> False) \<or> peakR < 0 \<or> peakT < 0 \<or> quota < 0)) summaryField) (\<lambda>_.
      bindE (quotaUnitsToUsd quota units) (\<lambda>usd.
      Inr \<lparr>ln_requestCount = ok + bad, ln_failureCount = bad, ln_failureRate = failureRate', ln_peakRpm = peakR, ln_peakTpm = peakT,
        ln_totalTokens = tok, ln_totalCost = usd, ln_cacheHitTokens = hits, ln_cacheHitRate = cacheRate',
        ln_series = laidOut start end' offset bucketSeconds points\<rparr>)))))))))))))))"

end
