(* ===== verification/LiveRecharge.thy ===== *)
theory LiveRecharge
  imports LiveBilling
begin

text \<open>
  The configuration of recharging in the live data layer: \<open>getRechargeConfiguration\<close> and \<open>getRechargeQuote\<close> of
  \<open>src/frontend/apps/console/src/data/live-repository.ts\<close>, and the address and body of a checkout.
\<close>

section \<open>Ways of payment\<close>

record RechargePaymentMethod =
  rm_id :: jsstring
  rm_name :: jsstring
  rm_type :: jsstring
  rm_minAmount :: rat
  rm_icon :: "jsstring option"
  rm_index :: "nat option"

record RechargeMinimums =
  globalMinAmount :: rat
  stripeMinAmount :: rat
  waffoMinAmount :: rat
  pancakeMinAmount :: rat

record RechargeSwitches =
  epayEnabled :: bool
  stripeEnabled :: bool
  waffoEnabled :: bool
  pancakeEnabled :: bool

definition readMinimums :: "jsval \<Rightarrow> RechargeMinimums live" where
  "readMinimums topup =
     bindE (requireNumber topup ''min_topup'' (js ''topup.min_topup'')) (\<lambda>g.
     bindE (requireNumber topup ''stripe_min_topup'' (js ''topup.stripe_min_topup'')) (\<lambda>s.
     bindE (requireNumber topup ''waffo_min_topup'' (js ''topup.waffo_min_topup'')) (\<lambda>w.
     bindE (requireNumber topup ''waffo_pancake_min_topup'' (js ''topup.waffo_pancake_min_topup'')) (\<lambda>p.
     bindE (guardE (\<not> (g \<le> 0 \<or> s \<le> 0 \<or> w \<le> 0 \<or> p \<le> 0)) (js ''topup.minimum_amounts'')) (\<lambda>_.
     Inr \<lparr>globalMinAmount = g, stripeMinAmount = s, waffoMinAmount = w, pancakeMinAmount = p\<rparr>)))))"

definition readSwitches :: "jsval \<Rightarrow> RechargeSwitches live" where
  "readSwitches topup =
     bindE (requireBoolean topup ''enable_online_topup'' (js ''topup.enable_online_topup'')) (\<lambda>e.
     bindE (requireBoolean topup ''enable_stripe_topup'' (js ''topup.enable_stripe_topup'')) (\<lambda>s.
     bindE (requireBoolean topup ''enable_waffo_topup'' (js ''topup.enable_waffo_topup'')) (\<lambda>w.
     bindE (requireBoolean topup ''enable_waffo_pancake_topup'' (js ''topup.enable_waffo_pancake_topup'')) (\<lambda>p.
     Inr \<lparr>epayEnabled = e, stripeEnabled = s, waffoEnabled = w, pancakeEnabled = p\<rparr>))))"

definition methodOffered :: "RechargeSwitches \<Rightarrow> jsstring \<Rightarrow> bool" where
  "methodOffered sw kind =
     (if kind = js ''waffo'' then False
      else if kind = js ''stripe'' \<and> \<not> stripeEnabled sw then False
      else if kind = js ''waffo_pancake'' \<and> \<not> pancakeEnabled sw then False
      else \<not> (kind \<noteq> js ''stripe'' \<and> kind \<noteq> js ''waffo_pancake'' \<and> \<not> epayEnabled sw))"

definition fallbackMinAmount :: "RechargeMinimums \<Rightarrow> jsstring \<Rightarrow> rat" where
  "fallbackMinAmount mins kind = (if kind = js ''stripe'' then stripeMinAmount mins
     else if kind = js ''waffo_pancake'' then pancakeMinAmount mins else globalMinAmount mins)"

definition standardMethod :: "RechargeMinimums \<Rightarrow> RechargeSwitches \<Rightarrow> nat \<Rightarrow> jsval \<Rightarrow> RechargePaymentMethod option live" where
  "standardMethod mins sw i v =
     (let method = asRecord v in
      bindE (requireString method ''type'' (indexed ''topup.pay_methods'' i ''.type'')) (\<lambda>kind.
      bindE (requireString method ''name'' (indexed ''topup.pay_methods'' i ''.name'')) (\<lambda>name.
      if \<not> methodOffered sw kind then Inr None
      else
        (let configured = readOptionalNumber method ''min_topup'' in
         bindE (guardE (case configured of Some m \<Rightarrow> \<not> m \<le> 0 | None \<Rightarrow> True) (indexed ''topup.pay_methods'' i ''.min_topup'')) (\<lambda>_.
         Inr (Some \<lparr>rm_id = kind @ js ''-'' @ nat_str i, rm_name = name, rm_type = kind,
           rm_minAmount = (case configured of Some m \<Rightarrow> m | None \<Rightarrow> fallbackMinAmount mins kind),
           rm_icon = readText method ''icon'', rm_index = None\<rparr>))))))"

definition waffoMethod :: "RechargeMinimums \<Rightarrow> nat \<Rightarrow> jsval \<Rightarrow> RechargePaymentMethod live" where
  "waffoMethod mins i v =
     (let method = asRecord v in
      bindE (requireString method ''name'' (indexed ''topup.waffo_pay_methods'' i ''.name'')) (\<lambda>name.
      Inr \<lparr>rm_id = js ''waffo-'' @ nat_str i, rm_name = name, rm_type = js ''waffo'', rm_minAmount = waffoMinAmount mins,
        rm_icon = readText method ''icon'', rm_index = Some i\<rparr>))"

record LiveRechargeProduct =
  rp_id :: jsstring
  rp_name :: jsstring
  rp_price :: rat
  rp_creditUsd :: rat
  rp_currency :: jsstring

definition productField :: "jsstring \<Rightarrow> string \<Rightarrow> jsstring" where
  "productField i name = js ''recharge_product.'' @ i @ js name"

definition mapProduct :: "rat \<Rightarrow> nat \<Rightarrow> jsval \<Rightarrow> LiveRechargeProduct live" where
  "mapProduct units i v =
     (let product = asRecord v in
      bindE (requireString product ''productId'' (indexed ''topup.creem_products'' i ''.productId'')) (\<lambda>pid.
      bindE (requireString product ''name'' (indexed ''topup.creem_products'' i ''.name'')) (\<lambda>name.
      let cur = readString product ''currency'' [] in
      bindE (guardE (cur = js ''USD'' \<or> cur = js ''EUR'') (productField pid ''.currency'')) (\<lambda>_.
      bindE (requireNumber product ''price'' (productField pid ''.price'')) (\<lambda>price.
      bindE (requireNumber product ''quota'' (productField pid ''.quota'')) (\<lambda>quota.
      bindE (guardE (\<not> price \<le> 0) (productField pid ''.price'')) (\<lambda>_.
      bindE (guardE (\<not> quota \<le> 0) (productField pid ''.quota'')) (\<lambda>_.
      bindE (quotaUnitsToUsd quota (Num units)) (\<lambda>usd.
      Inr \<lparr>rp_id = pid, rp_name = name, rp_price = price, rp_creditUsd = usd, rp_currency = cur\<rparr>)))))))))"

section \<open>Amounts\<close>

fun readDiscounts :: "(jsstring \<times> jsval) list \<Rightarrow> (jsstring \<times> rat) list live" where
  "readDiscounts [] = Inr []"
| "readDiscounts ((amount, v) # rest) = (case toNumber v of
     Num m \<Rightarrow>
       (if m \<le> 0 then Inl (LiveDataContractError (js ''topup.discount.'' @ amount))
        else bindE (readDiscounts rest) (\<lambda>ds. Inr ((amount, m) # ds)))
   | _ \<Rightarrow> Inl (LiveDataContractError (js ''topup.discount.'' @ amount)))"

definition configuredAmount :: "nat \<Rightarrow> jsval \<Rightarrow> rat live" where
  "configuredAmount i v = (case toNumber v of
     Num a \<Rightarrow> if a \<le> 0 then Inl (LiveDataContractError (indexed ''topup.amount_options'' i '''')) else Inr a
   | _ \<Rightarrow> Inl (LiveDataContractError (indexed ''topup.amount_options'' i '''')))"

definition amountOptions :: "rat \<Rightarrow> RechargePaymentMethod list \<Rightarrow> rat list \<Rightarrow> rat list" where
  "amountOptions globalMin methods chosen =
     (let minimums = filter (\<lambda>a. a > 0) (map rm_minAmount methods);
          minimum = (if minimums = [] then globalMin else Min (set minimums));
          options = (if chosen = [] then map (\<lambda>m. minimum * m) [1, 5, 10, 30, 50, 100] else chosen) in
      take 8 (sort (uniq options)))"

datatype RechargeDisplayType = DisplayUSD | DisplayCNY | DisplayTokens

definition displayTypeOf :: "jsstring \<Rightarrow> RechargeDisplayType live" where
  "displayTypeOf s = (if s = js ''USD'' then Inr DisplayUSD else if s = js ''CNY'' then Inr DisplayCNY
     else if s = js ''TOKENS'' then Inr DisplayTokens else Inl (LiveDataContractError (js ''status.quota_display_type'')))"

record RechargeConfiguration =
  rc_amountOptions :: "rat list"
  rc_complianceConfirmed :: bool
  rc_customCurrencySymbol :: jsstring
  rc_discounts :: "(jsstring \<times> rat) list"
  rc_displayType :: RechargeDisplayType
  rc_externalTopupUrl :: "jsstring option"
  rc_onlineEnabled :: bool
  rc_paymentCurrency :: jsstring
  rc_paymentMethods :: "RechargePaymentMethod list"
  rc_products :: "LiveRechargeProduct list"
  rc_quotaPerUnit :: rat
  rc_redemptionEnabled :: bool
  rc_usdExchangeRate :: rat

definition present :: "'a option list \<Rightarrow> 'a list" where
  "present xs = concat (map (\<lambda>x. case x of Some y \<Rightarrow> [y] | None \<Rightarrow> []) xs)"

definition getRechargeConfiguration :: "LiveEnv \<Rightarrow> jsval \<Rightarrow> jsval \<Rightarrow> RechargeConfiguration live" where
  "getRechargeConfiguration env topupData statusData =
     (let topup = asRecord topupData; status = asRecord statusData in
      bindE (requireNumber status ''quota_per_unit'' (js ''status.quota_per_unit'')) (\<lambda>units.
      bindE (guardE (\<not> units \<le> 0) (js ''status.quota_per_unit'')) (\<lambda>_.
      bindE (readMinimums topup) (\<lambda>mins.
      bindE (readSwitches topup) (\<lambda>sw.
      bindE (parseList (parseJson env) (get_prop topup (js ''pay_methods'')) (js ''topup.pay_methods'')) (\<lambda>rawStandard.
      bindE (mapE (standardMethod mins sw) rawStandard) (\<lambda>standard.
      bindE (if waffoEnabled sw
             then parseList (parseJson env) (get_prop topup (js ''waffo_pay_methods'')) (js ''topup.waffo_pay_methods'') else Inr []) (\<lambda>rawWaffo.
      bindE (mapE (waffoMethod mins) rawWaffo) (\<lambda>waffo.
      bindE (requireBoolean topup ''enable_creem_topup'' (js ''topup.enable_creem_topup'')) (\<lambda>creem.
      bindE (if creem then parseList (parseJson env) (get_prop topup (js ''creem_products'')) (js ''topup.creem_products'') else Inr []) (\<lambda>rawProducts.
      bindE (mapE (mapProduct units) rawProducts) (\<lambda>products.
      bindE (parseRecord (parseJson env) (get_prop topup (js ''discount'')) (Some (js ''topup.discount''))) (\<lambda>rawDiscounts.
      bindE (readDiscounts (recordEntries rawDiscounts)) (\<lambda>discounts.
      bindE (parseList (parseJson env) (get_prop topup (js ''amount_options'')) (js ''topup.amount_options'')) (\<lambda>rawAmounts.
      bindE (mapE configuredAmount rawAmounts) (\<lambda>configured.
      let methods = present standard @ waffo in
      bindE (requireString status ''quota_display_type'' (js ''status.quota_display_type'')) (\<lambda>rawDisplay.
      bindE (displayTypeOf (upperCase env rawDisplay)) (\<lambda>display.
      bindE (requireNumber status ''usd_exchange_rate'' (js ''status.usd_exchange_rate'')) (\<lambda>rate.
      bindE (guardE (\<not> rate \<le> 0) (js ''status.usd_exchange_rate'')) (\<lambda>_.
      bindE (requireBoolean topup ''payment_compliance_confirmed'' (js ''topup.payment_compliance_confirmed'')) (\<lambda>compliance.
      bindE (requireBoolean topup ''enable_redemption'' (js ''topup.enable_redemption'')) (\<lambda>redemption.
      Inr \<lparr>rc_amountOptions = amountOptions (globalMinAmount mins) methods configured, rc_complianceConfirmed = compliance,
        rc_customCurrencySymbol = readString status ''custom_currency_symbol'' [], rc_discounts = discounts, rc_displayType = display,
        rc_externalTopupUrl = readText topup ''topup_link'', rc_onlineEnabled = (length methods + length products > 0),
        rc_paymentCurrency = (if display = DisplayCNY then js ''CNY'' else js ''USD''), rc_paymentMethods = methods,
        rc_products = products, rc_quotaPerUnit = units, rc_redemptionEnabled = redemption, rc_usdExchangeRate = rate\<rparr>))))))))))))))))))))))"

section \<open>Quotes and checkouts\<close>

definition quotePath :: "jsstring \<Rightarrow> jsstring" where
  "quotePath kind = (if kind = js ''stripe'' then js ''/api/user/stripe/amount'' else if kind = js ''waffo'' then js ''/api/user/waffo/amount''
     else if kind = js ''waffo_pancake'' then js ''/api/user/waffo-pancake/amount'' else js ''/api/user/amount'')"

definition mapQuote :: "LegacyPaymentResponse \<Rightarrow> rat live" where
  "mapQuote response =
     bindE (unwrapLegacyPayment response) (\<lambda>data. case toNumber data of
       Num a \<Rightarrow> if a \<le> 0 then Inl (PlainError (js ''Unable to calculate payment amount'')) else Inr a
     | _ \<Rightarrow> Inl (PlainError (js ''Unable to calculate payment amount'')))"

text \<open>The request of a checkout: its path and the fields of its body.  A way of payment is given by its type and the
  index of a Waffo method; the address of the page is an argument.\<close>

definition checkoutRequest ::
  "jsstring \<Rightarrow> rat \<Rightarrow> (jsstring \<times> nat option) option \<Rightarrow> jsstring option \<Rightarrow> (jsstring \<times> (jsstring \<times> jsval) list) live" where
  "checkoutRequest origin amount method product =
     (let whole = JNum (Num (of_int \<lfloor>amount\<rfloor>)); back = (\<lambda>s. JStr (origin @ js ''/console/recharge?payment='' @ js s)) in
      case product of
        Some pid \<Rightarrow> Inr (js ''/api/user/creem/pay'', [(js ''payment_method'', JStr (js ''creem'')), (js ''product_id'', JStr pid)])
      | None \<Rightarrow>
          (case method of
             None \<Rightarrow> Inl (PlainError (js ''Select a payment method''))
           | Some (kind, idx) \<Rightarrow>
               (if kind = js ''stripe'' then
                  Inr (js ''/api/user/stripe/pay'', [(js ''amount'', whole), (js ''payment_method'', JStr (js ''stripe'')),
                    (js ''success_url'', back ''success''), (js ''cancel_url'', back ''cancelled'')])
                else if kind = js ''waffo'' then
                  Inr (js ''/api/user/waffo/pay'', [(js ''amount'', whole),
                    (js ''pay_method_index'', (case idx of Some i \<Rightarrow> JNum (Num (of_nat i)) | None \<Rightarrow> JUndef)), (js ''return_url'', back ''pending'')])
                else if kind = js ''waffo_pancake'' then Inr (js ''/api/user/waffo-pancake/pay'', [(js ''amount'', whole)])
                else Inr (js ''/api/user/pay'', [(js ''amount'', whole), (js ''payment_method'', JStr kind), (js ''return_url'', back ''pending'')]))))"

end
