(* ===== verification/LiveRequestLog.thy ===== *)
theory LiveRequestLog
  imports LiveRecords
begin

text \<open>
  Records of the request log in the live data layer: \<open>mapRequestLog\<close> and \<open>mapPricedRequestLog\<close> of
  \<open>src/frontend/apps/console/src/data/live-repository.ts\<close>.  Amounts are first in units of quota and then priced with
  the rate that the record carries, or else the current one.
\<close>

record LiveStreamStatus =
  ss_status :: "jsstring option"
  ss_endReason :: "jsstring option"
  ss_errorCount :: "rat option"
  ss_endError :: "jsstring option"
  ss_errors :: "jsstring list"

record LiveToolSurcharge =
  ts_name :: jsstring
  ts_count :: rat
  ts_unitPrice :: rat
  ts_totalCost :: rat

record LiveTaskDetails =
  td_id :: jsstring
  td_platform :: "jsstring option"
  td_action :: "jsstring option"
  td_status :: "jsstring option"
  td_durationMs :: "rat option"
  td_refundedCost :: "rat option"
  td_failureReason :: "jsstring option"
  td_refundReason :: "jsstring option"

text \<open>Tokens of a request, and its amounts.\<close>

record LiveTokens =
  tk_input :: rat
  tk_inputTotal :: "rat option"
  tk_output :: rat
  tk_cacheRead :: "rat option"
  tk_cacheWrite :: "rat option"
  tk_cacheWrite5m :: "rat option"
  tk_cacheWrite1h :: "rat option"
  tk_image :: "rat option"
  tk_audioInput :: "rat option"
  tk_audioOutput :: "rat option"
  tk_textInput :: "rat option"
  tk_textOutput :: "rat option"

record LiveCosts =
  co_cost :: rat
  co_estimated :: "rat option"
  co_preConsumed :: "rat option"
  co_final :: "rat option"
  co_adjustment :: "rat option"
  co_outstanding :: "rat option"
  co_subscriptionConsumed :: "rat option"
  co_subscriptionRemaining :: "rat option"

record LiveRequestLog =
  rl_id :: jsstring
  rl_serviceTraceId :: "jsstring option"
  rl_sourceIp :: "jsstring option"
  rl_endpoint :: "jsstring option"
  rl_model :: "jsstring option"
  rl_apiKeyName :: "jsstring option"
  rl_group :: "jsstring option"
  rl_createdAt :: rat
  rl_failed :: bool
  rl_statusCode :: "rat option"
  rl_isStream :: "bool option"
  rl_tokens :: LiveTokens
  rl_toolSurcharges :: "LiveToolSurcharge list"
  rl_latencyMs :: "rat option"
  rl_firstTokenLatencyMs :: "rat option"
  rl_costs :: LiveCosts
  rl_quotaPerUnit :: "rat option"
  rl_billingMode :: "jsstring option"
  rl_billingTier :: "jsstring option"
  rl_billingSource :: "jsstring option"
  rl_billingPreference :: "jsstring option"
  rl_billingStage :: "jsstring option"
  rl_subscriptionPlanTitle :: "jsstring option"
  rl_usageSemantic :: "jsstring option"
  rl_usageCountSource :: "jsstring option"
  rl_requestPolicyApplied :: bool
  rl_task :: "LiveTaskDetails option"
  rl_reasoningEffort :: "jsstring option"
  rl_streamStatus :: "LiveStreamStatus option"
  rl_content :: "jsstring option"
  rl_errorCode :: "jsstring option"
  rl_errorType :: "jsstring option"
  rl_errorMessage :: "jsstring option"

definition orNumber :: "rat option \<Rightarrow> rat option \<Rightarrow> rat option" where
  "orNumber a b = (case a of Some q \<Rightarrow> Some q | None \<Rightarrow> b)"

definition liveRequestFailed :: "rat option \<Rightarrow> rat \<Rightarrow> bool" where
  "liveRequestFailed statusCode logType \<longleftrightarrow> (case statusCode of Some c \<Rightarrow> c \<ge> 400 | None \<Rightarrow> False) \<or> logType = LOG_TYPE_ERROR"

definition nonNegative :: "rat option \<Rightarrow> rat option" where
  "nonNegative n = (case n of Some q \<Rightarrow> if q \<ge> 0 then Some q else None | None \<Rightarrow> None)"

definition requestLatency :: "jsval \<Rightarrow> jsval \<Rightarrow> rat option" where
  "requestLatency record other =
     orNumber (nonNegative (orNumber (readOptionalNumber record ''response_time'') (readOptionalNumber other ''response_time_ms'')))
       (orNumber (nonNegative (readOptionalNumber record ''latency''))
         (map_option (\<lambda>s. s * 1000) (nonNegative (readOptionalNumber record ''use_time''))))"

definition streamErrors :: "jsval \<Rightarrow> jsstring list live" where
  "streamErrors v = (case v of
     JUndef \<Rightarrow> Inr [] | JNull \<Rightarrow> Inr []
   | JArr xs \<Rightarrow> (if list_all isString xs then Inr (map the_str xs)
       else Inl (LiveDataContractError (js ''request_log.other.stream_status.errors'')))
   | _ \<Rightarrow> Inl (LiveDataContractError (js ''request_log.other.stream_status.errors'')))"

definition surchargeField :: "nat \<Rightarrow> string \<Rightarrow> jsstring" where
  "surchargeField i name = indexed ''request_log.other.tool_surcharges'' i name"

definition mapSurcharge :: "nat \<Rightarrow> jsval \<Rightarrow> LiveToolSurcharge live" where
  "mapSurcharge i v =
     (let item = asRecord v in
      bindE (requireString item ''name'' (surchargeField i ''.name'')) (\<lambda>name.
      bindE (requireNumber item ''count'' (surchargeField i ''.count'')) (\<lambda>count.
      bindE (requireNumber item ''price'' (surchargeField i ''.price'')) (\<lambda>price.
      bindE (guardE (\<not> (of_int \<lfloor>count\<rfloor> \<noteq> count \<or> count \<le> 0 \<or> price < 0)) (surchargeField i '''')) (\<lambda>_.
      Inr \<lparr>ts_name = name, ts_count = count, ts_unitPrice = price, ts_totalCost = price * count / 1000\<rparr>)))))"

definition taskDetails :: "jsval \<Rightarrow> jsstring \<Rightarrow> bool \<Rightarrow> jsstring \<Rightarrow> LiveTaskDetails" where
  "taskDetails other i failed content = \<lparr>td_id = i, td_platform = readText other ''task_platform'', td_action = readText other ''task_action'',
     td_status = readText other ''task_status'',
     td_durationMs = map_option (\<lambda>s. s * 1000) (nonNegative (readOptionalNumber other ''task_duration_sec'')),
     td_refundedCost = readOptionalNumber other ''refunded_quota'',
     td_failureReason = orText (readText other ''task_failure_reason'') (if failed \<and> content \<noteq> [] then Some content else None),
     td_refundReason = readText other ''reason''\<rparr>"

definition mapRequestLog :: "LiveEnv \<Rightarrow> jsval \<Rightarrow> LiveRequestLog live" where
  "mapRequestLog env v =
     (let record = asRecord v in
      bindE (parseOptionalRecord (parseJson env) (get_prop record (js ''other'')) (js ''request_log.other'')) (\<lambda>other.
      bindE (requireNumber record ''type'' (js ''request_log.type'')) (\<lambda>logType.
      let statusCode = orNumber (readOptionalNumber record ''status_code'') (readOptionalNumber other ''status_code'');
          failed = liveRequestFailed statusCode logType; streamStatus = asRecord (get_prop other (js ''stream_status'')) in
      bindE (streamErrors (get_prop streamStatus (js ''errors''))) (\<lambda>errors.
      bindE (readOptionalItems (get_prop other (js ''tool_surcharges'')) (js ''request_log.other.tool_surcharges'')) (\<lambda>rawSurcharges.
      bindE (mapE mapSurcharge rawSurcharges) (\<lambda>surcharges.
      let taskId = (case readText record ''task_id'' of Some t \<Rightarrow> t | None \<Rightarrow> readString other ''task_id'' []);
          isTask = (readOptionalBoolean other ''is_task'' = Some True \<or> length taskId > 0); content = readString record ''content'' [] in
      bindE (requireString record ''request_id'' (js ''request_log.request_id'')) (\<lambda>i.
      bindE (requireNumber record ''created_at'' (js ''request_log.created_at'')) (\<lambda>created.
      bindE (requireNumber record ''prompt_tokens'' (js ''request_log.prompt_tokens'')) (\<lambda>inputTokens.
      bindE (requireNumber record ''completion_tokens'' (js ''request_log.completion_tokens'')) (\<lambda>outputTokens.
      bindE (requireNumber record ''quota'' (js ''request_log.quota'')) (\<lambda>quota.
      Inr \<lparr>rl_id = i,
        rl_serviceTraceId = textOrNone (Some (readString record ''service_trace_id'' (readString record ''upstream_request_id'' []))),
        rl_sourceIp = readText record ''ip'',
        rl_endpoint = orText (readText record ''request_path'') (orText (readText other ''request_path'') (readText record ''endpoint'')),
        rl_model = orText (readText record ''model_name'') (readText record ''model''),
        rl_apiKeyName = orText (readText record ''token_name'') (readText record ''token''),
        rl_group = textOrNone (Some (readString record ''group'' (readString other ''group'' []))), rl_createdAt = created,
        rl_failed = failed, rl_statusCode = statusCode, rl_isStream = readOptionalBoolean record ''is_stream'',
        rl_tokens = \<lparr>tk_input = inputTokens, tk_inputTotal = readOptionalNumber other ''input_tokens_total'', tk_output = outputTokens,
          tk_cacheRead = readOptionalNumber other ''cache_tokens'',
          tk_cacheWrite = orNumber (readOptionalNumber other ''cache_write_tokens'') (readOptionalNumber other ''cache_creation_tokens''),
          tk_cacheWrite5m = readOptionalNumber other ''cache_creation_tokens_5m'',
          tk_cacheWrite1h = readOptionalNumber other ''cache_creation_tokens_1h'', tk_image = readOptionalNumber other ''image_output'',
          tk_audioInput = readOptionalNumber other ''audio_input'', tk_audioOutput = readOptionalNumber other ''audio_output'',
          tk_textInput = readOptionalNumber other ''text_input'', tk_textOutput = readOptionalNumber other ''text_output''\<rparr>,
        rl_toolSurcharges = surcharges, rl_latencyMs = requestLatency record other,
        rl_firstTokenLatencyMs = (case toNumber (get_prop other (js ''frt'')) of Num q \<Rightarrow> positive q | _ \<Rightarrow> None),
        rl_costs = \<lparr>co_cost = quota, co_estimated = readOptionalNumber other ''local_estimated_quota'',
          co_preConsumed = readOptionalNumber other ''actual_pre_consumed_quota'', co_final = readOptionalNumber other ''customer_final_quota'',
          co_adjustment = readOptionalNumber other ''adjustment_quota'', co_outstanding = readOptionalNumber other ''outstanding_quota'',
          co_subscriptionConsumed = readOptionalNumber other ''subscription_consumed'',
          co_subscriptionRemaining = readOptionalNumber other ''subscription_remain''\<rparr>,
        rl_quotaPerUnit = (case readOptionalNumber other ''quota_per_unit'' of Some q \<Rightarrow> positive q | None \<Rightarrow> None),
        rl_billingMode = readText other ''billing_mode'', rl_billingTier = readText other ''matched_tier'',
        rl_billingSource = readText other ''billing_source'', rl_billingPreference = readText other ''billing_preference'',
        rl_billingStage = readText other ''billing_stage'', rl_subscriptionPlanTitle = readText other ''subscription_plan_title'',
        rl_usageSemantic = readText other ''usage_semantic'', rl_usageCountSource = readText other ''usage_count_source'',
        rl_requestPolicyApplied = (readOptionalBoolean other ''is_system_prompt_overwritten'' = Some True),
        rl_task = (if isTask then Some (taskDetails other taskId failed content) else None),
        rl_reasoningEffort = readText other ''reasoning_effort'',
        rl_streamStatus = (if isEmptyRecord streamStatus then None
          else Some \<lparr>ss_status = readText streamStatus ''status'', ss_endReason = readText streamStatus ''end_reason'',
            ss_errorCount = readOptionalNumber streamStatus ''error_count'', ss_endError = readText streamStatus ''end_error'', ss_errors = errors\<rparr>),
        rl_content = textOrNone (Some content),
        rl_errorCode = (if failed then orText (readText record ''error_code'') (readText other ''error_code'') else None),
        rl_errorType = (if failed then readText other ''error_type'' else None),
        rl_errorMessage = (if failed then orText (textOrNone (Some content)) (readText record ''error'') else None)\<rparr>)))))))))))"

definition priced :: "rat option \<Rightarrow> rat jsnum \<Rightarrow> rat option live" where
  "priced amount units = (case amount of None \<Rightarrow> Inr None | Some q \<Rightarrow> bindE (quotaUnitsToUsd q units) (\<lambda>usd. Inr (Some usd)))"

definition mapPricedRequestLog :: "LiveEnv \<Rightarrow> jsval \<Rightarrow> rat jsnum \<Rightarrow> LiveRequestLog live" where
  "mapPricedRequestLog env v quotaPerUnit =
     bindE (mapRequestLog env v) (\<lambda>record.
     let units = (case rl_quotaPerUnit record of Some q \<Rightarrow> Num q | None \<Rightarrow> quotaPerUnit); c = rl_costs record in
     bindE (quotaUnitsToUsd (co_cost c) units) (\<lambda>cost.
     bindE (priced (co_estimated c) units) (\<lambda>estimated.
     bindE (priced (co_preConsumed c) units) (\<lambda>preConsumed.
     bindE (priced (co_final c) units) (\<lambda>final.
     bindE (priced (co_adjustment c) units) (\<lambda>adjustment.
     bindE (priced (co_outstanding c) units) (\<lambda>outstanding.
     bindE (priced (co_subscriptionConsumed c) units) (\<lambda>consumed.
     bindE (priced (co_subscriptionRemaining c) units) (\<lambda>remaining.
     bindE (case rl_task record of
              None \<Rightarrow> Inr None
            | Some t \<Rightarrow> bindE (priced (td_refundedCost t) units) (\<lambda>refunded. Inr (Some (t\<lparr>td_refundedCost := refunded\<rparr>)))) (\<lambda>task.
     Inr (record\<lparr>rl_costs := \<lparr>co_cost = cost, co_estimated = estimated, co_preConsumed = preConsumed, co_final = final,
       co_adjustment = adjustment, co_outstanding = outstanding, co_subscriptionConsumed = consumed,
       co_subscriptionRemaining = remaining\<rparr>, rl_task := task\<rparr>)))))))))))"

end
