(* ===== verification/ApiClient.thy ===== *)
theory ApiClient
  imports LiveContract
begin

text \<open>
  The API client of the console, \<open>src/frontend/packages/api-client/src/index.ts\<close>.  A client keeps an access token;
  a request becomes one call of \<open>fetch\<close>, whose answer is checked.  The network is an argument: a function from the
  call to its outcome.  The query of an address is kept apart from the path.  The body is the value that is written as
  JSON, undefined when there is none.
\<close>

datatype Method = GET | POST | PUT | PATCH | DELETE

record RequestOptions =
  path :: jsstring
  query :: "(jsstring \<times> jsstring) list"
  request_method :: Method
  body :: jsval
  headers :: "(jsstring \<times> jsstring) list"
  authenticated :: bool

record FetchCall =
  fetch_path :: jsstring
  fetch_query :: "(jsstring \<times> jsstring) list"
  fetch_method :: Method
  fetch_body :: jsval
  fetch_headers :: "(jsstring \<times> jsstring) list"

text \<open>An answer, whose \<open>json()\<close> may fail, and whose request identifier is the text of a header.\<close>

record FetchResponse =
  response_status :: nat
  response_json :: "jsval option"
  response_header :: "jsstring option"

text \<open>Nothing when \<open>fetch\<close> rejects.\<close>

type_synonym network = "FetchCall \<Rightarrow> FetchResponse option"

definition response_ok :: "FetchResponse \<Rightarrow> bool" where
  "response_ok r \<longleftrightarrow> 200 \<le> response_status r \<and> response_status r \<le> 299"

definition responseRequestId :: "FetchResponse \<Rightarrow> jsstring option" where
  "responseRequestId r = (case response_header r of Some s \<Rightarrow> if trim s = [] then None else Some (trim s) | None \<Rightarrow> None)"

definition setHeader :: "string \<Rightarrow> jsstring \<Rightarrow> (jsstring \<times> jsstring) list \<Rightarrow> (jsstring \<times> jsstring) list" where
  "setHeader name v hs = AList.update (js name) v hs"

definition authorize :: "jsstring option \<Rightarrow> (jsstring \<times> jsstring) list \<Rightarrow> (jsstring \<times> jsstring) list" where
  "authorize token hs = (case token of
     Some t \<Rightarrow> if t = [] then hs else setHeader ''Authorization'' (js ''Bearer '' @ t) hs | None \<Rightarrow> hs)"

definition fetchCall :: "jsstring option \<Rightarrow> RequestOptions \<Rightarrow> FetchCall" where
  "fetchCall token rq =
     (let base = setHeader ''Cache-Control'' (js ''no-store'') (setHeader ''Accept'' (js ''application/json'') (headers rq));
          typed = (if body rq \<noteq> JUndef then setHeader ''Content-Type'' (js ''application/json'') base else base) in
      \<lparr>fetch_path = path rq, fetch_query = query rq, fetch_method = request_method rq, fetch_body = body rq,
       fetch_headers = (if authenticated rq then authorize token typed else typed)\<rparr>)"

definition fetchJson :: "network \<Rightarrow> jsstring option \<Rightarrow> RequestOptions \<Rightarrow> (FetchResponse \<times> jsval) live" where
  "fetchJson net token rq = (case net (fetchCall token rq) of
     None \<Rightarrow> Inl FetchRejected
   | Some response \<Rightarrow>
       (case response_json response of
          Some payload \<Rightarrow> Inr (response, payload)
        | None \<Rightarrow> Inl (ApiClientError (JStr (js ''The server returned an invalid response.'')) (response_status response) JUndef
            (responseRequestId response))))"

definition statusMessage :: "FetchResponse \<Rightarrow> jsval" where
  "statusMessage response = JStr (js ''Request failed with status '' @ nat_str (response_status response) @ js ''.'')"

text \<open>\<open>Boolean(value)\<close>.\<close>

definition truthyValue :: "jsval \<Rightarrow> bool" where
  "truthyValue v = (case v of JUndef \<Rightarrow> False | JNull \<Rightarrow> False | JBool b \<Rightarrow> b | JStr s \<Rightarrow> s \<noteq> [] | JNum (Num q) \<Rightarrow> q \<noteq> 0
     | JNum NaN \<Rightarrow> False | _ \<Rightarrow> True)"

text \<open>The property of an envelope; \<open>null\<close> has none, which is an error.\<close>

definition request :: "network \<Rightarrow> jsstring option \<Rightarrow> RequestOptions \<Rightarrow> jsval live" where
  "request net token rq =
     bindE (fetchJson net token rq) (\<lambda>(response, envelope).
       if envelope = JNull then Inl NullTypeError
       else if \<not> response_ok response \<or> get_prop envelope (js ''success'') \<noteq> JBool True
       then Inl (ApiClientError (if truthyValue (get_prop envelope (js ''message'')) then get_prop envelope (js ''message'')
           else statusMessage response) (response_status response) (get_prop envelope (js ''code'')) (responseRequestId response))
       else Inr envelope)"

definition requestRaw :: "network \<Rightarrow> jsstring option \<Rightarrow> RequestOptions \<Rightarrow> jsval live" where
  "requestRaw net token rq =
     bindE (fetchJson net token rq) (\<lambda>(response, payload).
       if \<not> response_ok response
       then Inl (ApiClientError (case get_prop (asRecord payload) (js ''message'') of JStr s \<Rightarrow> JStr s | _ \<Rightarrow> statusMessage response)
           (response_status response) (case get_prop (asRecord payload) (js ''code'') of JStr s \<Rightarrow> JStr s | _ \<Rightarrow> JUndef)
           (responseRequestId response))
       else Inr payload)"

text \<open>Media: the headers differ, the token is always sent, and the answer is the body itself, an argument here.\<close>

definition blobCall :: "jsstring option \<Rightarrow> RequestOptions \<Rightarrow> FetchCall" where
  "blobCall token rq = \<lparr>fetch_path = path rq, fetch_query = query rq, fetch_method = request_method rq, fetch_body = JUndef,
     fetch_headers = authorize token (setHeader ''Cache-Control'' (js ''no-store'') (setHeader ''Accept'' (js ''*/*'') (headers rq)))\<rparr>"

definition blobError :: "FetchResponse \<Rightarrow> LiveError" where
  "blobError response =
     (let textual = (\<lambda>v other. case v of JStr s \<Rightarrow> JStr s | _ \<Rightarrow> other);
          parsed = (case response_json response of
              None \<Rightarrow> (statusMessage response, JUndef)
            | Some payload \<Rightarrow>
                (if payload = JNull then (statusMessage response, JUndef)
                 else (textual (get_prop (asRecord (get_prop payload (js ''error''))) (js ''message''))
                         (textual (get_prop payload (js ''message'')) (statusMessage response)),
                       textual (get_prop payload (js ''code'')) JUndef))) in
      ApiClientError (fst parsed) (response_status response) (snd parsed) (responseRequestId response))"

definition requestBlob :: "network \<Rightarrow> jsstring option \<Rightarrow> RequestOptions \<Rightarrow> (FetchResponse \<Rightarrow> 'b) \<Rightarrow> 'b live" where
  "requestBlob net token rq blob = (case net (blobCall token rq) of
     None \<Rightarrow> Inl FetchRejected
   | Some response \<Rightarrow> if response_ok response then Inr (blob response) else Inl (blobError response))"

section \<open>Which credentials a call carries\<close>

definition authorization :: "FetchCall \<Rightarrow> jsstring option" where
  "authorization c = map_of (fetch_headers c) (js ''Authorization'')"

lemma header_names [simp]: "js ''Authorization'' \<noteq> js ''Accept''" "js ''Authorization'' \<noteq> js ''Cache-Control''"
    "js ''Authorization'' \<noteq> js ''Content-Type''"
  by simp_all

lemma setHeader_lookup: "map_of (setHeader name v hs) k = (if k = js name then Some v else map_of hs k)"
  by (simp add: setHeader_def update_conv')

lemma authorize_lookup:
  "map_of (authorize token hs) (js ''Authorization'') =
     (case token of Some t \<Rightarrow> if t = [] then map_of hs (js ''Authorization'') else Some (js ''Bearer '' @ t)
      | None \<Rightarrow> map_of hs (js ''Authorization''))"
  by (simp add: authorize_def setHeader_lookup split: option.splits)

lemma fetchCall_authorization:
  "map_of (headers rq) (js ''Authorization'') = None \<Longrightarrow>
   authorization (fetchCall token rq) =
     (case token of Some t \<Rightarrow> if authenticated rq \<and> t \<noteq> [] then Some (js ''Bearer '' @ t) else None | None \<Rightarrow> None)"
  by (simp add: authorization_def fetchCall_def Let_def authorize_lookup setHeader_lookup del: js.simps split: option.splits)

lemma request_depends:
  "net (fetchCall token rq) = net' (fetchCall token' rq) \<Longrightarrow> request net token rq = request net' token' rq"
  by (simp add: request_def fetchJson_def)

end
