(* ===== verification/LiveSession.thy ===== *)
theory LiveSession
  imports ApiClient LiveRecords
begin

text \<open>
  The session of the console's live data layer: \<open>live-repository-runtime.ts\<close>, \<open>live-session-mappers.ts\<close>,
  \<open>live-session-repository.ts\<close> and \<open>live-auth-repository.ts\<close> under \<open>src/frontend/apps/console/src/data\<close>, and the
  account operations of \<open>live-repository.ts\<close> that rotate the session.  The state is the current session and the token
  that the API client sends.  An operation takes the network and the state and gives the new state with its result.
  Requests that the code makes at once are answered in the order in which it lists them, so that the first of several
  errors in that order is the one reported.  The authenticator of the browser, with the conversions for it, is an
  argument.
\<close>

section \<open>State\<close>

record LiveUser =
  usr_id :: rat
  usr_username :: jsstring
  usr_usernameEditable :: bool
  usr_passwordSet :: bool
  usr_displayName :: jsstring
  usr_email :: jsstring
  usr_group :: jsstring
  usr_role :: rat
  usr_quotaUnits :: rat
  usr_usedQuotaUnits :: rat
  usr_requestCount :: rat
  usr_createdAt :: "rat option"

record LiveConsoleSession =
  ses_user :: LiveUser
  ses_accessToken :: "jsstring option"
  ses_accessExpiresAt :: "rat option"
  ses_sessionId :: "jsstring option"

record LiveState =
  currentSession :: "LiveConsoleSession option"
  clientToken :: "jsstring option"

definition initialLive :: LiveState where
  "initialLive = \<lparr>currentSession = None, clientToken = None\<rparr>"

definition clearLiveSession :: "LiveState \<Rightarrow> LiveState" where
  "clearLiveSession st = st\<lparr>currentSession := None, clientToken := None\<rparr>"

definition setLiveSession :: "LiveConsoleSession \<Rightarrow> LiveState \<Rightarrow> LiveState" where
  "setLiveSession s st = st\<lparr>currentSession := Some s, clientToken := ses_accessToken s\<rparr>"

text \<open>A request that carries no headers of its own, and the data of its envelope.\<close>

definition call :: "Method \<Rightarrow> string \<Rightarrow> jsval \<Rightarrow> RequestOptions" where
  "call m p b = \<lparr>path = js p, query = [], request_method = m, body = b, headers = [], authenticated = True\<rparr>"

definition public :: "RequestOptions \<Rightarrow> RequestOptions" where
  "public rq = rq\<lparr>authenticated := False\<rparr>"

definition fetched :: "network \<Rightarrow> LiveState \<Rightarrow> RequestOptions \<Rightarrow> jsval live" where
  "fetched net st rq = bindE (request net (clientToken st) rq) (\<lambda>e. Inr (get_prop e (js ''data'')))"

definition optionalHeader :: "string \<Rightarrow> jsstring option \<Rightarrow> (jsstring \<times> jsstring) list" where
  "optionalHeader name v = (case textOrNone v of Some s \<Rightarrow> [(js name, s)] | None \<Rightarrow> [])"

definition optionalParam :: "string \<Rightarrow> jsstring option \<Rightarrow> (jsstring \<times> jsstring) list" where
  "optionalParam name v = (case textOrNone v of Some s \<Rightarrow> [(js name, s)] | None \<Rightarrow> [])"

definition optionalValue :: "jsstring option \<Rightarrow> jsval" where
  "optionalValue v = (case v of Some s \<Rightarrow> JStr s | None \<Rightarrow> JUndef)"

section \<open>Mappers\<close>

text \<open>\<open>Date.parse\<close> is an argument.\<close>

definition mapLiveUser :: "(jsstring \<Rightarrow> int option) \<Rightarrow> jsval \<Rightarrow> LiveUser live" where
  "mapLiveUser dateParse v =
     (let user = asRecord v in
      bindE (requireNumber user ''id'' (js ''user.id'')) (\<lambda>i.
      bindE (requireString user ''username'' (js ''user.username'')) (\<lambda>name.
      bindE (requireBoolean user ''has_password'' (js ''user.has_password'')) (\<lambda>password.
      bindE (requireString user ''group'' (js ''user.group'')) (\<lambda>grp.
      bindE (requireNumber user ''role'' (js ''user.role'')) (\<lambda>role.
      bindE (requireNumber user ''quota'' (js ''user.quota'')) (\<lambda>quota.
      bindE (requireNumber user ''used_quota'' (js ''user.used_quota'')) (\<lambda>used.
      bindE (requireNumber user ''request_count'' (js ''user.request_count'')) (\<lambda>requests.
      Inr \<lparr>usr_id = i, usr_username = name, usr_usernameEditable = (readOptionalBoolean user ''username_editable'' = Some True),
        usr_passwordSet = password,
        usr_displayName = (case readText user ''display_name'' of Some s \<Rightarrow> s | None \<Rightarrow> name),
        usr_email = readString user ''email'' [], usr_group = grp, usr_role = role, usr_quotaUnits = quota, usr_usedQuotaUnits = used,
        usr_requestCount = requests, usr_createdAt = readUnixTime dateParse user ''created_time''\<rparr>)))))))))"

record EVMWalletAuthChallenge =
  ch_address :: jsstring
  ch_chainId :: rat
  ch_expiresAt :: rat
  ch_flowToken :: jsstring
  ch_message :: jsstring
  ch_nonce :: jsstring

definition isSafeInteger :: "rat \<Rightarrow> bool" where
  "isSafeInteger q \<longleftrightarrow> of_int \<lfloor>q\<rfloor> = q \<and> \<bar>\<lfloor>q\<rfloor>\<bar> \<le> maxSafeInteger"

definition chainIdOf :: "jsstring \<Rightarrow> rat live" where
  "chainIdOf s = (case jsNumber s of
     Num q \<Rightarrow> if \<not> isSafeInteger q \<or> q \<le> 0 then Inl (LiveDataContractError (js ''evm_wallet.chain_id'')) else Inr q
   | _ \<Rightarrow> Inl (LiveDataContractError (js ''evm_wallet.chain_id'')))"

definition mapLiveEVMWalletChallenge :: "jsval \<Rightarrow> EVMWalletAuthChallenge live" where
  "mapLiveEVMWalletChallenge v =
     (let challenge = asRecord v in
      bindE (requireString challenge ''chain_id'' (js ''evm_wallet.chain_id'')) (\<lambda>rawChain.
      bindE (chainIdOf rawChain) (\<lambda>chain.
      bindE (requireString challenge ''address'' (js ''evm_wallet.address'')) (\<lambda>address.
      bindE (requireNumber challenge ''expires_at'' (js ''evm_wallet.expires_at'')) (\<lambda>expires.
      bindE (requireString challenge ''flow_token'' (js ''evm_wallet.flow_token'')) (\<lambda>flow.
      bindE (requireString challenge ''message'' (js ''evm_wallet.message'')) (\<lambda>message.
      bindE (requireString challenge ''nonce'' (js ''evm_wallet.nonce'')) (\<lambda>nonce.
      Inr \<lparr>ch_address = address, ch_chainId = chain, ch_expiresAt = expires, ch_flowToken = flow, ch_message = message,
        ch_nonce = nonce\<rparr>))))))))"

definition bundleSession :: "(jsstring \<Rightarrow> int option) \<Rightarrow> jsval \<Rightarrow> LiveConsoleSession live" where
  "bundleSession dateParse v =
     (let bundle = asRecord v; session = asRecord (get_prop bundle (js ''session'')) in
      bindE (mapLiveUser dateParse (get_prop bundle (js ''user''))) (\<lambda>user.
      bindE (requireString bundle ''access_token'' (js ''session.access_token'')) (\<lambda>token.
      bindE (requireNumber bundle ''access_expires_at'' (js ''session.access_expires_at'')) (\<lambda>expires.
      bindE (requireString session ''sid'' (js ''session.sid'')) (\<lambda>sid.
      Inr \<lparr>ses_user = user, ses_accessToken = Some token, ses_accessExpiresAt = Some expires, ses_sessionId = Some sid\<rparr>)))))"

text \<open>A session that was decoded becomes the current one; an error leaves the state as it is.\<close>

definition storeSession :: "LiveConsoleSession live \<Rightarrow> LiveState \<Rightarrow> LiveState \<times> LiveConsoleSession live" where
  "storeSession r st = (case r of Inl e \<Rightarrow> (st, Inl e) | Inr s \<Rightarrow> (setLiveSession s st, Inr s))"

definition mapLiveSessionBundle :: "(jsstring \<Rightarrow> int option) \<Rightarrow> jsval \<Rightarrow> LiveState \<Rightarrow> LiveState \<times> LiveConsoleSession live" where
  "mapLiveSessionBundle dateParse v st = storeSession (bundleSession dateParse v) st"

section \<open>Session repository\<close>

text \<open>The refresh of the session: a refusal ends it.\<close>

definition refreshRequest :: "bool \<Rightarrow> LiveState \<Rightarrow> RequestOptions" where
  "refreshRequest ignoreCurrentSession st = (public (call POST ''/api/user/auth/refresh'' JUndef))
     \<lparr>headers := (if ignoreCurrentSession then [] else optionalHeader ''X-Auth-Session'' (Option.bind (currentSession st) ses_sessionId))\<rparr>"

definition refused :: "LiveError \<Rightarrow> bool" where
  "refused e = (case e of ApiClientError _ status _ _ \<Rightarrow> status = 401 \<or> status = 403 | _ \<Rightarrow> False)"

definition liveGetSession ::
  "(jsstring \<Rightarrow> int option) \<Rightarrow> network \<Rightarrow> bool \<Rightarrow> LiveState \<Rightarrow> LiveState \<times> LiveConsoleSession option live" where
  "liveGetSession dateParse net ignoreCurrentSession st =
     (case storeSession (bindE (fetched net st (refreshRequest ignoreCurrentSession st)) (bundleSession dateParse)) st of
        (st', Inr s) \<Rightarrow> (st', Inr (Some s))
      | (st', Inl e) \<Rightarrow> if refused e then (clearLiveSession st', Inr None) else (st', Inl e))"

definition liveSignOut :: "network \<Rightarrow> LiveConsoleSession option \<Rightarrow> LiveState \<Rightarrow> LiveState \<times> unit live" where
  "liveSignOut net session st =
     (case fetched net st ((call POST ''/api/user/auth/logout'' JUndef)\<lparr>headers := optionalHeader ''X-Auth-Session'' (Option.bind session ses_sessionId)\<rparr>) of
        Inl e \<Rightarrow> (st, Inl e)
      | Inr _ \<Rightarrow> (clearLiveSession st, Inr ()))"

datatype OAuthKind = GithubOAuth | DiscordOAuth | OidcOAuth | LinuxdoOAuth | CustomOAuth

record OAuthProvider =
  op_id :: jsstring
  op_name :: jsstring
  op_clientId :: jsstring
  op_authorizationEndpoint :: jsstring
  op_scopes :: jsstring
  op_kind :: OAuthKind

definition offeredProvider :: "jsval \<Rightarrow> string \<Rightarrow> OAuthProvider live \<Rightarrow> OAuthProvider list live" where
  "offeredProvider status flag provider =
     bindE (requireBoolean status flag (js ''status.'' @ js flag)) (\<lambda>on.
       if on then bindE provider (\<lambda>p. Inr [p]) else Inr [])"

definition fixedProvider :: "jsval \<Rightarrow> string \<Rightarrow> jsstring \<Rightarrow> string \<Rightarrow> jsstring \<Rightarrow> string \<Rightarrow> OAuthKind \<Rightarrow> OAuthProvider live" where
  "fixedProvider status i name clientKey endpoint scopes kind =
     bindE (requireString status clientKey (js ''status.'' @ js clientKey)) (\<lambda>client.
       Inr \<lparr>op_id = js i, op_name = name, op_clientId = client, op_authorizationEndpoint = endpoint, op_scopes = js scopes, op_kind = kind\<rparr>)"

definition customProvider :: "jsval \<Rightarrow> OAuthProvider live" where
  "customProvider v =
     (let provider = asRecord v in
      bindE (requireString provider ''slug'' (js ''status.custom_oauth_providers[].slug'')) (\<lambda>i.
      let field = (\<lambda>name. js ''status.custom_oauth_providers.'' @ i @ js name) in
      bindE (requireString provider ''client_id'' (field ''.client_id'')) (\<lambda>client.
      bindE (requireString provider ''authorization_endpoint'' (field ''.authorization_endpoint'')) (\<lambda>endpoint.
      Inr \<lparr>op_id = i, op_name = readString provider ''name'' i, op_clientId = client, op_authorizationEndpoint = endpoint,
        op_scopes = readString provider ''scopes'' [], op_kind = CustomOAuth\<rparr>))))"

definition mapOAuthProviders :: "jsval \<Rightarrow> OAuthProvider list live" where
  "mapOAuthProviders status =
     bindE (offeredProvider status ''github_oauth'' (fixedProvider status ''github'' (js ''GitHub'') ''github_client_id''
       (js ''https://github.com/login/oauth/authorize'') ''user:email'' GithubOAuth)) (\<lambda>github.
     bindE (offeredProvider status ''discord_oauth'' (fixedProvider status ''discord'' (js ''Discord'') ''discord_client_id''
       (js ''https://discord.com/oauth2/authorize'') ''identify openid'' DiscordOAuth)) (\<lambda>discord.
     bindE (offeredProvider status ''oidc_enabled''
       (bindE (fixedProvider status ''oidc'' (readString status ''oidc_display_name'' (js ''OIDC'')) ''oidc_client_id'' [] ''openid profile email'' OidcOAuth)
         (\<lambda>p. bindE (requireString status ''oidc_authorization_endpoint'' (js ''status.oidc_authorization_endpoint'')) (\<lambda>endpoint.
           Inr (p\<lparr>op_authorizationEndpoint := endpoint\<rparr>))))) (\<lambda>oidc.
     bindE (offeredProvider status ''linuxdo_oauth'' (fixedProvider status ''linuxdo'' (js ''Linux DO'') ''linuxdo_client_id''
       (js ''https://connect.linux.do/oauth2/authorize'') '''' LinuxdoOAuth)) (\<lambda>linuxdo.
     bindE (readOptionalItems (get_prop status (js ''custom_oauth_providers'')) (js ''status.custom_oauth_providers'')) (\<lambda>raw.
     bindE (mapE (\<lambda>_. customProvider) raw) (\<lambda>custom.
     Inr (github @ discord @ oidc @ linuxdo @ custom)))))))"

record AuthCapabilities =
  cap_emailVerificationEnabled :: bool
  cap_evmWalletEnabled :: bool
  cap_evmWalletRegistrationEnabled :: bool
  cap_oauthProviders :: "OAuthProvider list"
  cap_passkeyEnabled :: bool
  cap_passwordEnabled :: bool
  cap_registrationEnabled :: bool
  cap_turnstileEnabled :: bool
  cap_turnstileSiteKey :: jsstring

definition andE :: "bool live \<Rightarrow> bool live \<Rightarrow> bool live" where
  "andE a b = bindE a (\<lambda>x. if x then b else Inr False)"

definition getAuthCapabilities :: "network \<Rightarrow> LiveState \<Rightarrow> AuthCapabilities live" where
  "getAuthCapabilities net st =
     bindE (fetched net st (public (call GET ''/api/status'' JUndef))) (\<lambda>data.
     let status = asRecord data; turnstileSiteKey = readString status ''turnstile_site_key'' [];
         register = requireBoolean status ''register_enabled'' (js ''status.register_enabled'');
         wallet = (readOptionalBoolean status ''evm_wallet_auth_enabled'' = Some True) in
     bindE (requireBoolean status ''turnstile_check'' (js ''status.turnstile_check'')) (\<lambda>turnstile.
     bindE (guardE (\<not> (turnstile \<and> turnstileSiteKey = [])) (js ''status.turnstile_site_key'')) (\<lambda>_.
     bindE (requireBoolean status ''email_verification'' (js ''status.email_verification'')) (\<lambda>email.
     bindE (andE (Inr wallet) register) (\<lambda>walletRegistration.
     bindE (mapOAuthProviders status) (\<lambda>providers.
     bindE (requireBoolean status ''passkey_login'' (js ''status.passkey_login'')) (\<lambda>passkey.
     bindE (requireBoolean status ''password_login_enabled'' (js ''status.password_login_enabled'')) (\<lambda>password.
     bindE (andE register (requireBoolean status ''password_register_enabled'' (js ''status.password_register_enabled''))) (\<lambda>registration.
     Inr \<lparr>cap_emailVerificationEnabled = email, cap_evmWalletEnabled = wallet, cap_evmWalletRegistrationEnabled = walletRegistration,
       cap_oauthProviders = providers, cap_passkeyEnabled = passkey, cap_passwordEnabled = password,
       cap_registrationEnabled = registration, cap_turnstileEnabled = turnstile, cap_turnstileSiteKey = turnstileSiteKey\<rparr>)))))))))"

end
