(* ===== verification/LiveAuth.thy ===== *)
theory LiveAuth
  imports LiveSession
begin

text \<open>
  Signing in and the security of the account in the console's live data layer: \<open>live-auth-repository.ts\<close> and the
  operations of \<open>live-repository.ts\<close> (both under \<open>src/frontend/apps/console/src/data\<close>) that rotate the session.  The
  authenticator maps the options that the server sends to a credential in the form that is sent back, to nothing when
  the user cancels, or to an error.
\<close>

type_synonym authenticator = "jsval \<Rightarrow> jsval option live"

text \<open>An answer that contains a session bundle.\<close>

definition signedIn ::
  "(jsstring \<Rightarrow> int option) \<Rightarrow> network \<Rightarrow> RequestOptions \<Rightarrow> LiveState \<Rightarrow> LiveState \<times> LiveConsoleSession live" where
  "signedIn dateParse net rq st = storeSession (bindE (fetched net st rq) (bundleSession dateParse)) st"

section \<open>Signing in\<close>

record OAuthLoginFlow =
  flow_token :: jsstring
  redirect_uri :: jsstring

definition createOAuthLoginFlow :: "network \<Rightarrow> jsstring \<Rightarrow> LiveState \<Rightarrow> OAuthLoginFlow live" where
  "createOAuthLoginFlow net provider st =
     bindE (fetched net st (public (call POST ''/api/oauth/state''
       (JObj [(js ''provider'', JStr provider), (js ''intent'', JStr (js ''login'')), (js ''client'', JStr (js ''console_v2''))])))) (\<lambda>data.
     case (readText (asRecord data) ''flow_token'', readText (asRecord data) ''redirect_uri'') of
       (Some t, Some u) \<Rightarrow> Inr \<lparr>flow_token = t, redirect_uri = u\<rparr>
     | _ \<Rightarrow> Inl (PlainError (js ''The server did not return a valid OAuth flow.'')))"

record OAuthCallbackInput =
  oauth_provider :: "jsstring option"
  oauth_state :: jsstring
  oauth_code :: "jsstring option"
  oauth_error :: "jsstring option"
  oauth_errorDescription :: "jsstring option"

definition completeOAuthLogin ::
  "(jsstring \<Rightarrow> int option) \<Rightarrow> (jsstring \<Rightarrow> jsstring) \<Rightarrow> network \<Rightarrow> OAuthCallbackInput \<Rightarrow> LiveState \<Rightarrow>
   LiveState \<times> LiveConsoleSession live" where
  "completeOAuthLogin dateParse encode net inp st = (case textOrNone (oauth_provider inp) of
     None \<Rightarrow> (st, Inl (LiveDataContractError (js ''oauth.provider'')))
   | Some p \<Rightarrow> signedIn dateParse net ((public (call GET '''' JUndef))
       \<lparr>path := js ''/api/oauth/'' @ encode p,
        query := (js ''state'', oauth_state inp) # optionalParam ''code'' (oauth_code inp) @ optionalParam ''error'' (oauth_error inp) @
          optionalParam ''error_description'' (oauth_errorDescription inp)\<rparr>) st)"

record RegisterInput =
  reg_affiliateCode :: "jsstring option"
  reg_email :: "jsstring option"
  reg_password :: jsstring
  reg_turnstileToken :: "jsstring option"
  reg_username :: jsstring
  reg_verificationCode :: "jsstring option"

definition discarded :: "jsval live \<Rightarrow> unit live" where
  "discarded r = bindE r (\<lambda>_. Inr ())"

definition registerAccount :: "network \<Rightarrow> RegisterInput \<Rightarrow> LiveState \<Rightarrow> unit live" where
  "registerAccount net inp st = discarded (fetched net st ((public (call POST ''/api/user/register''
     (JObj [(js ''username'', JStr (reg_username inp)), (js ''password'', JStr (reg_password inp)), (js ''email'', optionalValue (reg_email inp)),
        (js ''verification_code'', optionalValue (reg_verificationCode inp)), (js ''aff_code'', optionalValue (reg_affiliateCode inp))])))
     \<lparr>query := optionalParam ''turnstile'' (reg_turnstileToken inp)\<rparr>))"

definition sendEmailVerification :: "network \<Rightarrow> jsstring \<Rightarrow> jsstring option \<Rightarrow> LiveState \<Rightarrow> unit live" where
  "sendEmailVerification net address turnstile st = discarded (fetched net st ((public (call GET ''/api/verification'' JUndef))
     \<lparr>query := (js ''email'', address) # optionalParam ''turnstile'' turnstile\<rparr>))"

definition requestPasswordReset :: "network \<Rightarrow> jsstring \<Rightarrow> jsstring option \<Rightarrow> LiveState \<Rightarrow> unit live" where
  "requestPasswordReset net address turnstile st = discarded (fetched net st ((public (call GET ''/api/reset_password'' JUndef))
     \<lparr>query := (js ''email'', address) # (js ''redirect_path'', js ''/console/user/reset'') # optionalParam ''turnstile'' turnstile\<rparr>))"

definition confirmPasswordReset :: "network \<Rightarrow> jsstring \<Rightarrow> jsstring \<Rightarrow> LiveState \<Rightarrow> jsstring live" where
  "confirmPasswordReset net address token st =
     bindE (fetched net st (public (call POST ''/api/user/reset'' (JObj [(js ''email'', JStr address), (js ''token'', JStr token)])))) (\<lambda>data.
     case data of
       JStr s \<Rightarrow> if s = [] then Inl (PlainError (js ''The server did not return a new password.'')) else Inr s
     | _ \<Rightarrow> Inl (PlainError (js ''The server did not return a new password.'')))"

datatype SignInResult = NeedsTwoFactor jsstring rat | Authenticated LiveConsoleSession

definition signInResult :: "LiveConsoleSession live \<Rightarrow> SignInResult live" where
  "signInResult r = bindE r (\<lambda>s. Inr (Authenticated s))"

definition twoFactorResult :: "jsval \<Rightarrow> SignInResult live" where
  "twoFactorResult payload = (case readText payload ''flow_token'' of
     None \<Rightarrow> Inl (PlainError (js ''The two-factor login flow is invalid.''))
   | Some t \<Rightarrow> bindE (requireNumber payload ''expires_at'' (js ''two_factor.expires_at'')) (\<lambda>q. Inr (NeedsTwoFactor t q)))"

definition signInRequest :: "jsstring \<Rightarrow> jsstring \<Rightarrow> jsstring option \<Rightarrow> RequestOptions" where
  "signInRequest name password turnstile = (public (call POST ''/api/user/login'' (JObj [(js ''username'', JStr name), (js ''password'', JStr password)])))
     \<lparr>headers := optionalHeader ''X-Turnstile-Token'' turnstile\<rparr>"

definition liveSignIn ::
  "(jsstring \<Rightarrow> int option) \<Rightarrow> network \<Rightarrow> jsstring \<Rightarrow> jsstring \<Rightarrow> jsstring option \<Rightarrow> LiveState \<Rightarrow> LiveState \<times> SignInResult live" where
  "liveSignIn dateParse net name password turnstile st = (case fetched net st (signInRequest name password turnstile) of
     Inl e \<Rightarrow> (st, Inl e)
   | Inr data \<Rightarrow>
       (case get_prop (asRecord data) (js ''require_2fa'') of
          JBool True \<Rightarrow> (st, twoFactorResult (asRecord data))
        | v \<Rightarrow>
            (if v = JUndef \<or> v = JBool False
             then (let (st', r) = storeSession (bundleSession dateParse data) st in (st', signInResult r))
             else (st, Inl (LiveDataContractError (js ''login.require_2fa''))))))"

definition liveVerifyTwoFactorLogin ::
  "(jsstring \<Rightarrow> int option) \<Rightarrow> network \<Rightarrow> jsstring \<Rightarrow> jsstring \<Rightarrow> LiveState \<Rightarrow> LiveState \<times> LiveConsoleSession live" where
  "liveVerifyTwoFactorLogin dateParse net code flowToken st =
     signedIn dateParse net (public (call POST ''/api/user/login/2fa'' (JObj [(js ''code'', JStr code), (js ''flow_token'', JStr flowToken)]))) st"

text \<open>Nothing is given when the user cancels the authenticator.\<close>

definition liveSignInWithPasskey ::
  "(jsstring \<Rightarrow> int option) \<Rightarrow> network \<Rightarrow> authenticator option \<Rightarrow> LiveState \<Rightarrow> LiveState \<times> LiveConsoleSession option live" where
  "liveSignInWithPasskey dateParse net auth st = (case auth of
     None \<Rightarrow> (st, Inl (PlainError (js ''Passkey is not available in this browser.'')))
   | Some authenticate \<Rightarrow>
       (case fetched net st (public (call POST ''/api/user/passkey/login/begin'' JUndef)) of
          Inl e \<Rightarrow> (st, Inl e)
        | Inr begin' \<Rightarrow>
            (let beginData = asRecord begin'; opts = get_prop beginData (js ''options'') in
             case readText beginData ''flow_token'' of
               None \<Rightarrow> (st, Inl (PlainError (js ''The Passkey login flow is invalid.'')))
             | Some t \<Rightarrow>
                 (case authenticate (if opts = JNull \<or> opts = JUndef then begin' else opts) of
                    Inl e \<Rightarrow> (st, Inl e)
                  | Inr None \<Rightarrow> (st, Inr None)
                  | Inr (Some credential) \<Rightarrow>
                      (let (st', r) = signedIn dateParse net (public (call POST ''/api/user/passkey/login/finish''
                         (JObj [(js ''flow_token'', JStr t), (js ''credential'', credential)]))) st in
                       (st', bindE r (\<lambda>s. Inr (Some s))))))))"

record EVMWalletAuthBeginInput =
  evm_address :: jsstring
  evm_affiliateCode :: "jsstring option"
  evm_chainId :: rat
  evm_intent :: jsstring
  evm_turnstileToken :: "jsstring option"

definition beginEVMWalletAuth :: "LiveEnv \<Rightarrow> network \<Rightarrow> EVMWalletAuthBeginInput \<Rightarrow> LiveState \<Rightarrow> EVMWalletAuthChallenge live" where
  "beginEVMWalletAuth env net inp st =
     bindE (fetched net st ((public (call POST '''' (JObj [(js ''address'', JStr (evm_address inp)),
        (js ''chain_id'', JStr (numText env (evm_chainId inp))), (js ''affiliate_code'', optionalValue (evm_affiliateCode inp))])))
        \<lparr>path := js ''/api/user/evm-wallet/'' @ evm_intent inp @ js ''/begin'', headers := optionalHeader ''X-Turnstile-Token'' (evm_turnstileToken inp)\<rparr>))
       mapLiveEVMWalletChallenge"

definition liveCompleteEVMWalletAuth ::
  "(jsstring \<Rightarrow> int option) \<Rightarrow> network \<Rightarrow> jsstring \<Rightarrow> jsstring \<Rightarrow> LiveState \<Rightarrow> LiveState \<times> LiveConsoleSession live" where
  "liveCompleteEVMWalletAuth dateParse net flowToken signature st =
     signedIn dateParse net (public (call POST ''/api/user/evm-wallet/login/finish''
       (JObj [(js ''flow_token'', JStr flowToken), (js ''signature'', JStr signature)]))) st"

section \<open>The account\<close>

record LiveSecurity =
  sec_backupCodesRemaining :: "rat option"
  sec_passkeyEnabled :: bool
  sec_passkeyLastUsedAt :: "rat option"
  sec_twoFactorEnabled :: bool
  sec_twoFactorLocked :: bool
  sec_emailBound :: bool
  sec_evmWalletAddress :: "jsstring option"
  sec_evmWalletEnabled :: bool
  sec_evmWalletLastUsedAt :: "rat option"
  sec_evmWalletRemovable :: bool
  sec_evmWalletVerificationMethod :: "jsstring option"

record LiveAccount =
  acc_user :: LiveUser
  acc_preferences :: LivePreferences
  acc_security :: LiveSecurity
  acc_sessions :: "LiveLoginSession list"

definition getQuotaPerUnit :: "network \<Rightarrow> LiveState \<Rightarrow> rat live" where
  "getQuotaPerUnit net st =
     bindE (fetched net st (public (call GET ''/api/status'' JUndef))) (\<lambda>data.
     bindE (requireNumber (asRecord data) ''quota_per_unit'' (js ''status.quota_per_unit'')) (\<lambda>q.
     if q \<le> 0 then Inl (LiveDataContractError (js ''status.quota_per_unit'')) else Inr q))"

definition getAccountPreferences :: "LiveEnv \<Rightarrow> network \<Rightarrow> LiveState \<Rightarrow> LivePreferences live" where
  "getAccountPreferences env net st =
     bindE (fetched net st (call GET ''/api/user/setting'' JUndef)) (\<lambda>data.
     bindE (getQuotaPerUnit net st) (\<lambda>q. mapAccountPreferences env data (Num q)))"

definition mapSecurity :: "(jsstring \<Rightarrow> int option) \<Rightarrow> LiveUser \<Rightarrow> jsval \<Rightarrow> jsval \<Rightarrow> jsval \<Rightarrow> LiveSecurity live" where
  "mapSecurity dateParse user passkey twoFactor evmWallet =
     (let method = readString evmWallet ''verification_method'' [] in
      bindE (guardE (method = [] \<or> method = js ''2fa'' \<or> method = js ''passkey'' \<or> method = js ''password'')
        (js ''evm_wallet.verification_method'')) (\<lambda>_.
      bindE (requireBoolean passkey ''enabled'' (js ''passkey.enabled'')) (\<lambda>pk.
      bindE (requireBoolean twoFactor ''enabled'' (js ''two_factor.enabled'')) (\<lambda>tf.
      bindE (requireBoolean twoFactor ''locked'' (js ''two_factor.locked'')) (\<lambda>locked.
      bindE (requireBoolean evmWallet ''enabled'' (js ''evm_wallet.enabled'')) (\<lambda>evm.
      Inr \<lparr>sec_backupCodesRemaining = (case readNumber twoFactor ''backup_codes_remaining'' (Num (- 1)) of
          Num q \<Rightarrow> if q \<ge> 0 then Some q else None | _ \<Rightarrow> None),
        sec_passkeyEnabled = pk, sec_passkeyLastUsedAt = readUnixTime dateParse passkey ''last_used_at'', sec_twoFactorEnabled = tf,
        sec_twoFactorLocked = locked, sec_emailBound = (usr_email user \<noteq> []), sec_evmWalletAddress = readText evmWallet ''address'',
        sec_evmWalletEnabled = evm, sec_evmWalletLastUsedAt = readUnixTime dateParse evmWallet ''last_used_at'',
        sec_evmWalletRemovable = (readOptionalBoolean evmWallet ''removable'' = Some True),
        sec_evmWalletVerificationMethod = textOrNone (Some method)\<rparr>))))))"

definition getAccountData :: "LiveEnv \<Rightarrow> (jsstring \<Rightarrow> int option) \<Rightarrow> network \<Rightarrow> LiveState \<Rightarrow> LiveAccount live" where
  "getAccountData env dateParse net st =
     bindE (fetched net st (call GET ''/api/user/self'' JUndef)) (\<lambda>rawUser.
     bindE (getAccountPreferences env net st) (\<lambda>preferences.
     bindE (fetched net st (call GET ''/api/user/sessions'' JUndef)) (\<lambda>rawSessions.
     bindE (fetched net st (call GET ''/api/user/passkey'' JUndef)) (\<lambda>passkey.
     bindE (fetched net st (call GET ''/api/user/2fa/status'' JUndef)) (\<lambda>twoFactor.
     bindE (fetched net st (call GET ''/api/user/evm-wallet'' JUndef)) (\<lambda>evmWallet.
     bindE (mapLiveUser dateParse (asRecord rawUser)) (\<lambda>user.
     bindE (mapSecurity dateParse user (asRecord passkey) (asRecord twoFactor) (asRecord evmWallet)) (\<lambda>security.
     bindE (requireItems rawSessions (js ''login_sessions'')) (\<lambda>raw.
     bindE (mapE (\<lambda>_. mapLoginSession) raw) (\<lambda>sessions.
     Inr \<lparr>acc_user = user, acc_preferences = preferences, acc_security = security, acc_sessions = sessions\<rparr>))))))))))"

section \<open>Rotation of the session\<close>

definition rotatedSession :: "jsval \<Rightarrow> LiveState \<Rightarrow> LiveConsoleSession live" where
  "rotatedSession v st = (case currentSession st of
     None \<Rightarrow> Inl (PlainError (js ''The current session is unavailable.''))
   | Some s \<Rightarrow>
       (let rotation = asRecord v; session = asRecord (get_prop rotation (js ''session'')) in
        case readText rotation ''access_token'' of
          None \<Rightarrow> Inl (PlainError (js ''The server did not return a rotated access token.''))
        | Some token \<Rightarrow>
            bindE (requireNumber rotation ''access_expires_at'' (js ''session.access_expires_at'')) (\<lambda>expires.
            Inr (s\<lparr>ses_accessToken := Some token, ses_accessExpiresAt := Some expires,
              ses_sessionId := (case get_prop session (js ''sid'') of JStr sid \<Rightarrow> Some sid
                | _ \<Rightarrow> Some (case ses_sessionId s of Some sid \<Rightarrow> sid | None \<Rightarrow> []))\<rparr>))))"

definition liveAuthRotation :: "jsval \<Rightarrow> LiveState \<Rightarrow> LiveState \<times> LiveConsoleSession live" where
  "liveAuthRotation v st = storeSession (rotatedSession v st) st"

definition securityResult ::
  "LiveEnv \<Rightarrow> (jsstring \<Rightarrow> int option) \<Rightarrow> network \<Rightarrow> jsval \<Rightarrow> LiveState \<Rightarrow> LiveState \<times> (LiveAccount \<times> LiveConsoleSession) live" where
  "securityResult env dateParse net v st =
     (case liveAuthRotation v st of
        (st', Inl e) \<Rightarrow> (st', Inl e)
      | (st', Inr s) \<Rightarrow> (st', bindE (getAccountData env dateParse net st') (\<lambda>a. Inr (a, s))))"

text \<open>A change of the account: the request, then the rotation that its answer carries.\<close>

definition securityChange ::
  "LiveEnv \<Rightarrow> (jsstring \<Rightarrow> int option) \<Rightarrow> network \<Rightarrow> RequestOptions \<Rightarrow> LiveState \<Rightarrow> LiveState \<times> (LiveAccount \<times> LiveConsoleSession) live" where
  "securityChange env dateParse net rq st = (case fetched net st rq of
     Inl e \<Rightarrow> (st, Inl e) | Inr data \<Rightarrow> securityResult env dateParse net data st)"

definition liveChangePassword ::
  "LiveEnv \<Rightarrow> (jsstring \<Rightarrow> int option) \<Rightarrow> network \<Rightarrow> jsstring \<Rightarrow> jsstring \<Rightarrow> LiveState \<Rightarrow> LiveState \<times> (LiveAccount \<times> LiveConsoleSession) live" where
  "liveChangePassword env dateParse net old new st =
     securityChange env dateParse net (call PUT ''/api/user/self'' (JObj [(js ''original_password'', JStr old), (js ''password'', JStr new)])) st"

definition codeBody :: "jsstring \<Rightarrow> jsval" where
  "codeBody code = JObj [(js ''code'', JStr (trim code))]"

definition liveEnableTwoFactor ::
  "LiveEnv \<Rightarrow> (jsstring \<Rightarrow> int option) \<Rightarrow> network \<Rightarrow> jsstring \<Rightarrow> LiveState \<Rightarrow> LiveState \<times> (LiveAccount \<times> LiveConsoleSession) live" where
  "liveEnableTwoFactor env dateParse net code st =
     securityChange env dateParse net (call POST ''/api/user/2fa/enable'' (codeBody code)) st"

definition liveDisableTwoFactor ::
  "LiveEnv \<Rightarrow> (jsstring \<Rightarrow> int option) \<Rightarrow> network \<Rightarrow> jsstring \<Rightarrow> LiveState \<Rightarrow> LiveState \<times> (LiveAccount \<times> LiveConsoleSession) live" where
  "liveDisableTwoFactor env dateParse net code st =
     securityChange env dateParse net (call POST ''/api/user/2fa/disable'' (codeBody code)) st"

definition backupCodes :: "jsval \<Rightarrow> jsstring list live" where
  "backupCodes v =
     bindE (requireItems v (js ''two_factor.backup_codes'')) (\<lambda>raw.
     if list_all (\<lambda>x. isString x \<and> x \<noteq> JStr []) raw then Inr (map the_str raw)
     else Inl (LiveDataContractError (js ''two_factor.backup_codes'')))"

definition liveRegenerateTwoFactorBackupCodes ::
  "LiveEnv \<Rightarrow> (jsstring \<Rightarrow> int option) \<Rightarrow> network \<Rightarrow> jsstring \<Rightarrow> LiveState \<Rightarrow>
   LiveState \<times> ((LiveAccount \<times> LiveConsoleSession) \<times> jsstring list) live" where
  "liveRegenerateTwoFactorBackupCodes env dateParse net code st =
     (case fetched net st (call POST ''/api/user/2fa/backup_codes'' (codeBody code)) of
        Inl e \<Rightarrow> (st, Inl e)
      | Inr data \<Rightarrow>
          (let (st', r) = securityResult env dateParse net (asRecord data) st in
           (st', bindE r (\<lambda>a. bindE (backupCodes (get_prop (asRecord data) (js ''backup_codes''))) (\<lambda>cs. Inr (a, cs))))))"

record TwoFactorSetup =
  setup_backupCodes :: "jsstring list"
  setup_qrCodeData :: jsstring
  setup_secret :: jsstring

definition setupTwoFactor :: "network \<Rightarrow> LiveState \<Rightarrow> TwoFactorSetup live" where
  "setupTwoFactor net st =
     bindE (fetched net st (call POST ''/api/user/2fa/setup'' JUndef)) (\<lambda>data.
     let setup = asRecord data in
     bindE (backupCodes (get_prop setup (js ''backup_codes''))) (\<lambda>codes.
     bindE (requireString setup ''qr_code_data'' (js ''two_factor.qr_code_data'')) (\<lambda>qr.
     bindE (requireString setup ''secret'' (js ''two_factor.secret'')) (\<lambda>secret.
     Inr \<lparr>setup_backupCodes = codes, setup_qrCodeData = qr, setup_secret = secret\<rparr>))))"

section \<open>Proofs of presence\<close>

definition proofToken :: "jsval \<Rightarrow> jsstring live" where
  "proofToken data = (case readText (asRecord data) ''proof_token'' of
     Some t \<Rightarrow> Inr t | None \<Rightarrow> Inl (PlainError (js ''The server did not return a security proof.'')))"

definition createTwoFactorProof :: "network \<Rightarrow> jsstring \<Rightarrow> jsstring \<Rightarrow> LiveState \<Rightarrow> jsstring live" where
  "createTwoFactorProof net scope code st =
     bindE (fetched net st (call POST ''/api/verify''
       (JObj [(js ''method'', JStr (js ''2fa'')), (js ''scope'', JStr scope), (js ''code'', JStr (trim code))]))) proofToken"

definition securityProofHeaders :: "jsstring option \<Rightarrow> (jsstring \<times> jsstring) list" where
  "securityProofHeaders proof' = optionalHeader ''X-Security-Proof'' proof'"

definition ceremony :: "authenticator option \<Rightarrow> network \<Rightarrow> RequestOptions \<Rightarrow> string \<Rightarrow> string \<Rightarrow> LiveState \<Rightarrow> (jsstring \<times> jsval) live" where
  "ceremony auth net rq expired cancelled st = (case auth of
     None \<Rightarrow> Inl (PlainError (js ''Passkey is not supported in this browser.''))
   | Some authenticate \<Rightarrow>
       bindE (fetched net st rq) (\<lambda>begin'.
       let payload = asRecord begin' in
       case readText payload ''flow_token'' of
         None \<Rightarrow> Inl (PlainError (js expired))
       | Some t \<Rightarrow>
           bindE (authenticate (get_prop payload (js ''options''))) (\<lambda>c. case c of
             None \<Rightarrow> Inl (PlainError (js cancelled)) | Some credential \<Rightarrow> Inr (t, credential))))"

definition credentialBody :: "jsstring \<times> jsval \<Rightarrow> jsval" where
  "credentialBody tc = JObj [(js ''flow_token'', JStr (fst tc)), (js ''credential'', snd tc)]"

definition createPasskeyProof :: "authenticator option \<Rightarrow> network \<Rightarrow> jsstring \<Rightarrow> LiveState \<Rightarrow> jsstring live" where
  "createPasskeyProof auth net scope st =
     bindE (ceremony auth net (call POST ''/api/user/passkey/verify/begin'' (JObj [(js ''scope'', JStr scope)]))
       ''The Passkey verification flow expired.'' ''Passkey verification was cancelled.'' st) (\<lambda>tc.
     bindE (fetched net st (call POST ''/api/user/passkey/verify/finish'' (credentialBody tc))) proofToken)"

definition finishPasskey ::
  "LiveEnv \<Rightarrow> (jsstring \<Rightarrow> int option) \<Rightarrow> authenticator option \<Rightarrow> network \<Rightarrow> jsstring option \<Rightarrow> LiveState \<Rightarrow>
   LiveState \<times> (LiveAccount \<times> LiveConsoleSession) live" where
  "finishPasskey env dateParse auth net proof' st =
     (let hs = securityProofHeaders proof' in
      case ceremony auth net ((call POST ''/api/user/passkey/register/begin'' JUndef)\<lparr>headers := hs\<rparr>)
          ''The Passkey registration flow expired.'' ''Passkey registration was cancelled.'' st of
        Inl e \<Rightarrow> (st, Inl e)
      | Inr tc \<Rightarrow> securityChange env dateParse net ((call POST ''/api/user/passkey/register/finish'' (credentialBody tc))\<lparr>headers := hs\<rparr>) st)"

definition liveRegisterPasskey ::
  "LiveEnv \<Rightarrow> (jsstring \<Rightarrow> int option) \<Rightarrow> authenticator option \<Rightarrow> network \<Rightarrow> jsstring option \<Rightarrow> LiveState \<Rightarrow>
   LiveState \<times> (LiveAccount \<times> LiveConsoleSession) live" where
  "liveRegisterPasskey env dateParse auth net code st = (case textOrNone code of
     None \<Rightarrow> finishPasskey env dateParse auth net None st
   | Some c \<Rightarrow>
       (case createTwoFactorProof net (js ''passkey.register'') c st of
          Inl e \<Rightarrow> (st, Inl e) | Inr p \<Rightarrow> finishPasskey env dateParse auth net (Some p) st))"

definition liveRemovePasskey ::
  "LiveEnv \<Rightarrow> (jsstring \<Rightarrow> int option) \<Rightarrow> authenticator option \<Rightarrow> network \<Rightarrow> jsstring option \<Rightarrow> LiveState \<Rightarrow>
   LiveState \<times> (LiveAccount \<times> LiveConsoleSession) live" where
  "liveRemovePasskey env dateParse auth net code st =
     (case (case textOrNone code of
              Some c \<Rightarrow> createTwoFactorProof net (js ''passkey.delete'') c st
            | None \<Rightarrow> createPasskeyProof auth net (js ''passkey.delete'') st) of
        Inl e \<Rightarrow> (st, Inl e)
      | Inr p \<Rightarrow> securityChange env dateParse net ((call DELETE ''/api/user/passkey'' JUndef)\<lparr>headers := securityProofHeaders (Some p)\<rparr>) st)"

definition createEVMWalletSecurityProof ::
  "authenticator option \<Rightarrow> network \<Rightarrow> jsstring \<Rightarrow> jsstring \<Rightarrow> jsstring option \<Rightarrow> LiveState \<Rightarrow> jsstring live" where
  "createEVMWalletSecurityProof auth net method scope code st =
     (if method = js ''passkey'' then createPasskeyProof auth net scope st
      else (case code of
          None \<Rightarrow> Inl (PlainError (js ''Security verification is required.''))
        | Some c \<Rightarrow>
            (if trim c = [] then Inl (PlainError (js ''Security verification is required.''))
             else bindE (fetched net st (call POST ''/api/verify''
               (JObj [(js ''method'', JStr method), (js ''scope'', JStr scope), (js ''code'', JStr (trim c))]))) proofToken)))"

definition walletBody :: "LiveEnv \<Rightarrow> jsstring \<Rightarrow> rat \<Rightarrow> jsval" where
  "walletBody env address chain = JObj [(js ''address'', JStr address), (js ''chain_id'', JStr (numText env chain))]"

definition beginEVMWalletBinding ::
  "LiveEnv \<Rightarrow> network \<Rightarrow> jsstring option \<Rightarrow> jsstring \<Rightarrow> rat \<Rightarrow> LiveState \<Rightarrow> EVMWalletAuthChallenge live" where
  "beginEVMWalletBinding env net proof' address chain st =
     bindE (fetched net st ((call POST ''/api/user/evm-wallet/bind/begin'' (walletBody env address chain))\<lparr>headers := securityProofHeaders proof'\<rparr>))
       mapLiveEVMWalletChallenge"

definition signatureBody :: "jsstring \<Rightarrow> jsstring \<Rightarrow> (jsstring \<times> jsval) list" where
  "signatureBody flowToken signature = [(js ''flow_token'', JStr flowToken), (js ''signature'', JStr signature)]"

definition liveCompleteEVMWalletBinding ::
  "LiveEnv \<Rightarrow> (jsstring \<Rightarrow> int option) \<Rightarrow> network \<Rightarrow> jsstring option \<Rightarrow> jsstring \<Rightarrow> jsstring \<Rightarrow> LiveState \<Rightarrow> LiveState \<times> (LiveAccount \<times> LiveConsoleSession) live" where
  "liveCompleteEVMWalletBinding env dateParse net proof' flowToken signature st =
     securityChange env dateParse net ((call POST ''/api/user/evm-wallet/bind/finish'' (JObj (signatureBody flowToken signature)))\<lparr>headers := securityProofHeaders proof'\<rparr>) st"

definition liveRemoveEVMWallet ::
  "LiveEnv \<Rightarrow> (jsstring \<Rightarrow> int option) \<Rightarrow> network \<Rightarrow> jsstring option \<Rightarrow> LiveState \<Rightarrow> LiveState \<times> (LiveAccount \<times> LiveConsoleSession) live" where
  "liveRemoveEVMWallet env dateParse net proof' st =
     securityChange env dateParse net ((call DELETE ''/api/user/evm-wallet'' JUndef)\<lparr>headers := securityProofHeaders proof'\<rparr>) st"

definition beginEVMWalletPasswordSetup :: "LiveEnv \<Rightarrow> network \<Rightarrow> jsstring \<Rightarrow> rat \<Rightarrow> LiveState \<Rightarrow> EVMWalletAuthChallenge live" where
  "beginEVMWalletPasswordSetup env net address chain st =
     bindE (fetched net st (call POST ''/api/user/evm-wallet/password/begin'' (walletBody env address chain))) mapLiveEVMWalletChallenge"

definition liveCompleteEVMWalletPasswordSetup ::
  "LiveEnv \<Rightarrow> (jsstring \<Rightarrow> int option) \<Rightarrow> network \<Rightarrow> jsstring \<Rightarrow> jsstring \<Rightarrow> jsstring \<Rightarrow> LiveState \<Rightarrow> LiveState \<times> (LiveAccount \<times> LiveConsoleSession) live" where
  "liveCompleteEVMWalletPasswordSetup env dateParse net flowToken signature password st =
     securityChange env dateParse net (call POST ''/api/user/evm-wallet/password/finish'' (JObj (signatureBody flowToken signature @ [(js ''password'', JStr password)]))) st"

end
