(* ===== verification/LiveRepository.thy ===== *)
theory LiveRepository
  imports LiveAnalytics LiveRecharge LiveRequestLog LiveAuth
begin

text \<open>
  The operations of the console's live repository, \<open>src/frontend/apps/console/src/data/live-repository.ts\<close>: the
  requests with their parameters and bodies, and what is made of the answers.  The conditions of lists are those of the
  demonstration repository.
\<close>

section \<open>Parameters of a list\<close>

definition searchSet :: "string \<Rightarrow> jsstring \<Rightarrow> (jsstring \<times> jsstring) list \<Rightarrow> (jsstring \<times> jsstring) list" where
  "searchSet k v search = AList.update (js k) v search"

definition orderText :: "SortOrder \<Rightarrow> jsstring" where
  "orderText d = (case d of Asc \<Rightarrow> js ''asc'' | Desc \<Rightarrow> js ''desc'')"

definition appendPagination :: "'a PaginationInput_scheme \<Rightarrow> (jsstring \<times> jsstring) list \<Rightarrow> (jsstring \<times> jsstring) list" where
  "appendPagination inp search =
     searchSet ''order'' (orderText (order inp)) (searchSet ''page_size'' (int_str (pageSize inp)) (searchSet ''p'' (int_str (page inp)) search))"

text \<open>A range that cannot be resolved is sent as the text of \<open>NaN\<close>.\<close>

definition rangeParams :: "Intl \<Rightarrow> string \<Rightarrow> string \<Rightarrow> DateRangeValue \<Rightarrow> (jsstring \<times> jsstring) list" where
  "rangeParams intl since until r = (case dateRangeToUnix intl r of
     Some (s, e) \<Rightarrow> [(js since, int_str s), (js until, int_str e)]
   | None \<Rightarrow> [(js since, js ''NaN''), (js until, js ''NaN'')])"

definition logTypeText :: "rat \<Rightarrow> jsstring" where
  "logTypeText t = int_str \<lfloor>t\<rfloor>"

definition chosenType :: "('a \<Rightarrow> rat) \<Rightarrow> 'a choice \<Rightarrow> (jsstring \<times> jsstring) list \<Rightarrow> (jsstring \<times> jsstring) list" where
  "chosenType code c search = (case c of All \<Rightarrow> search | Only x \<Rightarrow> searchSet ''type'' (logTypeText (code x)) search)"

definition listed :: "string \<Rightarrow> (jsstring \<times> jsstring) list \<Rightarrow> RequestOptions" where
  "listed p search = (call GET p JUndef)\<lparr>query := search\<rparr>"

text \<open>A page that is read in full: the decoder sees every entry.\<close>

definition pageNumbers :: "jsval \<Rightarrow> 'a list \<Rightarrow> 'a LivePage live" where
  "pageNumbers data xs =
     (let pg = asRecord data in
      bindE (requireNumber pg ''page'' (js ''pagination.page'')) (\<lambda>p.
      bindE (requireNumber pg ''page_size'' (js ''pagination.page_size'')) (\<lambda>n.
      bindE (requireNumber pg ''total'' (js ''pagination.total'')) (\<lambda>t.
      Inr \<lparr>page_items = xs, page_number = p, page_size = n, page_total = t\<rparr>))))"

section \<open>API keys\<close>

definition statusCode :: "ApiKeyStatus \<Rightarrow> jsstring" where
  "statusCode s = (case s of Active \<Rightarrow> js ''1'' | Disabled \<Rightarrow> js ''2'' | Expired \<Rightarrow> js ''3'' | Exhausted \<Rightarrow> js ''4''
     | UnknownStatus \<Rightarrow> js ''undefined'')"

definition apiKeysRequest :: "ApiKeyListInput \<Rightarrow> RequestOptions" where
  "apiKeysRequest inp =
     (let keyword = trim (key_keyword inp); paged = appendPagination inp [];
          worded = (if keyword \<noteq> [] then searchSet ''keyword'' (toSearchPattern keyword) paged else paged);
          search = (case key_filter inp of All \<Rightarrow> worded | Only s \<Rightarrow> searchSet ''status'' (statusCode s) worded) in
      listed (if keyword \<noteq> [] then ''/api/token/search'' else ''/api/token/'') search)"

definition liveApiKeysPage :: "network \<Rightarrow> ApiKeyListInput \<Rightarrow> LiveState \<Rightarrow> LiveApiKey LivePage live" where
  "liveApiKeysPage net inp st =
     bindE (fetched net st (apiKeysRequest inp)) (\<lambda>data.
     bindE (getQuotaPerUnit net st) (\<lambda>q. mapPaginatedResult data (\<lambda>v. mapApiKey v (Num q))))"

definition liveListApiKeys :: "network \<Rightarrow> LiveState \<Rightarrow> LiveApiKey list live" where
  "liveListApiKeys net st =
     bindE (liveApiKeysPage net \<lparr>page = 1, pageSize = 100, order = Desc, key_keyword = [], key_filter = All\<rparr> st) (\<lambda>p. Inr (page_items p))"

definition amountUnits :: "bool \<Rightarrow> rat \<Rightarrow> rat \<Rightarrow> string \<Rightarrow> int live" where
  "amountUnits unlimited usd q field = (if unlimited then Inr 0 else usdToQuotaUnits (Num usd) (Num q) (js field))"

definition keyFields :: "('a) CreateApiKeyInput_scheme \<Rightarrow> int \<Rightarrow> (jsstring \<times> jsval) list" where
  "keyFields inp quota =
     [(js ''name'', JStr (new_name inp)), (js ''remain_quota'', JNum (Num (of_int quota))),
      (js ''expired_time'', JNum (Num (of_int (case new_expiresAt inp of Some t \<Rightarrow> t | None \<Rightarrow> - 1)))),
      (js ''unlimited_quota'', JBool (new_unlimitedQuota inp)), (js ''model_limits_enabled'', JBool (new_allowedModels inp \<noteq> [])),
      (js ''model_limits'', JStr (join [44] (new_allowedModels inp))), (js ''allow_ips'', JStr (join [44] (new_allowedIps inp))),
      (js ''group'', JStr (new_group inp)), (js ''auto_groups'', JArr []), (js ''cross_group_retry'', JBool False)]"

record LiveCreatedKey =
  created_record :: LiveApiKey
  created_secret :: jsstring

definition createdSecret :: "jsval \<Rightarrow> jsstring live" where
  "createdSecret data = bindE (requireString (asRecord data) ''key'' (js ''api_key.secret'')) (\<lambda>raw.
     Inr (if raw \<noteq> [] \<and> \<not> startsWith raw (js ''sk-'') then js ''sk-'' @ raw else raw))"

definition liveCreateApiKey :: "network \<Rightarrow> CreateApiKeyInput \<Rightarrow> LiveState \<Rightarrow> LiveCreatedKey live" where
  "liveCreateApiKey net inp st =
     bindE (getQuotaPerUnit net st) (\<lambda>q.
     bindE (amountUnits (new_unlimitedQuota inp) (new_quotaUsd inp) q ''api_key.quota_usd'') (\<lambda>quota.
     bindE (fetched net st (call POST ''/api/token/'' (JObj (keyFields inp quota)))) (\<lambda>data.
     bindE (mapApiKey data (Num q)) (\<lambda>record.
     bindE (createdSecret data) (\<lambda>secret.
     Inr \<lparr>created_record = record, created_secret = secret\<rparr>)))))"

definition liveUpdateApiKey :: "network \<Rightarrow> UpdateApiKeyInput \<Rightarrow> LiveState \<Rightarrow> LiveApiKey live" where
  "liveUpdateApiKey net inp st =
     bindE (getQuotaPerUnit net st) (\<lambda>q.
     bindE (amountUnits (new_unlimitedQuota inp) (new_quotaUsd inp) q ''api_key.remaining_quota_usd'') (\<lambda>quota.
     bindE (fetched net st (call PUT ''/api/token/'' (JObj ((js ''id'', JNum (Num (of_int (upd_id inp)))) # keyFields inp quota)))) (\<lambda>data.
     mapApiKey data (Num q))))"

definition liveSetApiKeyEnabled :: "network \<Rightarrow> int \<Rightarrow> bool \<Rightarrow> LiveState \<Rightarrow> LiveApiKey live" where
  "liveSetApiKeyEnabled net i enabled st =
     bindE (fetched net st ((call PUT ''/api/token/'' (JObj [(js ''id'', JNum (Num (of_int i))), (js ''status'', JNum (Num (if enabled then 1 else 2)))]))
       \<lparr>query := [(js ''status_only'', js ''true'')]\<rparr>)) (\<lambda>data.
     bindE (getQuotaPerUnit net st) (\<lambda>q. mapApiKey data (Num q)))"

definition liveRevokeApiKey :: "network \<Rightarrow> int \<Rightarrow> LiveState \<Rightarrow> unit live" where
  "liveRevokeApiKey net i st = discarded (fetched net st ((call DELETE '''' JUndef)\<lparr>path := js ''/api/token/'' @ int_str i\<rparr>))"

record ApiKeyGroupOption =
  option_value :: jsstring
  option_description :: "jsstring option"
  option_ratio :: "jsval option"

definition keyGroup :: "jsstring \<times> jsval \<Rightarrow> ApiKeyGroupOption live" where
  "keyGroup kv = (case kv of (value, raw) \<Rightarrow>
     if trim value = [] \<or> \<not> isRecord raw
     then Inl (LiveDataContractError (js ''user.groups.'' @ (if value = [] then js ''unknown'' else value)))
     else Inr \<lparr>option_value = value, option_description = readText raw ''desc'',
       option_ratio = (case get_prop raw (js ''ratio'') of JNum n \<Rightarrow> Some (JNum n) | JStr s \<Rightarrow> Some (JStr s) | _ \<Rightarrow> None)\<rparr>)"

text \<open>The comparison of the sort; that of other names in the locale is an argument.\<close>

definition compareGroups :: "(jsstring \<Rightarrow> jsstring \<Rightarrow> int) \<Rightarrow> ApiKeyGroupOption \<Rightarrow> ApiKeyGroupOption \<Rightarrow> int" where
  "compareGroups localeCompare l r =
     (if option_value l = js ''default'' then - 1 else if option_value r = js ''default'' then 1
      else if option_value l = js ''auto'' then - 1 else if option_value r = js ''auto'' then 1
      else localeCompare (option_value l) (option_value r))"

definition listApiKeyGroups :: "(jsstring \<Rightarrow> jsstring \<Rightarrow> int) \<Rightarrow> network \<Rightarrow> LiveState \<Rightarrow> ApiKeyGroupOption list live" where
  "listApiKeyGroups localeCompare net st =
     bindE (fetched net st (call GET ''/api/user/self/groups'' JUndef)) (\<lambda>data.
     bindE (mapE (\<lambda>_. keyGroup) (recordEntries (asRecord data))) (\<lambda>gs. Inr (js_sort (compareGroups localeCompare) gs)))"

section \<open>Logs\<close>

definition requestLogSearchParams :: "Intl \<Rightarrow> RequestLogAnalyticsInput \<Rightarrow> (jsstring \<times> jsstring) list" where
  "requestLogSearchParams intl inp =
     (let base = rangeParams intl ''start_timestamp'' ''end_timestamp'' (log_range inp) @ [(js ''scope'', js ''request'')];
          typed = (case log_filter inp of
              Only Succeeded \<Rightarrow> searchSet ''type'' (logTypeText LOG_TYPE_CONSUME) base
            | Only Failed \<Rightarrow> searchSet ''type'' (logTypeText LOG_TYPE_ERROR) base
            | _ \<Rightarrow> base);
          keyword = trim (log_keyword inp) in
      if keyword = [] then typed
      else (case searchField inp of
          ByRequest \<Rightarrow> searchSet ''request_id'' keyword typed
        | ByServiceTrace \<Rightarrow> searchSet ''upstream_request_id'' keyword typed
        | ByModel \<Rightarrow> searchSet ''model_name'' (toSearchPattern keyword) typed
        | ByApiKey \<Rightarrow> searchSet ''token_name'' keyword typed))"

definition isRequestEntry :: "jsval \<Rightarrow> bool" where
  "isRequestEntry v = (case readNumber (asRecord v) ''type'' NaN of Num t \<Rightarrow> t = LOG_TYPE_CONSUME \<or> t = LOG_TYPE_ERROR | _ \<Rightarrow> False)"

definition liveRequestLogsPage ::
  "LiveEnv \<Rightarrow> Intl \<Rightarrow> network \<Rightarrow> 'a PaginationInput_scheme \<Rightarrow> RequestLogAnalyticsInput \<Rightarrow> LiveState \<Rightarrow> LiveRequestLog LivePage live" where
  "liveRequestLogsPage env intl net paging inp st =
     bindE (fetched net st (listed ''/api/log/self'' (appendPagination paging (requestLogSearchParams intl inp)))) (\<lambda>data.
     bindE (getQuotaPerUnit net st) (\<lambda>q.
     bindE (requireItems data (js ''request_logs.items'')) (\<lambda>raw.
     bindE (mapE (\<lambda>_ v. mapPricedRequestLog env v (Num q)) (filter isRequestEntry raw)) (\<lambda>xs. pageNumbers data xs))))"

definition offsetMinutes :: "Intl \<Rightarrow> DateRangeValue \<Rightarrow> int \<Rightarrow> int" where
  "offsetMinutes intl r start = (case textOrNone (timeZone r) of
     Some z \<Rightarrow> timeZoneOffsetMinutesAt intl start z | None \<Rightarrow> - timezoneOffset intl (start * 1000))"

text \<open>The analysis of a range that resolves; the code sends \<open>NaN\<close> for one that does not.\<close>

definition liveRequestLogAnalytics ::
  "Intl \<Rightarrow> network \<Rightarrow> RequestLogAnalyticsInput \<Rightarrow> int \<times> int \<Rightarrow> LiveState \<Rightarrow> LiveLogAnalytics live" where
  "liveRequestLogAnalytics intl net inp resolved st =
     (let seconds = bucketSecondsFor (dateRangeDayCount intl (log_range inp)); minutes = offsetMinutes intl (log_range inp) (fst resolved);
          search = searchSet ''timezone_offset_minutes'' (int_str minutes)
            (searchSet ''bucket_seconds'' (int_str seconds) (requestLogSearchParams intl inp)) in
      bindE (fetched net st (listed ''/api/log/self/usage'' search)) (\<lambda>data.
      bindE (getQuotaPerUnit net st) (\<lambda>q.
      requestLogAnalytics (fst resolved) (snd resolved) (minutes * 60) seconds data (Num q))))"

definition liveGetRequestLog :: "LiveEnv \<Rightarrow> network \<Rightarrow> jsstring \<Rightarrow> LiveState \<Rightarrow> LiveRequestLog live" where
  "liveGetRequestLog env net requestId st =
     (let i = trim requestId in
      if i = [] then Inl (LiveDataContractError (js ''request_log.request_id''))
      else bindE (fetched net st ((call GET '''' JUndef)\<lparr>path := js ''/api/log/self/detail/'' @ encodeURIComponent env i\<rparr>)) (\<lambda>data.
        bindE (getQuotaPerUnit net st) (\<lambda>q. mapPricedRequestLog env data (Num q))))"

definition activityCode :: "AccountActivityType \<Rightarrow> rat" where
  "activityCode t = (case t of Management \<Rightarrow> LOG_TYPE_MANAGE | System \<Rightarrow> LOG_TYPE_SYSTEM | Login \<Rightarrow> LOG_TYPE_LOGIN)"

definition liveAccountActivityPage ::
  "LiveEnv \<Rightarrow> Intl \<Rightarrow> network \<Rightarrow> 'a PaginationInput_scheme \<Rightarrow> DateRangeValue \<Rightarrow> AccountActivityType choice \<Rightarrow> LiveState \<Rightarrow>
   LiveAccountActivity LivePage live" where
  "liveAccountActivityPage env intl net paging r choice st =
     bindE (fetched net st (listed ''/api/log/self'' (chosenType activityCode choice
       (appendPagination paging (rangeParams intl ''start_timestamp'' ''end_timestamp'' r @ [(js ''scope'', js ''activity'')]))))) (\<lambda>data.
     mapPaginatedResult data (mapAccountActivity env))"

definition ledgerCode :: "BillingLedgerEntryType \<Rightarrow> rat" where
  "ledgerCode t = (case t of LedgerTopup \<Rightarrow> LOG_TYPE_TOPUP | LedgerRefund \<Rightarrow> LOG_TYPE_REFUND)"

text \<open>An entry of the ledger with its amount in money instead of units of quota.\<close>

definition pricedLedgerEntry :: "LiveEnv \<Rightarrow> rat \<Rightarrow> jsval \<Rightarrow> LiveLedgerEntry live" where
  "pricedLedgerEntry env q v =
     bindE (mapBillingLedgerEntry env v) (\<lambda>entry. bindE (priced (amountQuota entry) (Num q)) (\<lambda>usd. Inr (entry\<lparr>amountQuota := usd\<rparr>)))"

definition liveBillingLedgerPage ::
  "LiveEnv \<Rightarrow> Intl \<Rightarrow> network \<Rightarrow> 'a PaginationInput_scheme \<Rightarrow> DateRangeValue \<Rightarrow> BillingLedgerEntryType choice \<Rightarrow> LiveState \<Rightarrow>
   LiveLedgerEntry LivePage live" where
  "liveBillingLedgerPage env intl net paging r choice st =
     bindE (fetched net st (listed ''/api/log/self'' (chosenType ledgerCode choice
       (appendPagination paging (rangeParams intl ''start_timestamp'' ''end_timestamp'' r @ [(js ''scope'', js ''billing'')]))))) (\<lambda>data.
     bindE (getQuotaPerUnit net st) (\<lambda>q.
     bindE (requireItems data (js ''billing_ledger.items'')) (\<lambda>raw.
     bindE (mapE (\<lambda>_. pricedLedgerEntry env q) raw) (\<lambda>xs. pageNumbers data xs))))"

section \<open>Tasks\<close>

text \<open>The names of the task states and types, as the filters of the list use them.\<close>

definition taskStatusName :: "TaskStatus \<Rightarrow> jsstring" where
  "taskStatusName s = (case s of TaskQueued \<Rightarrow> js ''queued'' | TaskProcessing \<Rightarrow> js ''processing'' | TaskSucceeded \<Rightarrow> js ''succeeded''
     | TaskFailed \<Rightarrow> js ''failed'' | TaskCancelled \<Rightarrow> js ''cancelled'' | TaskExpired \<Rightarrow> js ''expired'' | TaskUnknown \<Rightarrow> js ''unknown'')"

definition taskTypeName :: "TaskType \<Rightarrow> jsstring" where
  "taskTypeName t = (case t of ImageTask \<Rightarrow> js ''image'' | VideoTask \<Rightarrow> js ''video'' | AudioTask \<Rightarrow> js ''audio'' | UnknownTask \<Rightarrow> js ''unknown'')"

definition chosenText :: "string \<Rightarrow> ('a \<Rightarrow> jsstring) \<Rightarrow> 'a choice \<Rightarrow> (jsstring \<times> jsstring) list \<Rightarrow> (jsstring \<times> jsstring) list" where
  "chosenText key name c search = (case c of All \<Rightarrow> search | Only x \<Rightarrow> searchSet key (name x) search)"

definition liveTasksPage ::
  "LiveEnv \<Rightarrow> (jsval \<Rightarrow> jsstring) \<Rightarrow> Intl \<Rightarrow> network \<Rightarrow> 'a PaginationInput_scheme \<Rightarrow> DateRangeValue \<Rightarrow> TaskStatus choice \<Rightarrow>
   TaskType choice \<Rightarrow> LiveState \<Rightarrow> LiveTask LivePage live" where
  "liveTasksPage env textOf intl net paging r state kind st =
     bindE (fetched net st (listed ''/api/task/self'' (chosenText ''task_type'' taskTypeName kind (chosenText ''status_group'' taskStatusName state
       (appendPagination paging (rangeParams intl ''start_timestamp'' ''end_timestamp'' r)))))) (\<lambda>data.
     bindE (getQuotaPerUnit net st) (\<lambda>q. mapPaginatedResult data (\<lambda>v. mapLiveTaskRecord env textOf v (Num q))))"

record LiveTaskTypeCounts =
  count_all :: rat
  count_image :: rat
  count_video :: rat
  count_audio :: rat

definition liveTaskTypeCounts :: "Intl \<Rightarrow> network \<Rightarrow> SortOrder \<Rightarrow> DateRangeValue \<Rightarrow> TaskStatus choice \<Rightarrow> LiveState \<Rightarrow> LiveTaskTypeCounts live" where
  "liveTaskTypeCounts intl net d r state st =
     bindE (fetched net st (listed ''/api/task/self'' (chosenText ''status_group'' taskStatusName state
       (appendPagination \<lparr>page = 1, pageSize = 1, order = d\<rparr>
         (rangeParams intl ''start_timestamp'' ''end_timestamp'' r @ [(js ''include_type_counts'', js ''true'')]))))) (\<lambda>data.
     let counts = asRecord (get_prop (asRecord data) (js ''type_counts'')) in
     bindE (requireNumber counts ''all'' (js ''task_type_counts.all'')) (\<lambda>a.
     bindE (requireNumber counts ''image'' (js ''task_type_counts.image'')) (\<lambda>i.
     bindE (requireNumber counts ''video'' (js ''task_type_counts.video'')) (\<lambda>v.
     bindE (requireNumber counts ''audio'' (js ''task_type_counts.audio'')) (\<lambda>u.
     Inr \<lparr>count_all = a, count_image = i, count_video = v, count_audio = u\<rparr>)))))"

definition liveTaskResult :: "LiveEnv \<Rightarrow> network \<Rightarrow> (FetchResponse \<Rightarrow> 'b) \<Rightarrow> jsstring \<Rightarrow> LiveState \<Rightarrow> 'b live" where
  "liveTaskResult env net blob i st =
     (if trim i = [] then Inl (LiveDataContractError (js ''task.task_id''))
      else requestBlob net (clientToken st) ((call GET '''' JUndef)
        \<lparr>path := js ''/v1/videos/'' @ encodeURIComponent env i @ js ''/content'', query := [(js ''index'', js ''0'')]\<rparr>) blob)"

end
