(* ===== verification/LiveOperations.thy ===== *)
theory LiveOperations
  imports LiveRepository
begin

text \<open>
  The remaining operations of the console's live repository, \<open>src/frontend/apps/console/src/data/live-repository.ts\<close>:
  the overview, billing and payments, the profile and the preferences, the playground, and the payment that is pending
  while the user is at the provider, \<open>src/frontend/apps/console/src/lib/payment-checkout.ts\<close>.
\<close>

section \<open>Overview\<close>

definition getUser :: "(jsstring \<Rightarrow> int option) \<Rightarrow> network \<Rightarrow> LiveState \<Rightarrow> LiveUser live" where
  "getUser dateParse net st = bindE (fetched net st (call GET ''/api/user/self'' JUndef)) (\<lambda>data. mapLiveUser dateParse (asRecord data))"

definition getRecentActivity :: "LiveEnv \<Rightarrow> Intl \<Rightarrow> network \<Rightarrow> DateRangeValue \<Rightarrow> LiveState \<Rightarrow> LiveActivity list live" where
  "getRecentActivity env intl net r st =
     bindE (fetched net st (listed ''/api/log/self'' ([(js ''scope'', js ''request''), (js ''p'', js ''1''), (js ''page_size'', js ''20'')] @
       rangeParams intl ''start_timestamp'' ''end_timestamp'' r))) (recentActivity env)"

record LiveOverview =
  ov_availableBalance :: rat
  ov_requestCount :: rat
  ov_activeApiKeys :: nat
  ov_successRate :: "rat option"
  ov_recentActivity :: "LiveActivity list"

definition getOverview ::
  "LiveEnv \<Rightarrow> (jsstring \<Rightarrow> int option) \<Rightarrow> Intl \<Rightarrow> network \<Rightarrow> DateRangeValue \<Rightarrow> LiveState \<Rightarrow> LiveOverview live" where
  "getOverview env dateParse intl net r st =
     bindE (getUser dateParse net st) (\<lambda>user.
     bindE (liveListApiKeys net st) (\<lambda>keys.
     bindE (getRecentActivity env intl net r st) (\<lambda>activity.
     bindE (fetched net st (listed ''/api/log/self/stat'' (rangeParams intl ''start_timestamp'' ''end_timestamp'' r))) (\<lambda>stats.
     bindE (getQuotaPerUnit net st) (\<lambda>q.
     bindE (mapUsageSummary stats) (\<lambda>summary.
     bindE (quotaUnitsToUsd (usr_quotaUnits user) (Num q)) (\<lambda>balance.
     Inr \<lparr>ov_availableBalance = balance, ov_requestCount = us_requestCount summary,
       ov_activeApiKeys = length (filter (\<lambda>k. lk_status k = KeyActive) keys), ov_successRate = us_successRate summary,
       ov_recentActivity = activity\<rparr>)))))))"

definition getUsage :: "LiveEnv \<Rightarrow> Intl \<Rightarrow> network \<Rightarrow> int \<Rightarrow> DateRangeValue \<Rightarrow> LiveState \<Rightarrow> (LiveUsage \<times> LiveActivity list) live" where
  "getUsage env intl net offset r st =
     bindE (fetched net st (listed ''/api/log/self/usage'' (rangeParams intl ''start_timestamp'' ''end_timestamp'' r @
       [(js ''timezone_offset_minutes'', int_str offset)]))) (\<lambda>data.
     bindE (getRecentActivity env intl net r st) (\<lambda>logs.
     bindE (getQuotaPerUnit net st) (\<lambda>q.
     bindE (mapUsageAnalytics data (Num q)) (\<lambda>u. Inr (u, logs)))))"

section \<open>Billing\<close>

record LiveBillingData =
  bd_balance :: rat
  bd_totalUsage :: rat
  bd_transactions :: "LiveTransaction list"
  bd_plans :: "LivePlan list"

definition getBillingData :: "LiveEnv \<Rightarrow> (jsstring \<Rightarrow> int option) \<Rightarrow> network \<Rightarrow> LiveState \<Rightarrow> LiveBillingData live" where
  "getBillingData env dateParse net st =
     bindE (getUser dateParse net st) (\<lambda>user.
     bindE (fetched net st (listed ''/api/user/topup/self'' [(js ''p'', js ''1''), (js ''page_size'', js ''50'')])) (\<lambda>history.
     bindE (fetched net st (call GET ''/api/subscription/plans'' JUndef)) (\<lambda>plans.
     bindE (fetched net st (call GET ''/api/subscription/self'' JUndef)) (\<lambda>rawSubscription.
     bindE (fetched net st (call GET ''/api/user/topup/info'' JUndef)) (\<lambda>topup.
     bindE (getQuotaPerUnit net st) (\<lambda>q.
     bindE (activePlans (asRecord rawSubscription)) (\<lambda>active.
     bindE (purchaseCounts (asRecord rawSubscription)) (\<lambda>counts.
     bindE (quotaUnitsToUsd (usr_quotaUnits user) (Num q)) (\<lambda>balance.
     bindE (quotaUnitsToUsd (usr_usedQuotaUnits user) (Num q)) (\<lambda>used.
     bindE (requireItems history (js ''billing.transactions'')) (\<lambda>rawHistory.
     bindE (mapE (\<lambda>_. mapBillingTransaction) rawHistory) (\<lambda>transactions.
     bindE (requireItems plans (js ''subscription.plans'')) (\<lambda>rawPlans.
     bindE (mapE (\<lambda>_ v. mapSubscriptionPlan env v (asRecord topup) active counts (Num q)) rawPlans) (\<lambda>ps.
     Inr \<lparr>bd_balance = balance, bd_totalUsage = used, bd_transactions = transactions, bd_plans = ps\<rparr>))))))))))))))"

definition liveRedeemCode :: "LiveEnv \<Rightarrow> (jsstring \<Rightarrow> int option) \<Rightarrow> network \<Rightarrow> jsstring \<Rightarrow> LiveState \<Rightarrow> LiveBillingData live" where
  "liveRedeemCode env dateParse net code st =
     bindE (fetched net st (call POST ''/api/user/topup'' (JObj [(js ''key'', JStr code)]))) (\<lambda>_. getBillingData env dateParse net st)"

definition transactionStatusName :: "TransactionStatus \<Rightarrow> jsstring" where
  "transactionStatusName s = (case s of Completed \<Rightarrow> js ''success'' | TransactionExpired \<Rightarrow> js ''expired'' | TransactionFailed \<Rightarrow> js ''failed''
     | Pending \<Rightarrow> js ''pending'')"

definition orderTypeName :: "TransactionType \<Rightarrow> jsstring" where
  "orderTypeName t = (if t = Subscription then js ''subscription'' else js ''wallet'')"

definition liveBillingTransactionsPage ::
  "Intl \<Rightarrow> network \<Rightarrow> BillingTransactionListInput \<Rightarrow> LiveState \<Rightarrow> LiveTransaction LivePage live" where
  "liveBillingTransactionsPage intl net inp st =
     (let keyword = trim (transaction_keyword inp);
          paged = appendPagination inp (rangeParams intl ''start_time'' ''end_time'' (transaction_range inp));
          worded = (if keyword \<noteq> [] then searchSet ''keyword'' (toSearchPattern keyword) paged else paged) in
      bindE (fetched net st (listed ''/api/user/topup/self'' (chosenText ''order_type'' orderTypeName (type_filter inp)
        (chosenText ''status'' transactionStatusName (status_filter inp) worded)))) (\<lambda>data.
      mapPaginatedResult data mapBillingTransaction))"

definition liveRechargeConfiguration :: "LiveEnv \<Rightarrow> network \<Rightarrow> LiveState \<Rightarrow> RechargeConfiguration live" where
  "liveRechargeConfiguration env net st =
     bindE (fetched net st (call GET ''/api/user/topup/info'' JUndef)) (\<lambda>topup.
     bindE (fetched net st (public (call GET ''/api/status'' JUndef))) (\<lambda>status.
     getRechargeConfiguration env topup status))"

section \<open>Payments\<close>

text \<open>The answer of a payment service, with the types that the code gives it; \<open>null\<close> has no properties.\<close>

definition legacyResponse :: "jsval \<Rightarrow> LegacyPaymentResponse live" where
  "legacyResponse v =
     (let text' = (\<lambda>k. case get_prop v (js k) of JStr s \<Rightarrow> Some s | _ \<Rightarrow> None) in
      if v = JNull then Inl NullTypeError
      else Inr \<lparr>payment_data = get_prop v (js ''data''), payment_message = text' ''message'', payment_order_id = text' ''order_id'',
        payment_success = (case get_prop v (js ''success'') of JBool b \<Rightarrow> Some b | _ \<Rightarrow> None), payment_url = text' ''url''\<rparr>)"

definition paymentRequest :: "network \<Rightarrow> jsstring \<Rightarrow> (jsstring \<times> jsval) list \<Rightarrow> LiveState \<Rightarrow> LegacyPaymentResponse live" where
  "paymentRequest net p entries st = bindE (requestRaw net (clientToken st) ((call POST '''' (JObj entries))\<lparr>path := p\<rparr>)) legacyResponse"

definition liveRechargeQuote :: "network \<Rightarrow> jsstring \<Rightarrow> rat \<Rightarrow> LiveState \<Rightarrow> rat live" where
  "liveRechargeQuote net kind amt st =
     bindE (paymentRequest net (quotePath kind) [(js ''amount'', JNum (Num (of_int \<lfloor>amt\<rfloor>)))] st) mapQuote"

definition liveCreateRechargeCheckout ::
  "(jsval \<Rightarrow> jsstring) \<Rightarrow> jsstring \<Rightarrow> network \<Rightarrow> rat \<Rightarrow> (jsstring \<times> nat option) option \<Rightarrow> jsstring option \<Rightarrow> LiveState \<Rightarrow> LiveCheckout live" where
  "liveCreateRechargeCheckout textOf origin net amt method product st =
     bindE (checkoutRequest origin amt method product) (\<lambda>(p, entries).
     bindE (paymentRequest net p entries st) (mapPaymentCheckout textOf))"

text \<open>A purchase from the balance is complete at once; the others lead to a checkout.\<close>

definition purchasePath :: "LivePaymentType \<Rightarrow> jsstring" where
  "purchasePath kind = (if kind = PayStripe then js ''/api/subscription/stripe/pay'' else if kind = PayCreem then js ''/api/subscription/creem/pay''
     else if kind = PayWaffoPancake then js ''/api/subscription/waffo-pancake/pay'' else js ''/api/subscription/epay/pay'')"

definition purchaseFields :: "jsstring \<Rightarrow> LivePaymentMethod \<Rightarrow> rat \<Rightarrow> (jsstring \<times> jsval) list" where
  "purchaseFields origin method planId =
     (let back = (\<lambda>s. JStr (origin @ js ''/console/recharge?payment='' @ js s)) in
      [(js ''plan_id'', JNum (Num planId))] @
      (if pm_type method = PayStripe then [(js ''success_url'', back ''pending''), (js ''cancel_url'', back ''cancelled'')] else []) @
      (if pm_type method = PayEpay
       then [(js ''payment_method'', optionalValue (pm_paymentMethod method)), (js ''return_url'', back ''pending'')] else []))"

definition livePurchaseSubscription ::
  "(jsval \<Rightarrow> jsstring) \<Rightarrow> jsstring \<Rightarrow> network \<Rightarrow> LivePaymentMethod \<Rightarrow> rat \<Rightarrow> LiveState \<Rightarrow> LiveCheckout option live" where
  "livePurchaseSubscription textOf origin net method planId st =
     (if pm_type method = PayBalance
      then bindE (fetched net st (call POST ''/api/subscription/balance/pay'' (JObj [(js ''plan_id'', JNum (Num planId))]))) (\<lambda>_. Inr None)
      else bindE (paymentRequest net (purchasePath (pm_type method)) (purchaseFields origin method planId) st) (\<lambda>response.
        bindE (mapPaymentCheckout textOf response) (\<lambda>c. Inr (Some c))))"

datatype PaymentKind = TopupPayment | SubscriptionPayment

record PaymentConfirmationInput =
  conf_kind :: PaymentKind
  conf_orderId :: "jsstring option"
  conf_planId :: "rat option"

definition getPaymentConfirmation :: "network \<Rightarrow> 'a PaymentConfirmationInput_scheme \<Rightarrow> LiveState \<Rightarrow> ConfirmationStatus live" where
  "getPaymentConfirmation net inp st = (case conf_kind inp of
     SubscriptionPayment \<Rightarrow>
       (case conf_planId inp of
          None \<Rightarrow> Inr ConfirmPending
        | Some p \<Rightarrow>
            (if p = 0 then Inr ConfirmPending
             else bindE (fetched net st (call GET ''/api/subscription/self'' JUndef)) (confirmSubscription (Some p))))
   | TopupPayment \<Rightarrow>
       (case textOrNone (conf_orderId inp) of
          None \<Rightarrow> Inr ConfirmPending
        | Some i \<Rightarrow>
            bindE (fetched net st (listed ''/api/user/topup/self'' [(js ''p'', js ''1''), (js ''page_size'', js ''10''), (js ''keyword'', i)]))
              (confirmOrder (Some i))))"

section \<open>The pending payment\<close>

text \<open>The session storage holds one entry, written and read as JSON; nothing when storage is not available, and nothing
  inside when there is no entry.\<close>

record PendingPayment = PaymentConfirmationInput +
  pend_startedAt :: rat

definition pendingPaymentLifetimeMs :: rat where
  "pendingPaymentLifetimeMs = 2 * 60 * 60 * 1000"

definition paymentKindName :: "PaymentKind \<Rightarrow> jsstring" where
  "paymentKindName k = (case k of TopupPayment \<Rightarrow> js ''topup'' | SubscriptionPayment \<Rightarrow> js ''subscription'')"

text \<open>\<open>JSON.stringify\<close> leaves out properties that are undefined.\<close>

definition pendingValue :: "PaymentConfirmationInput \<Rightarrow> rat \<Rightarrow> jsval" where
  "pendingValue inp now = JObj ([(js ''kind'', JStr (paymentKindName (conf_kind inp)))] @
     (case conf_orderId inp of Some i \<Rightarrow> [(js ''orderId'', JStr i)] | None \<Rightarrow> []) @
     (case conf_planId inp of Some p \<Rightarrow> [(js ''planId'', JNum (Num p))] | None \<Rightarrow> []) @ [(js ''startedAt'', JNum (Num now))])"

definition savePendingPayment :: "PaymentConfirmationInput \<Rightarrow> rat \<Rightarrow> jsval option option \<Rightarrow> jsval option option \<times> PendingPayment" where
  "savePendingPayment inp now storage =
     (map_option (\<lambda>_. Some (pendingValue inp now)) storage,
      \<lparr>conf_kind = conf_kind inp, conf_orderId = conf_orderId inp, conf_planId = conf_planId inp, pend_startedAt = now\<rparr>)"

definition clearPendingPayment :: "jsval option option \<Rightarrow> jsval option option" where
  "clearPendingPayment storage = map_option (\<lambda>_. None) storage"

definition pendingKind :: "jsval \<Rightarrow> PaymentKind option" where
  "pendingKind v = (if v = JStr (js ''topup'') then Some TopupPayment else if v = JStr (js ''subscription'') then Some SubscriptionPayment else None)"

definition readPendingPayment :: "rat \<Rightarrow> jsval option option \<Rightarrow> jsval option option \<times> PendingPayment option" where
  "readPendingPayment now storage = (case storage of
     None \<Rightarrow> (storage, None)
   | Some None \<Rightarrow> (storage, None)
   | Some (Some v) \<Rightarrow>
       (if \<not> isRecord v then (storage, None)
        else (case pendingKind (get_prop v (js ''kind'')) of
            None \<Rightarrow> (storage, None)
          | Some k \<Rightarrow>
              (case get_prop v (js ''startedAt'') of
                 JNum (Num t) \<Rightarrow>
                   (if now - t > pendingPaymentLifetimeMs then (clearPendingPayment storage, None)
                    else (storage, Some \<lparr>conf_kind = k,
                      conf_orderId = (case get_prop v (js ''orderId'') of JStr i \<Rightarrow> Some i | _ \<Rightarrow> None),
                      conf_planId = (case get_prop v (js ''planId'') of JNum (Num p) \<Rightarrow> Some p | _ \<Rightarrow> None), pend_startedAt = t\<rparr>))
               | _ \<Rightarrow> (clearPendingPayment storage, None)))))"

text \<open>Where the browser goes: the address of a redirection, or that of a form with its hidden fields.\<close>

datatype Navigation = Assign jsstring | Submit jsstring "(jsstring \<times> jsstring) list"

definition checkoutOrder :: "LiveCheckout \<Rightarrow> jsstring option" where
  "checkoutOrder c = (case c of FormCheckout _ _ i \<Rightarrow> i | RedirectCheckout _ i \<Rightarrow> i)"

definition continueToCheckout ::
  "LiveCheckout \<Rightarrow> PaymentConfirmationInput \<Rightarrow> rat \<Rightarrow> jsval option option \<Rightarrow> jsval option option \<times> Navigation" where
  "continueToCheckout c pending now storage =
     (fst (savePendingPayment (pending\<lparr>conf_orderId := orText (checkoutOrder c) (conf_orderId pending)\<rparr>) now storage),
      (case c of RedirectCheckout url _ \<Rightarrow> Assign url | FormCheckout url entries _ \<Rightarrow> Submit url entries))"

section \<open>Profile and preferences\<close>

definition liveUpdateProfile ::
  "LiveEnv \<Rightarrow> (jsstring \<Rightarrow> int option) \<Rightarrow> network \<Rightarrow> jsstring \<Rightarrow> jsstring \<Rightarrow> jsstring \<Rightarrow> jsstring option \<Rightarrow> LiveState \<Rightarrow> LiveAccount live" where
  "liveUpdateProfile env dateParse net name display address code st =
     bindE (fetched net st (call PUT ''/api/user/self'' (JObj [(js ''username'', JStr name), (js ''display_name'', JStr display),
       (js ''email'', JStr address), (js ''verification_code'', optionalValue code)]))) (\<lambda>_. getAccountData env dateParse net st)"

definition channelName :: "LiveChannel \<Rightarrow> jsstring" where
  "channelName c = (case c of LcEmail \<Rightarrow> js ''email'' | LcWebhook \<Rightarrow> js ''webhook'' | LcBark \<Rightarrow> js ''bark'' | LcGotify \<Rightarrow> js ''gotify'')"

definition preferenceFields :: "LivePreferences \<Rightarrow> LiveChannel \<Rightarrow> int \<Rightarrow> (jsstring \<times> jsval) list" where
  "preferenceFields inp channel threshold =
     [(js ''bark_url'', JStr (lp_barkUrl inp)), (js ''gotify_priority'', JNum (Num (lp_gotifyPriority inp))),
      (js ''gotify_token'', JStr (lp_gotifyToken inp)), (js ''gotify_url'', JStr (lp_gotifyUrl inp)),
      (js ''notify_type'', JStr (channelName channel)), (js ''notification_email'', JStr (lp_notificationEmail inp)),
      (js ''quota_warning_threshold'', JNum (Num (of_int threshold))),
      (js ''record_ip_log'', JBool (lp_recordIpForced inp \<or> lp_recordIpLog inp)),
      (js ''webhook_secret'', JStr (lp_webhookSecret inp)), (js ''webhook_url'', JStr (lp_webhookUrl inp))]"

definition liveUpdatePreferences ::
  "LiveEnv \<Rightarrow> (jsstring \<Rightarrow> int option) \<Rightarrow> network \<Rightarrow> LivePreferences \<Rightarrow> LiveState \<Rightarrow> LiveAccount live" where
  "liveUpdatePreferences env dateParse net inp st = (case lp_balanceWarningThresholdUsd inp of
     None \<Rightarrow> Inl (LiveDataContractError (js ''account.balance_warning_threshold_usd''))
   | Some usd \<Rightarrow>
       (if usd \<le> 0 then Inl (LiveDataContractError (js ''account.balance_warning_threshold_usd''))
        else (case lp_notifyType inp of
            None \<Rightarrow> Inl (LiveDataContractError (js ''account.notify_type''))
          | Some channel \<Rightarrow>
              bindE (getQuotaPerUnit net st) (\<lambda>q.
              bindE (usdToQuotaUnits (Num usd) (Num q) (js ''account.balance_warning_threshold_usd'')) (\<lambda>threshold.
              bindE (fetched net st (call PUT ''/api/user/setting'' (JObj (preferenceFields inp channel threshold)))) (\<lambda>_.
              getAccountData env dateParse net st))))))"

definition liveRevokeSession ::
  "LiveEnv \<Rightarrow> (jsstring \<Rightarrow> int option) \<Rightarrow> network \<Rightarrow> jsstring \<Rightarrow> LiveState \<Rightarrow> LiveAccount live" where
  "liveRevokeSession env dateParse net i st =
     bindE (fetched net st ((call DELETE '''' JUndef)\<lparr>path := js ''/api/user/sessions/'' @ encodeURIComponent env i\<rparr>)) (\<lambda>_.
     getAccountData env dateParse net st)"

definition liveRevokeOtherSessions ::
  "LiveEnv \<Rightarrow> (jsstring \<Rightarrow> int option) \<Rightarrow> network \<Rightarrow> LiveState \<Rightarrow> (LiveAccount \<times> rat) live" where
  "liveRevokeOtherSessions env dateParse net st =
     bindE (fetched net st (call POST ''/api/user/sessions/revoke-others'' JUndef)) (\<lambda>data.
     bindE (getAccountData env dateParse net st) (\<lambda>a.
     bindE (requireNumber (asRecord data) ''revoked_count'' (js ''sessions.revoked_count'')) (\<lambda>n. Inr (a, n))))"

text \<open>The warning rule of the alert center, and the status of the platform, whose errors are not reported.\<close>

definition getAlertCenter ::
  "LiveEnv \<Rightarrow> network \<Rightarrow> LiveState \<Rightarrow> (PlatformStatus \<times> rat option \<times> LiveChannel option) live" where
  "getAlertCenter env net st =
     bindE (getAccountPreferences env net st) (\<lambda>prefs.
     let platform = (case bindE (fetched net st (public (call GET ''/api/uptime/status'' JUndef))) mapPlatformStatus of
           Inr p \<Rightarrow> p
         | Inl _ \<Rightarrow> \<lparr>configured = None, monitors = [], platform_status = UnknownMonitor, platform_uptime = None\<rparr>) in
     Inr (platform, lp_balanceWarningThresholdUsd prefs, lp_notifyType prefs))"

section \<open>Playground\<close>

definition requirePlaygroundMediaUrl :: "LiveEnv \<Rightarrow> jsstring \<Rightarrow> jsstring \<Rightarrow> jsstring live" where
  "requirePlaygroundMediaUrl env value field =
     (if startsWith value (js ''/'') \<and> \<not> startsWith value (js ''//'') then Inr value
      else if urlProtocol env value \<in> {Some (js ''https:''), Some (js ''http:'')} then Inr value
      else Inl (LiveDataContractError field))"

record LiveVideo =
  vid_id :: jsstring
  vid_pollingUrl :: jsstring
  vid_status :: jsstring
  vid_unsignedUrls :: "jsstring list"
  vid_error :: "jsstring option"
  vid_estimatedCost :: "rat option"

definition playgroundVideoStatuses :: "jsstring list" where
  "playgroundVideoStatuses = [js ''pending'', js ''in_progress'', js ''completed'', js ''failed'', js ''cancelled'', js ''expired'']"

definition videoUrl :: "LiveEnv \<Rightarrow> nat \<Rightarrow> jsval \<Rightarrow> jsstring live" where
  "videoUrl env i v =
     (let field = indexed ''playground.video.unsigned_urls'' i '''' in
      case v of
        JStr s \<Rightarrow> if trim s = [] then Inl (LiveDataContractError field) else requirePlaygroundMediaUrl env s field
      | _ \<Rightarrow> Inl (LiveDataContractError field))"

definition mapPlaygroundVideo :: "LiveEnv \<Rightarrow> jsval \<Rightarrow> LiveVideo live" where
  "mapPlaygroundVideo env v =
     (let video = asRecord v; usage = asRecord (get_prop video (js ''usage'')) in
      bindE (requireString video ''status'' (js ''playground.video.status'')) (\<lambda>state.
      bindE (guardE (state \<in> set playgroundVideoStatuses) (js ''playground.video.status'')) (\<lambda>_.
      bindE (requireString video ''id'' (js ''playground.video.id'')) (\<lambda>i.
      bindE (readOptionalItems (get_prop video (js ''unsigned_urls'')) (js ''playground.video.unsigned_urls'')) (\<lambda>raw.
      bindE (mapE (videoUrl env) raw) (\<lambda>urls.
      Inr \<lparr>vid_id = i, vid_pollingUrl = readString video ''polling_url'' [], vid_status = state, vid_unsignedUrls = urls,
        vid_error = readText video ''error'', vid_estimatedCost = readOptionalNumber usage ''cost''\<rparr>))))))"

record LiveImage =
  img_url :: jsstring
  img_revisedPrompt :: "jsstring option"
  img_transient :: bool

definition mapPlaygroundImage :: "LiveEnv \<Rightarrow> nat \<Rightarrow> jsval \<Rightarrow> LiveImage live" where
  "mapPlaygroundImage env i v =
     (let image = asRecord v; url = readString image ''url'' []; b64 = readString image ''b64_json'' [] in
      bindE (guardE (\<not> (url = [] \<and> b64 = [])) (indexed ''playground.images.data'' i '''')) (\<lambda>_.
      bindE (if url \<noteq> [] then requirePlaygroundMediaUrl env url (indexed ''playground.images.data'' i ''.url'')
             else Inr (js ''data:image/png;base64,'' @ b64)) (\<lambda>u.
      Inr \<lparr>img_url = u, img_revisedPrompt = readText image ''revised_prompt'', img_transient = (url = [])\<rparr>)))"

record LiveImages =
  imgs_createdAt :: "rat option"
  imgs_images :: "LiveImage list"

definition mapPlaygroundImages :: "LiveEnv \<Rightarrow> jsval \<Rightarrow> LiveImages live" where
  "mapPlaygroundImages env payload =
     (let data = asRecord payload in
      bindE (requireItems (get_prop data (js ''data'')) (js ''playground.images.data'')) (\<lambda>raw.
      bindE (mapE (mapPlaygroundImage env) raw) (\<lambda>images.
      Inr \<lparr>imgs_createdAt = readOptionalNumber data ''created'', imgs_images = images\<rparr>)))"

definition generatePlaygroundImages ::
  "LiveEnv \<Rightarrow> network \<Rightarrow> jsstring \<Rightarrow> jsstring \<Rightarrow> jsstring \<Rightarrow> jsstring \<Rightarrow> jsstring \<Rightarrow> rat \<Rightarrow> LiveState \<Rightarrow> LiveImages live" where
  "generatePlaygroundImages env net grp mdl prmpt sz qual n st =
     bindE (requestRaw net (clientToken st) (call POST ''/pg/images/generations'' (JObj [(js ''group'', JStr grp), (js ''model'', JStr mdl),
       (js ''prompt'', JStr prmpt), (js ''size'', JStr sz), (js ''quality'', JStr qual), (js ''n'', JNum (Num n))]))) (mapPlaygroundImages env)"

definition createPlaygroundVideo ::
  "LiveEnv \<Rightarrow> network \<Rightarrow> jsstring \<Rightarrow> jsstring \<Rightarrow> jsstring \<Rightarrow> rat \<Rightarrow> jsstring \<Rightarrow> jsstring \<Rightarrow> bool \<Rightarrow> LiveState \<Rightarrow> LiveVideo live" where
  "createPlaygroundVideo env net grp mdl prmpt seconds res aspect audio st =
     bindE (requestRaw net (clientToken st) (call POST ''/pg/videos'' (JObj [(js ''group'', JStr grp), (js ''model'', JStr mdl),
       (js ''prompt'', JStr prmpt), (js ''duration'', JNum (Num seconds)), (js ''resolution'', JStr res),
       (js ''aspect_ratio'', JStr aspect), (js ''generate_audio'', JBool audio)]))) (mapPlaygroundVideo env)"

definition getPlaygroundVideo :: "LiveEnv \<Rightarrow> network \<Rightarrow> jsstring \<Rightarrow> LiveState \<Rightarrow> LiveVideo live" where
  "getPlaygroundVideo env net i st =
     (if trim i = [] then Inl (LiveDataContractError (js ''playground.video.task_id''))
      else bindE (requestRaw net (clientToken st) ((call GET '''' JUndef)\<lparr>path := js ''/pg/videos/'' @ encodeURIComponent env i\<rparr>))
        (mapPlaygroundVideo env))"

record LiveReply =
  rep_id :: jsstring
  rep_content :: jsstring
  rep_model :: "jsstring option"
  rep_inputTokens :: "rat option"
  rep_outputTokens :: "rat option"
  rep_latencyMs :: int
  rep_estimatedCost :: "rat option"

text \<open>The messages are given in the form that is sent; the latency is the time that the request took.\<close>

definition sendPlaygroundMessage ::
  "network \<Rightarrow> jsstring \<Rightarrow> jsstring \<Rightarrow> jsstring \<Rightarrow> jsval list \<Rightarrow> rat \<Rightarrow> rat \<Rightarrow> rat \<Rightarrow> LiveState \<Rightarrow> LiveReply live" where
  "sendPlaygroundMessage net grp mdl systemPrompt messages temperature maxTokens took st =
     bindE (requestRaw net (clientToken st) (call POST ''/pg/chat/completions'' (JObj [(js ''model'', JStr mdl), (js ''group'', JStr grp),
       (js ''messages'', JArr ((if trim systemPrompt \<noteq> []
          then [JObj [(js ''role'', JStr (js ''system'')), (js ''content'', JStr (trim systemPrompt))]] else []) @ messages)),
       (js ''temperature'', JNum (Num temperature)), (js ''max_tokens'', JNum (Num maxTokens)), (js ''stream'', JBool False)]))) (\<lambda>payload.
     let data = asRecord payload; choices = (case get_prop data (js ''choices'') of JArr xs \<Rightarrow> xs | _ \<Rightarrow> []);
         firstChoice = asRecord (case choices of x # _ \<Rightarrow> x | [] \<Rightarrow> JUndef); message = asRecord (get_prop firstChoice (js ''message''));
         usage = asRecord (get_prop data (js ''usage'')) in
     bindE (requireString message ''content'' (js ''playground.choices[0].message.content'')) (\<lambda>content.
     bindE (requireString data ''id'' (js ''playground.id'')) (\<lambda>i.
     Inr \<lparr>rep_id = i, rep_content = content, rep_model = readText data ''model'', rep_inputTokens = readOptionalNumber usage ''prompt_tokens'',
       rep_outputTokens = readOptionalNumber usage ''completion_tokens'', rep_latencyMs = max 0 (mathRound took),
       rep_estimatedCost = readOptionalNumber data ''cost''\<rparr>)))"

record LivePlaygroundModel =
  mod_id :: jsstring
  mod_group :: jsstring
  mod_supportedEndpointTypes :: "jsstring list"

definition endpointType :: "nat \<Rightarrow> nat \<Rightarrow> jsval \<Rightarrow> jsstring live" where
  "endpointType i j v =
     (let field = indexed ''user.models'' i '''' @ indexed ''.supported_endpoint_types'' j '''' in
      case v of JStr s \<Rightarrow> if trim s = [] then Inl (LiveDataContractError field) else Inr s | _ \<Rightarrow> Inl (LiveDataContractError field))"

definition mapPlaygroundModel :: "jsstring \<Rightarrow> nat \<Rightarrow> jsval \<Rightarrow> LivePlaygroundModel live" where
  "mapPlaygroundModel grp i v =
     (let item = asRecord v in
      bindE (requireString item ''id'' (indexed ''user.models'' i ''.id'')) (\<lambda>mid.
      bindE (readOptionalItems (get_prop item (js ''supported_endpoint_types'')) (indexed ''user.models'' i ''.supported_endpoint_types'')) (\<lambda>raw.
      bindE (mapE (endpointType i) raw) (\<lambda>types.
      Inr \<lparr>mod_id = mid, mod_group = grp, mod_supportedEndpointTypes = types\<rparr>))))"

definition livePlaygroundModels :: "LiveEnv \<Rightarrow> network \<Rightarrow> jsstring \<Rightarrow> LiveState \<Rightarrow> LivePlaygroundModel list live" where
  "livePlaygroundModels env net grp st =
     (if trim grp = [] then Inl (LiveDataContractError (js ''user.group''))
      else bindE (fetched net st (listed ''/api/user/models'' [(js ''group'', grp), (js ''details'', js ''true'')])) (\<lambda>data.
        bindE (requireItems data (js ''user.models'')) (mapE (mapPlaygroundModel grp))))"

definition liveOnboarding :: "LiveEnv \<Rightarrow> (jsstring \<Rightarrow> int option) \<Rightarrow> network \<Rightarrow> LiveState \<Rightarrow> (bool list \<times> jsstring option) live" where
  "liveOnboarding env dateParse net st =
     bindE (getUser dateParse net st) (\<lambda>user.
     bindE (liveListApiKeys net st) (\<lambda>keys.
     bindE (livePlaygroundModels env net (usr_group user) st) (\<lambda>models.
     Inr ([length keys > 0, usr_quotaUnits user > 0, usr_requestCount user > 0], (case models of m # _ \<Rightarrow> Some (mod_id m) | [] \<Rightarrow> None)))))"

end
