(* ===== verification/LiveProofs.thy ===== *)
theory LiveProofs
  imports LiveOperations
begin

text \<open>
  Pages in the live data layer of the console.  Every decoder of a list entry either succeeds or names the field that
  breaks the contract (the locale \<open>entry_decoder\<close>), and so a page is decoded completely or refused.
\<close>

section \<open>Errors name a field\<close>

text \<open>The error of a decoder is one of the contract, or there is none.\<close>

definition contractOnly :: "'a live \<Rightarrow> bool" where
  "contractOnly r = (case r of Inl (LiveDataContractError _) \<Rightarrow> True | Inl _ \<Rightarrow> False | Inr _ \<Rightarrow> True)"

named_theorems contract

lemma contract_Inr [contract]: "contractOnly (Inr x)"
  and contract_Inl [contract]: "contractOnly (Inl (LiveDataContractError f))"
  by (simp_all add: contractOnly_def)

lemma contract_bind [contract]: "contractOnly r \<Longrightarrow> (\<And>x. contractOnly (f x)) \<Longrightarrow> contractOnly (bindE r f)"
  by (cases r) (simp_all add: contractOnly_def split: LiveError.splits)

lemma contract_guard [contract]: "contractOnly (guardE ok f)"
  by (simp add: guardE_def contractOnly_def)

lemma contract_if [contract]: "contractOnly r \<Longrightarrow> contractOnly s \<Longrightarrow> contractOnly (if b then r else s)"
  by simp

lemma contract_option [contract]:
  "contractOnly r \<Longrightarrow> (\<And>x. contractOnly (f x)) \<Longrightarrow> contractOnly (case v of None \<Rightarrow> r | Some x \<Rightarrow> f x)"
  by (cases v) simp_all

lemma contract_mapE_from: "(\<And>i x. contractOnly (f i x)) \<Longrightarrow> contractOnly (mapE_from k f xs)"
  by (induction xs arbitrary: k) (auto intro!: contract)

lemma contract_mapE [contract]: "(\<And>i x. contractOnly (f i x)) \<Longrightarrow> contractOnly (mapE f xs)"
  by (simp add: mapE_def contract_mapE_from)

lemma contract_string [contract]: "contractOnly (requireString r k f)"
  by (simp add: requireString_def Let_def contractOnly_def)

lemma contract_stringField [contract]: "contractOnly (requireStringField r k f)"
  by (simp add: requireStringField_def contractOnly_def split: jsval.splits)

lemma contract_number [contract]: "contractOnly (requireNumber r k f)"
  by (simp add: requireNumber_def contractOnly_def split: option.splits)

lemma contract_boolean [contract]: "contractOnly (requireBoolean r k f)"
  by (simp add: requireBoolean_def contractOnly_def split: option.splits)

lemma contract_items [contract]: "contractOnly (requireItems v f)"
  by (simp add: requireItems_def contractOnly_def split: jsval.splits)

lemma contract_optionalItems [contract]: "contractOnly (readOptionalItems v f)"
  by (simp add: readOptionalItems_def contract)

lemma contract_usd [contract]: "contractOnly (quotaUnitsToUsd q u)"
  by (simp add: quotaUnitsToUsd_def contractOnly_def split: jsnum.splits)

lemma contract_parseRecord [contract]: "contractOnly (parseRecord p v f)"
  by (simp add: parseRecord_def contractOnly_def split: jsval.splits option.splits)

lemma contract_parseOptional [contract]: "contractOnly (parseOptionalRecord p v f)"
  by (simp add: parseOptionalRecord_def contractOnly_def split: jsval.splits option.splits)

lemma contract_parseList [contract]: "contractOnly (parseList p v f)"
  by (simp add: parseList_def contractOnly_def split: jsval.splits option.splits)

lemma contract_taskCreated [contract]:
  "contractOnly r \<Longrightarrow> contractOnly (case v of Some q \<Rightarrow> Inr q | None \<Rightarrow> r)"
  by (cases v) (simp_all add: contract)

text \<open>The decoders of the entries of a list.\<close>

lemma contract_mapApiKey [contract]: "contractOnly (mapApiKey v u)"
  unfolding mapApiKey_def Let_def by (intro contract)

lemma contract_mapTask [contract]: "contractOnly (mapLiveTaskRecord env t v u)"
  unfolding mapLiveTaskRecord_def Let_def by (intro contract)

lemma contract_mapAccountActivity [contract]: "contractOnly (mapAccountActivity env v)"
  unfolding mapAccountActivity_def Let_def activityTypeOf_def activityParameters_def
  by (intro contract) (simp add: contractOnly_def split: jsval.splits)

lemma contract_mapLedger [contract]: "contractOnly (mapBillingLedgerEntry env v)"
  unfolding mapBillingLedgerEntry_def Let_def by (intro contract)

lemma contract_mapTransaction [contract]: "contractOnly (mapBillingTransaction v)"
  unfolding mapBillingTransaction_def Let_def transactionStatus_def by (intro contract)

lemma contract_mapLoginSession [contract]: "contractOnly (mapLoginSession v)"
  unfolding mapLoginSession_def Let_def by (intro contract)

lemma contract_mapActivity [contract]: "contractOnly (mapActivity env v)"
  unfolding mapActivity_def Let_def by (intro contract)

lemma contract_surcharge [contract]: "contractOnly (mapSurcharge i v)"
  unfolding mapSurcharge_def Let_def by (intro contract)

lemma contract_streamErrors [contract]: "contractOnly (streamErrors v)"
  by (simp add: streamErrors_def contractOnly_def split: jsval.splits)

lemma contract_mapRequestLog [contract]: "contractOnly (mapRequestLog env v)"
  unfolding mapRequestLog_def Let_def by (intro contract)

lemma contract_priced [contract]: "contractOnly (priced a u)"
  unfolding priced_def by (intro contract)

lemma contract_mapPriced [contract]: "contractOnly (mapPricedRequestLog env v u)"
  unfolding mapPricedRequestLog_def Let_def by (intro contract)

section \<open>Pages\<close>

text \<open>A decoder of entries, as the pages use it: it fails with errors of the contract only.  Then a page is read in full
  or not at all.\<close>

lemma mapE_from_eq: "mapE_from i (\<lambda>_. f) xs = Inr ys \<longleftrightarrow> map f xs = map Inr ys"
proof (induction xs arbitrary: i ys)
  case (Cons x xs)
  then show ?case by (cases ys) (auto simp: bindE_Inr)
qed auto

lemma mapE_eq: "mapE (\<lambda>_. f) xs = Inr ys \<longleftrightarrow> map f xs = map Inr ys"
  by (simp add: mapE_def mapE_from_eq)

locale entry_decoder =
  fixes decode :: "jsval \<Rightarrow> 'a live"
  assumes decode_contract: "contractOnly (decode v)"
begin

lemma page_contract: "contractOnly (mapPaginatedResult v decode)"
  unfolding mapPaginatedResult_def Let_def by (intro contract decode_contract)

lemma page_exact:
  "(\<exists>p. mapPaginatedResult v decode = Inr p \<and> page_items p = ys) \<longleftrightarrow>
   (\<exists>raw. requireItems v (js ''pagination.items'') = Inr raw \<and> map decode raw = map Inr ys) \<and>
   (\<forall>k \<in> {''page'', ''page_size'', ''total''}. readOptionalNumber (asRecord v) k \<noteq> None)"
  by (auto simp: mapPaginatedResult_def Let_def bindE_Inr mapE_eq requireNumber_def split: option.splits)

end

text \<open>What it means that pages of some kind of entry are decoded completely or refused.\<close>

definition completePages :: "(jsval \<Rightarrow> 'a live) \<Rightarrow> bool" where
  "completePages decode \<longleftrightarrow> (\<forall>v.
     contractOnly (mapPaginatedResult v decode) \<and>
     (\<forall>ys. (\<exists>p. mapPaginatedResult v decode = Inr p \<and> page_items p = ys) \<longleftrightarrow>
       (\<exists>raw. requireItems v (js ''pagination.items'') = Inr raw \<and> map decode raw = map Inr ys) \<and>
       (\<forall>k \<in> {''page'', ''page_size'', ''total''}. readOptionalNumber (asRecord v) k \<noteq> None)))"

context entry_decoder
begin

lemma complete: "completePages decode"
  using page_contract page_exact by (simp add: completePages_def)

end

interpretation keys: entry_decoder "\<lambda>v. mapApiKey v u" for u by unfold_locales (rule contract)
interpretation tasks: entry_decoder "\<lambda>v. mapLiveTaskRecord env t v u" for env t u by unfold_locales (rule contract)
interpretation activity: entry_decoder "mapAccountActivity env" for env by unfold_locales (rule contract)
interpretation transactions: entry_decoder mapBillingTransaction by unfold_locales (rule contract)

text \<open>C15. A page of API keys, tasks, account activity or transactions is read completely or refused: it is accepted
  exactly when the answer has a list all of whose entries decode and the three numbers of the page, its items are then the
  decoded entries in order, and a refusal always names a field of the contract.\<close>

theorem live_pages:
  "completePages (\<lambda>v. mapApiKey v u) \<and> completePages (\<lambda>v. mapLiveTaskRecord env t v u) \<and>
   completePages (mapAccountActivity env) \<and> completePages mapBillingTransaction"
  by (intro conjI keys.complete tasks.complete activity.complete transactions.complete)

theorem live_pages_witness:
  "\<exists>p. mapPaginatedResult (JObj [(js ''items'', JArr []), (js ''page'', JNum (Num 1)), (js ''page_size'', JNum (Num 20)), (js ''total'', JNum (Num 0))])
      mapBillingTransaction = Inr p \<and> page_items p = []"
proof -
  have "completePages mapBillingTransaction" using live_pages by blast
  then show ?thesis by (simp add: completePages_def requireItems_def asRecord_def readOptionalNumber_def missing_def toNumber_def)
qed

end
