(* ===== verification/LiveSessionProofs.thy ===== *)
theory LiveSessionProofs
  imports LiveAuth
begin

text \<open>
  The session of the live data layer as a state machine.  Every operation that touches the session has one of three
  effects: none, the end of the session, or a new session with an access token.  From this contract follows that the API
  client always sends exactly the token of the current session.
\<close>

section \<open>The contract of an operation on the session\<close>

definition hasToken :: "LiveConsoleSession \<Rightarrow> bool" where
  "hasToken s \<longleftrightarrow> (\<exists>t. t \<noteq> [] \<and> ses_accessToken s = Some t)"

definition tokenAgrees :: "LiveState \<Rightarrow> bool" where
  "tokenAgrees st = (case currentSession st of
     None \<Rightarrow> clientToken st = None | Some s \<Rightarrow> hasToken s \<and> clientToken st = ses_accessToken s)"

lemma tokenAgrees_clear [simp]: "tokenAgrees (clearLiveSession st)"
  by (simp add: tokenAgrees_def clearLiveSession_def)

lemma tokenAgrees_set [simp]: "tokenAgrees (setLiveSession s st) \<longleftrightarrow> hasToken s"
  by (simp add: tokenAgrees_def setLiveSession_def)

locale session_operation =
  fixes run :: "LiveState \<Rightarrow> LiveState \<times> 'r"
  assumes effect: "run st = (st', r) \<Longrightarrow> st' = st \<or> st' = clearLiveSession st \<or> (\<exists>s. hasToken s \<and> st' = setLiveSession s st)"
begin

lemma keeps_agreement: "tokenAgrees st \<Longrightarrow> tokenAgrees (fst (run st))"
  using effect [of st "fst (run st)" "snd (run st)"]
  by auto

end

lemma requireString_nonempty: "requireString r k f = Inr s \<Longrightarrow> s \<noteq> []"
  by (auto simp: requireString_def Let_def split: if_splits)

lemma readText_nonempty: "readText r k = Some s \<Longrightarrow> s \<noteq> []"
  by (auto simp: readText_def Let_def split: if_splits)

lemma bundleSession_token: "bundleSession dp v = Inr s \<Longrightarrow> hasToken s"
  by (auto simp: bundleSession_def Let_def bindE_Inr hasToken_def dest: requireString_nonempty)

lemma rotatedSession_token: "rotatedSession v st = Inr s \<Longrightarrow> hasToken s"
  by (auto simp: rotatedSession_def Let_def bindE_Inr hasToken_def dest: readText_nonempty split: option.splits)

lemma storeSession_effect:
  "storeSession r st = (st', x) \<Longrightarrow> (\<And>s. r = Inr s \<Longrightarrow> hasToken s) \<Longrightarrow> st' = st \<or> (\<exists>s. hasToken s \<and> st' = setLiveSession s st)"
  by (auto simp: storeSession_def split: sum.splits)

lemma signedIn_effect:
  "signedIn dp net rq st = (st', r) \<Longrightarrow> st' = st \<or> (\<exists>s. hasToken s \<and> st' = setLiveSession s st)"
  unfolding signedIn_def by (erule storeSession_effect) (auto simp: bindE_Inr dest: bundleSession_token)

lemma securityResult_effect:
  "securityResult env dp net v st = (st', r) \<Longrightarrow> st' = st \<or> (\<exists>s. hasToken s \<and> st' = setLiveSession s st)"
  by (auto simp: securityResult_def liveAuthRotation_def split: prod.splits sum.splits
      dest!: storeSession_effect rotatedSession_token)

lemma securityChange_effect:
  "securityChange env dp net rq st = (st', r) \<Longrightarrow> st' = st \<or> (\<exists>s. hasToken s \<and> st' = setLiveSession s st)"
  by (auto simp: securityChange_def split: sum.splits dest!: securityResult_effect)

lemma finishPasskey_effect:
  "finishPasskey env dp auth net p st = (st', r) \<Longrightarrow> st' = st \<or> (\<exists>s. hasToken s \<and> st' = setLiveSession s st)"
  by (auto simp: finishPasskey_def Let_def split: sum.splits dest!: securityChange_effect)

section \<open>The operations\<close>

interpretation refresh: session_operation "liveGetSession dp net ign" for dp net ign
proof unfold_locales
  fix st st' r
  assume run: "liveGetSession dp net ign st = (st', r)"
  obtain st1 x where s: "storeSession (bindE (fetched net st (refreshRequest ign st)) (bundleSession dp)) st = (st1, x)"
    by (cases "storeSession (bindE (fetched net st (refreshRequest ign st)) (bundleSession dp)) st")
  have "st1 = st \<or> (\<exists>s. hasToken s \<and> st1 = setLiveSession s st)"
    using s by (rule storeSession_effect) (auto simp: bindE_Inr dest: bundleSession_token)
  moreover have "st1 = st" if "x = Inl e" for e
    using s that by (auto simp: storeSession_def split: sum.splits)
  ultimately show "st' = st \<or> st' = clearLiveSession st \<or> (\<exists>s. hasToken s \<and> st' = setLiveSession s st)"
    using run s by (auto simp: liveGetSession_def split: sum.splits if_splits)
qed

interpretation logout: session_operation "liveSignOut net session" for net session
  by unfold_locales (auto simp: liveSignOut_def split: sum.splits)

interpretation oauth: session_operation "completeOAuthLogin dp enc net inp" for dp enc net inp
  by unfold_locales (auto simp: completeOAuthLogin_def split: option.splits dest!: signedIn_effect)

interpretation login: session_operation "liveSignIn dp net name password turnstile" for dp net name password turnstile
proof unfold_locales
  fix st st' r
  assume run: "liveSignIn dp net name password turnstile st = (st', r)"
  have "st' = st \<or> (\<exists>s. hasToken s \<and> st' = setLiveSession s st)"
  proof (cases "fetched net st (signInRequest name password turnstile)")
    case (Inr data)
    obtain st1 x where s: "storeSession (bundleSession dp data) st = (st1, x)" by (cases "storeSession (bundleSession dp data) st")
    have "st1 = st \<or> (\<exists>s. hasToken s \<and> st1 = setLiveSession s st)"
      using s by (rule storeSession_effect) (rule bundleSession_token)
    then show ?thesis using run s Inr by (auto simp: liveSignIn_def split: jsval.splits bool.splits if_splits)
  qed (use run in \<open>auto simp: liveSignIn_def\<close>)
  then show "st' = st \<or> st' = clearLiveSession st \<or> (\<exists>s. hasToken s \<and> st' = setLiveSession s st)" by blast
qed

interpretation second_factor: session_operation "liveVerifyTwoFactorLogin dp net code flow" for dp net code flow
  by unfold_locales (auto simp: liveVerifyTwoFactorLogin_def dest!: signedIn_effect)

interpretation passkey: session_operation "liveSignInWithPasskey dp net auth" for dp net auth
  by unfold_locales (auto simp: liveSignInWithPasskey_def Let_def split: option.splits sum.splits prod.splits dest!: signedIn_effect)

interpretation wallet: session_operation "liveCompleteEVMWalletAuth dp net flow sig" for dp net flow sig
  by unfold_locales (auto simp: liveCompleteEVMWalletAuth_def dest!: signedIn_effect)

interpretation change: session_operation "securityChange env dp net rq" for env dp net rq
  by unfold_locales (auto dest!: securityChange_effect)

interpretation backup: session_operation "liveRegenerateTwoFactorBackupCodes env dp net code" for env dp net code
  by unfold_locales (auto simp: liveRegenerateTwoFactorBackupCodes_def split: sum.splits prod.splits dest!: securityResult_effect)

interpretation register: session_operation "liveRegisterPasskey env dp auth net code" for env dp auth net code
  by unfold_locales (auto simp: liveRegisterPasskey_def split: option.splits sum.splits dest!: finishPasskey_effect)

interpretation unregister: session_operation "liveRemovePasskey env dp auth net code" for env dp auth net code
  by unfold_locales (auto simp: liveRemovePasskey_def split: option.splits sum.splits dest!: securityChange_effect)

section \<open>Reachable states\<close>

inductive live_step :: "LiveState \<Rightarrow> LiveState \<Rightarrow> bool" where
  clear: "live_step st (clearLiveSession st)"
| refresh: "live_step st (fst (liveGetSession dp net ign st))"
| logout: "live_step st (fst (liveSignOut net session st))"
| oauth: "live_step st (fst (completeOAuthLogin dp enc net inp st))"
| login: "live_step st (fst (liveSignIn dp net name password turnstile st))"
| second_factor: "live_step st (fst (liveVerifyTwoFactorLogin dp net code flow st))"
| passkey: "live_step st (fst (liveSignInWithPasskey dp net auth st))"
| wallet: "live_step st (fst (liveCompleteEVMWalletAuth dp net flow sig st))"
| change_password: "live_step st (fst (liveChangePassword env dp net old new st))"
| enable: "live_step st (fst (liveEnableTwoFactor env dp net code st))"
| disable: "live_step st (fst (liveDisableTwoFactor env dp net code st))"
| backup: "live_step st (fst (liveRegenerateTwoFactorBackupCodes env dp net code st))"
| register: "live_step st (fst (liveRegisterPasskey env dp auth net factor st))"
| unregister: "live_step st (fst (liveRemovePasskey env dp auth net factor st))"
| bind_wallet: "live_step st (fst (liveCompleteEVMWalletBinding env dp net p flow sig st))"
| remove_wallet: "live_step st (fst (liveRemoveEVMWallet env dp net p st))"
| set_password: "live_step st (fst (liveCompleteEVMWalletPasswordSetup env dp net flow sig password st))"

inductive live_reach :: "LiveState \<Rightarrow> bool" where
  initial: "live_reach initialLive"
| step: "live_reach st \<Longrightarrow> live_step st st' \<Longrightarrow> live_reach st'"

lemmas change_defs = liveChangePassword_def liveEnableTwoFactor_def liveDisableTwoFactor_def liveCompleteEVMWalletBinding_def liveRemoveEVMWallet_def
  liveCompleteEVMWalletPasswordSetup_def

lemmas operations_agree = refresh.keeps_agreement logout.keeps_agreement oauth.keeps_agreement login.keeps_agreement
  second_factor.keeps_agreement passkey.keeps_agreement wallet.keeps_agreement change.keeps_agreement backup.keeps_agreement
  register.keeps_agreement unregister.keeps_agreement

lemma step_agrees: "live_step st st' \<Longrightarrow> tokenAgrees st \<Longrightarrow> tokenAgrees st'"
  by (cases rule: live_step.cases, assumption)
    (simp_all add: operations_agree change_defs)

lemma reach_agrees: "live_reach st \<Longrightarrow> tokenAgrees st"
  by (induction rule: live_reach.induct) (simp add: tokenAgrees_def initialLive_def, rule step_agrees)

section \<open>Properties\<close>

text \<open>A session bundle as the server sends it, and a network that gives one answer to every call.\<close>

definition liveSampleUser :: jsval where
  "liveSampleUser = JObj [(js ''id'', JNum (Num 7)), (js ''username'', JStr (js ''ada'')), (js ''has_password'', JBool True),
     (js ''group'', JStr (js ''default'')), (js ''role'', JNum (Num 1)), (js ''quota'', JNum (Num 500)), (js ''used_quota'', JNum (Num 20)),
     (js ''request_count'', JNum (Num 3))]"

definition liveSampleBundle :: jsval where
  "liveSampleBundle = JObj [(js ''user'', liveSampleUser), (js ''access_token'', JStr (js ''tok'')), (js ''access_expires_at'', JNum (Num 900)),
     (js ''session'', JObj [(js ''sid'', JStr (js ''s1''))])]"

definition answering :: "nat \<Rightarrow> jsval \<Rightarrow> network" where
  "answering status v c = Some \<lparr>response_status = status, response_json = Some v, response_header = None\<rparr>"

definition sampleAnswer :: network where
  "sampleAnswer = answering 200 (JObj [(js ''success'', JBool True), (js ''data'', liveSampleBundle)])"

definition sampleSession :: LiveConsoleSession where
  "sampleSession = \<lparr>ses_user = \<lparr>usr_id = 7, usr_username = js ''ada'', usr_usernameEditable = False, usr_passwordSet = True,
       usr_displayName = js ''ada'', usr_email = [], usr_group = js ''default'', usr_role = 1, usr_quotaUnits = 500,
       usr_usedQuotaUnits = 20, usr_requestCount = 3, usr_createdAt = None\<rparr>,
     ses_accessToken = Some (js ''tok''), ses_accessExpiresAt = Some 900, ses_sessionId = Some (js ''s1'')\<rparr>"

lemmas reader_defs = requireString_def requireNumber_def requireBoolean_def readString_def readText_def readOptionalNumber_def
  readOptionalBoolean_def missing_def toNumber_def asRecord_def Let_def

lemma sample_bundle: "bundleSession (\<lambda>_. None) liveSampleBundle = Inr sampleSession"
  by (simp add: bundleSession_def liveSampleBundle_def liveSampleUser_def sampleSession_def mapLiveUser_def reader_defs readUnixTime_def
      trim_js is_ws_of_char)

lemma answering_fetched:
  "200 \<le> n \<Longrightarrow> n \<le> 299 \<Longrightarrow> fetched (answering n (JObj [(js ''success'', JBool True), (js ''data'', v)])) st rq = Inr v"
  by (simp add: fetched_def request_def fetchJson_def answering_def response_ok_def)

lemma sample_login: "liveVerifyTwoFactorLogin (\<lambda>_. None) sampleAnswer code flow st = (setLiveSession sampleSession st, Inr sampleSession)"
  by (simp add: liveVerifyTwoFactorLogin_def signedIn_def sampleAnswer_def answering_fetched sample_bundle storeSession_def)

lemma sample_reach: "live_reach (setLiveSession sampleSession initialLive)"
  using live_reach.step [OF live_reach.initial live_step.second_factor [of initialLive "\<lambda>_. None" sampleAnswer "[]" "[]"]]
  by (simp add: sample_login)

text \<open>C3. In every state that the console can reach the API client holds exactly the access token of the current
  session: an authenticated request carries this token and nothing else, one that is marked as public carries none, and
  without a session no request is authorized.\<close>

theorem live_session_token:
  assumes "live_reach st" and "map_of (headers rq) (js ''Authorization'') = None"
  shows "authorization (fetchCall (clientToken st) rq) =
      (if authenticated rq then map_option (\<lambda>t. js ''Bearer '' @ t) (Option.bind (currentSession st) ses_accessToken) else None)
    \<and> (currentSession st = None \<longleftrightarrow> clientToken st = None)"
  using reach_agrees [OF assms(1)] fetchCall_authorization [OF assms(2), of "clientToken st"]
  by (auto simp: tokenAgrees_def hasToken_def split: option.splits)

theorem live_session_token_witness:
  "authorization (fetchCall (clientToken (setLiveSession sampleSession initialLive)) (call GET ''/api/user/self'' JUndef)) = Some (js ''Bearer '' @ js ''tok'')
   \<and> authorization (fetchCall (clientToken (setLiveSession sampleSession initialLive)) (public (call GET ''/api/status'' JUndef))) = None"
  using live_session_token [OF sample_reach, of "call GET ''/api/user/self'' JUndef"]
    live_session_token [OF sample_reach, of "public (call GET ''/api/status'' JUndef)"]
  by (simp add: call_def public_def setLiveSession_def sampleSession_def)

text \<open>C12. When the server answers a refresh with 401 or 403 the session ends, unless the body of the answer is the JSON
  value null: then reading the body fails, the error reaches the caller and the session stays as it was.\<close>

theorem refresh_refused:
  assumes "net (fetchCall (clientToken st) (refreshRequest ign st)) = Some response"
    and "response_status response = 401 \<or> response_status response = 403"
  shows "liveGetSession dp net ign st =
    (if response_json response = Some JNull then (st, Inl NullTypeError) else (clearLiveSession st, Inr None))"
proof -
  have bad: "\<not> response_ok response" using assms(2) by (auto simp: response_ok_def)
  show ?thesis
  proof (cases "response_json response")
    case None
    then show ?thesis using assms
      by (auto simp: liveGetSession_def fetched_def request_def fetchJson_def storeSession_def refused_def)
  next
    case (Some v)
    then show ?thesis using assms bad
      by (auto simp: liveGetSession_def fetched_def request_def fetchJson_def storeSession_def refused_def)
  qed
qed

theorem refresh_refused_witness:
  "liveGetSession (\<lambda>_. None) (answering 401 JNull) False (setLiveSession sampleSession initialLive) =
     (setLiveSession sampleSession initialLive, Inl NullTypeError)
   \<and> liveGetSession (\<lambda>_. None) (answering 401 (JObj [])) False (setLiveSession sampleSession initialLive) =
     (clearLiveSession (setLiveSession sampleSession initialLive), Inr None)"
  using refresh_refused [of "answering 401 JNull" "setLiveSession sampleSession initialLive" False _ "\<lambda>_. None"]
    refresh_refused [of "answering 401 (JObj [])" "setLiveSession sampleSession initialLive" False _ "\<lambda>_. None"]
  by (simp add: answering_def)

text \<open>A change of the account's security that the server answers with a rotated token keeps the user of the
  session, puts the new token in force before the account is read again, and keeps it in force when that reading fails.\<close>

lemma rotation_in_force:
  assumes "fetched net st rq = Inr data" and "rotatedSession data st = Inr s"
  shows "fst (securityChange env dp net rq st) = setLiveSession s st"
    and "snd (securityChange env dp net rq st) =
      bindE (getAccountData env dp net (setLiveSession s st)) (\<lambda>a. Inr (a, s))"
    and "\<exists>s0. currentSession st = Some s0 \<and> ses_user s = ses_user s0"
    and "\<exists>t. t \<noteq> [] \<and> get_prop (asRecord data) (js ''access_token'') = JStr t \<and> clientToken (setLiveSession s st) = Some t"
proof -
  show "fst (securityChange env dp net rq st) = setLiveSession s st"
    "snd (securityChange env dp net rq st) = bindE (getAccountData env dp net (setLiveSession s st)) (\<lambda>a. Inr (a, s))"
    by (simp_all add: securityChange_def assms securityResult_def liveAuthRotation_def storeSession_def)
  show "\<exists>s0. currentSession st = Some s0 \<and> ses_user s = ses_user s0"
    "\<exists>t. t \<noteq> [] \<and> get_prop (asRecord data) (js ''access_token'') = JStr t \<and> clientToken (setLiveSession s st) = Some t"
    using assms(2)
    by (auto simp: rotatedSession_def Let_def bindE_Inr readText_def readString_def setLiveSession_def
        split: option.splits if_splits jsval.splits)
qed

end
