(* ===== verification/AccountServer.thy ===== *)
theory AccountServer
  imports LiveContract
begin

text \<open>
  Two handlers of the Go server that the console talks to: changing an API key, \<open>UpdateToken\<close> in
  \<open>src/controller/token.go\<close> with the parts of \<open>src/model/token.go\<close> it uses, and the user's settings,
  \<open>GetUserSetting\<close> and \<open>UpdateUserSetting\<close> in \<open>src/controller/user.go\<close>.  A body is the JSON value that was sent; the
  answer is the \<open>data\<close> of the envelope.  The database is the list of tokens or the record of settings, and its failures
  are left out.  Texts have no unpaired surrogates, which JSON cannot transport; keys are ASCII.  Fields of a
  body that a handler does not read are not decoded, and names are matched exactly; the settings that neither handler
  touches (language, sidebar, order of billing) are left out.
\<close>

section \<open>Decoding a body\<close>

datatype ServerError = BadBody | NameTooLong | QuotaNegative | QuotaExceedMax | TokenNotFound | ExpiredCannotEnable
  | ExhaustedCannotEnable | AutoGroupsTooMany | AutoGroupsDuplicate | AutoGroupsInvalid | SettingInvalidType | ThresholdGtZero
  | WebhookEmpty | WebhookInvalid | EmailInvalid | BarkUrlEmpty | BarkUrlInvalid | UrlMustHttp | GotifyUrlEmpty | GotifyTokenEmpty
  | GotifyUrlInvalid

definition bindS :: "ServerError + 'a \<Rightarrow> ('a \<Rightarrow> ServerError + 'b) \<Rightarrow> ServerError + 'b" where
  "bindS r f = (case r of Inl e \<Rightarrow> Inl e | Inr x \<Rightarrow> f x)"

lemma bindS_simps [simp]: "bindS (Inl e) f = Inl e" "bindS (Inr x) f = f x"
  by (simp_all add: bindS_def)

lemma bindS_Inr: "bindS r f = Inr y \<longleftrightarrow> (\<exists>x. r = Inr x \<and> f x = Inr y)"
  by (cases r) simp_all

definition checkS :: "bool \<Rightarrow> ServerError \<Rightarrow> ServerError + unit" where
  "checkS b e = (if b then Inr () else Inl e)"

lemma checkS_Inr [simp]: "checkS b e = Inr x \<longleftrightarrow> b"
  by (simp add: checkS_def)

text \<open>A field that is absent or null leaves the zero value; one of another type fails.\<close>

definition goString :: "jsval \<Rightarrow> string \<Rightarrow> ServerError + jsstring" where
  "goString body k = (case get_prop body (js k) of JStr s \<Rightarrow> Inr s | JUndef \<Rightarrow> Inr [] | JNull \<Rightarrow> Inr [] | _ \<Rightarrow> Inl BadBody)"

definition goStringPointer :: "jsval \<Rightarrow> string \<Rightarrow> ServerError + jsstring option" where
  "goStringPointer body k = (case get_prop body (js k) of JStr s \<Rightarrow> Inr (Some s) | JUndef \<Rightarrow> Inr None | JNull \<Rightarrow> Inr None | _ \<Rightarrow> Inl BadBody)"

definition goBool :: "jsval \<Rightarrow> string \<Rightarrow> ServerError + bool" where
  "goBool body k = (case get_prop body (js k) of JBool b \<Rightarrow> Inr b | JUndef \<Rightarrow> Inr False | JNull \<Rightarrow> Inr False | _ \<Rightarrow> Inl BadBody)"

definition goFloat :: "jsval \<Rightarrow> string \<Rightarrow> ServerError + rat" where
  "goFloat body k = (case get_prop body (js k) of JNum (Num q) \<Rightarrow> Inr q | JUndef \<Rightarrow> Inr 0 | JNull \<Rightarrow> Inr 0 | _ \<Rightarrow> Inl BadBody)"

definition goInt :: "jsval \<Rightarrow> string \<Rightarrow> ServerError + int" where
  "goInt body k = bindS (goFloat body k) (\<lambda>q.
     if of_int \<lfloor>q\<rfloor> = q \<and> - (2 ^ 63) \<le> \<lfloor>q\<rfloor> \<and> \<lfloor>q\<rfloor> < 2 ^ 63 then Inr \<lfloor>q\<rfloor> else Inl BadBody)"

section \<open>Tokens\<close>

record Token =
  tk_id :: int
  tk_userId :: int
  tk_key :: jsstring
  tk_status :: int
  tk_name :: jsstring
  tk_createdTime :: int
  tk_accessedTime :: int
  tk_expiredTime :: int
  tk_remainQuota :: int
  tk_unlimitedQuota :: bool
  tk_modelLimitsEnabled :: bool
  tk_modelLimits :: jsstring
  tk_allowIps :: "jsstring option"
  tk_usedQuota :: int
  tk_group :: jsstring
  tk_crossGroupRetry :: bool
  tk_autoGroups :: "jsstring list"

record TokenRequest =
  tr_id :: int
  tr_status :: int
  tr_name :: jsstring
  tr_expiredTime :: int
  tr_remainQuota :: int
  tr_unlimitedQuota :: bool
  tr_modelLimitsEnabled :: bool
  tr_modelLimits :: jsstring
  tr_allowIps :: "jsstring option"
  tr_group :: jsstring
  tr_crossGroupRetry :: bool
  tr_autoGroups :: "jsstring list option"

text \<open>\<open>auto_groups\<close> is distinguished from an absent field: \<open>Set\<close> is whether there is a value.\<close>

definition autoGroupsInput :: "jsval \<Rightarrow> ServerError + jsstring list option" where
  "autoGroupsInput body = (case get_prop body (js ''auto_groups'') of
     JUndef \<Rightarrow> Inr None
   | JNull \<Rightarrow> Inr (Some [])
   | JArr xs \<Rightarrow>
       (if list_all (\<lambda>x. case x of JStr _ \<Rightarrow> True | JNull \<Rightarrow> True | _ \<Rightarrow> False) xs
        then Inr (Some (map (\<lambda>x. case x of JStr s \<Rightarrow> s | _ \<Rightarrow> []) xs)) else Inl BadBody)
   | _ \<Rightarrow> Inl BadBody)"

definition tokenRequest :: "jsval \<Rightarrow> ServerError + TokenRequest" where
  "tokenRequest body =
     bindS (goInt body ''id'') (\<lambda>i.
     bindS (goInt body ''status'') (\<lambda>s.
     bindS (goString body ''name'') (\<lambda>name.
     bindS (goInt body ''expired_time'') (\<lambda>expired.
     bindS (goInt body ''remain_quota'') (\<lambda>remain.
     bindS (goBool body ''unlimited_quota'') (\<lambda>unlimited.
     bindS (goBool body ''model_limits_enabled'') (\<lambda>limited.
     bindS (goString body ''model_limits'') (\<lambda>limits.
     bindS (goStringPointer body ''allow_ips'') (\<lambda>ips.
     bindS (goString body ''group'') (\<lambda>grp.
     bindS (goBool body ''cross_group_retry'') (\<lambda>retry.
     bindS (autoGroupsInput body) (\<lambda>groups.
     Inr \<lparr>tr_id = i, tr_status = s, tr_name = name, tr_expiredTime = expired, tr_remainQuota = remain, tr_unlimitedQuota = unlimited,
       tr_modelLimitsEnabled = limited, tr_modelLimits = limits, tr_allowIps = ips, tr_group = grp, tr_crossGroupRetry = retry,
       tr_autoGroups = groups\<rparr>))))))))))))"

text \<open>The number of bytes of a text in UTF-8; a pair of surrogates has four.\<close>

definition utf8Length :: "jsstring \<Rightarrow> nat" where
  "utf8Length s = sum_list (map (\<lambda>c. if c < 128 then 1 else if c < 2048 then 2 else if 55296 \<le> c \<and> c \<le> 57343 then 2 else 3) s)"

definition MaskTokenKey :: "jsstring \<Rightarrow> jsstring" where
  "MaskTokenKey key =
     (if key = [] then []
      else if length key \<le> 4 then replicate (length key) 42
      else if length key \<le> 8 then take 2 key @ replicate 4 42 @ drop (length key - 2) key
      else take 4 key @ replicate 10 42 @ drop (length key - 4) key)"

definition goInteger :: "int \<Rightarrow> jsval" where
  "goInteger i = JNum (Num (of_int i))"

definition buildMaskedTokenResponse :: "Token \<Rightarrow> jsval" where
  "buildMaskedTokenResponse t = JObj
     [(js ''id'', goInteger (tk_id t)), (js ''user_id'', goInteger (tk_userId t)), (js ''key'', JStr (MaskTokenKey (tk_key t))),
      (js ''status'', goInteger (tk_status t)), (js ''name'', JStr (tk_name t)), (js ''created_time'', goInteger (tk_createdTime t)),
      (js ''accessed_time'', goInteger (tk_accessedTime t)), (js ''expired_time'', goInteger (tk_expiredTime t)),
      (js ''remain_quota'', goInteger (tk_remainQuota t)), (js ''unlimited_quota'', JBool (tk_unlimitedQuota t)),
      (js ''model_limits_enabled'', JBool (tk_modelLimitsEnabled t)), (js ''model_limits'', JStr (tk_modelLimits t)),
      (js ''allow_ips'', (case tk_allowIps t of Some s \<Rightarrow> JStr s | None \<Rightarrow> JNull)), (js ''used_quota'', goInteger (tk_usedQuota t)),
      (js ''group'', JStr (tk_group t)), (js ''cross_group_retry'', JBool (tk_crossGroupRetry t)), (js ''DeletedAt'', JNull),
      (js ''auto_groups'', (if tk_autoGroups t = [] then JNull else JArr (map JStr (tk_autoGroups t))))]"

text \<open>What the handlers read of the configuration: units of quota per dollar, how many groups a token may name, which
  groups the user may choose, and whether addresses are always recorded.\<close>

record ServerConfig =
  cfg_quotaPerUnit :: rat
  cfg_maxTokenAutoGroups :: nat
  cfg_selectableGroup :: "jsstring \<Rightarrow> bool"
  cfg_alwaysRecordIp :: bool

text \<open>The loop over the groups stops at the first that is repeated or may not be chosen.\<close>

fun checkAutoGroups :: "(jsstring \<Rightarrow> bool) \<Rightarrow> jsstring set \<Rightarrow> jsstring list \<Rightarrow> ServerError + unit" where
  "checkAutoGroups ok seen [] = Inr ()"
| "checkAutoGroups ok seen (g # gs) = (if g \<in> seen then Inl AutoGroupsDuplicate else if \<not> ok g then Inl AutoGroupsInvalid
     else checkAutoGroups ok (insert g seen) gs)"

definition setTokenAutoGroups :: "ServerConfig \<Rightarrow> jsstring list \<Rightarrow> Token \<Rightarrow> ServerError + Token" where
  "setTokenAutoGroups cfg groups t =
     (if groups = [] then Inr (t\<lparr>tk_autoGroups := []\<rparr>)
      else bindS (checkS (length groups \<le> cfg_maxTokenAutoGroups cfg) AutoGroupsTooMany) (\<lambda>_.
        bindS (checkAutoGroups (cfg_selectableGroup cfg) {} groups) (\<lambda>_. Inr (t\<lparr>tk_autoGroups := groups\<rparr>))))"

definition cleanedToken :: "ServerConfig \<Rightarrow> TokenRequest \<Rightarrow> Token \<Rightarrow> ServerError + Token" where
  "cleanedToken cfg rq t =
     (let t' = t\<lparr>tk_name := tr_name rq, tk_expiredTime := tr_expiredTime rq, tk_remainQuota := tr_remainQuota rq,
            tk_unlimitedQuota := tr_unlimitedQuota rq, tk_modelLimitsEnabled := tr_modelLimitsEnabled rq, tk_modelLimits := tr_modelLimits rq,
            tk_allowIps := tr_allowIps rq, tk_group := tr_group rq, tk_crossGroupRetry := tr_crossGroupRetry rq\<rparr> in
      if tr_group rq \<noteq> js ''auto'' then Inr (t'\<lparr>tk_crossGroupRetry := False, tk_autoGroups := []\<rparr>)
      else (case tr_autoGroups rq of Some groups \<Rightarrow> setTokenAutoGroups cfg groups t' | None \<Rightarrow> Inr t'))"

definition getTokenByIds :: "int \<Rightarrow> int \<Rightarrow> Token list \<Rightarrow> ServerError + Token" where
  "getTokenByIds i uid tokens = (if i = 0 \<or> uid = 0 then Inl TokenNotFound
     else (case find (\<lambda>t. tk_id t = i \<and> tk_userId t = uid) tokens of Some t \<Rightarrow> Inr t | None \<Rightarrow> Inl TokenNotFound))"

definition changedToken :: "ServerConfig \<Rightarrow> int \<Rightarrow> int \<Rightarrow> bool \<Rightarrow> jsval \<Rightarrow> Token list \<Rightarrow> ServerError + Token" where
  "changedToken cfg now uid statusOnly body tokens =
     bindS (tokenRequest body) (\<lambda>rq.
     bindS (checkS (utf8Length (tr_name rq) \<le> 50) NameTooLong) (\<lambda>_.
     bindS (checkS (tr_unlimitedQuota rq \<or> 0 \<le> tr_remainQuota rq) QuotaNegative) (\<lambda>_.
     bindS (checkS (tr_unlimitedQuota rq \<or> tr_remainQuota rq \<le> \<lfloor>1000000000 * cfg_quotaPerUnit cfg\<rfloor>) QuotaExceedMax) (\<lambda>_.
     bindS (getTokenByIds (tr_id rq) uid tokens) (\<lambda>t.
     bindS (checkS (\<not> (tr_status rq = 1 \<and> tk_status t = 3 \<and> tk_expiredTime t \<le> now \<and> tk_expiredTime t \<noteq> - 1)) ExpiredCannotEnable) (\<lambda>_.
     bindS (checkS (\<not> (tr_status rq = 1 \<and> tk_status t = 4 \<and> tk_remainQuota t \<le> 0 \<and> \<not> tk_unlimitedQuota t)) ExhaustedCannotEnable) (\<lambda>_.
     if statusOnly then Inr (t\<lparr>tk_status := tr_status rq\<rparr>) else cleanedToken cfg rq t)))))))"

definition UpdateToken :: "ServerConfig \<Rightarrow> int \<Rightarrow> int \<Rightarrow> bool \<Rightarrow> jsval \<Rightarrow> Token list \<Rightarrow> Token list \<times> (ServerError + jsval)" where
  "UpdateToken cfg now uid statusOnly body tokens = (case changedToken cfg now uid statusOnly body tokens of
     Inl e \<Rightarrow> (tokens, Inl e)
   | Inr t \<Rightarrow> (map (\<lambda>x. if tk_id x = tk_id t then t else x) tokens, Inr (buildMaskedTokenResponse t)))"

section \<open>Settings of a user\<close>

record UserSetting =
  us_notifyType :: jsstring
  us_quotaWarningThreshold :: rat
  us_webhookUrl :: jsstring
  us_webhookSecret :: jsstring
  us_notificationEmail :: jsstring
  us_barkUrl :: jsstring
  us_gotifyUrl :: jsstring
  us_gotifyToken :: jsstring
  us_gotifyPriority :: int
  us_upstreamModelUpdateNotify :: bool
  us_recordIpLog :: bool

definition GetUserSetting :: "ServerConfig \<Rightarrow> UserSetting \<Rightarrow> jsval" where
  "GetUserSetting cfg s = JObj
     [(js ''notify_type'', JStr (us_notifyType s)), (js ''quota_warning_threshold'', JNum (Num (us_quotaWarningThreshold s))),
      (js ''webhook_url'', JStr (us_webhookUrl s)), (js ''webhook_secret_configured'', JBool (us_webhookSecret s \<noteq> [])),
      (js ''notification_email'', JStr (us_notificationEmail s)), (js ''bark_url'', JStr (us_barkUrl s)),
      (js ''gotify_url'', JStr (us_gotifyUrl s)), (js ''gotify_token_configured'', JBool (us_gotifyToken s \<noteq> [])),
      (js ''gotify_priority'', goInteger (us_gotifyPriority s)),
      (js ''upstream_model_update_notify_enabled'', JBool (us_upstreamModelUpdateNotify s)),
      (js ''record_ip_forced'', JBool (cfg_alwaysRecordIp cfg)),
      (js ''record_ip_log'', JBool (us_recordIpLog s \<or> cfg_alwaysRecordIp cfg))]"

record UpdateUserSettingRequest =
  ur_notifyType :: jsstring
  ur_quotaWarningThreshold :: rat
  ur_webhookUrl :: jsstring
  ur_webhookSecret :: jsstring
  ur_notificationEmail :: jsstring
  ur_barkUrl :: jsstring
  ur_gotifyUrl :: jsstring
  ur_gotifyToken :: jsstring
  ur_gotifyPriority :: int
  ur_upstreamModelUpdateNotify :: "bool option"
  ur_recordIpLog :: bool

definition goBoolPointer :: "jsval \<Rightarrow> string \<Rightarrow> ServerError + bool option" where
  "goBoolPointer body k = (case get_prop body (js k) of JBool b \<Rightarrow> Inr (Some b) | JUndef \<Rightarrow> Inr None | JNull \<Rightarrow> Inr None | _ \<Rightarrow> Inl BadBody)"

definition settingRequest :: "jsval \<Rightarrow> ServerError + UpdateUserSettingRequest" where
  "settingRequest body =
     bindS (goString body ''notify_type'') (\<lambda>kind.
     bindS (goFloat body ''quota_warning_threshold'') (\<lambda>threshold.
     bindS (goString body ''webhook_url'') (\<lambda>webhook.
     bindS (goString body ''webhook_secret'') (\<lambda>secret.
     bindS (goString body ''notification_email'') (\<lambda>mail.
     bindS (goString body ''bark_url'') (\<lambda>bark.
     bindS (goString body ''gotify_url'') (\<lambda>gotify.
     bindS (goString body ''gotify_token'') (\<lambda>token.
     bindS (goInt body ''gotify_priority'') (\<lambda>priority.
     bindS (goBoolPointer body ''upstream_model_update_notify_enabled'') (\<lambda>upstream.
     bindS (goBool body ''record_ip_log'') (\<lambda>record.
     Inr \<lparr>ur_notifyType = kind, ur_quotaWarningThreshold = threshold, ur_webhookUrl = webhook, ur_webhookSecret = secret,
       ur_notificationEmail = mail, ur_barkUrl = bark, ur_gotifyUrl = gotify, ur_gotifyToken = token, ur_gotifyPriority = priority,
       ur_upstreamModelUpdateNotify = upstream, ur_recordIpLog = record\<rparr>)))))))))))"

text \<open>\<open>strings.TrimSpace\<close> differs from the trimming of the console in two units: next line is a blank, the byte order mark
  is not.\<close>

definition goSpace :: "nat \<Rightarrow> bool" where
  "goSpace c \<longleftrightarrow> c = 133 \<or> is_ws c \<and> c \<noteq> 65279"

definition TrimSpace :: "jsstring \<Rightarrow> jsstring" where
  "TrimSpace s = rev (dropWhile goSpace (rev (dropWhile goSpace s)))"

definition hasHttpPrefix :: "jsstring \<Rightarrow> bool" where
  "hasHttpPrefix s \<longleftrightarrow> startsWith s (js ''https://'') \<or> startsWith s (js ''http://'')"

text \<open>The checks, in the order of the code.  \<open>validUrl\<close> is whether \<open>url.ParseRequestURI\<close> accepts a text.\<close>

definition checkSetting :: "(jsstring \<Rightarrow> bool) \<Rightarrow> UpdateUserSettingRequest \<Rightarrow> jsstring \<Rightarrow> ServerError + unit" where
  "checkSetting validUrl rq gotifyToken =
     (let kind = ur_notifyType rq; webhookUrl = TrimSpace (ur_webhookUrl rq); barkUrl = TrimSpace (ur_barkUrl rq);
          gotifyUrl = TrimSpace (ur_gotifyUrl rq); mail = ur_notificationEmail rq in
      bindS (checkS (kind = js ''webhook'' \<longrightarrow> webhookUrl \<noteq> []) WebhookEmpty) (\<lambda>_.
      bindS (checkS (kind = js ''webhook'' \<longrightarrow> validUrl webhookUrl) WebhookInvalid) (\<lambda>_.
      bindS (checkS (kind = js ''email'' \<and> mail \<noteq> [] \<longrightarrow> 64 \<in> set mail) EmailInvalid) (\<lambda>_.
      bindS (checkS (kind = js ''bark'' \<longrightarrow> barkUrl \<noteq> []) BarkUrlEmpty) (\<lambda>_.
      bindS (checkS (kind = js ''bark'' \<longrightarrow> validUrl barkUrl) BarkUrlInvalid) (\<lambda>_.
      bindS (checkS (kind = js ''bark'' \<longrightarrow> hasHttpPrefix barkUrl) UrlMustHttp) (\<lambda>_.
      bindS (checkS (kind = js ''gotify'' \<longrightarrow> gotifyUrl \<noteq> []) GotifyUrlEmpty) (\<lambda>_.
      bindS (checkS (kind = js ''gotify'' \<longrightarrow> gotifyToken \<noteq> []) GotifyTokenEmpty) (\<lambda>_.
      bindS (checkS (kind = js ''gotify'' \<longrightarrow> validUrl gotifyUrl) GotifyUrlInvalid) (\<lambda>_.
      checkS (kind = js ''gotify'' \<longrightarrow> hasHttpPrefix gotifyUrl) UrlMustHttp))))))))))"

definition keptGotifyToken :: "UpdateUserSettingRequest \<Rightarrow> UserSetting \<Rightarrow> jsstring" where
  "keptGotifyToken rq old = (let t = TrimSpace (ur_gotifyToken rq) in if t = [] then us_gotifyToken old else t)"

text \<open>The fields that belong to one channel change only when the channel is chosen.\<close>

definition withWebhook :: "UpdateUserSettingRequest \<Rightarrow> UserSetting \<Rightarrow> UserSetting" where
  "withWebhook rq s = (if ur_notifyType rq = js ''webhook''
     then s\<lparr>us_webhookUrl := TrimSpace (ur_webhookUrl rq),
       us_webhookSecret := (if ur_webhookSecret rq \<noteq> [] then ur_webhookSecret rq else us_webhookSecret s)\<rparr> else s)"

definition withEmail :: "UpdateUserSettingRequest \<Rightarrow> UserSetting \<Rightarrow> UserSetting" where
  "withEmail rq s = (if ur_notifyType rq = js ''email'' \<and> ur_notificationEmail rq \<noteq> []
     then s\<lparr>us_notificationEmail := ur_notificationEmail rq\<rparr> else s)"

definition withBark :: "UpdateUserSettingRequest \<Rightarrow> UserSetting \<Rightarrow> UserSetting" where
  "withBark rq s = (if ur_notifyType rq = js ''bark'' then s\<lparr>us_barkUrl := TrimSpace (ur_barkUrl rq)\<rparr> else s)"

definition withGotify :: "UpdateUserSettingRequest \<Rightarrow> jsstring \<Rightarrow> UserSetting \<Rightarrow> UserSetting" where
  "withGotify rq gotifyToken s = (if ur_notifyType rq = js ''gotify''
     then s\<lparr>us_gotifyUrl := TrimSpace (ur_gotifyUrl rq), us_gotifyToken := gotifyToken,
       us_gotifyPriority := (if ur_gotifyPriority rq < 0 \<or> ur_gotifyPriority rq > 10 then 5 else ur_gotifyPriority rq)\<rparr> else s)"

definition withUpstream :: "bool \<Rightarrow> UpdateUserSettingRequest \<Rightarrow> UserSetting \<Rightarrow> UserSetting" where
  "withUpstream admin rq s = (case ur_upstreamModelUpdateNotify rq of
     Some b \<Rightarrow> if admin then s\<lparr>us_upstreamModelUpdateNotify := b\<rparr> else s | None \<Rightarrow> s)"

definition storedSetting :: "ServerConfig \<Rightarrow> bool \<Rightarrow> UpdateUserSettingRequest \<Rightarrow> UserSetting \<Rightarrow> UserSetting" where
  "storedSetting cfg admin rq old =
     withGotify rq (keptGotifyToken rq old) (withBark rq (withEmail rq (withWebhook rq
       ((withUpstream admin rq old)\<lparr>us_notifyType := ur_notifyType rq, us_quotaWarningThreshold := ur_quotaWarningThreshold rq,
         us_recordIpLog := (ur_recordIpLog rq \<or> cfg_alwaysRecordIp cfg)\<rparr>))))"

lemma withUpstream_keeps [simp]:
  "us_webhookUrl (withUpstream a rq s) = us_webhookUrl s" "us_webhookSecret (withUpstream a rq s) = us_webhookSecret s"
  "us_notificationEmail (withUpstream a rq s) = us_notificationEmail s" "us_barkUrl (withUpstream a rq s) = us_barkUrl s"
  "us_gotifyUrl (withUpstream a rq s) = us_gotifyUrl s" "us_gotifyToken (withUpstream a rq s) = us_gotifyToken s"
  "us_gotifyPriority (withUpstream a rq s) = us_gotifyPriority s"
  by (simp_all add: withUpstream_def split: option.split)

text \<open>What a stored setting holds, field by field.\<close>

lemma storedSetting_fields:
  "us_notifyType (storedSetting cfg admin rq old) = ur_notifyType rq"
  "us_quotaWarningThreshold (storedSetting cfg admin rq old) = ur_quotaWarningThreshold rq"
  "us_recordIpLog (storedSetting cfg admin rq old) = (ur_recordIpLog rq \<or> cfg_alwaysRecordIp cfg)"
  "us_webhookUrl (storedSetting cfg admin rq old) = (if ur_notifyType rq = js ''webhook'' then TrimSpace (ur_webhookUrl rq) else us_webhookUrl old)"
  "us_webhookSecret (storedSetting cfg admin rq old) =
     (if ur_notifyType rq = js ''webhook'' \<and> ur_webhookSecret rq \<noteq> [] then ur_webhookSecret rq else us_webhookSecret old)"
  "us_notificationEmail (storedSetting cfg admin rq old) =
     (if ur_notifyType rq = js ''email'' \<and> ur_notificationEmail rq \<noteq> [] then ur_notificationEmail rq else us_notificationEmail old)"
  "us_barkUrl (storedSetting cfg admin rq old) = (if ur_notifyType rq = js ''bark'' then TrimSpace (ur_barkUrl rq) else us_barkUrl old)"
  "us_gotifyUrl (storedSetting cfg admin rq old) = (if ur_notifyType rq = js ''gotify'' then TrimSpace (ur_gotifyUrl rq) else us_gotifyUrl old)"
  "us_gotifyToken (storedSetting cfg admin rq old) = (if ur_notifyType rq = js ''gotify'' then keptGotifyToken rq old else us_gotifyToken old)"
  "us_gotifyPriority (storedSetting cfg admin rq old) = (if ur_notifyType rq \<noteq> js ''gotify'' then us_gotifyPriority old
     else if ur_gotifyPriority rq < 0 \<or> ur_gotifyPriority rq > 10 then 5 else ur_gotifyPriority rq)"
  by (simp_all add: storedSetting_def withGotify_def withBark_def withEmail_def withWebhook_def)

definition UpdateUserSetting :: "ServerConfig \<Rightarrow> (jsstring \<Rightarrow> bool) \<Rightarrow> bool \<Rightarrow> jsval \<Rightarrow> UserSetting \<Rightarrow> ServerError + UserSetting" where
  "UpdateUserSetting cfg validUrl admin body old =
     bindS (settingRequest body) (\<lambda>rq.
     bindS (checkS (ur_notifyType rq \<in> {js ''email'', js ''webhook'', js ''bark'', js ''gotify''}) SettingInvalidType) (\<lambda>_.
     bindS (checkS (ur_quotaWarningThreshold rq > 0) ThresholdGtZero) (\<lambda>_.
     bindS (checkSetting validUrl rq (keptGotifyToken rq old)) (\<lambda>_.
     Inr (storedSetting cfg admin rq old)))))"

end
