(* ===== verification/LiveKeyProofs.thy ===== *)
theory LiveKeyProofs
  imports LiveOperations LiveSessionProofs AccountServer
begin

text \<open>
  What the live data layer of the console keeps of a value on its way to the server and back: amounts of money, and API
  keys through the handler of the server that changes them; and what it hides of a key.
\<close>

section \<open>Amounts\<close>

text \<open>The nearest whole number of units: at most half a unit away.\<close>

lemma mathRound_close: "2 * \<bar>of_int (mathRound x) - x\<bar> \<le> (1::rat)"
proof -
  have "of_int (mathRound x) \<le> x + 1 / 2" "x + 1 / 2 < of_int (mathRound x) + 1"
    using floor_correct [of "x + 1 / 2"] by (simp_all add: mathRound_def)
  then show ?thesis by (simp add: abs_if)
qed

lemma mathRound_int: "mathRound (of_int n) = n"
  unfolding mathRound_def by (rule floor_unique) simp_all

lemma usdToQuotaUnits_ok:
  assumes "usdToQuotaUnits (Num a) (Num u) f = Inr n"
  shows "0 < u" "0 \<le> a" "n = mathRound (a * u)" "0 \<le> n" "n \<le> maxSafeInteger"
proof -
  show u: "0 < u" and a: "0 \<le> a" and n: "n = mathRound (a * u)" and "n \<le> maxSafeInteger"
    using assms by (auto simp: usdToQuotaUnits_def Let_def split: if_splits)
  have "0 \<le> a * u" using u a by simp
  then show "0 \<le> n" unfolding n mathRound_def by simp
qed

lemma units_close:
  assumes "usdToQuotaUnits (Num a) (Num u) f = Inr n"
  shows "2 * u * \<bar>of_int n / u - a\<bar> \<le> 1"
proof -
  note ok = usdToQuotaUnits_ok [OF assms]
  have "2 * u * \<bar>of_int n / u - a\<bar> = 2 * \<bar>of_int n - a * u\<bar>"
    using ok(1) by (simp add: abs_mult_pos [symmetric] field_simps abs_mult)
  then show ?thesis using mathRound_close [of "a * u"] ok(3) by simp
qed

lemma units_exact: "0 < u \<Longrightarrow> 0 \<le> n \<Longrightarrow> n \<le> maxSafeInteger \<Longrightarrow> usdToQuotaUnits (Num (of_int n / u)) (Num u) f = Inr n"
  by (simp add: usdToQuotaUnits_def mathRound_int Let_def divide_less_0_iff zero_less_divide_iff)

section \<open>Lists of a key\<close>

definition listable :: "nat set \<Rightarrow> jsstring \<Rightarrow> bool" where
  "listable seps s \<longleftrightarrow> s \<noteq> [] \<and> trim s = s \<and> (\<forall>c \<in> seps. c \<notin> set s)"

lemma listedTexts_id: "\<forall>s \<in> set xs. s \<noteq> [] \<and> trim s = s \<Longrightarrow> listedTexts xs = xs"
  by (induction xs) (simp_all add: listedTexts_def)

lemma models_roundtrip: "list_all (listable {44}) xs \<Longrightarrow> listedTexts (split_on 44 (join [44] xs)) = xs"
proof (cases "xs = []")
  case False
  assume "list_all (listable {44}) xs"
  then show ?thesis using False by (simp add: split_on_join listedTexts_id list_all_iff listable_def)
qed (simp add: listedTexts_def)

lemma ips_roundtrip: "list_all (listable {10, 44}) xs \<Longrightarrow> listedTexts (splitIps (join [44] xs)) = xs"
proof (cases "xs = []")
  case False
  assume x: "list_all (listable {10, 44}) xs"
  then have "split_on 44 (join [44] xs) = xs" using False by (simp add: split_on_join list_all_iff listable_def)
  moreover have "map (split_on 10) xs = map (\<lambda>x. [x]) xs" using x by (simp add: list_all_iff listable_def split_on_notin)
  ultimately have "splitIps (join [44] xs) = xs" by (simp only: splitIps_def concat_map_singleton map_ident)
  then show ?thesis using x by (simp add: listedTexts_id list_all_iff listable_def)
qed (simp add: listedTexts_def splitIps_def)

section \<open>Keys\<close>

lemma echoed_number: "get_prop v (js k) = JNum (Num q) \<Longrightarrow> readOptionalNumber v k = Some q"
  by (simp add: readOptionalNumber_def missing_def toNumber_def Let_def)

text \<open>What a token becomes when the handler accepts the fields of a key: its limits are the ones that were sent, and the
  console never asks for automatic groups.\<close>

definition sentToken :: "('a) CreateApiKeyInput_scheme \<Rightarrow> int \<Rightarrow> Token \<Rightarrow> Token" where
  "sentToken inp n t = t\<lparr>tk_name := new_name inp, tk_expiredTime := (case new_expiresAt inp of Some e \<Rightarrow> e | None \<Rightarrow> - 1), tk_remainQuota := n,
     tk_unlimitedQuota := new_unlimitedQuota inp, tk_modelLimitsEnabled := (new_allowedModels inp \<noteq> []),
     tk_modelLimits := join [44] (new_allowedModels inp), tk_allowIps := Some (join [44] (new_allowedIps inp)), tk_group := new_group inp,
     tk_crossGroupRetry := False, tk_autoGroups := []\<rparr>"

lemma goInt_Inr: "goInt b k = Inr i \<Longrightarrow> get_prop b (js k) = JNum (Num (of_int j)) \<Longrightarrow> i = j"
  by (auto simp: goInt_def goFloat_def split: if_splits)

lemma tokenRequest_sent:
  assumes "tokenRequest (JObj ((js ''id'', JNum (Num (of_int i))) # keyFields inp n)) = Inr rq"
  shows "tr_id rq = i \<and> cleanedToken cfg rq t = Inr (sentToken inp n t)"
proof -
  let ?b = "JObj ((js ''id'', JNum (Num (of_int i))) # keyFields inp n)"
  let ?e = "case new_expiresAt inp of Some e \<Rightarrow> e | None \<Rightarrow> - 1"
  have g: "get_prop ?b (js ''id'') = JNum (Num (of_int i))" "get_prop ?b (js ''expired_time'') = JNum (Num (of_int ?e))"
    "get_prop ?b (js ''remain_quota'') = JNum (Num (of_int n))"
    by (simp_all add: keyFields_def)
  have f: "goString ?b ''name'' = Inr (new_name inp)" "goBool ?b ''unlimited_quota'' = Inr (new_unlimitedQuota inp)"
    "goBool ?b ''model_limits_enabled'' = Inr (new_allowedModels inp \<noteq> [])"
    "goString ?b ''model_limits'' = Inr (join [44] (new_allowedModels inp))"
    "goStringPointer ?b ''allow_ips'' = Inr (Some (join [44] (new_allowedIps inp)))" "goString ?b ''group'' = Inr (new_group inp)"
    "goBool ?b ''cross_group_retry'' = Inr False" "autoGroupsInput ?b = Inr (Some [])"
    by (simp_all add: keyFields_def goString_def goBool_def goStringPointer_def autoGroupsInput_def)
  obtain s where "rq = \<lparr>tr_id = i, tr_status = s, tr_name = new_name inp, tr_expiredTime = ?e, tr_remainQuota = n,
      tr_unlimitedQuota = new_unlimitedQuota inp, tr_modelLimitsEnabled = (new_allowedModels inp \<noteq> []),
      tr_modelLimits = join [44] (new_allowedModels inp), tr_allowIps = Some (join [44] (new_allowedIps inp)), tr_group = new_group inp,
      tr_crossGroupRetry = False, tr_autoGroups = Some []\<rparr>"
    using assms goInt_Inr [OF _ g(1)] goInt_Inr [OF _ g(2)] goInt_Inr [OF _ g(3)] unfolding tokenRequest_def f bindS_simps
    by (auto simp: bindS_Inr)
  then show ?thesis by (simp add: cleanedToken_def sentToken_def setTokenAutoGroups_def Let_def)
qed

lemma UpdateToken_sent:
  assumes "UpdateToken cfg now uid False (JObj ((js ''id'', JNum (Num (of_int i))) # keyFields inp n)) db = (db', Inr v)"
  obtains t where "t \<in> set db" "tk_id t = i" "tk_userId t = uid" "v = buildMaskedTokenResponse (sentToken inp n t)"
    "db' = map (\<lambda>x. if tk_id x = i then sentToken inp n t else x) db"
proof -
  let ?b = "JObj ((js ''id'', JNum (Num (of_int i))) # keyFields inp n)"
  obtain t' where t': "changedToken cfg now uid False ?b db = Inr t'" "v = buildMaskedTokenResponse t'"
    "db' = map (\<lambda>x. if tk_id x = tk_id t' then t' else x) db"
    using assms by (auto simp: UpdateToken_def split: sum.splits)
  then obtain rq t where rq: "tokenRequest ?b = Inr rq" "getTokenByIds (tr_id rq) uid db = Inr t" "cleanedToken cfg rq t = Inr t'"
    by (auto simp: changedToken_def bindS_Inr)
  note sent = tokenRequest_sent [OF rq(1), of cfg t]
  then have e: "t' = sentToken inp n t" using rq(3) by simp
  have "find (\<lambda>t. tk_id t = i \<and> tk_userId t = uid) db = Some t"
    using rq(2) sent by (simp add: getTokenByIds_def split: if_splits option.splits)
  then have "t \<in> set db" "tk_id t = i" "tk_userId t = uid" by (auto simp: find_Some_iff)
  then show thesis using that t' e by (simp add: sentToken_def)
qed

lemma masked_visible: "key \<noteq> [] \<Longrightarrow> trim (MaskTokenKey key) \<noteq> []"
proof -
  assume "key \<noteq> []"
  then have "42 \<in> set (MaskTokenKey key)" by (simp add: MaskTokenKey_def)
  moreover have "\<not> is_ws 42" by (simp add: is_ws_def)
  ultimately show ?thesis unfolding trim_eq_Nil by blast
qed

lemma mapApiKey_sent:
  assumes key: "tk_key t \<noteq> []" and u: "0 < u" and name: "trim (new_name inp) = new_name inp" "new_name inp \<noteq> []"
    and lists: "list_all (listable {44}) (new_allowedModels inp)" "list_all (listable {10, 44}) (new_allowedIps inp)"
  shows "\<exists>k. mapApiKey (buildMaskedTokenResponse (sentToken inp n t)) (Num u) = Inr k \<and> lk_id k = of_int (tk_id t)
    \<and> lk_name k = new_name inp \<and> lk_unlimitedQuota k = new_unlimitedQuota inp
    \<and> lk_allowedModels k = new_allowedModels inp \<and> lk_allowedIps k = new_allowedIps inp \<and> lk_group k = trim (new_group inp)
    \<and> lk_expiresAt k = (case new_expiresAt inp of Some t \<Rightarrow> if 0 < t then Some (of_int t) else None | None \<Rightarrow> None)
    \<and> lk_remainingQuotaUsd k = of_int n / u"
proof -
  let ?v = "buildMaskedTokenResponse (sentToken inp n t)"
  have r: "asRecord ?v = ?v" by (simp add: asRecord_def buildMaskedTokenResponse_def)
  have e: "get_prop ?v (js ''remain_quota'') = JNum (Num (of_int n))" "get_prop ?v (js ''id'') = JNum (Num (of_int (tk_id t)))"
    "get_prop ?v (js ''status'') = JNum (Num (of_int (tk_status t)))" "get_prop ?v (js ''used_quota'') = JNum (Num (of_int (tk_usedQuota t)))"
    "get_prop ?v (js ''created_time'') = JNum (Num (of_int (tk_createdTime t)))"
    "get_prop ?v (js ''accessed_time'') = JNum (Num (of_int (tk_accessedTime t)))"
    "get_prop ?v (js ''expired_time'') = JNum (Num (of_int (case new_expiresAt inp of Some t \<Rightarrow> t | None \<Rightarrow> - 1)))"
    "get_prop ?v (js ''unlimited_quota'') = JBool (new_unlimitedQuota inp)"
    "get_prop ?v (js ''model_limits'') = JStr (join [44] (new_allowedModels inp))"
    "get_prop ?v (js ''allow_ips'') = JStr (join [44] (new_allowedIps inp))" "get_prop ?v (js ''group'') = JStr (new_group inp)"
    by (simp_all add: buildMaskedTokenResponse_def sentToken_def goInteger_def)
  have k: "requireString ?v ''key'' f = Inr (trim (MaskTokenKey (tk_key t)))" "requireString ?v ''name'' f = Inr (new_name inp)" for f
    using masked_visible [OF key] name
    by (simp_all add: requireString_def readString_def buildMaskedTokenResponse_def sentToken_def)
  show ?thesis
    using u
    by (auto simp: mapApiKey_def r k requireNumber_def echoed_number e requireStringField_def requireBoolean_def
        readOptionalBoolean_def readString_def quotaUnitsToUsd_def models_roundtrip [OF lists(1)] ips_roundtrip [OF lists(2)] positive_def
        split: option.splits)
qed

text \<open>C13. A key that is changed comes back as it was entered.  When the handler of the server accepts what the console
  sends and its answer reaches the console, the console accepts the answer and shows the key with the same name, limit,
  models, addresses and expiry, and an amount that differs from the one entered by at most half a unit of quota; the key
  belongs to the user, and the other tokens of the server are as they were.  The name has no blanks at its ends; models
  and addresses are not empty, have no blanks at their ends and no separator; stored tokens have a key.\<close>

theorem api_key_roundtrip:
  assumes "getQuotaPerUnit net st = Inr u"
    and "amountUnits (new_unlimitedQuota inp) (new_quotaUsd inp) u ''api_key.remaining_quota_usd'' = Inr n"
    and "UpdateToken cfg now uid False (JObj ((js ''id'', JNum (Num (of_int (upd_id inp)))) # keyFields inp n)) db = (db', Inr v)"
    and "fetched net st (call PUT ''/api/token/'' (JObj ((js ''id'', JNum (Num (of_int (upd_id inp)))) # keyFields inp n))) = Inr v"
    and "list_all (\<lambda>t. tk_key t \<noteq> []) db" and "0 < u"
    and "trim (new_name inp) = new_name inp" "new_name inp \<noteq> []"
    and "list_all (listable {44}) (new_allowedModels inp)" "list_all (listable {10, 44}) (new_allowedIps inp)"
  shows "\<exists>k. liveUpdateApiKey net inp st = Inr k \<and> lk_id k = of_int (upd_id inp)
    \<and> lk_name k = new_name inp \<and> lk_unlimitedQuota k = new_unlimitedQuota inp
    \<and> lk_allowedModels k = new_allowedModels inp \<and> lk_allowedIps k = new_allowedIps inp \<and> lk_group k = trim (new_group inp)
    \<and> lk_expiresAt k = (case new_expiresAt inp of Some t \<Rightarrow> if 0 < t then Some (of_int t) else None | None \<Rightarrow> None)
    \<and> (if new_unlimitedQuota inp then lk_remainingQuotaUsd k = 0
       else 2 * u * \<bar>lk_remainingQuotaUsd k - new_quotaUsd inp\<bar> \<le> 1)
    \<and> (\<exists>t \<in> set db. tk_id t = upd_id inp \<and> tk_userId t = uid)
    \<and> filter (\<lambda>t. tk_id t \<noteq> upd_id inp) db' = filter (\<lambda>t. tk_id t \<noteq> upd_id inp) db"
proof -
  obtain t where t: "t \<in> set db" "tk_id t = upd_id inp" "tk_userId t = uid" "v = buildMaskedTokenResponse (sentToken inp n t)"
    "db' = map (\<lambda>x. if tk_id x = upd_id inp then sentToken inp n t else x) db"
    using UpdateToken_sent [OF assms(3)] .
  then have key: "tk_key t \<noteq> []" using assms(5) by (simp add: list_all_iff)
  obtain k where k: "mapApiKey v (Num u) = Inr k \<and> lk_id k = of_int (tk_id t)
    \<and> lk_name k = new_name inp \<and> lk_unlimitedQuota k = new_unlimitedQuota inp
    \<and> lk_allowedModels k = new_allowedModels inp \<and> lk_allowedIps k = new_allowedIps inp \<and> lk_group k = trim (new_group inp)
    \<and> lk_expiresAt k = (case new_expiresAt inp of Some t \<Rightarrow> if 0 < t then Some (of_int t) else None | None \<Rightarrow> None)
    \<and> lk_remainingQuotaUsd k = of_int n / u"
    using mapApiKey_sent [OF key assms(6-10), of n] t(4) by blast
  have "liveUpdateApiKey net inp st = Inr k" using k by (simp add: liveUpdateApiKey_def assms(1,2,4))
  moreover have "if new_unlimitedQuota inp then lk_remainingQuotaUsd k = 0 else 2 * u * \<bar>lk_remainingQuotaUsd k - new_quotaUsd inp\<bar> \<le> 1"
    using k assms(2) units_close by (auto simp: amountUnits_def)
  moreover have "filter (\<lambda>t. tk_id t \<noteq> upd_id inp) db' = filter (\<lambda>t. tk_id t \<noteq> upd_id inp) db"
    unfolding t(5) using t(2) by (induction db) (simp_all add: sentToken_def)
  ultimately show ?thesis using k t(1-3) by (intro exI [of _ k] conjI) (auto simp del: filter_map)
qed

definition sampleKeyInput :: UpdateApiKeyInput where
  "sampleKeyInput = \<lparr>new_name = js ''ci'', new_expiresAt = Some 1000, new_unlimitedQuota = False, new_quotaUsd = 3 / 2, new_group = js ''default'',
     new_environment = Production, new_allowedModels = [js ''m1'', js ''m2''], new_allowedIps = [js ''10.0.0.1''], upd_id = 4\<rparr>"

definition sampleToken :: "int \<Rightarrow> Token" where
  "sampleToken i = \<lparr>tk_id = i, tk_userId = 7, tk_key = js ''abcdefghijkl'', tk_status = 1, tk_name = js ''old'', tk_createdTime = 10,
     tk_accessedTime = 0, tk_expiredTime = - 1, tk_remainQuota = 5, tk_unlimitedQuota = False, tk_modelLimitsEnabled = False, tk_modelLimits = [],
     tk_allowIps = None, tk_usedQuota = 0, tk_group = js ''default'', tk_crossGroupRetry = False, tk_autoGroups = []\<rparr>"

definition sampleConfig :: ServerConfig where
  "sampleConfig = \<lparr>cfg_quotaPerUnit = 500000, cfg_maxTokenAutoGroups = 5, cfg_selectableGroup = (\<lambda>_. True), cfg_alwaysRecordIp = False\<rparr>"

definition sampleKeyAnswer :: jsval where
  "sampleKeyAnswer = buildMaskedTokenResponse (sentToken sampleKeyInput 750000 (sampleToken 4))"

definition sampleKeyServer :: network where
  "sampleKeyServer c = answering 200 (JObj [(js ''success'', JBool True), (js ''data'',
     (if fetch_path c = js ''/api/status'' then JObj [(js ''quota_per_unit'', JNum (Num 500000))] else sampleKeyAnswer))]) c"

lemma sample_key_quota: "getQuotaPerUnit sampleKeyServer st = Inr 500000"
  by (simp add: getQuotaPerUnit_def fetched_def request_def fetchJson_def sampleKeyServer_def answering_def response_ok_def
      fetchCall_def call_def public_def reader_defs)

lemma sample_key_fetched: "fetched sampleKeyServer st (call PUT ''/api/token/'' b) = Inr sampleKeyAnswer"
  by (simp add: fetched_def request_def fetchJson_def sampleKeyServer_def answering_def response_ok_def fetchCall_def call_def Let_def)

lemma sample_key_request:
  "tokenRequest (JObj ((js ''id'', JNum (Num 4)) # keyFields sampleKeyInput 750000)) =
     Inr \<lparr>tr_id = 4, tr_status = 0, tr_name = js ''ci'', tr_expiredTime = 1000, tr_remainQuota = 750000, tr_unlimitedQuota = False,
       tr_modelLimitsEnabled = True, tr_modelLimits = join [44] [js ''m1'', js ''m2''], tr_allowIps = Some (js ''10.0.0.1''),
       tr_group = js ''default'', tr_crossGroupRetry = False, tr_autoGroups = Some []\<rparr>"
  by (simp add: tokenRequest_def keyFields_def sampleKeyInput_def goInt_def goFloat_def goString_def goBool_def goStringPointer_def
      autoGroupsInput_def)

lemma sample_key_stored:
  "UpdateToken sampleConfig 0 7 False (JObj ((js ''id'', JNum (Num 4)) # keyFields sampleKeyInput 750000)) [sampleToken 3, sampleToken 4] =
     ([sampleToken 3, sentToken sampleKeyInput 750000 (sampleToken 4)], Inr sampleKeyAnswer)"
proof -
  have "changedToken sampleConfig 0 7 False (JObj ((js ''id'', JNum (Num 4)) # keyFields sampleKeyInput 750000)) [sampleToken 3, sampleToken 4] =
    Inr (sentToken sampleKeyInput 750000 (sampleToken 4))"
    unfolding changedToken_def sample_key_request
    by (simp add: utf8Length_def js.simps sampleConfig_def checkS_def getTokenByIds_def sampleToken_def cleanedToken_def sentToken_def
        sampleKeyInput_def Let_def)
  then show ?thesis by (simp add: UpdateToken_def sampleKeyAnswer_def) (simp add: sentToken_def sampleToken_def)
qed

theorem api_key_roundtrip_witness:
  "\<exists>k. liveUpdateApiKey sampleKeyServer sampleKeyInput initialLive = Inr k \<and> lk_allowedModels k = [js ''m1'', js ''m2'']
     \<and> lk_expiresAt k = Some 1000 \<and> 2 * 500000 * \<bar>lk_remainingQuotaUsd k - 3 / 2\<bar> \<le> 1"
proof -
  have n: "amountUnits False (3 / 2) 500000 ''api_key.remaining_quota_usd'' = Inr 750000"
    using units_exact [of 500000 750000] by (simp add: amountUnits_def maxSafeInteger_def)
  have l: "list_all (listable {44}) [js ''m1'', js ''m2'']" "list_all (listable {10, 44}) [js ''10.0.0.1'']"
    by (simp_all add: listable_def trim_js is_ws_of_char) (simp_all add: js.simps)
  have "list_all (\<lambda>t. tk_key t \<noteq> []) [sampleToken 3, sampleToken 4]" by (simp add: sampleToken_def)
  then show ?thesis
    using api_key_roundtrip [of sampleKeyServer initialLive 500000 sampleKeyInput 750000 sampleConfig 0 7 "[sampleToken 3, sampleToken 4]"
        "[sampleToken 3, sentToken sampleKeyInput 750000 (sampleToken 4)]" sampleKeyAnswer]
      n l sample_key_quota sample_key_fetched sample_key_stored
    by (auto simp: sampleKeyInput_def trim_js is_ws_of_char)
qed

section \<open>What is shown of a key\<close>

lemma trim_framed:
  assumes "pre \<noteq> []" "suf \<noteq> []" "\<not> is_ws (hd pre)" "\<not> is_ws (last suf)"
  shows "trim (pre @ mid @ suf) = pre @ mid @ suf"
proof -
  obtain c p where "pre = c # p" using assms(1) by (cases pre) auto
  moreover obtain d s where "suf = s @ [d]" using assms(2) by (cases suf rule: rev_cases) auto
  ultimately show ?thesis using assms(3,4) by (simp add: trim_def)
qed

lemma maskKey_framed:
  assumes "length suf = 4" "length pre = 7"
  shows "maskKey (pre @ mid @ suf) = maskKey (pre @ mid' @ suf)"
proof -
  have "startsWith (pre @ m @ suf) (js ''sk-'') \<longleftrightarrow> take 3 pre = js ''sk-''" for m
    using assms(2) by (auto simp: startsWith_def prefix_def take_all append_eq_append_conv_if numeral_3_eq_3)
  moreover have "lastUnits 4 (pre @ m @ suf) = suf" "lastUnits 4 (drop 3 (pre @ m @ suf)) = suf" for m
    using assms by (simp_all add: lastUnits_def)
  moreover have "take 4 (pre @ m @ suf) = take 4 pre" "take 4 (drop 3 (pre @ m @ suf)) = drop 3 pre" for m
    using assms by simp_all
  ultimately show ?thesis unfolding maskKey_def Let_def by (simp only: if_distrib [of "take 4"] if_distrib [of "lastUnits 4"])
qed

text \<open>C27. The record of an API key reveals nothing of the key but its first seven and its last four units: two answers
  that differ only in the units between them give the same record, and the mask has at most nineteen units.\<close>

theorem api_key_masked:
  assumes "length pre = 7" "length suf = 4" "\<not> is_ws (hd pre)" "\<not> is_ws (last suf)"
  shows "mapApiKey (JObj ((js ''key'', JStr (pre @ mid @ suf)) # fs)) u = mapApiKey (JObj ((js ''key'', JStr (pre @ mid' @ suf)) # fs)) u
    \<and> length (maskKey key) \<le> 19"
proof
  have ne: "pre \<noteq> []" "suf \<noteq> []" using assms by auto
  have key: "requireString (JObj ((js ''key'', JStr (pre @ m @ suf)) # fs)) ''key'' f = Inr (pre @ m @ suf)" for m f
    using trim_framed [OF ne assms(3,4)] ne by (simp add: requireString_def readString_def)
  have rest: "requireString (JObj ((js ''key'', x) # fs)) ''name'' f = requireString (JObj fs) ''name'' f"
    "k \<noteq> ''key'' \<Longrightarrow> requireNumber (JObj ((js ''key'', x) # fs)) k f = requireNumber (JObj fs) k f"
    "k \<noteq> ''key'' \<Longrightarrow> requireStringField (JObj ((js ''key'', x) # fs)) k f = requireStringField (JObj fs) k f"
    "k \<noteq> ''key'' \<Longrightarrow> requireBoolean (JObj ((js ''key'', x) # fs)) k f = requireBoolean (JObj fs) k f"
    "readString (JObj ((js ''key'', x) # fs)) ''group'' d = readString (JObj fs) ''group'' d"
    "get_prop (JObj ((js ''key'', x) # fs)) (js ''allow_ips'') = get_prop (JObj fs) (js ''allow_ips'')" for x k f d
    by (simp_all add: requireString_def readString_def requireNumber_def readOptionalNumber_def requireStringField_def requireBoolean_def
        readOptionalBoolean_def)
  show "mapApiKey (JObj ((js ''key'', JStr (pre @ mid @ suf)) # fs)) u = mapApiKey (JObj ((js ''key'', JStr (pre @ mid' @ suf)) # fs)) u"
    using maskKey_framed [OF assms(2,1), of mid mid']
    by (simp add: mapApiKey_def asRecord_def Let_def key rest del: get_prop.simps)
  let ?k = "if startsWith key (js ''sk-'') then drop 3 key else key"
  have "length (filter (\<lambda>c. c \<noteq> 42 \<and> c \<noteq> 8226) (take 4 ?k)) \<le> length (take 4 ?k)" by (rule length_filter_le)
  moreover have "length (take 4 ?k) \<le> 4" "length (lastUnits 4 ?k) \<le> 4" by (simp_all add: lastUnits_def)
  ultimately show "length (maskKey key) \<le> 19" unfolding maskKey_def Let_def length_append length_js length_replicate by simp
qed

theorem api_key_masked_witness:
  "mapApiKey (JObj [(js ''key'', JStr (js ''sk-abcd'' @ js ''secret'' @ js ''wxyz''))]) (Num 1) =
     mapApiKey (JObj [(js ''key'', JStr (js ''sk-abcd'' @ js ''hidden!'' @ js ''wxyz''))]) (Num 1)"
proof -
  have "length (js ''sk-abcd'') = 7" "length (js ''wxyz'') = 4" by simp_all
  moreover have "\<not> is_ws (hd (js ''sk-abcd''))" "\<not> is_ws (last (js ''wxyz''))" by (simp_all add: js.simps is_ws_def)
  ultimately show ?thesis by (rule conjunct1 [OF api_key_masked])
qed

end
