(* ===== verification/LiveBillingProofs.thy ===== *)
theory LiveBillingProofs
  imports LiveKeyProofs
begin

text \<open>
  Money, media and preferences in the live data layer of the console: what the console shows of preferences that the
  handlers of the server have stored, what an accepted configuration of recharging guarantees, which addresses of media
  the playground shows, and how a payment that was started is confirmed after the return from the provider.
\<close>

section \<open>Preferences\<close>

lemma channel_roundtrip: "mapNotificationType (channelName ch) = Inr (Some ch)"
  by (cases ch) (simp_all add: mapNotificationType_def channelName_def)

lemma goInt_whole: "goInt b k = Inr i \<Longrightarrow> goFloat b k = Inr q \<Longrightarrow> q = of_int i"
  by (auto simp: goInt_def split: if_splits)

lemma settingRequest_sent:
  assumes "settingRequest (JObj (preferenceFields inp ch n)) = Inr rq"
  obtains m where "lp_gotifyPriority inp = of_int m"
    "rq = \<lparr>ur_notifyType = channelName ch, ur_quotaWarningThreshold = of_int n, ur_webhookUrl = lp_webhookUrl inp,
      ur_webhookSecret = lp_webhookSecret inp, ur_notificationEmail = lp_notificationEmail inp, ur_barkUrl = lp_barkUrl inp,
      ur_gotifyUrl = lp_gotifyUrl inp, ur_gotifyToken = lp_gotifyToken inp, ur_gotifyPriority = m,
      ur_upstreamModelUpdateNotify = None, ur_recordIpLog = (lp_recordIpForced inp \<or> lp_recordIpLog inp)\<rparr>"
proof -
  let ?b = "JObj (preferenceFields inp ch n)"
  have f: "goString ?b ''notify_type'' = Inr (channelName ch)" "goFloat ?b ''quota_warning_threshold'' = Inr (of_int n)"
    "goString ?b ''webhook_url'' = Inr (lp_webhookUrl inp)" "goString ?b ''webhook_secret'' = Inr (lp_webhookSecret inp)"
    "goString ?b ''notification_email'' = Inr (lp_notificationEmail inp)" "goString ?b ''bark_url'' = Inr (lp_barkUrl inp)"
    "goString ?b ''gotify_url'' = Inr (lp_gotifyUrl inp)" "goString ?b ''gotify_token'' = Inr (lp_gotifyToken inp)"
    "goFloat ?b ''gotify_priority'' = Inr (lp_gotifyPriority inp)" "goBoolPointer ?b ''upstream_model_update_notify_enabled'' = Inr None"
    "goBool ?b ''record_ip_log'' = Inr (lp_recordIpForced inp \<or> lp_recordIpLog inp)"
    by (simp_all add: preferenceFields_def goString_def goFloat_def goBoolPointer_def goBool_def)
  obtain m where m: "goInt ?b ''gotify_priority'' = Inr m" using assms by (auto simp: settingRequest_def bindS_Inr)
  then have "lp_gotifyPriority inp = of_int m" using goInt_whole f(9) by blast
  moreover note assms [unfolded settingRequest_def f m bindS_simps]
  ultimately show thesis using that by simp
qed

lemma channel_names: "channelName ch = js ''webhook'' \<longleftrightarrow> ch = LcWebhook" "channelName ch = js ''email'' \<longleftrightarrow> ch = LcEmail"
  "channelName ch = js ''bark'' \<longleftrightarrow> ch = LcBark" "channelName ch = js ''gotify'' \<longleftrightarrow> ch = LcGotify"
  by (cases ch; simp add: channelName_def)+

text \<open>What the server holds once it has accepted the preferences of the console: the fields of the chosen channel are
  replaced, those of the other channels stay.\<close>

lemma UpdateUserSetting_sent:
  assumes "UpdateUserSetting cfg validUrl admin (JObj (preferenceFields inp ch n)) old = Inr new"
  shows "0 < n" "us_notifyType new = channelName ch" "us_quotaWarningThreshold new = of_int n"
    "us_recordIpLog new = (lp_recordIpForced inp \<or> lp_recordIpLog inp \<or> cfg_alwaysRecordIp cfg)"
    "us_webhookUrl new = (if ch = LcWebhook then TrimSpace (lp_webhookUrl inp) else us_webhookUrl old)"
    "us_webhookSecret new = (if ch = LcWebhook \<and> lp_webhookSecret inp \<noteq> [] then lp_webhookSecret inp else us_webhookSecret old)"
    "us_notificationEmail new = (if ch = LcEmail \<and> lp_notificationEmail inp \<noteq> [] then lp_notificationEmail inp else us_notificationEmail old)"
    "us_barkUrl new = (if ch = LcBark then TrimSpace (lp_barkUrl inp) else us_barkUrl old)"
    "us_gotifyUrl new = (if ch = LcGotify then TrimSpace (lp_gotifyUrl inp) else us_gotifyUrl old)"
    "ch = LcGotify \<Longrightarrow> us_gotifyToken new \<noteq> []" "ch \<noteq> LcGotify \<Longrightarrow> us_gotifyToken new = us_gotifyToken old"
    "of_int (us_gotifyPriority new) = (if ch \<noteq> LcGotify then of_int (us_gotifyPriority old)
       else if 0 \<le> lp_gotifyPriority inp \<and> lp_gotifyPriority inp \<le> 10 then lp_gotifyPriority inp else (5 :: rat))"
proof -
  obtain rq where rq: "settingRequest (JObj (preferenceFields inp ch n)) = Inr rq" "ur_quotaWarningThreshold rq > 0"
    "checkSetting validUrl rq (keptGotifyToken rq old) = Inr ()" "new = storedSetting cfg admin rq old"
    using assms by (auto simp: UpdateUserSetting_def bindS_Inr)
  obtain m where p: "lp_gotifyPriority inp = of_int m" and sent: "rq =
      \<lparr>ur_notifyType = channelName ch, ur_quotaWarningThreshold = of_int n, ur_webhookUrl = lp_webhookUrl inp,
      ur_webhookSecret = lp_webhookSecret inp, ur_notificationEmail = lp_notificationEmail inp, ur_barkUrl = lp_barkUrl inp,
      ur_gotifyUrl = lp_gotifyUrl inp, ur_gotifyToken = lp_gotifyToken inp, ur_gotifyPriority = m,
      ur_upstreamModelUpdateNotify = None, ur_recordIpLog = (lp_recordIpForced inp \<or> lp_recordIpLog inp)\<rparr>"
    using settingRequest_sent [OF rq(1)] .
  note stored = rq(4) storedSetting_fields sent channel_names
  show "0 < n" using rq(2) sent by simp
  show "us_notifyType new = channelName ch" "us_quotaWarningThreshold new = of_int n"
    "us_recordIpLog new = (lp_recordIpForced inp \<or> lp_recordIpLog inp \<or> cfg_alwaysRecordIp cfg)"
    "us_webhookUrl new = (if ch = LcWebhook then TrimSpace (lp_webhookUrl inp) else us_webhookUrl old)"
    "us_webhookSecret new = (if ch = LcWebhook \<and> lp_webhookSecret inp \<noteq> [] then lp_webhookSecret inp else us_webhookSecret old)"
    "us_notificationEmail new = (if ch = LcEmail \<and> lp_notificationEmail inp \<noteq> [] then lp_notificationEmail inp else us_notificationEmail old)"
    "us_barkUrl new = (if ch = LcBark then TrimSpace (lp_barkUrl inp) else us_barkUrl old)"
    "us_gotifyUrl new = (if ch = LcGotify then TrimSpace (lp_gotifyUrl inp) else us_gotifyUrl old)"
    "ch \<noteq> LcGotify \<Longrightarrow> us_gotifyToken new = us_gotifyToken old"
    by (simp_all add: stored)
  show "us_gotifyToken new \<noteq> []" if "ch = LcGotify"
    using rq(3) that by (simp add: stored checkSetting_def Let_def bindS_Inr)
  show "of_int (us_gotifyPriority new) = (if ch \<noteq> LcGotify then of_int (us_gotifyPriority old)
       else if 0 \<le> lp_gotifyPriority inp \<and> lp_gotifyPriority inp \<le> 10 then lp_gotifyPriority inp else (5 :: rat))"
    by (simp add: stored p)
qed

lemma mapAccountPreferences_stored:
  assumes "0 < u" "0 < us_quotaWarningThreshold s" "us_notifyType s = channelName ch"
  shows "mapAccountPreferences env (GetUserSetting cfg s) (Num u) =
    Inr \<lparr>lp_balanceWarningThresholdUsd = Some (us_quotaWarningThreshold s / u), lp_barkUrl = us_barkUrl s,
      lp_gotifyPriority = of_int (us_gotifyPriority s), lp_gotifyToken = [], lp_gotifyTokenConfigured = (us_gotifyToken s \<noteq> []),
      lp_gotifyUrl = us_gotifyUrl s, lp_notificationEmail = us_notificationEmail s, lp_notifyType = Some ch,
      lp_recordIpForced = cfg_alwaysRecordIp cfg, lp_recordIpLog = (us_recordIpLog s \<or> cfg_alwaysRecordIp cfg), lp_webhookSecret = [],
      lp_webhookSecretConfigured = (us_webhookSecret s \<noteq> []), lp_webhookUrl = us_webhookUrl s\<rparr>"
proof -
  let ?v = "GetUserSetting cfg s"
  have r: "parseRecord (parseJson env) ?v (Some (js ''user_setting'')) = Inr ?v"
    by (simp add: parseRecord_def asRecord_def GetUserSetting_def)
  have e: "get_prop ?v (js ''bark_url'') = JStr (us_barkUrl s)" "get_prop ?v (js ''gotify_url'') = JStr (us_gotifyUrl s)"
    "get_prop ?v (js ''notify_type'') = JStr (channelName ch)" "get_prop ?v (js ''notification_email'') = JStr (us_notificationEmail s)"
    "get_prop ?v (js ''webhook_url'') = JStr (us_webhookUrl s)"
    "get_prop ?v (js ''quota_warning_threshold'') = JNum (Num (us_quotaWarningThreshold s))"
    "get_prop ?v (js ''gotify_priority'') = JNum (Num (of_int (us_gotifyPriority s)))"
    "get_prop ?v (js ''record_ip_forced'') = JBool (cfg_alwaysRecordIp cfg)"
    "get_prop ?v (js ''record_ip_log'') = JBool (us_recordIpLog s \<or> cfg_alwaysRecordIp cfg)"
    "get_prop ?v (js ''webhook_secret_configured'') = JBool (us_webhookSecret s \<noteq> [])"
    "get_prop ?v (js ''gotify_token_configured'') = JBool (us_gotifyToken s \<noteq> [])"
    using assms(3) by (simp_all add: GetUserSetting_def goInteger_def)
  show ?thesis
    using assms(1,2)
    by (simp add: mapAccountPreferences_def r requireNumber_def echoed_number requireBoolean_def readOptionalBoolean_def readString_def e
        quotaUnitsToUsd_def channel_roundtrip)
qed


definition samplePreferences :: LivePreferences where
  "samplePreferences = \<lparr>lp_balanceWarningThresholdUsd = Some 2, lp_barkUrl = js ''ignored'', lp_gotifyPriority = 5, lp_gotifyToken = [],
     lp_gotifyTokenConfigured = True, lp_gotifyUrl = [], lp_notificationEmail = js ''a@b.c'', lp_notifyType = Some LcEmail,
     lp_recordIpForced = False, lp_recordIpLog = True, lp_webhookSecret = [], lp_webhookSecretConfigured = False, lp_webhookUrl = []\<rparr>"

definition sampleStored :: UserSetting where
  "sampleStored = \<lparr>us_notifyType = js ''gotify'', us_quotaWarningThreshold = 500000, us_webhookUrl = [], us_webhookSecret = [],
     us_notificationEmail = js ''old@b.c'', us_barkUrl = js ''https://bark'', us_gotifyUrl = js ''https://gotify'', us_gotifyToken = js ''t'',
     us_gotifyPriority = 8, us_upstreamModelUpdateNotify = False, us_recordIpLog = False\<rparr>"

definition sampleChanged :: UserSetting where
  "sampleChanged = sampleStored\<lparr>us_notifyType := js ''email'', us_quotaWarningThreshold := 1000000, us_notificationEmail := js ''a@b.c'',
     us_recordIpLog := True\<rparr>"

definition samplePreferencesServer :: network where
  "samplePreferencesServer c = answering 200 (JObj [(js ''success'', JBool True), (js ''data'',
     (if fetch_path c = js ''/api/status'' then JObj [(js ''quota_per_unit'', JNum (Num 500000))]
      else GetUserSetting sampleConfig sampleChanged))]) c"

lemma sample_setting_stored:
  "UpdateUserSetting sampleConfig validUrl False (JObj (preferenceFields samplePreferences LcEmail 1000000)) sampleStored = Inr sampleChanged"
proof -
  have "settingRequest (JObj (preferenceFields samplePreferences LcEmail 1000000)) =
    Inr \<lparr>ur_notifyType = js ''email'', ur_quotaWarningThreshold = 1000000, ur_webhookUrl = [], ur_webhookSecret = [],
      ur_notificationEmail = js ''a@b.c'', ur_barkUrl = js ''ignored'', ur_gotifyUrl = [], ur_gotifyToken = [], ur_gotifyPriority = 5,
      ur_upstreamModelUpdateNotify = None, ur_recordIpLog = True\<rparr>"
    by (simp add: settingRequest_def preferenceFields_def samplePreferences_def channelName_def goInt_def goFloat_def goString_def
        goBool_def goBoolPointer_def)
  then show ?thesis
    by (simp add: UpdateUserSetting_def checkSetting_def checkS_def storedSetting_def withGotify_def withBark_def withEmail_def withWebhook_def
        withUpstream_def sampleChanged_def sampleStored_def sampleConfig_def Let_def)
      (simp add: js.simps)
qed

lemma sample_setting_fetched:
  "fetched samplePreferencesServer st (call GET ''/api/user/setting'' JUndef) = Inr (GetUserSetting sampleConfig sampleChanged)"
  "getQuotaPerUnit samplePreferencesServer st = Inr 500000"
  by (simp_all add: getQuotaPerUnit_def fetched_def request_def fetchJson_def samplePreferencesServer_def answering_def response_ok_def
      fetchCall_def call_def public_def reader_defs)


section \<open>Recharging\<close>

definition soundConfiguration :: "RechargeConfiguration \<Rightarrow> bool" where
  "soundConfiguration c \<longleftrightarrow>
     sorted_wrt (<) (rc_amountOptions c) \<and> 1 \<le> length (rc_amountOptions c) \<and> length (rc_amountOptions c) \<le> 8 \<and> list_all ((<) 0) (rc_amountOptions c)
     \<and> list_all (\<lambda>m. 0 < rm_minAmount m) (rc_paymentMethods c) \<and> list_all (\<lambda>p. 0 < rp_price p \<and> 0 < rp_creditUsd p) (rc_products c)
     \<and> list_all (\<lambda>d. 0 < snd d) (rc_discounts c) \<and> 0 < rc_quotaPerUnit c \<and> 0 < rc_usdExchangeRate c
     \<and> (rc_onlineEnabled c \<longleftrightarrow> rc_paymentMethods c \<noteq> [] \<or> rc_products c \<noteq> [])"

lemma readMinimums_pos:
  "readMinimums t = Inr m \<Longrightarrow> 0 < globalMinAmount m \<and> 0 < stripeMinAmount m \<and> 0 < waffoMinAmount m \<and> 0 < pancakeMinAmount m"
  by (auto simp: readMinimums_def bindE_Inr)

lemma standardMethod_pos:
  "standardMethod m sw i v = Inr (Some r) \<Longrightarrow> 0 < globalMinAmount m \<and> 0 < stripeMinAmount m \<and> 0 < pancakeMinAmount m \<Longrightarrow> 0 < rm_minAmount r"
  by (auto simp: standardMethod_def Let_def bindE_Inr fallbackMinAmount_def split: if_splits option.splits)

lemma waffoMethod_pos: "waffoMethod m i v = Inr r \<Longrightarrow> 0 < waffoMinAmount m \<Longrightarrow> 0 < rm_minAmount r"
  by (auto simp: waffoMethod_def Let_def bindE_Inr)

lemma mapProduct_pos: "mapProduct u i v = Inr p \<Longrightarrow> 0 < rp_price p \<and> 0 < rp_creditUsd p"
  by (auto simp: mapProduct_def Let_def bindE_Inr quotaUnitsToUsd_def split: if_splits)

lemma readDiscounts_pos: "readDiscounts es = Inr ds \<Longrightarrow> list_all (\<lambda>d. 0 < snd d) ds"
  by (induction es arbitrary: ds rule: readDiscounts.induct) (auto simp: bindE_Inr split: jsnum.splits if_splits)

lemma configuredAmount_pos: "configuredAmount i v = Inr a \<Longrightarrow> 0 < a"
  by (auto simp: configuredAmount_def split: jsnum.splits if_splits)

lemma set_present: "set (present xs) = {y. Some y \<in> set xs}"
  by (auto simp: present_def split: option.splits)

lemma sorted_options: "sorted_wrt (<) (take 8 (sort (uniq xs)))"
proof -
  have "sorted_wrt (<) (sort (uniq xs))" by (simp add: strict_sorted_iff)
  then show ?thesis by (rule sorted_wrt_take)
qed

lemma amountOptions_sound:
  assumes "0 < g" "list_all (\<lambda>m. 0 < rm_minAmount m) ms" "list_all ((<) 0) chosen"
  shows "sorted_wrt (<) (amountOptions g ms chosen)" "1 \<le> length (amountOptions g ms chosen)" "length (amountOptions g ms chosen) \<le> 8"
    "list_all ((<) 0) (amountOptions g ms chosen)"
proof -
  let ?mins = "filter (\<lambda>a. a > 0) (map rm_minAmount ms)"
  let ?m = "if ?mins = [] then g else Min (set ?mins)"
  let ?o = "if chosen = [] then map (\<lambda>k. ?m * k) [1, 5, 10, 30, 50, 100] else chosen"
  have a: "amountOptions g ms chosen = take 8 (sort (uniq ?o))" by (simp only: amountOptions_def Let_def)
  have "0 < ?m"
  proof (cases "?mins = []")
    case False
    then have "Min (set ?mins) \<in> set ?mins" by (intro Min_in finite_set) (simp only: set_empty not_False_eq_True)
    then show ?thesis using False by auto
  qed (use assms(1) in simp)
  then have pos: "\<forall>x \<in> set ?o. 0 < x" using assms(3) by (auto simp: list_all_iff)
  have ne: "?o \<noteq> []" by simp
  show "sorted_wrt (<) (amountOptions g ms chosen)" unfolding a by (rule sorted_options)
  show "length (amountOptions g ms chosen) \<le> 8" unfolding a by simp
  have "set (uniq ?o) \<noteq> {}" unfolding set_uniq set_empty by (rule ne)
  then have "uniq ?o \<noteq> []" by (simp only: set_empty not_False_eq_True)
  then show "1 \<le> length (amountOptions g ms chosen)" unfolding a by (simp add: Suc_le_eq)
  show "list_all ((<) 0) (amountOptions g ms chosen)"
  proof -
    have "set (take 8 (sort (uniq ?o))) \<subseteq> set ?o" using set_take_subset [of 8 "sort (uniq ?o)"] unfolding set_sort set_uniq .
    then show ?thesis unfolding a list_all_iff using pos by blast
  qed
qed

lemma configuration_parts:
  assumes "getRechargeConfiguration env topup sts = Inr c"
  obtains units mins sw rs std rw waffo rp products rd ds ra chosen where
    "0 < units" "readMinimums (asRecord topup) = Inr mins" "mapE (standardMethod mins sw) rs = Inr std"
    "mapE (waffoMethod mins) rw = Inr waffo" "mapE (mapProduct units) rp = Inr products"
    "readDiscounts rd = Inr ds" "mapE configuredAmount ra = Inr chosen"
    "rc_amountOptions c = amountOptions (globalMinAmount mins) (present std @ waffo) chosen" "rc_paymentMethods c = present std @ waffo"
    "rc_products c = products" "rc_discounts c = ds" "rc_quotaPerUnit c = units" "0 < rc_usdExchangeRate c"
    "rc_onlineEnabled c = (0 < length (present std @ waffo) + length products)"
  using assms unfolding getRechargeConfiguration_def Let_def bindE_Inr guardE_Inr not_le
  by (elim exE conjE) (auto simp del: length_append)

lemma configuration_sound: "getRechargeConfiguration env topup sts = Inr c \<Longrightarrow> soundConfiguration c"
proof (elim configuration_parts)
  fix units mins sw rs std rw waffo rp products rd ds ra chosen
  assume units: "0 < units" and mins: "readMinimums (asRecord topup) = Inr mins" and std: "mapE (standardMethod mins sw) rs = Inr std"
    and waffo: "mapE (waffoMethod mins) rw = Inr waffo" and products: "mapE (mapProduct units) rp = Inr products"
    and ds: "readDiscounts rd = Inr ds" and chosen: "mapE configuredAmount ra = Inr chosen"
    and c: "rc_amountOptions c = amountOptions (globalMinAmount mins) (present std @ waffo) chosen" "rc_paymentMethods c = present std @ waffo"
      "rc_products c = products" "rc_discounts c = ds" "rc_quotaPerUnit c = units" "0 < rc_usdExchangeRate c"
      "rc_onlineEnabled c = (0 < length (present std @ waffo) + length products)"
  note m = readMinimums_pos [OF mins]
  have "list_all (\<lambda>x. \<forall>r. x = Some r \<longrightarrow> 0 < rm_minAmount r) std"
    using std by (rule mapE_all) (use m in \<open>auto dest: standardMethod_pos\<close>)
  moreover have "list_all (\<lambda>r. 0 < rm_minAmount r) waffo" using waffo by (rule mapE_all) (use m in \<open>auto dest: waffoMethod_pos\<close>)
  ultimately have methods: "list_all (\<lambda>r. 0 < rm_minAmount r) (present std @ waffo)" by (auto simp: list_all_iff set_present)
  have amounts: "list_all ((<) 0) chosen" using chosen by (rule mapE_all) (auto dest: configuredAmount_pos)
  have prods: "list_all (\<lambda>p. 0 < rp_price p \<and> 0 < rp_creditUsd p) products" using products by (rule mapE_all) (rule mapProduct_pos)
  show ?thesis
    unfolding soundConfiguration_def c using amountOptions_sound [OF _ methods amounts] m methods prods readDiscounts_pos [OF ds] units c(6) by auto
qed

text \<open>C14. A configuration of recharging that the console accepts is sound: one to eight different positive amounts in
  ascending order, positive minimums, prices, credits, discounts and rates, and online payment is offered exactly when there
  is a method or a product.\<close>

theorem recharge_configuration_sound:
  assumes "liveRechargeConfiguration env net st = Inr c"
  shows "soundConfiguration c"
  using assms by (auto simp: liveRechargeConfiguration_def bindE_Inr intro: configuration_sound)

definition liveSampleEnv :: LiveEnv where
  "liveSampleEnv = \<lparr>parseJson = \<lambda>_. None, numText = \<lambda>_. [], lowerCase = id, upperCase = id, encodeURIComponent = id, urlProtocol = \<lambda>_. None\<rparr>"

definition sampleTopup :: jsval where
  "sampleTopup = JObj [(js ''min_topup'', JNum (Num 1)), (js ''stripe_min_topup'', JNum (Num 1)), (js ''waffo_min_topup'', JNum (Num 1)),
     (js ''waffo_pancake_min_topup'', JNum (Num 1)), (js ''enable_online_topup'', JBool True), (js ''enable_stripe_topup'', JBool True),
     (js ''enable_waffo_topup'', JBool False), (js ''enable_waffo_pancake_topup'', JBool False), (js ''enable_creem_topup'', JBool False),
     (js ''pay_methods'', JArr [JObj [(js ''type'', JStr (js ''stripe'')), (js ''name'', JStr (js ''Stripe''))]]),
     (js ''amount_options'', JArr [JNum (Num 30), JNum (Num 10), JNum (Num 30)]), (js ''payment_compliance_confirmed'', JBool True),
     (js ''enable_redemption'', JBool True)]"

definition sampleStatus :: jsval where
  "sampleStatus = JObj [(js ''quota_per_unit'', JNum (Num 500000)), (js ''quota_display_type'', JStr (js ''USD'')), (js ''usd_exchange_rate'', JNum (Num 7))]"

definition sampleRechargeServer :: network where
  "sampleRechargeServer c = answering 200 (JObj [(js ''success'', JBool True), (js ''data'',
     (if fetch_path c = js ''/api/status'' then sampleStatus else sampleTopup))]) c"

lemma sample_recharge_fetched: "fetched sampleRechargeServer st (call GET ''/api/user/topup/info'' b) = Inr sampleTopup"
    "fetched sampleRechargeServer st (public (call GET ''/api/status'' b)) = Inr sampleStatus"
  by (simp_all add: fetched_def request_def fetchJson_def sampleRechargeServer_def answering_def response_ok_def fetchCall_def call_def public_def Let_def)

lemma sample_configuration: "\<exists>c. getRechargeConfiguration liveSampleEnv sampleTopup sampleStatus = Inr c \<and> rc_amountOptions c = [10, 30]"
  by (simp add: getRechargeConfiguration_def sampleTopup_def sampleStatus_def liveSampleEnv_def readMinimums_def readSwitches_def parseList_def
      mapE_def standardMethod_def methodOffered_def fallbackMinAmount_def configuredAmount_def displayTypeOf_def parseRecord_def recordEntries_def
      amountOptions_def present_def uniq_def guardE_def reader_defs trim_js is_ws_of_char cong: bindE_first)

theorem recharge_configuration_sound_witness:
  "\<exists>c. liveRechargeConfiguration liveSampleEnv sampleRechargeServer initialLive = Inr c \<and> rc_amountOptions c = [10, 30] \<and> soundConfiguration c"
  using sample_configuration recharge_configuration_sound [of liveSampleEnv sampleRechargeServer initialLive]
  by (auto simp: liveRechargeConfiguration_def sample_recharge_fetched)

section \<open>Media\<close>

definition safeMedia :: "LiveEnv \<Rightarrow> jsstring \<Rightarrow> bool" where
  "safeMedia env u \<longleftrightarrow> startsWith u (js ''/'') \<and> \<not> startsWith u (js ''//'') \<or> urlProtocol env u \<in> {Some (js ''https:''), Some (js ''http:'')}
     \<or> startsWith u (js ''data:image/png;base64,'')"

lemma requirePlaygroundMediaUrl_safe: "requirePlaygroundMediaUrl env u f = Inr x \<Longrightarrow> safeMedia env x"
  by (auto simp: requirePlaygroundMediaUrl_def safeMedia_def split: if_splits)

lemma videoUrl_safe: "videoUrl env i v = Inr x \<Longrightarrow> safeMedia env x"
  by (auto simp: videoUrl_def Let_def split: jsval.splits if_splits dest: requirePlaygroundMediaUrl_safe)

lemma mapPlaygroundImage_safe: "mapPlaygroundImage env i v = Inr x \<Longrightarrow> safeMedia env (img_url x)"
  by (auto simp: mapPlaygroundImage_def Let_def bindE_Inr split: if_splits dest: requirePlaygroundMediaUrl_safe)
    (simp add: safeMedia_def startsWith_def)

text \<open>C16. The playground only shows images and videos that it generated from an address that starts with exactly one
  slash, from one with the protocol http or https, or from an embedded image: whatever the server answers to its request
  for images, to its request for a video or to its question about the state of a video, no other address gets through.
  The results of tasks are another matter: their addresses are passed on as the server sends them.\<close>

theorem media_addresses_safe:
  "(generatePlaygroundImages env net grp mdl prmpt sz qual n st = Inr r \<longrightarrow> list_all (\<lambda>i. safeMedia env (img_url i)) (imgs_images r))
   \<and> (createPlaygroundVideo env net grp mdl prmpt secs res aspect audio st = Inr w \<or> getPlaygroundVideo env net i st = Inr w \<longrightarrow>
        list_all (safeMedia env) (vid_unsignedUrls w))"
proof (intro conjI impI)
  show "list_all (\<lambda>i. safeMedia env (img_url i)) (imgs_images r)" if "generatePlaygroundImages env net grp mdl prmpt sz qual n st = Inr r"
    using that by (auto simp: generatePlaygroundImages_def mapPlaygroundImages_def Let_def bindE_Inr intro: mapE_all mapPlaygroundImage_safe)
  have "list_all (safeMedia env) (vid_unsignedUrls w)" if "mapPlaygroundVideo env v = Inr w" for v
    using that by (auto simp: mapPlaygroundVideo_def Let_def bindE_Inr intro: mapE_all videoUrl_safe)
  then show "list_all (safeMedia env) (vid_unsignedUrls w)"
    if "createPlaygroundVideo env net grp mdl prmpt secs res aspect audio st = Inr w \<or> getPlaygroundVideo env net i st = Inr w"
    using that by (auto simp: createPlaygroundVideo_def getPlaygroundVideo_def bindE_Inr split: if_splits)
qed

definition sampleVideo :: jsval where
  "sampleVideo = JObj [(js ''status'', JStr (js ''completed'')), (js ''id'', JStr (js ''v1'')), (js ''unsigned_urls'', JArr [JStr (js ''/media/v1'')])]"

lemma sample_video:
  "getPlaygroundVideo liveSampleEnv (answering 200 sampleVideo) (js ''v1'') st =
     Inr \<lparr>vid_id = js ''v1'', vid_pollingUrl = [], vid_status = js ''completed'', vid_unsignedUrls = [js ''/media/v1''], vid_error = None, vid_estimatedCost = None\<rparr>"
  by (simp add: getPlaygroundVideo_def requestRaw_def fetchJson_def answering_def response_ok_def mapPlaygroundVideo_def sampleVideo_def
      playgroundVideoStatuses_def readOptionalItems_def requireItems_def mapE_def videoUrl_def requirePlaygroundMediaUrl_def startsWith_def guardE_def
      reader_defs trim_js is_ws_of_char)

theorem media_addresses_safe_witness: "safeMedia liveSampleEnv (js ''/media/v1'')"
  using mp [OF conjunct2 [OF media_addresses_safe] disjI2 [OF sample_video [of initialLive]]] by simp

section \<open>Payments\<close>

definition orderRequest :: "jsstring \<Rightarrow> RequestOptions" where
  "orderRequest i = listed ''/api/user/topup/self'' [(js ''p'', js ''1''), (js ''page_size'', js ''10''), (js ''keyword'', i)]"

definition orderOf :: "jsstring \<Rightarrow> jsval list \<Rightarrow> jsval option" where
  "orderOf i raw = find (\<lambda>r. readString r ''trade_no'' [] = i) (map asRecord raw)"

definition orderStatus :: "jsval \<Rightarrow> ConfirmationStatus live" where
  "orderStatus r = (let s = readString r ''status'' [] in
     if s = js ''success'' then Inr ConfirmCompleted else if s = js ''pending'' then Inr ConfirmPending
     else if s = js ''failed'' \<or> s = js ''expired'' then Inr ConfirmFailed else Inl (LiveDataContractError (js ''billing_transaction.status'')))"

lemma confirmOrder_orderStatus:
  "i \<noteq> [] \<Longrightarrow> requireItems data (js ''billing.transactions'') = Inr raw \<Longrightarrow>
   confirmOrder (Some i) data = (case orderOf i raw of None \<Rightarrow> Inr ConfirmPending | Some r \<Rightarrow> orderStatus r)"
  by (simp add: confirmOrder_def orderOf_def orderStatus_def Let_def split: option.splits)


definition sampleOrder :: jsval where
  "sampleOrder = JArr [JObj [(js ''trade_no'', JStr (js ''o1'')), (js ''status'', JStr (js ''success''))]]"


end
