(* ===== verification/LiveCatalog.thy ===== *)
theory LiveCatalog
  imports LiveOperations
begin

text \<open>
  The model catalog and the integration page of the console's live repository,
  \<open>src/frontend/apps/console/src/data/live-repository.ts\<close>: a model with the prices that the account pays for it, from
  the structured offers of its group or else from the older fields of the record.
\<close>

section \<open>The family of a model\<close>

datatype ModelFamily = ChatModel | ReasoningModel | EmbeddingModel | ImageModel | AudioModel | VideoModel | UnknownModel

text \<open>A pattern that ignores case matches an ASCII letter in either case; no other unit is equal to an ASCII letter
  for it, and the Chinese words have no case.\<close>

definition foldUnit :: "nat \<Rightarrow> nat" where
  "foldUnit c = (if 65 \<le> c \<and> c \<le> 90 then c + 32 else c)"

definition mentions :: "jsstring list \<Rightarrow> jsstring \<Rightarrow> bool" where
  "mentions words s \<longleftrightarrow> list_ex (\<lambda>w. str_includes (map foldUnit s) w) words"

definition catalogModelFamily :: "jsstring \<Rightarrow> jsstring \<Rightarrow> ModelFamily" where
  "catalogModelFamily billingMode tags =
     (let declaredMetadata = billingMode @ js '' '' @ tags in
      if mentions [js ''video'', [35270, 39057]] declaredMetadata then VideoModel
      else if mentions [js ''audio'', js ''speech'', js ''tts'', [38899, 39057], [35821, 38899]] declaredMetadata then AudioModel
      else if mentions [js ''image'', [22270, 20687]] declaredMetadata then ImageModel
      else if mentions [js ''embedding'', [23884, 20837]] declaredMetadata then EmbeddingModel
      else if mentions [js ''reason'', [25512, 29702]] declaredMetadata then ReasoningModel
      else if mentions [js ''chat'', [23545, 35805]] declaredMetadata then ChatModel
      else UnknownModel)"

section \<open>Models\<close>

record ModelCatalogItem =
  mc_id :: jsstring
  mc_provider :: "jsstring option"
  mc_description :: "jsstring option"
  mc_family :: ModelFamily
  mc_contextWindow :: "rat option"
  mc_maxOutputTokens :: "rat option"
  mc_limitsSourceUrl :: "jsstring option"
  mc_limitsVerifiedAt :: "rat option"
  mc_inputPrice :: "rat option"
  mc_inputPriceFrom :: bool
  mc_inputPriceUnit :: "PriceUnit option"
  mc_outputPrice :: "rat option"
  mc_outputPriceFrom :: bool
  mc_outputPriceUnit :: "PriceUnit option"
  mc_currency :: "jsstring option"
  mc_pricingAvailable :: bool
  mc_pricingSource :: "jsstring option"
  mc_accountPriceSource :: "jsstring option"
  mc_accountPrice :: "CatalogPriceSummary option"
  mc_officialPrice :: "CatalogPriceSummary option"
  mc_available :: bool
  mc_availabilityStatus :: "jsstring option"
  mc_features :: "jsstring list"
  mc_supportedEndpointTypes :: "jsstring list"

text \<open>The value of a number, none when it is not finite; and the same for positive values only.\<close>

definition finiteOf :: "rat jsnum \<Rightarrow> rat option" where
  "finiteOf n = (case n of Num q \<Rightarrow> Some q | _ \<Rightarrow> None)"

definition positiveOf :: "rat jsnum \<Rightarrow> rat option" where
  "positiveOf n = Option.bind (finiteOf n) positive"

text \<open>\<open>Number.isInteger\<close> and the lookup of a vendor.\<close>

definition vendorName :: "(rat \<times> jsstring) list \<Rightarrow> rat jsnum \<Rightarrow> jsstring option" where
  "vendorName vendors n = (case n of Num q \<Rightarrow> if of_int \<lfloor>q\<rfloor> = q then map_of vendors q else None | _ \<Rightarrow> None)"

definition splitTags :: "jsstring \<Rightarrow> jsstring list" where
  "splitTags s = concat (map (split_on 65292) (split_on 44 s))"

text \<open>The price that is shown: the selected offer, or the older field of the record.\<close>

definition shownPrice :: "CatalogPriceSelection option \<Rightarrow> rat jsnum \<Rightarrow> rat option" where
  "shownPrice selection legacy = (case selection of Some c \<Rightarrow> Some (selected_amount c) | None \<Rightarrow> finiteOf legacy)"

definition shownUnit :: "CatalogPriceSelection option \<Rightarrow> jsstring \<Rightarrow> PriceUnit option" where
  "shownUnit selection legacyUnit = catalogPriceUnit (case selection of Some c \<Rightarrow> selected_unit c | None \<Rightarrow> legacyUnit)"

definition isFrom :: "CatalogPriceSelection option \<Rightarrow> bool" where
  "isFrom selection \<longleftrightarrow> (case selection of Some c \<Rightarrow> several c | None \<Rightarrow> False)"

definition optionalPrice :: "jsval option \<Rightarrow> jsstring list \<Rightarrow> CatalogPriceSelection option live" where
  "optionalPrice summary components = (case summary of Some s \<Rightarrow> selectCatalogPrice s components | None \<Rightarrow> Inr None)"

definition modelField :: "jsstring \<Rightarrow> string \<Rightarrow> jsstring" where
  "modelField i name = js ''pricing.'' @ i @ js name"

definition mapCatalogModel ::
  "(jsval \<Rightarrow> jsstring) \<Rightarrow> jsstring \<Rightarrow> (rat \<times> jsstring) list \<Rightarrow> jsval \<Rightarrow> ModelCatalogItem live" where
  "mapCatalogModel textOf grp vendorNamesById v =
     (let record = asRecord v in
      bindE (requireString record ''model_name'' (js ''pricing.model_name'')) (\<lambda>i.
      let provider = orText (textOrNone (vendorName vendorNamesById (readNumber record ''vendor_id'' NaN)))
            (textOrNone (Some (readString record ''provider'' (readString record ''owner_by'' [])))) in
      bindE (selectCatalogPriceSummary record grp) (\<lambda>selection.
      bindE (mapCatalogPriceSummary (case selection of Some s \<Rightarrow> s | None \<Rightarrow> JNull) (modelField i ''.account_price'')) (\<lambda>accountPrice.
      let priceSummary = (if accountPrice = None then None else selection) in
      bindE (mapCatalogPriceSummary (get_prop record (js ''official_price'')) (modelField i ''.official_price'')) (\<lambda>officialPrice.
      bindE (optionalPrice priceSummary catalogInputPriceComponents) (\<lambda>structuredInput.
      bindE (optionalPrice priceSummary catalogOutputPriceComponents) (\<lambda>structuredOutput.
      let legacyCurrency = readString record ''currency'' []; legacyUnit = readString record ''price_unit'' [];
        legacyValid = (legacyCurrency \<noteq> [] \<and> legacyUnit \<in> {js ''token'', js ''request'', js ''second''});
        legacyInput = (if legacyValid then readNumber record ''input_price'' NaN else NaN);
        legacyOutput = (if legacyValid then readNumber record ''output_price'' NaN else NaN);
        tags = readString record ''tags'' [];
        billingMode = (case priceSummary of Some s \<Rightarrow> readString s ''billing_mode'' [] | None \<Rightarrow> []) in
      bindE (requireBoolean record ''available'' (modelField i ''.available'')) (\<lambda>available.
      bindE (readOptionalItems (get_prop record (js ''supported_endpoint_types'')) (modelField i ''.supported_endpoint_types'')) (\<lambda>endpoints.
      Inr \<lparr>mc_id = i, mc_provider = provider, mc_description = readText record ''description'',
        mc_family = catalogModelFamily billingMode tags,
        mc_contextWindow = positiveOf (readNumber record ''context_window'' (readNumber record ''context_length'' NaN)),
        mc_maxOutputTokens = positiveOf (readNumber record ''max_output_tokens'' NaN),
        mc_limitsSourceUrl = textOrNone (Some (trim (readString record ''limits_source_url'' []))),
        mc_limitsVerifiedAt = positiveOf (readNumber record ''limits_verified_at'' NaN),
        mc_inputPrice = shownPrice structuredInput legacyInput, mc_inputPriceFrom = isFrom structuredInput,
        mc_inputPriceUnit = shownUnit structuredInput legacyUnit,
        mc_outputPrice = shownPrice structuredOutput legacyOutput, mc_outputPriceFrom = isFrom structuredOutput,
        mc_outputPriceUnit = shownUnit structuredOutput legacyUnit,
        mc_currency = (case accountPrice of Some p \<Rightarrow> Some (cs_currency p) | None \<Rightarrow> if legacyValid then Some legacyCurrency else None),
        mc_pricingAvailable = (accountPrice \<noteq> None \<or> structuredInput \<noteq> None \<or> structuredOutput \<noteq> None
          \<or> finiteOf legacyInput \<noteq> None \<or> finiteOf legacyOutput \<noteq> None),
        mc_pricingSource = readText record ''pricing_source'',
        mc_accountPriceSource = (if accountPrice = None then None else Some (js ''group'')),
        mc_accountPrice = accountPrice, mc_officialPrice = officialPrice, mc_available = available,
        mc_availabilityStatus = readText record ''availability_status'', mc_features = listedTexts (splitTags tags),
        mc_supportedEndpointTypes = filter (\<lambda>s. s \<noteq> []) (map textOf endpoints)\<rparr>)))))))))"

section \<open>The catalog\<close>

definition addVendor :: "(rat \<times> jsstring) list \<Rightarrow> jsval \<Rightarrow> (rat \<times> jsstring) list" where
  "addVendor vendors v =
     (let vendor = asRecord v; name = trim (readString vendor ''name'' []) in
      case readNumber vendor ''id'' NaN of
        Num q \<Rightarrow> if of_int \<lfloor>q\<rfloor> = q \<and> q > 0 \<and> name \<noteq> [] then AList.update q name vendors else vendors
      | _ \<Rightarrow> vendors)"

definition unpricedModel :: "jsstring \<Rightarrow> ModelCatalogItem" where
  "unpricedModel i = \<lparr>mc_id = i, mc_provider = None, mc_description = None, mc_family = UnknownModel, mc_contextWindow = None,
     mc_maxOutputTokens = None, mc_limitsSourceUrl = None, mc_limitsVerifiedAt = None, mc_inputPrice = None, mc_inputPriceFrom = False,
     mc_inputPriceUnit = None, mc_outputPrice = None, mc_outputPriceFrom = False, mc_outputPriceUnit = None, mc_currency = None,
     mc_pricingAvailable = False, mc_pricingSource = None, mc_accountPriceSource = None, mc_accountPrice = None, mc_officialPrice = None,
     mc_available = True, mc_availabilityStatus = None, mc_features = [], mc_supportedEndpointTypes = []\<rparr>"

definition mapNamedModel :: "nat \<Rightarrow> jsval \<Rightarrow> ModelCatalogItem live" where
  "mapNamedModel i v = (case v of
     JStr s \<Rightarrow> if trim s = [] then Inl (LiveDataContractError (indexed ''user.models'' i [])) else Inr (unpricedModel s)
   | _ \<Rightarrow> Inl (LiveDataContractError (indexed ''user.models'' i [])))"

definition listModelCatalog :: "(jsval \<Rightarrow> jsstring) \<Rightarrow> network \<Rightarrow> jsstring \<Rightarrow> LiveState \<Rightarrow> ModelCatalogItem list live" where
  "listModelCatalog textOf net grp st =
     (if trim grp = [] then Inl (LiveDataContractError (js ''user.group''))
      else bindE (fetched net st (listed ''/api/user/models'' [(js ''group'', grp)])) (\<lambda>modelsData.
        bindE (request net (clientToken st) (call GET ''/api/pricing'' JUndef)) (\<lambda>pricing.
        let vendors = foldl addVendor [] (readItems (get_prop (asRecord pricing) (js ''vendors''))) in
        bindE (requireItems (get_prop pricing (js ''data'')) (js ''pricing.models'')) (\<lambda>raw.
        bindE (mapE (\<lambda>_. mapCatalogModel textOf grp vendors) raw) (\<lambda>priced'.
        if priced' \<noteq> [] then Inr priced'
        else bindE (requireItems modelsData (js ''user.models'')) (mapE mapNamedModel))))))"

section \<open>Integration\<close>

record IntegrationEndpoint =
  ie_name :: jsstring
  ie_method :: Method
  ie_path :: jsstring
  ie_description :: jsstring

record IntegrationData =
  int_baseUrl :: jsstring
  int_apiVersion :: "jsstring option"
  int_region :: "jsstring option"
  int_serviceStatus :: jsstring
  int_endpoints :: "IntegrationEndpoint list"

text \<open>The address that is configured at build time, or else the origin of the page, without slashes at its end.\<close>

definition publicApiBaseUrl :: "jsstring option \<Rightarrow> jsstring \<Rightarrow> jsstring" where
  "publicApiBaseUrl baseUrl origin =
     (let base = (case textOrNone (map_option trim baseUrl) of Some s \<Rightarrow> s | None \<Rightarrow> origin) in
      rev (dropWhile (\<lambda>c. c = 47) (rev base)))"

definition integrationEndpoints :: "IntegrationEndpoint list" where
  "integrationEndpoints =
     [\<lparr>ie_name = js ''Chat Completions'', ie_method = POST, ie_path = js ''/v1/chat/completions'',
        ie_description = js ''OpenAI-compatible text and multimodal chat.''\<rparr>,
      \<lparr>ie_name = js ''Responses'', ie_method = POST, ie_path = js ''/v1/responses'',
        ie_description = js ''Unified response API with tools and structured output.''\<rparr>,
      \<lparr>ie_name = js ''Embeddings'', ie_method = POST, ie_path = js ''/v1/embeddings'',
        ie_description = js ''Create vector embeddings for search and retrieval.''\<rparr>]"

definition getIntegration :: "jsstring option \<Rightarrow> jsstring \<Rightarrow> network \<Rightarrow> LiveState \<Rightarrow> IntegrationData live" where
  "getIntegration baseUrl origin net st =
     bindE (request net (clientToken st) (public (call GET ''/api/status'' JUndef))) (\<lambda>_.
     Inr \<lparr>int_baseUrl = publicApiBaseUrl baseUrl origin @ js ''/v1'', int_apiVersion = None, int_region = None,
       int_serviceStatus = js ''reachable'', int_endpoints = integrationEndpoints\<rparr>)"

end
