(* ===== verification/LiveCatalogProofs.thy ===== *)
theory LiveCatalogProofs
  imports LiveCatalog LiveProofs LiveSessionProofs
begin

text \<open>
  Prices in the model catalog of the console: which of the offers of the server the catalog shows for a model.
\<close>

section \<open>The choice of an offer\<close>

lemma lowest_least:
  "foldl lowest c cs \<in> set (c # cs) \<and> (\<forall>x \<in> set (c # cs). snd (foldl lowest c cs) \<le> snd x)"
proof (induction cs arbitrary: c)
  case (Cons d ds)
  from Cons [of "lowest c d"] show ?case by (auto simp: lowest_def split: if_splits)
qed simp

text \<open>The offers of a summary for a component, and what it means that a price is the least of the offers for the first
  component that has any: the unit is that of the offer, and the price is a starting price when there are several.\<close>

definition offersOf :: "jsval \<Rightarrow> jsstring \<Rightarrow> (jsval \<times> rat) list" where
  "offersOf summary = priceCandidates (map asRecord (readItems (get_prop summary (js ''items''))))"

definition leastOffer :: "(jsstring \<Rightarrow> (jsval \<times> rat) list) \<Rightarrow> jsstring list \<Rightarrow> rat \<Rightarrow> bool \<Rightarrow> jsstring \<Rightarrow> bool" where
  "leastOffer offers comps amt start unit \<longleftrightarrow>
     (\<exists>i < length comps. (\<forall>j < i. offers (comps ! j) = []) \<and>
       (\<exists>item. (item, amt) \<in> set (offers (comps ! i)) \<and> trim (readString item ''unit'' []) = unit) \<and>
       (\<forall>x \<in> set (offers (comps ! i)). amt \<le> snd x) \<and> (start \<longleftrightarrow> 1 < length (offers (comps ! i))))"

lemma leastOffer_skip: "offers c = [] \<Longrightarrow> leastOffer offers comps p s u \<Longrightarrow> leastOffer offers (c # comps) p s u"
  unfolding leastOffer_def by (elim exE conjE, rule_tac x = "Suc i" in exI) (auto simp: less_Suc_eq_0_disj)

lemma leastOffer_first:
  "(item, amt) \<in> set (offers c) \<Longrightarrow> trim (readString item ''unit'' []) = unit \<Longrightarrow> \<forall>x \<in> set (offers c). amt \<le> snd x \<Longrightarrow>
   start \<longleftrightarrow> 1 < length (offers c) \<Longrightarrow> leastOffer offers (c # comps) amt start unit"
  unfolding leastOffer_def by (rule exI [of _ 0]) auto

lemma selectFrom_None: "selectFrom its comps = Inr None \<longleftrightarrow> (\<forall>c \<in> set comps. priceCandidates its c = [])"
  by (induction its comps rule: selectFrom.induct) (auto simp: Let_def bindE_Inr split: list.splits)

lemma selectFrom_Some:
  "selectFrom its comps = Inr (Some r) \<Longrightarrow> leastOffer (priceCandidates its) comps (selected_amount r) (several r) (selected_unit r)"
proof (induction its comps rule: selectFrom.induct)
  case (2 its c comps)
  show ?case
  proof (cases "priceCandidates its c")
    case Nil
    with 2 show ?thesis by (intro leastOffer_skip) auto
  next
    case (Cons d ds)
    with 2(2) lowest_least [of d ds] show ?thesis
      by (intro leastOffer_first [where item = "fst (foldl lowest d ds)"]) (auto simp: Let_def bindE_Inr requireString_def split: if_splits)
  qed
qed simp

lemmas selectCatalogPrice_None = selectFrom_None [of "map asRecord (readItems (get_prop summary (js ''items'')))" for summary,
    folded selectCatalogPrice_def offersOf_def]
lemmas selectCatalogPrice_Some = selectFrom_Some [of "map asRecord (readItems (get_prop summary (js ''items'')))" for summary,
    folded selectCatalogPrice_def offersOf_def]

section \<open>Models\<close>

text \<open>The older price fields of a record, which count only with a currency and a known unit.\<close>

definition legacyPrice :: "jsval \<Rightarrow> string \<Rightarrow> rat option" where
  "legacyPrice record key = (if readString record ''currency'' [] \<noteq> [] \<and> readString record ''price_unit'' [] \<in> {js ''token'', js ''request'', js ''second''}
     then finiteOf (readNumber record key NaN) else None)"

text \<open>A shown price follows a summary: the least offer, or the older field where no component has an offer.\<close>

definition followsOffers ::
  "jsval \<Rightarrow> jsval \<Rightarrow> string \<Rightarrow> jsstring list \<Rightarrow> rat option \<Rightarrow> bool \<Rightarrow> PriceUnit option \<Rightarrow> bool" where
  "followsOffers record summary key comps amt start unit \<longleftrightarrow>
     (if \<forall>c \<in> set comps. offersOf summary c = []
      then amt = legacyPrice record key \<and> \<not> start \<and> unit = catalogPriceUnit (readString record ''price_unit'' [])
      else \<exists>p u. amt = Some p \<and> unit = catalogPriceUnit u \<and> leastOffer (offersOf summary) comps p start u)"

lemma shown_follows:
  assumes "selectCatalogPrice summary comps = Inr r"
    and "finiteOf legacy = legacyPrice record key" "legacyUnit = readString record ''price_unit'' []"
  shows "followsOffers record summary key comps (shownPrice r legacy) (isFrom r) (shownUnit r legacyUnit)"
proof (cases r)
  case None
  with assms selectCatalogPrice_None [of summary comps] show ?thesis
    by (simp add: followsOffers_def shownPrice_def isFrom_def shownUnit_def)
next
  case (Some c)
  then have "leastOffer (offersOf summary) comps (selected_amount c) (several c) (selected_unit c)"
    using assms selectCatalogPrice_Some by blast
  moreover have "\<not> (\<forall>c \<in> set comps. offersOf summary c = [])" using Some assms selectCatalogPrice_None [of summary comps] by simp
  ultimately show ?thesis using Some by (auto simp: followsOffers_def shownPrice_def isFrom_def shownUnit_def)
qed

lemma mapCatalogModel_prices:
  assumes "mapCatalogModel textOf grp vendors v = Inr m" "mc_accountPrice m \<noteq> None"
  shows "requireString (asRecord v) ''model_name'' (js ''pricing.model_name'') = Inr (mc_id m) \<and>
    mc_currency m = map_option cs_currency (mc_accountPrice m) \<and>
    (\<exists>summary. selectCatalogPriceSummary (asRecord v) grp = Inr (Some summary) \<and>
      followsOffers (asRecord v) summary ''input_price'' catalogInputPriceComponents (mc_inputPrice m) (mc_inputPriceFrom m) (mc_inputPriceUnit m) \<and>
      followsOffers (asRecord v) summary ''output_price'' catalogOutputPriceComponents (mc_outputPrice m) (mc_outputPriceFrom m) (mc_outputPriceUnit m))"
proof -
  from assms(1) obtain i sel acc off inp out b e where parts:
      "requireString (asRecord v) ''model_name'' (js ''pricing.model_name'') = Inr i" "selectCatalogPriceSummary (asRecord v) grp = Inr sel"
      "mapCatalogPriceSummary (case sel of Some s \<Rightarrow> s | None \<Rightarrow> JNull) (modelField i ''.account_price'') = Inr acc"
      "optionalPrice (if acc = None then None else sel) catalogInputPriceComponents = Inr inp"
      "optionalPrice (if acc = None then None else sel) catalogOutputPriceComponents = Inr out"
    and m: "mc_id m = i" "mc_accountPrice m = acc" "mc_inputPriceFrom m = isFrom inp" "mc_outputPriceFrom m = isFrom out"
      "mc_inputPriceUnit m = shownUnit inp (readString (asRecord v) ''price_unit'' [])"
      "mc_outputPriceUnit m = shownUnit out (readString (asRecord v) ''price_unit'' [])"
      "mc_inputPrice m = shownPrice inp (if readString (asRecord v) ''currency'' [] \<noteq> [] \<and> readString (asRecord v) ''price_unit'' [] \<in>
         {js ''token'', js ''request'', js ''second''} then readNumber (asRecord v) ''input_price'' NaN else NaN)"
      "mc_outputPrice m = shownPrice out (if readString (asRecord v) ''currency'' [] \<noteq> [] \<and> readString (asRecord v) ''price_unit'' [] \<in>
         {js ''token'', js ''request'', js ''second''} then readNumber (asRecord v) ''output_price'' NaN else NaN)"
      "acc \<noteq> None \<Longrightarrow> mc_currency m = map_option cs_currency acc"
    unfolding mapCatalogModel_def Let_def bindE_Inr by (elim exE conjE) (fastforce split: option.splits)
  have acc: "acc \<noteq> None" using assms(2) m(2) by simp
  then obtain summary where sel: "sel = Some summary"
    using parts(3) by (cases sel) (auto simp: mapCatalogPriceSummary_def asRecord_def isEmptyRecord_def)
  have legacy: "finiteOf (if readString (asRecord v) ''currency'' [] \<noteq> [] \<and> readString (asRecord v) ''price_unit'' [] \<in>
      {js ''token'', js ''request'', js ''second''} then readNumber (asRecord v) key NaN else NaN) = legacyPrice (asRecord v) key" for key
    by (auto simp: legacyPrice_def finiteOf_def)
  show ?thesis unfolding m using parts acc m(9) shown_follows [OF _ legacy refl] by (auto simp: sel optionalPrice_def)
qed

lemma listed_model:
  assumes "listModelCatalog textOf net grp st = Inr models" "m \<in> set models" "mc_accountPrice m \<noteq> None"
  obtains pricing raw vendors where "request net (clientToken st) (call GET ''/api/pricing'' JUndef) = Inr pricing"
    "requireItems (get_prop pricing (js ''data'')) (js ''pricing.models'') = Inr raw"
    "map (mapCatalogModel textOf grp vendors) raw = map Inr models"
proof -
  have unpriced: "mapE mapNamedModel xs = Inr ks \<Longrightarrow> list_all (\<lambda>k. mc_accountPrice k = None) ks" for xs ks
    by (rule mapE_all) (auto simp: mapNamedModel_def unpricedModel_def split: jsval.splits if_splits)
  from assms(1) show ?thesis
    using assms(2,3) that unpriced unfolding listModelCatalog_def Let_def
    by (auto simp: bindE_Inr mapE_eq list_all_iff split: if_splits)
qed

text \<open>C21. The catalog shows the prices of the account: for a model with a price for the group of the account, the price of
  input and the price of output are each the least offer for the first component, in the order of preference, that has an
  offer, with the unit of that offer and marked as a starting price exactly when there are several offers.  Where no
  component has an offer the price is that of the older field of the record, although the currency shown is always that
  of the account's price.\<close>

theorem catalog_price:
  assumes "listModelCatalog textOf net grp st = Inr models" "m \<in> set models" "mc_accountPrice m \<noteq> None"
  shows "\<exists>pricing raw v summary. request net (clientToken st) (call GET ''/api/pricing'' JUndef) = Inr pricing \<and>
    requireItems (get_prop pricing (js ''data'')) (js ''pricing.models'') = Inr raw \<and> v \<in> set raw \<and>
    requireString (asRecord v) ''model_name'' (js ''pricing.model_name'') = Inr (mc_id m) \<and>
    selectCatalogPriceSummary (asRecord v) grp = Inr (Some summary) \<and>
    mc_currency m = map_option cs_currency (mc_accountPrice m) \<and>
    followsOffers (asRecord v) summary ''input_price'' catalogInputPriceComponents (mc_inputPrice m) (mc_inputPriceFrom m) (mc_inputPriceUnit m) \<and>
    followsOffers (asRecord v) summary ''output_price'' catalogOutputPriceComponents (mc_outputPrice m) (mc_outputPriceFrom m) (mc_outputPriceUnit m)"
proof -
  obtain pricing raw vendors where p: "request net (clientToken st) (call GET ''/api/pricing'' JUndef) = Inr pricing"
      "requireItems (get_prop pricing (js ''data'')) (js ''pricing.models'') = Inr raw"
    and ms: "map (mapCatalogModel textOf grp vendors) raw = map Inr models"
    using listed_model [OF assms] .
  have "Inr m \<in> set (map (mapCatalogModel textOf grp vendors) raw)" unfolding ms using assms(2) by simp
  then obtain v where v: "v \<in> set raw" "mapCatalogModel textOf grp vendors v = Inr m" by auto
  show ?thesis using p v(1) mapCatalogModel_prices [OF v(2) assms(3)] by blast
qed

definition sampleOffers :: jsval where
  "sampleOffers = JObj [(js ''currency'', JStr (js ''USD'')), (js ''billing_mode'', JStr (js ''token'')), (js ''price_structure'', JStr (js ''flat'')),
     (js ''items'', JArr [
       JObj [(js ''component'', JStr (js ''token_output'')), (js ''amount'', JNum (Num 8)), (js ''unit'', JStr (js ''token'')), (js ''unit_size'', JNum (Num 1))],
       JObj [(js ''component'', JStr (js ''token_output'')), (js ''amount'', JNum (Num 5)), (js ''unit'', JStr (js ''token'')), (js ''unit_size'', JNum (Num 1))]])]"

definition sampleModel :: jsval where
  "sampleModel = JObj [(js ''model_name'', JStr (js ''m1'')), (js ''available'', JBool True),
     (js ''sales_prices_by_group'', JObj [(js ''vip'', sampleOffers)])]"

definition sampleCatalogServer :: network where
  "sampleCatalogServer = answering 200 (JObj [(js ''success'', JBool True), (js ''data'', JArr [sampleModel])])"

lemma sample_listed:
  "\<exists>m. listModelCatalog (\<lambda>_. []) sampleCatalogServer (js ''vip'') initialLive = Inr [m] \<and> mc_accountPrice m \<noteq> None \<and> mc_outputPrice m = Some 5"
  by (simp add: listModelCatalog_def sampleCatalogServer_def answering_def fetched_def request_def fetchJson_def response_ok_def requireItems_def
      sampleModel_def sampleOffers_def mapE_def mapCatalogModel_def selectCatalogPriceSummary_def mapCatalogPriceSummary_def mapCatalogPriceItem_def
      isEmptyRecord_def optionalPrice_def selectCatalogPrice_def priceCandidates_def lowest_def readItems_def catalogInputPriceComponents_def
      catalogOutputPriceComponents_def shownPrice_def guardE_def reader_defs readNumber_def readOptionalItems_def trim_js is_ws_of_char
      cong: bindE_first)

theorem catalog_price_witness:
  "\<exists>m summary. listModelCatalog (\<lambda>_. []) sampleCatalogServer (js ''vip'') initialLive = Inr [m] \<and> mc_outputPrice m = Some 5 \<and>
     followsOffers sampleModel summary ''output_price'' catalogOutputPriceComponents (mc_outputPrice m) (mc_outputPriceFrom m) (mc_outputPriceUnit m)"
proof -
  obtain m where m: "listModelCatalog (\<lambda>_. []) sampleCatalogServer (js ''vip'') initialLive = Inr [m]" "mc_accountPrice m \<noteq> None"
    "mc_outputPrice m = Some 5" using sample_listed by blast
  from catalog_price [OF m(1) _ m(2)] m show ?thesis
    by (auto simp: sampleCatalogServer_def answering_def request_def fetchJson_def response_ok_def requireItems_def asRecord_def sampleModel_def)
qed

end
