(* ===== verification/LiveSeriesProofs.thy ===== *)
theory LiveSeriesProofs
  imports LiveOperations LiveSessionProofs
begin

text \<open>
  The series of the request-log analysis that the console shows for the points of the server.
\<close>

section \<open>The series\<close>

lemma pointsByStart_last: "map_of (pointsByStart ps) k = find (\<lambda>p. lpt_bucketStart p = k) (rev ps)"
  unfolding pointsByStart_def
  by (induction ps rule: rev_induct) (simp_all add: update_conv')

lemma quotaUnitsToUsd_Inr: "quotaUnitsToUsd q u = Inr x \<longleftrightarrow> (\<exists>r. u = Num r \<and> 0 < r \<and> x = q / r)"
  by (auto simp: quotaUnitsToUsd_def split: jsnum.splits)

lemma mapLivePoint_bounds:
  assumes "mapLivePoint n u i v = Inr p"
  shows "lpt_bucketSeconds p = of_int n" "0 \<le> lpt_succeeded p" "0 \<le> lpt_failed p" "0 \<le> lpt_tokens p" "0 \<le> lpt_cacheHitTokens p"
    "0 \<le> lpt_cost p" "\<forall>r. lpt_cacheHitRate p = Some r \<longrightarrow> 0 \<le> r \<and> r \<le> 100"
  using assms
  by (auto simp: mapLivePoint_def Let_def bindE_Inr quotaUnitsToUsd_Inr not_less split: option.splits)

definition soundPoint :: "int \<Rightarrow> LivePoint \<Rightarrow> bool" where
  "soundPoint n p \<longleftrightarrow> lpt_bucketSeconds p = of_int n \<and> 0 \<le> lpt_succeeded p \<and> 0 \<le> lpt_failed p \<and> 0 \<le> lpt_tokens p \<and> 0 \<le> lpt_cacheHitTokens p
     \<and> 0 \<le> lpt_cost p \<and> (\<forall>r. lpt_cacheHitRate p = Some r \<longrightarrow> 0 \<le> r \<and> r \<le> 100)"

lemma found: "find P xs = Some x \<Longrightarrow> P x \<and> x \<in> set xs"
  by (induction xs) (auto split: if_splits)

lemma laidOut_cases:
  assumes "p \<in> set (laidOut s e off n ps)"
  obtains b where "b \<in> set (bucketStarts (bucketOf off n s) (bucketOf off n e) n)" "lpt_bucketStart p = of_int b"
    "p = (case find (\<lambda>q. lpt_bucketStart q = of_int b) (rev ps) of Some q \<Rightarrow> q | None \<Rightarrow> emptyPoint b n)"
proof -
  obtain b where b: "b \<in> set (bucketStarts (bucketOf off n s) (bucketOf off n e) n)"
    "p = (case find (\<lambda>q. lpt_bucketStart q = of_int b) (rev ps) of Some q \<Rightarrow> q | None \<Rightarrow> emptyPoint b n)"
    using assms by (auto simp: laidOut_def pointsByStart_last)
  then have "lpt_bucketStart p = of_int b" by (auto simp: emptyPoint_def split: option.splits dest: found)
  with b show thesis by (intro that)
qed

lemma laidOut_start:
  "map lpt_bucketStart (laidOut s e off n ps) = map of_int (bucketStarts (bucketOf off n s) (bucketOf off n e) n)"
  by (auto simp: laidOut_def pointsByStart_last emptyPoint_def split: option.splits dest: found)

lemma laidOut_point:
  assumes "p \<in> set (laidOut s e off n ps)"
  shows "case find (\<lambda>q. lpt_bucketStart q = lpt_bucketStart p) (rev ps) of Some q \<Rightarrow> p = q | None \<Rightarrow> \<exists>b. p = emptyPoint b n"
  using assms by (rule laidOut_cases) (auto split: option.splits)

lemma laidOut_all:
  assumes "p \<in> set (laidOut s e off n ps)" "\<forall>q \<in> set ps. P q" "\<And>b. P (emptyPoint b n)"
  shows "P p"
  using laidOut_point [OF assms(1)] assms(2,3) by (auto split: option.splits dest: found)

lemma laidOut_tiles:
  assumes "0 < n" "s \<le> t" "t \<le> e" "\<forall>p \<in> set ps. lpt_bucketSeconds p = of_int n"
  shows "length (filter (\<lambda>p. lpt_bucketStart p \<le> of_int t \<and> of_int t < lpt_bucketStart p + lpt_bucketSeconds p) (laidOut s e off n ps)) = 1"
proof -
  let ?bs = "bucketStarts (bucketOf off n s) (bucketOf off n e) n" and ?l = "laidOut s e off n ps"
  let ?in = "\<lambda>x. x \<le> rat_of_int t \<and> of_int t < x + of_int n"
  have secs: "lpt_bucketSeconds p = of_int n" if "p \<in> set ?l" for p
    using that assms(4) by (rule laidOut_all) (simp add: emptyPoint_def)
  have "length (filter (\<lambda>p. lpt_bucketStart p \<le> of_int t \<and> of_int t < lpt_bucketStart p + lpt_bucketSeconds p) ?l) =
      length (filter (?in \<circ> lpt_bucketStart) ?l)"
    using secs by (intro arg_cong [of _ _ length] filter_cong) auto
  also have "\<dots> = length (filter ?in (map lpt_bucketStart ?l))" by (simp add: filter_map)
  also have "\<dots> = length (filter (\<lambda>b. ?in (of_int b)) ?bs)" by (simp add: laidOut_start filter_map comp_def)
  also have "filter (\<lambda>b. ?in (of_int b)) ?bs = filter (\<lambda>b. b = bucketOf off n t) ?bs"
  proof (rule filter_cong [OF refl])
    fix b assume b: "b \<in> set ?bs"
    have "?in (of_int b) \<longleftrightarrow> b \<le> t \<and> t < b + n" by linarith
    then show "?in (of_int b) \<longleftrightarrow> b = bucketOf off n t" using start_of_instant [OF assms(1) b] by simp
  qed
  also have "length (filter (\<lambda>b. b = c) bs) = 1" if "distinct bs" "c \<in> set bs" for c and bs :: "int list"
    using that by (induction bs) (auto simp: filter_empty_conv)
  note this [OF starts_distinct bucket_in_starts [OF assms(1-3)]]
  finally show ?thesis .
qed

lemma requestLogAnalytics_parts:
  assumes "requestLogAnalytics s e off n response u = Inr a"
  obtains raw ps where "requireItems (get_prop (asRecord response) (js ''series'')) (js ''request_log_analytics.series'') = Inr raw"
    "mapE (mapLivePoint n u) raw = Inr ps" "ln_series a = laidOut s e off n ps"
  using assms unfolding requestLogAnalytics_def Let_def bindE_Inr by (elim exE conjE) auto

lemma mapE_points: "mapE (mapLivePoint n u) raw = Inr ps \<Longrightarrow> \<forall>p \<in> set ps. soundPoint n p"
  using mapE_Inr [of "mapLivePoint n u" raw ps] mapLivePoint_bounds
  by (fastforce simp: list_all2_conv_all_nth soundPoint_def in_set_conv_nth)

text \<open>C20. The series that the console shows for an accepted answer covers the range without gaps or overlaps: every second
  of the range lies in exactly one of its points.  A point is the last one that the server sent for its start, or an empty
  one where the server sent none, and all its numbers are within their bounds.\<close>

theorem live_series_grid:
  assumes "requestLogAnalytics s e off n response u = Inr a" and "0 < n"
  shows "(\<forall>t. s \<le> t \<and> t \<le> e \<longrightarrow>
      length (filter (\<lambda>p. lpt_bucketStart p \<le> of_int t \<and> of_int t < lpt_bucketStart p + lpt_bucketSeconds p) (ln_series a)) = 1) \<and>
    (\<exists>raw ps. requireItems (get_prop (asRecord response) (js ''series'')) (js ''request_log_analytics.series'') = Inr raw \<and>
      mapE (mapLivePoint n u) raw = Inr ps \<and>
      (\<forall>p \<in> set (ln_series a). soundPoint n p \<and>
        (case find (\<lambda>q. lpt_bucketStart q = lpt_bucketStart p) (rev ps) of Some q \<Rightarrow> p = q | None \<Rightarrow> \<exists>b. p = emptyPoint b n)))"
proof (intro conjI)
  obtain raw ps where p: "requireItems (get_prop (asRecord response) (js ''series'')) (js ''request_log_analytics.series'') = Inr raw"
    "mapE (mapLivePoint n u) raw = Inr ps" "ln_series a = laidOut s e off n ps"
    using requestLogAnalytics_parts [OF assms(1)] .
  note sound = mapE_points [OF p(2)]
  show "\<forall>t. s \<le> t \<and> t \<le> e \<longrightarrow>
      length (filter (\<lambda>p. lpt_bucketStart p \<le> of_int t \<and> of_int t < lpt_bucketStart p + lpt_bucketSeconds p) (ln_series a)) = 1"
    unfolding p(3) using laidOut_tiles [OF assms(2)] sound by (simp add: soundPoint_def)
  have "soundPoint n q" if "q \<in> set (ln_series a)" for q
    using that [unfolded p(3)] sound by (rule laidOut_all) (simp add: soundPoint_def emptyPoint_def)
  then show "\<exists>raw ps. requireItems (get_prop (asRecord response) (js ''series'')) (js ''request_log_analytics.series'') = Inr raw \<and>
      mapE (mapLivePoint n u) raw = Inr ps \<and>
      (\<forall>p \<in> set (ln_series a). soundPoint n p \<and>
        (case find (\<lambda>q. lpt_bucketStart q = lpt_bucketStart p) (rev ps) of Some q \<Rightarrow> p = q | None \<Rightarrow> \<exists>b. p = emptyPoint b n))"
    using p(1,2) by (intro exI [of _ raw] exI [of _ ps] conjI ballI) (auto simp only: p(3) intro: laidOut_point)
qed

definition samplePoints :: jsval where
  "samplePoints = JObj [(js ''request_count'', JNum (Num 3)), (js ''failure_count'', JNum (Num 0)), (js ''total_tokens'', JNum (Num 10)),
     (js ''cache_hit_tokens'', JNum (Num 0)), (js ''quota'', JNum (Num 5)), (js ''peak_rpm'', JNum (Num 1)), (js ''peak_tpm'', JNum (Num 1)),
     (js ''failure_rate'', JNum (Num 0)), (js ''series'', JArr [JObj [(js ''day_start'', JNum (Num 600)), (js ''bucket_seconds'', JNum (Num 300)),
       (js ''request_count'', JNum (Num 3)), (js ''failure_count'', JNum (Num 0)), (js ''total_tokens'', JNum (Num 10)),
       (js ''cache_hit_tokens'', JNum (Num 0)), (js ''quota'', JNum (Num 5))]])]"

lemma sample_analytics: "\<exists>a. requestLogAnalytics 650 1000 0 300 samplePoints (Num 5) = Inr a"
  by (simp add: requestLogAnalytics_def samplePoints_def mapE_def mapLivePoint_def requireItems_def guardE_def quotaUnitsToUsd_def reader_defs cong: bindE_first)

theorem live_series_grid_witness:
  "\<exists>a. requestLogAnalytics 650 1000 0 300 samplePoints (Num 5) = Inr a \<and>
     length (filter (\<lambda>p. lpt_bucketStart p \<le> 700 \<and> 700 < lpt_bucketStart p + lpt_bucketSeconds p) (ln_series a)) = 1"
proof -
  obtain a where a: "requestLogAnalytics 650 1000 0 300 samplePoints (Num 5) = Inr a" using sample_analytics by blast
  have "length (filter (\<lambda>p. lpt_bucketStart p \<le> of_int 700 \<and> of_int 700 < lpt_bucketStart p + lpt_bucketSeconds p) (ln_series a)) = 1"
    using spec [OF conjunct1 [OF live_series_grid [OF a zero_less_numeral]], of 700] by simp
  then show ?thesis using a by auto
qed

end
