(* ===== verification/WebAuthn.thy ===== *)
theory WebAuthn
  imports LiveAuth
begin

text \<open>
  Passkeys in the console: \<open>src/frontend/apps/console/src/lib/webauthn.ts\<close>.  Binary values of the browser are lists of
  bytes; the server sends and receives them as base64url text.  \<open>btoa\<close> and \<open>atob\<close> of the browser are modelled here, the
  latter with the errors and the padding rules of its specification.
\<close>

section \<open>Base64\<close>

definition b64char :: "nat \<Rightarrow> nat" where
  "b64char n = (if n < 26 then 65 + n else if n < 52 then 71 + n else if n < 62 then n - 4 else if n = 62 then 43 else 47)"

definition b64value :: "nat \<Rightarrow> nat option" where
  "b64value c = (if 65 \<le> c \<and> c \<le> 90 then Some (c - 65) else if 97 \<le> c \<and> c \<le> 122 then Some (c - 71)
     else if 48 \<le> c \<and> c \<le> 57 then Some (c + 4) else if c = 43 then Some 62 else if c = 47 then Some 63 else None)"

fun sextets :: "nat list \<Rightarrow> nat list" where
  "sextets [] = []"
| "sextets [a] = [a div 4, a mod 4 * 16]"
| "sextets [a, b] = [a div 4, a mod 4 * 16 + b div 16, b mod 16 * 4]"
| "sextets (a # b # c # rest) = [a div 4, a mod 4 * 16 + b div 16, b mod 16 * 4 + c div 64, c mod 64] @ sextets rest"

text \<open>Bits that do not fill a byte are dropped; a single last sextet is an error.\<close>

fun bytesOf :: "nat list \<Rightarrow> nat list option" where
  "bytesOf [] = Some []"
| "bytesOf [p] = None"
| "bytesOf [p, q] = Some [p * 4 + q div 16]"
| "bytesOf [p, q, r] = Some [p * 4 + q div 16, q mod 16 * 16 + r div 4]"
| "bytesOf (p # q # r # s # rest) =
     map_option (\<lambda>bs. [p * 4 + q div 16, q mod 16 * 16 + r div 4, r mod 4 * 64 + s] @ bs) (bytesOf rest)"

definition btoa :: "nat list \<Rightarrow> jsstring" where
  "btoa bs = map b64char (sextets bs) @ replicate ((3 - length bs mod 3) mod 3) 61"

text \<open>ASCII white space is removed; a text whose length is a multiple of four may end in one or two equals signs.\<close>

definition asciiSpace :: "nat \<Rightarrow> bool" where
  "asciiSpace c \<longleftrightarrow> c = 9 \<or> c = 10 \<or> c = 12 \<or> c = 13 \<or> c = 32"

definition unpadded :: "jsstring \<Rightarrow> jsstring" where
  "unpadded s =
     (if length s mod 4 = 0
      then (case rev s of c # d # cs \<Rightarrow> if c = 61 \<and> d = 61 then rev cs else if c = 61 then rev (d # cs) else s | _ \<Rightarrow> s)
      else s)"

definition atob :: "jsstring \<Rightarrow> nat list option" where
  "atob s =
     (let t = unpadded (filter (\<lambda>c. \<not> asciiSpace c) s) in
      if list_all (\<lambda>c. b64value c \<noteq> None) t then bytesOf (map (\<lambda>c. the (b64value c)) t) else None)"

section \<open>Base64url\<close>

definition replaceUnit :: "nat \<Rightarrow> nat \<Rightarrow> jsstring \<Rightarrow> jsstring" where
  "replaceUnit a b s = map (\<lambda>c. if c = a then b else c) s"

definition base64UrlToArrayBuffer :: "jsstring \<Rightarrow> nat list live" where
  "base64UrlToArrayBuffer value =
     (let padding = replicate ((4 - length value mod 4) mod 4) 61; base64 = replaceUnit 95 47 (replaceUnit 45 43 (value @ padding)) in
      case atob base64 of Some bytes \<Rightarrow> Inr bytes | None \<Rightarrow> Inl (PlainError (js ''InvalidCharacterError'')))"

definition arrayBufferToBase64Url :: "nat list \<Rightarrow> jsstring" where
  "arrayBufferToBase64Url bytes = rev (dropWhile (\<lambda>c. c = 61) (rev (replaceUnit 47 95 (replaceUnit 43 45 (btoa bytes)))))"

section \<open>Options and credentials\<close>

text \<open>Values of prepared options: those of the server, bytes, and records and lists of them.\<close>

datatype prepared = Plain jsval | Buffer "nat list" | Group "(jsstring \<times> prepared) list" | Items "prepared list"

definition spread :: "jsval \<Rightarrow> (jsstring \<times> prepared) list" where
  "spread v = map (\<lambda>(k, x). (k, Plain x)) (case v of JObj fs \<Rightarrow> fs | JArr xs \<Rightarrow> zip (map nat_str [0..<length xs]) xs | _ \<Rightarrow> [])"

definition firstPresent :: "jsval list \<Rightarrow> jsval \<Rightarrow> jsval" where
  "firstPresent vs fallback = (case find (\<lambda>v. v \<noteq> JNull \<and> v \<noteq> JUndef) vs of Some v \<Rightarrow> v | None \<Rightarrow> fallback)"

definition publicKeyOptions :: "jsval \<Rightarrow> jsval live" where
  "publicKeyOptions v =
     (let payload = asRecord v;
          record = asRecord (firstPresent [get_prop payload (js ''publicKey''), get_prop payload (js ''PublicKey''),
            get_prop payload (js ''response''), get_prop payload (js ''Response'')] v) in
      if isString (get_prop record (js ''challenge'')) then Inr record
      else Inl (PlainError (js ''The server returned invalid Passkey options.'')))"

text \<open>\<open>String(credential.id ?? '''')\<close>: the text of a value that is not a string is an argument.\<close>

definition descriptorId :: "(jsval \<Rightarrow> jsstring) \<Rightarrow> jsval \<Rightarrow> jsstring" where
  "descriptorId textOf v = (case v of JUndef \<Rightarrow> [] | JNull \<Rightarrow> [] | JStr s \<Rightarrow> s | _ \<Rightarrow> textOf v)"

definition descriptor :: "(jsval \<Rightarrow> jsstring) \<Rightarrow> jsval \<Rightarrow> prepared live" where
  "descriptor textOf v =
     (let credential = asRecord v in
      bindE (base64UrlToArrayBuffer (descriptorId textOf (get_prop credential (js ''id'')))) (\<lambda>bytes.
      Inr (Group (AList.update (js ''id'') (Buffer bytes) (spread credential)))))"

definition withDescriptors ::
  "(jsval \<Rightarrow> jsstring) \<Rightarrow> jsval \<Rightarrow> string \<Rightarrow> (jsstring \<times> prepared) list \<Rightarrow> (jsstring \<times> prepared) list live" where
  "withDescriptors textOf options key p = (case get_prop options (js key) of
     JArr xs \<Rightarrow> bindE (mapE (\<lambda>_. descriptor textOf) xs) (\<lambda>ds. Inr (AList.update (js key) (Items ds) p))
   | _ \<Rightarrow> Inr p)"

definition prepareCredentialCreationOptions :: "(jsval \<Rightarrow> jsstring) \<Rightarrow> jsval \<Rightarrow> (jsstring \<times> prepared) list live" where
  "prepareCredentialCreationOptions textOf v =
     bindE (publicKeyOptions v) (\<lambda>options.
     let user = asRecord (get_prop options (js ''user'')) in
     if \<not> isString (get_prop user (js ''id'')) then Inl (PlainError (js ''The server returned an invalid Passkey user.''))
     else bindE (base64UrlToArrayBuffer (the_str (get_prop options (js ''challenge'')))) (\<lambda>challenge.
       bindE (base64UrlToArrayBuffer (the_str (get_prop user (js ''id'')))) (\<lambda>userId.
       bindE (withDescriptors textOf options ''excludeCredentials''
         (AList.update (js ''user'') (Group (AList.update (js ''id'') (Buffer userId) (spread user)))
           (AList.update (js ''challenge'') (Buffer challenge) (spread options)))) (\<lambda>p.
       Inr (if get_prop options (js ''attestationFormats'') = JArr [] then AList.delete (js ''attestationFormats'') p else p)))))"

definition prepareCredentialRequestOptions :: "(jsval \<Rightarrow> jsstring) \<Rightarrow> jsval \<Rightarrow> (jsstring \<times> prepared) list live" where
  "prepareCredentialRequestOptions textOf v =
     bindE (publicKeyOptions v) (\<lambda>options.
     bindE (base64UrlToArrayBuffer (the_str (get_prop options (js ''challenge'')))) (\<lambda>challenge.
     withDescriptors textOf options ''allowCredentials'' (AList.update (js ''challenge'') (Buffer challenge) (spread options))))"

text \<open>What the browser gives: of a registration the attestation, of a verification the assertion.\<close>

record PublicKeyCredential =
  cred_id :: jsstring
  cred_rawId :: "nat list"
  cred_type :: jsstring
  cred_attachment :: jsval
  cred_clientDataJSON :: "nat list"
  cred_extensions :: jsval

record AttestationCredential = PublicKeyCredential +
  att_object :: "nat list"
  att_transports :: "jsstring list option"

record AssertionCredential = PublicKeyCredential +
  asr_authenticatorData :: "nat list"
  asr_signature :: "nat list"
  asr_userHandle :: "nat list option"

definition sentBytes :: "nat list \<Rightarrow> jsval" where
  "sentBytes bs = JStr (arrayBufferToBase64Url bs)"

definition sentCredential :: "'a PublicKeyCredential_scheme \<Rightarrow> (jsstring \<times> jsval) list \<Rightarrow> jsval" where
  "sentCredential c response = JObj [(js ''id'', JStr (cred_id c)), (js ''rawId'', sentBytes (cred_rawId c)), (js ''type'', JStr (cred_type c)),
     (js ''authenticatorAttachment'', cred_attachment c), (js ''response'', JObj response), (js ''clientExtensionResults'', cred_extensions c)]"

definition buildRegistrationCredential :: "AttestationCredential \<Rightarrow> jsval" where
  "buildRegistrationCredential c = sentCredential c [(js ''attestationObject'', sentBytes (att_object c)),
     (js ''clientDataJSON'', sentBytes (cred_clientDataJSON c)),
     (js ''transports'', (case att_transports c of Some ts \<Rightarrow> JArr (map JStr ts) | None \<Rightarrow> JUndef))]"

definition buildAssertionCredential :: "AssertionCredential \<Rightarrow> jsval" where
  "buildAssertionCredential c = sentCredential c [(js ''authenticatorData'', sentBytes (asr_authenticatorData c)),
     (js ''clientDataJSON'', sentBytes (cred_clientDataJSON c)), (js ''signature'', sentBytes (asr_signature c)),
     (js ''userHandle'', (case asr_userHandle c of Some bs \<Rightarrow> sentBytes bs | None \<Rightarrow> JNull))]"

text \<open>The authenticators that the operations of the repository use, for a browser that answers prepared options.\<close>

definition assertionAuthenticator ::
  "(jsval \<Rightarrow> jsstring) \<Rightarrow> ((jsstring \<times> prepared) list \<Rightarrow> AssertionCredential option) \<Rightarrow> authenticator" where
  "assertionAuthenticator textOf get options =
     bindE (prepareCredentialRequestOptions textOf options) (\<lambda>p. Inr (map_option buildAssertionCredential (get p)))"

definition registrationAuthenticator ::
  "(jsval \<Rightarrow> jsstring) \<Rightarrow> ((jsstring \<times> prepared) list \<Rightarrow> AttestationCredential option) \<Rightarrow> authenticator" where
  "registrationAuthenticator textOf create options =
     bindE (prepareCredentialCreationOptions textOf options) (\<lambda>p. Inr (map_option buildRegistrationCredential (create p)))"

section \<open>Proofs\<close>

lemma b64_inverse: "n < 64 \<Longrightarrow> b64value (b64char n) = Some n"
  by (auto simp: b64value_def b64char_def)

lemma b64char_units: "n < 64 \<Longrightarrow> b64char n \<noteq> 61 \<and> b64char n \<noteq> 45 \<and> b64char n \<noteq> 95 \<and> \<not> asciiSpace (b64char n)"
  by (auto simp: b64char_def asciiSpace_def)

lemma sextets_bounded: "list_all (\<lambda>b. b < 256) bs \<Longrightarrow> list_all (\<lambda>n. n < 64) (sextets bs)"
  by (induction bs rule: sextets.induct) auto

lemma split_digit: "y < k \<Longrightarrow> (x * k + y) div k = x" "y < k \<Longrightarrow> (x * k + y) mod k = (y::nat)"
  by simp_all

lemma whole: "(a::nat) div k * k + a mod k = a"
  by (rule div_mult_mod_eq)

lemma small_quotients: "b < 256 \<Longrightarrow> b div 16 < (16::nat)" "c < 256 \<Longrightarrow> c div 64 < (4::nat)"
  by (simp_all add: less_mult_imp_div_less)

lemma bytesOf_sextets: "list_all (\<lambda>b. b < 256) bs \<Longrightarrow> bytesOf (sextets bs) = Some bs"
  by (induction bs rule: sextets.induct) (simp_all add: split_digit whole small_quotients)

lemma length_sextets: "length (sextets bs) = (4 * length bs + 2) div 3"
  by (induction bs rule: sextets.induct) simp_all

text \<open>The text of bytes: their sextets in the alphabet that is safe in addresses, without padding.\<close>

definition urlChar :: "nat \<Rightarrow> nat" where
  "urlChar n = (if b64char n = 43 then 45 else if b64char n = 47 then 95 else b64char n)"

lemma urlChar_back: "n < 64 \<Longrightarrow> (if (if urlChar n = 45 then 43 else urlChar n) = 95 then 47 else if urlChar n = 45 then 43 else urlChar n) = b64char n"
  using b64char_units [of n] by (auto simp: urlChar_def)

lemma urlChar_units: "n < 64 \<Longrightarrow> urlChar n \<noteq> 61"
  using b64char_units [of n] by (auto simp: urlChar_def)

lemma drop_padding: "dropWhile (\<lambda>c. c = a) (replicate k a @ ys) = dropWhile (\<lambda>c. c = a) ys"
  by (induction k) simp_all

lemma strip_padding: "(61::nat) \<notin> set xs \<Longrightarrow> rev (dropWhile (\<lambda>c. c = 61) (rev (xs @ replicate k 61))) = xs"
  by (cases "rev xs") (auto simp: drop_padding rev_eq_Cons_iff)

lemma encoded: "list_all (\<lambda>b. b < 256) bs \<Longrightarrow> arrayBufferToBase64Url bs = map urlChar (sextets bs)"
proof -
  assume b: "list_all (\<lambda>b. b < 256) bs"
  have "replaceUnit 47 95 (replaceUnit 43 45 (btoa bs)) = map urlChar (sextets bs) @ replicate ((3 - length bs mod 3) mod 3) 61"
    using b64char_units by (auto simp: btoa_def replaceUnit_def urlChar_def)
  moreover have "61 \<notin> set (map urlChar (sextets bs))"
    using sextets_bounded [OF b] urlChar_units by (auto simp: list_all_iff)
  ultimately show ?thesis unfolding arrayBufferToBase64Url_def by (metis strip_padding)
qed

lemma unpadded_padding:
  assumes "61 \<notin> set xs" and "k \<le> 2" and "(length xs + k) mod 4 = 0"
  shows "unpadded (xs @ replicate k 61) = xs"
proof -
  consider "k = 0" | "k = 1" | "k = 2" using assms(2) by linarith
  then show ?thesis
  proof cases
    case 1
    then show ?thesis using assms(1)
      by (auto simp: unpadded_def rev_eq_Cons_iff split: list.splits)
  next
    case 2
    then obtain ys y where "xs = ys @ [y]" using assms(3) by (cases xs rule: rev_cases) auto
    then show ?thesis using assms 2 by (auto simp: unpadded_def)
  next
    case 3
    then show ?thesis using assms by (simp add: unpadded_def numeral_2_eq_2)
  qed
qed

lemma padding_small: "(4 - ((4 * n + 2) div 3) mod 4) mod 4 \<le> (2::nat) \<and> ((4 * n + 2) div 3 + (4 - ((4 * n + 2) div 3) mod 4) mod 4) mod 4 = 0"
proof -
  have "4 * n + 2 = (4 * (n mod 3) + 2) + (n div 3 * 4) * 3" using div_mult_mod_eq [of n 3] by linarith
  then have l: "(4 * n + 2) div 3 = n div 3 * 4 + (4 * (n mod 3) + 2) div 3" by (simp only: div_mult_self1)
  have "n mod 3 < 3" by simp
  then consider "n mod 3 = 0" | "n mod 3 = 1" | "n mod 3 = 2" by linarith
  then show ?thesis unfolding l by cases (simp_all del: One_nat_def add_2_eq_Suc')
qed

lemma decoded:
  assumes b: "list_all (\<lambda>b. b < 256) bs"
  shows "base64UrlToArrayBuffer (map urlChar (sextets bs)) = Inr bs"
proof -
  let ?k = "(4 - length (sextets bs) mod 4) mod 4"
  have s: "\<forall>n \<in> set (sextets bs). n < 64" using sextets_bounded [OF b] by (simp add: list_all_iff)
  have r: "replaceUnit 95 47 (replaceUnit 45 43 (map urlChar (sextets bs) @ replicate ?k 61)) = map b64char (sextets bs) @ replicate ?k 61"
    using s urlChar_back by (simp add: replaceUnit_def comp_def)
  have f: "filter (\<lambda>c. \<not> asciiSpace c) (map b64char (sextets bs) @ replicate ?k 61) = map b64char (sextets bs) @ replicate ?k 61"
    using s b64char_units by (auto simp: filter_id_conv asciiSpace_def)
  have u: "unpadded (map b64char (sextets bs) @ replicate ?k 61) = map b64char (sextets bs)"
    using s b64char_units padding_small [of "length bs"] by (intro unpadded_padding) (auto simp: length_sextets)
  have a: "list_all (\<lambda>c. b64value c \<noteq> None) (map b64char (sextets bs))" "map (\<lambda>c. the (b64value c)) (map b64char (sextets bs)) = sextets bs"
    using s b64_inverse by (auto simp: list_all_iff intro: map_idI)
  have "atob (map b64char (sextets bs) @ replicate ?k 61) = Some bs"
    unfolding atob_def Let_def f u using a bytesOf_sextets [OF b] by (simp only: if_True)
  then show ?thesis by (simp only: base64UrlToArrayBuffer_def Let_def length_map r option.case)
qed

text \<open>C19. Bytes that the console writes as base64url are read back unchanged, and the text has neither padding nor
  units that need an escape in an address.\<close>

theorem base64url_roundtrip:
  assumes "list_all (\<lambda>b. b < 256) bs"
  shows "base64UrlToArrayBuffer (arrayBufferToBase64Url bs) = Inr bs
    \<and> list_all (\<lambda>c. c \<noteq> 43 \<and> c \<noteq> 47 \<and> c \<noteq> 61) (arrayBufferToBase64Url bs)"
proof
  show "base64UrlToArrayBuffer (arrayBufferToBase64Url bs) = Inr bs"
    by (simp only: encoded [OF assms] decoded [OF assms])
  show "list_all (\<lambda>c. c \<noteq> 43 \<and> c \<noteq> 47 \<and> c \<noteq> 61) (arrayBufferToBase64Url bs)"
    using sextets_bounded [OF assms] b64char_units unfolding encoded [OF assms] by (auto simp: list_all_iff urlChar_def)
qed

theorem base64url_roundtrip_witness: "base64UrlToArrayBuffer (arrayBufferToBase64Url [255, 254, 0, 17]) = Inr [255, 254, 0, 17]"
  by (rule conjunct1 [OF base64url_roundtrip]) simp

end
