(* ===== verification/Spec2Isabelle.thy ===== *)
theory Spec2Isabelle
  imports HttpStatusRules AdvancedCustom FlowViews FlowSankey AuthProofs PlaygroundProofs ChatProofs RequestRuleProofs HttpProofs
    ListSearchProofs DemoProofs LiveProofs LiveBillingProofs LiveCatalogProofs LiveSeriesProofs WebAuthn
begin

text \<open>
  A verification library for the TypeScript front ends of the gateway, a service that relays requests for AI models
  to upstream channels, meters them and bills them.  The repository holds a Go server, the web application under
  \<open>src/web\<close>, and a workspace of newer front ends under \<open>src/frontend\<close> (console, administration, public site).
  The library models parts of the front ends that carry logic of their own: parsers and validators of what an
  administrator enters, the aggregation behind the dashboard, the login session with the HTTP client on top of it,
  the chat of the playground with its streams and its storage, and the data layers of the console: the search
  parameters and dates of its lists, a repository of demonstration data, and the live repository that talks to the
  server.

  \<^bold>\<open>How programs are modelled.\<close>  A pure function is a HOL function with the name of the source.  Stateful modules
  become a record of their state that every operation returns updated.  Code that awaits is cut at its awaits: the
  part before and the part after are functions, and what happens in between is an argument, an interleaving given
  by a list of events, or a step relation.  An exception is the left of a sum, a missing value \<open>None\<close>.  Strings are
  lists of UTF-16 code units.  Packages, browser services, translation, random identifiers and clocks are
  arguments.  Numbers are integers or rationals: the sums, comparisons and ratios here are exact on them, and
  rounding of binary fractions is not modelled.  Record fields and constructors carry a prefix where the name of
  the source is taken.

  \<^bold>\<open>Theories, the code they model, and what is shown.\<close>

  \<^descr>[\<open>JsPrelude\<close>, \<open>JsValue\<close>, \<open>JsonText\<close>, \<open>KeyedFold\<close>] the language: strings, trimming, splitting, stable sorting (the locale
    \<open>js_comparator\<close> is the contract of a comparator), decimal numbers, dynamically typed values, strings as JSON text,
    and folds that collect entries under keys.

  \<^descr>[\<open>HttpStatusRules\<close>] \<open>src/web/src/lib/http-status-code-rules.ts\<close>: the rule lists of status codes.  Accepted rules cover
    exactly the codes they name; the normal form is canonical and stable under parsing; refusal reports every bad token.

  \<^descr>[\<open>AdvancedCustom\<close>] \<open>src/web/src/features/channels/lib/advanced-custom.ts\<close>: routes of a custom channel.  The validator
    that returns at the first error decides a declarative specification and reports the first offending route; the
    templates and the defaults of every converter pass it.

  \<^descr>[\<open>FlowModel\<close>, \<open>FlowProofs\<close>, \<open>FlowViews\<close>, \<open>FlowSankey\<close>] \<open>src/web/src/features/dashboard/lib/flow.ts\<close>: usage rows to a graph of
    stages.  Every stage carries the total of the rows behind the graph, nodes are balanced, shares are parts of the
    total, limits bound the width of a stage, filters, masking and highlighting do exactly what they say.

  \<^descr>[\<open>AuthSession\<close>, \<open>AuthProofs\<close>] \<open>src/web/src/lib/auth-session.ts\<close>, \<open>auth-session-sync.ts\<close>, \<open>stores/auth-store.ts\<close>: the login session,
    its refresh with retries, single flight and events between tabs.  The runner is verified in the locale
    \<open>refresh_runtime\<close> for every runtime that counts epochs and interpreted on that of the page.  Eight exchanges are
    enough for a refresh to end (four attempts after a race, twice), so lists of that length serve as fuel.
    Invariants are proved over a step relation that interleaves a refresh with everything else.

  \<^descr>[\<open>HttpClient\<close>, \<open>HttpProofs\<close>] \<open>src/web/src/lib/http-client.ts\<close>, \<open>server-error-message.ts\<close>: both interceptors on top of the login
    session.  A call sends at most two requests, the second with the token of the refresh; a second refusal signs the
    tab out; equal reads share a request.

  \<^descr>[\<open>PlaygroundMessages\<close>, \<open>PlaygroundStorage\<close>, \<open>PlaygroundProofs\<close>] \<open>src/web/src/features/playground/lib\<close>: messages, think tags, streamed
    chunks, conversation edits, request payload, and the browser storage.  Every operation keeps the shape of a
    conversation; think tags can be read back; loading repairs what was stored.

  \<^descr>[\<open>StreamRequest\<close>, \<open>StreamProofs\<close>] \<open>hooks/use-stream-request.ts\<close>: the controller of streams as an automaton of requests,
    listeners and sources.  The locale \<open>latest_wins\<close> states that a superseded request is told nothing more; the
    controller is its interpretation, and no source is leaked.

  \<^descr>[\<open>ChatHandler\<close>, \<open>ChatProofs\<close>] \<open>hooks/use-chat-handler.ts\<close> and the conversation hook: the handlers of the chat over one
    state, driving the controller, with the queue of pending state updates.  A streamed answer is delivered complete
    under every interleaving with timers and rendering; after stopping nothing changes any more.

  \<^descr>[\<open>RequestRules\<close>, \<open>RequestRuleProofs\<close>] \<open>src/web/src/features/pricing/lib/billing-expr.ts\<close>, from the request rules on: conditions
    are written to a text and read back.  The theorems say which rules survive the way there and back, and that a
    base expression and readable rules are separated again.

  \<^descr>[\<open>CivilTime\<close>, \<open>JsNumber\<close>, \<open>ConsoleDates\<close>, \<open>ConsoleDateProofs\<close>] \<open>src/frontend/apps/console/src/lib/date-range.ts\<close> and \<open>time-zone.ts\<close>: the
    calendar, numbers read from text, ranges of dates and local times in a zone.  A date and time entered in a zone
    without a change nearby is shown as it was entered.  What the browser knows about zones is an argument.

  \<^descr>[\<open>ListSearch\<close>, \<open>ListSearchProofs\<close>] \<open>src/frontend/apps/console/src/lib/list-search.ts\<close>: the parameters of lists in the address
    of a page.  Whatever the address holds, the parsers only let valid values through; a range of dates that is
    written to the address is read back.

  \<^descr>[\<open>DemoTypes\<close>, \<open>DemoData\<close>, \<open>DemoRepository\<close>, \<open>DemoAnalytics\<close>, \<open>DemoProofs\<close>] \<open>src/frontend/apps/console/src/data/demo-repository.ts\<close>: the
    repository of demonstration data as a state with one function for each method.  An invariant holds in every
    reachable state; identifiers of keys are not reused; the pages of a list are together the list (the locale
    \<open>creation_list\<close> is the contract of a list that is shown by pages); the series of the request-log analysis adds up
    to its totals.

  \<^descr>[\<open>ApiClient\<close>] \<open>src/frontend/packages/api-client/src/index.ts\<close>: a request as one call of \<open>fetch\<close>, with its headers and its
    errors.  The network is an argument, a function from calls to answers.

  \<^descr>[\<open>LiveContract\<close>, \<open>LiveMappers\<close>, \<open>LiveRecords\<close>, \<open>LiveBilling\<close>, \<open>LiveRecharge\<close>, \<open>LiveRequestLog\<close>, \<open>LiveAnalytics\<close>]
    \<open>src/frontend/apps/console/src/data/live-contract.ts\<close> and the mappers of \<open>live-repository.ts\<close>: from the unchecked
    values that the server sends to the records of the console, with an error that names the offending field.

  \<^descr>[\<open>LiveSession\<close>, \<open>LiveAuth\<close>, \<open>LiveSessionProofs\<close>] \<open>live-repository-runtime.ts\<close>, \<open>live-session-mappers.ts\<close>, \<open>live-session-repository.ts\<close>,
    \<open>live-auth-repository.ts\<close> and the account methods of \<open>live-repository.ts\<close>: the session of the console as a state
    machine.  The locale \<open>session_operation\<close> is the contract of an operation on the session, with an interpretation for
    every such operation; the client then always sends the token of the current session and no other.

  \<^descr>[\<open>LiveRepository\<close>, \<open>LiveOperations\<close>, \<open>LiveCatalog\<close>] the methods of \<open>live-repository.ts\<close> and \<open>lib/payment-checkout.ts\<close>: which request each method
    sends, with its parameters and its body, and what it makes of the answer.

  \<^descr>[\<open>LiveProofs\<close>, \<open>LiveKeyProofs\<close>, \<open>LiveBillingProofs\<close>, \<open>LiveCatalogProofs\<close>, \<open>LiveSeriesProofs\<close>] pages are decoded completely or
    refused (the locale \<open>entry_decoder\<close>); keys and preferences that the handlers of the server accept are read back;
    a record shows no more of a key than its ends;
    accepted configurations of recharging are sound; the price shown is the least of the preferred offers; the
    playground shows only media from addresses of an allowed form; a payment that was started is found and confirmed on return; the
    series of the analysis covers its range.

  \<^descr>[\<open>AccountServer\<close>] the handlers of the Go server behind two forms of the console: \<open>UpdateToken\<close> in \<open>src/controller/token.go\<close>
    with what it uses of \<open>src/model/token.go\<close>, and \<open>GetUserSetting\<close> and \<open>UpdateUserSetting\<close> in \<open>src/controller/user.go\<close>.  They
    decode the body that the console sends, check it, change a token or the settings, and build the answer; the round
    trips of keys and preferences go through them.

  \<^descr>[\<open>WebAuthn\<close>] \<open>src/frontend/apps/console/src/lib/webauthn.ts\<close>: bytes as base64url text and back, options for the authenticator
    and credentials for the server.

  \<^bold>\<open>Not modelled.\<close>  The Go server apart from these handlers, components that render (tsx), styles, translations, generated route trees, build
  scripts and the desktop shell; modules that only forward to an API.  Within modelled files: JSON text of the
  advanced routes and their statistics, the literal of chart settings, the tier parser of billing expressions
  (nested regular expressions with lazy repetition), saving with a delay in the playground, the constants and
  synthetic figures of the demonstration repository.  Requests that the live repository sends at once are answered in the order of the code.
\<close>

end
